(* ===== verification/Prelude.thy ===== *)
theory Prelude
  imports Main "HOL-Library.Word" "HOL-Library.AList" "HOL-Library.Sublist"
begin

text \<open>
  The shared part of the development: the strings, arrays and numbers of ECMAScript as far as
  the console's sources use them, and the list lemmas the component theories share.

  A string is a list of 16-bit code units, as in the language; \<open>js\<close> turns a HOL string literal
  into one. The operations are those of \<^verbatim>\<open>String.prototype\<close>: \<^verbatim>\<open>trim\<close>, \<^verbatim>\<open>trimStart\<close>,
  \<^verbatim>\<open>trimEnd\<close>, \<^verbatim>\<open>startsWith\<close>, \<^verbatim>\<open>endsWith\<close>, \<^verbatim>\<open>slice\<close>, \<^verbatim>\<open>split\<close> and \<^verbatim>\<open>indexOf\<close> (every separator in
  the sources is one code unit long), and \<^verbatim>\<open>Array.prototype.join\<close>. A string is falsy exactly when
  it is empty. A \<^verbatim>\<open>Map\<close> keeps its insertion order, so it is an association list updated with
  \<^const>\<open>AList.update\<close>, which replaces a present key in place and appends a new one.
\<close>

section \<open>Collections of facts\<close>

named_theorems js_eval \<open>evaluation of the ECMAScript string primitives\<close>
named_theorems line_simps \<open>the behaviour of the line scanners on indented lines\<close>

section \<open>Strings\<close>

type_synonym cu = "16 word"
type_synonym str = "cu list"

definition js :: "string \<Rightarrow> str" where
  "js s = map of_char s"

definition isWhite :: "cu \<Rightarrow> bool" where
  "isWhite c \<longleftrightarrow>
     c = 0x20 \<or> (0x09 \<le> c \<and> c \<le> 0x0D) \<or> c = 0xA0 \<or> c = 0x1680 \<or>
     (0x2000 \<le> c \<and> c \<le> 0x200A) \<or> c = 0x2028 \<or> c = 0x2029 \<or> c = 0x202F \<or>
     c = 0x205F \<or> c = 0x3000 \<or> c = 0xFEFF"

definition trimStart :: "str \<Rightarrow> str" where
  "trimStart s = dropWhile isWhite s"

definition trimEnd :: "str \<Rightarrow> str" where
  "trimEnd s = rev (dropWhile isWhite (rev s))"

definition trim :: "str \<Rightarrow> str" where
  "trim s = trimEnd (trimStart s)"

definition startsWith :: "str \<Rightarrow> str \<Rightarrow> bool" where
  "startsWith s p \<longleftrightarrow> take (length p) s = p"

definition endsWith :: "str \<Rightarrow> str \<Rightarrow> bool" where
  "endsWith s p \<longleftrightarrow> length p \<le> length s \<and> drop (length s - length p) s = p"

text \<open>\<^verbatim>\<open>s.slice(from, to)\<close>: a negative bound counts from the end, both are clamped.\<close>

definition sliceBound :: "nat \<Rightarrow> int \<Rightarrow> nat" where
  "sliceBound n i = (if i < 0 then nat (max (int n + i) 0) else min (nat i) n)"

definition strSlice :: "str \<Rightarrow> int \<Rightarrow> int \<Rightarrow> str" where
  "strSlice s from to =
     (let a = sliceBound (length s) from; b = sliceBound (length s) to in take (b - a) (drop a s))"

definition sliceFrom :: "str \<Rightarrow> nat \<Rightarrow> str" where
  "sliceFrom s n = drop n s"

fun split :: "cu \<Rightarrow> str \<Rightarrow> str list" where
  "split c [] = [[]]"
| "split c (x # xs) =
     (if x = c then [] # split c xs
      else case split c xs of [] \<Rightarrow> [[x]] | p # ps \<Rightarrow> (x # p) # ps)"

fun join :: "str \<Rightarrow> str list \<Rightarrow> str" where
  "join sep [] = []"
| "join sep [p] = p"
| "join sep (p # q # ps) = p @ sep @ join sep (q # ps)"

text \<open>\<^verbatim>\<open>s.indexOf(c)\<close>, with \<open>None\<close> for the source's \<open>-1\<close>.\<close>

fun indexOf :: "cu \<Rightarrow> str \<Rightarrow> nat option" where
  "indexOf c [] = None"
| "indexOf c (x # xs) = (if x = c then Some 0 else map_option Suc (indexOf c xs))"

definition includesCu :: "str \<Rightarrow> cu \<Rightarrow> bool" where
  "includesCu s c \<longleftrightarrow> c \<in> set s"

abbreviation truthy :: "str \<Rightarrow> bool" where
  "truthy s \<equiv> s \<noteq> []"

abbreviation NL :: cu where "NL \<equiv> 0x0A"
abbreviation SPACE :: cu where "SPACE \<equiv> 0x20"
abbreviation COLON :: cu where "COLON \<equiv> 0x3A"
abbreviation COMMA :: cu where "COMMA \<equiv> 0x2C"
abbreviation HASH :: cu where "HASH \<equiv> 0x23"
abbreviation SLASH :: cu where "SLASH \<equiv> 0x2F"

text \<open>\<^verbatim>\<open>String(n)\<close> for a non-negative integer: its decimal digits.\<close>

fun showNat :: "nat \<Rightarrow> str" where
  "showNat n = (if n < 10 then [of_nat (0x30 + n)] else showNat (n div 10) @ [of_nat (0x30 + n mod 10)])"

declare showNat.simps [simp del]

text \<open>The distinct elements in order of first occurrence: \<^verbatim>\<open>[...new Set(xs)]\<close>.\<close>

fun nubFirst :: "'a list \<Rightarrow> 'a list" where
  "nubFirst [] = []"
| "nubFirst (x # xs) = x # nubFirst (filter (\<lambda>y. y \<noteq> x) xs)"

text \<open>\<^verbatim>\<open>xs.find(p)\<close>, with \<open>None\<close> for \<^verbatim>\<open>undefined\<close>, is \<^const>\<open>List.find\<close>.\<close>

section \<open>Lemmas on strings\<close>

lemma js_Nil [js_eval]: "js [] = []"
  by (simp add: js_def)

lemma length_js [simp]: "length (js s) = length s"
  by (simp add: js_def)

lemma trimStart_Nil [simp]: "trimStart [] = []"
  by (simp add: trimStart_def)

lemma trimStart_Cons: "trimStart (c # s) = (if isWhite c then trimStart s else c # s)"
  by (simp add: trimStart_def)

lemma trimEnd_snoc: "trimEnd (s @ [c]) = (if isWhite c then trimEnd s else s @ [c])"
  by (simp add: trimEnd_def)

lemma trimEnd_Nil [simp]: "trimEnd [] = []"
  by (simp add: trimEnd_def)

lemma trim_Nil [simp]: "trim [] = []"
  by (simp add: trim_def)

lemma trimEnd_id: "s = [] \<or> \<not> isWhite (last s) \<Longrightarrow> trimEnd s = s"
  by (cases s rule: rev_cases) (auto simp: trimEnd_snoc)

lemma trimStart_id: "s = [] \<or> \<not> isWhite (hd s) \<Longrightarrow> trimStart s = s"
  by (cases s) (auto simp: trimStart_Cons)

lemma trimStart_hd: "trimStart s \<noteq> [] \<Longrightarrow> \<not> isWhite (hd (trimStart s))"
  by (induction s) (auto simp: trimStart_Cons)

lemma trimEnd_last: "trimEnd s \<noteq> [] \<Longrightarrow> \<not> isWhite (last (trimEnd s))"
  by (induction s rule: rev_induct) (auto simp: trimEnd_snoc)

lemma trimEnd_prefix: "\<exists>w. s = trimEnd s @ w \<and> list_all isWhite w"
proof (induction s rule: rev_induct)
  case (snoc c s)
  then obtain w where "s = trimEnd s @ w" "list_all isWhite w" by blast
  then have "isWhite c \<Longrightarrow> \<exists>w. s @ [c] = trimEnd s @ w \<and> list_all isWhite w"
    by (intro exI [of _ "w @ [c]"]) (metis append_assoc list_all_append list.pred_inject)
  then show ?case by (simp add: trimEnd_snoc)
qed simp

lemma trimStart_suffix: "\<exists>w. s = w @ trimStart s \<and> list_all isWhite w"
proof (induction s)
  case (Cons c s)
  then show ?case by (auto simp: trimStart_Cons intro: exI [of _ "[]"] exI [of _ "c # _"])
qed simp

lemma trimEnd_hd: "trimEnd s \<noteq> [] \<Longrightarrow> hd (trimEnd s) = hd s"
  by (metis hd_append2 trimEnd_prefix)

lemma trim_hd: "trim s \<noteq> [] \<Longrightarrow> \<not> isWhite (hd (trim s))"
  by (metis trimEnd_Nil trimEnd_hd trimStart_hd trim_def)

lemma trim_last: "trim s \<noteq> [] \<Longrightarrow> \<not> isWhite (last (trim s))"
  by (simp add: trim_def trimEnd_last)

lemma trim_id: "s = [] \<or> \<not> isWhite (hd s) \<and> \<not> isWhite (last s) \<Longrightarrow> trim s = s"
  by (auto simp: trim_def trimStart_id trimEnd_id)

lemma trim_idem [simp]: "trim (trim s) = trim s"
  by (metis trim_id trim_hd trim_last)

lemma set_trimStart: "set (trimStart s) \<subseteq> set s"
  by (auto simp: trimStart_def dest: set_dropWhileD)

lemma set_trimEnd: "set (trimEnd s) \<subseteq> set s"
  by (auto simp: trimEnd_def dest: set_dropWhileD)

lemma set_trim: "set (trim s) \<subseteq> set s"
  unfolding trim_def using set_trimEnd set_trimStart by blast

lemma trimStart_white_append: "list_all isWhite w \<Longrightarrow> trimStart (w @ s) = trimStart s"
  by (induction w) (auto simp: trimStart_Cons)

lemma endsWith_one: "endsWith s [c] \<longleftrightarrow> s \<noteq> [] \<and> last s = c"
  by (cases s rule: rev_cases) (auto simp: endsWith_def)

lemma startsWith_one: "startsWith s [c] \<longleftrightarrow> s \<noteq> [] \<and> hd s = c"
  by (cases s) (auto simp: startsWith_def)

lemma slice_0_m1 [simp]: "strSlice s 0 (-1) = butlast s"
  by (cases s rule: rev_cases) (auto simp: strSlice_def sliceBound_def)

lemma slice_1_m1 [simp]: "strSlice s 1 (-1) = tl (butlast s)"
  by (cases s rule: rev_cases)
    (auto simp: strSlice_def sliceBound_def drop_Suc Let_def take_Suc tl_append tl_take butlast_conv_take
       split: list.splits)

lemma slice_2_m1 [simp]: "strSlice s 2 (-1) = drop 2 (butlast s)"
  by (cases s rule: rev_cases) (auto simp: strSlice_def sliceBound_def min_def nat_add_distrib)

lemma split_not_Nil [simp]: "split c s \<noteq> []"
  by (induction s) (auto split: list.splits)

lemma split_none: "c \<notin> set s \<Longrightarrow> split c s = [s]"
  by (induction s) auto

lemma split_append: "c \<notin> set p \<Longrightarrow> split c (p @ c # s) = p # split c s"
  by (induction p) auto

lemma split_parts: "p \<in> set (split c s) \<Longrightarrow> c \<notin> set p"
proof (induction s arbitrary: p)
  case (Cons x xs)
  then show ?case by (cases "split c xs") (auto split: if_splits)
qed simp

lemma split_join: "ps \<noteq> [] \<Longrightarrow> \<forall>p \<in> set ps. c \<notin> set p \<Longrightarrow> split c (join [c] ps) = ps"
  by (induction "[c]" ps rule: join.induct) (auto simp: split_none split_append)

lemma join_Cons_Cons: "join sep ((x # p) # ps) = x # join sep (p # ps)"
  by (cases ps) auto

lemma join_split: "join [c] (split c s) = s"
proof (induction s)
  case (Cons x xs)
  then show ?case by (cases "split c xs") (auto simp: join_Cons_Cons)
qed simp

lemma set_nubFirst [simp]: "set (nubFirst xs) = set xs"
  by (induction xs rule: nubFirst.induct) auto

lemma distinct_nubFirst [simp]: "distinct (nubFirst xs)"
  by (induction xs rule: nubFirst.induct) auto

lemma indexOf_None: "indexOf c s = None \<longleftrightarrow> c \<notin> set s"
  by (induction s) auto

lemma indexOf_append: "c \<notin> set p \<Longrightarrow> indexOf c (p @ c # s) = Some (length p)"
  by (induction p) auto

lemma set_join: "set (join sep ps) \<subseteq> set sep \<union> (\<Union>p \<in> set ps. set p)"
  by (induction sep ps rule: join.induct) auto

section \<open>Literals\<close>

lemma unat_of_char: "unat (of_char c :: cu) = (of_char c :: nat)"
proof -
  have "(of_char c :: nat) < 256" by (metis nat_of_char_less_256)
  then have "(of_char c :: nat) mod 65536 = of_char c" by (intro mod_less) linarith
  moreover have "(of_char c :: cu) = of_nat (of_char c)" by (simp add: of_nat_of_char)
  ultimately show ?thesis by (simp add: unat_of_nat del: of_nat_of_char)
qed

text \<open>Literals are equal when their texts are: comparisons of literals need no words.\<close>

lemma js_inj: "js a = js b \<longleftrightarrow> a = b"
proof -
  have "inj (of_char :: char \<Rightarrow> cu)" by (rule injI) (metis unat_of_char of_char_eq_iff)
  then show ?thesis by (simp add: js_def inj_map_eq_map)
qed

section \<open>Finding by name\<close>

lemma find_map: "find P (map f xs) = map_option f (find (\<lambda>x. P (f x)) xs)"
  by (induction xs) auto

lemma find_Some_D: "find P xs = Some x \<Longrightarrow> x \<in> set xs \<and> P x"
  by (induction xs) (auto split: if_splits)

lemma find_name: "x \<in> f ` set xs \<Longrightarrow> \<exists>t. find (\<lambda>t. f t = x) xs = Some t"
  by (induction xs) auto

end
