(* ===== verification/Json_Value.thy ===== *)
theory Json_Value
  imports Prelude
begin

text \<open>
  JSON values and ECMAScript objects. An object is the list of its own properties in the order
  \<^verbatim>\<open>Object.entries\<close> gives them: the array indices first, ascending, then the other keys in the order
  they were added. \<open>objSet\<close> is the assignment \<^verbatim>\<open>o[k] = v\<close> on an object literal; the key
  \<^verbatim>\<open>__proto__\<close> reaches the accessor of \<^verbatim>\<open>Object.prototype\<close> and adds no own property. A number is the
  64 bits of a double; only its textual form matters to the console, and the two conversions are
  parameters of the theories that use them.
\<close>

type_synonym jsnum = "64 word"

datatype json = JNull | JBool bool | JNum jsnum | JStr str | JArr "json list" | JObj "(str \<times> json) list"

type_synonym jsobject = "(str \<times> json) list"

definition isDigit :: "cu \<Rightarrow> bool" where
  "isDigit c \<longleftrightarrow> 0x30 \<le> c \<and> c \<le> 0x39"

definition digitsVal :: "str \<Rightarrow> nat" where
  "digitsVal s = fold (\<lambda>c n. 10 * n + (unat c - 48)) s 0"

text \<open>The array index a property key denotes: a canonical numeral below $2^{32} - 1$.\<close>

definition arrayIndex :: "str \<Rightarrow> nat option" where
  "arrayIndex k =
     (if k \<noteq> [] \<and> list_all isDigit k \<and> (hd k = 0x30 \<longrightarrow> k = [0x30]) \<and> digitsVal k < 2 ^ 32 - 1
      then Some (digitsVal k) else None)"

fun insertIndex :: "nat \<Rightarrow> str \<times> 'a \<Rightarrow> (str \<times> 'a) list \<Rightarrow> (str \<times> 'a) list" where
  "insertIndex i e [] = [e]"
| "insertIndex i e (p # ps) =
     (case arrayIndex (fst p) of
        Some j \<Rightarrow> if i < j then e # p # ps else p # insertIndex i e ps
      | None \<Rightarrow> e # p # ps)"

definition addProp :: "str \<Rightarrow> 'a \<Rightarrow> (str \<times> 'a) list \<Rightarrow> (str \<times> 'a) list" where
  "addProp k v obj =
     (if k \<in> fst ` set obj then AList.update k v obj
      else case arrayIndex k of Some i \<Rightarrow> insertIndex i (k, v) obj | None \<Rightarrow> obj @ [(k, v)])"

definition PROTO :: str where "PROTO = js ''__proto__''"

definition objSet :: "str \<Rightarrow> 'a \<Rightarrow> (str \<times> 'a) list \<Rightarrow> (str \<times> 'a) list" where
  "objSet k v obj = (if k = PROTO then obj else addProp k v obj)"

text \<open>The object a list of key-value pairs builds, one assignment after the other.\<close>

definition objOf :: "(str \<times> 'a) list \<Rightarrow> (str \<times> 'a) list" where
  "objOf kvs = fold (\<lambda>(k, v). objSet k v) kvs []"

text \<open>
  The truth of a JSON value; \<open>isZeroNum\<close> says which numbers are zeros. \<^verbatim>\<open>NaN\<close> is not a JSON value.
\<close>

definition isZeroNum :: "jsnum \<Rightarrow> bool" where
  "isZeroNum x \<longleftrightarrow> x = 0 \<or> x = 0x8000000000000000"

fun jsonTruthy :: "json \<Rightarrow> bool" where
  "jsonTruthy JNull = False"
| "jsonTruthy (JBool b) = b"
| "jsonTruthy (JNum x) = (\<not> isZeroNum x)"
| "jsonTruthy (JStr s) = truthy s"
| "jsonTruthy (JArr _) = True"
| "jsonTruthy (JObj _) = True"

section \<open>Lookup after assignment\<close>

lemma map_of_insertIndex:
  "k \<notin> fst ` set obj \<Longrightarrow> map_of (insertIndex i (k, v) obj) = (map_of obj)(k \<mapsto> v)"
  by (induction obj) (auto simp: fun_eq_iff split: option.splits)

lemma map_of_snoc: "k \<notin> fst ` set obj \<Longrightarrow> map_of (obj @ [(k, v)]) = (map_of obj)(k \<mapsto> v)"
  by (induction obj) (auto simp: fun_eq_iff)

lemma map_of_addProp: "map_of (addProp k v obj) = (map_of obj)(k \<mapsto> v)"
  by (simp add: addProp_def update_conv' map_of_insertIndex map_of_snoc del: map_of_append split: option.splits)

lemma map_of_objSet: "map_of (objSet k v obj) = (if k = PROTO then map_of obj else (map_of obj)(k \<mapsto> v))"
  by (simp add: objSet_def map_of_addProp)

lemma set_insertIndex: "set (insertIndex i e obj) = insert e (set obj)"
  by (induction obj) (auto split: option.splits)

lemma distinct_insertIndex:
  "distinct (map fst obj) \<Longrightarrow> fst e \<notin> fst ` set obj \<Longrightarrow> distinct (map fst (insertIndex i e obj))"
  by (induction obj) (auto simp: set_insertIndex split: option.splits)

lemma distinct_addProp: "distinct (map fst obj) \<Longrightarrow> distinct (map fst (addProp k v obj))"
  by (auto simp: addProp_def distinct_update distinct_insertIndex split: option.splits)

lemma distinct_objSet: "distinct (map fst obj) \<Longrightarrow> distinct (map fst (objSet k v obj))"
  by (simp add: objSet_def distinct_addProp)

lemma distinct_fold_objSet:
  "distinct (map fst obj) \<Longrightarrow> distinct (map fst (fold (\<lambda>(k, v). objSet k v) kvs obj))"
  by (induction kvs arbitrary: obj) (auto simp: distinct_objSet)

lemma map_of_fold_objSet:
  "map_of (fold (\<lambda>(k, v). objSet k v) kvs obj) k =
     (if k = PROTO then map_of obj k
      else case map_of (rev kvs) k of Some v \<Rightarrow> Some v | None \<Rightarrow> map_of obj k)"
proof (induction kvs arbitrary: obj)
  case (Cons e kvs)
  then show ?case by (cases e) (auto simp: map_of_objSet map_add_def split: option.splits)
qed simp

lemma map_of_objOf: "map_of (objOf kvs) k = (if k = PROTO then None else map_of (rev kvs) k)"
  by (auto simp: objOf_def map_of_fold_objSet split: option.splits)

lemma distinct_objOf: "distinct (map fst (objOf kvs))"
  by (simp add: objOf_def distinct_fold_objSet)

section \<open>Decimal numbers\<close>

lemma digit_word:
  assumes "k < 10"
  shows "isDigit (of_nat (0x30 + k))" "unat (of_nat (0x30 + k) :: cu) = 0x30 + k"
proof -
  show u: "unat (of_nat (0x30 + k) :: cu) = 0x30 + k" unfolding unat_of_nat using assms by simp
  show "isDigit (of_nat (0x30 + k))" unfolding isDigit_def word_le_nat_alt u using assms by simp
qed

lemma digitsVal_snoc: "digitsVal (xs @ [c]) = 10 * digitsVal xs + (unat c - 48)"
  by (simp add: digitsVal_def)

lemma showNat_digits: "showNat n \<noteq> [] \<and> list_all isDigit (showNat n) \<and> digitsVal (showNat n) = n"
proof (induction n rule: showNat.induct)
  case (1 n)
  show ?case
  proof (cases "n < 10")
    case True
    then have e: "showNat n = [] @ [of_nat (0x30 + n)]" by (subst showNat.simps) simp
    show ?thesis unfolding e digitsVal_snoc using digit_word [OF True] by (simp add: digitsVal_def del: of_nat_add)
  next
    case False
    then have e: "showNat n = showNat (n div 10) @ [of_nat (0x30 + n mod 10)]" by (subst showNat.simps) simp
    have "n mod 10 < 10" by simp
    from digit_word [OF this] False 1 show ?thesis unfolding e digitsVal_snoc by (simp del: of_nat_add)
  qed
qed

lemma showNat_inj: "showNat m = showNat n \<longleftrightarrow> m = n"
  by (metis showNat_digits)

end
