(* ===== verification/Server_Model.thy ===== *)
theory Server_Model
  imports Json_Value "HOL-Library.List_Lexorder"
begin

text \<open>
  The data of the server: \<^verbatim>\<open>pkg/model\<close>, the errors of \<^verbatim>\<open>pkg/storage/interface.go\<close> and \<^verbatim>\<open>pkg/tenant\<close>, and
  what the server uses of Go's string functions. A Go string is a text (\<open>str\<close>); the server compares and
  concatenates strings, searches them for ASCII separators and trims them, all of which commute with
  the encoding of well-formed text. \<^verbatim>\<open>time.Time\<close> is the number of nanoseconds since the zero time; a pointer
  that may be \<^verbatim>\<open>nil\<close> is an \<open>option\<close>; a value of type \<^verbatim>\<open>any\<close> is the JSON value it was decoded from. The
  types \<^verbatim>\<open>TenantStatus\<close>, \<^verbatim>\<open>SchemaMode\<close> and \<^verbatim>\<open>ChangeOp\<close> are strings in Go, and are here: a filter may
  carry any text. An error is a constructor with the values its message shows.
\<close>

section \<open>Strings in Go\<close>

text \<open>\<^verbatim>\<open>unicode.IsSpace\<close> and \<^verbatim>\<open>strings.TrimSpace\<close>; unlike ECMAScript, U+0085 is a space and U+FEFF is not.\<close>

definition goIsSpace :: "cu \<Rightarrow> bool" where
  "goIsSpace c \<longleftrightarrow>
     c = 0x20 \<or> (0x09 \<le> c \<and> c \<le> 0x0D) \<or> c = 0x85 \<or> c = 0xA0 \<or> c = 0x1680 \<or>
     (0x2000 \<le> c \<and> c \<le> 0x200A) \<or> c = 0x2028 \<or> c = 0x2029 \<or> c = 0x202F \<or> c = 0x205F \<or> c = 0x3000"

definition TrimSpace :: "str \<Rightarrow> str" where
  "TrimSpace s = rev (dropWhile goIsSpace (rev (dropWhile goIsSpace s)))"

text \<open>\<^verbatim>\<open>strings.Index\<close>, with \<open>None\<close> for \<open>-1\<close>.\<close>

fun strIndex :: "str \<Rightarrow> str \<Rightarrow> nat option" where
  "strIndex s sep =
     (if startsWith s sep then Some 0 else case s of [] \<Rightarrow> None | _ # r \<Rightarrow> map_option Suc (strIndex r sep))"

declare strIndex.simps [simp del]

text \<open>\<^verbatim>\<open>strconv.ParseUint\<close> in base ten for a width, and \<^verbatim>\<open>strconv.Atoi\<close>, which takes a sign.\<close>

definition parseUint :: "nat \<Rightarrow> str \<Rightarrow> nat option" where
  "parseUint w s = (if s \<noteq> [] \<and> list_all isDigit s \<and> digitsVal s < 2 ^ w then Some (digitsVal s) else None)"

definition Atoi :: "str \<Rightarrow> int option" where
  "Atoi s =
     (let neg = startsWith s [0x2D]; ds = (if neg \<or> startsWith s [0x2B] then tl s else s) in
      if ds \<noteq> [] \<and> list_all isDigit ds \<and> (if neg then digitsVal ds \<le> 2 ^ 63 else digitsVal ds < 2 ^ 63)
      then Some (if neg then - int (digitsVal ds) else int (digitsVal ds)) else None)"

definition ParseBool :: "str \<Rightarrow> bool option" where
  "ParseBool s =
     (if s \<in> set (map js [''1'', ''t'', ''T'', ''true'', ''TRUE'', ''True'']) then Some True
      else if s \<in> set (map js [''0'', ''f'', ''F'', ''false'', ''FALSE'', ''False'']) then Some False else None)"

section \<open>Times and maps\<close>

type_synonym gotime = int

definition IsZero :: "gotime \<Rightarrow> bool" where
  "IsZero t \<longleftrightarrow> t = 0"

definition nanosPerSecond :: int where
  "nanosPerSecond = 1000000000"

text \<open>
  A \<^verbatim>\<open>map[string]any\<close> is the list of its entries, one per key, in the order of the keys; \<open>goMapOf\<close> builds it
  from assignments in sequence. \<^verbatim>\<open>nil\<close> is \<open>None\<close>.
\<close>

type_synonym gomap = "(str \<times> json) list"

definition goMapOf :: "(str \<times> json) list \<Rightarrow> gomap" where
  "goMapOf kvs = sort_key fst (fold (\<lambda>(k, v). AList.update k v) kvs [])"

section \<open>Tenants\<close>

definition TenantPending :: str where "TenantPending = js ''pending''"
definition TenantActive :: str where "TenantActive = js ''active''"
definition TenantSuspended :: str where "TenantSuspended = js ''suspended''"
definition TenantDeleted :: str where "TenantDeleted = js ''deleted''"

definition SchemaOwn :: str where "SchemaOwn = js ''own''"
definition SchemaShared :: str where "SchemaShared = js ''shared''"
definition SchemaInherited :: str where "SchemaInherited = js ''inherited''"

record TenantConfig =
  MaxTuples :: int
  MaxRequestsPerSec :: int
  CacheTTLOverride :: "int option"
  AllowedObjectTypes :: "str list"
  RetentionDays :: int
  SyncEnabled :: bool
  WebhookURL :: str
  ConfigMetadata :: "gomap option"

record Tenant =
  TenantIdent :: str
  DisplayName :: str
  ParentTenantID :: str
  Status :: str
  SchemaMode :: str
  SharedSchemaRef :: str
  Config :: TenantConfig
  TenantCreatedAt :: gotime
  TenantUpdatedAt :: gotime

definition IsWritable :: "Tenant \<Rightarrow> bool" where
  "IsWritable t \<longleftrightarrow> Status t = TenantActive"

definition IsReadable :: "Tenant \<Rightarrow> bool" where
  "IsReadable t \<longleftrightarrow> Status t = TenantActive \<or> Status t = TenantSuspended"

record TenantContext =
  CtxTenantID :: str
  CtxTenant :: Tenant
  CtxConfig :: TenantConfig

text \<open>The only value a \<^verbatim>\<open>context.Context\<close> carries is the tenant context, if one was put in.\<close>

type_synonym goContext = "TenantContext option"

definition WithTenantContext :: "goContext \<Rightarrow> TenantContext \<Rightarrow> goContext" where
  "WithTenantContext ctx tc = Some tc"

definition TenantFromContext :: "goContext \<Rightarrow> TenantContext option" where
  "TenantFromContext ctx = ctx"

record TenantFilter =
  FilterStatus :: str
  FilterParentID :: str
  FilterLimit :: int
  FilterOffset :: int

section \<open>Tuples\<close>

record RelationTuple =
  TupleTenantID :: str
  ObjectType :: str
  ObjectID :: str
  Relation :: str
  SubjectType :: str
  SubjectID :: str
  SubjectRelation :: str
  SubjectTenantID :: str
  Attributes :: "gomap option"
  ExpiresAt :: "gotime option"
  CreatedAt :: gotime
  UpdatedAt :: gotime
  SourceSystem :: str
  ExternalID :: str

definition tupleText :: "str \<Rightarrow> str \<Rightarrow> str \<Rightarrow> str \<Rightarrow> str \<Rightarrow> str" where
  "tupleText ot oi r st si = ot @ [COLON] @ oi @ [HASH] @ r @ [0x40] @ st @ [COLON] @ si"

definition TupleKey :: "RelationTuple \<Rightarrow> str" where
  "TupleKey t =
     (if SubjectRelation t \<noteq> []
      then tupleText (ObjectType t) (ObjectID t) (Relation t) (SubjectType t) (SubjectID t) @ [HASH] @ SubjectRelation t
      else tupleText (ObjectType t) (ObjectID t) (Relation t) (SubjectType t) (SubjectID t))"

record ObjectRef =
  ObjType :: str
  ObjID :: str

record SubjectRef =
  SubjType :: str
  SubjID :: str
  SubjRelation :: str

datatype SubjectTree = GoSubjectTree (TreeSubject: SubjectRef) (TreeChildren: "SubjectTree list")

record TupleFilter =
  FObjectType :: str
  FObjectID :: str
  FRelation :: str
  FSubjectType :: str
  FSubjectID :: str
  FSubjectRelation :: str
  FIncludeExpired :: bool

definition ChangeOpInsert :: str where "ChangeOpInsert = js ''INSERT''"
definition ChangeOpDelete :: str where "ChangeOpDelete = js ''DELETE''"
definition ChangeOpUpdate :: str where "ChangeOpUpdate = js ''UPDATE''"

record ChangelogEntry =
  Sequence :: "64 word"
  EntryTenantID :: str
  Operation :: str
  EntryTuple :: RelationTuple
  Timestamp :: gotime
  Actor :: str
  Source :: str
  EntryMetadata :: "gomap option"

record AttributesItem =
  ItemTenantID :: str
  ItemType :: str
  ItemID :: str
  ItemAttributes :: "gomap option"
  ItemUpdatedAt :: gotime

section \<open>Errors\<close>

datatype goError =
    ErrNoTenantContext | ErrTenantNotFound | ErrTenantDeleted | ErrTenantSuspended | ErrQuotaExceeded | ErrDuplicateTuple
  | ErrNotFound | ErrInvalidStateTransition str
  | TenantExists str | InvalidTenantID str | CreateTenantFailed goError | BuildContextFailed str goError
  | MissingTenantID | MissingTenantHeader
  | TenantNotReadable str str | NoSchemaLoaded str | SharedSchemaNotFound str | UnknownSchemaMode str
  | UnknownType str | UnknownPermission str str | UnknownRelation str str
  | MaxDepthExceeded nat
  | ConditionFailed str | ConditionNotBool str | ConditionEvaluation goError
  | CompileExpression str | CompileCondition goError | NoOperation str | InvalidArrowRef str
  | PermissionFailed str str goError
  | InvalidBody | Required string | InvalidSchemaMode | SharedRefRequired | NotAnInteger string | NegativeInteger string
  | NotABoolean string | NoTuples | AtIndex nat goError
  | Panic | ErrCrossTenantDisabled | NoStaticTenant | NoRequest | TtlAndExpires | TtlNotPositive | TtlTooLarge | NotRFC3339 | ExpandFieldsRequired | ParseFailed | NoSchemaForTenant str
  | DatabaseError string

text \<open>\<^verbatim>\<open>errors.Is\<close> looks through the errors wrapped with \<^verbatim>\<open>%w\<close>; the error of an invalid transition wraps its sentinel.\<close>

fun errRoot :: "goError \<Rightarrow> goError" where
  "errRoot (CreateTenantFailed e) = errRoot e"
| "errRoot (BuildContextFailed _ e) = errRoot e"
| "errRoot (ConditionEvaluation e) = errRoot e"
| "errRoot (CompileCondition e) = errRoot e"
| "errRoot (PermissionFailed _ _ e) = errRoot e"
| "errRoot (ErrInvalidStateTransition _) = ErrInvalidStateTransition []"
| "errRoot e = e"

text \<open>The early return \<^verbatim>\<open>if err != nil { return err }\<close>.\<close>

fun bindE :: "'e + 'a \<Rightarrow> ('a \<Rightarrow> 'e + 'b) \<Rightarrow> 'e + 'b" where
  "bindE (Inl e) f = Inl e"
| "bindE (Inr x) f = f x"

section \<open>Lemmas\<close>

lemma bindE_Inr: "bindE r f = Inr y \<longleftrightarrow> (\<exists>x. r = Inr x \<and> f x = Inr y)"
  by (cases r) auto

lemma bindE_Inl: "bindE r f = Inl e \<longleftrightarrow> r = Inl e \<or> (\<exists>x. r = Inr x \<and> f x = Inl e)"
  by (cases r) auto

lemmas status_defs = TenantPending_def TenantActive_def TenantSuspended_def TenantDeleted_def

lemma status_distinct [simp]:
  "TenantPending \<noteq> TenantActive" "TenantPending \<noteq> TenantSuspended" "TenantPending \<noteq> TenantDeleted"
  "TenantActive \<noteq> TenantPending" "TenantActive \<noteq> TenantSuspended" "TenantActive \<noteq> TenantDeleted"
  "TenantSuspended \<noteq> TenantPending" "TenantSuspended \<noteq> TenantActive" "TenantSuspended \<noteq> TenantDeleted"
  "TenantDeleted \<noteq> TenantPending" "TenantDeleted \<noteq> TenantActive" "TenantDeleted \<noteq> TenantSuspended"
  by (simp_all add: status_defs js_inj)

lemma op_distinct [simp]:
  "ChangeOpInsert \<noteq> ChangeOpDelete" "ChangeOpDelete \<noteq> ChangeOpInsert" "ChangeOpInsert \<noteq> ChangeOpUpdate"
  "ChangeOpUpdate \<noteq> ChangeOpInsert" "ChangeOpDelete \<noteq> ChangeOpUpdate" "ChangeOpUpdate \<noteq> ChangeOpDelete"
  by (simp_all add: ChangeOpInsert_def ChangeOpDelete_def ChangeOpUpdate_def js_inj)

lemma mode_distinct [simp]:
  "SchemaOwn \<noteq> SchemaShared" "SchemaShared \<noteq> SchemaOwn" "SchemaOwn \<noteq> SchemaInherited"
  "SchemaInherited \<noteq> SchemaOwn" "SchemaShared \<noteq> SchemaInherited" "SchemaInherited \<noteq> SchemaShared"
  by (simp_all add: SchemaOwn_def SchemaShared_def SchemaInherited_def js_inj)

text \<open>A text is split at the first occurrence of a separator in one way only.\<close>

lemma append_sep_inj:
  assumes "a @ c # b = a' @ c # b'" "c \<notin> set a" "c \<notin> set a'"
  shows "a = a' \<and> b = b'"
  using assms
proof (induction a arbitrary: a')
  case Nil
  then show ?case by (cases a') auto
next
  case (Cons x a)
  then show ?case by (cases a') auto
qed

end
