(* ===== verification/Schema_Compiler.thy ===== *)
theory Schema_Compiler
  imports Server_Model
begin

text \<open>
  \<^verbatim>\<open>pkg/schema\<close>: the raw schema the YAML decoder delivers, its compilation and its validation. The decoder
  (\<^verbatim>\<open>gopkg.in/yaml.v3\<close>) and the compiler of conditions (\<^verbatim>\<open>expr-lang/expr\<close>) are arguments; a compiled condition
  is a value of an arbitrary type. A Go map is an association list with distinct keys; where the source ranges
  over a map, the list gives one of the possible orders. A pointer in a map may be \<^verbatim>\<open>nil\<close> (\<open>None\<close>), and
  dereferencing it panics.
\<close>

section \<open>The raw schema\<close>

record RawPermission =
  Resolve :: str
  Union :: "str list"
  Intersect :: "str list"
  Exclusion :: "str list"
  RawCondition :: str

record RawRelation =
  RawRelTypes :: "str list"

record RawType =
  RawAttributes :: "(str \<times> str) list"
  RawRelations :: "(str \<times> RawRelation option) list"
  RawPermissions :: "(str \<times> RawPermission option) list"

record RawSchema =
  RawVersion :: str
  RawTypes :: "(str \<times> RawType option) list"

text \<open>
  \<^verbatim>\<open>PermissionListItem.UnmarshalYAML\<close>: the two arguments are what the decoder makes of the node as a string and
  as a mapping with the key \<^verbatim>\<open>condition\<close>.
\<close>

definition UnmarshalYAML :: "str option \<Rightarrow> str option \<Rightarrow> goError + str" where
  "UnmarshalYAML asString asCondition =
     (case asString of
        Some s \<Rightarrow> Inr (TrimSpace s)
      | None \<Rightarrow>
          (case asCondition of
             Some c \<Rightarrow> if TrimSpace c \<noteq> [] then Inr (js ''condition: '' @ TrimSpace c) else Inl ParseFailed
           | None \<Rightarrow> Inl ParseFailed))"

section \<open>The compiled schema\<close>

datatype PermOp = PermOpUnion | PermOpIntersect | PermOpExclusion | PermOpDirect

record PermissionRef =
  RelationRef :: str
  ArrowRef :: str
  ArrowPermission :: str
  ConditionText :: str

datatype refKind = KindRelation | KindArrow | KindCondition

definition Kind :: "PermissionRef \<Rightarrow> refKind" where
  "Kind pr = (if ArrowRef pr \<noteq> [] then KindArrow else if ConditionText pr \<noteq> [] then KindCondition else KindRelation)"

record 'p ConditionExpr =
  Raw :: str
  Compiled :: "'p option"

record 'p PermissionDef =
  PermName :: str
  PermOperation :: PermOp
  Children :: "PermissionRef list"
  PermCondition :: "'p ConditionExpr option"

record AllowedTypeRef =
  AllowedType :: str
  AllowedRelation :: str

record RelationDef =
  RelName :: str
  AllowedTypes :: "AllowedTypeRef list"

record 'p TypeDef =
  TypeName :: str
  TypeAttributes :: "(str \<times> str) list"
  TypeRelations :: "(str \<times> RelationDef) list"
  TypePermissions :: "(str \<times> 'p PermissionDef) list"

record 'p CompiledSchema =
  SchemaTypes :: "(str \<times> 'p TypeDef) list"
  SchemaVersion :: str
  SchemaHash :: str
  SchemaCompiledAt :: gotime

definition GetPermission :: "'p CompiledSchema \<Rightarrow> str \<Rightarrow> str \<Rightarrow> goError + 'p PermissionDef" where
  "GetPermission cs objectType permission =
     (case map_of (SchemaTypes cs) objectType of
        None \<Rightarrow> Inl (UnknownType objectType)
      | Some td \<Rightarrow>
          (case map_of (TypePermissions td) permission of
             None \<Rightarrow> Inl (UnknownPermission permission objectType)
           | Some pd \<Rightarrow> Inr pd))"

definition GetRelation :: "'p CompiledSchema \<Rightarrow> str \<Rightarrow> str \<Rightarrow> goError + RelationDef" where
  "GetRelation cs objectType relation =
     (case map_of (SchemaTypes cs) objectType of
        None \<Rightarrow> Inl (UnknownType objectType)
      | Some td \<Rightarrow>
          (case map_of (TypeRelations td) relation of
             None \<Rightarrow> Inl (UnknownRelation relation objectType)
           | Some rd \<Rightarrow> Inr rd))"

section \<open>Compilation\<close>

fun mapE :: "('a \<Rightarrow> 'e + 'b) \<Rightarrow> 'a list \<Rightarrow> 'e + 'b list" where
  "mapE f [] = Inr []"
| "mapE f (x # xs) = bindE (f x) (\<lambda>y. bindE (mapE f xs) (\<lambda>ys. Inr (y # ys)))"

definition deref :: "'a option \<Rightarrow> goError + 'a" where
  "deref p = (case p of None \<Rightarrow> Inl Panic | Some x \<Rightarrow> Inr x)"

definition parseAllowedTypeRef :: "str \<Rightarrow> AllowedTypeRef" where
  "parseAllowedTypeRef s =
     (case indexOf HASH s of
        None \<Rightarrow> \<lparr>AllowedType = s, AllowedRelation = []\<rparr>
      | Some i \<Rightarrow> \<lparr>AllowedType = take i s, AllowedRelation = drop (i + 1) s\<rparr>)"

definition compileCondition :: "(str \<Rightarrow> 'p option) \<Rightarrow> str \<Rightarrow> goError + 'p ConditionExpr" where
  "compileCondition exprCompile raw =
     (case exprCompile (TrimSpace raw) of
        None \<Rightarrow> Inl (CompileExpression (TrimSpace raw))
      | Some program \<Rightarrow> Inr \<lparr>Raw = raw, Compiled = Some program\<rparr>)"

definition parsePermissionRef :: "str \<Rightarrow> goError + PermissionRef" where
  "parsePermissionRef s =
     (case strIndex s (js ''->'') of
        Some idx \<Rightarrow>
          (let relation = TrimSpace (take idx s); permission = TrimSpace (drop (idx + 2) s) in
           if relation = [] \<or> permission = [] then Inl (InvalidArrowRef s)
           else Inr \<lparr>RelationRef = [], ArrowRef = relation, ArrowPermission = permission, ConditionText = []\<rparr>)
      | None \<Rightarrow>
          if startsWith s (js ''condition:'')
          then Inr \<lparr>RelationRef = [], ArrowRef = [], ArrowPermission = [], ConditionText = TrimSpace (drop (length (js ''condition:'')) s)\<rparr>
          else Inr \<lparr>RelationRef = TrimSpace s, ArrowRef = [], ArrowPermission = [], ConditionText = []\<rparr>)"

definition compilePermission :: "(str \<Rightarrow> 'p option) \<Rightarrow> str \<Rightarrow> RawPermission \<Rightarrow> goError + 'p PermissionDef" where
  "compilePermission exprCompile name raw =
     bindE (if RawCondition raw \<noteq> []
            then (case compileCondition exprCompile (RawCondition raw) of Inl e \<Rightarrow> Inl (CompileCondition e) | Inr c \<Rightarrow> Inr (Some c))
            else Inr None)
       (\<lambda>cond.
         let pd = (\<lambda>oper children. \<lparr>PermName = name, PermOperation = oper, Children = children, PermCondition = cond\<rparr>) in
         if Resolve raw \<noteq> [] then
           Inr (pd PermOpDirect [\<lparr>RelationRef = Resolve raw, ArrowRef = [], ArrowPermission = [], ConditionText = []\<rparr>])
         else if Union raw \<noteq> [] then bindE (mapE parsePermissionRef (Union raw)) (\<lambda>rs. Inr (pd PermOpUnion rs))
         else if Intersect raw \<noteq> [] then bindE (mapE parsePermissionRef (Intersect raw)) (\<lambda>rs. Inr (pd PermOpIntersect rs))
         else if Exclusion raw \<noteq> [] then bindE (mapE parsePermissionRef (Exclusion raw)) (\<lambda>rs. Inr (pd PermOpExclusion rs))
         else Inl (NoOperation name))"

text \<open>The two passes of \<^verbatim>\<open>Compile\<close>; the hash of the source text is an argument.\<close>

definition compileRelation :: "str \<times> RawRelation option \<Rightarrow> goError + str \<times> RelationDef" where
  "compileRelation p = (case p of (relName, rawRel) \<Rightarrow> bindE (deref rawRel) (\<lambda>r.
     Inr (relName, \<lparr>RelName = relName, AllowedTypes = map parseAllowedTypeRef (RawRelTypes r)\<rparr>)))"

definition compileTypeDef :: "str \<times> RawType option \<Rightarrow> goError + str \<times> 'p TypeDef" where
  "compileTypeDef p = (case p of (typeName, rawType) \<Rightarrow> bindE (deref rawType) (\<lambda>t.
     bindE (mapE compileRelation (RawRelations t)) (\<lambda>rels.
       Inr (typeName, \<lparr>TypeName = typeName, TypeAttributes = RawAttributes t, TypeRelations = rels, TypePermissions = []\<rparr>))))"

definition compileTypePermissions ::
  "(str \<Rightarrow> 'p option) \<Rightarrow> (str \<times> RawType option) \<times> (str \<times> 'p TypeDef) \<Rightarrow> goError + str \<times> 'p TypeDef" where
  "compileTypePermissions exprCompile x = (case x of ((typeName, rawType), (_, td)) \<Rightarrow> bindE (deref rawType) (\<lambda>t.
     bindE (mapE (\<lambda>(permName, rawPerm). bindE (deref rawPerm) (\<lambda>r.
         case compilePermission exprCompile permName r of
           Inl e \<Rightarrow> Inl (PermissionFailed typeName permName e) | Inr pd \<Rightarrow> Inr (permName, pd))) (RawPermissions t))
       (\<lambda>perms. Inr (typeName, td\<lparr>TypePermissions := perms\<rparr>))))"

definition Compile :: "(str \<Rightarrow> 'p option) \<Rightarrow> (str \<Rightarrow> str) \<Rightarrow> gotime \<Rightarrow> RawSchema \<Rightarrow> str \<Rightarrow> goError + 'p CompiledSchema" where
  "Compile exprCompile hashYAML now raw originalYAML =
     bindE (mapE compileTypeDef (RawTypes raw)) (\<lambda>tds.
     bindE (mapE (compileTypePermissions exprCompile) (zip (RawTypes raw) tds)) (\<lambda>types.
       Inr \<lparr>SchemaTypes = types, SchemaVersion = RawVersion raw, SchemaHash = hashYAML originalYAML, SchemaCompiledAt = now\<rparr>))"

section \<open>Validation\<close>

datatype validationError =
    UnknownTypeRef str str str | UnknownUsersetRelation str str str str | UnknownPermissionRef str str str | UnknownArrowRelation str str str

definition validateAllowed :: "'p CompiledSchema \<Rightarrow> str \<Rightarrow> str \<Rightarrow> AllowedTypeRef \<Rightarrow> validationError list" where
  "validateAllowed cs typeName relName ref =
     (if map_of (SchemaTypes cs) (AllowedType ref) = None then [UnknownTypeRef typeName relName (AllowedType ref)] else []) @
     (if AllowedRelation ref \<noteq> [] then
        (case map_of (SchemaTypes cs) (AllowedType ref) of
           None \<Rightarrow> []
         | Some refType \<Rightarrow>
             if map_of (TypeRelations refType) (AllowedRelation ref) = None
             then [UnknownUsersetRelation typeName relName (AllowedType ref) (AllowedRelation ref)] else [])
      else [])"

definition validatePermRef :: "'p TypeDef \<Rightarrow> str \<Rightarrow> str \<Rightarrow> PermissionRef \<Rightarrow> validationError list" where
  "validatePermRef td typeName permName ref =
     (case Kind ref of
        KindRelation \<Rightarrow>
          if map_of (TypeRelations td) (RelationRef ref) = None \<and> map_of (TypePermissions td) (RelationRef ref) = None
          then [UnknownPermissionRef typeName permName (RelationRef ref)] else []
      | KindArrow \<Rightarrow>
          if map_of (TypeRelations td) (ArrowRef ref) = None then [UnknownArrowRelation typeName permName (ArrowRef ref)] else []
      | KindCondition \<Rightarrow> [])"

definition Validate :: "'p CompiledSchema \<Rightarrow> validationError list" where
  "Validate cs = concat (map (\<lambda>(typeName, td).
     concat (map (\<lambda>(relName, rd). concat (map (validateAllowed cs typeName relName) (AllowedTypes rd))) (TypeRelations td)) @
     concat (map (\<lambda>(permName, pd). concat (map (validatePermRef td typeName permName) (Children pd))) (TypePermissions td)))
     (SchemaTypes cs))"

section \<open>Lemmas\<close>

lemma mapE_Inr: "mapE f xs = Inr ys \<longleftrightarrow> list_all2 (\<lambda>x y. f x = Inr y) xs ys"
  by (induction xs arbitrary: ys) (auto simp: bindE_Inr list_all2_Cons1)

lemma GetPermission_Inr:
  "GetPermission cs ty p = Inr pd \<longleftrightarrow> (\<exists>td. map_of (SchemaTypes cs) ty = Some td \<and> map_of (TypePermissions td) p = Some pd)"
  by (auto simp: GetPermission_def split: option.splits)

lemma mapE_keys:
  assumes "list_all2 (\<lambda>x y. f x = Inr y) xs ys" "\<And>x y. f x = Inr y \<Longrightarrow> fst y = g x"
  shows "map fst ys = map g xs"
  using assms by (induction rule: list_all2_induct) auto

lemma list_all2_map_of:
  "list_all2 (\<lambda>x y. P x y \<and> fst y = fst x) xs ys \<Longrightarrow> map_of ys k = Some v \<Longrightarrow> \<exists>u. map_of xs k = Some u \<and> P (k, u) (k, v)"
proof (induction rule: list_all2_induct)
  case (Cons x xs y ys)
  then show ?case by (cases x; cases y) (auto split: if_splits)
qed simp

lemma list_all2_zip_left:
  "list_all2 R (zip xs zs) ys \<Longrightarrow> length xs = length zs \<Longrightarrow> list_all2 (\<lambda>x y. \<exists>z. R (x, z) y) xs ys"
  by (auto simp: list_all2_conv_all_nth)

lemma compilePermission_name:
  "compilePermission ec name raw = Inr pd \<Longrightarrow> PermName pd = name"
  by (auto simp: compilePermission_def Let_def bindE_Inr split: if_splits)

text \<open>The definition found under a name is the compilation of the raw permission with that name.\<close>

lemma compiled_permission:
  assumes "Compile ec hash now raw src = Inr cs" "GetPermission cs ty p = Inr pd"
  shows "\<exists>t r. map_of (RawTypes raw) ty = Some (Some t) \<and> map_of (RawPermissions t) p = Some (Some r) \<and>
    compilePermission ec p r = Inr pd"
proof -
  obtain tds where tds: "list_all2 (\<lambda>x y. compileTypeDef x = Inr y) (RawTypes raw) tds"
    and cs: "list_all2 (\<lambda>x y. compileTypePermissions ec x = Inr y) (zip (RawTypes raw) tds) (SchemaTypes cs)"
    using assms(1) by (auto simp: Compile_def bindE_Inr mapE_Inr)
  let ?P = "\<lambda>x y. \<exists>z. compileTypePermissions ec (x, z) = Inr y"
  have "list_all2 (\<lambda>x y. ?P x y \<and> fst y = fst x) (RawTypes raw) (SchemaTypes cs)"
    using list_all2_zip_left [OF cs list_all2_lengthD [OF tds]]
    by (elim list_all2_mono) (auto simp: compileTypePermissions_def bindE_Inr split: prod.splits)
  obtain td where td: "map_of (SchemaTypes cs) ty = Some td" "map_of (TypePermissions td) p = Some pd"
    using assms(2) by (auto simp: GetPermission_Inr)
  then obtain u z where u: "map_of (RawTypes raw) ty = Some u" "compileTypePermissions ec ((ty, u), z) = Inr (ty, td)"
    using list_all2_map_of [OF \<open>list_all2 (\<lambda>x y. ?P x y \<and> fst y = fst x) _ _\<close> td(1)] by blast
  then obtain t where t: "u = Some t" "list_all2 (\<lambda>x y. (case x of (n, rp) \<Rightarrow> bindE (deref rp) (\<lambda>r.
         case compilePermission ec n r of Inl e \<Rightarrow> Inl (PermissionFailed ty n e) | Inr pd \<Rightarrow> Inr (n, pd))) = Inr y)
       (RawPermissions t) (TypePermissions td)"
    by (auto simp: compileTypePermissions_def bindE_Inr deref_def mapE_Inr split: prod.splits option.splits)
  then have "list_all2 (\<lambda>x y. (\<exists>r. snd x = Some r \<and> compilePermission ec (fst x) r = Inr (snd y)) \<and> fst y = fst x)
       (RawPermissions t) (TypePermissions td)"
    by (elim list_all2_mono) (auto simp: bindE_Inr deref_def split: option.splits sum.splits)
  from list_all2_map_of [OF this td(2)] show ?thesis using u t by auto
qed

section \<open>References as text\<close>

text \<open>How a reference is written in a schema.\<close>

definition showRef :: "PermissionRef \<Rightarrow> str" where
  "showRef ref =
     (case Kind ref of
        KindRelation \<Rightarrow> RelationRef ref
      | KindArrow \<Rightarrow> ArrowRef ref @ js ''->'' @ ArrowPermission ref
      | KindCondition \<Rightarrow> js ''condition: '' @ ConditionText ref)"

definition trimmed :: "str \<Rightarrow> bool" where
  "trimmed s \<longleftrightarrow> s \<noteq> [] \<and> TrimSpace s = s"

text \<open>References of one kind only, without spaces around their parts and without an arrow in them.\<close>

definition plainRef :: "PermissionRef \<Rightarrow> bool" where
  "plainRef ref \<longleftrightarrow>
     (case Kind ref of
        KindRelation \<Rightarrow> ArrowPermission ref = [] \<and> trimmed (RelationRef ref) \<and> strIndex (RelationRef ref) (js ''->'') = None \<and>
          \<not> startsWith (RelationRef ref) (js ''condition:'')
      | KindArrow \<Rightarrow> RelationRef ref = [] \<and> ConditionText ref = [] \<and> trimmed (ArrowRef ref) \<and> trimmed (ArrowPermission ref) \<and>
          strIndex (ArrowRef ref) (js ''->'') = None
      | KindCondition \<Rightarrow> RelationRef ref = [] \<and> ArrowPermission ref = [] \<and> trimmed (ConditionText ref) \<and>
          strIndex (ConditionText ref) (js ''->'') = None)"

lemma arrow_code: "js ''->'' = [0x2D, 0x3E]"
  by (simp add: js_def)

lemma startsWith_arrow: "startsWith s [0x2D, 0x3E] \<longleftrightarrow> (\<exists>r. s = 0x2D # 0x3E # r)"
  by (cases s; cases "tl s") (auto simp: startsWith_def)

lemma strIndex_arrow_append:
  "strIndex a [0x2D, 0x3E] = None \<Longrightarrow> strIndex (a @ [0x2D, 0x3E] @ p) [0x2D, 0x3E] = Some (length a)"
proof (induction a)
  case Nil
  then show ?case by (simp add: strIndex.simps startsWith_arrow)
next
  case (Cons c a)
  have n: "\<not> startsWith (c # a) [0x2D, 0x3E]" "strIndex a [0x2D, 0x3E] = None"
    using Cons.prems by (auto simp: strIndex.simps [of "c # a"] split: if_splits)
  have "\<not> startsWith ((c # a) @ [0x2D, 0x3E] @ p) [0x2D, 0x3E]"
    using n(1) by (cases a) (auto simp: startsWith_arrow)
  then show ?case using Cons.IH n(2) by (simp add: strIndex.simps [of "c # a @ _"])
qed

lemma TrimSpace_condition:
  assumes "trimmed s"
  shows "TrimSpace (0x20 # s) = s"
  using assms by (simp add: trimmed_def TrimSpace_def goIsSpace_def)

text \<open>
  References survive compilation: parsing the text of a relation, an arrow or a condition, without spaces
  around its parts and without an arrow inside them, gives back the reference.
\<close>

theorem parsePermissionRef_roundtrip:
  assumes "plainRef ref"
  shows "parsePermissionRef (showRef ref) = Inr ref"
proof (cases "Kind ref")
  case KindRelation
  then have "ArrowRef ref = []" "ConditionText ref = []" by (auto simp: Kind_def split: if_splits)
  then show ?thesis using assms KindRelation by (simp add: plainRef_def showRef_def parsePermissionRef_def trimmed_def)
next
  case KindArrow
  then show ?thesis
    using assms strIndex_arrow_append [of "ArrowRef ref" "ArrowPermission ref"]
    by (simp add: plainRef_def showRef_def parsePermissionRef_def trimmed_def arrow_code Let_def)
next
  case KindCondition
  then have a: "ArrowRef ref = []" by (auto simp: Kind_def split: if_splits)
  have p: "RelationRef ref = []" "ArrowPermission ref = []" "trimmed (ConditionText ref)" "strIndex (ConditionText ref) [0x2D, 0x3E] = None"
    using assms KindCondition by (simp_all add: plainRef_def arrow_code)
  have "strIndex (js ''condition: '' @ ConditionText ref) [0x2D, 0x3E] = None"
    using p(4) by (simp add: js_def strIndex.simps [of "_ # _"] startsWith_arrow)
  then show ?thesis
    using KindCondition a p TrimSpace_condition [OF p(3)]
    by (simp add: showRef_def parsePermissionRef_def arrow_code) (simp add: js_def startsWith_def)
qed

theorem parsePermissionRef_roundtrip_witness:
  "parsePermissionRef (js ''parent->view'') = Inr \<lparr>RelationRef = [], ArrowRef = js ''parent'', ArrowPermission = js ''view'', ConditionText = []\<rparr>"
proof -
  have "plainRef \<lparr>RelationRef = [], ArrowRef = js ''parent'', ArrowPermission = js ''view'', ConditionText = []\<rparr>" by code_simp
  from parsePermissionRef_roundtrip [OF this] show ?thesis by (simp add: showRef_def Kind_def js_def)
qed

end
