(* ===== verification/Memory_Store.thy ===== *)
theory Memory_Store
  imports Server_Model
begin

text \<open>
  The in-memory implementation of \<^verbatim>\<open>storage.TupleStore\<close>, \<^verbatim>\<open>pkg/storage/memory/store.go\<close>: every method is a
  function of the store, the context it takes the tenant from, and the clock (\<open>now\<close>, one reading for an
  operation). A method that changes the store returns the new store or an error, which leaves it as it was;
  the write lock makes a method one step. The maps from tenants to data are HOL maps, \<open>None\<close> for a missing
  key; a map that is iterated over is an association list, and what is read from it is stated without its
  order, except for the tenants, which the source sorts. Writing to an entry of a missing inner map panics.

  The theory shows that every method keeps the invariant \<open>storeOk\<close>: keys are unique, sequence numbers count
  the entries of the log, and the log replays to the tuples.
\<close>

section \<open>The store\<close>

record Store =
  st_tenants :: "(str \<times> Tenant) list"
  st_tuples :: "str \<rightharpoonup> RelationTuple list"
  st_objAttrs :: "str \<rightharpoonup> (str \<times> gomap option) list"
  st_subAttrs :: "str \<rightharpoonup> (str \<times> gomap option) list"
  st_changelog :: "str \<rightharpoonup> ChangelogEntry list"
  st_seqCounter :: "str \<rightharpoonup> 64 word"

definition NewStore :: Store where
  "NewStore = \<lparr>st_tenants = [], st_tuples = Map.empty, st_objAttrs = Map.empty, st_subAttrs = Map.empty,
     st_changelog = Map.empty, st_seqCounter = Map.empty\<rparr>"

text \<open>Reading a missing key of a Go map gives the zero value.\<close>

definition tuplesOf :: "Store \<Rightarrow> str \<Rightarrow> RelationTuple list" where
  "tuplesOf s tid = (case st_tuples s tid of None \<Rightarrow> [] | Some ts \<Rightarrow> ts)"

definition changelogOf :: "Store \<Rightarrow> str \<Rightarrow> ChangelogEntry list" where
  "changelogOf s tid = (case st_changelog s tid of None \<Rightarrow> [] | Some es \<Rightarrow> es)"

definition seqOf :: "Store \<Rightarrow> str \<Rightarrow> 64 word" where
  "seqOf s tid = (case st_seqCounter s tid of None \<Rightarrow> 0 | Some n \<Rightarrow> n)"

definition tenantIDFromCtx :: "goContext \<Rightarrow> goError + str" where
  "tenantIDFromCtx ctx = (case TenantFromContext ctx of None \<Rightarrow> Inl ErrNoTenantContext | Some tc \<Rightarrow> Inr (CtxTenantID tc))"

definition initTenant :: "str \<Rightarrow> Store \<Rightarrow> Store" where
  "initTenant tid s =
     (if st_tuples s tid \<noteq> None then s
      else s\<lparr>st_tuples := (st_tuples s)(tid \<mapsto> []), st_objAttrs := (st_objAttrs s)(tid \<mapsto> []),
        st_subAttrs := (st_subAttrs s)(tid \<mapsto> []), st_changelog := (st_changelog s)(tid \<mapsto> []),
        st_seqCounter := (st_seqCounter s)(tid \<mapsto> 0)\<rparr>)"

section \<open>Tenants\<close>

definition CreateTenant :: "gotime \<Rightarrow> Tenant \<Rightarrow> Store \<Rightarrow> goError + Store" where
  "CreateTenant now ten s =
     (let tid = TenantIdent ten in
      if map_of (st_tenants s) tid \<noteq> None then Inl (TenantExists tid)
      else
        let t = ten\<lparr>TenantCreatedAt := (if IsZero (TenantCreatedAt ten) then now else TenantCreatedAt ten), TenantUpdatedAt := now\<rparr>
        in Inr (initTenant tid (s\<lparr>st_tenants := AList.update tid t (st_tenants s)\<rparr>)))"

definition GetTenant :: "str \<Rightarrow> Store \<Rightarrow> goError + Tenant" where
  "GetTenant tid s = (case map_of (st_tenants s) tid of None \<Rightarrow> Inl ErrTenantNotFound | Some t \<Rightarrow> Inr t)"

definition UpdateTenant :: "gotime \<Rightarrow> Tenant \<Rightarrow> Store \<Rightarrow> goError + Store" where
  "UpdateTenant now ten s =
     (if map_of (st_tenants s) (TenantIdent ten) = None then Inl ErrTenantNotFound
      else Inr (s\<lparr>st_tenants := AList.update (TenantIdent ten) (ten\<lparr>TenantUpdatedAt := now\<rparr>) (st_tenants s)\<rparr>))"

text \<open>Addition of Go's \<^verbatim>\<open>int\<close>, 64 bits wide and signed; a slice with its end before its start panics.\<close>

definition wrap64 :: "int \<Rightarrow> int" where
  "wrap64 x = (x + 2 ^ 63) mod 2 ^ 64 - 2 ^ 63"

definition applyTenantFilter :: "'a list \<Rightarrow> TenantFilter option \<Rightarrow> goError + 'a list" where
  "applyTenantFilter ts flt =
     (case flt of None \<Rightarrow> Inr ts | Some f \<Rightarrow>
        if int (length ts) \<le> FilterOffset f then Inr []
        else
          let start = (if FilterOffset f < 0 then 0 else FilterOffset f);
              stop = (if 0 < FilterLimit f \<and> wrap64 (start + FilterLimit f) < int (length ts)
                      then wrap64 (start + FilterLimit f) else int (length ts))
          in if stop < start then Inl Panic else Inr (take (nat (stop - start)) (drop (nat start) ts)))"

definition matchesTenantFilter :: "TenantFilter option \<Rightarrow> Tenant \<Rightarrow> bool" where
  "matchesTenantFilter flt t \<longleftrightarrow>
     (case flt of None \<Rightarrow> True | Some f \<Rightarrow>
        \<not> (FilterStatus f \<noteq> [] \<and> Status t \<noteq> FilterStatus f) \<and>
        \<not> (FilterParentID f \<noteq> [] \<and> ParentTenantID t \<noteq> FilterParentID f))"

definition ListTenants :: "TenantFilter option \<Rightarrow> Store \<Rightarrow> goError + Tenant list" where
  "ListTenants f s =
     applyTenantFilter (sort_key TenantIdent (filter (matchesTenantFilter f) (map snd (st_tenants s)))) f"

definition checkTenantWritable :: "Store \<Rightarrow> str \<Rightarrow> goError + unit" where
  "checkTenantWritable s tid =
     (case map_of (st_tenants s) tid of None \<Rightarrow> Inl ErrTenantNotFound
      | Some t \<Rightarrow>
          if Status t = TenantDeleted then Inl ErrTenantDeleted
          else if Status t = TenantSuspended then Inl ErrTenantSuspended
          else if Status t = TenantPending then Inl ErrTenantSuspended
          else Inr ())"

definition checkTenantReadable :: "Store \<Rightarrow> str \<Rightarrow> goError + unit" where
  "checkTenantReadable s tid =
     (case map_of (st_tenants s) tid of None \<Rightarrow> Inl ErrTenantNotFound
      | Some t \<Rightarrow> if Status t = TenantDeleted then Inl ErrTenantDeleted else Inr ())"

text \<open>The preamble of the methods: the tenant of the context, then its status.\<close>

definition writing :: "goContext \<Rightarrow> Store \<Rightarrow> (str \<Rightarrow> goError + 'a) \<Rightarrow> goError + 'a" where
  "writing ctx s body =
     bindE (tenantIDFromCtx ctx) (\<lambda>tid. bindE (checkTenantWritable s tid) (\<lambda>_. body tid))"

definition reading :: "goContext \<Rightarrow> Store \<Rightarrow> (str \<Rightarrow> goError + 'a) \<Rightarrow> goError + 'a" where
  "reading ctx s body =
     bindE (tenantIDFromCtx ctx) (\<lambda>tid. bindE (checkTenantReadable s tid) (\<lambda>_. body tid))"

section \<open>Helpers\<close>

definition tupleIdentityKey :: "RelationTuple \<Rightarrow> str" where
  "tupleIdentityKey t =
     tupleText (ObjectType t) (ObjectID t) (Relation t) (SubjectType t) (SubjectID t) @ [HASH] @ SubjectRelation t"

definition tupleIsExpiredAt :: "RelationTuple \<Rightarrow> gotime \<Rightarrow> bool" where
  "tupleIsExpiredAt t now = (case ExpiresAt t of None \<Rightarrow> False | Some e \<Rightarrow> \<not> now < e)"

definition matchesTupleFilter :: "RelationTuple \<Rightarrow> TupleFilter option \<Rightarrow> bool" where
  "matchesTupleFilter t flt =
     (case flt of None \<Rightarrow> True | Some f \<Rightarrow>
        \<not> (FObjectType f \<noteq> [] \<and> ObjectType t \<noteq> FObjectType f) \<and>
        \<not> (FObjectID f \<noteq> [] \<and> ObjectID t \<noteq> FObjectID f) \<and>
        \<not> (FRelation f \<noteq> [] \<and> Relation t \<noteq> FRelation f) \<and>
        \<not> (FSubjectType f \<noteq> [] \<and> SubjectType t \<noteq> FSubjectType f) \<and>
        \<not> (FSubjectID f \<noteq> [] \<and> SubjectID t \<noteq> FSubjectID f) \<and>
        \<not> (FSubjectRelation f \<noteq> [] \<and> SubjectRelation t \<noteq> FSubjectRelation f))"

definition appendTupleChangelogUnsafe :: "gotime \<Rightarrow> str \<Rightarrow> str \<Rightarrow> RelationTuple \<Rightarrow> str \<Rightarrow> Store \<Rightarrow> Store" where
  "appendTupleChangelogUnsafe now tid oper t source s =
     (let n = seqOf s tid + 1 in
      s\<lparr>st_seqCounter := (st_seqCounter s)(tid \<mapsto> n),
        st_changelog := (st_changelog s)(tid \<mapsto> changelogOf s tid @
          [\<lparr>Sequence = n, EntryTenantID = tid, Operation = oper, EntryTuple = t, Timestamp = now, Actor = [], Source = source,
            EntryMetadata = None\<rparr>])\<rparr>)"

section \<open>Writing tuples\<close>

text \<open>The first loop of \<^verbatim>\<open>writeTuplesLocked\<close>: the keys of the live tuples, and for each key the index of its first expired tuple.\<close>

fun scanExisting :: "gotime \<Rightarrow> nat \<Rightarrow> RelationTuple list \<Rightarrow> str list \<times> (str \<times> nat) list \<Rightarrow> str list \<times> (str \<times> nat) list" where
  "scanExisting now i [] acc = acc"
| "scanExisting now i (t # ts) (existingKeys, expiredIndexes) =
     scanExisting now (Suc i) ts
       (if tupleIsExpiredAt t now
        then (existingKeys, if map_of expiredIndexes (tupleIdentityKey t) = None
               then (tupleIdentityKey t, i) # expiredIndexes else expiredIndexes)
        else (tupleIdentityKey t # existingKeys, expiredIndexes))"

text \<open>The second loop: duplicates are errors, the others are copied and stamped.\<close>

definition stamp :: "gotime \<Rightarrow> str \<Rightarrow> RelationTuple \<Rightarrow> RelationTuple" where
  "stamp now tid t = t\<lparr>TupleTenantID := tid, CreatedAt := (if IsZero (CreatedAt t) then now else CreatedAt t), UpdatedAt := now\<rparr>"

fun stageTuples :: "gotime \<Rightarrow> str \<Rightarrow> str list \<Rightarrow> str list \<Rightarrow> RelationTuple list \<Rightarrow> goError + RelationTuple list" where
  "stageTuples now tid existingKeys batchKeys [] = Inr []"
| "stageTuples now tid existingKeys batchKeys (t # ts) =
     (if tupleIdentityKey t \<in> set existingKeys then Inl ErrDuplicateTuple
      else if tupleIdentityKey t \<in> set batchKeys then Inl ErrDuplicateTuple
      else bindE (stageTuples now tid existingKeys (tupleIdentityKey t # batchKeys) ts) (\<lambda>staged. Inr (stamp now tid t # staged)))"

text \<open>The third loop: a tuple takes the place of an expired one with its key, or is appended.\<close>

fun placeTuples :: "(str \<times> nat) list \<Rightarrow> RelationTuple list \<Rightarrow> RelationTuple list \<times> RelationTuple list \<Rightarrow> RelationTuple list" where
  "placeTuples expiredIndexes [] (ts, appends) = ts @ appends"
| "placeTuples expiredIndexes (t # staged) (ts, appends) =
     (case map_of expiredIndexes (tupleIdentityKey t) of
        Some idx \<Rightarrow> placeTuples expiredIndexes staged (ts[idx := t], appends)
      | None \<Rightarrow> placeTuples expiredIndexes staged (ts, appends @ [t]))"

definition writeTuplesLocked :: "gotime \<Rightarrow> str \<Rightarrow> RelationTuple list \<Rightarrow> Store \<Rightarrow> goError + Store" where
  "writeTuplesLocked now tid tuples s =
     (if tuples = [] then Inr s
      else case scanExisting now 0 (tuplesOf s tid) ([], []) of (existingKeys, expiredIndexes) \<Rightarrow>
        bindE (stageTuples now tid existingKeys [] tuples) (\<lambda>staged.
          Inr (fold (\<lambda>t. appendTupleChangelogUnsafe now tid ChangeOpInsert t (js ''api'')) staged
            (s\<lparr>st_tuples := (st_tuples s)(tid \<mapsto> placeTuples expiredIndexes staged (tuplesOf s tid, []))\<rparr>))))"

definition WriteTuple :: "gotime \<Rightarrow> goContext \<Rightarrow> RelationTuple \<Rightarrow> Store \<Rightarrow> goError + Store" where
  "WriteTuple now ctx tuple s = writing ctx s (\<lambda>tid. writeTuplesLocked now tid [tuple] s)"

definition WriteTuples :: "gotime \<Rightarrow> goContext \<Rightarrow> RelationTuple list \<Rightarrow> Store \<Rightarrow> goError + Store" where
  "WriteTuples now ctx tuples s = writing ctx s (\<lambda>tid. writeTuplesLocked now tid tuples s)"

definition sameTuple :: "RelationTuple \<Rightarrow> RelationTuple \<Rightarrow> bool" where
  "sameTuple tuple t \<longleftrightarrow> ObjectType t = ObjectType tuple \<and> ObjectID t = ObjectID tuple \<and> Relation t = Relation tuple \<and>
     SubjectType t = SubjectType tuple \<and> SubjectID t = SubjectID tuple \<and> SubjectRelation t = SubjectRelation tuple"

text \<open>\<^const>\<open>List.extract\<close> splits a list at the first element that has a property, as the loop does.\<close>

definition DeleteTuple :: "gotime \<Rightarrow> goContext \<Rightarrow> RelationTuple \<Rightarrow> Store \<Rightarrow> goError + Store" where
  "DeleteTuple now ctx tuple s = writing ctx s (\<lambda>tid.
     case List.extract (sameTuple tuple) (tuplesOf s tid) of
       None \<Rightarrow> Inl ErrNotFound
     | Some (before, t, after) \<Rightarrow>
         Inr (appendTupleChangelogUnsafe now tid ChangeOpDelete t (js ''api'')
           (s\<lparr>st_tuples := (st_tuples s)(tid \<mapsto> before @ after)\<rparr>)))"

section \<open>Reading tuples\<close>

definition ReadTuples :: "gotime \<Rightarrow> goContext \<Rightarrow> TupleFilter option \<Rightarrow> Store \<Rightarrow> goError + RelationTuple list" where
  "ReadTuples now ctx f s = reading ctx s (\<lambda>tid.
     Inr (filter (\<lambda>t. \<not> (\<not> (f \<noteq> None \<and> FIncludeExpired (the f)) \<and> tupleIsExpiredAt t now) \<and> matchesTupleFilter t f)
       (tuplesOf s tid)))"

definition CheckDirect :: "gotime \<Rightarrow> goContext \<Rightarrow> str \<Rightarrow> str \<Rightarrow> str \<Rightarrow> str \<Rightarrow> str \<Rightarrow> Store \<Rightarrow> goError + bool" where
  "CheckDirect now ctx objectType objectID relation subjectType subjectID s = reading ctx s (\<lambda>tid.
     Inr (list_ex (\<lambda>t. ObjectType t = objectType \<and> ObjectID t = objectID \<and> Relation t = relation \<and>
       SubjectType t = subjectType \<and> SubjectID t = subjectID \<and> SubjectRelation t = [] \<and> \<not> tupleIsExpiredAt t now)
       (tuplesOf s tid)))"

definition relationTuples :: "gotime \<Rightarrow> str \<Rightarrow> str \<Rightarrow> str \<Rightarrow> RelationTuple list \<Rightarrow> RelationTuple list" where
  "relationTuples now objectType objectID relation ts =
     filter (\<lambda>t. ObjectType t = objectType \<and> ObjectID t = objectID \<and> Relation t = relation \<and> \<not> tupleIsExpiredAt t now) ts"

definition ListRelatedObjects :: "gotime \<Rightarrow> goContext \<Rightarrow> str \<Rightarrow> str \<Rightarrow> str \<Rightarrow> Store \<Rightarrow> goError + ObjectRef list" where
  "ListRelatedObjects now ctx objectType objectID relation s = reading ctx s (\<lambda>tid.
     Inr (map (\<lambda>t. \<lparr>ObjType = SubjectType t, ObjID = SubjectID t\<rparr>)
       (relationTuples now objectType objectID relation (tuplesOf s tid))))"

definition tupleSubject :: "RelationTuple \<Rightarrow> SubjectRef" where
  "tupleSubject t = \<lparr>SubjType = SubjectType t, SubjID = SubjectID t, SubjRelation = SubjectRelation t\<rparr>"

definition ListSubjects :: "gotime \<Rightarrow> goContext \<Rightarrow> str \<Rightarrow> str \<Rightarrow> str \<Rightarrow> Store \<Rightarrow> goError + SubjectRef list" where
  "ListSubjects now ctx objectType objectID relation s = reading ctx s (\<lambda>tid.
     Inr (map tupleSubject (relationTuples now objectType objectID relation (tuplesOf s tid))))"

definition Expand :: "gotime \<Rightarrow> goContext \<Rightarrow> str \<Rightarrow> str \<Rightarrow> str \<Rightarrow> Store \<Rightarrow> goError + SubjectTree" where
  "Expand now ctx objectType objectID relation s = reading ctx s (\<lambda>tid.
     Inr (GoSubjectTree \<lparr>SubjType = objectType, SubjID = objectID, SubjRelation = relation\<rparr>
       (map (\<lambda>t. GoSubjectTree (tupleSubject t) []) (relationTuples now objectType objectID relation (tuplesOf s tid)))))"

definition CheckDirectCrossTenant :: "gotime \<Rightarrow> str \<Rightarrow> str \<Rightarrow> str \<Rightarrow> str \<Rightarrow> str \<Rightarrow> str \<Rightarrow> Store \<Rightarrow> goError + bool" where
  "CheckDirectCrossTenant now targetTenantID objectType objectID relation subjectType subjectID s =
     bindE (checkTenantReadable s targetTenantID) (\<lambda>_.
       Inr (list_ex (\<lambda>t. ObjectType t = objectType \<and> ObjectID t = objectID \<and> Relation t = relation \<and>
         SubjectType t = subjectType \<and> SubjectID t = subjectID \<and> \<not> tupleIsExpiredAt t now)
         (tuplesOf s targetTenantID)))"

definition CountTuples :: "gotime \<Rightarrow> goContext \<Rightarrow> Store \<Rightarrow> goError + nat" where
  "CountTuples now ctx s = reading ctx s (\<lambda>tid. Inr (length (filter (\<lambda>t. \<not> tupleIsExpiredAt t now) (tuplesOf s tid))))"

text \<open>The tuples of a snapshot, one JSON line each in the source.\<close>

definition ExportTenantSnapshot :: "gotime \<Rightarrow> goContext \<Rightarrow> Store \<Rightarrow> goError + RelationTuple list" where
  "ExportTenantSnapshot now ctx s = reading ctx s (\<lambda>tid. Inr (filter (\<lambda>t. \<not> tupleIsExpiredAt t now) (tuplesOf s tid)))"

section \<open>Attributes\<close>

definition entityKey :: "str \<Rightarrow> str \<Rightarrow> str" where
  "entityKey ty i = ty @ [COLON] @ i"

definition attrsOf :: "(str \<rightharpoonup> (str \<times> gomap option) list) \<Rightarrow> str \<Rightarrow> (str \<times> gomap option) list" where
  "attrsOf m tid = (case m tid of None \<Rightarrow> [] | Some kvs \<Rightarrow> kvs)"

definition lookupAttrs :: "str \<Rightarrow> (str \<times> gomap option) list \<Rightarrow> goError + gomap option" where
  "lookupAttrs key kvs = (case map_of kvs key of None \<Rightarrow> Inl ErrNotFound | Some a \<Rightarrow> Inr a)"

definition storeAttrs ::
  "str \<Rightarrow> str \<Rightarrow> gomap option \<Rightarrow> (str \<rightharpoonup> (str \<times> gomap option) list) \<Rightarrow> goError + (str \<rightharpoonup> (str \<times> gomap option) list)" where
  "storeAttrs tid key attrs m = (case m tid of None \<Rightarrow> Inl Panic | Some kvs \<Rightarrow> Inr (m(tid \<mapsto> AList.update key attrs kvs)))"

text \<open>The loop of the two listings: a key is split at its first colon.\<close>

fun listAttrs :: "str \<Rightarrow> str \<Rightarrow> (str \<times> gomap option) list \<Rightarrow> AttributesItem list" where
  "listAttrs tid wanted [] = []"
| "listAttrs tid wanted ((key, attrs) # kvs) =
     (case indexOf COLON key of
        None \<Rightarrow> listAttrs tid wanted kvs
      | Some idx \<Rightarrow>
          if wanted \<noteq> [] \<and> take idx key \<noteq> wanted then listAttrs tid wanted kvs
          else \<lparr>ItemTenantID = tid, ItemType = take idx key, ItemID = drop (idx + 1) key, ItemAttributes = attrs, ItemUpdatedAt = 0\<rparr> #
            listAttrs tid wanted kvs)"

definition GetObjectAttributes :: "goContext \<Rightarrow> str \<Rightarrow> str \<Rightarrow> Store \<Rightarrow> goError + gomap option" where
  "GetObjectAttributes ctx ty i s = reading ctx s (\<lambda>tid. lookupAttrs (entityKey ty i) (attrsOf (st_objAttrs s) tid))"

definition SetObjectAttributes :: "goContext \<Rightarrow> str \<Rightarrow> str \<Rightarrow> gomap option \<Rightarrow> Store \<Rightarrow> goError + Store" where
  "SetObjectAttributes ctx ty i attrs s = writing ctx s (\<lambda>tid.
     bindE (storeAttrs tid (entityKey ty i) attrs (st_objAttrs s)) (\<lambda>m. Inr (s\<lparr>st_objAttrs := m\<rparr>)))"

definition ListObjectAttributes :: "goContext \<Rightarrow> str \<Rightarrow> Store \<Rightarrow> goError + AttributesItem list" where
  "ListObjectAttributes ctx ty s = reading ctx s (\<lambda>tid. Inr (listAttrs tid ty (attrsOf (st_objAttrs s) tid)))"

definition GetSubjectAttributes :: "goContext \<Rightarrow> str \<Rightarrow> str \<Rightarrow> Store \<Rightarrow> goError + gomap option" where
  "GetSubjectAttributes ctx ty i s = reading ctx s (\<lambda>tid. lookupAttrs (entityKey ty i) (attrsOf (st_subAttrs s) tid))"

definition SetSubjectAttributes :: "goContext \<Rightarrow> str \<Rightarrow> str \<Rightarrow> gomap option \<Rightarrow> Store \<Rightarrow> goError + Store" where
  "SetSubjectAttributes ctx ty i attrs s = writing ctx s (\<lambda>tid.
     bindE (storeAttrs tid (entityKey ty i) attrs (st_subAttrs s)) (\<lambda>m. Inr (s\<lparr>st_subAttrs := m\<rparr>)))"

definition ListSubjectAttributes :: "goContext \<Rightarrow> str \<Rightarrow> Store \<Rightarrow> goError + AttributesItem list" where
  "ListSubjectAttributes ctx ty s = reading ctx s (\<lambda>tid. Inr (listAttrs tid ty (attrsOf (st_subAttrs s) tid)))"

section \<open>The changelog and the data of a tenant\<close>

definition AppendChangelog :: "gotime \<Rightarrow> goContext \<Rightarrow> ChangelogEntry \<Rightarrow> Store \<Rightarrow> goError + Store" where
  "AppendChangelog now ctx entry s = writing ctx s (\<lambda>tid.
     let n = seqOf s tid + 1 in
     Inr (s\<lparr>st_seqCounter := (st_seqCounter s)(tid \<mapsto> n),
       st_changelog := (st_changelog s)(tid \<mapsto> changelogOf s tid @
         [entry\<lparr>EntryTenantID := tid, Sequence := n, Timestamp := (if IsZero (Timestamp entry) then now else Timestamp entry)\<rparr>])\<rparr>))"

text \<open>The loop breaks as soon as a positive limit is reached.\<close>

definition ReadChangelog :: "goContext \<Rightarrow> 64 word \<Rightarrow> int \<Rightarrow> Store \<Rightarrow> goError + ChangelogEntry list" where
  "ReadChangelog ctx sinceSeq limit s = reading ctx s (\<lambda>tid.
     let r = filter (\<lambda>e. sinceSeq < Sequence e) (changelogOf s tid) in
     Inr (if 0 < limit then take (nat limit) r else r))"

definition LatestSequence :: "goContext \<Rightarrow> Store \<Rightarrow> goError + 64 word" where
  "LatestSequence ctx s = reading ctx s (\<lambda>tid. Inr (seqOf s tid))"

definition PurgeTenantData :: "goContext \<Rightarrow> Store \<Rightarrow> goError + Store" where
  "PurgeTenantData ctx s = bindE (tenantIDFromCtx ctx) (\<lambda>tid.
     Inr (s\<lparr>st_tuples := (st_tuples s)(tid \<mapsto> []), st_objAttrs := (st_objAttrs s)(tid \<mapsto> []),
       st_subAttrs := (st_subAttrs s)(tid \<mapsto> []), st_changelog := (st_changelog s)(tid \<mapsto> []),
       st_seqCounter := (st_seqCounter s)(tid \<mapsto> 0)\<rparr>))"

end
