(* ===== verification/Store_Laws.thy ===== *)
theory Store_Laws
  imports Memory_Store
begin

text \<open>
  What the memory store promises. Its abstract state is, per tenant, a map from identity keys to tuples
  (\<open>tupleMap\<close>); \<open>storeStep\<close> is one successful call of a method that changes the store. Every reachable store
  satisfies \<open>storeOk\<close>, and a step touches the data of one tenant only.
\<close>

section \<open>The abstract state\<close>

definition tupleMap :: "RelationTuple list \<Rightarrow> (str \<rightharpoonup> RelationTuple)" where
  "tupleMap ts = map_of (map (\<lambda>t. (tupleIdentityKey t, t)) ts)"

definition putTuple :: "RelationTuple \<Rightarrow> (str \<rightharpoonup> RelationTuple) \<Rightarrow> (str \<rightharpoonup> RelationTuple)" where
  "putTuple t m = m(tupleIdentityKey t \<mapsto> t)"

definition replayEntry :: "ChangelogEntry \<Rightarrow> (str \<rightharpoonup> RelationTuple) \<Rightarrow> (str \<rightharpoonup> RelationTuple)" where
  "replayEntry e m =
     (if Operation e = ChangeOpInsert then putTuple (EntryTuple e) m
      else if Operation e = ChangeOpDelete then m(tupleIdentityKey (EntryTuple e) := None) else m)"

definition replay :: "ChangelogEntry list \<Rightarrow> (str \<rightharpoonup> RelationTuple)" where
  "replay es = fold replayEntry es Map.empty"

definition logOk :: "ChangelogEntry list \<Rightarrow> 64 word \<Rightarrow> bool" where
  "logOk es n \<longleftrightarrow> map Sequence es = map (\<lambda>i. of_nat (i + 1)) [0..<length es] \<and> n = of_nat (length es)"

definition dataOk :: "str \<Rightarrow> RelationTuple list \<Rightarrow> ChangelogEntry list \<Rightarrow> 64 word \<Rightarrow> bool" where
  "dataOk tid ts es n \<longleftrightarrow>
     distinct (map tupleIdentityKey ts) \<and> (\<forall>t \<in> set ts. TupleTenantID t = tid) \<and>
     (\<forall>e \<in> set es. EntryTenantID e = tid) \<and> logOk es n \<and> replay es = tupleMap ts"

definition tenantsOk :: "Store \<Rightarrow> bool" where
  "tenantsOk s \<longleftrightarrow> distinct (map fst (st_tenants s)) \<and> (\<forall>(k, t) \<in> set (st_tenants s). TenantIdent t = k)"

definition bucketsOk :: "Store \<Rightarrow> bool" where
  "bucketsOk s \<longleftrightarrow> fst ` set (st_tenants s) \<subseteq> dom (st_tuples s) \<and>
     dom (st_objAttrs s) = dom (st_tuples s) \<and> dom (st_subAttrs s) = dom (st_tuples s) \<and>
     dom (st_changelog s) = dom (st_tuples s) \<and> dom (st_seqCounter s) = dom (st_tuples s)"

definition storeOk :: "Store \<Rightarrow> bool" where
  "storeOk s \<longleftrightarrow> tenantsOk s \<and> bucketsOk s \<and> (\<forall>tid. dataOk tid (tuplesOf s tid) (changelogOf s tid) (seqOf s tid))"

text \<open>
  The methods that change the data of the tenant in the context; \<^verbatim>\<open>AppendChangelog\<close>, which nothing calls, is not
  among them. \<^verbatim>\<open>WriteTuple\<close> is the write of one tuple.
\<close>

datatype dataCall =
    CallWrite "RelationTuple list" | CallDelete RelationTuple | CallSetObject str str "gomap option"
  | CallSetSubject str str "gomap option" | CallPurge

fun runCall :: "gotime \<Rightarrow> goContext \<Rightarrow> dataCall \<Rightarrow> Store \<Rightarrow> goError + Store" where
  "runCall now ctx (CallWrite ts) s = WriteTuples now ctx ts s"
| "runCall now ctx (CallDelete t) s = DeleteTuple now ctx t s"
| "runCall now ctx (CallSetObject ty i attrs) s = SetObjectAttributes ctx ty i attrs s"
| "runCall now ctx (CallSetSubject ty i attrs) s = SetSubjectAttributes ctx ty i attrs s"
| "runCall now ctx CallPurge s = PurgeTenantData ctx s"

inductive storeStep :: "Store \<Rightarrow> Store \<Rightarrow> bool" where
  createTenant: "CreateTenant now ten s = Inr s' \<Longrightarrow> storeStep s s'"
| updateTenant: "UpdateTenant now ten s = Inr s' \<Longrightarrow> storeStep s s'"
| data: "runCall now ctx c s = Inr s' \<Longrightarrow> storeStep s s'"

inductive storeReachable :: "Store \<Rightarrow> bool" where
  fresh: "storeReachable NewStore"
| step: "storeReachable s \<Longrightarrow> storeStep s s' \<Longrightarrow> storeReachable s'"

text \<open>The context of a tenant, and stores that agree on all tenants but one.\<close>

definition forTenant :: "goContext \<Rightarrow> str \<Rightarrow> bool" where
  "forTenant ctx tid \<longleftrightarrow> (\<exists>tc. ctx = Some tc \<and> CtxTenantID tc = tid)"

definition agreeOn :: "str \<Rightarrow> Store \<Rightarrow> Store \<Rightarrow> bool" where
  "agreeOn x s s' \<longleftrightarrow> map_of (st_tenants s') x = map_of (st_tenants s) x \<and> st_tuples s' x = st_tuples s x \<and>
     st_objAttrs s' x = st_objAttrs s x \<and> st_subAttrs s' x = st_subAttrs s x \<and>
     st_changelog s' x = st_changelog s x \<and> st_seqCounter s' x = st_seqCounter s x"

section \<open>Tuples as a map\<close>

lemma tupleMap_Nil [simp]: "tupleMap [] = Map.empty"
  by (simp add: tupleMap_def)

lemma dom_tupleMap: "dom (tupleMap ts) = tupleIdentityKey ` set ts"
  by (simp add: tupleMap_def dom_map_of_conv_image_fst image_image)

lemma tupleMap_snoc:
  "tupleIdentityKey t \<notin> tupleIdentityKey ` set ts \<Longrightarrow> tupleMap (ts @ [t]) = putTuple t (tupleMap ts)"
  by (induction ts) (auto simp: tupleMap_def putTuple_def fun_eq_iff)

lemma tupleMap_iff:
  "distinct (map tupleIdentityKey ts) \<Longrightarrow> tupleMap ts k = Some t \<longleftrightarrow> t \<in> set ts \<and> tupleIdentityKey t = k"
  by (auto simp: tupleMap_def comp_def map_of_eq_Some_iff)

lemma keys_update:
  "j < length ts \<Longrightarrow> tupleIdentityKey (ts ! j) = tupleIdentityKey t \<Longrightarrow>
   map tupleIdentityKey (ts[j := t]) = map tupleIdentityKey ts"
  by (simp add: list_eq_iff_nth_eq nth_list_update)

lemma tupleMap_replace:
  assumes "distinct (map tupleIdentityKey (before @ u # after))" "tupleIdentityKey u = tupleIdentityKey t"
  shows "tupleMap (before @ t # after) = putTuple t (tupleMap (before @ u # after))"
proof -
  have "tupleIdentityKey t \<notin> tupleIdentityKey ` set before" using assms by auto
  then have "map_of (map (\<lambda>t. (tupleIdentityKey t, t)) before) (tupleIdentityKey t) = None"
    by (simp add: map_of_eq_None_iff image_image)
  then show ?thesis
    using assms by (auto simp: tupleMap_def putTuple_def fun_eq_iff map_add_def split: option.splits)
qed

lemma tupleMap_update:
  assumes "distinct (map tupleIdentityKey ts)" "j < length ts" "tupleIdentityKey (ts ! j) = tupleIdentityKey t"
  shows "tupleMap (ts[j := t]) = putTuple t (tupleMap ts)"
  using assms tupleMap_replace [of "take j ts" "ts ! j" "drop (Suc j) ts" t]
  by (metis id_take_nth_drop upd_conv_take_nth_drop)

lemma tupleMap_delete:
  assumes "distinct (map tupleIdentityKey (before @ t # after))"
  shows "tupleMap (before @ after) = (tupleMap (before @ t # after))(tupleIdentityKey t := None)"
proof -
  have "tupleMap (before @ after) (tupleIdentityKey t) = None"
    using assms by (simp add: tupleMap_def map_add_None map_of_eq_None_iff image_image)
  then show ?thesis by (auto simp: tupleMap_def fun_eq_iff map_add_def split: option.splits)
qed

section \<open>The loops of a write\<close>

lemma scanExisting_spec:
  "scanExisting now i ts (ex, xp) = (ex', xp') \<Longrightarrow>
   set ex' = set ex \<union> tupleIdentityKey ` {t \<in> set ts. \<not> tupleIsExpiredAt t now} \<and>
   fst ` set xp' = fst ` set xp \<union> tupleIdentityKey ` {t \<in> set ts. tupleIsExpiredAt t now} \<and>
   (\<forall>k j. map_of xp' k = Some j \<longrightarrow>
      map_of xp k = Some j \<or> (\<exists>m < length ts. j = i + m \<and> tupleIdentityKey (ts ! m) = k \<and> tupleIsExpiredAt (ts ! m) now))"
proof (induction now i ts "(ex, xp)" arbitrary: ex xp rule: scanExisting.induct)
  case (2 now i t ts ex xp)
  let ?k = "tupleIdentityKey t"
  define ex1 xp1 where e1: "ex1 = (if tupleIsExpiredAt t now then ex else ?k # ex)"
    and x1: "xp1 = (if tupleIsExpiredAt t now \<and> map_of xp ?k = None then (?k, i) # xp else xp)"
  have s: "scanExisting now (Suc i) ts (ex1, xp1) = (ex', xp')"
    using "2.prems" by (cases "map_of xp ?k") (auto simp: e1 x1 split: if_splits)
  have IH: "set ex' = set ex1 \<union> tupleIdentityKey ` {t \<in> set ts. \<not> tupleIsExpiredAt t now} \<and>
   fst ` set xp' = fst ` set xp1 \<union> tupleIdentityKey ` {t \<in> set ts. tupleIsExpiredAt t now} \<and>
   (\<forall>k j. map_of xp' k = Some j \<longrightarrow>
      map_of xp1 k = Some j \<or> (\<exists>m < length ts. j = Suc i + m \<and> tupleIdentityKey (ts ! m) = k \<and> tupleIsExpiredAt (ts ! m) now))"
    by (rule "2.hyps" [OF _ s]) (simp add: e1 x1)
  have m: "map_of xp ?k = None \<longleftrightarrow> ?k \<notin> fst ` set xp" by (simp add: map_of_eq_None_iff)
  have A: "fst ` set xp1 \<union> tupleIdentityKey ` {t \<in> set ts. tupleIsExpiredAt t now} =
      fst ` set xp \<union> tupleIdentityKey ` {u \<in> set (t # ts). tupleIsExpiredAt u now}"
    unfolding x1 m by (cases "tupleIsExpiredAt t now"; cases "?k \<in> fst ` set xp") (simp_all add: Collect_disj_eq conj_disj_distribR image_Un insert_absorb Collect_conv_if)
  have B: "set ex1 \<union> tupleIdentityKey ` {t \<in> set ts. \<not> tupleIsExpiredAt t now} =
      set ex \<union> tupleIdentityKey ` {u \<in> set (t # ts). \<not> tupleIsExpiredAt u now}"
    by (auto simp: e1)
  have C: "map_of xp k = Some j \<or>
      (\<exists>m < length (t # ts). j = i + m \<and> tupleIdentityKey ((t # ts) ! m) = k \<and> tupleIsExpiredAt ((t # ts) ! m) now)"
    if "map_of xp' k = Some j" for k j
  proof -
    from IH [THEN conjunct2, THEN conjunct2, rule_format, OF that] show ?thesis
    proof (elim disjE exE conjE)
      assume "map_of xp1 k = Some j"
      then show ?thesis by (auto simp: x1 split: if_splits)
    next
      fix m assume "m < length ts" "j = Suc i + m" "tupleIdentityKey (ts ! m) = k" "tupleIsExpiredAt (ts ! m) now"
      then show ?thesis by (intro disjI2 exI [of _ "Suc m"]) simp
    qed
  qed
  show ?case using IH A B C by simp
qed simp

lemma stageTuples_Inr:
  "stageTuples now tid ex batch ts = Inr staged \<longleftrightarrow>
   staged = map (stamp now tid) ts \<and> distinct (map tupleIdentityKey ts) \<and>
   tupleIdentityKey ` set ts \<inter> (set ex \<union> set batch) = {}"
  by (induction now tid ex batch ts arbitrary: staged rule: stageTuples.induct) (auto simp: bindE_Inr)

lemma stageTuples_Inl: "stageTuples now tid ex batch ts = Inl e \<Longrightarrow> e = ErrDuplicateTuple"
  by (induction now tid ex batch ts rule: stageTuples.induct) (auto simp: bindE_Inl split: if_splits)

lemma key_stamp [simp]: "tupleIdentityKey (stamp now tid t) = tupleIdentityKey t"
  by (simp add: stamp_def tupleIdentityKey_def)

lemma tenant_stamp [simp]: "TupleTenantID (stamp now tid t) = tid"
  by (simp add: stamp_def)

text \<open>Placing keeps keys where they are and behaves on the map as inserting one tuple after the other.\<close>

lemma placeTuples_spec:
  assumes "\<forall>k j. map_of xp k = Some j \<longrightarrow> j < length ts \<and> tupleIdentityKey (ts ! j) = k"
    "distinct (map tupleIdentityKey ts)" "distinct (map tupleIdentityKey (ap @ staged))"
    "\<forall>t \<in> set staged. tupleIdentityKey t \<in> tupleIdentityKey ` set ts \<longrightarrow> map_of xp (tupleIdentityKey t) \<noteq> None"
    "tupleIdentityKey ` set ap \<inter> tupleIdentityKey ` set ts = {}"
  shows "distinct (map tupleIdentityKey (placeTuples xp staged (ts, ap))) \<and>
    tupleMap (placeTuples xp staged (ts, ap)) = fold putTuple staged (tupleMap (ts @ ap)) \<and>
    set (placeTuples xp staged (ts, ap)) \<subseteq> set ts \<union> set ap \<union> set staged"
  using assms
proof (induction xp staged "(ts, ap)" arbitrary: ts ap rule: placeTuples.induct)
  case (1 xp ts ap)
  then show ?case by auto
next
  case (2 xp t staged ts ap)
  let ?k = "tupleIdentityKey t"
  have f: "?k \<notin> tupleIdentityKey ` set ap" using "2.prems"(3) by auto
  show ?case
  proof (cases "map_of xp ?k")
    case None
    then have n: "?k \<notin> tupleIdentityKey ` set ts" using "2.prems"(4) by auto
    have "tupleMap (ts @ ap @ [t]) = putTuple t (tupleMap (ts @ ap))"
      using tupleMap_snoc [of t "ts @ ap"] n f by auto
    moreover have "tupleIdentityKey ` set (ap @ [t]) \<inter> tupleIdentityKey ` set ts = {}" using "2.prems"(5) n by auto
    ultimately show ?thesis
      using "2.hyps"(1) [OF None] "2.prems" None by auto
  next
    case (Some j)
    then have j: "j < length ts" "tupleIdentityKey (ts ! j) = ?k" using "2.prems"(1) by auto
    let ?ts = "ts[j := t]"
    have k: "map tupleIdentityKey ?ts = map tupleIdentityKey ts" using keys_update j by simp
    then have ks: "tupleIdentityKey ` set ?ts = tupleIdentityKey ` set ts" by (metis list.set_map)
    have "tupleMap (?ts @ ap) = putTuple t (tupleMap (ts @ ap))"
    proof -
      have "distinct (map tupleIdentityKey (ts @ ap))" using "2.prems"(2,3,5) by auto
      then have "tupleMap ((ts @ ap)[j := t]) = putTuple t (tupleMap (ts @ ap))"
        by (rule tupleMap_update) (use j in \<open>simp_all add: nth_append\<close>)
      then show ?thesis using j by (simp add: list_update_append)
    qed
    moreover have "\<forall>k m. map_of xp k = Some m \<longrightarrow> m < length ?ts \<and> tupleIdentityKey (?ts ! m) = k"
      using "2.prems"(1) j by (metis length_list_update nth_list_update)
    moreover have "set ?ts \<subseteq> insert t (set ts)" by (rule set_update_subset_insert)
    moreover have "distinct (map tupleIdentityKey (ap @ staged))" using "2.prems"(3) by auto
    ultimately show ?thesis
      using "2.hyps"(2) [OF Some] "2.prems" Some k ks by auto
  qed
qed

section \<open>The log\<close>

lemma replay_snoc [simp]: "replay (es @ [e]) = replayEntry e (replay es)"
  by (simp add: replay_def)

lemma replay_Nil [simp]: "replay [] = Map.empty"
  by (simp add: replay_def)

lemma logOk_snoc: "logOk es n \<Longrightarrow> Sequence e = n + 1 \<Longrightarrow> logOk (es @ [e]) (n + 1)"
  by (simp add: logOk_def)

lemma append_simps [simp]:
  "st_tenants (appendTupleChangelogUnsafe now tid oper t src s) = st_tenants s"
  "st_tuples (appendTupleChangelogUnsafe now tid oper t src s) = st_tuples s"
  "st_objAttrs (appendTupleChangelogUnsafe now tid oper t src s) = st_objAttrs s"
  "st_subAttrs (appendTupleChangelogUnsafe now tid oper t src s) = st_subAttrs s"
  "tuplesOf (appendTupleChangelogUnsafe now tid oper t src s) x = tuplesOf s x"
  "dom (st_changelog (appendTupleChangelogUnsafe now tid oper t src s)) = insert tid (dom (st_changelog s))"
  "dom (st_seqCounter (appendTupleChangelogUnsafe now tid oper t src s)) = insert tid (dom (st_seqCounter s))"
  "x \<noteq> tid \<Longrightarrow> st_changelog (appendTupleChangelogUnsafe now tid oper t src s) x = st_changelog s x"
  "x \<noteq> tid \<Longrightarrow> st_seqCounter (appendTupleChangelogUnsafe now tid oper t src s) x = st_seqCounter s x"
  by (simp_all add: appendTupleChangelogUnsafe_def Let_def tuplesOf_def)

lemma append_log:
  "seqOf (appendTupleChangelogUnsafe now tid oper t src s) tid = seqOf s tid + 1"
  "changelogOf (appendTupleChangelogUnsafe now tid oper t src s) tid = changelogOf s tid @
     [\<lparr>Sequence = seqOf s tid + 1, EntryTenantID = tid, Operation = oper, EntryTuple = t, Timestamp = now, Actor = [], Source = src,
       EntryMetadata = None\<rparr>]"
  by (simp_all add: appendTupleChangelogUnsafe_def Let_def seqOf_def changelogOf_def)

definition insertAll :: "gotime \<Rightarrow> str \<Rightarrow> RelationTuple list \<Rightarrow> Store \<Rightarrow> Store" where
  "insertAll now tid ts s = fold (\<lambda>t. appendTupleChangelogUnsafe now tid ChangeOpInsert t (js ''api'')) ts s"

lemma insertAll_Nil [simp]: "insertAll now tid [] s = s"
  by (simp add: insertAll_def)

lemma insertAll_Cons:
  "insertAll now tid (t # ts) s = insertAll now tid ts (appendTupleChangelogUnsafe now tid ChangeOpInsert t (js ''api'') s)"
  by (simp add: insertAll_def)

lemma insertAll_frame [simp]:
  "st_tenants (insertAll now tid ts s) = st_tenants s \<and> st_tuples (insertAll now tid ts s) = st_tuples s \<and>
   st_objAttrs (insertAll now tid ts s) = st_objAttrs s \<and> st_subAttrs (insertAll now tid ts s) = st_subAttrs s"
  by (induction ts arbitrary: s) (simp_all add: insertAll_Cons)

lemma insertAll_other [simp]:
  "x \<noteq> tid \<Longrightarrow> st_changelog (insertAll now tid ts s) x = st_changelog s x \<and>
     st_seqCounter (insertAll now tid ts s) x = st_seqCounter s x"
  by (induction ts arbitrary: s) (simp_all add: insertAll_Cons)

lemma insertAll_dom:
  "ts \<noteq> [] \<Longrightarrow> dom (st_changelog (insertAll now tid ts s)) = insert tid (dom (st_changelog s)) \<and>
     dom (st_seqCounter (insertAll now tid ts s)) = insert tid (dom (st_seqCounter s))"
proof (induction ts arbitrary: s)
  case (Cons t ts)
  show ?case
  proof (cases "ts = []")
    case False
    then show ?thesis using Cons.IH [OF False] by (simp only: insertAll_Cons append_simps insert_absorb2 simp_thms)
  qed (simp add: insertAll_Cons)
qed simp

lemma insertAll_log:
  assumes "logOk (changelogOf s tid) (seqOf s tid)" "\<forall>e \<in> set (changelogOf s tid). EntryTenantID e = tid"
  shows "logOk (changelogOf (insertAll now tid ts s) tid) (seqOf (insertAll now tid ts s) tid) \<and>
    (\<forall>e \<in> set (changelogOf (insertAll now tid ts s) tid). EntryTenantID e = tid) \<and>
    replay (changelogOf (insertAll now tid ts s) tid) = fold putTuple ts (replay (changelogOf s tid))"
  using assms
proof (induction ts arbitrary: s)
  case (Cons t ts)
  let ?s = "appendTupleChangelogUnsafe now tid ChangeOpInsert t (js ''api'') s"
  have a: "logOk (changelogOf ?s tid) (seqOf ?s tid)" using Cons.prems(1) unfolding append_log by (rule logOk_snoc) simp
  have b: "\<forall>e \<in> set (changelogOf ?s tid). EntryTenantID e = tid" using Cons.prems(2) by (simp add: append_log)
  have r: "replay (changelogOf ?s tid) = putTuple t (replay (changelogOf s tid))" by (simp add: append_log replayEntry_def)
  show ?case using Cons.IH [OF a b] unfolding r insertAll_Cons fold.simps comp_def .
qed simp

section \<open>Writing and deleting\<close>

text \<open>A write succeeds exactly when its keys are new, up to expired tuples; then it inserts into the map.\<close>

definition writable :: "gotime \<Rightarrow> RelationTuple list \<Rightarrow> RelationTuple list \<Rightarrow> bool" where
  "writable now news ts \<longleftrightarrow> distinct (map tupleIdentityKey news) \<and>
     (\<forall>t \<in> set news. \<forall>u \<in> set ts. tupleIdentityKey u = tupleIdentityKey t \<longrightarrow> tupleIsExpiredAt u now)"

lemma writeTuplesLocked_spec:
  assumes "dataOk tid (tuplesOf s tid) (changelogOf s tid) (seqOf s tid)"
  shows "if writable now news (tuplesOf s tid)
    then \<exists>s'. writeTuplesLocked now tid news s = Inr s' \<and> (\<forall>x. x \<noteq> tid \<longrightarrow> agreeOn x s s') \<and>
      st_tenants s' = st_tenants s \<and> st_objAttrs s' = st_objAttrs s \<and> st_subAttrs s' = st_subAttrs s \<and>
      dataOk tid (tuplesOf s' tid) (changelogOf s' tid) (seqOf s' tid) \<and>
      tupleMap (tuplesOf s' tid) = fold putTuple (map (stamp now tid) news) (tupleMap (tuplesOf s tid)) \<and>
      (news = [] \<longrightarrow> s' = s) \<and> (news \<noteq> [] \<longrightarrow> dom (st_tuples s') = insert tid (dom (st_tuples s)) \<and>
        dom (st_changelog s') = insert tid (dom (st_changelog s)) \<and> dom (st_seqCounter s') = insert tid (dom (st_seqCounter s)))
    else writeTuplesLocked now tid news s = Inl ErrDuplicateTuple"
proof (cases "news = []")
  case True
  then show ?thesis using assms by (simp add: writeTuplesLocked_def writable_def agreeOn_def)
next
  case False
  let ?ts = "tuplesOf s tid"
  obtain ex xp where scan: "scanExisting now 0 ?ts ([], []) = (ex, xp)" by (cases "scanExisting now 0 ?ts ([], [])")
  note sc = scanExisting_spec [OF scan, simplified]
  have w: "writeTuplesLocked now tid news s = bindE (stageTuples now tid ex [] news) (\<lambda>staged.
      Inr (insertAll now tid staged (s\<lparr>st_tuples := (st_tuples s)(tid \<mapsto> placeTuples xp staged (?ts, []))\<rparr>)))"
    using False scan by (simp add: writeTuplesLocked_def insertAll_def)
  have wr: "writable now news ?ts \<longleftrightarrow> distinct (map tupleIdentityKey news) \<and> tupleIdentityKey ` set news \<inter> set ex = {}"
    using sc by (auto simp: writable_def)
  show ?thesis
  proof (cases "writable now news ?ts")
    case False
    then have "\<nexists>staged. stageTuples now tid ex [] news = Inr staged" using wr by (auto simp: stageTuples_Inr)
    then show ?thesis using False w stageTuples_Inl by (cases "stageTuples now tid ex [] news") auto
  next
    case True
    let ?st = "map (stamp now tid) news"
    define ts' where "ts' = placeTuples xp ?st (?ts, [])"
    define s1 where "s1 = s\<lparr>st_tuples := (st_tuples s)(tid \<mapsto> ts')\<rparr>"
    let ?s' = "insertAll now tid ?st s1"
    have "stageTuples now tid ex [] news = Inr ?st" using True wr by (simp add: stageTuples_Inr)
    then have r: "writeTuplesLocked now tid news s = Inr ?s'" using w by (simp add: ts'_def s1_def)
    have xp: "\<forall>k j. map_of xp k = Some j \<longrightarrow> j < length ?ts \<and> tupleIdentityKey (?ts ! j) = k" using sc by metis
    have ks: "map tupleIdentityKey ?st = map tupleIdentityKey news" by simp
    have cov: "\<forall>t \<in> set ?st. tupleIdentityKey t \<in> tupleIdentityKey ` set ?ts \<longrightarrow> map_of xp (tupleIdentityKey t) \<noteq> None"
    proof (intro ballI impI)
      fix t assume t: "t \<in> set ?st" "tupleIdentityKey t \<in> tupleIdentityKey ` set ?ts"
      then obtain u where u: "u \<in> set ?ts" "tupleIdentityKey u = tupleIdentityKey t" by auto
      have "tupleIsExpiredAt u now" using True t(1) u by (auto simp: writable_def)
      then have "tupleIdentityKey t \<in> fst ` set xp" using sc u by (metis (mono_tags, lifting) imageI mem_Collect_eq)
      then show "map_of xp (tupleIdentityKey t) \<noteq> None" by (simp add: map_of_eq_None_iff)
    qed
    have d: "distinct (map tupleIdentityKey ?ts)" "replay (changelogOf s tid) = tupleMap ?ts" using assms by (auto simp: dataOk_def)
    have p: "distinct (map tupleIdentityKey ts') \<and> tupleMap ts' = fold putTuple ?st (tupleMap ?ts) \<and> set ts' \<subseteq> set ?ts \<union> set ?st"
      using placeTuples_spec [OF xp d(1), of "[]" ?st] cov True by (simp add: ts'_def writable_def comp_def)
    have s1: "tuplesOf s1 tid = ts'" "changelogOf s1 tid = changelogOf s tid" "seqOf s1 tid = seqOf s tid"
      by (simp_all add: s1_def tuplesOf_def changelogOf_def seqOf_def)
    have t': "tuplesOf ?s' tid = ts'" using s1(1) by (simp add: tuplesOf_def)
    have l: "logOk (changelogOf ?s' tid) (seqOf ?s' tid) \<and> (\<forall>e \<in> set (changelogOf ?s' tid). EntryTenantID e = tid) \<and>
        replay (changelogOf ?s' tid) = fold putTuple ?st (replay (changelogOf s tid))"
      using insertAll_log [of s1 tid now ?st] assms s1 by (simp add: dataOk_def)
    have "dataOk tid (tuplesOf ?s' tid) (changelogOf ?s' tid) (seqOf ?s' tid)"
      using p l d assms by (auto simp: dataOk_def t')
    moreover have "\<forall>x. x \<noteq> tid \<longrightarrow> agreeOn x s ?s'" by (simp add: agreeOn_def s1_def)
    ultimately show ?thesis
      using True False r p t' insertAll_dom [of ?st now tid s1] by (simp add: s1_def)
  qed
qed

lemma extract_key:
  assumes "List.extract (sameTuple tuple) ts = Some (before, t, after)"
  shows "ts = before @ t # after \<and> sameTuple tuple t \<and> tupleIdentityKey t = tupleIdentityKey tuple"
  using assms by (auto simp: List.extract_Some_iff sameTuple_def tupleIdentityKey_def)

lemma delete_data:
  fixes now :: gotime and src :: str
  assumes "dataOk tid (before @ t # after) (changelogOf s tid) (seqOf s tid)"
  defines "s' \<equiv> appendTupleChangelogUnsafe now tid ChangeOpDelete t src (s\<lparr>st_tuples := (st_tuples s)(tid \<mapsto> before @ after)\<rparr>)"
  shows "dataOk tid (tuplesOf s' tid) (changelogOf s' tid) (seqOf s' tid) \<and>
    tupleMap (tuplesOf s' tid) = (tupleMap (before @ t # after))(tupleIdentityKey t := None)"
proof -
  let ?s = "s\<lparr>st_tuples := (st_tuples s)(tid \<mapsto> before @ after)\<rparr>"
  have e: "changelogOf ?s tid = changelogOf s tid" "seqOf ?s tid = seqOf s tid" "tuplesOf ?s tid = before @ after"
    by (simp_all add: changelogOf_def seqOf_def tuplesOf_def)
  have d: "distinct (map tupleIdentityKey (before @ t # after))" using assms(1) by (simp add: dataOk_def)
  have l: "logOk (changelogOf s' tid) (seqOf s' tid)"
    unfolding s'_def append_log e using assms(1) by (intro logOk_snoc) (simp_all add: dataOk_def)
  have r: "replay (changelogOf s' tid) = (tupleMap (before @ t # after))(tupleIdentityKey t := None)"
    unfolding s'_def append_log e using assms(1) by (simp add: replayEntry_def dataOk_def)
  have t: "tuplesOf s' tid = before @ after" unfolding s'_def append_simps e ..
  have c: "\<forall>e \<in> set (changelogOf s' tid). EntryTenantID e = tid"
    unfolding s'_def append_log e using assms(1) by (simp add: dataOk_def)
  show ?thesis
    unfolding t dataOk_def using l r c tupleMap_delete [OF d] d assms(1) by (auto simp: dataOk_def)
qed

section \<open>The invariant\<close>

definition grows :: "str \<Rightarrow> Store \<Rightarrow> Store \<Rightarrow> bool" where
  "grows tid s s' \<longleftrightarrow> dom (st_tuples s') = insert tid (dom (st_tuples s)) \<and>
     dom (st_objAttrs s') = insert tid (dom (st_objAttrs s)) \<and> dom (st_subAttrs s') = insert tid (dom (st_subAttrs s)) \<and>
     dom (st_changelog s') = insert tid (dom (st_changelog s)) \<and> dom (st_seqCounter s') = insert tid (dom (st_seqCounter s))"

lemma agreeOn_data:
  "agreeOn x s s' \<Longrightarrow> tuplesOf s' x = tuplesOf s x \<and> changelogOf s' x = changelogOf s x \<and> seqOf s' x = seqOf s x"
  by (simp add: agreeOn_def tuplesOf_def changelogOf_def seqOf_def)

lemma storeOk_step:
  assumes "storeOk s" "st_tenants s' = st_tenants s" "\<forall>x. x \<noteq> tid \<longrightarrow> agreeOn x s s'" "grows tid s s'"
    "dataOk tid (tuplesOf s' tid) (changelogOf s' tid) (seqOf s' tid)"
  shows "storeOk s'"
proof -
  have "tenantsOk s' \<and> bucketsOk s'"
    using assms(1,2,4) by (auto simp: storeOk_def tenantsOk_def bucketsOk_def grows_def)
  moreover have "dataOk x (tuplesOf s' x) (changelogOf s' x) (seqOf s' x)" for x
    using assms(1,3,5) agreeOn_data [of x s s'] by (cases "x = tid") (auto simp: storeOk_def)
  ultimately show ?thesis by (simp add: storeOk_def)
qed

lemma tenantIDFromCtx_Inr: "tenantIDFromCtx ctx = Inr tid \<longleftrightarrow> forTenant ctx tid"
  by (auto simp: tenantIDFromCtx_def TenantFromContext_def forTenant_def split: option.splits)

definition writableTenant :: "Store \<Rightarrow> str \<Rightarrow> bool" where
  "writableTenant s tid \<longleftrightarrow> (\<exists>ten. map_of (st_tenants s) tid = Some ten \<and>
     Status ten \<noteq> TenantDeleted \<and> Status ten \<noteq> TenantSuspended \<and> Status ten \<noteq> TenantPending)"

definition readableTenant :: "Store \<Rightarrow> str \<Rightarrow> bool" where
  "readableTenant s tid \<longleftrightarrow> (\<exists>ten. map_of (st_tenants s) tid = Some ten \<and> Status ten \<noteq> TenantDeleted)"

lemma checkTenantWritable_Inr: "checkTenantWritable s tid = Inr u \<longleftrightarrow> writableTenant s tid"
  by (simp add: checkTenantWritable_def writableTenant_def split: option.splits)

lemma checkTenantReadable_Inr: "checkTenantReadable s tid = Inr u \<longleftrightarrow> readableTenant s tid"
  by (simp add: checkTenantReadable_def readableTenant_def split: option.splits)

lemma writing_Inr: "writing ctx s body = Inr r \<longleftrightarrow> (\<exists>tid. forTenant ctx tid \<and> writableTenant s tid \<and> body tid = Inr r)"
  by (simp add: writing_def bindE_Inr tenantIDFromCtx_Inr checkTenantWritable_Inr)

lemma reading_Inr: "reading ctx s body = Inr r \<longleftrightarrow> (\<exists>tid. forTenant ctx tid \<and> readableTenant s tid \<and> body tid = Inr r)"
  by (simp add: reading_def bindE_Inr tenantIDFromCtx_Inr checkTenantReadable_Inr)

lemma writableTenant_ex: "writableTenant s tid \<Longrightarrow> \<exists>ten. map_of (st_tenants s) tid = Some ten"
  by (auto simp: writableTenant_def)

lemma tenant_bucket:
  assumes "storeOk s" "writableTenant s tid"
  shows "tid \<in> dom (st_tuples s) \<and> tid \<in> dom (st_objAttrs s) \<and> tid \<in> dom (st_subAttrs s) \<and>
    tid \<in> dom (st_changelog s) \<and> tid \<in> dom (st_seqCounter s)"
proof -
  have t: "tid \<in> fst ` set (st_tenants s)" using writableTenant_ex [OF assms(2)] by (metis map_of_SomeD fst_conv image_eqI)
  have b: "fst ` set (st_tenants s) \<subseteq> dom (st_tuples s)" "dom (st_objAttrs s) = dom (st_tuples s)"
    "dom (st_subAttrs s) = dom (st_tuples s)" "dom (st_changelog s) = dom (st_tuples s)" "dom (st_seqCounter s) = dom (st_tuples s)"
    using assms(1) by (simp_all add: storeOk_def bucketsOk_def)
  show ?thesis unfolding b using subsetD [OF b(1) t] by (simp only: simp_thms)
qed

definition callOk :: "goContext \<Rightarrow> Store \<Rightarrow> Store \<Rightarrow> bool" where
  "callOk ctx s s' \<longleftrightarrow> (\<exists>tid. forTenant ctx tid \<and> st_tenants s' = st_tenants s \<and> (\<forall>x. x \<noteq> tid \<longrightarrow> agreeOn x s s') \<and>
     (s' = s \<or> grows tid s s' \<and> dataOk tid (tuplesOf s' tid) (changelogOf s' tid) (seqOf s' tid)))"

lemma callOk_storeOk: "callOk ctx s s' \<Longrightarrow> storeOk s \<Longrightarrow> storeOk s'"
  unfolding callOk_def using storeOk_step by metis

lemma dataOk_of: "storeOk s \<Longrightarrow> dataOk tid (tuplesOf s tid) (changelogOf s tid) (seqOf s tid)"
  by (simp add: storeOk_def)

lemma write_callOk:
  assumes "WriteTuples now ctx ts s = Inr s'" "storeOk s"
  shows "callOk ctx s s'"
proof -
  obtain tid where w: "forTenant ctx tid" "writableTenant s tid" "writeTuplesLocked now tid ts s = Inr s'"
    using assms(1) by (auto simp: WriteTuples_def writing_Inr)
  note b = tenant_bucket [OF assms(2) w(2)]
  have "writable now ts (tuplesOf s tid)"
    using writeTuplesLocked_spec [OF dataOk_of [OF assms(2), of tid], of now ts] w(3) by (auto split: if_splits)
  then have sp: "(\<forall>x. x \<noteq> tid \<longrightarrow> agreeOn x s s') \<and> st_tenants s' = st_tenants s \<and> st_objAttrs s' = st_objAttrs s \<and>
      st_subAttrs s' = st_subAttrs s \<and> dataOk tid (tuplesOf s' tid) (changelogOf s' tid) (seqOf s' tid) \<and>
      (ts = [] \<longrightarrow> s' = s) \<and> (ts \<noteq> [] \<longrightarrow> dom (st_tuples s') = insert tid (dom (st_tuples s)) \<and>
        dom (st_changelog s') = insert tid (dom (st_changelog s)) \<and> dom (st_seqCounter s') = insert tid (dom (st_seqCounter s)))"
    using writeTuplesLocked_spec [OF dataOk_of [OF assms(2), of tid], of now ts] w(3) by auto
  then show ?thesis
    unfolding callOk_def grows_def using w(1) b by (intro exI [of _ tid]) (auto simp: insert_absorb)
qed

lemma delete_callOk:
  assumes "DeleteTuple now ctx tuple s = Inr s'" "storeOk s"
  shows "callOk ctx s s'"
proof -
  obtain tid before t after where w: "forTenant ctx tid" "writableTenant s tid"
    "List.extract (sameTuple tuple) (tuplesOf s tid) = Some (before, t, after)"
    "s' = appendTupleChangelogUnsafe now tid ChangeOpDelete t (js ''api'') (s\<lparr>st_tuples := (st_tuples s)(tid \<mapsto> before @ after)\<rparr>)"
    using assms(1) by (auto simp: DeleteTuple_def writing_Inr split: option.splits)
  note b = tenant_bucket [OF assms(2) w(2)]
  have "dataOk tid (before @ t # after) (changelogOf s tid) (seqOf s tid)"
    using dataOk_of [OF assms(2), of tid] extract_key [OF w(3)] by simp
  then have "dataOk tid (tuplesOf s' tid) (changelogOf s' tid) (seqOf s' tid)"
    unfolding w(4) by (rule delete_data [THEN conjunct1])
  moreover have "grows tid s s'" unfolding grows_def w(4) using b by (auto simp: insert_absorb)
  ultimately show ?thesis
    unfolding callOk_def using w(1) by (intro exI [of _ tid]) (simp add: agreeOn_def w(4))
qed

lemma attrs_callOk:
  assumes "SetObjectAttributes ctx ty i attrs s = Inr s' \<or> SetSubjectAttributes ctx ty i attrs s = Inr s'" "storeOk s"
  shows "callOk ctx s s'"
proof -
  obtain tid m where w: "forTenant ctx tid" "writableTenant s tid"
    "s' = s\<lparr>st_objAttrs := m\<rparr> \<and> storeAttrs tid (entityKey ty i) attrs (st_objAttrs s) = Inr m \<or>
     s' = s\<lparr>st_subAttrs := m\<rparr> \<and> storeAttrs tid (entityKey ty i) attrs (st_subAttrs s) = Inr m"
    using assms(1) by (auto simp: SetObjectAttributes_def SetSubjectAttributes_def writing_Inr bindE_Inr)
  note b = tenant_bucket [OF assms(2) w(2)]
  have "\<forall>x. x \<noteq> tid \<longrightarrow> agreeOn x s s'" using w(3) by (auto simp: agreeOn_def storeAttrs_def split: option.splits)
  moreover have "grows tid s s'" using w(3) b by (auto simp: grows_def storeAttrs_def split: option.splits)
  moreover have "tuplesOf s' tid = tuplesOf s tid \<and> changelogOf s' tid = changelogOf s tid \<and> seqOf s' tid = seqOf s tid"
    using w(3) by (auto simp: tuplesOf_def changelogOf_def seqOf_def)
  ultimately show ?thesis
    unfolding callOk_def using w dataOk_of [OF assms(2), of tid] by (intro exI [of _ tid]) auto
qed

lemma dataOk_Nil: "dataOk tid [] [] 0"
  by (simp add: dataOk_def logOk_def)

lemma purge_callOk:
  assumes "PurgeTenantData ctx s = Inr s'"
  shows "callOk ctx s s'"
proof -
  obtain tid where w: "forTenant ctx tid" "s' = s\<lparr>st_tuples := (st_tuples s)(tid \<mapsto> []), st_objAttrs := (st_objAttrs s)(tid \<mapsto> []),
       st_subAttrs := (st_subAttrs s)(tid \<mapsto> []), st_changelog := (st_changelog s)(tid \<mapsto> []),
       st_seqCounter := (st_seqCounter s)(tid \<mapsto> 0)\<rparr>"
    using assms by (auto simp: PurgeTenantData_def tenantIDFromCtx_def TenantFromContext_def forTenant_def split: option.splits)
  then show ?thesis
    unfolding callOk_def using dataOk_Nil [of tid]
    by (intro exI [of _ tid]) (simp add: agreeOn_def grows_def tuplesOf_def changelogOf_def seqOf_def)
qed

lemma runCall_ok: "runCall now ctx c s = Inr s' \<Longrightarrow> storeOk s \<Longrightarrow> callOk ctx s s'"
  by (cases c) (auto intro: write_callOk delete_callOk attrs_callOk purge_callOk)

lemma map_of_update_ids:
  assumes "distinct (map fst kvs)" "\<forall>(k, t) \<in> set kvs. TenantIdent t = k" "TenantIdent t = k"
  shows "distinct (map fst (AList.update k t kvs)) \<and> (\<forall>(k, t) \<in> set (AList.update k t kvs). TenantIdent t = k)"
proof -
  have d: "distinct (map fst (AList.update k t kvs))" using assms(1) by (rule distinct_update)
  moreover have "TenantIdent u = j" if "(j, u) \<in> set (AList.update k t kvs)" for j u
  proof -
    have "map_of (AList.update k t kvs) j = Some u" using d that by simp
    then show ?thesis using assms by (auto simp: update_conv' split: if_splits dest: map_of_SomeD)
  qed
  ultimately show ?thesis by auto
qed

lemma create_ok:
  assumes "CreateTenant now ten s = Inr s'" "storeOk s"
  shows "storeOk s'"
proof -
  let ?tid = "TenantIdent ten"
  let ?t = "ten\<lparr>TenantCreatedAt := (if IsZero (TenantCreatedAt ten) then now else TenantCreatedAt ten), TenantUpdatedAt := now\<rparr>"
  define s1 where "s1 = s\<lparr>st_tenants := AList.update ?tid ?t (st_tenants s)\<rparr>"
  have s': "s' = initTenant ?tid s1" using assms(1) by (auto simp: CreateTenant_def s1_def Let_def split: if_splits)
  have ok: "tenantsOk s" "bucketsOk s" using assms(2) by (auto simp: storeOk_def)
  have "tenantsOk s'"
    using ok(1) map_of_update_ids [of "st_tenants s" ?t ?tid] by (simp add: tenantsOk_def s' initTenant_def s1_def)
  moreover have "bucketsOk s'"
    using ok(2) by (auto simp: bucketsOk_def s' initTenant_def s1_def dom_update)
  moreover have "dataOk x (tuplesOf s' x) (changelogOf s' x) (seqOf s' x)" for x
    using dataOk_of [OF assms(2), of x] dataOk_Nil [of x]
    by (auto simp: s' initTenant_def s1_def tuplesOf_def changelogOf_def seqOf_def split: if_splits)
  ultimately show ?thesis by (simp add: storeOk_def)
qed

lemma update_ok:
  assumes "UpdateTenant now ten s = Inr s'" "storeOk s"
  shows "storeOk s'"
proof -
  let ?tid = "TenantIdent ten"
  have s': "s' = s\<lparr>st_tenants := AList.update ?tid (ten\<lparr>TenantUpdatedAt := now\<rparr>) (st_tenants s)\<rparr>"
    and k: "?tid \<in> fst ` set (st_tenants s)"
    using assms(1) by (auto simp: UpdateTenant_def map_of_eq_None_iff split: if_splits)
  have "tenantsOk s'"
    using assms(2) map_of_update_ids [of "st_tenants s" "ten\<lparr>TenantUpdatedAt := now\<rparr>" ?tid] by (simp add: tenantsOk_def s' storeOk_def)
  moreover have "bucketsOk s'" using assms(2) k by (auto simp: storeOk_def bucketsOk_def s' dom_update)
  moreover have "dataOk x (tuplesOf s' x) (changelogOf s' x) (seqOf s' x)" for x
    using dataOk_of [OF assms(2), of x] by (simp add: s' tuplesOf_def changelogOf_def seqOf_def)
  ultimately show ?thesis by (simp add: storeOk_def)
qed

lemma reachable_ok: "storeReachable s \<Longrightarrow> storeOk s"
proof (induction rule: storeReachable.induct)
  case fresh
  then show ?case
    using dataOk_Nil
    by (simp add: storeOk_def tenantsOk_def bucketsOk_def NewStore_def tuplesOf_def changelogOf_def seqOf_def)
next
  case (step s s')
  from step(2) show ?case
    by (cases rule: storeStep.cases) (use step.IH in \<open>blast intro: create_ok update_ok callOk_storeOk runCall_ok\<close>)+
qed

section \<open>Reading\<close>

text \<open>A read depends only on the data of the tenant in its context.\<close>

lemma reading_agree:
  assumes "forTenant ctx x" "agreeOn x s s'" "f x = g x"
  shows "reading ctx s' f = reading ctx s g"
  using assms
  by (auto simp: reading_def forTenant_def tenantIDFromCtx_def TenantFromContext_def checkTenantReadable_def agreeOn_def)

lemma agreeOn_attrs:
  "agreeOn x s s' \<Longrightarrow> attrsOf (st_objAttrs s') x = attrsOf (st_objAttrs s) x \<and> attrsOf (st_subAttrs s') x = attrsOf (st_subAttrs s) x"
  by (simp add: agreeOn_def attrsOf_def)

lemma reads_agree:
  assumes "forTenant ctx x" "agreeOn x s s'"
  shows "ReadTuples now ctx f s' = ReadTuples now ctx f s"
    "CheckDirect now ctx a b c d e s' = CheckDirect now ctx a b c d e s"
    "ListRelatedObjects now ctx a b c s' = ListRelatedObjects now ctx a b c s"
    "ListSubjects now ctx a b c s' = ListSubjects now ctx a b c s"
    "Expand now ctx a b c s' = Expand now ctx a b c s"
    "GetObjectAttributes ctx a b s' = GetObjectAttributes ctx a b s"
    "GetSubjectAttributes ctx a b s' = GetSubjectAttributes ctx a b s"
    "ReadChangelog ctx n l s' = ReadChangelog ctx n l s"
    "LatestSequence ctx s' = LatestSequence ctx s"
    "CountTuples now ctx s' = CountTuples now ctx s"
  unfolding ReadTuples_def CheckDirect_def ListRelatedObjects_def ListSubjects_def Expand_def GetObjectAttributes_def
    GetSubjectAttributes_def ReadChangelog_def LatestSequence_def CountTuples_def
  by (rule reading_agree [OF assms], simp add: agreeOn_data [OF assms(2)] agreeOn_attrs [OF assms(2)])+

lemma reading_tenant: "forTenant ctx tid \<Longrightarrow> readableTenant s tid \<Longrightarrow> reading ctx s f = f tid"
  by (auto simp: reading_def forTenant_def tenantIDFromCtx_def TenantFromContext_def checkTenantReadable_def readableTenant_def)

lemma writing_tenant: "forTenant ctx tid \<Longrightarrow> writableTenant s tid \<Longrightarrow> writing ctx s f = f tid"
  by (auto simp: writing_def forTenant_def tenantIDFromCtx_def TenantFromContext_def checkTenantWritable_def writableTenant_def)

lemma writable_readable: "writableTenant s tid \<Longrightarrow> readableTenant s tid"
  by (auto simp: writableTenant_def readableTenant_def)

text \<open>The live tuple of a key, if any: what a lookup sees at a time.\<close>

definition liveTuple :: "gotime \<Rightarrow> Store \<Rightarrow> str \<Rightarrow> RelationTuple \<Rightarrow> bool" where
  "liveTuple now s tid t \<longleftrightarrow> t \<in> set (tuplesOf s tid) \<and> \<not> tupleIsExpiredAt t now"

lemma keys_fold_put: "dom (fold putTuple ts m) = tupleIdentityKey ` set ts \<union> dom m"
  by (induction ts arbitrary: m) (auto simp: putTuple_def)

lemma readableTenant_code [code]:
  "readableTenant s tid = (case map_of (st_tenants s) tid of None \<Rightarrow> False | Some t \<Rightarrow> Status t \<noteq> TenantDeleted)"
  by (auto simp: readableTenant_def split: option.splits)

lemma writableTenant_code [code]:
  "writableTenant s tid = (case map_of (st_tenants s) tid of None \<Rightarrow> False
     | Some t \<Rightarrow> Status t \<noteq> TenantDeleted \<and> Status t \<noteq> TenantSuspended \<and> Status t \<noteq> TenantPending)"
  by (auto simp: writableTenant_def split: option.splits)

text \<open>A tenant that is active, a plain tuple, and the store with the tenant: the witnesses' example.\<close>

definition sampleConfig :: TenantConfig where
  "sampleConfig = \<lparr>MaxTuples = 1000000, MaxRequestsPerSec = 1000, CacheTTLOverride = None, AllowedObjectTypes = [], RetentionDays = 30,
     SyncEnabled = True, WebhookURL = [], ConfigMetadata = None\<rparr>"

definition acme :: Tenant where
  "acme = \<lparr>TenantIdent = js ''acme'', DisplayName = js ''Acme'', ParentTenantID = [], Status = TenantActive, SchemaMode = SchemaOwn,
     SharedSchemaRef = [], Config = sampleConfig, TenantCreatedAt = 1, TenantUpdatedAt = 1\<rparr>"

definition acmeContext :: goContext where
  "acmeContext = Some \<lparr>CtxTenantID = js ''acme'', CtxTenant = acme, CtxConfig = sampleConfig\<rparr>"

definition plainTuple :: "string \<Rightarrow> string \<Rightarrow> string \<Rightarrow> string \<Rightarrow> string \<Rightarrow> string \<Rightarrow> RelationTuple" where
  "plainTuple ot oi r st si sr = \<lparr>TupleTenantID = [], ObjectType = js ot, ObjectID = js oi, Relation = js r, SubjectType = js st,
     SubjectID = js si, SubjectRelation = js sr, SubjectTenantID = [], Attributes = None, ExpiresAt = None, CreatedAt = 0, UpdatedAt = 0,
     SourceSystem = [], ExternalID = []\<rparr>"

definition acmeStore :: Store where
  "acmeStore = initTenant (js ''acme'') (NewStore\<lparr>st_tenants := [(js ''acme'', acme)]\<rparr>)"

lemma acmeStore_created: "CreateTenant 1 acme NewStore = Inr acmeStore"
  by (simp add: CreateTenant_def NewStore_def acmeStore_def acme_def Let_def IsZero_def)

lemma acmeStore_reachable: "storeReachable acmeStore"
  by (rule storeReachable.step [OF storeReachable.fresh storeStep.createTenant [OF acmeStore_created]])

lemma acme_tenant: "forTenant acmeContext (js ''acme'') \<and> writableTenant acmeStore (js ''acme'') \<and> tuplesOf acmeStore (js ''acme'') = []"
  by (simp add: forTenant_def acmeContext_def writableTenant_def acmeStore_def initTenant_def NewStore_def acme_def tuplesOf_def)

section \<open>Properties\<close>

text \<open>
  Claim C10. The invariant of the store, in every state it can reach: for every tenant the tuples have
  distinct keys and carry the tenant's name, and the entries of the changelog are numbered from one
  without gaps, up to the counter (modulo $2^{64}$).
\<close>

theorem store_invariant:
  assumes "storeReachable s"
  shows "distinct (map tupleIdentityKey (tuplesOf s tid)) \<and> list_all (\<lambda>t. TupleTenantID t = tid) (tuplesOf s tid) \<and>
    map Sequence (changelogOf s tid) = map (\<lambda>i. of_nat (i + 1)) [0..<length (changelogOf s tid)] \<and>
    seqOf s tid = of_nat (length (changelogOf s tid))"
  using dataOk_of [OF reachable_ok [OF assms], of tid] by (simp add: dataOk_def logOk_def list_all_iff)

theorem store_invariant_witness:
  "map Sequence (changelogOf acmeStore (js ''acme'')) = [] \<and> seqOf acmeStore (js ''acme'') = 0"
proof -
  have "changelogOf acmeStore (js ''acme'') = []"
    by (simp add: changelogOf_def acmeStore_def initTenant_def NewStore_def)
  then show ?thesis using store_invariant [OF acmeStore_reachable, of "js ''acme''"] by simp
qed

text \<open>
  Claim C5. The changelog tells the whole story: in every reachable store, replaying the entries of a
  tenant's log from the empty table, insertions and deletions in order, gives exactly the tuples the
  store holds for the tenant.
\<close>

theorem changelog_replays:
  assumes "storeReachable s"
  shows "replay (changelogOf s tid) = tupleMap (tuplesOf s tid)"
  using dataOk_of [OF reachable_ok [OF assms], of tid] by (simp add: dataOk_def)

theorem changelog_replays_witness: "replay (changelogOf acmeStore (js ''acme'')) = Map.empty"
  using changelog_replays [OF acmeStore_reachable, of "js ''acme''"] acme_tenant by simp

text \<open>
  Claim C4. A write refines insertion into a map. For a tenant that accepts writes, a batch succeeds exactly
  when its keys are distinct and every stored tuple with one of these keys has expired; then the table is
  the old one with the stamped tuples put in, and otherwise the error is the one for duplicates.
\<close>

theorem write_refines:
  assumes "storeReachable s" "forTenant ctx tid" "writableTenant s tid"
  shows "case WriteTuples now ctx news s of
      Inr s' \<Rightarrow> writable now news (tuplesOf s tid) \<and>
        tupleMap (tuplesOf s' tid) = fold putTuple (map (stamp now tid) news) (tupleMap (tuplesOf s tid))
    | Inl e \<Rightarrow> \<not> writable now news (tuplesOf s tid) \<and> e = ErrDuplicateTuple"
  using writeTuplesLocked_spec [OF dataOk_of [OF reachable_ok [OF assms(1)], of tid], of now news]
  by (auto simp: WriteTuples_def writing_tenant [OF assms(2,3)] split: if_splits)

theorem write_refines_witness:
  "\<exists>s'. WriteTuples 5 acmeContext [plainTuple ''document'' ''d1'' ''viewer'' ''user'' ''alice'' ''''] acmeStore = Inr s'"
proof -
  have w: "writable 5 [plainTuple ''document'' ''d1'' ''viewer'' ''user'' ''alice'' ''''] (tuplesOf acmeStore (js ''acme''))"
    using acme_tenant by (simp add: writable_def)
  show ?thesis
    using write_refines [OF acmeStore_reachable, where ctx = acmeContext and tid = "js ''acme''" and now = 5
      and news = "[plainTuple ''document'' ''d1'' ''viewer'' ''user'' ''alice'' '''']"]
      acme_tenant w by (auto split: sum.splits)
qed

lemma DeleteTuple_spec:
  assumes "storeOk s" "forTenant ctx tid" "writableTenant s tid"
  shows "case DeleteTuple now ctx tuple s of
      Inr s' \<Rightarrow> list_ex (sameTuple tuple) (tuplesOf s tid) \<and>
        tupleMap (tuplesOf s' tid) = (tupleMap (tuplesOf s tid))(tupleIdentityKey tuple := None)
    | Inl e \<Rightarrow> \<not> list_ex (sameTuple tuple) (tuplesOf s tid) \<and> e = ErrNotFound"
proof (cases "List.extract (sameTuple tuple) (tuplesOf s tid)")
  case None
  then have "\<not> list_ex (sameTuple tuple) (tuplesOf s tid)" by (simp add: List.extract_None_iff list_ex_iff)
  then show ?thesis using None by (simp add: DeleteTuple_def writing_tenant [OF assms(2,3)])
next
  case (Some x)
  then obtain before t after where x: "List.extract (sameTuple tuple) (tuplesOf s tid) = Some (before, t, after)"
    by (cases x) auto
  note k = extract_key [OF x]
  have "dataOk tid (before @ t # after) (changelogOf s tid) (seqOf s tid)"
    using dataOk_of [OF assms(1), of tid] k by simp
  then show ?thesis
    using x k delete_data [of tid before t after s now "js ''api''", THEN conjunct2]
    by (simp add: DeleteTuple_def writing_tenant [OF assms(2,3)] list_ex_iff)
qed

text \<open>
  Claim C11. A deletion refines removal from the map: it succeeds exactly when the store holds a tuple with the
  given six parts, and then removes that key and nothing else.
\<close>

theorem delete_refines:
  assumes "storeReachable s" "forTenant ctx tid" "writableTenant s tid"
  shows "case DeleteTuple now ctx tuple s of
      Inr s' \<Rightarrow> list_ex (sameTuple tuple) (tuplesOf s tid) \<and>
        tupleMap (tuplesOf s' tid) = (tupleMap (tuplesOf s tid))(tupleIdentityKey tuple := None)
    | Inl e \<Rightarrow> \<not> list_ex (sameTuple tuple) (tuplesOf s tid) \<and> e = ErrNotFound"
  by (rule DeleteTuple_spec [OF reachable_ok [OF assms(1)] assms(2,3)])

theorem delete_refines_witness:
  "DeleteTuple 5 acmeContext (plainTuple ''document'' ''d1'' ''viewer'' ''user'' ''alice'' '''') acmeStore = Inl ErrNotFound"
  using delete_refines [OF acmeStore_reachable, where ctx = acmeContext and tid = "js ''acme''" and now = 5
      and tuple = "plainTuple ''document'' ''d1'' ''viewer'' ''user'' ''alice'' ''''"] acme_tenant
  by (auto split: sum.splits)



lemma written_live:
  assumes "storeOk s" "forTenant ctx tid" "WriteTuple now ctx t s = Inr s'"
  shows "stamp now tid t \<in> set (tuplesOf s' tid) \<and> st_tenants s' = st_tenants s \<and> readableTenant s' tid \<and> storeOk s'"
proof -
  have wr: "writableTenant s tid"
    using assms(2,3) by (auto simp: WriteTuple_def writing_Inr forTenant_def)
  have w: "WriteTuples now ctx [t] s = Inr s'" using assms(3) by (simp add: WriteTuple_def WriteTuples_def)
  have "writeTuplesLocked now tid [t] s = Inr s'" using assms(3) by (simp add: WriteTuple_def writing_tenant [OF assms(2) wr])
  then have sp: "st_tenants s' = st_tenants s \<and> dataOk tid (tuplesOf s' tid) (changelogOf s' tid) (seqOf s' tid) \<and>
      tupleMap (tuplesOf s' tid) = putTuple (stamp now tid t) (tupleMap (tuplesOf s tid))"
    using writeTuplesLocked_spec [OF dataOk_of [OF assms(1), of tid], of now "[t]"] by (auto split: if_splits)
  then have "tupleMap (tuplesOf s' tid) (tupleIdentityKey t) = Some (stamp now tid t)" by (simp add: putTuple_def)
  then have "stamp now tid t \<in> set (tuplesOf s' tid)"
    using tupleMap_iff [of "tuplesOf s' tid"] sp by (simp add: dataOk_def)
  then show ?thesis
    using sp wr callOk_storeOk [OF write_callOk [OF w assms(1)] assms(1)] by (auto simp: readableTenant_def writableTenant_def)
qed

text \<open>The example store after the write of one tuple.\<close>

lemma acme_write:
  "\<exists>s. WriteTuple 5 acmeContext t acmeStore = Inr s \<and> storeReachable s \<and> writableTenant s (js ''acme'') \<and>
     set (tuplesOf s (js ''acme'')) = {stamp 5 (js ''acme'') t}"
proof -
  note a = acme_tenant [THEN conjunct1] acme_tenant [THEN conjunct2, THEN conjunct1] acme_tenant [THEN conjunct2, THEN conjunct2]
  have "writable 5 [t] (tuplesOf acmeStore (js ''acme''))" by (simp add: writable_def a)
  then obtain s where s: "writeTuplesLocked 5 (js ''acme'') [t] acmeStore = Inr s" "st_tenants s = st_tenants acmeStore"
    "tupleMap (tuplesOf s (js ''acme'')) = putTuple (stamp 5 (js ''acme'') t) Map.empty"
    "dataOk (js ''acme'') (tuplesOf s (js ''acme'')) (changelogOf s (js ''acme'')) (seqOf s (js ''acme''))"
    using writeTuplesLocked_spec [OF dataOk_of [OF reachable_ok [OF acmeStore_reachable], of "js ''acme''"], of 5 "[t]"] a by auto
  have w: "WriteTuple 5 acmeContext t acmeStore = Inr s" using s by (simp add: WriteTuple_def writing_tenant [OF a(1,2)])
  then have "runCall 5 acmeContext (CallWrite [t]) acmeStore = Inr s" by (simp add: WriteTuple_def WriteTuples_def)
  then have "storeReachable s" by (rule storeReachable.step [OF acmeStore_reachable storeStep.data])
  moreover have "writableTenant s (js ''acme'')" using a(2) s(2) by (simp add: writableTenant_def)
  moreover have "v \<in> set (tuplesOf s (js ''acme'')) \<longleftrightarrow> v = stamp 5 (js ''acme'') t" for v
    using tupleMap_iff [of "tuplesOf s (js ''acme'')" "tupleIdentityKey v" v] s(3,4)
    by (auto simp: dataOk_def putTuple_def split: if_splits)
  ultimately show ?thesis using w by blast
qed

text \<open>
  What has been written is found, and what has been deleted is not: after a successful write of a
  direct tuple the direct lookup of it succeeds until the tuple expires, and after a successful deletion it
  fails at every time.
\<close>

theorem written_is_found:
  assumes "storeReachable s" "forTenant ctx tid" "SubjectRelation t = []"
    "WriteTuple now ctx t s = Inr s1" "\<not> tupleIsExpiredAt t now1" "DeleteTuple now2 ctx t s1 = Inr s2"
  shows "CheckDirect now1 ctx (ObjectType t) (ObjectID t) (Relation t) (SubjectType t) (SubjectID t) s1 = Inr True \<and>
    CheckDirect now3 ctx (ObjectType t) (ObjectID t) (Relation t) (SubjectType t) (SubjectID t) s2 = Inr False"
proof -
  note w = written_live [OF reachable_ok [OF assms(1)] assms(2,4)]
  have "list_ex (\<lambda>u. ObjectType u = ObjectType t \<and> ObjectID u = ObjectID t \<and> Relation u = Relation t \<and>
       SubjectType u = SubjectType t \<and> SubjectID u = SubjectID t \<and> SubjectRelation u = [] \<and> \<not> tupleIsExpiredAt u now1) (tuplesOf s1 tid)"
    unfolding list_ex_iff using w assms(3,5) by (intro bexI [of _ "stamp now tid t"]) (simp_all add: stamp_def tupleIsExpiredAt_def)
  then have a: "CheckDirect now1 ctx (ObjectType t) (ObjectID t) (Relation t) (SubjectType t) (SubjectID t) s1 = Inr True"
    using w by (simp add: CheckDirect_def reading_tenant [OF assms(2)])
  obtain before u after where x: "writableTenant s1 tid" "List.extract (sameTuple t) (tuplesOf s1 tid) = Some (before, u, after)"
    "s2 = appendTupleChangelogUnsafe now2 tid ChangeOpDelete u (js ''api'') (s1\<lparr>st_tuples := (st_tuples s1)(tid \<mapsto> before @ after)\<rparr>)"
    using assms(2,6) by (auto simp: DeleteTuple_def writing_Inr forTenant_def split: option.splits)
  note k = extract_key [OF x(2)]
  have d: "distinct (map tupleIdentityKey (before @ u # after))"
    using dataOk_of [of s1 tid] w k by (simp add: dataOk_def)
  have "\<not> sameTuple t v" if "v \<in> set (before @ after)" for v
    using d k that by (auto simp: sameTuple_def tupleIdentityKey_def image_iff)
  moreover have "tuplesOf s2 tid = before @ after" "readableTenant s2 tid"
    using x(1) unfolding x(3) by (auto simp: tuplesOf_def readableTenant_def writableTenant_def)
  ultimately have "CheckDirect now3 ctx (ObjectType t) (ObjectID t) (Relation t) (SubjectType t) (SubjectID t) s2 = Inr False"
    using assms(3) by (auto simp: CheckDirect_def reading_tenant [OF assms(2)] list_ex_iff sameTuple_def)
  then show ?thesis using a by blast
qed

theorem written_is_found_witness:
  "\<exists>s1 s2. WriteTuple 5 acmeContext (plainTuple ''document'' ''d1'' ''viewer'' ''user'' ''alice'' '''') acmeStore = Inr s1 \<and>
     CheckDirect 6 acmeContext (js ''document'') (js ''d1'') (js ''viewer'') (js ''user'') (js ''alice'') s1 = Inr True \<and>
     CheckDirect 8 acmeContext (js ''document'') (js ''d1'') (js ''viewer'') (js ''user'') (js ''alice'') s2 = Inr False"
proof -
  let ?t = "plainTuple ''document'' ''d1'' ''viewer'' ''user'' ''alice'' ''''"
  obtain s1 where w: "WriteTuple 5 acmeContext ?t acmeStore = Inr s1" "storeReachable s1" "writableTenant s1 (js ''acme'')"
    "set (tuplesOf s1 (js ''acme'')) = {stamp 5 (js ''acme'') ?t}" using acme_write [of ?t] by blast
  have "list_ex (sameTuple ?t) (tuplesOf s1 (js ''acme''))" by (simp add: list_ex_iff w sameTuple_def stamp_def)
  then obtain before u after where "List.extract (sameTuple ?t) (tuplesOf s1 (js ''acme'')) = Some (before, u, after)"
    by (cases "List.extract (sameTuple ?t) (tuplesOf s1 (js ''acme''))") (auto simp: List.extract_None_iff list_ex_iff)
  then obtain s2 where d: "DeleteTuple 7 acmeContext ?t s1 = Inr s2"
    by (simp add: DeleteTuple_def writing_tenant [OF acme_tenant [THEN conjunct1] w(3)])
  have "SubjectRelation ?t = []" "\<not> tupleIsExpiredAt ?t 6" by (simp_all add: plainTuple_def tupleIsExpiredAt_def js_def)
  then show ?thesis
    using w(1) written_is_found [OF acmeStore_reachable acme_tenant [THEN conjunct1] _ w(1) _ d, of 6 8]
    by (intro exI [of _ s1] exI [of _ s2]) (simp add: plainTuple_def)
qed

text \<open>
  The keys of tuples with separators in their parts collide: the relation of the object \<^verbatim>\<open>b:c\<close> of type
  \<^verbatim>\<open>a\<close> is refused as a duplicate of the one of the object \<^verbatim>\<open>c\<close> of type \<^verbatim>\<open>a:b\<close>, although no tuple in the
  store has its parts.
\<close>

theorem key_collision:
  "let t = plainTuple ''a:b'' ''c'' ''viewer'' ''user'' ''alice'' ''''; u = plainTuple ''a'' ''b:c'' ''viewer'' ''user'' ''alice'' '''' in
   \<exists>s. WriteTuple 5 acmeContext t acmeStore = Inr s \<and> WriteTuple 6 acmeContext u s = Inl ErrDuplicateTuple \<and>
     \<not> list_ex (sameTuple u) (tuplesOf s (js ''acme''))"
proof -
  let ?t = "plainTuple ''a:b'' ''c'' ''viewer'' ''user'' ''alice'' ''''"
  let ?u = "plainTuple ''a'' ''b:c'' ''viewer'' ''user'' ''alice'' ''''"
  have k: "tupleIdentityKey ?t = tupleIdentityKey ?u"
    by (simp add: tupleIdentityKey_def plainTuple_def tupleText_def js_def)
  obtain s where w: "WriteTuple 5 acmeContext ?t acmeStore = Inr s" "storeReachable s" "writableTenant s (js ''acme'')"
    "set (tuplesOf s (js ''acme'')) = {stamp 5 (js ''acme'') ?t}" using acme_write [of ?t] by blast
  have "\<not> tupleIsExpiredAt (stamp 5 (js ''acme'') ?t) 6" by (simp add: tupleIsExpiredAt_def stamp_def plainTuple_def)
  then have "\<not> writable 6 [?u] (tuplesOf s (js ''acme''))" using k by (simp add: writable_def w)
  then have "WriteTuple 6 acmeContext ?u s = Inl ErrDuplicateTuple"
    using writeTuplesLocked_spec [OF dataOk_of [OF reachable_ok [OF w(2)], of "js ''acme''"], of 6 "[?u]"]
    by (simp add: WriteTuple_def writing_tenant [OF acme_tenant [THEN conjunct1] w(3)])
  moreover have "\<not> list_ex (sameTuple ?u) (tuplesOf s (js ''acme''))"
    by (simp add: list_ex_iff w sameTuple_def stamp_def plainTuple_def js_inj)
  ultimately show ?thesis using w(1) by (auto simp: Let_def)
qed

end
