(* ===== verification/Check_Engine.thy ===== *)
theory Check_Engine
  imports Schema_Compiler Store_Laws
begin

text \<open>
  The check engine, \<^verbatim>\<open>pkg/engine\<close>. What the engine asks of its store during one check is a record of lookups
  (the read methods of \<^verbatim>\<open>storage.TupleStore\<close> it calls), all answered from one state of the store at one time;
  \<open>memoryLookups\<close> are those of the memory store. The expression language is a parameter (\<open>exprLang\<close>). The
  walk threads the set of visited keys, as the source mutates it, and returns it with the result; an error is
  returned with \<^verbatim>\<open>deny()\<close>, so it is just the error here. Recursive calls happen one level deeper, and depth is
  limited, so the walk ends; the loops take the recursive call as an argument.
\<close>

section \<open>Requests, results, lookups\<close>

record CheckRequest =
  ReqObjectType :: str
  ReqObjectID :: str
  ReqPermission :: str
  ReqSubjectType :: str
  ReqSubjectID :: str
  ReqContext :: "gomap option"

record CheckResult =
  Allowed :: bool
  ResolutionPath :: "str list"

definition allow :: "str list \<Rightarrow> CheckResult" where
  "allow path = \<lparr>Allowed = True, ResolutionPath = path\<rparr>"

definition deny :: CheckResult where
  "deny = \<lparr>Allowed = False, ResolutionPath = []\<rparr>"

record lookups =
  lk_direct :: "str \<Rightarrow> str \<Rightarrow> str \<Rightarrow> str \<Rightarrow> str \<Rightarrow> goError + bool"
  lk_related :: "str \<Rightarrow> str \<Rightarrow> str \<Rightarrow> goError + ObjectRef list"
  lk_subjects :: "str \<Rightarrow> str \<Rightarrow> str \<Rightarrow> goError + SubjectRef list"
  lk_objAttrs :: "str \<Rightarrow> str \<Rightarrow> goError + gomap option"
  lk_subAttrs :: "str \<Rightarrow> str \<Rightarrow> goError + gomap option"

definition memoryLookups :: "gotime \<Rightarrow> goContext \<Rightarrow> Store \<Rightarrow> lookups" where
  "memoryLookups now ctx s =
     \<lparr>lk_direct = (\<lambda>ot oi r st si. CheckDirect now ctx ot oi r st si s),
      lk_related = (\<lambda>ot oi r. ListRelatedObjects now ctx ot oi r s),
      lk_subjects = (\<lambda>ot oi r. ListSubjects now ctx ot oi r s),
      lk_objAttrs = (\<lambda>ty i. GetObjectAttributes ctx ty i s),
      lk_subAttrs = (\<lambda>ty i. GetSubjectAttributes ctx ty i s)\<rparr>"

text \<open>\<^verbatim>\<open>expr.Compile\<close> and \<^verbatim>\<open>expr.Run\<close> on the attributes of the object, of the subject and the request context; \<open>None\<close> is an error.\<close>

record 'p exprLang =
  exprCompile :: "str \<Rightarrow> 'p option"
  exprRun :: "'p \<Rightarrow> gomap option \<Rightarrow> gomap option \<Rightarrow> gomap option \<Rightarrow> json option"

section \<open>Conditions\<close>

definition attrsOrEmpty :: "goError + gomap option \<Rightarrow> gomap option" where
  "attrsOrEmpty r = (case r of Inl _ \<Rightarrow> Some [] | Inr a \<Rightarrow> a)"

definition evaluateCondition :: "'p exprLang \<Rightarrow> lookups \<Rightarrow> CheckRequest \<Rightarrow> 'p ConditionExpr option \<Rightarrow> goError + bool" where
  "evaluateCondition xl lk req cond =
     (case cond of None \<Rightarrow> Inr True
      | Some c \<Rightarrow>
          (case Compiled c of None \<Rightarrow> Inr True
           | Some program \<Rightarrow>
               (case exprRun xl program (attrsOrEmpty (lk_objAttrs lk (ReqObjectType req) (ReqObjectID req)))
                       (attrsOrEmpty (lk_subAttrs lk (ReqSubjectType req) (ReqSubjectID req))) (ReqContext req) of
                  None \<Rightarrow> Inl (ConditionFailed (Raw c))
                | Some (JBool b) \<Rightarrow> Inr b
                | Some _ \<Rightarrow> Inl (ConditionNotBool (Raw c)))))"

section \<open>The walk\<close>

definition visitKey :: "str \<Rightarrow> str \<Rightarrow> str \<Rightarrow> str \<Rightarrow> str \<Rightarrow> str" where
  "visitKey objectType objectID permission subjectType subjectID =
     objectType @ [COLON] @ objectID @ [HASH] @ permission @ [0x40] @ subjectType @ [COLON] @ subjectID"

type_synonym walked = "(goError + CheckResult) \<times> str list"

text \<open>The early return of an error, with the keys visited so far.\<close>

definition bindW :: "walked \<Rightarrow> (CheckResult \<Rightarrow> str list \<Rightarrow> walked) \<Rightarrow> walked" where
  "bindW w f = (case w of (Inl e, v) \<Rightarrow> (Inl e, v) | (Inr r, v) \<Rightarrow> f r v)"

type_synonym 'p walker = "CheckRequest \<Rightarrow> 'p PermissionDef \<Rightarrow> str list \<Rightarrow> walked"

definition usersetRequest :: "CheckRequest \<Rightarrow> SubjectRef \<Rightarrow> CheckRequest" where
  "usersetRequest req subj = \<lparr>ReqObjectType = SubjType subj, ReqObjectID = SubjID subj, ReqPermission = SubjRelation subj,
     ReqSubjectType = ReqSubjectType req, ReqSubjectID = ReqSubjectID req, ReqContext = None\<rparr>"

definition arrowRequest :: "CheckRequest \<Rightarrow> str \<Rightarrow> ObjectRef \<Rightarrow> CheckRequest" where
  "arrowRequest req permission target = \<lparr>ReqObjectType = ObjType target, ReqObjectID = ObjID target, ReqPermission = permission,
     ReqSubjectType = ReqSubjectType req, ReqSubjectID = ReqSubjectID req, ReqContext = ReqContext req\<rparr>"

definition requestKey :: "CheckRequest \<Rightarrow> str" where
  "requestKey req = visitKey (ReqObjectType req) (ReqObjectID req) (ReqPermission req) (ReqSubjectType req) (ReqSubjectID req)"

text \<open>The loop of \<^verbatim>\<open>walkRelation\<close> over the subjects of the relation.\<close>

fun usersetLoop :: "'p walker \<Rightarrow> lookups \<Rightarrow> 'p CompiledSchema \<Rightarrow> CheckRequest \<Rightarrow> SubjectRef list \<Rightarrow> str list \<Rightarrow> walked" where
  "usersetLoop walk lk cs req [] visited = (Inr deny, visited)"
| "usersetLoop walk lk cs req (subj # subjects) visited =
     (if SubjRelation subj = [] then usersetLoop walk lk cs req subjects visited
      else if requestKey (usersetRequest req subj) \<in> set visited then usersetLoop walk lk cs req subjects visited
      else case GetPermission cs (SubjType subj) (SubjRelation subj) of
        Inl _ \<Rightarrow>
          (case lk_direct lk (SubjType subj) (SubjID subj) (SubjRelation subj) (ReqSubjectType req) (ReqSubjectID req) of
             Inl _ \<Rightarrow> usersetLoop walk lk cs req subjects visited
           | Inr ok \<Rightarrow>
               if ok then (Inr (allow [tupleText (SubjType subj) (SubjID subj) (SubjRelation subj) (ReqSubjectType req) (ReqSubjectID req)]), visited)
               else usersetLoop walk lk cs req subjects visited)
      | Inr subPermDef \<Rightarrow>
          bindW (walk (usersetRequest req subj) subPermDef visited) (\<lambda>r v. if Allowed r then (Inr r, v) else usersetLoop walk lk cs req subjects v))"

definition walkRelation :: "'p walker \<Rightarrow> lookups \<Rightarrow> 'p CompiledSchema \<Rightarrow> CheckRequest \<Rightarrow> str \<Rightarrow> str list \<Rightarrow> walked" where
  "walkRelation walk lk cs req relation visited =
     (case lk_direct lk (ReqObjectType req) (ReqObjectID req) relation (ReqSubjectType req) (ReqSubjectID req) of
        Inl e \<Rightarrow> (Inl e, visited)
      | Inr ok \<Rightarrow>
          if ok
          then (Inr (allow [tupleText (ReqObjectType req) (ReqObjectID req) relation (ReqSubjectType req) (ReqSubjectID req)]), visited)
          else
            (case lk_subjects lk (ReqObjectType req) (ReqObjectID req) relation of
               Inl e \<Rightarrow> (Inl e, visited)
             | Inr subjects \<Rightarrow> usersetLoop walk lk cs req subjects visited))"

fun arrowLoop :: "'p walker \<Rightarrow> 'p CompiledSchema \<Rightarrow> CheckRequest \<Rightarrow> str \<Rightarrow> ObjectRef list \<Rightarrow> str list \<Rightarrow> walked" where
  "arrowLoop walk cs req permission [] visited = (Inr deny, visited)"
| "arrowLoop walk cs req permission (target # targets) visited =
     (if requestKey (arrowRequest req permission target) \<in> set visited then arrowLoop walk cs req permission targets visited
      else case GetPermission cs (ObjType target) permission of
        Inl _ \<Rightarrow> arrowLoop walk cs req permission targets visited
      | Inr permDef \<Rightarrow>
          bindW (walk (arrowRequest req permission target) permDef visited) (\<lambda>r v. if Allowed r then (Inr r, v) else arrowLoop walk cs req permission targets v))"

definition walkArrow :: "'p walker \<Rightarrow> lookups \<Rightarrow> 'p CompiledSchema \<Rightarrow> CheckRequest \<Rightarrow> str \<Rightarrow> str \<Rightarrow> str list \<Rightarrow> walked" where
  "walkArrow walk lk cs req relation permission visited =
     (case lk_related lk (ReqObjectType req) (ReqObjectID req) relation of
        Inl e \<Rightarrow> (Inl e, visited)
      | Inr targets \<Rightarrow> arrowLoop walk cs req permission targets visited)"

definition walkChild :: "'p walker \<Rightarrow> 'p exprLang \<Rightarrow> lookups \<Rightarrow> 'p CompiledSchema \<Rightarrow> CheckRequest \<Rightarrow> PermissionRef \<Rightarrow> str list \<Rightarrow> walked" where
  "walkChild walk xl lk cs req child visited =
     (case Kind child of
        KindRelation \<Rightarrow> walkRelation walk lk cs req (RelationRef child) visited
      | KindArrow \<Rightarrow> walkArrow walk lk cs req (ArrowRef child) (ArrowPermission child) visited
      | KindCondition \<Rightarrow>
          (case compileCondition (exprCompile xl) (ConditionText child) of
             Inl e \<Rightarrow> (Inl e, visited)
           | Inr cond \<Rightarrow>
               (case evaluateCondition xl lk req (Some cond) of
                  Inl e \<Rightarrow> (Inl e, visited)
                | Inr b \<Rightarrow> (Inr (if b then allow [] else deny), visited))))"

fun walkUnion :: "(PermissionRef \<Rightarrow> str list \<Rightarrow> walked) \<Rightarrow> PermissionRef list \<Rightarrow> str list \<Rightarrow> walked" where
  "walkUnion child [] visited = (Inr deny, visited)"
| "walkUnion child (c # cs) visited =
     bindW (child c visited) (\<lambda>r v. if Allowed r then (Inr r, v) else walkUnion child cs v)"

fun intersectLoop :: "(PermissionRef \<Rightarrow> str list \<Rightarrow> walked) \<Rightarrow> PermissionRef list \<Rightarrow> str list \<Rightarrow> walked" where
  "intersectLoop child [] visited = (Inr (allow []), visited)"
| "intersectLoop child (c # cs) visited =
     bindW (child c visited) (\<lambda>r v. if \<not> Allowed r then (Inr deny, v) else intersectLoop child cs v)"

definition walkIntersect :: "(PermissionRef \<Rightarrow> str list \<Rightarrow> walked) \<Rightarrow> PermissionRef list \<Rightarrow> str list \<Rightarrow> walked" where
  "walkIntersect child children visited = (if children = [] then (Inr deny, visited) else intersectLoop child children visited)"

fun exclusionLoop :: "(PermissionRef \<Rightarrow> str list \<Rightarrow> walked) \<Rightarrow> PermissionRef list \<Rightarrow> str list \<Rightarrow> walked" where
  "exclusionLoop child [] visited = (Inr (allow []), visited)"
| "exclusionLoop child (c # cs) visited =
     bindW (child c visited) (\<lambda>r v. if Allowed r then (Inr deny, v) else exclusionLoop child cs v)"

fun walkExclusion :: "(PermissionRef \<Rightarrow> str list \<Rightarrow> walked) \<Rightarrow> PermissionRef list \<Rightarrow> str list \<Rightarrow> walked" where
  "walkExclusion child [] visited = (Inr deny, visited)"
| "walkExclusion child (base # rest) visited =
     bindW (child base visited) (\<lambda>r v. if \<not> Allowed r then (Inr deny, v) else exclusionLoop child rest v)"

text \<open>The dispatch on the operation, given how a child is walked.\<close>

definition walkOperation :: "PermOp \<Rightarrow> (PermissionRef \<Rightarrow> str list \<Rightarrow> walked) \<Rightarrow> PermissionRef list \<Rightarrow> str list \<Rightarrow> walked" where
  "walkOperation oper child children visited =
     (case oper of
        PermOpUnion \<Rightarrow> walkUnion child children visited
      | PermOpDirect \<Rightarrow> walkUnion child children visited
      | PermOpIntersect \<Rightarrow> walkIntersect child children visited
      | PermOpExclusion \<Rightarrow> walkExclusion child children visited)"

function walkPermission ::
  "nat \<Rightarrow> 'p exprLang \<Rightarrow> lookups \<Rightarrow> 'p CompiledSchema \<Rightarrow> nat \<Rightarrow> CheckRequest \<Rightarrow> 'p PermissionDef \<Rightarrow> str list \<Rightarrow> walked" where
  "walkPermission maxDepth xl lk cs depth req permDef visited =
     (if maxDepth < depth then (Inl (MaxDepthExceeded maxDepth), visited)
      else
        let key = visitKey (ReqObjectType req) (ReqObjectID req) (PermName permDef) (ReqSubjectType req) (ReqSubjectID req) in
        if key \<in> set visited then (Inr deny, visited)
        else walkOperation (PermOperation permDef)
          (walkChild (\<lambda>r p v. walkPermission maxDepth xl lk cs (depth + 1) r p v) xl lk cs req) (Children permDef) (key # visited))"
  by pat_completeness auto
termination
  by (relation "measure (\<lambda>(maxDepth, _, _, _, depth, _). Suc maxDepth - depth)") auto

declare walkPermission.simps [simp del]

section \<open>The engine\<close>

record 'p Engine =
  eng_schemas :: "str \<rightharpoonup> 'p CompiledSchema"
  eng_sharedSchemas :: "str \<rightharpoonup> 'p CompiledSchema"
  MaxCheckDepth :: nat

definition DefaultMaxCheckDepth :: nat where "DefaultMaxCheckDepth = 25"

definition NewEngine :: "nat \<Rightarrow> 'p Engine" where
  "NewEngine maxDepth = \<lparr>eng_schemas = Map.empty, eng_sharedSchemas = Map.empty, MaxCheckDepth = maxDepth\<rparr>"

definition LoadSchema :: "str \<Rightarrow> 'p CompiledSchema \<Rightarrow> 'p Engine \<Rightarrow> 'p Engine" where
  "LoadSchema tid cs e = e\<lparr>eng_schemas := (eng_schemas e)(tid \<mapsto> cs)\<rparr>"

definition LoadSharedSchema :: "str \<Rightarrow> 'p CompiledSchema \<Rightarrow> 'p Engine \<Rightarrow> 'p Engine" where
  "LoadSharedSchema ref cs e = e\<lparr>eng_sharedSchemas := (eng_sharedSchemas e)(ref \<mapsto> cs)\<rparr>"

definition schemaForTenant :: "'p Engine \<Rightarrow> TenantContext \<Rightarrow> goError + 'p CompiledSchema" where
  "schemaForTenant e tc =
     (let mode = SchemaMode (CtxTenant tc); own = (case eng_schemas e (CtxTenantID tc) of
            None \<Rightarrow> Inl (NoSchemaLoaded (CtxTenantID tc)) | Some cs \<Rightarrow> Inr cs) in
      if mode = SchemaOwn then own
      else if mode = SchemaShared then
        (case eng_sharedSchemas e (SharedSchemaRef (CtxTenant tc)) of
           None \<Rightarrow> Inl (SharedSchemaNotFound (SharedSchemaRef (CtxTenant tc))) | Some cs \<Rightarrow> Inr cs)
      else if mode = SchemaInherited then own
      else Inl (UnknownSchemaMode mode))"

definition Check :: "'p exprLang \<Rightarrow> 'p Engine \<Rightarrow> lookups \<Rightarrow> goContext \<Rightarrow> CheckRequest \<Rightarrow> goError + CheckResult" where
  "Check xl e lk ctx req =
     (case TenantFromContext ctx of
        None \<Rightarrow> Inl ErrNoTenantContext
      | Some tc \<Rightarrow>
          if Status (CtxTenant tc) = TenantDeleted then Inl ErrTenantDeleted
          else if \<not> IsReadable (CtxTenant tc) then Inl (TenantNotReadable (CtxTenantID tc) (Status (CtxTenant tc)))
          else bindE (schemaForTenant e tc) (\<lambda>cs.
            bindE (GetPermission cs (ReqObjectType req) (ReqPermission req)) (\<lambda>permDef.
              bindE (fst (walkPermission (MaxCheckDepth e) xl lk cs 0 req permDef [])) (\<lambda>result.
                if Allowed result \<and> PermCondition permDef \<noteq> None then
                  (case evaluateCondition xl lk req (PermCondition permDef) of
                     Inl err \<Rightarrow> Inl (ConditionEvaluation err)
                   | Inr allowed \<Rightarrow> if \<not> allowed then Inr deny else Inr result)
                else Inr result))))"

text \<open>\<^verbatim>\<open>Engine.Expand\<close> hands the call to the store.\<close>

definition EngineExpand :: "gotime \<Rightarrow> goContext \<Rightarrow> str \<Rightarrow> str \<Rightarrow> str \<Rightarrow> Store \<Rightarrow> goError + SubjectTree" where
  "EngineExpand now ctx objectType objectID relation s = Expand now ctx objectType objectID relation s"

end
