(* ===== verification/Api_Types.thy ===== *)
theory Api_Types
  imports Json_Value
begin

text \<open>
  The data the console exchanges with the server: the interfaces of \<^verbatim>\<open>src/lib/api/types.ts\<close> and of
  \<^verbatim>\<open>src/lib/api/check.ts\<close>. An optional property is an \<open>option\<close>, a union of string literals a
  \<^theory_text>\<open>datatype\<close>, a count or sequence number a \<open>nat\<close>, a \<^verbatim>\<open>Record<string, unknown>\<close> an object.
\<close>

datatype tenantStatus = Pending | Active | Suspended | Deleted

datatype schemaMode = Own | Shared | Inherited

record tenantConfig =
  max_tuples :: nat
  max_requests_per_sec :: nat
  cache_ttl_override :: "nat option"
  allowed_object_types :: "str list option"
  retention_days :: nat
  sync_enabled :: bool
  webhook_url :: "str option"
  config_metadata :: "jsobject option"

record tenant =
  tenant_id :: str
  display_name :: str
  parent_tenant_id :: "str option"
  tenant_status :: tenantStatus
  schema_mode :: schemaMode
  shared_schema_ref :: "str option"
  tenant_config :: tenantConfig
  tenant_created_at :: str
  tenant_updated_at :: str

record relationTuple =
  rt_tenant_id :: str
  rt_object_type :: str
  rt_object_id :: str
  rt_relation :: str
  rt_subject_type :: str
  rt_subject_id :: str
  rt_subject_relation :: "str option"
  rt_subject_tenant_id :: "str option"
  rt_attributes :: "jsobject option"
  rt_created_at :: str
  rt_updated_at :: str
  rt_source_system :: "str option"
  rt_external_id :: "str option"

record schemaResponse =
  sch_tenant_id :: str
  sch_hash :: str
  sch_version :: str
  sch_source :: str
  sch_compiled_at :: str

record subjectRef =
  Subject_Type :: str
  Subject_ID :: str
  Subject_Relation :: "str option"

text \<open>\<^verbatim>\<open>Children\<close> is an array or \<^verbatim>\<open>null\<close>.\<close>

datatype subjectTree = SubjectTree (treeSubject: subjectRef) (treeChildren: "subjectTree list option")

datatype changeOp = INSERT | DELETE | UPDATE

record changelogEntry =
  cl_seq :: nat
  cl_tenant_id :: str
  cl_op :: changeOp
  cl_tuple :: relationTuple
  cl_ts :: str
  cl_actor :: str
  cl_source :: str
  cl_meta :: "jsobject option"

section \<open>Requests\<close>

record tupleRequest =
  tq_object_type :: str
  tq_object_id :: str
  tq_relation :: str
  tq_subject_type :: str
  tq_subject_id :: str
  tq_subject_relation :: "str option"
  tq_attributes :: "jsobject option"

type_synonym batchTuplesRequest = "tupleRequest list"

record expandRequest =
  er_object_type :: str
  er_object_id :: str
  er_relation :: str

record tupleFilter =
  tf_object_type :: "str option"
  tf_object_id :: "str option"
  tf_relation :: "str option"
  tf_subject_type :: "str option"
  tf_subject_id :: "str option"
  tf_subject_relation :: "str option"

record checkRequest =
  cr_subject_type :: str
  cr_subject_id :: str
  cr_resource_type :: str
  cr_resource_id :: str
  cr_action :: str

record tenantParams =
  tp_status :: "str option"
  tp_parent_id :: "str option"
  tp_limit :: "nat option"
  tp_offset :: "nat option"

record changelogParams =
  cp_since_seq :: "nat option"
  cp_limit :: "nat option"

section \<open>Responses\<close>

record tuplesResponse =
  tuples :: "relationTuple list"
  tuples_count :: nat

record listTenantsResponse =
  tenants :: "tenant list"
  tenants_count :: nat

record changelogResponse =
  entries :: "changelogEntry list"
  entries_count :: nat
  latest_sequence :: nat

record objectAttributesItem =
  oa_tenant_id :: str
  oa_object_type :: str
  oa_object_id :: str
  oa_attributes :: jsobject
  oa_updated_at :: str

record subjectAttributesItem =
  sa_tenant_id :: str
  sa_subject_type :: str
  sa_subject_id :: str
  sa_attributes :: jsobject
  sa_updated_at :: str

record schemaValidationError =
  sve_error :: str
  sve_details :: "str list"

end
