(* ===== verification/Api_Client.thy ===== *)
theory Api_Client
  imports Api_Types
begin

text \<open>
  The HTTP layer of the console, \<^verbatim>\<open>src/lib/api\<close>: every exported function builds one request and
  hands it to \<^verbatim>\<open>ky\<close>. A request is a value here (method, path, search parameters in the order they
  are set, headers and body); the client's answer is a parameter of the components that use it.
  \<open>beforeError\<close> is the hook of \<^verbatim>\<open>client.ts\<close> that moves the server's error message and details
  onto the error. How a path reaches a handler of the server is the subject of \<open>Api_Routes\<close>.
\<close>

section \<open>Requests\<close>

datatype httpMethod = GET | POST | PUT | DELETE_METHOD

datatype httpBody = NoBody | JsonBody json | TextBody str

record httpRequest =
  rq_method :: httpMethod
  rq_path :: str
  rq_params :: "(str \<times> str) list"
  rq_headers :: "(str \<times> str) list"
  rq_body :: httpBody

definition request :: "httpMethod \<Rightarrow> str \<Rightarrow> httpRequest" where
  "request m p = \<lparr>rq_method = m, rq_path = p, rq_params = [], rq_headers = [], rq_body = NoBody\<rparr>"

text \<open>
  \<^verbatim>\<open>if (x) searchParams.k = x\<close> on a fresh object whose keys are set once each, in this order.
\<close>

definition param :: "string \<Rightarrow> str option \<Rightarrow> (str \<times> str) list" where
  "param k v = (case v of None \<Rightarrow> [] | Some x \<Rightarrow> if truthy x then [(js k, x)] else [])"

text \<open>\<^verbatim>\<open>if (n) searchParams.k = String(n)\<close>: zero is falsy.\<close>

definition numParam :: "string \<Rightarrow> nat option \<Rightarrow> (str \<times> str) list" where
  "numParam k v = (case v of None \<Rightarrow> [] | Some n \<Rightarrow> if n \<noteq> 0 then [(js k, showNat n)] else [])"

text \<open>\<^verbatim>\<open>if (n !== undefined) searchParams.k = String(n)\<close>.\<close>

definition definedParam :: "string \<Rightarrow> nat option \<Rightarrow> (str \<times> str) list" where
  "definedParam k v = (case v of None \<Rightarrow> [] | Some n \<Rightarrow> [(js k, showNat n)])"

text \<open>An optional property of a JSON body: \<^verbatim>\<open>undefined\<close> is left out by \<^verbatim>\<open>JSON.stringify\<close>.\<close>

definition optField :: "string \<Rightarrow> json option \<Rightarrow> (str \<times> json) list" where
  "optField k v = (case v of None \<Rightarrow> [] | Some x \<Rightarrow> [(js k, x)])"

section \<open>Tenants and schemas\<close>

definition listTenants :: "tenantParams \<Rightarrow> httpRequest" where
  "listTenants p = (request GET (js ''api/v1/tenants''))\<lparr>rq_params :=
     param ''status'' (tp_status p) @ param ''parent_id'' (tp_parent_id p) @
     numParam ''limit'' (tp_limit p) @ numParam ''offset'' (tp_offset p)\<rparr>"

definition getTenant :: "str \<Rightarrow> httpRequest" where
  "getTenant tid = request GET (js ''api/v1/tenants/'' @ tid)"

definition getSchema :: "str \<Rightarrow> httpRequest" where
  "getSchema tid = request GET (js ''api/v1/tenants/'' @ tid @ js ''/schema'')"

definition loadSchema :: "str \<Rightarrow> str \<Rightarrow> httpRequest" where
  "loadSchema tid yaml = (request PUT (js ''api/v1/tenants/'' @ tid @ js ''/schema''))
     \<lparr>rq_body := TextBody yaml, rq_headers := [(js ''Content-Type'', js ''application/yaml'')]\<rparr>"

section \<open>Tuples\<close>

definition tenantPath :: "str \<Rightarrow> string \<Rightarrow> str" where
  "tenantPath tid p = js ''api/v1/t/'' @ tid @ js p"

definition tupleJson :: "tupleRequest \<Rightarrow> json" where
  "tupleJson q = JObj ([(js ''object_type'', JStr (tq_object_type q)), (js ''object_id'', JStr (tq_object_id q)),
     (js ''relation'', JStr (tq_relation q)), (js ''subject_type'', JStr (tq_subject_type q)),
     (js ''subject_id'', JStr (tq_subject_id q))] @
     optField ''subject_relation'' (map_option JStr (tq_subject_relation q)) @
     optField ''attributes'' (map_option JObj (tq_attributes q)))"

definition readTuples :: "str \<Rightarrow> tupleFilter \<Rightarrow> httpRequest" where
  "readTuples tid f = (request GET (tenantPath tid ''/tuples''))\<lparr>rq_params :=
     param ''object_type'' (tf_object_type f) @ param ''object_id'' (tf_object_id f) @
     param ''relation'' (tf_relation f) @ param ''subject_type'' (tf_subject_type f) @
     param ''subject_id'' (tf_subject_id f) @ param ''subject_relation'' (tf_subject_relation f)\<rparr>"

definition writeTuple :: "str \<Rightarrow> tupleRequest \<Rightarrow> httpRequest" where
  "writeTuple tid q = (request POST (tenantPath tid ''/tuples''))\<lparr>rq_body := JsonBody (tupleJson q)\<rparr>"

definition writeTuplesBatch :: "str \<Rightarrow> batchTuplesRequest \<Rightarrow> httpRequest" where
  "writeTuplesBatch tid qs = (request POST (tenantPath tid ''/tuples/batch''))
     \<lparr>rq_body := JsonBody (JObj [(js ''tuples'', JArr (map tupleJson qs))])\<rparr>"

definition deleteTuple :: "str \<Rightarrow> tupleRequest \<Rightarrow> httpRequest" where
  "deleteTuple tid q = (request DELETE_METHOD (tenantPath tid ''/tuples''))\<lparr>rq_body := JsonBody (tupleJson q)\<rparr>"

section \<open>Attributes\<close>

definition entityPath :: "str \<Rightarrow> string \<Rightarrow> str \<Rightarrow> str \<Rightarrow> str" where
  "entityPath tid kind ty i = tenantPath tid kind @ [SLASH] @ ty @ [SLASH] @ i"

definition listObjectAttributes :: "str \<Rightarrow> str option \<Rightarrow> httpRequest" where
  "listObjectAttributes tid ty =
     (request GET (tenantPath tid ''/attributes/objects''))\<lparr>rq_params := param ''type'' ty\<rparr>"

definition listSubjectAttributes :: "str \<Rightarrow> str option \<Rightarrow> httpRequest" where
  "listSubjectAttributes tid ty =
     (request GET (tenantPath tid ''/attributes/subjects''))\<lparr>rq_params := param ''type'' ty\<rparr>"

definition getObjectAttributes :: "str \<Rightarrow> str \<Rightarrow> str \<Rightarrow> httpRequest" where
  "getObjectAttributes tid ty i = request GET (entityPath tid ''/attributes/objects'' ty i)"

definition setObjectAttributes :: "str \<Rightarrow> str \<Rightarrow> str \<Rightarrow> jsobject \<Rightarrow> httpRequest" where
  "setObjectAttributes tid ty i attrs = (request PUT (entityPath tid ''/attributes/objects'' ty i))
     \<lparr>rq_body := JsonBody (JObj [(js ''attributes'', JObj attrs)])\<rparr>"

definition getSubjectAttributes :: "str \<Rightarrow> str \<Rightarrow> str \<Rightarrow> httpRequest" where
  "getSubjectAttributes tid ty i = request GET (entityPath tid ''/attributes/subjects'' ty i)"

definition setSubjectAttributes :: "str \<Rightarrow> str \<Rightarrow> str \<Rightarrow> jsobject \<Rightarrow> httpRequest" where
  "setSubjectAttributes tid ty i attrs = (request PUT (entityPath tid ''/attributes/subjects'' ty i))
     \<lparr>rq_body := JsonBody (JObj [(js ''attributes'', JObj attrs)])\<rparr>"

section \<open>Changelog, expansion and checks\<close>

definition readChangelog :: "str \<Rightarrow> changelogParams \<Rightarrow> httpRequest" where
  "readChangelog tid p = (request GET (tenantPath tid ''/changelog''))\<lparr>rq_params :=
     definedParam ''since_seq'' (cp_since_seq p) @ definedParam ''limit'' (cp_limit p)\<rparr>"

definition expandRelation :: "str \<Rightarrow> expandRequest \<Rightarrow> httpRequest" where
  "expandRelation tid q = (request POST (tenantPath tid ''/expand''))\<lparr>rq_body := JsonBody (JObj
     [(js ''object_type'', JStr (er_object_type q)), (js ''object_id'', JStr (er_object_id q)),
      (js ''relation'', JStr (er_relation q))])\<rparr>"

definition checkPermission :: "str \<Rightarrow> checkRequest \<Rightarrow> httpRequest" where
  "checkPermission tid q = (request POST (js ''access/v1/evaluation''))
     \<lparr>rq_headers := [(js ''X-Tenant-ID'', tid)],
      rq_body := JsonBody (JObj
        [(js ''subject'', JObj [(js ''type'', JStr (cr_subject_type q)), (js ''id'', JStr (cr_subject_id q))]),
         (js ''resource'', JObj [(js ''type'', JStr (cr_resource_type q)), (js ''id'', JStr (cr_resource_id q))]),
         (js ''action'', JObj [(js ''name'', JStr (cr_action q))])])\<rparr>"

section \<open>The error hook\<close>

text \<open>
  An error of the client carries a message and, when the server answered, a response; the body of
  the response may fail to parse (\<open>None\<close>). \<^verbatim>\<open>body.error\<close> and \<^verbatim>\<open>body.details\<close> of a body that is not
  an object are \<^verbatim>\<open>undefined\<close>, of the body \<^verbatim>\<open>null\<close> they throw, which the hook's \<^verbatim>\<open>catch\<close> swallows.
\<close>

record clientError =
  err_message :: json
  err_response :: "json option option"
  err_details :: "json option"

definition bodyField :: "string \<Rightarrow> json \<Rightarrow> json option" where
  "bodyField k b = (case b of JObj kvs \<Rightarrow> map_of kvs (js k) | _ \<Rightarrow> None)"

definition beforeError :: "clientError \<Rightarrow> clientError" where
  "beforeError e =
     (case err_response e of
        Some (Some body) \<Rightarrow>
          if body = JNull then e
          else
            let e1 = (case bodyField ''error'' body of
                        Some m \<Rightarrow> if jsonTruthy m then e\<lparr>err_message := m\<rparr> else e
                      | None \<Rightarrow> e)
            in (case bodyField ''details'' body of
                  Some d \<Rightarrow> if jsonTruthy d then e1\<lparr>err_details := Some d\<rparr> else e1
                | None \<Rightarrow> e1)
      | _ \<Rightarrow> e)"

end
