(* ===== verification/Api_Routes.thy ===== *)
theory Api_Routes
  imports Api_Client
begin

text \<open>
  How a request of the console reaches a handler of the server. \<^verbatim>\<open>ky\<close> is created with an empty
  prefix, so the browser resolves the path against the page; \<^verbatim>\<open>next.config.ts\<close> rewrites the paths
  below \<^verbatim>\<open>/api\<close> and \<^verbatim>\<open>/access\<close> to the server under the same path; the server's multiplexer
  (\<^verbatim>\<open>pkg/api/server.go\<close>) selects the handler by method and segments and binds the wildcards. The
  client inserts tenants, types and identifiers into the path as they are; the claims say for which
  of them this is right and what happens for the others.
\<close>

section \<open>From the page to the server\<close>

text \<open>
  The URL of a relative path, and the path of a URL: the text before the first \<^verbatim>\<open>?\<close> or \<^verbatim>\<open>#\<close>. URLs with
  characters the parser rewrites (blanks, controls, \<^verbatim>\<open>%\<close>, \<^verbatim>\<open>\\<close>) or with dot segments are left out.
\<close>

definition resolveUrl :: "str \<Rightarrow> str \<Rightarrow> str" where
  "resolveUrl page p = join [SLASH] (butlast (split SLASH page)) @ [SLASH] @ p"

definition urlChar :: "cu \<Rightarrow> bool" where
  "urlChar c \<longleftrightarrow> 0x20 < c \<and> c \<noteq> 0x25 \<and> c \<noteq> 0x5C"

definition urlPath :: "str \<Rightarrow> str list option" where
  "urlPath u =
     (let segs = split SLASH (takeWhile (\<lambda>c. c \<noteq> 0x3F \<and> c \<noteq> HASH) u) in
      if list_all urlChar u \<and> js ''.'' \<notin> set segs \<and> js ''..'' \<notin> set segs then Some segs else None)"

text \<open>The rewrites: \<^verbatim>\<open>:path*\<close> matches any number of non-empty segments.\<close>

definition rewriteRule :: "str list \<Rightarrow> str list option" where
  "rewriteRule segs =
     (case segs of
        r0 # s1 # rest \<Rightarrow>
          if r0 = [] \<and> ((s1 = js ''api'' \<or> s1 = js ''access'') \<and> [] \<notin> set rest \<or> s1 = js ''healthz'' \<and> rest = [])
          then Some (s1 # rest) else None
      | _ \<Rightarrow> None)"

section \<open>The server's routes\<close>

datatype handler =
    HandleHealth | HandleCreateTenant | HandleListTenants | HandleGetTenant | HandleDeleteTenant | HandleActivateTenant
  | HandleSuspendTenant | HandleLoadSchema | HandleGetSchema | HandleWriteTuples | HandleWriteTuple | HandleDeleteTuple
  | HandleReadTuples | HandleListObjectAttributes | HandleGetObjectAttributes | HandleSetObjectAttributes
  | HandleListSubjectAttributes | HandleGetSubjectAttributes | HandleSetSubjectAttributes | HandleReadChangelog
  | HandleExpand | HandleEvaluation | HandleEvaluations

datatype patSeg = Lit string | Wild

definition routes :: "(httpMethod \<times> patSeg list \<times> handler) list" where
  "routes =
     (let ts = [Lit ''api'', Lit ''v1'', Lit ''tenants'']; t = [Lit ''api'', Lit ''v1'', Lit ''t'', Wild] in
     [(GET, [Lit ''healthz''], HandleHealth),
      (POST, ts, HandleCreateTenant),
      (GET, ts, HandleListTenants),
      (GET, ts @ [Wild], HandleGetTenant),
      (DELETE_METHOD, ts @ [Wild], HandleDeleteTenant),
      (POST, ts @ [Wild, Lit ''activate''], HandleActivateTenant),
      (POST, ts @ [Wild, Lit ''suspend''], HandleSuspendTenant),
      (PUT, ts @ [Wild, Lit ''schema''], HandleLoadSchema),
      (GET, ts @ [Wild, Lit ''schema''], HandleGetSchema),
      (POST, t @ [Lit ''tuples'', Lit ''batch''], HandleWriteTuples),
      (POST, t @ [Lit ''tuples''], HandleWriteTuple),
      (DELETE_METHOD, t @ [Lit ''tuples''], HandleDeleteTuple),
      (GET, t @ [Lit ''tuples''], HandleReadTuples),
      (GET, t @ [Lit ''attributes'', Lit ''objects''], HandleListObjectAttributes),
      (GET, t @ [Lit ''attributes'', Lit ''objects'', Wild, Wild], HandleGetObjectAttributes),
      (PUT, t @ [Lit ''attributes'', Lit ''objects'', Wild, Wild], HandleSetObjectAttributes),
      (GET, t @ [Lit ''attributes'', Lit ''subjects''], HandleListSubjectAttributes),
      (GET, t @ [Lit ''attributes'', Lit ''subjects'', Wild, Wild], HandleGetSubjectAttributes),
      (PUT, t @ [Lit ''attributes'', Lit ''subjects'', Wild, Wild], HandleSetSubjectAttributes),
      (GET, t @ [Lit ''changelog''], HandleReadChangelog),
      (POST, t @ [Lit ''expand''], HandleExpand),
      (POST, [Lit ''access'', Lit ''v1'', Lit ''evaluation''], HandleEvaluation),
      (POST, [Lit ''access'', Lit ''v1'', Lit ''evaluations''], HandleEvaluations)])"

fun matchPat :: "patSeg list \<Rightarrow> str list \<Rightarrow> str list option" where
  "matchPat [] [] = Some []"
| "matchPat (Lit l # ps) (s # ss) = (if s = js l then matchPat ps ss else None)"
| "matchPat (Wild # ps) (s # ss) = (if s = [] then None else map_option (\<lambda>bs. s # bs) (matchPat ps ss))"
| "matchPat _ _ = None"

text \<open>No two routes match the same request, so the order of the list does not matter.\<close>

fun serve :: "(httpMethod \<times> patSeg list \<times> handler) list \<Rightarrow> httpMethod \<Rightarrow> str list \<Rightarrow> (handler \<times> str list) option" where
  "serve [] m segs = None"
| "serve ((m', p, h) # rs) m segs =
     (if m' = m then (case matchPat p segs of Some bs \<Rightarrow> Some (h, bs) | None \<Rightarrow> serve rs m segs) else serve rs m segs)"

definition deliver :: "str \<Rightarrow> httpRequest \<Rightarrow> (handler \<times> str list) option" where
  "deliver page r = Option.bind (urlPath (resolveUrl page (rq_path r))) (\<lambda>segs.
     Option.bind (rewriteRule segs) (serve routes (rq_method r)))"

section \<open>The calls of the client\<close>

text \<open>Every function of \<^verbatim>\<open>src/lib/api\<close> with the handler it is meant for and the path arguments it passes.\<close>

inductive apiCall :: "httpRequest \<Rightarrow> handler \<Rightarrow> str list \<Rightarrow> bool" where
  "apiCall (listTenants p) HandleListTenants []"
| "apiCall (getTenant tid) HandleGetTenant [tid]"
| "apiCall (getSchema tid) HandleGetSchema [tid]"
| "apiCall (loadSchema tid yaml) HandleLoadSchema [tid]"
| "apiCall (readTuples tid f) HandleReadTuples [tid]"
| "apiCall (writeTuple tid q) HandleWriteTuple [tid]"
| "apiCall (writeTuplesBatch tid qs) HandleWriteTuples [tid]"
| "apiCall (deleteTuple tid q) HandleDeleteTuple [tid]"
| "apiCall (listObjectAttributes tid ty) HandleListObjectAttributes [tid]"
| "apiCall (listSubjectAttributes tid ty) HandleListSubjectAttributes [tid]"
| "apiCall (getObjectAttributes tid k i) HandleGetObjectAttributes [tid, k, i]"
| "apiCall (setObjectAttributes tid k i as) HandleSetObjectAttributes [tid, k, i]"
| "apiCall (getSubjectAttributes tid k i) HandleGetSubjectAttributes [tid, k, i]"
| "apiCall (setSubjectAttributes tid k i as) HandleSetSubjectAttributes [tid, k, i]"
| "apiCall (readChangelog tid cp) HandleReadChangelog [tid]"
| "apiCall (expandRelation tid e) HandleExpand [tid]"
| "apiCall (checkPermission tid c) HandleEvaluation []"

text \<open>A path argument that survives the way: no separator, nothing a URL parser rewrites, no dot segment.\<close>

definition plainSeg :: "str \<Rightarrow> bool" where
  "plainSeg s \<longleftrightarrow> s \<noteq> [] \<and> s \<noteq> js ''.'' \<and> s \<noteq> js ''..'' \<and>
     list_all (\<lambda>c. urlChar c \<and> c \<noteq> SLASH \<and> c \<noteq> 0x3F \<and> c \<noteq> HASH) s"

definition consolePages :: "str list" where
  "consolePages = map js [''/schema'', ''/tuples'', ''/attributes'', ''/explorer'', ''/changelog'']"

section \<open>Paths as segments\<close>

lemma resolve_console: "page \<in> set consolePages \<Longrightarrow> resolveUrl page p = SLASH # p"
  by (auto simp: consolePages_def resolveUrl_def js_def)

lemma plainSeg_chars: "plainSeg s \<Longrightarrow> c \<in> set s \<Longrightarrow> urlChar c \<and> c \<noteq> SLASH \<and> c \<noteq> 0x3F \<and> c \<noteq> HASH"
  by (simp add: plainSeg_def list_all_iff)

lemma urlChar_SLASH: "urlChar SLASH"
  by (simp add: urlChar_def)

lemma url_chars:
  assumes "list_all plainSeg ss" "c \<in> set (SLASH # join [SLASH] ss)"
  shows "urlChar c \<and> c \<noteq> 0x3F \<and> c \<noteq> HASH"
proof -
  consider "c = SLASH" | s where "s \<in> set ss" "c \<in> set s"
    using assms(2) set_join [of "[SLASH]" ss] by auto
  then show ?thesis
  proof cases
    case 2
    then show ?thesis using assms(1) plainSeg_chars [of s c] by (simp add: list_all_iff)
  qed (simp add: urlChar_SLASH)
qed

lemma urlPath_join:
  assumes "list_all plainSeg ss" "ss \<noteq> []"
  shows "urlPath (SLASH # join [SLASH] ss) = Some ([] # ss)"
proof -
  let ?u = "SLASH # join [SLASH] ss"
  have t: "takeWhile (\<lambda>c. c \<noteq> 0x3F \<and> c \<noteq> HASH) ?u = ?u"
    unfolding takeWhile_eq_all_conv using url_chars [OF assms(1)] by blast
  have "split SLASH (join [SLASH] ss) = ss"
    using assms plainSeg_chars by (intro split_join) (auto simp: list_all_iff)
  then have s: "split SLASH ?u = [] # ss" by simp
  have u: "list_all urlChar ?u" unfolding list_all_iff using url_chars [OF assms(1)] by blast
  have n: "js ''.'' \<noteq> []" "js ''..'' \<noteq> []" "\<not> plainSeg (js ''.'')" "\<not> plainSeg (js ''..'')"
    by (simp_all add: js_def plainSeg_def)
  have "js ''.'' \<notin> set ([] # ss)" using assms(1) n by (metis list_all_iff set_ConsD)
  moreover have "js ''..'' \<notin> set ([] # ss)" using assms(1) n by (metis list_all_iff set_ConsD)
  ultimately show ?thesis unfolding urlPath_def t s Let_def using u by (simp only: if_True simp_thms)
qed

text \<open>The segments of the client's paths.\<close>

lemmas call_defs = request_def listTenants_def getTenant_def getSchema_def loadSchema_def readTuples_def writeTuple_def
  writeTuplesBatch_def deleteTuple_def listObjectAttributes_def listSubjectAttributes_def getObjectAttributes_def
  setObjectAttributes_def getSubjectAttributes_def setSubjectAttributes_def readChangelog_def expandRelation_def checkPermission_def

lemma call_paths:
  "rq_path (listTenants p) = join [SLASH] (map js [''api'', ''v1'', ''tenants''])"
  "rq_path (getTenant tid) = join [SLASH] (map js [''api'', ''v1'', ''tenants''] @ [tid])"
  "rq_path (getSchema tid) = join [SLASH] (map js [''api'', ''v1'', ''tenants''] @ [tid, js ''schema''])"
  "rq_path (loadSchema tid yaml) = join [SLASH] (map js [''api'', ''v1'', ''tenants''] @ [tid, js ''schema''])"
  "rq_path (readTuples tid f) = join [SLASH] (map js [''api'', ''v1'', ''t''] @ [tid, js ''tuples''])"
  "rq_path (writeTuple tid q) = join [SLASH] (map js [''api'', ''v1'', ''t''] @ [tid, js ''tuples''])"
  "rq_path (writeTuplesBatch tid qs) = join [SLASH] (map js [''api'', ''v1'', ''t''] @ [tid, js ''tuples'', js ''batch''])"
  "rq_path (deleteTuple tid q) = join [SLASH] (map js [''api'', ''v1'', ''t''] @ [tid, js ''tuples''])"
  "rq_path (listObjectAttributes tid ty) = join [SLASH] (map js [''api'', ''v1'', ''t''] @ [tid, js ''attributes'', js ''objects''])"
  "rq_path (listSubjectAttributes tid ty) = join [SLASH] (map js [''api'', ''v1'', ''t''] @ [tid, js ''attributes'', js ''subjects''])"
  "rq_path (getObjectAttributes tid k i) = join [SLASH] (map js [''api'', ''v1'', ''t''] @ [tid, js ''attributes'', js ''objects'', k, i])"
  "rq_path (setObjectAttributes tid k i as) = join [SLASH] (map js [''api'', ''v1'', ''t''] @ [tid, js ''attributes'', js ''objects'', k, i])"
  "rq_path (getSubjectAttributes tid k i) = join [SLASH] (map js [''api'', ''v1'', ''t''] @ [tid, js ''attributes'', js ''subjects'', k, i])"
  "rq_path (setSubjectAttributes tid k i as) = join [SLASH] (map js [''api'', ''v1'', ''t''] @ [tid, js ''attributes'', js ''subjects'', k, i])"
  "rq_path (readChangelog tid cp) = join [SLASH] (map js [''api'', ''v1'', ''t''] @ [tid, js ''changelog''])"
  "rq_path (expandRelation tid e) = join [SLASH] (map js [''api'', ''v1'', ''t''] @ [tid, js ''expand''])"
  "rq_path (checkPermission tid c) = join [SLASH] (map js [''access'', ''v1'', ''evaluation''])"
  by (simp_all add: call_defs tenantPath_def entityPath_def js_def)

lemma call_methods:
  "rq_method (listTenants p) = GET"
  "rq_method (getTenant tid) = GET"
  "rq_method (getSchema tid) = GET"
  "rq_method (loadSchema tid yaml) = PUT"
  "rq_method (readTuples tid f) = GET"
  "rq_method (writeTuple tid q) = POST"
  "rq_method (writeTuplesBatch tid qs) = POST"
  "rq_method (deleteTuple tid q) = DELETE_METHOD"
  "rq_method (listObjectAttributes tid ty) = GET"
  "rq_method (listSubjectAttributes tid ty) = GET"
  "rq_method (getObjectAttributes tid k i) = GET"
  "rq_method (setObjectAttributes tid k i as) = PUT"
  "rq_method (getSubjectAttributes tid k i) = GET"
  "rq_method (setSubjectAttributes tid k i as) = PUT"
  "rq_method (readChangelog tid cp) = GET"
  "rq_method (expandRelation tid e) = POST"
  "rq_method (checkPermission tid c) = POST"
  by (simp_all add: call_defs)

lemma plain_words:
  "list_all plainSeg (map js [''api'', ''v1'', ''tenants'', ''t'', ''schema'', ''tuples'', ''batch'', ''attributes'',
     ''objects'', ''subjects'', ''changelog'', ''expand'', ''access'', ''evaluation''])"
  by code_simp

lemma deliver_call:
  assumes "page \<in> set consolePages" "rq_path r = join [SLASH] ss"
    "list_all plainSeg ss \<and> ss \<noteq> [] \<and> (hd ss = js ''api'' \<or> hd ss = js ''access'') \<and> serve routes (rq_method r) ss = Some x"
  shows "deliver page r = Some x"
proof -
  obtain s rest where ss: "ss = s # rest" using assms(3) by (cases ss) auto
  have "[] \<notin> set rest" using assms(3) by (auto simp: ss plainSeg_def list_all_iff)
  then show ?thesis
    using assms urlPath_join [of ss] by (auto simp: deliver_def resolve_console rewriteRule_def ss)
qed

lemmas serve_simps = routes_def js_inj Let_def

lemma apiCall_delivered:
  assumes "apiCall r h args" "page \<in> set consolePages" "list_all plainSeg args"
  shows "deliver page r = Some (h, args)"
proof -
  have w: "plainSeg (js w)" if "w \<in> {''api'', ''v1'', ''tenants'', ''t'', ''schema'', ''tuples'', ''batch'', ''attributes'',
     ''objects'', ''subjects'', ''changelog'', ''expand'', ''access'', ''evaluation''}" for w
    using that plain_words by auto
  have n: "plainSeg x \<Longrightarrow> x \<noteq> []" for x by (simp add: plainSeg_def)
  show ?thesis
    using assms(1,3)
    by (cases rule: apiCall.cases)
      (simp only:, rule deliver_call [OF assms(2)], rule call_paths, simp add: call_methods w n serve_simps)+
qed

section \<open>Properties\<close>

text \<open>
  Claim C36. Every call of the API client reaches, from every page of the console and through the
  rewrites, the handler it is meant for, and the handler receives the tenant, type and identifier
  the caller gave, whenever these are plain path segments.
\<close>

theorem calls_reach_handlers:
  assumes "apiCall r h args" "page \<in> set consolePages" "list_all plainSeg args"
  shows "deliver page r = Some (h, args)"
  using assms by (rule apiCall_delivered)

theorem calls_reach_handlers_witness:
  "deliver (js ''/attributes'') (getObjectAttributes (js ''acme'') (js ''document'') (js ''d1'')) =
     Some (HandleGetObjectAttributes, [js ''acme'', js ''document'', js ''d1''])"
proof (rule calls_reach_handlers [OF apiCall.intros(11)])
  show "js ''/attributes'' \<in> set consolePages" by (simp add: consolePages_def)
  show "list_all plainSeg [js ''acme'', js ''document'', js ''d1'']" by code_simp
qed

text \<open>
  Identifiers are not encoded: the attributes saved for the object \<^verbatim>\<open>d?1\<close> are written to
  the object \<^verbatim>\<open>d\<close>, and a request for the object \<^verbatim>\<open>a/b\<close> reaches no handler at all.
\<close>

theorem identifiers_not_encoded:
  "deliver (js ''/attributes'') (setObjectAttributes (js ''acme'') (js ''document'') (js ''d?1'') attrs) =
     Some (HandleSetObjectAttributes, [js ''acme'', js ''document'', js ''d'']) \<and>
   deliver (js ''/attributes'') (setObjectAttributes (js ''acme'') (js ''document'') (js ''a/b'') attrs) = None"
proof -
  have d: "deliver page r = deliver page (request (rq_method r) (rq_path r))" for page r
    by (simp add: deliver_def request_def)
  have m: "rq_method (setObjectAttributes t k i attrs) = PUT"
    "rq_path (setObjectAttributes t k i attrs) = entityPath t ''/attributes/objects'' k i" for t k i
    by (simp_all add: setObjectAttributes_def request_def)
  have "deliver (js ''/attributes'') (request PUT (entityPath (js ''acme'') ''/attributes/objects'' (js ''document'') (js ''d?1''))) =
     Some (HandleSetObjectAttributes, [js ''acme'', js ''document'', js ''d''])" by code_simp
  moreover have "deliver (js ''/attributes'')
      (request PUT (entityPath (js ''acme'') ''/attributes/objects'' (js ''document'') (js ''a/b''))) = None" by code_simp
  ultimately show ?thesis
    using d [of "js ''/attributes''" "setObjectAttributes (js ''acme'') (js ''document'') (js ''d?1'') attrs"]
      d [of "js ''/attributes''" "setObjectAttributes (js ''acme'') (js ''document'') (js ''a/b'') attrs"] by (simp add: m)
qed

end
