(* ===== verification/Tenant_Manager.thy ===== *)
theory Tenant_Manager
  imports Store_Laws Api_Routes
begin

text \<open>
  \<^verbatim>\<open>pkg/tenant\<close>: the identifiers of tenants, their life cycle (\<^verbatim>\<open>manager.go\<close>), the configuration and the context
  built for a request, the resolvers, the validator of cross-tenant references, and the bootstrap tenant of
  \<^verbatim>\<open>cmd/server/main.go\<close>. The manager works on the memory store here; \<open>Server_On\<close> has it over the interface.
\<close>

section \<open>Identifiers\<close>

definition idChar :: "cu \<Rightarrow> bool" where
  "idChar c \<longleftrightarrow> 0x61 \<le> c \<and> c \<le> 0x7A \<or> 0x30 \<le> c \<and> c \<le> 0x39"

text \<open>The language of \<^verbatim>\<open>^[a-z0-9][a-z0-9-]{0,126}[a-z0-9]$\<close>.\<close>

definition tenantIDRegexp :: "str \<Rightarrow> bool" where
  "tenantIDRegexp s \<longleftrightarrow>
     (case s of [] \<Rightarrow> False
      | c # r \<Rightarrow> idChar c \<and> r \<noteq> [] \<and> length (butlast r) \<le> 126 \<and> list_all (\<lambda>c. idChar c \<or> c = 0x2D) (butlast r) \<and> idChar (last r))"

definition ValidateTenantID :: "str \<Rightarrow> goError + unit" where
  "ValidateTenantID s = (if \<not> tenantIDRegexp s then Inl (InvalidTenantID s) else Inr ())"

section \<open>Configuration and context\<close>

definition DefaultTenantConfig :: TenantConfig where
  "DefaultTenantConfig = \<lparr>MaxTuples = 1000000, MaxRequestsPerSec = 1000, CacheTTLOverride = None, AllowedObjectTypes = [],
     RetentionDays = 30, SyncEnabled = True, WebhookURL = [], ConfigMetadata = None\<rparr>"

definition MergeConfig :: "Tenant \<Rightarrow> TenantConfig option \<Rightarrow> TenantConfig" where
  "MergeConfig t defaults =
     (let base = (case defaults of None \<Rightarrow> DefaultTenantConfig | Some d \<Rightarrow> d); cfg = Config t in
      cfg\<lparr>MaxTuples := (if MaxTuples cfg = 0 then MaxTuples base else MaxTuples cfg),
        MaxRequestsPerSec := (if MaxRequestsPerSec cfg = 0 then MaxRequestsPerSec base else MaxRequestsPerSec cfg),
        RetentionDays := (if RetentionDays cfg = 0 then RetentionDays base else RetentionDays cfg),
        CacheTTLOverride := (if CacheTTLOverride cfg = None then CacheTTLOverride base else CacheTTLOverride cfg)\<rparr>)"

definition BuildContext :: "goContext \<Rightarrow> Store \<Rightarrow> str \<Rightarrow> goError + goContext" where
  "BuildContext ctx s tid =
     (case GetTenant tid s of
        Inl e \<Rightarrow> Inl (BuildContextFailed tid e)
      | Inr t \<Rightarrow> Inr (WithTenantContext ctx \<lparr>CtxTenantID = tid, CtxTenant = t, CtxConfig = MergeConfig t None\<rparr>))"

section \<open>The manager\<close>

definition Create :: "gotime \<Rightarrow> str \<Rightarrow> str \<Rightarrow> str \<Rightarrow> Store \<Rightarrow> goError + (Tenant \<times> Store)" where
  "Create now ident displayName mode s =
     bindE (ValidateTenantID ident) (\<lambda>_.
       let t = \<lparr>TenantIdent = ident, DisplayName = (if displayName = [] then ident else displayName), ParentTenantID = [],
                Status = TenantPending, SchemaMode = mode, SharedSchemaRef = [], Config = DefaultTenantConfig,
                TenantCreatedAt = now, TenantUpdatedAt = 0\<rparr>
       in case CreateTenant now t s of Inl e \<Rightarrow> Inl (CreateTenantFailed e) | Inr s' \<Rightarrow> Inr (t, s'))"

definition Get :: "str \<Rightarrow> Store \<Rightarrow> goError + Tenant" where
  "Get tid s = GetTenant tid s"

definition Activate :: "gotime \<Rightarrow> str \<Rightarrow> Store \<Rightarrow> goError + Store" where
  "Activate now tid s = bindE (GetTenant tid s) (\<lambda>t.
     if Status t = TenantDeleted then Inl ErrTenantDeleted else UpdateTenant now (t\<lparr>Status := TenantActive\<rparr>) s)"

definition Suspend :: "gotime \<Rightarrow> str \<Rightarrow> Store \<Rightarrow> goError + Store" where
  "Suspend now tid s = bindE (GetTenant tid s) (\<lambda>t.
     if Status t \<noteq> TenantActive then Inl (ErrInvalidStateTransition (Status t)) else UpdateTenant now (t\<lparr>Status := TenantSuspended\<rparr>) s)"

definition Delete :: "gotime \<Rightarrow> str \<Rightarrow> Store \<Rightarrow> goError + Store" where
  "Delete now tid s = bindE (GetTenant tid s) (\<lambda>t.
     if Status t = TenantDeleted then Inl ErrTenantDeleted else UpdateTenant now (t\<lparr>Status := TenantDeleted\<rparr>) s)"

definition ManagerList :: "TenantFilter option \<Rightarrow> Store \<Rightarrow> goError + Tenant list" where
  "ManagerList f s = ListTenants f s"

section \<open>Bootstrap, cross-tenant references, resolvers\<close>

definition bootstrapTenantID :: str where "bootstrapTenantID = js ''super''"

definition ensureBootstrapTenant :: "gotime \<Rightarrow> Store \<Rightarrow> goError + Store" where
  "ensureBootstrapTenant now s =
     (case Get bootstrapTenantID s of
        Inl e \<Rightarrow>
          if errRoot e = ErrTenantNotFound
          then bindE (Create now bootstrapTenantID (js ''Super Tenant'') SchemaOwn s) (\<lambda>(_, s1). Activate now bootstrapTenantID s1)
          else Inl e
      | Inr t \<Rightarrow> if Status t = TenantActive then Inr s else UpdateTenant now (t\<lparr>Status := TenantActive\<rparr>) s)"

definition CrossTenantValidate :: "bool \<Rightarrow> goContext \<Rightarrow> str \<Rightarrow> str \<Rightarrow> goError + unit" where
  "CrossTenantValidate enabled ctx fromTenantID toTenantID = (if \<not> enabled then Inl ErrCrossTenantDisabled else Inr ())"

text \<open>
  A resolver gives an identifier (possibly empty) or an error; the chain takes the first that is not empty.
  \<open>None\<close> stands for the error that joins the errors met, or says that none matched. A header that is not
  there reads as the empty text, a request that is not there is \<open>None\<close>.
\<close>

type_synonym resolver = "(str \<rightharpoonup> str) option \<Rightarrow> goError + str"

definition StaticResolver :: "str \<Rightarrow> resolver" where
  "StaticResolver tid r = (if tid = [] then Inl NoStaticTenant else Inr tid)"

definition HeaderResolver :: "str \<Rightarrow> resolver" where
  "HeaderResolver h r = (case r of None \<Rightarrow> Inl NoRequest
     | Some hs \<Rightarrow> Inr (case hs h of None \<Rightarrow> [] | Some v \<Rightarrow> v))"

fun ResolverChain :: "resolver list \<Rightarrow> (str \<rightharpoonup> str) option \<Rightarrow> str option" where
  "ResolverChain [] r = None"
| "ResolverChain (f # fs) r = (case f r of Inr tid \<Rightarrow> if tid \<noteq> [] then Some tid else ResolverChain fs r | Inl _ \<Rightarrow> ResolverChain fs r)"

section \<open>The life cycle\<close>

definition statusOf :: "Store \<Rightarrow> str \<Rightarrow> str option" where
  "statusOf s tid = map_option Status (map_of (st_tenants s) tid)"

text \<open>What the server can do to its store: the manager's operations, the tenant's data, and the fields set after a creation.\<close>

inductive serverStep :: "Store \<Rightarrow> Store \<Rightarrow> bool" where
  create: "Create now ident name mode s = Inr (t, s') \<Longrightarrow> serverStep s s'"
| createWith: "Create now ident name mode s = Inr (t, s1) \<Longrightarrow>
    UpdateTenant now' (t\<lparr>ParentTenantID := p, SharedSchemaRef := r\<rparr>) s1 = Inr s' \<Longrightarrow> serverStep s s'"
| activate: "Activate now tid s = Inr s' \<Longrightarrow> serverStep s s'"
| suspend: "Suspend now tid s = Inr s' \<Longrightarrow> serverStep s s'"
| delete: "Delete now tid s = Inr s' \<Longrightarrow> serverStep s s'"
| data: "runCall now ctx c s = Inr s' \<Longrightarrow> serverStep s s'"

inductive serverReachable :: "Store \<Rightarrow> bool" where
  fresh: "serverReachable NewStore"
| step: "serverReachable s \<Longrightarrow> serverStep s s' \<Longrightarrow> serverReachable s'"

text \<open>The abstract machine of one tenant; \<open>None\<close> is a tenant that does not exist.\<close>

inductive lifecycle :: "str option \<Rightarrow> str option \<Rightarrow> bool" where
  keep: "lifecycle x x"
| created: "lifecycle None (Some TenantPending)"
| activated: "x \<noteq> TenantDeleted \<Longrightarrow> lifecycle (Some x) (Some TenantActive)"
| suspended: "lifecycle (Some TenantActive) (Some TenantSuspended)"
| deleted: "x \<noteq> TenantDeleted \<Longrightarrow> lifecycle (Some x) (Some TenantDeleted)"

section \<open>Lemmas\<close>

lemma UpdateTenant_status:
  assumes "UpdateTenant now t s = Inr s'"
  shows "statusOf s' x = (if x = TenantIdent t then Some (Status t) else statusOf s x)"
  using assms by (auto simp: UpdateTenant_def statusOf_def update_conv' split: if_splits)

lemma GetTenant_Inr: "GetTenant tid s = Inr t \<longleftrightarrow> map_of (st_tenants s) tid = Some t"
  by (auto simp: GetTenant_def split: option.splits)

lemma tenant_name: "storeOk s \<Longrightarrow> map_of (st_tenants s) tid = Some t \<Longrightarrow> TenantIdent t = tid"
  by (auto simp: storeOk_def tenantsOk_def dest!: map_of_SomeD)

lemma st_tenants_init [simp]: "st_tenants (initTenant tid s) = st_tenants s"
  by (simp add: initTenant_def)

lemma Create_status:
  assumes "Create now ident name mode s = Inr (t, s')"
  shows "statusOf s ident = None \<and> TenantIdent t = ident \<and> Status t = TenantPending \<and> tenantIDRegexp ident \<and>
    statusOf s' x = (if x = ident then Some TenantPending else statusOf s x) \<and> (\<exists>n. CreateTenant n t s = Inr s')"
  using assms
  by (auto simp: Create_def ValidateTenantID_def CreateTenant_def statusOf_def update_conv' Let_def bindE_Inr
      split: if_splits sum.splits)

lemma callOk_status: "callOk ctx s s' \<Longrightarrow> statusOf s' x = statusOf s x"
  by (auto simp: callOk_def statusOf_def)

lemma serverStep_store:
  assumes "serverStep s s'" "storeOk s"
  shows "storeOk s'"
  using assms(1)
proof (cases rule: serverStep.cases)
  case (create now ident name mode t)
  then show ?thesis using Create_status assms(2) create_ok by blast
next
  case (createWith now ident name mode t s1 now' p r)
  then show ?thesis using Create_status assms(2) create_ok update_ok by blast
next
  case (data now ctx c)
  then show ?thesis using runCall_ok callOk_storeOk assms(2) by blast
qed (use assms(2) update_ok in \<open>auto simp: Activate_def Suspend_def Delete_def bindE_Inr split: if_splits\<close>)

lemma serverReachable_ok: "serverReachable s \<Longrightarrow> storeOk s"
proof (induction rule: serverReachable.induct)
  case fresh
  then show ?case using reachable_ok [OF storeReachable.fresh] .
qed (rule serverStep_store)

lemma serverStep_lifecycle:
  assumes "serverStep s s'" "storeOk s"
  shows "lifecycle (statusOf s x) (statusOf s' x)"
  using assms(1)
proof (cases rule: serverStep.cases)
  case (create now ident name mode t)
  then show ?thesis using Create_status [of now ident name mode s t s' x] by (auto intro: lifecycle.intros)
next
  case (createWith now ident name mode t s1 now' p r)
  then show ?thesis
    using Create_status [of now ident name mode s t s1 x] UpdateTenant_status [OF createWith(2), of x] by (auto intro: lifecycle.intros)
next
  case (activate now tid)
  then obtain t where t: "map_of (st_tenants s) tid = Some t" "Status t \<noteq> TenantDeleted"
    "UpdateTenant now (t\<lparr>Status := TenantActive\<rparr>) s = Inr s'"
    by (auto simp: Activate_def bindE_Inr GetTenant_Inr split: if_splits)
  then show ?thesis
    using UpdateTenant_status [OF t(3), of x] tenant_name [OF assms(2) t(1)] by (auto simp: statusOf_def intro: lifecycle.intros)
next
  case (suspend now tid)
  then obtain t where t: "map_of (st_tenants s) tid = Some t" "Status t = TenantActive"
    "UpdateTenant now (t\<lparr>Status := TenantSuspended\<rparr>) s = Inr s'"
    by (auto simp: Suspend_def bindE_Inr GetTenant_Inr split: if_splits)
  then show ?thesis
    using UpdateTenant_status [OF t(3), of x] tenant_name [OF assms(2) t(1)] by (auto simp: statusOf_def intro: lifecycle.intros)
next
  case (delete now tid)
  then obtain t where t: "map_of (st_tenants s) tid = Some t" "Status t \<noteq> TenantDeleted"
    "UpdateTenant now (t\<lparr>Status := TenantDeleted\<rparr>) s = Inr s'"
    by (auto simp: Delete_def bindE_Inr GetTenant_Inr split: if_splits)
  then show ?thesis
    using UpdateTenant_status [OF t(3), of x] tenant_name [OF assms(2) t(1)] by (auto simp: statusOf_def intro: lifecycle.intros)
next
  case (data now ctx c)
  then show ?thesis using callOk_status [OF runCall_ok [OF data(1) assms(2)], of x] by (auto intro: lifecycle.intros)
qed

inductive_cases lifecycle_deletedE: "lifecycle (Some TenantDeleted) y"

lemma lifecycle_status:
  "lifecycle x y \<Longrightarrow> x \<in> {None, Some TenantPending, Some TenantActive, Some TenantSuspended, Some TenantDeleted} \<Longrightarrow>
   y \<in> {None, Some TenantPending, Some TenantActive, Some TenantSuspended, Some TenantDeleted}"
  by (cases rule: lifecycle.cases) auto

lemma reachable_status:
  "serverReachable s \<Longrightarrow> statusOf s x \<in> {None, Some TenantPending, Some TenantActive, Some TenantSuspended, Some TenantDeleted}"
proof (induction rule: serverReachable.induct)
  case (step s s')
  then show ?case using lifecycle_status [OF serverStep_lifecycle [OF step(2) serverReachable_ok [OF step(1)], of x]] by blast
qed (simp add: statusOf_def NewStore_def)

lemma final_steps:
  "serverStep\<^sup>*\<^sup>* s s' \<Longrightarrow> serverReachable s \<Longrightarrow> statusOf s x = Some TenantDeleted \<Longrightarrow>
   serverReachable s' \<and> statusOf s' x = Some TenantDeleted"
proof (induction rule: rtranclp_induct)
  case (step y z)
  then have r: "serverReachable y" "statusOf y x = Some TenantDeleted" by auto
  have "lifecycle (Some TenantDeleted) (statusOf z x)"
    using serverStep_lifecycle [OF step(2) serverReachable_ok [OF r(1)], of x] r(2) by simp
  then have "statusOf z x = Some TenantDeleted" by (auto elim: lifecycle_deletedE)
  then show ?case using serverReachable.step [OF r(1) step(2)] by simp
qed simp

lemma idChar_url:
  assumes "idChar c \<or> c = 0x2D"
  shows "urlChar c \<and> c \<noteq> SLASH \<and> c \<noteq> 0x3F \<and> c \<noteq> HASH \<and> c \<noteq> 0x2E"
  using assms unfolding idChar_def urlChar_def by (auto simp: word_le_nat_alt word_less_nat_alt)

lemma regexp_chars: "tenantIDRegexp s \<Longrightarrow> s \<noteq> [] \<and> list_all (\<lambda>c. idChar c \<or> c = 0x2D) s"
proof (cases s)
  case (Cons c r)
  assume "tenantIDRegexp s"
  then have "idChar c" "r \<noteq> []" "list_all (\<lambda>c. idChar c \<or> c = 0x2D) (butlast r)" "idChar (last r)"
    by (auto simp: Cons tenantIDRegexp_def)
  then have "list_all (\<lambda>c. idChar c \<or> c = 0x2D) (butlast r @ [last r])" by (simp del: append_butlast_last_id)
  then show ?thesis using \<open>idChar c\<close> \<open>r \<noteq> []\<close> by (simp add: Cons)
qed (simp add: tenantIDRegexp_def)

lemma regexp_plainSeg: "tenantIDRegexp s \<Longrightarrow> plainSeg s"
proof -
  assume "tenantIDRegexp s"
  then have s: "s \<noteq> []" "\<forall>c \<in> set s. idChar c \<or> c = 0x2D" using regexp_chars by (auto simp: list_all_iff)
  then have u: "\<forall>c \<in> set s. urlChar c \<and> c \<noteq> SLASH \<and> c \<noteq> 0x3F \<and> c \<noteq> HASH \<and> c \<noteq> 0x2E" using idChar_url by blast
  have "hd s \<noteq> 0x2E" using s u by (metis hd_in_set)
  then have "s \<noteq> js ''.'' \<and> s \<noteq> js ''..''" by (auto simp: js_def)
  then show ?thesis using s u by (auto simp: plainSeg_def list_all_iff)
qed

lemma reachable_ids:
  "serverReachable s \<Longrightarrow> statusOf s x \<noteq> None \<Longrightarrow> tenantIDRegexp x"
proof (induction rule: serverReachable.induct)
  case (step s s')
  from step(2) show ?case
  proof (cases rule: serverStep.cases)
    case (create now ident name mode t)
    then show ?thesis using Create_status [OF create(1), of x] step by (auto split: if_splits)
  next
    case (createWith now ident name mode t s1 now' p r)
    then show ?thesis
      using Create_status [OF createWith(1), of x] UpdateTenant_status [OF createWith(2), of x] step by (auto split: if_splits)
  next
    case (data now ctx c)
    then show ?thesis using callOk_status [OF runCall_ok [OF data(1) serverReachable_ok [OF step(1)]], of x] step by simp
  qed (use step serverStep_lifecycle [OF step(2) serverReachable_ok [OF step(1)], of x] in
      \<open>auto simp: Activate_def Suspend_def Delete_def bindE_Inr GetTenant_Inr UpdateTenant_def statusOf_def update_conv' split: if_splits\<close>)
qed (simp add: statusOf_def NewStore_def)

lemma deleted_guards:
  assumes "forTenant ctx tid" "statusOf s tid = Some TenantDeleted"
  shows "writing ctx s g = Inl ErrTenantDeleted" "reading ctx s h = Inl ErrTenantDeleted"
  using assms
  by (auto simp: statusOf_def checkTenantWritable_def checkTenantReadable_def writing_def reading_def tenantIDFromCtx_def
      TenantFromContext_def forTenant_def)

definition acmePending :: Store where
  "acmePending = initTenant (js ''acme'') (NewStore\<lparr>st_tenants := [(js ''acme'',
     \<lparr>TenantIdent = js ''acme'', DisplayName = js ''acme'', ParentTenantID = [], Status = TenantPending, SchemaMode = SchemaOwn,
      SharedSchemaRef = [], Config = DefaultTenantConfig, TenantCreatedAt = 1, TenantUpdatedAt = 1\<rparr>)]\<rparr>)"

lemma acmePending_reachable: "serverReachable acmePending"
proof -
  have "tenantIDRegexp (js ''acme'')" by code_simp
  then have "\<exists>t. Create 1 (js ''acme'') [] SchemaOwn NewStore = Inr (t, acmePending)"
    by (simp add: Create_def ValidateTenantID_def CreateTenant_def NewStore_def acmePending_def Let_def IsZero_def)
  then show ?thesis using serverReachable.step [OF serverReachable.fresh serverStep.create] by blast
qed

definition acmeDeleted :: Store where
  "acmeDeleted = (case Delete 2 (js ''acme'') acmePending of Inr s \<Rightarrow> s | Inl _ \<Rightarrow> NewStore)"

lemma acmeDeleted_reachable: "serverReachable acmeDeleted \<and> statusOf acmeDeleted (js ''acme'') = Some TenantDeleted"
proof -
  have "Delete 2 (js ''acme'') acmePending = Inr acmeDeleted"
    by (simp add: acmeDeleted_def Delete_def GetTenant_def acmePending_def UpdateTenant_def initTenant_def NewStore_def)
  moreover have "statusOf acmeDeleted (js ''acme'') = Some TenantDeleted"
    by (simp add: acmeDeleted_def Delete_def GetTenant_def acmePending_def UpdateTenant_def initTenant_def NewStore_def statusOf_def)
  ultimately show ?thesis using serverReachable.step [OF acmePending_reachable serverStep.delete] by blast
qed

section \<open>Properties\<close>

text \<open>
  The life cycle of a tenant: every operation of the server moves the status of every tenant along the
  abstract machine (created as pending, activated unless deleted, suspended only when active, deleted once),
  and the status is always one of the four.
\<close>

theorem tenant_lifecycle:
  assumes "serverReachable s" "serverStep s s'"
  shows "lifecycle (statusOf s tid) (statusOf s' tid) \<and>
    statusOf s' tid \<in> {None, Some TenantPending, Some TenantActive, Some TenantSuspended, Some TenantDeleted}"
  using serverStep_lifecycle [OF assms(2) serverReachable_ok [OF assms(1)]] reachable_status [OF serverReachable.step [OF assms]] by blast

theorem tenant_lifecycle_witness: "\<exists>s'. serverStep acmePending s' \<and> lifecycle (statusOf acmePending (js ''acme'')) (statusOf s' (js ''acme''))"
proof -
  obtain s' where "Activate 2 (js ''acme'') acmePending = Inr s'"
    by (simp add: Activate_def GetTenant_def acmePending_def UpdateTenant_def initTenant_def NewStore_def)
  then have "serverStep acmePending s'" by (rule serverStep.activate)
  then show ?thesis using tenant_lifecycle [OF acmePending_reachable, of s' "js ''acme''"] by blast
qed

text \<open>
  Deletion is final: whatever the server does afterwards, a deleted tenant stays deleted, writing and
  deleting its tuples and setting its attributes fail with the error for deleted tenants, and so does every read.
\<close>

theorem deleted_is_final:
  assumes "serverReachable s" "statusOf s tid = Some TenantDeleted" "serverStep\<^sup>*\<^sup>* s s'" "forTenant ctx tid"
  shows "statusOf s' tid = Some TenantDeleted \<and>
    WriteTuples now ctx ts s' = Inl ErrTenantDeleted \<and> DeleteTuple now ctx t s' = Inl ErrTenantDeleted \<and>
    SetObjectAttributes ctx ty i attrs s' = Inl ErrTenantDeleted \<and> SetSubjectAttributes ctx ty i attrs s' = Inl ErrTenantDeleted \<and>
    ReadTuples now ctx f s' = Inl ErrTenantDeleted \<and> CheckDirect now ctx a b c d e s' = Inl ErrTenantDeleted \<and>
    ReadChangelog ctx n l s' = Inl ErrTenantDeleted"
proof -
  have d: "statusOf s' tid = Some TenantDeleted" using final_steps [OF assms(3,1,2)] by blast
  then show ?thesis
    by (simp add: deleted_guards [OF assms(4)] WriteTuples_def DeleteTuple_def SetObjectAttributes_def SetSubjectAttributes_def ReadTuples_def CheckDirect_def
        ReadChangelog_def)
qed

theorem deleted_is_final_witness: "WriteTuples 3 acmeContext [] acmeDeleted = Inl ErrTenantDeleted"
  using deleted_is_final [OF acmeDeleted_reachable [THEN conjunct1] acmeDeleted_reachable [THEN conjunct2] rtranclp.rtrancl_refl
      acme_tenant [THEN conjunct1]] by simp

text \<open>
  Every tenant the server can have is one the console can address: its name is a plain path segment of
  two to 128 characters, so a request built with it reaches the handler with exactly this name.
\<close>

theorem tenants_addressable:
  assumes "serverReachable s" "statusOf s tid \<noteq> None" "page \<in> set consolePages"
  shows "2 \<le> length tid \<and> length tid \<le> 128 \<and> deliver page (getTenant tid) = Some (HandleGetTenant, [tid])"
proof -
  have r: "tenantIDRegexp tid" using reachable_ids [OF assms(1,2)] .
  then have "2 \<le> length tid \<and> length tid \<le> 128" by (cases tid) (auto simp: tenantIDRegexp_def Suc_le_eq)
  then show ?thesis using apiCall_delivered [OF apiCall.intros(2) assms(3), of tid] regexp_plainSeg [OF r] by simp
qed

theorem tenants_addressable_witness: "deliver (js ''/schema'') (getTenant (js ''acme'')) = Some (HandleGetTenant, [js ''acme''])"
proof -
  have "statusOf acmePending (js ''acme'') \<noteq> None" by (simp add: statusOf_def acmePending_def initTenant_def NewStore_def)
  moreover have "js ''/schema'' \<in> set consolePages" by (simp add: consolePages_def)
  ultimately show ?thesis using tenants_addressable [OF acmePending_reachable] by blast
qed

end
