(* ===== verification/Server_Api.thy ===== *)
theory Server_Api
  imports Check_Engine Tenant_Manager
begin

text \<open>
  The HTTP handlers, \<^verbatim>\<open>pkg/api\<close>: decoding of bodies, validation, the mapping of errors to status codes, and
  every handler that \<^verbatim>\<open>registerRoutes\<close> registers, as a function of the server's state. A request is what the
  router delivers: path arguments, the tenant header, the query and the body. What comes from outside
  or from conversions of the standard library is in \<open>serverEnv\<close>: the YAML decoder, the hash, the expression
  language, the reading of a JSON number as an \<^verbatim>\<open>int64\<close> and of an RFC 3339 time. A handler is one step; a
  panic ends the request without an answer. The answer keeps its Go value; its JSON encoding is in
  \<open>Console_Server\<close>, where the console reads it.
\<close>

section \<open>Decoding JSON\<close>

text \<open>
  \<^verbatim>\<open>encoding/json\<close> with \<^verbatim>\<open>DisallowUnknownFields\<close>: a key matches a field by simple case folding, members are
  decoded in order, \<^verbatim>\<open>null\<close> leaves a string or struct as it is and clears a map, a slice or a pointer, a second
  object for a map is merged into it, and a value of another kind is an error.
\<close>

definition goFold :: "cu \<Rightarrow> cu" where
  "goFold c = (if 0x41 \<le> c \<and> c \<le> 0x5A then c + 0x20 else if c = 0x212A then 0x6B else if c = 0x017F then 0x73 else c)"

type_synonym 'a fieldDecoder = "json \<Rightarrow> 'a \<Rightarrow> goError + 'a"

fun decodeFields :: "(str \<times> 'a fieldDecoder) list \<Rightarrow> (str \<times> json) list \<Rightarrow> 'a \<Rightarrow> goError + 'a" where
  "decodeFields fs [] x = Inr x"
| "decodeFields fs ((k, v) # kvs) x =
     (case map_of fs (map goFold k) of None \<Rightarrow> Inl InvalidBody | Some d \<Rightarrow> bindE (d v x) (decodeFields fs kvs))"

definition decodeStruct :: "(str \<times> 'a fieldDecoder) list \<Rightarrow> 'a fieldDecoder" where
  "decodeStruct fs v x = (case v of JObj kvs \<Rightarrow> decodeFields fs kvs x | JNull \<Rightarrow> Inr x | _ \<Rightarrow> Inl InvalidBody)"

definition stringField :: "string \<Rightarrow> ((str \<Rightarrow> str) \<Rightarrow> 'a \<Rightarrow> 'a) \<Rightarrow> str \<times> 'a fieldDecoder" where
  "stringField name upd = (js name, \<lambda>v x. case v of JStr s \<Rightarrow> Inr (upd (\<lambda>_. s) x) | JNull \<Rightarrow> Inr x | _ \<Rightarrow> Inl InvalidBody)"

definition mapField :: "string \<Rightarrow> ((gomap option \<Rightarrow> gomap option) \<Rightarrow> 'a \<Rightarrow> 'a) \<Rightarrow> str \<times> 'a fieldDecoder" where
  "mapField name upd = (js name, \<lambda>v x. case v of
       JObj kvs \<Rightarrow> Inr (upd (\<lambda>m. Some (goMapOf ((case m of None \<Rightarrow> [] | Some old \<Rightarrow> old) @ kvs))) x)
     | JNull \<Rightarrow> Inr (upd (\<lambda>_. None) x)
     | _ \<Rightarrow> Inl InvalidBody)"

definition sliceField :: "string \<Rightarrow> (json \<Rightarrow> goError + 'b) \<Rightarrow> (('b list \<Rightarrow> 'b list) \<Rightarrow> 'a \<Rightarrow> 'a) \<Rightarrow> str \<times> 'a fieldDecoder" where
  "sliceField name dec upd = (js name, \<lambda>v x. case v of
       JArr vs \<Rightarrow> bindE (mapE dec vs) (\<lambda>ys. Inr (upd (\<lambda>_. ys) x))
     | JNull \<Rightarrow> Inr (upd (\<lambda>_. []) x)
     | _ \<Rightarrow> Inl InvalidBody)"

definition structField :: "string \<Rightarrow> 'b fieldDecoder \<Rightarrow> ('a \<Rightarrow> 'b) \<Rightarrow> (('b \<Rightarrow> 'b) \<Rightarrow> 'a \<Rightarrow> 'a) \<Rightarrow> str \<times> 'a fieldDecoder" where
  "structField name dec get upd = (js name, \<lambda>v x. bindE (dec v (get x)) (\<lambda>y. Inr (upd (\<lambda>_. y) x)))"

definition int64Field :: "string \<Rightarrow> (jsnum \<Rightarrow> int option) \<Rightarrow> ((int option \<Rightarrow> int option) \<Rightarrow> 'a \<Rightarrow> 'a) \<Rightarrow> str \<times> 'a fieldDecoder" where
  "int64Field name int64Of upd = (js name, \<lambda>v x. case v of
       JNum n \<Rightarrow> (case int64Of n of Some i \<Rightarrow> Inr (upd (\<lambda>_. Some i) x) | None \<Rightarrow> Inl InvalidBody)
     | JNull \<Rightarrow> Inr (upd (\<lambda>_. None) x)
     | _ \<Rightarrow> Inl InvalidBody)"

section \<open>Request bodies\<close>

record CreateTenantRequest =
  CtID :: str
  CtDisplayName :: str
  CtSchemaMode :: str
  CtParentTenantID :: str
  CtSharedSchemaRef :: str

record TupleRequest =
  TrObjectType :: str
  TrObjectID :: str
  TrRelation :: str
  TrSubjectType :: str
  TrSubjectID :: str
  TrSubjectRelation :: str
  TrAttributes :: "gomap option"
  TrTTLSeconds :: "int option"
  TrExpiresAt :: str

record ExpandRequest =
  ExObjectType :: str
  ExObjectID :: str
  ExRelation :: str

text \<open>\<^verbatim>\<open>AuthZenSubject\<close> and \<^verbatim>\<open>AuthZenResource\<close> have the same fields.\<close>

record AuthZenEntity =
  AzType :: str
  AzID :: str
  AzProperties :: "gomap option"

record AuthZenAction =
  AaName :: str
  AaProperties :: "gomap option"

record AuthZenEvaluationRequest =
  AeSubject :: AuthZenEntity
  AeResource :: AuthZenEntity
  AeAction :: AuthZenAction
  AeContext :: "gomap option"

record AuthZenBatchItem =
  AiResource :: AuthZenEntity
  AiAction :: AuthZenAction
  AiContext :: "gomap option"

record AuthZenBatchRequest =
  AbSubject :: AuthZenEntity
  AbEvaluations :: "AuthZenBatchItem list"

definition zeroTupleRequest :: TupleRequest where
  "zeroTupleRequest = \<lparr>TrObjectType = [], TrObjectID = [], TrRelation = [], TrSubjectType = [], TrSubjectID = [], TrSubjectRelation = [],
     TrAttributes = None, TrTTLSeconds = None, TrExpiresAt = []\<rparr>"

definition zeroEntity :: AuthZenEntity where "zeroEntity = \<lparr>AzType = [], AzID = [], AzProperties = None\<rparr>"

definition zeroAction :: AuthZenAction where "zeroAction = \<lparr>AaName = [], AaProperties = None\<rparr>"

definition decodeCreateTenant :: "json \<Rightarrow> goError + CreateTenantRequest" where
  "decodeCreateTenant v = decodeStruct
     [stringField ''id'' CtID_update, stringField ''display_name'' CtDisplayName_update, stringField ''schema_mode'' CtSchemaMode_update,
      stringField ''parent_tenant_id'' CtParentTenantID_update, stringField ''shared_schema_ref'' CtSharedSchemaRef_update]
     v \<lparr>CtID = [], CtDisplayName = [], CtSchemaMode = [], CtParentTenantID = [], CtSharedSchemaRef = []\<rparr>"

definition decodeTuple :: "(jsnum \<Rightarrow> int option) \<Rightarrow> json \<Rightarrow> goError + TupleRequest" where
  "decodeTuple int64Of v = decodeStruct
     [stringField ''object_type'' TrObjectType_update, stringField ''object_id'' TrObjectID_update, stringField ''relation'' TrRelation_update,
      stringField ''subject_type'' TrSubjectType_update, stringField ''subject_id'' TrSubjectID_update,
      stringField ''subject_relation'' TrSubjectRelation_update, mapField ''attributes'' TrAttributes_update,
      int64Field ''ttl_seconds'' int64Of TrTTLSeconds_update, stringField ''expires_at'' TrExpiresAt_update]
     v zeroTupleRequest"

definition decodeBatchTuples :: "(jsnum \<Rightarrow> int option) \<Rightarrow> json \<Rightarrow> goError + TupleRequest list" where
  "decodeBatchTuples int64Of v = decodeStruct [sliceField ''tuples'' (decodeTuple int64Of) (\<lambda>f. f)] v []"

definition decodeAttributes :: "json \<Rightarrow> goError + gomap option" where
  "decodeAttributes v = decodeStruct [mapField ''attributes'' (\<lambda>f. f)] v None"

definition decodeExpand :: "json \<Rightarrow> goError + ExpandRequest" where
  "decodeExpand v = decodeStruct
     [stringField ''object_type'' ExObjectType_update, stringField ''object_id'' ExObjectID_update, stringField ''relation'' ExRelation_update]
     v \<lparr>ExObjectType = [], ExObjectID = [], ExRelation = []\<rparr>"

definition entityDecoder :: "AuthZenEntity fieldDecoder" where
  "entityDecoder = decodeStruct [stringField ''type'' AzType_update, stringField ''id'' AzID_update, mapField ''properties'' AzProperties_update]"

definition actionDecoder :: "AuthZenAction fieldDecoder" where
  "actionDecoder = decodeStruct [stringField ''name'' AaName_update, mapField ''properties'' AaProperties_update]"

definition decodeEvaluation :: "json \<Rightarrow> goError + AuthZenEvaluationRequest" where
  "decodeEvaluation v = decodeStruct
     [structField ''subject'' entityDecoder AeSubject AeSubject_update, structField ''resource'' entityDecoder AeResource AeResource_update,
      structField ''action'' actionDecoder AeAction AeAction_update, mapField ''context'' AeContext_update]
     v \<lparr>AeSubject = zeroEntity, AeResource = zeroEntity, AeAction = zeroAction, AeContext = None\<rparr>"

definition decodeBatchItem :: "json \<Rightarrow> goError + AuthZenBatchItem" where
  "decodeBatchItem v = decodeStruct
     [structField ''resource'' entityDecoder AiResource AiResource_update, structField ''action'' actionDecoder AiAction AiAction_update,
      mapField ''context'' AiContext_update]
     v \<lparr>AiResource = zeroEntity, AiAction = zeroAction, AiContext = None\<rparr>"

definition decodeEvaluations :: "json \<Rightarrow> goError + AuthZenBatchRequest" where
  "decodeEvaluations v = decodeStruct
     [structField ''subject'' entityDecoder AbSubject AbSubject_update, sliceField ''evaluations'' decodeBatchItem AbEvaluations_update]
     v \<lparr>AbSubject = zeroEntity, AbEvaluations = []\<rparr>"

section \<open>Requests, answers, state\<close>

text \<open>
  \<open>gr_path\<close> lists the path arguments in the order of the pattern; \<open>gr_body\<close> is the one JSON value of the body, if it
  is one; \<open>gr_text\<close> is the body as text.
\<close>

record goRequest =
  gr_path :: "str list"
  gr_tenantHeader :: str
  gr_query :: "(str \<times> str) list"
  gr_body :: "json option"
  gr_text :: str

definition PathValue :: "goRequest \<Rightarrow> nat \<Rightarrow> str" where
  "PathValue r i = (if i < length (gr_path r) then gr_path r ! i else [])"

definition queryValue :: "goRequest \<Rightarrow> string \<Rightarrow> str" where
  "queryValue r k = (case map_of (gr_query r) (js k) of Some v \<Rightarrow> v | None \<Rightarrow> [])"

record SchemaResponse =
  SrTenantID :: str
  SrHash :: str
  SrVersion :: str
  SrSource :: str
  SrCompiledAt :: gotime

datatype responseBody =
    NoContent | NullBody | ErrorBody goError | ValidationBody "validationError list" | OkBody | OkCountBody nat
  | TenantBody Tenant | TenantsBody "Tenant list" nat | SchemaBody SchemaResponse | TuplesBody "RelationTuple list" nat
  | AttributesBody "gomap option" | ItemsBody "AttributesItem list" nat | ChangelogBody "ChangelogEntry list" nat "64 word"
  | TreeBody SubjectTree | DecisionBody bool | DecisionsBody "bool list"

datatype goResponse = Reply nat responseBody | Aborted

definition writeError :: "nat \<Rightarrow> goError \<Rightarrow> goResponse" where
  "writeError status e = (if e = Panic then Aborted else Reply status (ErrorBody e))"

record 'p serverEnv =
  env_yaml :: "str \<Rightarrow> RawSchema option"
  env_hash :: "str \<Rightarrow> str"
  env_expr :: "'p exprLang"
  env_int64 :: "jsnum \<Rightarrow> int option"
  env_rfc3339 :: "str \<Rightarrow> gotime option"

text \<open>The server, over whatever implements its store; \<open>Server\<close> is the one over the memory store.\<close>

record ('p, 's) ServerOn =
  srv_store :: 's
  srv_eng :: "'p Engine"
  srv_schemas :: "str \<rightharpoonup> str"
  srv_compiled :: "str \<rightharpoonup> 'p CompiledSchema"

type_synonym 'p Server = "('p, Store) ServerOn"

definition NewServer :: "'s \<Rightarrow> 'p Engine \<Rightarrow> ('p, 's) ServerOn" where
  "NewServer s e = \<lparr>srv_store = s, srv_eng = e, srv_schemas = Map.empty, srv_compiled = Map.empty\<rparr>"

section \<open>Helpers\<close>

definition errStatus :: "goError \<Rightarrow> nat" where
  "errStatus e =
     (let root = errRoot e in
      if root = ErrTenantNotFound \<or> root = ErrNotFound then 404
      else if root = ErrTenantDeleted then 410
      else if root = ErrTenantSuspended then 403
      else if root = ErrDuplicateTuple then 409
      else if root = ErrQuotaExceeded then 429
      else if root = ErrInvalidStateTransition [] then 400
      else 500)"

definition tenantContextErrStatus :: "goError \<Rightarrow> nat" where
  "tenantContextErrStatus e = (let status = errStatus e in if status = 500 then 400 else status)"

definition readJSON :: "goRequest \<Rightarrow> (json \<Rightarrow> goError + 'a) \<Rightarrow> goError + 'a" where
  "readJSON r dec = (case gr_body r of None \<Rightarrow> Inl InvalidBody | Some v \<Rightarrow> dec v)"

definition tenantCtxFromPath :: "goRequest \<Rightarrow> Store \<Rightarrow> goError + goContext" where
  "tenantCtxFromPath r s = (let tid = PathValue r 0 in if tid = [] then Inl MissingTenantID else BuildContext None s tid)"

definition tenantCtxFromHeader :: "goRequest \<Rightarrow> Store \<Rightarrow> goError + goContext" where
  "tenantCtxFromHeader r s = (let tid = gr_tenantHeader r in if tid = [] then Inl MissingTenantHeader else BuildContext None s tid)"

definition parseNonNegativeInt :: "str \<Rightarrow> string \<Rightarrow> goError + int" where
  "parseNonNegativeInt raw name = (case Atoi raw of None \<Rightarrow> Inl (NotAnInteger name) | Some n \<Rightarrow> if n < 0 then Inl (NegativeInteger name) else Inr n)"

definition validateTupleRequest :: "TupleRequest \<Rightarrow> goError + unit" where
  "validateTupleRequest req =
     (if TrimSpace (TrObjectType req) = [] then Inl (Required ''object_type'')
      else if TrimSpace (TrObjectID req) = [] then Inl (Required ''object_id'')
      else if TrimSpace (TrRelation req) = [] then Inl (Required ''relation'')
      else if TrimSpace (TrSubjectType req) = [] then Inl (Required ''subject_type'')
      else if TrimSpace (TrSubjectID req) = [] then Inl (Required ''subject_id'')
      else Inr ())"

definition tupleFromRequest :: "TupleRequest \<Rightarrow> RelationTuple" where
  "tupleFromRequest req = \<lparr>TupleTenantID = [], ObjectType = TrObjectType req, ObjectID = TrObjectID req, Relation = TrRelation req,
     SubjectType = TrSubjectType req, SubjectID = TrSubjectID req, SubjectRelation = TrSubjectRelation req, SubjectTenantID = [],
     Attributes = TrAttributes req, ExpiresAt = None, CreatedAt = 0, UpdatedAt = 0, SourceSystem = [], ExternalID = []\<rparr>"

definition maxTupleTTLSeconds :: int where "maxTupleTTLSeconds = 86400"

definition tupleExpiryFromRequest :: "(str \<Rightarrow> gotime option) \<Rightarrow> TupleRequest \<Rightarrow> gotime \<Rightarrow> goError + gotime option" where
  "tupleExpiryFromRequest rfc3339 req now =
     (let expiresRaw = TrimSpace (TrExpiresAt req) in
      case TrTTLSeconds req of
        Some ttl \<Rightarrow>
          if expiresRaw \<noteq> [] then Inl TtlAndExpires
          else if ttl \<le> 0 then Inl TtlNotPositive
          else if maxTupleTTLSeconds < ttl then Inl TtlTooLarge
          else Inr (Some (now + ttl * nanosPerSecond))
      | None \<Rightarrow>
          if expiresRaw = [] then Inr None
          else (case rfc3339 expiresRaw of None \<Rightarrow> Inl NotRFC3339 | Some t \<Rightarrow> Inr (Some t)))"

definition tupleFromWriteRequest :: "(str \<Rightarrow> gotime option) \<Rightarrow> TupleRequest \<Rightarrow> gotime \<Rightarrow> goError + RelationTuple" where
  "tupleFromWriteRequest rfc3339 req now =
     bindE (tupleExpiryFromRequest rfc3339 req now) (\<lambda>expiresAt. Inr ((tupleFromRequest req)\<lparr>ExpiresAt := expiresAt\<rparr>))"

text \<open>
  The early returns of the handlers: an error with the status it is written with, and otherwise the rest. \<open>orFail\<close> is
  for handlers that change the state, \<open>orElse\<close> for those that do not.
\<close>

definition orElse :: "(goError \<Rightarrow> nat) \<Rightarrow> goError + 'a \<Rightarrow> ('a \<Rightarrow> goResponse) \<Rightarrow> goResponse" where
  "orElse status r f = (case r of Inl e \<Rightarrow> writeError (status e) e | Inr x \<Rightarrow> f x)"

definition orFail :: "(goError \<Rightarrow> nat) \<Rightarrow> 'v \<Rightarrow> goError + 'a \<Rightarrow> ('a \<Rightarrow> goResponse \<times> 'v) \<Rightarrow> goResponse \<times> 'v" where
  "orFail status srv r f = (case r of Inl e \<Rightarrow> (writeError (status e) e, srv) | Inr x \<Rightarrow> f x)"

abbreviation (input) bad :: "goError \<Rightarrow> nat" where "bad \<equiv> \<lambda>_. 400"

section \<open>Tenants\<close>

definition handleHealth :: goResponse where "handleHealth = Reply 200 OkBody"

definition handleCreateTenant :: "gotime \<Rightarrow> goRequest \<Rightarrow> 'p Server \<Rightarrow> goResponse \<times> 'p Server" where
  "handleCreateTenant now r srv =
     orFail bad srv (readJSON r decodeCreateTenant) (\<lambda>req.
       let mode = (if CtSchemaMode req = [] then SchemaOwn else CtSchemaMode req) in
       if CtID req = [] then (writeError 400 (Required ''id''), srv)
       else if mode \<notin> {SchemaOwn, SchemaShared, SchemaInherited} then (writeError 400 InvalidSchemaMode, srv)
       else if mode = SchemaShared \<and> CtSharedSchemaRef req = [] then (writeError 400 SharedRefRequired, srv)
       else orFail bad srv (Create now (CtID req) (CtDisplayName req) mode (srv_store srv)) (\<lambda>(t, s1).
         let srv1 = srv\<lparr>srv_store := s1\<rparr> in
         if CtParentTenantID req \<noteq> [] \<or> CtSharedSchemaRef req \<noteq> [] then
           let t1 = t\<lparr>ParentTenantID := CtParentTenantID req, SharedSchemaRef := CtSharedSchemaRef req\<rparr> in
           orFail errStatus srv1 (UpdateTenant now t1 s1) (\<lambda>s2. (Reply 201 (TenantBody t1), srv1\<lparr>srv_store := s2\<rparr>))
         else (Reply 201 (TenantBody t), srv1)))"

definition nonNegativeParam :: "goRequest \<Rightarrow> string \<Rightarrow> goError + int" where
  "nonNegativeParam r k = (if queryValue r k = [] then Inr 0 else parseNonNegativeInt (queryValue r k) k)"

definition handleListTenants :: "goRequest \<Rightarrow> 'p Server \<Rightarrow> goResponse" where
  "handleListTenants r srv =
     orElse bad (nonNegativeParam r ''limit'') (\<lambda>limit.
     orElse bad (nonNegativeParam r ''offset'') (\<lambda>offset.
     orElse (\<lambda>_. 500) (ManagerList (Some \<lparr>FilterStatus = queryValue r ''status'', FilterParentID = queryValue r ''parent_id'',
         FilterLimit = limit, FilterOffset = offset\<rparr>) (srv_store srv)) (\<lambda>ts.
       Reply 200 (TenantsBody ts (length ts)))))"

definition handleGetTenant :: "goRequest \<Rightarrow> 'p Server \<Rightarrow> goResponse" where
  "handleGetTenant r srv = orElse errStatus (Get (PathValue r 0) (srv_store srv)) (\<lambda>t. Reply 200 (TenantBody t))"

definition handleDeleteTenant :: "gotime \<Rightarrow> goRequest \<Rightarrow> 'p Server \<Rightarrow> goResponse \<times> 'p Server" where
  "handleDeleteTenant now r srv =
     orFail errStatus srv (Delete now (PathValue r 0) (srv_store srv)) (\<lambda>s. (Reply 204 NoContent, srv\<lparr>srv_store := s\<rparr>))"

definition tenantAnswer :: "str \<Rightarrow> Store \<Rightarrow> goResponse" where
  "tenantAnswer tid s = Reply 200 (case Get tid s of Inr t \<Rightarrow> TenantBody t | Inl _ \<Rightarrow> NullBody)"

definition handleActivateTenant :: "gotime \<Rightarrow> goRequest \<Rightarrow> 'p Server \<Rightarrow> goResponse \<times> 'p Server" where
  "handleActivateTenant now r srv =
     orFail errStatus srv (Activate now (PathValue r 0) (srv_store srv)) (\<lambda>s. (tenantAnswer (PathValue r 0) s, srv\<lparr>srv_store := s\<rparr>))"

definition handleSuspendTenant :: "gotime \<Rightarrow> goRequest \<Rightarrow> 'p Server \<Rightarrow> goResponse \<times> 'p Server" where
  "handleSuspendTenant now r srv =
     orFail errStatus srv (Suspend now (PathValue r 0) (srv_store srv)) (\<lambda>s. (tenantAnswer (PathValue r 0) s, srv\<lparr>srv_store := s\<rparr>))"

section \<open>Schemas\<close>

definition schemaReply :: "str \<Rightarrow> 'p CompiledSchema \<Rightarrow> str \<Rightarrow> SchemaResponse" where
  "schemaReply tid cs source = \<lparr>SrTenantID = tid, SrHash = SchemaHash cs, SrVersion = SchemaVersion cs, SrSource = source,
     SrCompiledAt = SchemaCompiledAt cs\<rparr>"

definition handleLoadSchema :: "'p serverEnv \<Rightarrow> gotime \<Rightarrow> goRequest \<Rightarrow> 'p Server \<Rightarrow> goResponse \<times> 'p Server" where
  "handleLoadSchema env now r srv =
     (let tid = PathValue r 0; source = gr_text r in
      orFail errStatus srv (Get tid (srv_store srv)) (\<lambda>_.
      orFail (\<lambda>_. 422) srv (case env_yaml env source of None \<Rightarrow> Inl ParseFailed | Some raw \<Rightarrow> Inr raw) (\<lambda>raw.
      orFail (\<lambda>_. 422) srv (Compile (exprCompile (env_expr env)) (env_hash env) now raw source) (\<lambda>cs.
        if Validate cs \<noteq> [] then (Reply 422 (ValidationBody (Validate cs)), srv)
        else (Reply 200 (SchemaBody (schemaReply tid cs source)),
              srv\<lparr>srv_eng := LoadSchema tid cs (srv_eng srv), srv_schemas := (srv_schemas srv)(tid \<mapsto> source),
                srv_compiled := (srv_compiled srv)(tid \<mapsto> cs)\<rparr>)))))"

text \<open>The two registries are written together, so the compiled schema is there when the source is; reading a missing one panics.\<close>

definition handleGetSchema :: "goRequest \<Rightarrow> ('p, 's) ServerOn \<Rightarrow> goResponse" where
  "handleGetSchema r srv =
     (let tid = PathValue r 0 in
      case srv_schemas srv tid of
        None \<Rightarrow> writeError 404 (NoSchemaForTenant tid)
      | Some source \<Rightarrow> (case srv_compiled srv tid of None \<Rightarrow> Aborted | Some cs \<Rightarrow> Reply 200 (SchemaBody (schemaReply tid cs source))))"

section \<open>Tuples\<close>

definition handleWriteTuple :: "'p serverEnv \<Rightarrow> gotime \<Rightarrow> goRequest \<Rightarrow> 'p Server \<Rightarrow> goResponse \<times> 'p Server" where
  "handleWriteTuple env now r srv =
     orFail tenantContextErrStatus srv (tenantCtxFromPath r (srv_store srv)) (\<lambda>tCtx.
     orFail bad srv (readJSON r (decodeTuple (env_int64 env))) (\<lambda>req.
     orFail bad srv (validateTupleRequest req) (\<lambda>_.
     orFail bad srv (tupleFromWriteRequest (env_rfc3339 env) req now) (\<lambda>tuple.
     orFail errStatus srv (WriteTuple now tCtx tuple (srv_store srv)) (\<lambda>s.
       (Reply 201 OkBody, srv\<lparr>srv_store := s\<rparr>))))))"

fun batchTuples :: "(str \<Rightarrow> gotime option) \<Rightarrow> gotime \<Rightarrow> nat \<Rightarrow> TupleRequest list \<Rightarrow> goError + RelationTuple list" where
  "batchTuples rfc3339 now i [] = Inr []"
| "batchTuples rfc3339 now i (t # ts) =
     (case bindE (validateTupleRequest t) (\<lambda>_. tupleFromWriteRequest rfc3339 t now) of
        Inl e \<Rightarrow> Inl (AtIndex i e)
      | Inr tuple \<Rightarrow> bindE (batchTuples rfc3339 now (Suc i) ts) (\<lambda>rest. Inr (tuple # rest)))"

definition handleWriteTuples :: "'p serverEnv \<Rightarrow> gotime \<Rightarrow> goRequest \<Rightarrow> 'p Server \<Rightarrow> goResponse \<times> 'p Server" where
  "handleWriteTuples env now r srv =
     orFail tenantContextErrStatus srv (tenantCtxFromPath r (srv_store srv)) (\<lambda>tCtx.
     orFail bad srv (readJSON r (decodeBatchTuples (env_int64 env))) (\<lambda>reqs.
       if reqs = [] then (writeError 400 NoTuples, srv)
       else orFail bad srv (batchTuples (env_rfc3339 env) now 0 reqs) (\<lambda>tuples.
         orFail errStatus srv (WriteTuples now tCtx tuples (srv_store srv)) (\<lambda>s.
           (Reply 201 (OkCountBody (length tuples)), srv\<lparr>srv_store := s\<rparr>)))))"

definition handleDeleteTuple :: "'p serverEnv \<Rightarrow> gotime \<Rightarrow> goRequest \<Rightarrow> 'p Server \<Rightarrow> goResponse \<times> 'p Server" where
  "handleDeleteTuple env now r srv =
     orFail tenantContextErrStatus srv (tenantCtxFromPath r (srv_store srv)) (\<lambda>tCtx.
     orFail bad srv (readJSON r (decodeTuple (env_int64 env))) (\<lambda>req.
     orFail bad srv (validateTupleRequest req) (\<lambda>_.
     orFail errStatus srv (DeleteTuple now tCtx (tupleFromRequest req) (srv_store srv)) (\<lambda>s.
       (Reply 204 NoContent, srv\<lparr>srv_store := s\<rparr>)))))"

definition tupleFilterOf :: "goRequest \<Rightarrow> bool \<Rightarrow> TupleFilter" where
  "tupleFilterOf r includeExpired = \<lparr>FObjectType = queryValue r ''object_type'', FObjectID = queryValue r ''object_id'',
     FRelation = queryValue r ''relation'', FSubjectType = queryValue r ''subject_type'', FSubjectID = queryValue r ''subject_id'',
     FSubjectRelation = queryValue r ''subject_relation'', FIncludeExpired = includeExpired\<rparr>"

definition handleReadTuples :: "gotime \<Rightarrow> goRequest \<Rightarrow> 'p Server \<Rightarrow> goResponse" where
  "handleReadTuples now r srv =
     orElse tenantContextErrStatus (tenantCtxFromPath r (srv_store srv)) (\<lambda>tCtx.
     orElse bad (let v = queryValue r ''include_expired'' in if v = [] then Inr False
         else case ParseBool v of None \<Rightarrow> Inl (NotABoolean ''include_expired'') | Some b \<Rightarrow> Inr b) (\<lambda>includeExpired.
     orElse errStatus (ReadTuples now tCtx (Some (tupleFilterOf r includeExpired)) (srv_store srv)) (\<lambda>ts.
       Reply 200 (TuplesBody ts (length ts)))))"

section \<open>Attributes, changelog, expansion\<close>

definition setAttributes ::
  "(goContext \<Rightarrow> str \<Rightarrow> str \<Rightarrow> gomap option \<Rightarrow> Store \<Rightarrow> goError + Store) \<Rightarrow> goRequest \<Rightarrow> 'p Server \<Rightarrow> goResponse \<times> 'p Server" where
  "setAttributes setter r srv =
     orFail tenantContextErrStatus srv (tenantCtxFromPath r (srv_store srv)) (\<lambda>tCtx.
     orFail bad srv (readJSON r decodeAttributes) (\<lambda>attrs.
     orFail errStatus srv (setter tCtx (PathValue r 1) (PathValue r 2) attrs (srv_store srv)) (\<lambda>s.
       (Reply 200 (AttributesBody attrs), srv\<lparr>srv_store := s\<rparr>))))"

definition handleSetObjectAttributes :: "goRequest \<Rightarrow> 'p Server \<Rightarrow> goResponse \<times> 'p Server" where
  "handleSetObjectAttributes = setAttributes SetObjectAttributes"

definition handleSetSubjectAttributes :: "goRequest \<Rightarrow> 'p Server \<Rightarrow> goResponse \<times> 'p Server" where
  "handleSetSubjectAttributes = setAttributes SetSubjectAttributes"

definition handleGetObjectAttributes :: "goRequest \<Rightarrow> 'p Server \<Rightarrow> goResponse" where
  "handleGetObjectAttributes r srv =
     orElse tenantContextErrStatus (tenantCtxFromPath r (srv_store srv)) (\<lambda>tCtx.
     orElse errStatus (GetObjectAttributes tCtx (PathValue r 1) (PathValue r 2) (srv_store srv)) (\<lambda>attrs. Reply 200 (AttributesBody attrs)))"

definition handleGetSubjectAttributes :: "goRequest \<Rightarrow> 'p Server \<Rightarrow> goResponse" where
  "handleGetSubjectAttributes r srv =
     orElse tenantContextErrStatus (tenantCtxFromPath r (srv_store srv)) (\<lambda>tCtx.
     orElse errStatus (GetSubjectAttributes tCtx (PathValue r 1) (PathValue r 2) (srv_store srv)) (\<lambda>attrs. Reply 200 (AttributesBody attrs)))"

definition handleListObjectAttributes :: "goRequest \<Rightarrow> 'p Server \<Rightarrow> goResponse" where
  "handleListObjectAttributes r srv =
     orElse tenantContextErrStatus (tenantCtxFromPath r (srv_store srv)) (\<lambda>tCtx.
     orElse errStatus (ListObjectAttributes tCtx (queryValue r ''type'') (srv_store srv)) (\<lambda>items. Reply 200 (ItemsBody items (length items))))"

definition handleListSubjectAttributes :: "goRequest \<Rightarrow> 'p Server \<Rightarrow> goResponse" where
  "handleListSubjectAttributes r srv =
     orElse tenantContextErrStatus (tenantCtxFromPath r (srv_store srv)) (\<lambda>tCtx.
     orElse errStatus (ListSubjectAttributes tCtx (queryValue r ''type'') (srv_store srv)) (\<lambda>items. Reply 200 (ItemsBody items (length items))))"

definition handleReadChangelog :: "goRequest \<Rightarrow> 'p Server \<Rightarrow> goResponse" where
  "handleReadChangelog r srv =
     orElse tenantContextErrStatus (tenantCtxFromPath r (srv_store srv)) (\<lambda>tCtx.
     orElse bad (let v = queryValue r ''since_seq'' in if v = [] then Inr 0
         else case parseUint 64 v of None \<Rightarrow> Inl (NotAnInteger ''since_seq'') | Some n \<Rightarrow> Inr (of_nat n)) (\<lambda>sinceSeq.
     orElse bad (let v = queryValue r ''limit'' in if v = [] then Inr 100
         else bindE (parseNonNegativeInt v ''limit'') (\<lambda>n. Inr (if 0 < n then n else 100))) (\<lambda>limit.
     orElse errStatus (ReadChangelog tCtx sinceSeq limit (srv_store srv)) (\<lambda>entries.
       Reply 200 (ChangelogBody entries (length entries)
         (case LatestSequence tCtx (srv_store srv) of Inr n \<Rightarrow> n | Inl _ \<Rightarrow> 0))))))"

definition handleExpandRequest :: "gotime \<Rightarrow> goRequest \<Rightarrow> 'p Server \<Rightarrow> goResponse" where
  "handleExpandRequest now r srv =
     orElse tenantContextErrStatus (tenantCtxFromPath r (srv_store srv)) (\<lambda>tCtx.
     orElse bad (readJSON r decodeExpand) (\<lambda>req.
       if TrimSpace (ExObjectType req) = [] \<or> TrimSpace (ExObjectID req) = [] \<or> TrimSpace (ExRelation req) = []
       then writeError 400 ExpandFieldsRequired
       else orElse errStatus (EngineExpand now tCtx (ExObjectType req) (ExObjectID req) (ExRelation req) (srv_store srv)) (\<lambda>tree.
         Reply 200 (TreeBody tree))))"

section \<open>AuthZen\<close>

definition checkDecision :: "'p serverEnv \<Rightarrow> gotime \<Rightarrow> goContext \<Rightarrow> 'p Server \<Rightarrow> CheckRequest \<Rightarrow> bool" where
  "checkDecision env now tCtx srv req =
     (case Check (env_expr env) (srv_eng srv) (memoryLookups now tCtx (srv_store srv)) tCtx req of
        Inl _ \<Rightarrow> False | Inr result \<Rightarrow> Allowed result)"

definition checkRequestOf :: "AuthZenEvaluationRequest \<Rightarrow> CheckRequest" where
  "checkRequestOf req = \<lparr>ReqObjectType = AzType (AeResource req), ReqObjectID = AzID (AeResource req), ReqPermission = AaName (AeAction req),
     ReqSubjectType = AzType (AeSubject req), ReqSubjectID = AzID (AeSubject req), ReqContext = AeContext req\<rparr>"

definition handleAuthZenEvaluation :: "'p serverEnv \<Rightarrow> gotime \<Rightarrow> goRequest \<Rightarrow> 'p Server \<Rightarrow> goResponse" where
  "handleAuthZenEvaluation env now r srv =
     orElse bad (tenantCtxFromHeader r (srv_store srv)) (\<lambda>tCtx.
     orElse bad (readJSON r decodeEvaluation) (\<lambda>req.
       Reply 200 (DecisionBody (checkDecision env now tCtx srv (checkRequestOf req)))))"

definition itemRequestOf :: "AuthZenEntity \<Rightarrow> AuthZenBatchItem \<Rightarrow> CheckRequest" where
  "itemRequestOf subject item = \<lparr>ReqObjectType = AzType (AiResource item), ReqObjectID = AzID (AiResource item), ReqPermission = AaName (AiAction item),
     ReqSubjectType = AzType subject, ReqSubjectID = AzID subject, ReqContext = AiContext item\<rparr>"

definition handleAuthZenEvaluations :: "'p serverEnv \<Rightarrow> gotime \<Rightarrow> goRequest \<Rightarrow> 'p Server \<Rightarrow> goResponse" where
  "handleAuthZenEvaluations env now r srv =
     orElse bad (tenantCtxFromHeader r (srv_store srv)) (\<lambda>tCtx.
     orElse bad (readJSON r decodeEvaluations) (\<lambda>req.
       Reply 200 (DecisionsBody (map (\<lambda>item. checkDecision env now tCtx srv (itemRequestOf (AbSubject req) item))
         (AbEvaluations req)))))"

section \<open>Serving a request\<close>

definition serveRequest :: "'p serverEnv \<Rightarrow> gotime \<Rightarrow> handler \<Rightarrow> goRequest \<Rightarrow> 'p Server \<Rightarrow> goResponse \<times> 'p Server" where
  "serveRequest env now h r srv =
     (case h of
        HandleHealth \<Rightarrow> (handleHealth, srv)
      | HandleCreateTenant \<Rightarrow> handleCreateTenant now r srv
      | HandleListTenants \<Rightarrow> (handleListTenants r srv, srv)
      | HandleGetTenant \<Rightarrow> (handleGetTenant r srv, srv)
      | HandleDeleteTenant \<Rightarrow> handleDeleteTenant now r srv
      | HandleActivateTenant \<Rightarrow> handleActivateTenant now r srv
      | HandleSuspendTenant \<Rightarrow> handleSuspendTenant now r srv
      | HandleLoadSchema \<Rightarrow> handleLoadSchema env now r srv
      | HandleGetSchema \<Rightarrow> (handleGetSchema r srv, srv)
      | HandleWriteTuples \<Rightarrow> handleWriteTuples env now r srv
      | HandleWriteTuple \<Rightarrow> handleWriteTuple env now r srv
      | HandleDeleteTuple \<Rightarrow> handleDeleteTuple env now r srv
      | HandleReadTuples \<Rightarrow> (handleReadTuples now r srv, srv)
      | HandleListObjectAttributes \<Rightarrow> (handleListObjectAttributes r srv, srv)
      | HandleGetObjectAttributes \<Rightarrow> (handleGetObjectAttributes r srv, srv)
      | HandleSetObjectAttributes \<Rightarrow> handleSetObjectAttributes r srv
      | HandleListSubjectAttributes \<Rightarrow> (handleListSubjectAttributes r srv, srv)
      | HandleGetSubjectAttributes \<Rightarrow> (handleGetSubjectAttributes r srv, srv)
      | HandleSetSubjectAttributes \<Rightarrow> handleSetSubjectAttributes r srv
      | HandleReadChangelog \<Rightarrow> (handleReadChangelog r srv, srv)
      | HandleExpand \<Rightarrow> (handleExpandRequest now r srv, srv)
      | HandleEvaluation \<Rightarrow> (handleAuthZenEvaluation env now r srv, srv)
      | HandleEvaluations \<Rightarrow> (handleAuthZenEvaluations env now r srv, srv))"

text \<open>
  The server as a machine: it starts with a new store, creates or activates the bootstrap tenant, and then
  serves requests, each at its time.
\<close>

inductive serverRun :: "'p serverEnv \<Rightarrow> 'p Server \<Rightarrow> bool" for env where
  start: "ensureBootstrapTenant now NewStore = Inr s \<Longrightarrow> serverRun env (NewServer s (NewEngine DefaultMaxCheckDepth))"
| request: "serverRun env srv \<Longrightarrow> serverRun env (snd (serveRequest env now h r srv))"

end
