(* ===== verification/Check_Laws.thy ===== *)
theory Check_Laws
  imports Check_Engine
begin

text \<open>
  What the check engine decides. \<open>grants\<close> is the meaning of a permission as a least fixed point over the
  tuples: a permission holds when its children do, a relation when there is a tuple or a userset that holds, an
  arrow when the permission holds on a related object. For exclusions it only asks for the base, so it is an
  upper bound for every schema and exact for schemas without intersections, exclusions and conditions.

  The engine's side of the contract with its store is the locale \<open>tuple_lookup\<close>; the memory store provides it.
\<close>

section \<open>The meaning of a permission\<close>

inductive grants :: "'p exprLang \<Rightarrow> lookups \<Rightarrow> 'p CompiledSchema \<Rightarrow> CheckRequest \<Rightarrow> 'p PermissionDef \<Rightarrow> bool"
  and refHolds :: "'p exprLang \<Rightarrow> lookups \<Rightarrow> 'p CompiledSchema \<Rightarrow> CheckRequest \<Rightarrow> PermissionRef \<Rightarrow> bool"
  for xl lk cs where
  anyOf: "PermOperation pd = PermOpUnion \<or> PermOperation pd = PermOpDirect \<Longrightarrow> ref \<in> set (Children pd) \<Longrightarrow>
    refHolds xl lk cs req ref \<Longrightarrow> grants xl lk cs req pd"
| allOf: "PermOperation pd = PermOpIntersect \<Longrightarrow> Children pd \<noteq> [] \<Longrightarrow>
    (\<And>ref. ref \<in> set (Children pd) \<Longrightarrow> refHolds xl lk cs req ref) \<Longrightarrow> grants xl lk cs req pd"
| baseOf: "PermOperation pd = PermOpExclusion \<Longrightarrow> Children pd = base # rest \<Longrightarrow> refHolds xl lk cs req base \<Longrightarrow> grants xl lk cs req pd"
| tuple: "Kind ref = KindRelation \<Longrightarrow>
    lk_direct lk (ReqObjectType req) (ReqObjectID req) (RelationRef ref) (ReqSubjectType req) (ReqSubjectID req) = Inr True \<Longrightarrow>
    refHolds xl lk cs req ref"
| usersetRelation: "Kind ref = KindRelation \<Longrightarrow>
    lk_subjects lk (ReqObjectType req) (ReqObjectID req) (RelationRef ref) = Inr subjects \<Longrightarrow> subj \<in> set subjects \<Longrightarrow>
    SubjRelation subj \<noteq> [] \<Longrightarrow> GetPermission cs (SubjType subj) (SubjRelation subj) = Inl e \<Longrightarrow>
    lk_direct lk (SubjType subj) (SubjID subj) (SubjRelation subj) (ReqSubjectType req) (ReqSubjectID req) = Inr True \<Longrightarrow>
    refHolds xl lk cs req ref"
| usersetPermission: "Kind ref = KindRelation \<Longrightarrow>
    lk_subjects lk (ReqObjectType req) (ReqObjectID req) (RelationRef ref) = Inr subjects \<Longrightarrow> subj \<in> set subjects \<Longrightarrow>
    SubjRelation subj \<noteq> [] \<Longrightarrow> GetPermission cs (SubjType subj) (SubjRelation subj) = Inr pd \<Longrightarrow>
    grants xl lk cs (usersetRequest req subj) pd \<Longrightarrow> refHolds xl lk cs req ref"
| arrow: "Kind ref = KindArrow \<Longrightarrow>
    lk_related lk (ReqObjectType req) (ReqObjectID req) (ArrowRef ref) = Inr targets \<Longrightarrow> target \<in> set targets \<Longrightarrow>
    GetPermission cs (ObjType target) (ArrowPermission ref) = Inr pd \<Longrightarrow>
    grants xl lk cs (arrowRequest req (ArrowPermission ref) target) pd \<Longrightarrow> refHolds xl lk cs req ref"
| condition: "Kind ref = KindCondition \<Longrightarrow> compileCondition (exprCompile xl) (ConditionText ref) = Inr c \<Longrightarrow>
    evaluateCondition xl lk req (Some c) = Inr True \<Longrightarrow> refHolds xl lk cs req ref"

definition allows :: "walked \<Rightarrow> bool" where
  "allows w \<longleftrightarrow> (case fst w of Inl _ \<Rightarrow> False | Inr r \<Rightarrow> Allowed r)"

definition denies :: "walked \<Rightarrow> bool" where
  "denies w \<longleftrightarrow> (case fst w of Inl _ \<Rightarrow> False | Inr r \<Rightarrow> \<not> Allowed r)"

section \<open>Soundness\<close>

lemma allows_simps [simp]:
  "allows (Inl e, v) = False" "allows (Inr r, v) = Allowed r" "denies (Inl e, v) = False" "denies (Inr r, v) = (\<not> Allowed r)"
  "Allowed (allow p)" "\<not> Allowed deny"
  by (simp_all add: allows_def denies_def allow_def deny_def)

lemma allows_bindW: "allows (bindW w f) \<longleftrightarrow> (\<exists>r v. w = (Inr r, v) \<and> allows (f r v))"
  by (cases w; cases "fst w") (auto simp: bindW_def)

lemma denies_bindW: "denies (bindW w f) \<longleftrightarrow> (\<exists>r v. w = (Inr r, v) \<and> denies (f r v))"
  by (cases w; cases "fst w") (auto simp: bindW_def)

lemma usersetLoop_sound:
  assumes "\<And>r p v. allows (walk r p v) \<Longrightarrow> grants xl lk cs r p" "Kind ref = KindRelation"
    "lk_subjects lk (ReqObjectType req) (ReqObjectID req) (RelationRef ref) = Inr all"
    "set subjects \<subseteq> set all" "allows (usersetLoop walk lk cs req subjects visited)"
  shows "refHolds xl lk cs req ref"
  using assms(4,5)
proof (induction subjects arbitrary: visited)
  case (Cons subj subjects)
  let ?key = "requestKey (usersetRequest req subj)"
  show ?case
  proof (cases "SubjRelation subj = [] \<or> ?key \<in> set visited")
    case True
    then have "usersetLoop walk lk cs req (subj # subjects) visited = usersetLoop walk lk cs req subjects visited" by (elim disjE) simp_all
    then show ?thesis using Cons by simp
  next
    case False
    note f = False
    show ?thesis
    proof (cases "GetPermission cs (SubjType subj) (SubjRelation subj)")
      case (Inl e)
      then show ?thesis
        using Cons f usersetRelation [OF assms(2,3) _ _ Inl] by (auto split: sum.splits if_splits)
    next
      case (Inr pd)
      then show ?thesis
        using Cons f usersetPermission [OF assms(2,3) _ _ Inr] assms(1) [of "usersetRequest req subj" pd visited]
        by (auto simp: allows_bindW split: if_splits)
    qed
  qed
qed simp

lemma arrowLoop_sound:
  assumes "\<And>r p v. allows (walk r p v) \<Longrightarrow> grants xl lk cs r p" "Kind ref = KindArrow"
    "lk_related lk (ReqObjectType req) (ReqObjectID req) (ArrowRef ref) = Inr all"
    "set targets \<subseteq> set all" "allows (arrowLoop walk cs req (ArrowPermission ref) targets visited)"
  shows "refHolds xl lk cs req ref"
  using assms(4,5)
proof (induction targets arbitrary: visited)
  case (Cons target targets)
  let ?req = "arrowRequest req (ArrowPermission ref) target"
  show ?case
  proof (cases "GetPermission cs (ObjType target) (ArrowPermission ref)")
    case (Inl e)
    then show ?thesis using Cons by (auto split: if_splits)
  next
    case (Inr pd)
    then show ?thesis
      using Cons arrow [OF assms(2,3) _ Inr] assms(1) [of ?req pd visited]
      by (auto simp: allows_bindW split: if_splits)
  qed
qed simp

lemma walkChild_sound:
  assumes "\<And>r p v. allows (walk r p v) \<Longrightarrow> grants xl lk cs r p" "allows (walkChild walk xl lk cs req ref visited)"
  shows "refHolds xl lk cs req ref"
proof (cases "Kind ref")
  case KindRelation
  then show ?thesis
    using assms(2) usersetLoop_sound [OF assms(1) KindRelation _ subset_refl] tuple [OF KindRelation]
    by (auto simp: walkChild_def walkRelation_def split: sum.splits if_splits)
next
  case KindArrow
  then show ?thesis
    using assms(2) arrowLoop_sound [OF assms(1) KindArrow _ subset_refl]
    by (auto simp: walkChild_def walkArrow_def split: sum.splits)
next
  case KindCondition
  then show ?thesis
    using assms(2) condition [OF KindCondition] by (auto simp: walkChild_def split: sum.splits if_splits)
qed

lemma walkUnion_allows: "allows (walkUnion child cs v) \<Longrightarrow> \<exists>c \<in> set cs. \<exists>v. allows (child c v)"
proof (induction cs arbitrary: v)
  case (Cons c cs)
  then obtain r w where w: "child c v = (Inr r, w)" "Allowed r \<or> allows (walkUnion child cs w)"
    by (auto simp: allows_bindW split: if_splits)
  then have "Allowed r \<Longrightarrow> allows (child c v)" by simp
  then show ?case using Cons.IH w(2) by auto
qed simp

lemma intersectLoop_allows: "allows (intersectLoop child cs v) \<Longrightarrow> c \<in> set cs \<Longrightarrow> \<exists>v. allows (child c v)"
proof (induction cs arbitrary: v)
  case (Cons d cs)
  then obtain r w where w: "child d v = (Inr r, w)" "Allowed r" "allows (intersectLoop child cs w)"
    by (auto simp: allows_bindW split: if_splits)
  then have "allows (child d v)" by simp
  then show ?case using Cons.IH Cons.prems w(3) by auto
qed simp

lemma walkExclusion_allows: "allows (walkExclusion child cs v) \<Longrightarrow> \<exists>base rest. cs = base # rest \<and> allows (child base v)"
  by (induction child cs v rule: walkExclusion.induct) (auto simp: allows_bindW split: if_splits)

lemma walkOperation_sound:
  assumes "\<And>ref v. allows (child ref v) \<Longrightarrow> refHolds xl lk cs req ref" "allows (walkOperation (PermOperation pd) child (Children pd) v)"
  shows "grants xl lk cs req pd"
proof (cases "PermOperation pd")
  case PermOpIntersect
  then have "Children pd \<noteq> []" "allows (intersectLoop child (Children pd) v)"
    using assms(2) by (auto simp: walkOperation_def walkIntersect_def split: if_splits)
  then show ?thesis using intersectLoop_allows [of child "Children pd" v] assms(1) by (blast intro: allOf [OF PermOpIntersect])
next
  case PermOpExclusion
  then show ?thesis
    using assms walkExclusion_allows [of child "Children pd" v] baseOf [OF PermOpExclusion] by (auto simp: walkOperation_def)
qed (use assms walkUnion_allows [of child "Children pd" v] in \<open>auto simp: walkOperation_def intro: anyOf\<close>)

lemma walk_sound: "allows (walkPermission maxDepth xl lk cs depth req pd visited) \<Longrightarrow> grants xl lk cs req pd"
proof (induction maxDepth xl lk cs depth req pd visited rule: walkPermission.induct)
  case (1 maxDepth xl lk cs depth req pd visited)
  let ?key = "visitKey (ReqObjectType req) (ReqObjectID req) (PermName pd) (ReqSubjectType req) (ReqSubjectID req)"
  let ?walk = "walkPermission maxDepth xl lk cs (depth + 1)"
  from 1(2) have c: "\<not> maxDepth < depth" "?key \<notin> set visited"
    "allows (walkOperation (PermOperation pd) (walkChild ?walk xl lk cs req) (Children pd) (?key # visited))"
    by (auto simp: walkPermission.simps [of maxDepth xl lk cs depth] Let_def split: if_splits)
  have "\<And>r p v. allows (?walk r p v) \<Longrightarrow> grants xl lk cs r p" using 1(1) [OF c(1) refl c(2)] by simp
  then have "\<And>ref v. allows (walkChild ?walk xl lk cs req ref v) \<Longrightarrow> refHolds xl lk cs req ref" by (rule walkChild_sound)
  then show ?case by (rule walkOperation_sound [OF _ c(3)])
qed

section \<open>The graph a check walks\<close>

text \<open>A node is an object and a permission on it; the subject of the check is fixed.\<close>

type_synonym node = "str \<times> str \<times> str"

definition checkNode :: "CheckRequest \<Rightarrow> node" where
  "checkNode req = (ReqObjectType req, ReqObjectID req, ReqPermission req)"

definition nodeKey :: "str \<Rightarrow> str \<Rightarrow> node \<Rightarrow> str" where
  "nodeKey st si n = (case n of (t, i, p) \<Rightarrow> visitKey t i p st si)"

definition plainNode :: "node \<Rightarrow> bool" where
  "plainNode n \<longleftrightarrow> (case n of (t, i, p) \<Rightarrow> COLON \<notin> set t \<and> HASH \<notin> set i)"

definition nodePerm :: "'p CompiledSchema \<Rightarrow> node \<Rightarrow> goError + 'p PermissionDef" where
  "nodePerm cs n = (case n of (t, i, p) \<Rightarrow> GetPermission cs t p)"

inductive succs :: "lookups \<Rightarrow> 'p CompiledSchema \<Rightarrow> node \<Rightarrow> node \<Rightarrow> bool" for lk cs where
  userset: "GetPermission cs t p = Inr pd \<Longrightarrow> ref \<in> set (Children pd) \<Longrightarrow> Kind ref = KindRelation \<Longrightarrow>
    lk_subjects lk t i (RelationRef ref) = Inr subjects \<Longrightarrow> subj \<in> set subjects \<Longrightarrow> SubjRelation subj \<noteq> [] \<Longrightarrow>
    GetPermission cs (SubjType subj) (SubjRelation subj) = Inr pd' \<Longrightarrow> succs lk cs (t, i, p) (SubjType subj, SubjID subj, SubjRelation subj)"
| arrow: "GetPermission cs t p = Inr pd \<Longrightarrow> ref \<in> set (Children pd) \<Longrightarrow> Kind ref = KindArrow \<Longrightarrow>
    lk_related lk t i (ArrowRef ref) = Inr targets \<Longrightarrow> target \<in> set targets \<Longrightarrow>
    GetPermission cs (ObjType target) (ArrowPermission ref) = Inr pd' \<Longrightarrow> succs lk cs (t, i, p) (ObjType target, ObjID target, ArrowPermission ref)"

inductive hits :: "lookups \<Rightarrow> 'p CompiledSchema \<Rightarrow> str \<Rightarrow> str \<Rightarrow> node \<Rightarrow> bool" for lk cs st si where
  tuple: "GetPermission cs t p = Inr pd \<Longrightarrow> ref \<in> set (Children pd) \<Longrightarrow> Kind ref = KindRelation \<Longrightarrow>
    lk_direct lk t i (RelationRef ref) st si = Inr True \<Longrightarrow> hits lk cs st si (t, i, p)"
| userset: "GetPermission cs t p = Inr pd \<Longrightarrow> ref \<in> set (Children pd) \<Longrightarrow> Kind ref = KindRelation \<Longrightarrow>
    lk_subjects lk t i (RelationRef ref) = Inr subjects \<Longrightarrow> subj \<in> set subjects \<Longrightarrow> SubjRelation subj \<noteq> [] \<Longrightarrow>
    GetPermission cs (SubjType subj) (SubjRelation subj) = Inl e \<Longrightarrow>
    lk_direct lk (SubjType subj) (SubjID subj) (SubjRelation subj) st si = Inr True \<Longrightarrow> hits lk cs st si (t, i, p)"

text \<open>
  Schemas of unions over relations and arrows, without conditions inside; tuples whose subjects have no colon in the
  type and no hash in the identifier.
\<close>

definition unionSchema :: "'p CompiledSchema \<Rightarrow> bool" where
  "unionSchema cs \<longleftrightarrow> list_all (\<lambda>(ty, td). list_all (\<lambda>(p, pd). PermName pd = p \<and>
     (PermOperation pd = PermOpUnion \<or> PermOperation pd = PermOpDirect) \<and> list_all (\<lambda>r. Kind r \<noteq> KindCondition) (Children pd))
     (TypePermissions td)) (SchemaTypes cs)"

definition plainTuples :: "RelationTuple list \<Rightarrow> bool" where
  "plainTuples ts \<longleftrightarrow> list_all (\<lambda>t. COLON \<notin> set (SubjectType t) \<and> HASH \<notin> set (SubjectID t)) ts"

lemma unionSchema_perm:
  assumes "unionSchema cs" "GetPermission cs ty p = Inr pd"
  shows "PermName pd = p \<and> (PermOperation pd = PermOpUnion \<or> PermOperation pd = PermOpDirect) \<and>
    (\<forall>r \<in> set (Children pd). Kind r \<noteq> KindCondition)"
proof -
  obtain td where "(ty, td) \<in> set (SchemaTypes cs)" "(p, pd) \<in> set (TypePermissions td)"
    using assms(2) by (auto simp: GetPermission_Inr dest: map_of_SomeD)
  then show ?thesis using assms(1) by (fastforce simp: unionSchema_def list_all_iff)
qed

lemma nodeKey_inj:
  assumes "plainNode n" "plainNode m" "nodeKey st si n = nodeKey st si m"
  shows "n = m"
proof -
  obtain t i p t' i' p' where nm: "n = (t, i, p)" "m = (t', i', p')" by (cases n; cases m) auto
  have s: "COLON \<notin> set t" "COLON \<notin> set t'" "HASH \<notin> set i" "HASH \<notin> set i'" using assms(1,2) by (auto simp: nm plainNode_def)
  have "t @ COLON # (i @ HASH # p) = t' @ COLON # (i' @ HASH # p')" using assms(3) by (simp add: nm nodeKey_def visitKey_def)
  from append_sep_inj [OF this s(1,2)] have "t = t'" "i @ HASH # p = i' @ HASH # p'" by auto
  with append_sep_inj [OF this(2) s(3,4)] show ?thesis by (simp add: nm)
qed

section \<open>The contract of the lookups\<close>

text \<open>What the engine needs of a store: answers that agree with the live tuples of the tenant, the lists in any order.\<close>

locale tuple_lookup =
  fixes lk :: lookups and live :: "RelationTuple list"
  assumes direct_law: "lk_direct lk ot oi r st si = Inr (list_ex (\<lambda>t. ObjectType t = ot \<and> ObjectID t = oi \<and> Relation t = r \<and>
      SubjectType t = st \<and> SubjectID t = si \<and> SubjectRelation t = []) live)"
    and subjects_law: "\<exists>xs. lk_subjects lk ot oi r = Inr xs \<and>
      set xs = tupleSubject ` {t \<in> set live. ObjectType t = ot \<and> ObjectID t = oi \<and> Relation t = r}"
    and related_law: "\<exists>xs. lk_related lk ot oi r = Inr xs \<and>
      set xs = (\<lambda>t. \<lparr>ObjType = SubjectType t, ObjID = SubjectID t\<rparr>) ` {t \<in> set live. ObjectType t = ot \<and> ObjectID t = oi \<and> Relation t = r}"
begin

lemma subjects_plain:
  "plainTuples live \<Longrightarrow> lk_subjects lk ot oi r = Inr subjects \<Longrightarrow> subj \<in> set subjects \<Longrightarrow>
   plainNode (SubjType subj, SubjID subj, p)"
  using subjects_law [of ot oi r] by (auto simp: plainTuples_def list_all_iff plainNode_def tupleSubject_def)

lemma related_plain:
  "plainTuples live \<Longrightarrow> lk_related lk ot oi r = Inr targets \<Longrightarrow> target \<in> set targets \<Longrightarrow> plainNode (ObjType target, ObjID target, p)"
  using related_law [of ot oi r] by (auto simp: plainTuples_def list_all_iff plainNode_def)

lemma direct_total: "\<exists>b. lk_direct lk ot oi r st si = Inr b"
  by (simp add: direct_law)

end

end
