(* ===== verification/Check_Exact.thy ===== *)
theory Check_Exact
  imports Check_Laws
begin

text \<open>
  The engine's search is exact on union schemas: when the walk denies, the keys it has visited are those of nodes
  that grant nothing themselves and lead only to visited nodes, so nothing is granted; and the walk cannot
  run into the depth limit when the graph has no more nodes than the limit allows, because every level of the
  recursion has visited one more node.
\<close>

section \<open>Requests of one check\<close>

definition okReq :: "'p CompiledSchema \<Rightarrow> str \<Rightarrow> str \<Rightarrow> CheckRequest \<Rightarrow> 'p PermissionDef \<Rightarrow> bool" where
  "okReq cs st si req pd \<longleftrightarrow> ReqSubjectType req = st \<and> ReqSubjectID req = si \<and> plainNode (checkNode req) \<and>
     GetPermission cs (ReqObjectType req) (ReqPermission req) = Inr pd"

definition closedIn :: "lookups \<Rightarrow> 'p CompiledSchema \<Rightarrow> str \<Rightarrow> str \<Rightarrow> str set \<Rightarrow> str set \<Rightarrow> bool" where
  "closedIn lk cs st si D V \<longleftrightarrow> (\<forall>n. plainNode n \<and> nodeKey st si n \<in> D \<longrightarrow>
     \<not> hits lk cs st si n \<and> (\<forall>m. succs lk cs n m \<longrightarrow> nodeKey st si m \<in> V))"

definition knownKeys :: "'p CompiledSchema \<Rightarrow> str \<Rightarrow> str \<Rightarrow> str set \<Rightarrow> bool" where
  "knownKeys cs st si V \<longleftrightarrow> (\<forall>k \<in> V. \<exists>n pd. plainNode n \<and> nodeKey st si n = k \<and> nodePerm cs n = Inr pd)"

text \<open>What a denying walk from \<open>v\<close> to \<open>w\<close> has established.\<close>

definition searched :: "lookups \<Rightarrow> 'p CompiledSchema \<Rightarrow> str \<Rightarrow> str \<Rightarrow> str list \<Rightarrow> str list \<Rightarrow> bool" where
  "searched lk cs st si v w \<longleftrightarrow> set v \<subseteq> set w \<and> closedIn lk cs st si (set w - set v) (set w) \<and> knownKeys cs st si (set w)"

lemma searched_refl: "knownKeys cs st si (set v) \<Longrightarrow> searched lk cs st si v v"
  by (simp add: searched_def closedIn_def)

lemma searched_trans: "searched lk cs st si u v \<Longrightarrow> searched lk cs st si v w \<Longrightarrow> searched lk cs st si u w"
  unfolding searched_def closedIn_def by blast

lemma searched_sub: "searched lk cs st si v w \<Longrightarrow> k \<in> set v \<Longrightarrow> k \<in> set w"
  by (auto simp: searched_def)

lemma requestKey_node: "requestKey req = nodeKey (ReqSubjectType req) (ReqSubjectID req) (checkNode req)"
  by (simp add: requestKey_def nodeKey_def checkNode_def)

lemma subRequest_simps [simp]:
  "ReqObjectType (usersetRequest req subj) = SubjType subj" "ReqObjectID (usersetRequest req subj) = SubjID subj"
  "ReqPermission (usersetRequest req subj) = SubjRelation subj" "ReqSubjectType (usersetRequest req subj) = ReqSubjectType req"
  "ReqSubjectID (usersetRequest req subj) = ReqSubjectID req"
  "ReqObjectType (arrowRequest req p target) = ObjType target" "ReqObjectID (arrowRequest req p target) = ObjID target"
  "ReqPermission (arrowRequest req p target) = p" "ReqSubjectType (arrowRequest req p target) = ReqSubjectType req"
  "ReqSubjectID (arrowRequest req p target) = ReqSubjectID req"
  by (simp_all add: usersetRequest_def arrowRequest_def)

lemma checkNode_userset: "checkNode (usersetRequest req subj) = (SubjType subj, SubjID subj, SubjRelation subj)"
  by (simp add: checkNode_def)

lemma checkNode_arrow: "checkNode (arrowRequest req p target) = (ObjType target, ObjID target, p)"
  by (simp add: checkNode_def)

section \<open>Denying walks\<close>

text \<open>The hypothesis on the recursive call.\<close>

definition walkerSearches :: "lookups \<Rightarrow> 'p CompiledSchema \<Rightarrow> str \<Rightarrow> str \<Rightarrow> 'p walker \<Rightarrow> bool" where
  "walkerSearches lk cs st si walk \<longleftrightarrow> (\<forall>r p v. okReq cs st si r p \<longrightarrow> knownKeys cs st si (set v) \<longrightarrow> denies (walk r p v) \<longrightarrow>
     searched lk cs st si v (snd (walk r p v)) \<and> nodeKey st si (checkNode r) \<in> set (snd (walk r p v)))"

lemma walk_union:
  assumes "unionSchema cs" "okReq cs st si req pd" "depth \<le> maxDepth"
  shows "walkPermission maxDepth xl lk cs depth req pd v =
    (if nodeKey st si (checkNode req) \<in> set v then (Inr deny, v)
     else walkUnion (walkChild (walkPermission maxDepth xl lk cs (depth + 1)) xl lk cs req) (Children pd) (nodeKey st si (checkNode req) # v))"
proof -
  have us: "PermName pd = ReqPermission req" "PermOperation pd = PermOpUnion \<or> PermOperation pd = PermOpDirect"
    using unionSchema_perm [OF assms(1)] assms(2) by (auto simp: okReq_def)
  have key: "visitKey (ReqObjectType req) (ReqObjectID req) (PermName pd) (ReqSubjectType req) (ReqSubjectID req) = nodeKey st si (checkNode req)"
    using us assms(2) by (simp add: nodeKey_def checkNode_def okReq_def)
  have "\<not> maxDepth < depth" using assms(3) by simp
  then show ?thesis
    unfolding walkPermission.simps [of maxDepth xl lk cs depth] Let_def key using us(2) by (auto simp: walkOperation_def)
qed

lemma deny_continues:
  assumes "denies (bindW w (\<lambda>r v. if Allowed r then (Inr r, v) else f v))"
  shows "\<exists>r u. w = (Inr r, u) \<and> \<not> Allowed r \<and> bindW w (\<lambda>r v. if Allowed r then (Inr r, v) else f v) = f u"
  using assms by (cases w; cases "fst w") (auto simp: bindW_def split: if_splits)

lemma walkerSearchesD:
  assumes "walkerSearches lk cs st si walk" "okReq cs st si r p" "knownKeys cs st si (set v)" "walk r p v = (Inr res, w)" "\<not> Allowed res"
  shows "searched lk cs st si v w" "nodeKey st si (checkNode r) \<in> set w"
proof -
  have "denies (walk r p v)" using assms(4,5) by simp
  then have "searched lk cs st si v (snd (walk r p v)) \<and> nodeKey st si (checkNode r) \<in> set (snd (walk r p v))"
    using assms(1-3) unfolding walkerSearches_def by blast
  then show "searched lk cs st si v w" "nodeKey st si (checkNode r) \<in> set w" using assms(4) by simp_all
qed

text \<open>What a child contributes to its node: no hit, and its successors are visited.\<close>

definition childDone :: "lookups \<Rightarrow> 'p CompiledSchema \<Rightarrow> str \<Rightarrow> str \<Rightarrow> CheckRequest \<Rightarrow> str set \<Rightarrow> PermissionRef \<Rightarrow> bool" where
  "childDone lk cs st si req V ref \<longleftrightarrow>
     (Kind ref = KindRelation \<longrightarrow>
        lk_direct lk (ReqObjectType req) (ReqObjectID req) (RelationRef ref) st si = Inr False \<and>
        (\<forall>subjects subj. lk_subjects lk (ReqObjectType req) (ReqObjectID req) (RelationRef ref) = Inr subjects \<longrightarrow> subj \<in> set subjects \<longrightarrow>
           SubjRelation subj \<noteq> [] \<longrightarrow>
           (case GetPermission cs (SubjType subj) (SubjRelation subj) of
              Inl _ \<Rightarrow> lk_direct lk (SubjType subj) (SubjID subj) (SubjRelation subj) st si = Inr False
            | Inr _ \<Rightarrow> nodeKey st si (SubjType subj, SubjID subj, SubjRelation subj) \<in> V))) \<and>
     (Kind ref = KindArrow \<longrightarrow>
        (\<forall>targets target pd. lk_related lk (ReqObjectType req) (ReqObjectID req) (ArrowRef ref) = Inr targets \<longrightarrow> target \<in> set targets \<longrightarrow>
           GetPermission cs (ObjType target) (ArrowPermission ref) = Inr pd \<longrightarrow>
           nodeKey st si (ObjType target, ObjID target, ArrowPermission ref) \<in> V))"

lemma childDone_mono: "childDone lk cs st si req V ref \<Longrightarrow> V \<subseteq> W \<Longrightarrow> childDone lk cs st si req W ref"
  unfolding childDone_def by (auto split: sum.splits) blast+

context tuple_lookup
begin

lemma arrowLoop_searches:
  assumes "walkerSearches lk cs st si walk" "plainTuples live" "ReqSubjectType req = st" "ReqSubjectID req = si"
    "lk_related lk (ReqObjectType req) (ReqObjectID req) r = Inr all" "set targets \<subseteq> set all"
    "denies (arrowLoop walk cs req p targets v)" "knownKeys cs st si (set v)"
  shows "searched lk cs st si v (snd (arrowLoop walk cs req p targets v)) \<and>
    (\<forall>target \<in> set targets. \<forall>pd. GetPermission cs (ObjType target) p = Inr pd \<longrightarrow>
       nodeKey st si (ObjType target, ObjID target, p) \<in> set (snd (arrowLoop walk cs req p targets v)))"
  using assms(6-8)
proof (induction targets arbitrary: v)
  case Nil
  then show ?case by (simp add: searched_refl)
next
  case (Cons target targets)
  let ?req = "arrowRequest req p target"
  have k: "requestKey ?req = nodeKey st si (ObjType target, ObjID target, p)"
    using assms(3,4) by (simp add: requestKey_node checkNode_arrow)
  have sub: "set targets \<subseteq> set all" using Cons.prems(1) by simp
  show ?case
  proof (cases "requestKey ?req \<in> set v")
    case True
    then have e: "arrowLoop walk cs req p (target # targets) v = arrowLoop walk cs req p targets v" by simp
    note IH = Cons.IH [OF sub Cons.prems(2) [unfolded e] Cons.prems(3)]
    then have "nodeKey st si (ObjType target, ObjID target, p) \<in> set (snd (arrowLoop walk cs req p targets v))"
      using True k by (auto simp: searched_def)
    then show ?thesis using IH unfolding e by auto
  next
    case False
    show ?thesis
    proof (cases "GetPermission cs (ObjType target) p")
      case (Inl x)
      then have e: "arrowLoop walk cs req p (target # targets) v = arrowLoop walk cs req p targets v" using False by simp
      show ?thesis using Cons.IH [OF sub Cons.prems(2) [unfolded e] Cons.prems(3)] Inl unfolding e by auto
    next
      case (Inr pd)
      obtain res w where w: "walk ?req pd v = (Inr res, w)" "\<not> Allowed res"
        "arrowLoop walk cs req p (target # targets) v = arrowLoop walk cs req p targets w"
        using Cons.prems(2) False Inr deny_continues [of "walk ?req pd v" "arrowLoop walk cs req p targets"] by auto
      have ok: "okReq cs st si ?req pd"
        using Inr assms(3,4) related_plain [OF assms(2,5), of target p] Cons.prems(1)
        by (simp add: okReq_def checkNode_arrow)
      have s: "searched lk cs st si v w" "nodeKey st si (ObjType target, ObjID target, p) \<in> set w"
        using walkerSearchesD [OF assms(1) ok Cons.prems(3) w(1,2)] by (simp_all add: checkNode_arrow)
      have "knownKeys cs st si (set w)" using s(1) by (simp add: searched_def)
      note IH = Cons.IH [OF sub Cons.prems(2) [unfolded w(3)] this]
      show ?thesis
        unfolding w(3) using searched_trans [OF s(1) IH [THEN conjunct1]] searched_sub [OF IH [THEN conjunct1] s(2)] IH by auto
    qed
  qed
qed

lemma usersetLoop_searches:
  assumes "walkerSearches lk cs st si walk" "plainTuples live" "ReqSubjectType req = st" "ReqSubjectID req = si"
    "lk_subjects lk (ReqObjectType req) (ReqObjectID req) r = Inr all" "set subjects \<subseteq> set all"
    "denies (usersetLoop walk lk cs req subjects v)" "knownKeys cs st si (set v)"
  shows "searched lk cs st si v (snd (usersetLoop walk lk cs req subjects v)) \<and>
    (\<forall>subj \<in> set subjects. SubjRelation subj \<noteq> [] \<longrightarrow>
       (case GetPermission cs (SubjType subj) (SubjRelation subj) of
          Inl _ \<Rightarrow> lk_direct lk (SubjType subj) (SubjID subj) (SubjRelation subj) st si = Inr False
        | Inr _ \<Rightarrow> nodeKey st si (SubjType subj, SubjID subj, SubjRelation subj) \<in> set (snd (usersetLoop walk lk cs req subjects v))))"
    (is "_ \<and> (\<forall>subj \<in> set subjects. ?done subj (usersetLoop walk lk cs req subjects v))")
  using assms(6-8)
proof (induction subjects arbitrary: v)
  case Nil
  then show ?case by (simp add: searched_refl)
next
  case (Cons subj subjects)
  let ?req = "usersetRequest req subj"
  let ?n = "(SubjType subj, SubjID subj, SubjRelation subj)"
  have k: "requestKey ?req = nodeKey st si ?n" using assms(3,4) by (simp add: requestKey_node checkNode_userset)
  have sub: "set subjects \<subseteq> set all" using Cons.prems(1) by simp
  have pl: "plainNode ?n" using subjects_plain [OF assms(2,5), of subj] Cons.prems(1) by simp
  consider (skip) "SubjRelation subj = []" | (seen) "SubjRelation subj \<noteq> []" "nodeKey st si ?n \<in> set v"
    | (relation) x where "SubjRelation subj \<noteq> []" "nodeKey st si ?n \<notin> set v" "GetPermission cs (SubjType subj) (SubjRelation subj) = Inl x"
    | (permission) pd where "SubjRelation subj \<noteq> []" "nodeKey st si ?n \<notin> set v" "GetPermission cs (SubjType subj) (SubjRelation subj) = Inr pd"
    by (cases "GetPermission cs (SubjType subj) (SubjRelation subj)") blast+
  then show ?case
  proof cases
    case skip
    then have e: "usersetLoop walk lk cs req (subj # subjects) v = usersetLoop walk lk cs req subjects v" by simp
    show ?thesis using Cons.IH [OF sub Cons.prems(2) [unfolded e] Cons.prems(3)] skip unfolding e by auto
  next
    case seen
    then have e: "usersetLoop walk lk cs req (subj # subjects) v = usersetLoop walk lk cs req subjects v" by (simp add: k)
    note IH = Cons.IH [OF sub Cons.prems(2) [unfolded e] Cons.prems(3)]
    obtain n pd where n: "plainNode n" "nodeKey st si n = nodeKey st si ?n" "nodePerm cs n = Inr pd"
      using Cons.prems(3) seen(2) by (auto simp: knownKeys_def)
    then have "GetPermission cs (SubjType subj) (SubjRelation subj) = Inr pd" using nodeKey_inj [OF n(1) pl n(2)] by (simp add: nodePerm_def)
    then show ?thesis using IH seen unfolding e by (auto simp: searched_def)
  next
    case relation
    then have d: "lk_direct lk (SubjType subj) (SubjID subj) (SubjRelation subj) st si = Inr False"
      using Cons.prems(2) direct_total [of "SubjType subj" "SubjID subj" "SubjRelation subj" st si] assms(3,4)
      by (auto simp: k split: if_splits)
    then have e: "usersetLoop walk lk cs req (subj # subjects) v = usersetLoop walk lk cs req subjects v"
      using relation assms(3,4) by (simp add: k)
    show ?thesis using Cons.IH [OF sub Cons.prems(2) [unfolded e] Cons.prems(3)] relation d unfolding e by auto
  next
    case permission
    obtain res w where w: "walk ?req pd v = (Inr res, w)" "\<not> Allowed res"
      "usersetLoop walk lk cs req (subj # subjects) v = usersetLoop walk lk cs req subjects w"
      using Cons.prems(2) permission deny_continues [of "walk ?req pd v" "usersetLoop walk lk cs req subjects"] by (auto simp: k)
    have ok: "okReq cs st si ?req pd" using permission assms(3,4) pl by (simp add: okReq_def checkNode_userset)
    have s: "searched lk cs st si v w" "nodeKey st si ?n \<in> set w"
      using walkerSearchesD [OF assms(1) ok Cons.prems(3) w(1,2)] by (simp_all add: checkNode_userset)
    have "knownKeys cs st si (set w)" using s(1) by (simp add: searched_def)
    note IH = Cons.IH [OF sub Cons.prems(2) [unfolded w(3)] this]
    show ?thesis
      unfolding w(3) using searched_trans [OF s(1) IH [THEN conjunct1]] searched_sub [OF IH [THEN conjunct1] s(2)] IH permission by auto
  qed
qed

lemma walkChild_searches:
  assumes "walkerSearches lk cs st si walk" "plainTuples live" "ReqSubjectType req = st" "ReqSubjectID req = si"
    "Kind ref \<noteq> KindCondition" "denies (walkChild walk xl lk cs req ref v)" "knownKeys cs st si (set v)"
  shows "searched lk cs st si v (snd (walkChild walk xl lk cs req ref v)) \<and>
    childDone lk cs st si req (set (snd (walkChild walk xl lk cs req ref v))) ref"
proof (cases "Kind ref")
  case KindRelation
  obtain subs where l: "lk_subjects lk (ReqObjectType req) (ReqObjectID req) (RelationRef ref) = Inr subs" using subjects_law by blast
  have d: "lk_direct lk (ReqObjectType req) (ReqObjectID req) (RelationRef ref) st si = Inr False"
    using assms(3,4,6) KindRelation direct_total [of "ReqObjectType req" "ReqObjectID req" "RelationRef ref" st si]
    by (auto simp: walkChild_def walkRelation_def split: if_splits)
  then have e: "walkChild walk xl lk cs req ref v = usersetLoop walk lk cs req subs v"
    using KindRelation assms(3,4) by (simp add: walkChild_def walkRelation_def l)
  show ?thesis
    using usersetLoop_searches [OF assms(1-4) l subset_refl assms(6) [unfolded e] assms(7)] d KindRelation
    unfolding e by (simp add: childDone_def l)
next
  case KindArrow
  obtain targets where l: "lk_related lk (ReqObjectType req) (ReqObjectID req) (ArrowRef ref) = Inr targets" using related_law by blast
  then have e: "walkChild walk xl lk cs req ref v = arrowLoop walk cs req (ArrowPermission ref) targets v"
    using KindArrow by (simp add: walkChild_def walkArrow_def)
  show ?thesis
    using arrowLoop_searches [OF assms(1-4) l subset_refl assms(6) [unfolded e] assms(7)] KindArrow
    unfolding e by (simp add: childDone_def l)
qed (use assms(5) in simp)

lemma walkUnion_searches:
  assumes "walkerSearches lk cs st si walk" "plainTuples live" "ReqSubjectType req = st" "ReqSubjectID req = si"
    "\<forall>ref \<in> set refs. Kind ref \<noteq> KindCondition" "denies (walkUnion (walkChild walk xl lk cs req) refs v)" "knownKeys cs st si (set v)"
  shows "searched lk cs st si v (snd (walkUnion (walkChild walk xl lk cs req) refs v)) \<and>
    (\<forall>ref \<in> set refs. childDone lk cs st si req (set (snd (walkUnion (walkChild walk xl lk cs req) refs v))) ref)"
  using assms(5-7)
proof (induction refs arbitrary: v)
  case Nil
  then show ?case by (simp add: searched_refl)
next
  case (Cons ref refs)
  let ?child = "walkChild walk xl lk cs req"
  obtain res w where w: "?child ref v = (Inr res, w)" "\<not> Allowed res" "walkUnion ?child (ref # refs) v = walkUnion ?child refs w"
    using Cons.prems(2) deny_continues [of "?child ref v" "walkUnion ?child refs"] by auto
  have "denies (?child ref v)" using w by simp
  then have c: "searched lk cs st si v w" "childDone lk cs st si req (set w) ref"
    using walkChild_searches [OF assms(1-4), of ref xl v] Cons.prems w(1) by auto
  have "knownKeys cs st si (set w)" using c(1) by (simp add: searched_def)
  then have IH: "searched lk cs st si w (snd (walkUnion ?child refs w)) \<and>
      (\<forall>ref \<in> set refs. childDone lk cs st si req (set (snd (walkUnion ?child refs w))) ref)"
    using Cons.IH [of w] Cons.prems w(3) by simp
  then have "set w \<subseteq> set (snd (walkUnion ?child refs w))" by (simp add: searched_def)
  then show ?case
    unfolding w(3) using IH searched_trans [OF c(1)] childDone_mono [OF c(2)] by auto
qed

text \<open>A node whose children are done has no hit and only visited successors.\<close>

lemma childrenDone_closed:
  assumes "GetPermission cs t p = Inr pd" "ReqObjectType req = t" "ReqObjectID req = i"
    "\<forall>ref \<in> set (Children pd). childDone lk cs st si req V ref"
  shows "\<not> hits lk cs st si (t, i, p) \<and> (\<forall>m. succs lk cs (t, i, p) m \<longrightarrow> nodeKey st si m \<in> V)"
proof (intro conjI allI impI notI)
  assume "hits lk cs st si (t, i, p)"
  then show False
  proof (cases rule: hits.cases)
    case (tuple pd' ref)
    then show ?thesis using assms by (auto simp: childDone_def)
  next
    case (userset pd' ref subjects subj e)
    then show ?thesis using assms by (fastforce simp: childDone_def)
  qed
next
  fix m assume "succs lk cs (t, i, p) m"
  then show "nodeKey st si m \<in> V"
  proof (cases rule: succs.cases)
    case (userset pd' ref subjects subj pd'')
    then show ?thesis using assms by (fastforce simp: childDone_def)
  next
    case (arrow pd' ref targets target pd'')
    then show ?thesis using assms by (auto simp: childDone_def)
  qed
qed

lemma walk_searches:
  assumes "unionSchema cs" "plainTuples live"
  shows "walkerSearches lk cs st si (walkPermission maxDepth xl lk cs depth)"
proof (induction "Suc maxDepth - depth" arbitrary: depth)
  case 0
  then have "maxDepth < depth" by simp
  then show ?case by (simp add: walkerSearches_def walkPermission.simps [of maxDepth xl lk cs depth])
next
  case (Suc k)
  let ?walk = "walkPermission maxDepth xl lk cs (depth + 1)"
  have IH: "walkerSearches lk cs st si ?walk" using Suc.hyps(1) [of "depth + 1"] Suc.hyps(2) by simp
  show ?case unfolding walkerSearches_def
  proof (intro allI impI)
    fix req and pd :: "'a PermissionDef" and v
    assume ok: "okReq cs st si req pd" and kn: "knownKeys cs st si (set v)"
      and dn: "denies (walkPermission maxDepth xl lk cs depth req pd v)"
    let ?n = "checkNode req" and ?w = "snd (walkPermission maxDepth xl lk cs depth req pd v)"
    have pd: "GetPermission cs (ReqObjectType req) (ReqPermission req) = Inr pd" "plainNode ?n"
      "ReqSubjectType req = st" "ReqSubjectID req = si" using ok by (auto simp: okReq_def)
    note us = unionSchema_perm [OF assms(1) pd(1)]
    have nd: "depth \<le> maxDepth" using Suc.hyps(2) by simp
    note wu = walk_union [OF assms(1) ok nd, of xl lk v]
    show "searched lk cs st si v ?w \<and> nodeKey st si ?n \<in> set ?w"
    proof (cases "nodeKey st si ?n \<in> set v")
      case True
      then show ?thesis using kn by (simp add: wu searched_refl)
    next
      case False
      let ?v = "nodeKey st si ?n # v"
      have e: "walkPermission maxDepth xl lk cs depth req pd v = walkUnion (walkChild ?walk xl lk cs req) (Children pd) ?v"
        using False by (simp add: wu)
      have kv: "knownKeys cs st si (set ?v)" using kn pd by (auto simp: knownKeys_def nodePerm_def checkNode_def intro!: exI [of _ ?n])
      have nc: "\<forall>ref \<in> set (Children pd). Kind ref \<noteq> KindCondition" using us by blast
      note U = walkUnion_searches [OF IH assms(2) pd(3,4) nc dn [unfolded e] kv, folded e]
      have own: "\<not> hits lk cs st si ?n \<and> (\<forall>m. succs lk cs ?n m \<longrightarrow> nodeKey st si m \<in> set ?w)"
        unfolding checkNode_def by (rule childrenDone_closed [OF pd(1) refl refl U [THEN conjunct2]])
      have "closedIn lk cs st si (set ?w - set v) (set ?w)"
        unfolding closedIn_def
      proof (intro allI impI, elim conjE)
        fix n assume n: "plainNode n" "nodeKey st si n \<in> set ?w - set v"
        show "\<not> hits lk cs st si n \<and> (\<forall>m. succs lk cs n m \<longrightarrow> nodeKey st si m \<in> set ?w)"
        proof (cases "nodeKey st si n = nodeKey st si ?n")
          case True
          then show ?thesis using nodeKey_inj [OF n(1) pd(2) True] own by simp
        next
          case False
          then have "nodeKey st si n \<in> set ?w - set ?v" using n(2) by simp
          then show ?thesis using U [THEN conjunct1] n(1) unfolding searched_def closedIn_def by blast
        qed
      qed
      then show ?thesis using U by (auto simp: searched_def)
    qed
  qed
qed

text \<open>Nothing is granted inside a closed set of keys.\<close>

lemma closed_grants:
  assumes "unionSchema cs" "plainTuples live" "closedIn lk cs st si V V"
  shows "grants xl lk cs req pd \<Longrightarrow> okReq cs st si req pd \<Longrightarrow> nodeKey st si (checkNode req) \<notin> V"
    and "refHolds xl lk cs req ref \<Longrightarrow> (\<forall>pd. okReq cs st si req pd \<longrightarrow> ref \<in> set (Children pd) \<longrightarrow> nodeKey st si (checkNode req) \<notin> V)"
proof (induction rule: grants_refHolds.inducts)
  case (anyOf pd ref req)
  then show ?case by blast
next
  case (allOf pd req)
  then show ?case using unionSchema_perm [OF assms(1)] by (fastforce simp: okReq_def)
next
  case (baseOf pd base rest req)
  then show ?case using unionSchema_perm [OF assms(1)] by (fastforce simp: okReq_def)
next
  case (tuple ref req)
  then have "hits lk cs st si (checkNode req)" if "okReq cs st si req pd" "ref \<in> set (Children pd)" for pd
    using that unfolding checkNode_def okReq_def by (metis hits.tuple)
  then show ?case using assms(3) unfolding closedIn_def by (metis okReq_def)
next
  case (usersetRelation ref req subjects subj e)
  then have "hits lk cs st si (checkNode req)" if "okReq cs st si req pd" "ref \<in> set (Children pd)" for pd
    using that unfolding checkNode_def okReq_def by (metis hits.userset)
  then show ?case using assms(3) unfolding closedIn_def by (metis okReq_def)
next
  case (usersetPermission ref req subjects subj pd)
  let ?m = "checkNode (usersetRequest req subj)"
  have pl: "plainNode ?m" unfolding checkNode_userset using subjects_plain [OF assms(2)] usersetPermission by blast
  have s: "succs lk cs (checkNode req) ?m" if "okReq cs st si req pd0" "ref \<in> set (Children pd0)" for pd0
    unfolding checkNode_userset unfolding checkNode_def
    using that usersetPermission by (intro succs.userset [of cs _ _ pd0 ref lk _ subjects]) (auto simp: okReq_def)
  have "nodeKey st si ?m \<notin> V" if "okReq cs st si req pd0" for pd0
    using usersetPermission that pl by (simp add: okReq_def)
  then show ?case using s assms(3) unfolding closedIn_def by (metis okReq_def)
next
  case (arrow ref req targets target pd)
  let ?m = "checkNode (arrowRequest req (ArrowPermission ref) target)"
  have pl: "plainNode ?m" unfolding checkNode_arrow using related_plain [OF assms(2)] arrow by blast
  have s: "succs lk cs (checkNode req) ?m" if "okReq cs st si req pd0" "ref \<in> set (Children pd0)" for pd0
    unfolding checkNode_arrow unfolding checkNode_def
    using that arrow by (intro succs.arrow [of cs _ _ pd0 ref lk _ targets]) (auto simp: okReq_def)
  have "nodeKey st si ?m \<notin> V" if "okReq cs st si req pd0" for pd0
    using arrow that pl by (simp add: okReq_def)
  then show ?case using s assms(3) unfolding closedIn_def by (metis okReq_def)
next
  case (condition ref c req)
  then show ?case using unionSchema_perm [OF assms(1)] by (fastforce simp: okReq_def)
qed

lemma walk_exact:
  assumes "unionSchema cs" "plainTuples live" "okReq cs st si req pd" "walkPermission maxDepth xl lk cs 0 req pd [] = (Inr r, w)"
  shows "Allowed r \<longleftrightarrow> grants xl lk cs req pd"
proof
  assume "Allowed r"
  then show "grants xl lk cs req pd" using assms(4) walk_sound [of maxDepth xl lk cs 0 req pd "[]"] by simp
next
  assume g: "grants xl lk cs req pd"
  show "Allowed r"
  proof (rule ccontr)
    assume "\<not> Allowed r"
    moreover have "knownKeys cs st si (set [])" by (simp add: knownKeys_def)
    ultimately have s: "searched lk cs st si [] w" "nodeKey st si (checkNode req) \<in> set w"
      using walkerSearchesD [OF walk_searches [OF assms(1,2)] assms(3) _ assms(4)] by auto
    then have "closedIn lk cs st si (set w) (set w)" by (simp add: searched_def)
    then show False using closed_grants(1) [OF assms(1,2) _ g assms(3)] s(2) by blast
  qed
qed

end

end
