(* ===== verification/Check_Total.thy ===== *)
theory Check_Total
  imports Check_Exact
begin

text \<open>
  When a check gives an answer at all, and the properties of \<^verbatim>\<open>Engine.Check\<close> on the memory store. A walk from
  visited keys \<open>v\<close> at depth \<open>d\<close> keeps \<open>d \<le> card (set v)\<close>, because every level of the recursion has added the key
  of its node before it goes deeper; so the depth limit is not reached when the graph below the request has no
  more nodes than there are levels. This holds for all operations, as long as no child is a condition.
\<close>

section \<open>Walks that give an answer\<close>

text \<open>From every list of visited keys in \<open>K\<close> with at least \<open>d\<close> of them, \<open>f\<close> gives a result and stays in \<open>K\<close>.\<close>

definition totalOn :: "str set \<Rightarrow> nat \<Rightarrow> (str list \<Rightarrow> walked) \<Rightarrow> bool" where
  "totalOn K d f \<longleftrightarrow> (\<forall>v. set v \<subseteq> K \<longrightarrow> d \<le> card (set v) \<longrightarrow>
     (\<exists>r w. f v = (Inr r, w) \<and> set w \<subseteq> K \<and> d \<le> card (set w)))"

lemma totalOn_const [simp]: "totalOn K d (\<lambda>v. (Inr r, v))"
  by (simp add: totalOn_def)

lemma totalOn_bindW:
  assumes "totalOn K d f" "\<And>r. totalOn K d (g r)"
  shows "totalOn K d (\<lambda>v. bindW (f v) g)"
  unfolding totalOn_def
proof (intro allI impI)
  fix v assume "set v \<subseteq> K" "d \<le> card (set v)"
  then obtain r w where "f v = (Inr r, w)" "set w \<subseteq> K" "d \<le> card (set w)" using assms(1) unfolding totalOn_def by blast
  then show "\<exists>r w. bindW (f v) g = (Inr r, w) \<and> set w \<subseteq> K \<and> d \<le> card (set w)"
    using assms(2) [of r] by (simp add: bindW_def totalOn_def)
qed

lemma totalOn_if: "totalOn K d f \<Longrightarrow> totalOn K d g \<Longrightarrow> totalOn K d (\<lambda>v. if b v then f v else g v)"
  by (simp add: totalOn_def)

lemma totalOn_mono:
  assumes "\<And>v. set v \<subseteq> K \<Longrightarrow> d \<le> card (set v) \<Longrightarrow> f v = g v" "totalOn K d g"
  shows "totalOn K d f"
  using assms by (simp add: totalOn_def)

text \<open>The loops as functions of the visited keys.\<close>

lemma loops_eta:
  "walkUnion child [] = (\<lambda>v. (Inr deny, v))"
  "walkUnion child (c # cs) = (\<lambda>v. bindW (child c v) (\<lambda>r v. if Allowed r then (Inr r, v) else walkUnion child cs v))"
  "intersectLoop child [] = (\<lambda>v. (Inr (allow []), v))"
  "intersectLoop child (c # cs) = (\<lambda>v. bindW (child c v) (\<lambda>r v. if \<not> Allowed r then (Inr deny, v) else intersectLoop child cs v))"
  "exclusionLoop child [] = (\<lambda>v. (Inr (allow []), v))"
  "exclusionLoop child (c # cs) = (\<lambda>v. bindW (child c v) (\<lambda>r v. if Allowed r then (Inr deny, v) else exclusionLoop child cs v))"
  "walkExclusion child [] = (\<lambda>v. (Inr deny, v))"
  "walkExclusion child (c # cs) = (\<lambda>v. bindW (child c v) (\<lambda>r v. if \<not> Allowed r then (Inr deny, v) else exclusionLoop child cs v))"
  by (rule ext, simp)+

lemma operations_total:
  assumes "\<And>c. c \<in> set cs \<Longrightarrow> totalOn K d (child c)"
  shows "totalOn K d (walkUnion child cs)" "totalOn K d (intersectLoop child cs)" "totalOn K d (exclusionLoop child cs)"
proof -
  show "totalOn K d (walkUnion child cs)"
    using assms by (induction cs) (simp_all add: loops_eta totalOn_bindW totalOn_if)
  show "totalOn K d (intersectLoop child cs)"
    using assms by (induction cs) (simp_all add: loops_eta totalOn_bindW totalOn_if)
  show "totalOn K d (exclusionLoop child cs)"
    using assms by (induction cs) (simp_all add: loops_eta totalOn_bindW totalOn_if)
qed

lemma walkOperation_total:
  assumes "\<And>c. c \<in> set cs \<Longrightarrow> totalOn K d (child c)"
  shows "totalOn K d (walkOperation oper child cs)"
proof -
  have "totalOn K d (walkExclusion child cs)"
    using operations_total(3) [of "tl cs" K d child] assms by (cases cs) (simp_all add: loops_eta totalOn_bindW totalOn_if)
  then show ?thesis
    using operations_total [of cs K d child, OF assms]
    by (cases oper) (simp_all add: walkOperation_def [abs_def] walkIntersect_def [abs_def] totalOn_if)
qed

section \<open>The graph bounds the depth\<close>

text \<open>A recursive call is made only for keys that have not been visited.\<close>

definition walkerTotal :: "'p CompiledSchema \<Rightarrow> str \<Rightarrow> str \<Rightarrow> node set \<Rightarrow> str set \<Rightarrow> nat \<Rightarrow> 'p walker \<Rightarrow> bool" where
  "walkerTotal cs st si R K d walk \<longleftrightarrow> (\<forall>r p v. ReqSubjectType r = st \<longrightarrow> ReqSubjectID r = si \<longrightarrow> checkNode r \<in> R \<longrightarrow>
     GetPermission cs (ReqObjectType r) (ReqPermission r) = Inr p \<longrightarrow> requestKey r \<notin> set v \<longrightarrow> set v \<subseteq> K \<longrightarrow> d \<le> card (set v) \<longrightarrow>
     (\<exists>res w. walk r p v = (Inr res, w) \<and> set w \<subseteq> K \<and> d \<le> card (set w)))"

lemma walkerTotalD:
  assumes "walkerTotal cs st si R K d walk" "ReqSubjectType r = st" "ReqSubjectID r = si" "checkNode r \<in> R"
    "GetPermission cs (ReqObjectType r) (ReqPermission r) = Inr p"
  shows "totalOn K d (\<lambda>v. if requestKey r \<in> set v then (Inr deny, v) else walk r p v)"
  using assms by (simp add: totalOn_def walkerTotal_def)

text \<open>One round of the loops: skip, or walk and go on.\<close>

lemma round_total:
  assumes "totalOn K d (\<lambda>v. if b v then (Inr deny, v) else f v)" "totalOn K d g"
  shows "totalOn K d (\<lambda>v. if b v then g v else bindW (f v) (\<lambda>r v. if Allowed r then (Inr r, v) else g v))"
proof -
  have "totalOn K d (\<lambda>v. bindW (if b v then (Inr deny, v) else f v) (\<lambda>r v. if Allowed r then (Inr r, v) else g v))"
    by (intro totalOn_bindW [OF assms(1)] totalOn_if totalOn_const assms(2))
  then show ?thesis by (rule totalOn_mono [rotated]) (simp add: bindW_def deny_def)
qed

lemma usersetLoop_total:
  assumes "walkerTotal cs st si R K d walk" "ReqSubjectType req = st" "ReqSubjectID req = si"
    "\<And>subj pd. subj \<in> set subjects \<Longrightarrow> SubjRelation subj \<noteq> [] \<Longrightarrow> GetPermission cs (SubjType subj) (SubjRelation subj) = Inr pd \<Longrightarrow>
      (SubjType subj, SubjID subj, SubjRelation subj) \<in> R"
  shows "totalOn K d (usersetLoop walk lk cs req subjects)"
  using assms(4)
proof (induction subjects)
  case Nil
  then show ?case by (simp add: totalOn_def)
next
  case (Cons subj subjects)
  let ?g = "usersetLoop walk lk cs req subjects"
  have g: "totalOn K d ?g" using Cons by simp
  show ?case
  proof (cases "GetPermission cs (SubjType subj) (SubjRelation subj)")
    case (Inl e)
    then show ?thesis using g by (auto simp: totalOn_def split: sum.split)
  next
    case (Inr pd)
    show ?thesis
    proof (cases "SubjRelation subj = []")
      case False
      then have "totalOn K d (\<lambda>v. if requestKey (usersetRequest req subj) \<in> set v then (Inr deny, v) else walk (usersetRequest req subj) pd v)"
        using Inr assms(2,3) Cons.prems [of subj pd] by (intro walkerTotalD [OF assms(1)]) (simp_all add: checkNode_userset)
      from round_total [OF this g] show ?thesis by (rule totalOn_mono [rotated]) (use False Inr in simp)
    qed (use g in \<open>simp add: totalOn_def\<close>)
  qed
qed

lemma arrowLoop_total:
  assumes "walkerTotal cs st si R K d walk" "ReqSubjectType req = st" "ReqSubjectID req = si"
    "\<And>target pd. target \<in> set targets \<Longrightarrow> GetPermission cs (ObjType target) p = Inr pd \<Longrightarrow> (ObjType target, ObjID target, p) \<in> R"
  shows "totalOn K d (arrowLoop walk cs req p targets)"
  using assms(4)
proof (induction targets)
  case Nil
  then show ?case by (simp add: totalOn_def)
next
  case (Cons target targets)
  let ?g = "arrowLoop walk cs req p targets"
  have g: "totalOn K d ?g" using Cons by simp
  show ?case
  proof (cases "GetPermission cs (ObjType target) p")
    case (Inl e)
    then show ?thesis using g by (simp add: totalOn_def)
  next
    case (Inr pd)
    have "totalOn K d (\<lambda>v. if requestKey (arrowRequest req p target) \<in> set v then (Inr deny, v) else walk (arrowRequest req p target) pd v)"
      using Inr assms(2,3) Cons.prems [of target pd] by (intro walkerTotalD [OF assms(1)]) (simp_all add: checkNode_arrow)
    from round_total [OF this g] show ?thesis by (rule totalOn_mono [rotated]) (use Inr in simp)
  qed
qed

definition conditionFree :: "'p CompiledSchema \<Rightarrow> bool" where
  "conditionFree cs \<longleftrightarrow> list_all (\<lambda>(ty, td). list_all (\<lambda>(p, pd). PermName pd = p \<and> list_all (\<lambda>r. Kind r \<noteq> KindCondition) (Children pd))
     (TypePermissions td)) (SchemaTypes cs)"

lemma union_conditionFree: "unionSchema cs \<Longrightarrow> conditionFree cs"
  by (fastforce simp: unionSchema_def conditionFree_def list_all_iff)

lemma conditionFree_perm:
  assumes "conditionFree cs" "GetPermission cs ty p = Inr pd"
  shows "PermName pd = p" "\<And>r. r \<in> set (Children pd) \<Longrightarrow> Kind r \<noteq> KindCondition"
proof -
  obtain td where "(ty, td) \<in> set (SchemaTypes cs)" "(p, pd) \<in> set (TypePermissions td)"
    using assms(2) by (auto simp: GetPermission_Inr dest: map_of_SomeD)
  then show "PermName pd = p" "\<And>r. r \<in> set (Children pd) \<Longrightarrow> Kind r \<noteq> KindCondition"
    using assms(1) by (fastforce simp: conditionFree_def list_all_iff)+
qed

definition closedNodes :: "lookups \<Rightarrow> 'p CompiledSchema \<Rightarrow> node set \<Rightarrow> bool" where
  "closedNodes lk cs R \<longleftrightarrow> (\<forall>n m. n \<in> R \<longrightarrow> succs lk cs n m \<longrightarrow> m \<in> R)"

context tuple_lookup
begin

lemma walkChild_total:
  assumes "walkerTotal cs st si R K d walk" "ReqSubjectType req = st" "ReqSubjectID req = si" "checkNode req \<in> R" "closedNodes lk cs R"
    "GetPermission cs (ReqObjectType req) (ReqPermission req) = Inr pd" "c \<in> set (Children pd)" "Kind c \<noteq> KindCondition"
  shows "totalOn K d (walkChild walk xl lk cs req c)"
proof (cases "Kind c")
  case KindRelation
  obtain subjects where s: "lk_subjects lk (ReqObjectType req) (ReqObjectID req) (RelationRef c) = Inr subjects"
    using subjects_law by blast
  obtain b where b: "lk_direct lk (ReqObjectType req) (ReqObjectID req) (RelationRef c) (ReqSubjectType req) (ReqSubjectID req) = Inr b"
    using direct_total by blast
  have "(SubjType subj, SubjID subj, SubjRelation subj) \<in> R"
    if "subj \<in> set subjects" "SubjRelation subj \<noteq> []" "GetPermission cs (SubjType subj) (SubjRelation subj) = Inr pd'" for subj pd'
    using assms(4,5) succs.userset [OF assms(6,7) KindRelation s that] unfolding closedNodes_def checkNode_def by blast
  then have "totalOn K d (usersetLoop walk lk cs req subjects)" by (rule usersetLoop_total [OF assms(1-3)])
  then show ?thesis using s b KindRelation by (simp add: walkChild_def [abs_def] walkRelation_def [abs_def] totalOn_if)
next
  case KindArrow
  obtain targets where t: "lk_related lk (ReqObjectType req) (ReqObjectID req) (ArrowRef c) = Inr targets" using related_law by blast
  have "(ObjType target, ObjID target, ArrowPermission c) \<in> R"
    if "target \<in> set targets" "GetPermission cs (ObjType target) (ArrowPermission c) = Inr pd'" for target pd'
    using assms(4,5) succs.arrow [OF assms(6,7) KindArrow t that] unfolding closedNodes_def checkNode_def by blast
  then have "totalOn K d (arrowLoop walk cs req (ArrowPermission c) targets)" by (rule arrowLoop_total [OF assms(1-3)])
  then show ?thesis using t KindArrow by (simp add: walkChild_def [abs_def] walkArrow_def [abs_def])
qed (use assms(8) in simp)

lemma walk_total:
  assumes "conditionFree cs" "closedNodes lk cs R" "finite R" "card R \<le> Suc maxDepth"
  shows "walkerTotal cs st si R (nodeKey st si ` R) depth (walkPermission maxDepth xl lk cs depth)"
proof (induction "Suc maxDepth - depth" arbitrary: depth rule: less_induct)
  case less
  let ?K = "nodeKey st si ` R"
  show ?case unfolding walkerTotal_def
  proof (intro allI impI)
    fix r pd v assume r: "ReqSubjectType r = st" "ReqSubjectID r = si" "checkNode r \<in> R"
      and pd: "GetPermission cs (ReqObjectType r) (ReqPermission r) = Inr pd"
      and v: "requestKey r \<notin> set v" "set v \<subseteq> ?K" "depth \<le> card (set v)"
    have k: "requestKey r \<in> ?K" using r by (simp add: requestKey_node)
    then have "card (set v) < card ?K" using v assms(3) by (intro psubset_card_mono) auto
    also have "\<dots> \<le> Suc maxDepth" using card_image_le [OF assms(3), of "nodeKey st si"] assms(4) by simp
    finally have d: "depth \<le> maxDepth" using v(3) by simp
    then have "walkerTotal cs st si R ?K (depth + 1) (walkPermission maxDepth xl lk cs (depth + 1))" using less by simp
    then have "totalOn ?K (depth + 1) (walkChild (walkPermission maxDepth xl lk cs (depth + 1)) xl lk cs r c)" if "c \<in> set (Children pd)" for c
      using walkChild_total [OF _ r assms(2) pd that] conditionFree_perm(2) [OF assms(1) pd that] by blast
    then have "totalOn ?K (depth + 1) (walkOperation (PermOperation pd) (walkChild (walkPermission maxDepth xl lk cs (depth + 1)) xl lk cs r) (Children pd))"
      by (rule walkOperation_total)
    moreover have "set (requestKey r # v) \<subseteq> ?K" "depth + 1 \<le> card (set (requestKey r # v))" using k v by simp_all
    ultimately obtain res w where w: "walkOperation (PermOperation pd) (walkChild (walkPermission maxDepth xl lk cs (depth + 1)) xl lk cs r)
        (Children pd) (requestKey r # v) = (Inr res, w)" "set w \<subseteq> ?K" "depth + 1 \<le> card (set w)"
      unfolding totalOn_def by blast
    have "walkPermission maxDepth xl lk cs depth r pd v = (Inr res, w)"
      using d v(1) w(1) conditionFree_perm(1) [OF assms(1) pd]
      by (simp add: walkPermission.simps [of maxDepth xl lk cs depth] requestKey_def Let_def)
    then show "\<exists>res w. walkPermission maxDepth xl lk cs depth r pd v = (Inr res, w) \<and> set w \<subseteq> ?K \<and> depth \<le> card (set w)"
      using w by simp
  qed
qed

text \<open>From the start of a check.\<close>

lemma walk_answers:
  assumes "conditionFree cs" "closedNodes lk cs R" "finite R" "card R \<le> Suc maxDepth" "checkNode req \<in> R"
    "GetPermission cs (ReqObjectType req) (ReqPermission req) = Inr pd"
  shows "\<exists>r w. walkPermission maxDepth xl lk cs 0 req pd [] = (Inr r, w)"
  using walk_total [OF assms(1-4), of "ReqSubjectType req" "ReqSubjectID req" 0 xl] assms(5,6)
  unfolding walkerTotal_def by (metis bot_nat_0.extremum empty_iff empty_subsetI list.set(1))

end

section \<open>The reachable nodes\<close>

definition reachNodes :: "lookups \<Rightarrow> 'p CompiledSchema \<Rightarrow> node \<Rightarrow> node set" where
  "reachNodes lk cs n = {m. (succs lk cs)\<^sup>*\<^sup>* n m}"

definition permissionNames :: "'p CompiledSchema \<Rightarrow> str list" where
  "permissionNames cs = remdups (concat (map (\<lambda>(ty, td). map fst (TypePermissions td)) (SchemaTypes cs)))"

lemma GetPermission_name: "GetPermission cs ty p = Inr pd \<Longrightarrow> p \<in> set (permissionNames cs)"
  unfolding permissionNames_def by (force simp: GetPermission_Inr dest!: map_of_SomeD)

lemma reachNodes_closed: "checkNode req \<in> reachNodes lk cs (checkNode req)" "closedNodes lk cs (reachNodes lk cs n)"
  by (auto simp: reachNodes_def closedNodes_def)

context tuple_lookup
begin

lemma succs_bounded:
  "succs lk cs n m \<Longrightarrow> m \<in> (\<lambda>(t, p). (SubjectType t, SubjectID t, p)) ` (set live \<times> set (permissionNames cs))"
proof (induction rule: succs.induct)
  case (userset t p pd ref i subjects subj pd')
  then show ?case using subjects_law [of t i "RelationRef ref"] GetPermission_name [OF userset(7)]
    by (force simp: tupleSubject_def image_iff)
next
  case (arrow t p pd ref i targets target pd')
  then show ?case using related_law [of t i "ArrowRef ref"] GetPermission_name [OF arrow(6)]
    by (force simp: image_iff)
qed

lemma reachNodes_bound:
  "finite (reachNodes lk cs n) \<and> card (reachNodes lk cs n) \<le> Suc (card (set live) * length (permissionNames cs))"
proof -
  let ?B = "(\<lambda>(t, p). (SubjectType t, SubjectID t, p)) ` (set live \<times> set (permissionNames cs))"
  have "m = n \<or> m \<in> ?B" if "(succs lk cs)\<^sup>*\<^sup>* n m" for m using that by cases (auto dest: succs_bounded)
  then have sub: "reachNodes lk cs n \<subseteq> insert n ?B" by (auto simp: reachNodes_def)
  have "card ?B \<le> card (set live \<times> set (permissionNames cs))" by (rule card_image_le) simp
  also have "\<dots> \<le> card (set live) * length (permissionNames cs)" by (simp add: card_cartesian_product card_length)
  finally have "card (insert n ?B) \<le> Suc (card (set live) * length (permissionNames cs))"
    using card_insert_le_m1 [of "Suc (card (set live) * length (permissionNames cs))" ?B n] by simp
  then show ?thesis using card_mono [OF _ sub] finite_subset [OF sub] by simp
qed

end

section \<open>The memory store provides the lookups\<close>

definition liveTuples :: "gotime \<Rightarrow> Store \<Rightarrow> str \<Rightarrow> RelationTuple list" where
  "liveTuples now s tid = filter (\<lambda>t. \<not> tupleIsExpiredAt t now) (tuplesOf s tid)"

text \<open>The answers of the store for a tenant once its status has been checked.\<close>

definition tenantLookups :: "gotime \<Rightarrow> str \<Rightarrow> Store \<Rightarrow> lookups" where
  "tenantLookups now tid s =
     \<lparr>lk_direct = (\<lambda>ot oi r st si. Inr (list_ex (\<lambda>t. ObjectType t = ot \<and> ObjectID t = oi \<and> Relation t = r \<and>
        SubjectType t = st \<and> SubjectID t = si \<and> SubjectRelation t = [] \<and> \<not> tupleIsExpiredAt t now) (tuplesOf s tid))),
      lk_related = (\<lambda>ot oi r. Inr (map (\<lambda>t. \<lparr>ObjType = SubjectType t, ObjID = SubjectID t\<rparr>) (relationTuples now ot oi r (tuplesOf s tid)))),
      lk_subjects = (\<lambda>ot oi r. Inr (map tupleSubject (relationTuples now ot oi r (tuplesOf s tid)))),
      lk_objAttrs = (\<lambda>ty i. lookupAttrs (entityKey ty i) (attrsOf (st_objAttrs s) tid)),
      lk_subAttrs = (\<lambda>ty i. lookupAttrs (entityKey ty i) (attrsOf (st_subAttrs s) tid))\<rparr>"

lemma memoryLookups_tenant:
  assumes "forTenant ctx tid" "readableTenant s tid"
  shows "memoryLookups now ctx s = tenantLookups now tid s"
  by (simp add: memoryLookups_def tenantLookups_def CheckDirect_def ListRelatedObjects_def ListSubjects_def GetObjectAttributes_def
      GetSubjectAttributes_def reading_tenant [OF assms])

interpretation mem: tuple_lookup "tenantLookups now tid s" "liveTuples now s tid" for now tid s
  by unfold_locales
    (auto simp: tenantLookups_def liveTuples_def relationTuples_def list_ex_iff)

end
