(* ===== verification/Check_Properties.thy ===== *)
theory Check_Properties
  imports Check_Total Tenant_Manager
begin

text \<open>
  The properties of \<^verbatim>\<open>Engine.Check\<close>: soundness for every schema and store, exactness and termination with
  an answer on the memory store, and the behaviours of the visited set, of computed usersets and of nested
  conditions that the engine's tests do not exercise, each on a schema that compiles and validates.
\<close>

section \<open>A check, unfolded\<close>

text \<open>The engine has the schema of the tenant of the context, and the store may be read for it.\<close>

definition servesTenant :: "'p Engine \<Rightarrow> goContext \<Rightarrow> str \<Rightarrow> Store \<Rightarrow> 'p CompiledSchema \<Rightarrow> bool" where
  "servesTenant e ctx tid s cs \<longleftrightarrow> (case ctx of None \<Rightarrow> False
     | Some tc \<Rightarrow> CtxTenantID tc = tid \<and> IsReadable (CtxTenant tc) \<and> schemaForTenant e tc = Inr cs \<and> readableTenant s tid)"

text \<open>The same without the store: what a check does once the engine has the schema, over any lookups.\<close>

definition engineServes :: "'p Engine \<Rightarrow> goContext \<Rightarrow> 'p CompiledSchema \<Rightarrow> bool" where
  "engineServes e ctx cs \<longleftrightarrow> (case ctx of None \<Rightarrow> False | Some tc \<Rightarrow> IsReadable (CtxTenant tc) \<and> schemaForTenant e tc = Inr cs)"

lemma Check_engine:
  assumes "engineServes e ctx cs" "GetPermission cs (ReqObjectType req) (ReqPermission req) = Inr pd"
  shows "Check xl e lk ctx req =
    bindE (fst (walkPermission (MaxCheckDepth e) xl lk cs 0 req pd [])) (\<lambda>result.
      if Allowed result \<and> PermCondition pd \<noteq> None then
        (case evaluateCondition xl lk req (PermCondition pd) of
           Inl err \<Rightarrow> Inl (ConditionEvaluation err) | Inr allowed \<Rightarrow> if \<not> allowed then Inr deny else Inr result)
      else Inr result)"
  using assms by (auto simp: engineServes_def Check_def TenantFromContext_def IsReadable_def split: option.splits)

lemma serves_memory:
  assumes "servesTenant e ctx tid s cs"
  shows "engineServes e ctx cs" "memoryLookups now ctx s = tenantLookups now tid s"
  using assms memoryLookups_tenant [of ctx tid s now] by (auto simp: servesTenant_def engineServes_def forTenant_def split: option.splits)

text \<open>What an allowing check has found.\<close>

lemma Check_grants:
  assumes "Check xl e lk ctx req = Inr r" "Allowed r"
  shows "\<exists>tc cs pd. ctx = Some tc \<and> IsReadable (CtxTenant tc) \<and> schemaForTenant e tc = Inr cs \<and>
    GetPermission cs (ReqObjectType req) (ReqPermission req) = Inr pd \<and> grants xl lk cs req pd \<and>
    (PermCondition pd = None \<or> evaluateCondition xl lk req (PermCondition pd) = Inr True)"
proof -
  obtain tc cs pd res where c: "ctx = Some tc" "IsReadable (CtxTenant tc)" "schemaForTenant e tc = Inr cs"
    "GetPermission cs (ReqObjectType req) (ReqPermission req) = Inr pd"
    "fst (walkPermission (MaxCheckDepth e) xl lk cs 0 req pd []) = Inr res"
    "(if Allowed res \<and> PermCondition pd \<noteq> None then (case evaluateCondition xl lk req (PermCondition pd) of
         Inl err \<Rightarrow> Inl (ConditionEvaluation err) | Inr allowed \<Rightarrow> if \<not> allowed then Inr deny else Inr res)
      else Inr res) = Inr r"
    using assms(1) by (auto simp: Check_def TenantFromContext_def bindE_Inr split: option.splits if_splits)
  have "Allowed res" "PermCondition pd = None \<or> evaluateCondition xl lk req (PermCondition pd) = Inr True"
    using c(6) assms(2) by (auto split: sum.splits if_splits)
  moreover have "allows (walkPermission (MaxCheckDepth e) xl lk cs 0 req pd [])" using c(5) \<open>Allowed res\<close> by (simp add: allows_def)
  ultimately show ?thesis using c walk_sound by blast
qed

text \<open>On union schemas the check is the meaning of the permission, for every store that answers from its live tuples.\<close>

context tuple_lookup
begin

lemma check_decides:
  assumes "engineServes e ctx cs" "unionSchema cs" "plainTuples live" "plainNode (checkNode req)"
    "GetPermission cs (ReqObjectType req) (ReqPermission req) = Inr pd" "PermCondition pd = None"
    "card (reachNodes lk cs (checkNode req)) \<le> Suc (MaxCheckDepth e)"
  shows "\<exists>r. Check xl e lk ctx req = Inr r \<and> (Allowed r \<longleftrightarrow> grants xl lk cs req pd)"
proof -
  obtain r w where r: "walkPermission (MaxCheckDepth e) xl lk cs 0 req pd [] = (Inr r, w)"
    using walk_answers [OF union_conditionFree [OF assms(2)] reachNodes_closed(2) reachNodes_bound [THEN conjunct1] assms(7)
        reachNodes_closed(1) assms(5)] by blast
  have "okReq cs (ReqSubjectType req) (ReqSubjectID req) req pd" using assms(4,5) by (simp add: okReq_def)
  from walk_exact [OF assms(2,3) this r] show ?thesis
    using r assms(6) by (simp add: Check_engine [OF assms(1,5)])
qed

end

lemma Check_decides:
  assumes "servesTenant e ctx tid s cs" "unionSchema cs" "plainTuples (liveTuples now s tid)" "plainNode (checkNode req)"
    "GetPermission cs (ReqObjectType req) (ReqPermission req) = Inr pd" "PermCondition pd = None"
    "card (reachNodes (tenantLookups now tid s) cs (checkNode req)) \<le> Suc (MaxCheckDepth e)"
  shows "\<exists>r. Check xl e (memoryLookups now ctx s) ctx req = Inr r \<and> (Allowed r \<longleftrightarrow> grants xl (tenantLookups now tid s) cs req pd)"
  using mem.check_decides [OF serves_memory(1) [OF assms(1)] assms(2-7)] by (simp add: serves_memory(2) [OF assms(1)])

section \<open>Examples\<close>

text \<open>Raw schemas, requests of users, and a check of a fresh tenant's tuples against a schema that validates.\<close>

definition rawPerm :: "string list \<Rightarrow> string list \<Rightarrow> string list \<Rightarrow> string \<Rightarrow> RawPermission option" where
  "rawPerm u i x c = Some \<lparr>Resolve = [], Union = map js u, Intersect = map js i, Exclusion = map js x, RawCondition = js c\<rparr>"

definition rawRel :: "string list \<Rightarrow> RawRelation option" where
  "rawRel ts = Some \<lparr>RawRelTypes = map js ts\<rparr>"

definition rawType :: "(string \<times> RawRelation option) list \<Rightarrow> (string \<times> RawPermission option) list \<Rightarrow> RawType option" where
  "rawType rels perms = Some \<lparr>RawAttributes = [], RawRelations = map (map_prod js id) rels, RawPermissions = map (map_prod js id) perms\<rparr>"

definition askFor :: "string \<Rightarrow> string \<Rightarrow> string \<Rightarrow> string \<Rightarrow> CheckRequest" where
  "askFor ot oi p si = \<lparr>ReqObjectType = js ot, ReqObjectID = js oi, ReqPermission = js p, ReqSubjectType = js ''user'',
     ReqSubjectID = js si, ReqContext = Some []\<rparr>"

text \<open>An expression language with the constant \<^verbatim>\<open>false\<close> only.\<close>

definition falseExpr :: "unit exprLang" where
  "falseExpr = \<lparr>exprCompile = (\<lambda>src. if src = js ''false'' then Some () else None), exprRun = (\<lambda>_ _ _ _. Some (JBool False))\<rparr>"

definition compiledCase :: "(string \<times> RawType option) list \<Rightarrow> goError + unit CompiledSchema" where
  "compiledCase types = Compile (exprCompile falseExpr) id 1 \<lparr>RawVersion = js ''1.0'', RawTypes = map (map_prod js id) types\<rparr> []"

definition checkCase :: "(string \<times> RawType option) list \<Rightarrow> RelationTuple list \<Rightarrow> CheckRequest \<Rightarrow> (goError + CheckResult) option" where
  "checkCase types ts req =
     (case compiledCase types of
        Inl _ \<Rightarrow> None
      | Inr cs \<Rightarrow>
          (case (Validate cs, WriteTuples 5 acmeContext ts acmeStore) of
             ([], Inr s) \<Rightarrow> Some (Check falseExpr (LoadSchema (js ''acme'') cs (NewEngine DefaultMaxCheckDepth)) (memoryLookups 6 acmeContext s) acmeContext req)
           | _ \<Rightarrow> None))"

definition allowedIn :: "(goError + CheckResult) option \<Rightarrow> bool option" where
  "allowedIn r = (case r of Some (Inr res) \<Rightarrow> Some (Allowed res) | _ \<Rightarrow> None)"

definition documentTypes :: "(string \<times> RawType option) list" where
  "documentTypes =
     [(''user'', rawType [] []),
      (''folder'', rawType [(''viewer'', rawRel [''user'']), (''parent'', rawRel [''folder''])] [(''view'', rawPerm [''viewer'', ''parent->view''] [] [] [])]),
      (''document'', rawType [(''viewer'', rawRel [''user'']), (''parent'', rawRel [''folder''])] [(''view'', rawPerm [''viewer'', ''parent->view''] [] [] [])])]"

definition documentSchema :: "unit CompiledSchema" where
  "documentSchema = (case compiledCase documentTypes of Inr cs \<Rightarrow> cs | Inl _ \<Rightarrow> \<lparr>SchemaTypes = [], SchemaVersion = [], SchemaHash = [], SchemaCompiledAt = 0\<rparr>)"

definition documentTuple :: RelationTuple where
  "documentTuple = plainTuple ''document'' ''d1'' ''viewer'' ''user'' ''alice'' ''''"

definition documentEngine :: "unit Engine" where
  "documentEngine = LoadSchema (js ''acme'') documentSchema (NewEngine DefaultMaxCheckDepth)"

definition documentStore :: Store where
  "documentStore = (case WriteTuple 5 acmeContext documentTuple acmeStore of Inr s \<Rightarrow> s | Inl _ \<Rightarrow> acmeStore)"

definition documentPerm :: "unit PermissionDef" where
  "documentPerm = (case GetPermission documentSchema (js ''document'') (js ''view'') of Inr pd \<Rightarrow> pd
     | Inl _ \<Rightarrow> \<lparr>PermName = [], PermOperation = PermOpUnion, Children = [], PermCondition = None\<rparr>)"

lemma document_facts:
  "unionSchema documentSchema" "GetPermission documentSchema (js ''document'') (js ''view'') = Inr documentPerm"
  "PermCondition documentPerm = None" "length (permissionNames documentSchema) = 1" "Validate documentSchema = []"
  by code_simp+

lemma document_child: "(\<lparr>RelationRef = js ''viewer'', ArrowRef = [], ArrowPermission = [], ConditionText = []\<rparr> :: PermissionRef) \<in> set (Children documentPerm)"
  "PermOperation documentPerm = PermOpUnion"
  by code_simp+

lemma document_serves: "servesTenant documentEngine acmeContext (js ''acme'') documentStore documentSchema"
  by code_simp

lemma document_live: "liveTuples 6 documentStore (js ''acme'') = [stamp 5 (js ''acme'') documentTuple]"
  by code_simp

section \<open>Properties\<close>



text \<open>
  Claim C1. On the memory store the check decides exactly the meaning of the permission, for schemas made of
  unions of relations, usersets and arrows: given a readable tenant, subjects without separators in their
  names, and no more objects below the request than levels of recursion, \<^verbatim>\<open>Check\<close> returns a result, and it
  allows if and only if the permission follows from the tenant's live tuples.
\<close>

theorem check_exact:
  assumes "servesTenant e ctx tid s cs" "unionSchema cs" "plainTuples (liveTuples now s tid)" "plainNode (checkNode req)"
    "GetPermission cs (ReqObjectType req) (ReqPermission req) = Inr pd" "PermCondition pd = None"
    "card (reachNodes (tenantLookups now tid s) cs (checkNode req)) \<le> Suc (MaxCheckDepth e)"
  shows "\<exists>r. Check xl e (memoryLookups now ctx s) ctx req = Inr r \<and> (Allowed r \<longleftrightarrow> grants xl (tenantLookups now tid s) cs req pd)"
  using Check_decides [OF assms] .

theorem check_exact_witness:
  "\<exists>r. Check falseExpr documentEngine (memoryLookups 6 acmeContext documentStore) acmeContext (askFor ''document'' ''d1'' ''view'' ''alice'') = Inr r \<and> Allowed r"
proof -
  let ?lk = "tenantLookups 6 (js ''acme'') documentStore"
  let ?req = "askFor ''document'' ''d1'' ''view'' ''alice''"
  have q: "plainTuples (liveTuples 6 documentStore (js ''acme''))" "plainNode (checkNode ?req)" "MaxCheckDepth documentEngine = 25"
    "lk_direct ?lk (js ''document'') (js ''d1'') (js ''viewer'') (js ''user'') (js ''alice'') = Inr True" by code_simp+
  have p: "GetPermission documentSchema (ReqObjectType ?req) (ReqPermission ?req) = Inr documentPerm"
    using document_facts(2) by (simp add: askFor_def)
  have "card (set (liveTuples 6 documentStore (js ''acme''))) \<le> 1" by (simp add: document_live)
  then have "card (reachNodes ?lk documentSchema (checkNode ?req)) \<le> Suc (MaxCheckDepth documentEngine)"
    using mem.reachNodes_bound [of 6 "js ''acme''" documentStore documentSchema "checkNode ?req"] q(3) document_facts(4) by simp
  moreover have "grants falseExpr ?lk documentSchema ?req documentPerm"
    using document_child q(4) by (intro grants_refHolds.anyOf [of _ "\<lparr>RelationRef = js ''viewer'', ArrowRef = [], ArrowPermission = [], ConditionText = []\<rparr>"]
        grants_refHolds.tuple) (simp_all add: Kind_def askFor_def)
  ultimately show ?thesis
    using check_exact [OF document_serves document_facts(1) q(1,2) p document_facts(3), of falseExpr] by blast
qed

text \<open>
  Claim C21. The depth limit is enough when the data is small: for every schema whose children are no inline
  conditions, intersections and exclusions included, a check of a permission without a condition returns a
  result, and not the error of the limit, as long as the number of live tuples times the number of
  permission names is at most the limit; however the tuples form cycles.
\<close>

theorem check_answers:
  assumes "servesTenant e ctx tid s cs" "conditionFree cs"
    "GetPermission cs (ReqObjectType req) (ReqPermission req) = Inr pd" "PermCondition pd = None"
    "card (set (liveTuples now s tid)) * length (permissionNames cs) \<le> MaxCheckDepth e"
  shows "\<exists>r. Check xl e (memoryLookups now ctx s) ctx req = Inr r"
proof -
  have "card (reachNodes (tenantLookups now tid s) cs (checkNode req)) \<le> Suc (MaxCheckDepth e)"
    using mem.reachNodes_bound [of now tid s cs "checkNode req"] assms(5) by simp
  from mem.walk_answers [OF assms(2) reachNodes_closed(2) mem.reachNodes_bound [THEN conjunct1] this reachNodes_closed(1) assms(3), of xl]
  show ?thesis using assms(4) by (auto simp: serves_memory(2) [OF assms(1)] Check_engine [OF serves_memory(1) [OF assms(1)] assms(3)])
qed

theorem check_answers_witness:
  "\<exists>r. Check falseExpr documentEngine (memoryLookups 6 acmeContext documentStore) acmeContext (askFor ''document'' ''d1'' ''view'' ''bob'') = Inr r"
proof -
  have "card (set (liveTuples 6 documentStore (js ''acme''))) \<le> 1" "MaxCheckDepth documentEngine = 25"
    by (simp_all add: document_live documentEngine_def LoadSchema_def NewEngine_def DefaultMaxCheckDepth_def)
  moreover have "GetPermission documentSchema (ReqObjectType (askFor ''document'' ''d1'' ''view'' ''bob''))
      (ReqPermission (askFor ''document'' ''d1'' ''view'' ''bob'')) = Inr documentPerm"
    using document_facts(2) by (simp add: askFor_def)
  ultimately show ?thesis
    using check_answers [OF document_serves union_conditionFree [OF document_facts(1)] _ document_facts(3), of _ 6] document_facts(4) by simp
qed

section \<open>Where the engine and its documentation part\<close>

definition sharingTypes :: "(string \<times> RawType option) list" where
  "sharingTypes =
     [(''user'', rawType [] []),
      (''group'', rawType [(''member'', rawRel [''user'', ''group#member''])] [(''belong'', rawPerm [''member''] [] [] [])]),
      (''document'', rawType [(''team'', rawRel [''group'']), (''banned'', rawRel [''group'']), (''viewer'', rawRel [''group#member'']), (''owner'', rawRel [''user''])]
         [(''edit'', rawPerm [] [] [''team->belong'', ''banned->belong''] []), (''excluded'', rawPerm [''banned->belong''] [] [] []),
          (''both'', rawPerm [] [''team->belong'', ''banned->belong''] [] []),
          (''view'', rawPerm [''viewer''] [] [] []), (''own'', rawPerm [''owner''] [] [] []), (''share'', rawPerm [''own''] [] [] [])])]"


text \<open>
  A userset is followed one level: a user of a group that is a viewer may view, but a user of a group
  whose members are members of that group may not, although a relation with such a subject is declared and the
  documentation has the engine check usersets recursively.
\<close>

theorem nested_groups_denied:
  "let ts = [plainTuple ''document'' ''d'' ''viewer'' ''group'' ''staff'' ''member'', plainTuple ''group'' ''staff'' ''member'' ''user'' ''ann'' '''',
         plainTuple ''group'' ''staff'' ''member'' ''group'' ''eng'' ''member'', plainTuple ''group'' ''eng'' ''member'' ''user'' ''bob'' ''''];
       decide = (\<lambda>u. allowedIn (checkCase sharingTypes ts (askFor ''document'' ''d'' ''view'' u)))
   in decide ''ann'' = Some True \<and> decide ''bob'' = Some False"
  by code_simp

text \<open>
  A permission that refers to another permission of its type passes validation and never allows: the
  engine looks the name up as a relation. The owner of a document has \<^verbatim>\<open>own\<close>, and not \<^verbatim>\<open>share\<close>, the
  union of just \<^verbatim>\<open>own\<close>.
\<close>

theorem computed_permission_denied:
  "let ts = [plainTuple ''document'' ''d'' ''owner'' ''user'' ''ann'' ''''];
       decide = (\<lambda>p. allowedIn (checkCase sharingTypes ts (askFor ''document'' ''d'' p ''ann'')))
   in decide ''own'' = Some True \<and> decide ''share'' = Some False"
  by code_simp

definition gatedTypes :: "(string \<times> RawType option) list" where
  "gatedTypes =
     [(''user'', rawType [] []),
      (''folder'', rawType [(''viewer'', rawRel [''user''])] [(''view'', rawPerm [''viewer''] [] [] ''false'')]),
      (''document'', rawType [(''parent'', rawRel [''folder''])] [(''view'', rawPerm [''parent->view''] [] [] [])])]"

text \<open>
  The condition of a permission guards only the permission that is asked for. A folder whose \<^verbatim>\<open>view\<close> has
  a condition that is never true cannot be viewed, but a document in it whose \<^verbatim>\<open>view\<close> is \<^verbatim>\<open>parent->view\<close>
  can, although the documentation has the arrow check the folder's permission.
\<close>

theorem nested_condition_ignored:
  "let ts = [plainTuple ''folder'' ''f'' ''viewer'' ''user'' ''ann'' '''', plainTuple ''document'' ''d'' ''parent'' ''folder'' ''f'' '''']
   in allowedIn (checkCase gatedTypes ts (askFor ''folder'' ''f'' ''view'' ''ann'')) = Some False \<and>
      allowedIn (checkCase gatedTypes ts (askFor ''document'' ''d'' ''view'' ''ann'')) = Some True"
  by code_simp

definition doubleTypes :: "(string \<times> RawType option) list" where
  "doubleTypes =
     [(''user'', rawType [] []),
      (''document'', rawType [(''viewer'', rawRel [''user'']), (''banned'', rawRel [''user''])]
         [(''view'', rawPerm [''viewer''] [] [''viewer'', ''banned''] []), (''safe'', rawPerm [] [] [''viewer'', ''banned''] [])])]"

text \<open>
  A second operation in a permission is ignored without an error, although the documentation admits only one: with a union
  and an exclusion, only the union counts, and a viewer who is banned may view; with the exclusion alone they may not.
\<close>

theorem second_operation_ignored:
  "let ts = [plainTuple ''document'' ''d'' ''viewer'' ''user'' ''eve'' '''', plainTuple ''document'' ''d'' ''banned'' ''user'' ''eve'' ''''];
       decide = (\<lambda>p. allowedIn (checkCase doubleTypes ts (askFor ''document'' ''d'' p ''eve'')))
   in decide ''view'' = Some True \<and> decide ''safe'' = Some False"
  by code_simp

end
