(* ===== verification/Server_Laws.thy ===== *)
theory Server_Laws
  imports Server_Api Check_Properties
begin

text \<open>
  What the server's requests do to its state, and what its answers promise: \<open>serve_effect\<close> shows that a request
  either leaves the server as it was or succeeds with one step of the store or one validated schema, and the
  invariants of the store and of the registries follow for every state the server can be in.
\<close>

section \<open>The effect of a request\<close>

fun succeeded :: "goResponse \<Rightarrow> bool" where
  "succeeded (Reply n b) = (n < 400)"
| "succeeded Aborted = False"

definition storeChanged :: "'p Server \<Rightarrow> 'p Server \<Rightarrow> bool" where
  "storeChanged srv srv' \<longleftrightarrow> (\<exists>s. serverStep (srv_store srv) s \<and> srv' = srv\<lparr>srv_store := s\<rparr>)"

definition validSchema :: "'p serverEnv \<Rightarrow> str \<Rightarrow> 'p CompiledSchema \<Rightarrow> bool" where
  "validSchema env source cs \<longleftrightarrow> (\<exists>raw now. env_yaml env source = Some raw \<and>
     Compile (exprCompile (env_expr env)) (env_hash env) now raw source = Inr cs \<and> Validate cs = [])"

definition schemaLoaded :: "'p serverEnv \<Rightarrow> 'p Server \<Rightarrow> 'p Server \<Rightarrow> bool" where
  "schemaLoaded env srv srv' \<longleftrightarrow> (\<exists>tid source cs. validSchema env source cs \<and>
     srv' = srv\<lparr>srv_eng := LoadSchema tid cs (srv_eng srv), srv_schemas := (srv_schemas srv)(tid \<mapsto> source),
       srv_compiled := (srv_compiled srv)(tid \<mapsto> cs)\<rparr>)"

lemma succeeded_writeError [simp]: "400 \<le> n \<Longrightarrow> \<not> succeeded (writeError n e)"
  by (simp add: writeError_def)

lemma errStatus_error: "400 \<le> errStatus e"
  by (simp add: errStatus_def Let_def)

lemma orFail_cases:
  "orFail status srv r f = (resp, srv') \<Longrightarrow> (\<exists>e. r = Inl e \<and> resp = writeError (status e) e \<and> srv' = srv) \<or> (\<exists>x. r = Inr x \<and> f x = (resp, srv'))"
  by (auto simp: orFail_def split: sum.splits)

lemma storeChangedI: "serverStep (srv_store srv) s \<Longrightarrow> storeChanged srv (srv\<lparr>srv_store := s\<rparr>)"
  by (auto simp: storeChanged_def)

text \<open>One step of the store, under one guard and one answer.\<close>

lemma orFail_step:
  assumes "orFail status srv r (\<lambda>s. (g s, srv\<lparr>srv_store := s\<rparr>)) = (resp, srv')" "\<And>s. r = Inr s \<Longrightarrow> serverStep (srv_store srv) s"
    "\<And>s. succeeded (g s)"
  shows "srv' = srv \<or> succeeded resp \<and> storeChanged srv srv'"
  using orFail_cases [OF assms(1)] assms(2,3) by (auto simp: storeChanged_def)

lemma create_update:
  assumes "Create now ident name mode s = Inr (t, s1)"
  shows "\<exists>s2. UpdateTenant now' (t\<lparr>ParentTenantID := p, SharedSchemaRef := q\<rparr>) s1 = Inr s2"
proof -
  have "statusOf s1 ident = Some TenantPending" "TenantIdent t = ident" using Create_status [OF assms, of ident] by simp_all
  then show ?thesis by (auto simp: UpdateTenant_def statusOf_def)
qed

lemma handleCreateTenant_effect:
  assumes "handleCreateTenant now r srv = (resp, srv')"
  shows "srv' = srv \<or> succeeded resp \<and> storeChanged srv srv'"
proof (cases "readJSON r decodeCreateTenant")
  case (Inl e)
  then show ?thesis using assms by (simp add: handleCreateTenant_def orFail_def)
next
  case (Inr req)
  define mode where "mode = (if CtSchemaMode req = [] then SchemaOwn else CtSchemaMode req)"
  show ?thesis
  proof (cases "Create now (CtID req) (CtDisplayName req) mode (srv_store srv)")
    case (Inl e)
    then show ?thesis using assms Inr by (auto simp: handleCreateTenant_def orFail_def mode_def Let_def split: if_splits)
  next
    fix x assume x: "Create now (CtID req) (CtDisplayName req) mode (srv_store srv) = Inr x"
    obtain t s1 where ts: "x = (t, s1)" by (cases x)
    obtain s2 where s2: "UpdateTenant now (t\<lparr>ParentTenantID := CtParentTenantID req, SharedSchemaRef := CtSharedSchemaRef req\<rparr>) s1 = Inr s2"
      using create_update [OF x [unfolded ts]] by blast
    have "serverStep (srv_store srv) s1" "serverStep (srv_store srv) s2"
      using serverStep.create [OF x [unfolded ts]] serverStep.createWith [OF x [unfolded ts] s2] by blast+
    then show ?thesis
      using assms Inr x s2 by (auto simp: handleCreateTenant_def orFail_def mode_def [symmetric] Let_def ts storeChanged_def split: if_splits)
  qed
qed

lemma handleTenant_effect:
  assumes "handleDeleteTenant now r srv = (resp, srv') \<or> handleActivateTenant now r srv = (resp, srv') \<or> handleSuspendTenant now r srv = (resp, srv')"
  shows "srv' = srv \<or> succeeded resp \<and> storeChanged srv srv'"
  using assms unfolding handleDeleteTenant_def handleActivateTenant_def handleSuspendTenant_def
  by (elim disjE; intro orFail_step) (auto simp: tenantAnswer_def intro: serverStep.intros)

lemma schemaLoadedI:
  "env_yaml env source = Some raw \<Longrightarrow> Compile (exprCompile (env_expr env)) (env_hash env) now raw source = Inr cs \<Longrightarrow> Validate cs = [] \<Longrightarrow>
   schemaLoaded env srv (srv\<lparr>srv_eng := LoadSchema tid cs (srv_eng srv), srv_schemas := (srv_schemas srv)(tid \<mapsto> source),
     srv_compiled := (srv_compiled srv)(tid \<mapsto> cs)\<rparr>)"
  unfolding schemaLoaded_def validSchema_def by blast

lemma handleLoadSchema_effect:
  "handleLoadSchema env now r srv = (resp, srv') \<Longrightarrow> srv' = srv \<or> succeeded resp \<and> schemaLoaded env srv srv'"
  unfolding handleLoadSchema_def Let_def
  by (auto dest!: orFail_cases split: if_splits option.splits intro: schemaLoadedI)

lemma call_steps:
  "WriteTuple now ctx t s = Inr s' \<Longrightarrow> serverStep s s'" "WriteTuples now ctx ts s = Inr s' \<Longrightarrow> serverStep s s'"
  "DeleteTuple now ctx t s = Inr s' \<Longrightarrow> serverStep s s'" "SetObjectAttributes ctx ty i attrs s = Inr s' \<Longrightarrow> serverStep s s'"
  "SetSubjectAttributes ctx ty i attrs s = Inr s' \<Longrightarrow> serverStep s s'"
  using serverStep.data [of now ctx "CallWrite [t]" s s'] serverStep.data [of now ctx "CallWrite ts" s s']
    serverStep.data [of now ctx "CallDelete t" s s'] serverStep.data [of now ctx "CallSetObject ty i attrs" s s']
    serverStep.data [of now ctx "CallSetSubject ty i attrs" s s'] by (simp_all add: WriteTuple_def WriteTuples_def)

lemma handleTuples_effect:
  assumes "handleWriteTuple env now r srv = (resp, srv') \<or> handleWriteTuples env now r srv = (resp, srv') \<or> handleDeleteTuple env now r srv = (resp, srv')"
  shows "srv' = srv \<or> succeeded resp \<and> storeChanged srv srv'"
  using assms unfolding handleWriteTuple_def handleWriteTuples_def handleDeleteTuple_def
  by (elim disjE) (auto dest!: orFail_cases split: if_splits intro!: storeChangedI intro: call_steps)

lemma handleSet_effect:
  assumes "handleSetObjectAttributes r srv = (resp, srv') \<or> handleSetSubjectAttributes r srv = (resp, srv')"
  shows "srv' = srv \<or> succeeded resp \<and> storeChanged srv srv'"
  using assms unfolding handleSetObjectAttributes_def handleSetSubjectAttributes_def setAttributes_def
  by (elim disjE) (auto dest!: orFail_cases intro!: storeChangedI intro: call_steps)

lemma serve_effect:
  assumes "serveRequest env now h r srv = (resp, srv')"
  shows "srv' = srv \<or> succeeded resp \<and> (storeChanged srv srv' \<or> schemaLoaded env srv srv')"
  using assms
  by (cases h)
     (auto simp: serveRequest_def dest: handleCreateTenant_effect handleTenant_effect [OF disjI1] handleTenant_effect [OF disjI2, OF disjI1]
       handleTenant_effect [OF disjI2, OF disjI2] handleLoadSchema_effect handleTuples_effect [OF disjI1] handleTuples_effect [OF disjI2, OF disjI1]
       handleTuples_effect [OF disjI2, OF disjI2] handleSet_effect [OF disjI1] handleSet_effect [OF disjI2])

section \<open>The states of the server\<close>

definition registriesOk :: "'p serverEnv \<Rightarrow> 'p Server \<Rightarrow> bool" where
  "registriesOk env srv \<longleftrightarrow> eng_schemas (srv_eng srv) = srv_compiled srv \<and> eng_sharedSchemas (srv_eng srv) = Map.empty \<and>
     MaxCheckDepth (srv_eng srv) = DefaultMaxCheckDepth \<and>
     (\<forall>tid. srv_schemas srv tid = None \<longleftrightarrow> srv_compiled srv tid = None) \<and>
     (\<forall>tid source cs. srv_schemas srv tid = Some source \<longrightarrow> srv_compiled srv tid = Some cs \<longrightarrow> validSchema env source cs)"

lemma bootstrap_reachable: "ensureBootstrapTenant now NewStore = Inr s \<Longrightarrow> serverReachable s"
  by (auto simp: ensureBootstrapTenant_def Get_def GetTenant_def NewStore_def [of] bindE_Inr split: if_splits prod.splits
      intro!: serverReachable.step [OF serverReachable.step [OF serverReachable.fresh [unfolded NewStore_def] serverStep.create] serverStep.activate])

lemma registriesOk_load:
  "registriesOk env srv \<Longrightarrow> schemaLoaded env srv srv' \<Longrightarrow> registriesOk env srv' \<and> srv_store srv' = srv_store srv"
  by (auto simp: registriesOk_def schemaLoaded_def LoadSchema_def split: if_splits)

lemma serverRun_ok: "serverRun env srv \<Longrightarrow> serverReachable (srv_store srv) \<and> registriesOk env srv"
proof (induction rule: serverRun.induct)
  case (start now s)
  then show ?case using bootstrap_reachable by (auto simp: NewServer_def NewEngine_def registriesOk_def)
next
  case (request srv now h r)
  obtain resp srv' where e: "serveRequest env now h r srv = (resp, srv')" by (cases "serveRequest env now h r srv")
  from serve_effect [OF e] consider "srv' = srv" | "storeChanged srv srv'" | "schemaLoaded env srv srv'" by blast
  then have "serverReachable (srv_store srv') \<and> registriesOk env srv'"
  proof cases
    case 2
    then show ?thesis using request.IH serverReachable.step by (auto simp: storeChanged_def registriesOk_def)
  next
    case 3
    then show ?thesis using request.IH registriesOk_load by metis
  qed (use request.IH in simp)
  then show ?case by (simp add: e)
qed

section \<open>Errors of the operations\<close>

text \<open>An error that is answered with a status of its own.\<close>

definition mapped :: "goError \<Rightarrow> bool" where
  "mapped e \<longleftrightarrow> e \<noteq> Panic \<and> errStatus e \<in> {400, 403, 404, 409, 410}"

lemma mapped_intros:
  "mapped ErrTenantNotFound" "mapped ErrNotFound" "mapped ErrTenantDeleted" "mapped ErrTenantSuspended" "mapped ErrDuplicateTuple"
  "mapped (ErrInvalidStateTransition x)"
  by (simp_all add: mapped_def errStatus_def)

lemma BuildContext_cases:
  "BuildContext ctx s tid = Inr ctx' \<Longrightarrow> forTenant ctx' tid"
  "BuildContext ctx s tid = Inl e \<Longrightarrow> mapped e"
  by (auto simp: BuildContext_def forTenant_def WithTenantContext_def GetTenant_def mapped_def errStatus_def split: sum.splits option.splits)

lemma tenantCtx_cases:
  "tenantCtxFromPath r s = Inr ctx \<Longrightarrow> forTenant ctx (PathValue r 0)"
  "tenantCtxFromPath r s = Inl e \<Longrightarrow> e \<noteq> Panic \<and> tenantContextErrStatus e \<in> {400, 403, 404, 409, 410}"
  using BuildContext_cases(1) [of None s "PathValue r 0" ctx] BuildContext_cases(2) [of None s "PathValue r 0" e]
  by (auto simp: tenantCtxFromPath_def Let_def tenantContextErrStatus_def errStatus_def mapped_def split: if_splits)

lemma guards_mapped:
  assumes "forTenant ctx tid" "reading ctx s f = Inl e \<or> writing ctx s f = Inl e" "\<And>t. f t = Inl e \<Longrightarrow> mapped e"
  shows "mapped e"
  using assms mapped_intros
  by (auto simp: reading_def writing_def forTenant_def tenantIDFromCtx_def TenantFromContext_def bindE_Inl checkTenantReadable_def
      checkTenantWritable_def split: option.splits if_splits)

lemma store_errors:
  assumes "forTenant ctx tid" "storeOk s"
  shows "WriteTuple now ctx t s = Inl e \<Longrightarrow> mapped e" "WriteTuples now ctx ts s = Inl e \<Longrightarrow> mapped e" "DeleteTuple now ctx t s = Inl e \<Longrightarrow> mapped e"
    "ReadTuples now ctx f s = Inl e \<Longrightarrow> mapped e" "ReadChangelog ctx n l s = Inl e \<Longrightarrow> mapped e" "Expand now ctx ot oi r s = Inl e \<Longrightarrow> mapped e"
    "GetObjectAttributes ctx ty i s = Inl e \<Longrightarrow> mapped e" "GetSubjectAttributes ctx ty i s = Inl e \<Longrightarrow> mapped e"
    "ListObjectAttributes ctx ty s = Inl e \<Longrightarrow> mapped e" "ListSubjectAttributes ctx ty s = Inl e \<Longrightarrow> mapped e"
proof -
  have w: "writeTuplesLocked now x us s = Inl e \<Longrightarrow> mapped e" for x us
    using writeTuplesLocked_spec [OF dataOk_of [OF assms(2), of x], of now us] mapped_intros by (auto split: if_splits)
  note g = guards_mapped [OF assms(1)]
  show "WriteTuple now ctx t s = Inl e \<Longrightarrow> mapped e" "WriteTuples now ctx ts s = Inl e \<Longrightarrow> mapped e"
    unfolding WriteTuple_def WriteTuples_def using g w by blast+
  show "DeleteTuple now ctx t s = Inl e \<Longrightarrow> mapped e"
    unfolding DeleteTuple_def by (erule g [OF disjI2]) (auto split: option.splits prod.splits intro: mapped_intros)
  show "ReadTuples now ctx f s = Inl e \<Longrightarrow> mapped e" "ReadChangelog ctx n l s = Inl e \<Longrightarrow> mapped e" "Expand now ctx ot oi r s = Inl e \<Longrightarrow> mapped e"
    "GetObjectAttributes ctx ty i s = Inl e \<Longrightarrow> mapped e" "GetSubjectAttributes ctx ty i s = Inl e \<Longrightarrow> mapped e"
    "ListObjectAttributes ctx ty s = Inl e \<Longrightarrow> mapped e" "ListSubjectAttributes ctx ty s = Inl e \<Longrightarrow> mapped e"
    unfolding ReadTuples_def ReadChangelog_def Expand_def GetObjectAttributes_def GetSubjectAttributes_def ListObjectAttributes_def ListSubjectAttributes_def
    by (erule g [OF disjI1]; auto simp: Let_def lookupAttrs_def split: option.splits intro: mapped_intros)+
qed

lemma writing_mapped:
  assumes "forTenant ctx tid" "writing ctx s f = Inl e" "writableTenant s tid \<Longrightarrow> f tid = Inl e \<Longrightarrow> mapped e"
  shows "mapped e"
proof (cases "writableTenant s tid")
  case True
  then show ?thesis using assms(2,3) by (simp add: writing_tenant [OF assms(1)])
next
  case False
  then have "checkTenantWritable s tid = Inl e"
    using assms(1,2) checkTenantWritable_Inr [of s tid] by (auto simp: writing_def forTenant_def tenantIDFromCtx_def TenantFromContext_def bindE_Inl)
  then show ?thesis by (auto simp: checkTenantWritable_def mapped_intros split: option.splits if_splits)
qed

lemma set_errors:
  assumes "forTenant ctx tid" "storeOk s"
  shows "SetObjectAttributes ctx ty i attrs s = Inl e \<Longrightarrow> mapped e" "SetSubjectAttributes ctx ty i attrs s = Inl e \<Longrightarrow> mapped e"
proof -
  have "\<exists>a b. st_objAttrs s tid = Some a \<and> st_subAttrs s tid = Some b" if w: "writableTenant s tid"
  proof -
    obtain t where "(tid, t) \<in> set (st_tenants s)" using w by (metis writableTenant_def map_of_SomeD)
    then have t: "tid \<in> fst ` set (st_tenants s)" by force
    note b = assms(2) [unfolded storeOk_def bucketsOk_def, THEN conjunct2, THEN conjunct1]
    from subsetD [OF b [THEN conjunct1] t] have "tid \<in> dom (st_objAttrs s)" "tid \<in> dom (st_subAttrs s)"
      by (simp_all only: b [THEN conjunct2, THEN conjunct1] b [THEN conjunct2, THEN conjunct2, THEN conjunct1])
    then show ?thesis by (simp add: domIff)
  qed
  note b = this
  show "SetObjectAttributes ctx ty i attrs s = Inl e \<Longrightarrow> mapped e"
    unfolding SetObjectAttributes_def by (erule writing_mapped [OF assms(1)]) (use b in \<open>auto simp: storeAttrs_def\<close>)
  show "SetSubjectAttributes ctx ty i attrs s = Inl e \<Longrightarrow> mapped e"
    unfolding SetSubjectAttributes_def by (erule writing_mapped [OF assms(1)]) (use b in \<open>auto simp: storeAttrs_def\<close>)
qed

text \<open>The statuses the server answers with.\<close>

definition knownStatus :: "goResponse \<Rightarrow> bool" where
  "knownStatus resp \<longleftrightarrow> (case resp of Aborted \<Rightarrow> False | Reply n b \<Rightarrow> n \<in> {200, 201, 204, 400, 403, 404, 409, 410, 422})"

lemma knownStatus_Reply [simp]: "knownStatus (Reply n b) \<longleftrightarrow> n \<in> {200, 201, 204, 400, 403, 404, 409, 410, 422}"
  by (simp add: knownStatus_def)

lemma knownStatus_error: "e \<noteq> Panic \<Longrightarrow> n \<in> {400, 403, 404, 409, 410, 422} \<Longrightarrow> knownStatus (writeError n e)"
  by (auto simp: writeError_def)

lemma mapped_status: "mapped e \<Longrightarrow> knownStatus (writeError (errStatus e) e)"
  by (auto simp: mapped_def intro: knownStatus_error)

lemma orFail_known:
  assumes "\<And>e. r = Inl e \<Longrightarrow> knownStatus (writeError (status e) e)" "\<And>x. r = Inr x \<Longrightarrow> knownStatus (fst (f x))"
  shows "knownStatus (fst (orFail status srv r f))"
  using assms by (auto simp: orFail_def split: sum.splits)

lemma orElse_known:
  assumes "\<And>e. r = Inl e \<Longrightarrow> knownStatus (writeError (status e) e)" "\<And>x. r = Inr x \<Longrightarrow> knownStatus (f x)"
  shows "knownStatus (orElse status r f)"
  using assms by (auto simp: orElse_def split: sum.splits)

text \<open>Decoding fails with an error, it does not panic.\<close>

definition decodes :: "'a fieldDecoder \<Rightarrow> bool" where
  "decodes d \<longleftrightarrow> (\<forall>v x. d v x \<noteq> Inl Panic)"

lemma decodes_fields [simp]:
  "decodes (snd (stringField name upd))" "decodes (snd (mapField name upd'))" "decodes (snd (int64Field name i upd''))"
  "decodes dec \<Longrightarrow> decodes (snd (structField name dec get upd3))"
  by (auto simp: decodes_def stringField_def mapField_def int64Field_def structField_def bindE_Inl split: json.splits option.splits)

lemma mapE_error: "(\<And>x. f x \<noteq> Inl e) \<Longrightarrow> mapE f xs \<noteq> Inl e"
  by (induction xs) (auto simp: bindE_Inl)

lemma decodes_slice: "(\<And>v. dec v \<noteq> Inl Panic) \<Longrightarrow> decodes (snd (sliceField name dec upd))"
  using mapE_error [of dec Panic] by (auto simp: decodes_def sliceField_def bindE_Inl split: json.splits)

lemma decodeFields_error: "list_all (decodes \<circ> snd) fs \<Longrightarrow> decodeFields fs kvs x \<noteq> Inl Panic"
  by (induction fs kvs x rule: decodeFields.induct)
     (auto simp: bindE_Inl list_all_iff decodes_def split: option.splits dest!: map_of_SomeD bspec)

lemma decodes_struct: "list_all (decodes \<circ> snd) fs \<Longrightarrow> decodes (decodeStruct fs)"
  using decodeFields_error [of fs] by (auto simp: decodes_def decodeStruct_def split: json.splits)

lemma struct_error: "list_all (decodes \<circ> snd) fs \<Longrightarrow> decodeStruct fs v x \<noteq> Inl Panic"
  using decodes_struct [of fs] by (simp add: decodes_def)

lemma decodes_parts [simp]: "decodes entityDecoder" "decodes actionDecoder"
  by (simp_all add: entityDecoder_def actionDecoder_def decodes_struct)

lemma decode_errors:
  "decodeCreateTenant v \<noteq> Inl Panic" "decodeTuple i v \<noteq> Inl Panic" "decodeAttributes v \<noteq> Inl Panic" "decodeExpand v \<noteq> Inl Panic"
  "decodeEvaluation v \<noteq> Inl Panic" "decodeBatchItem v \<noteq> Inl Panic"
  by (simp_all add: decodeCreateTenant_def decodeTuple_def decodeAttributes_def decodeExpand_def decodeEvaluation_def decodeBatchItem_def struct_error)

lemma decode_list_errors: "decodeBatchTuples i v \<noteq> Inl Panic" "decodeEvaluations v \<noteq> Inl Panic"
  by (simp_all add: decodeBatchTuples_def decodeEvaluations_def struct_error decodes_slice decode_errors)

lemma readJSON_error: "(\<And>v. dec v \<noteq> Inl Panic) \<Longrightarrow> readJSON r dec \<noteq> Inl Panic"
  by (auto simp: readJSON_def split: option.splits)

lemma request_errors:
  "validateTupleRequest req = Inl e \<Longrightarrow> e \<noteq> Panic" "tupleFromWriteRequest f req now = Inl e \<Longrightarrow> e \<noteq> Panic"
  "batchTuples f now i reqs = Inl e \<Longrightarrow> e \<noteq> Panic" "parseNonNegativeInt v k = Inl e \<Longrightarrow> e \<noteq> Panic" "Create now ident name mode s = Inl e \<Longrightarrow> e \<noteq> Panic"
proof -
  show "validateTupleRequest req = Inl e \<Longrightarrow> e \<noteq> Panic" by (auto simp: validateTupleRequest_def split: if_splits)
  show "tupleFromWriteRequest f req now = Inl e \<Longrightarrow> e \<noteq> Panic"
    by (auto simp: tupleFromWriteRequest_def tupleExpiryFromRequest_def bindE_Inl Let_def split: option.splits if_splits)
  show "batchTuples f now i reqs = Inl e \<Longrightarrow> e \<noteq> Panic"
    by (induction f now i reqs rule: batchTuples.induct) (auto simp: bindE_Inl split: sum.splits)
  show "parseNonNegativeInt v k = Inl e \<Longrightarrow> e \<noteq> Panic" by (auto simp: parseNonNegativeInt_def split: option.splits if_splits)
  show "Create now ident name mode s = Inl e \<Longrightarrow> e \<noteq> Panic"
    by (auto simp: Create_def bindE_Inl ValidateTenantID_def Let_def split: if_splits sum.splits)
qed

lemma manager_errors:
  "Get tid s = Inl e \<Longrightarrow> mapped e" "Activate now tid s = Inl e \<Longrightarrow> mapped e" "Suspend now tid s = Inl e \<Longrightarrow> mapped e" "Delete now tid s = Inl e \<Longrightarrow> mapped e"
  by (auto simp: Get_def Activate_def Suspend_def Delete_def GetTenant_def UpdateTenant_def bindE_Inl mapped_intros split: option.splits if_splits)

lemma ctx_status: "tenantCtxFromPath r s = Inl e \<Longrightarrow> knownStatus (writeError (tenantContextErrStatus e) e)"
  using tenantCtx_cases(2) [of r s e] by (auto intro: knownStatus_error)

lemma bad_status: "x \<noteq> Inl Panic \<Longrightarrow> x = Inl e \<Longrightarrow> knownStatus (writeError 400 e)"
  by (auto intro: knownStatus_error)

lemmas body_status = readJSON_error [THEN bad_status, OF decode_errors(1)] readJSON_error [THEN bad_status, OF decode_errors(2)]
  readJSON_error [THEN bad_status, OF decode_errors(3)] readJSON_error [THEN bad_status, OF decode_errors(4)]
  readJSON_error [THEN bad_status, OF decode_errors(5)] readJSON_error [THEN bad_status, OF decode_list_errors(1)]
  readJSON_error [THEN bad_status, OF decode_list_errors(2)]

lemma tenants_known:
  "knownStatus (fst (handleCreateTenant now r srv))" "knownStatus (handleGetTenant r srv)" "knownStatus (fst (handleDeleteTenant now r srv))"
  "knownStatus (fst (handleActivateTenant now r srv))" "knownStatus (fst (handleSuspendTenant now r srv))"
proof -
  show "knownStatus (fst (handleCreateTenant now r srv))"
  proof (cases "readJSON r decodeCreateTenant")
    case (Inl e)
    then show ?thesis using body_status(1) by (simp add: handleCreateTenant_def orFail_def)
  next
    case (Inr req)
    define mode where "mode = (if CtSchemaMode req = [] then SchemaOwn else CtSchemaMode req)"
    let ?c = "Create now (CtID req) (CtDisplayName req) mode (srv_store srv)"
    have h: "fst (handleCreateTenant now r srv) =
        (if CtID req = [] then writeError 400 (Required ''id'')
         else if mode \<notin> {SchemaOwn, SchemaShared, SchemaInherited} then writeError 400 InvalidSchemaMode
         else if mode = SchemaShared \<and> CtSharedSchemaRef req = [] then writeError 400 SharedRefRequired
         else case ?c of Inl e \<Rightarrow> writeError 400 e
           | Inr (t, s1) \<Rightarrow> (if CtParentTenantID req \<noteq> [] \<or> CtSharedSchemaRef req \<noteq> []
               then (case UpdateTenant now (t\<lparr>ParentTenantID := CtParentTenantID req, SharedSchemaRef := CtSharedSchemaRef req\<rparr>) s1 of
                   Inl e \<Rightarrow> writeError (errStatus e) e
                 | Inr _ \<Rightarrow> Reply 201 (TenantBody (t\<lparr>ParentTenantID := CtParentTenantID req, SharedSchemaRef := CtSharedSchemaRef req\<rparr>)))
               else Reply 201 (TenantBody t)))"
      unfolding handleCreateTenant_def orFail_def Inr sum.case Let_def mode_def [symmetric]
      by (cases ?c) (simp_all only: sum.case fst_conv if_distrib [where f = fst] split_beta sum.case_distrib [where h = fst])
    show ?thesis
    proof (cases ?c)
      case (Inl e)
      then show ?thesis using request_errors(5) [OF Inl] unfolding h Inl sum.case by (simp add: writeError_def)
    next
      fix x assume x: "?c = Inr x"
      obtain t s1 where ts: "x = (t, s1)" by (cases x)
      obtain s2 where "UpdateTenant now (t\<lparr>ParentTenantID := CtParentTenantID req, SharedSchemaRef := CtSharedSchemaRef req\<rparr>) s1 = Inr s2"
        using create_update [OF x [unfolded ts]] by blast
      then show ?thesis unfolding h x ts sum.case prod.case by (simp add: writeError_def)
    qed
  qed
  show "knownStatus (handleGetTenant r srv)"
    unfolding handleGetTenant_def by (rule orElse_known) (simp_all add: mapped_status manager_errors)
  show "knownStatus (fst (handleDeleteTenant now r srv))" "knownStatus (fst (handleActivateTenant now r srv))"
    "knownStatus (fst (handleSuspendTenant now r srv))"
    unfolding handleDeleteTenant_def handleActivateTenant_def handleSuspendTenant_def tenantAnswer_def
    by (rule orFail_known; simp add: mapped_status manager_errors)+
qed

lemma data_known:
  assumes "storeOk (srv_store srv)"
  shows "knownStatus (fst (handleWriteTuple env now r srv))" "knownStatus (fst (handleWriteTuples env now r srv))"
    "knownStatus (fst (handleDeleteTuple env now r srv))" "knownStatus (handleReadTuples now r srv)"
    "knownStatus (fst (handleSetObjectAttributes r srv))" "knownStatus (fst (handleSetSubjectAttributes r srv))"
    "knownStatus (handleGetObjectAttributes r srv)" "knownStatus (handleGetSubjectAttributes r srv)"
    "knownStatus (handleListObjectAttributes r srv)" "knownStatus (handleListSubjectAttributes r srv)"
    "knownStatus (handleReadChangelog r srv)" "knownStatus (handleExpandRequest now r srv)"
proof -
  note ok = ctx_status body_status mapped_status store_errors [OF tenantCtx_cases(1) assms] set_errors [OF tenantCtx_cases(1) assms]
    request_errors [THEN knownStatus_error]
  show "knownStatus (fst (handleWriteTuple env now r srv))" "knownStatus (fst (handleDeleteTuple env now r srv))"
    unfolding handleWriteTuple_def handleDeleteTuple_def by (intro orFail_known; auto intro: ok)+
  show "knownStatus (fst (handleWriteTuples env now r srv))"
    unfolding handleWriteTuples_def
    by (intro orFail_known) (auto intro!: orFail_known intro: ok simp: writeError_def [of 400 NoTuples])
  show "knownStatus (fst (handleSetObjectAttributes r srv))" "knownStatus (fst (handleSetSubjectAttributes r srv))"
    unfolding handleSetObjectAttributes_def handleSetSubjectAttributes_def setAttributes_def by (intro orFail_known; auto intro: ok)+
  show "knownStatus (handleReadTuples now r srv)"
    unfolding handleReadTuples_def
    by (intro orElse_known) (auto intro: ok simp: Let_def writeError_def [of 400] split: if_splits option.splits)
  show "knownStatus (handleGetObjectAttributes r srv)" "knownStatus (handleGetSubjectAttributes r srv)"
    "knownStatus (handleListObjectAttributes r srv)" "knownStatus (handleListSubjectAttributes r srv)"
    unfolding handleGetObjectAttributes_def handleGetSubjectAttributes_def handleListObjectAttributes_def handleListSubjectAttributes_def
    by (intro orElse_known; auto intro: ok)+
  show "knownStatus (handleReadChangelog r srv)"
    unfolding handleReadChangelog_def
    by (intro orElse_known) (auto intro: ok simp: Let_def bindE_Inl writeError_def [of 400] dest: request_errors(4) split: if_splits option.splits)
  show "knownStatus (handleExpandRequest now r srv)"
    unfolding handleExpandRequest_def EngineExpand_def
    by (intro orElse_known) (auto intro!: orElse_known intro: ok simp: writeError_def [of 400 ExpandFieldsRequired])
qed

lemma authZen_known: "knownStatus (handleAuthZenEvaluation env now r srv)" "knownStatus (handleAuthZenEvaluations env now r srv)"
proof -
  have "e \<noteq> Panic" if "tenantCtxFromHeader r (srv_store srv) = Inl e" for e
    using that BuildContext_cases(2) [of None "srv_store srv" "gr_tenantHeader r" e]
    by (auto simp: tenantCtxFromHeader_def Let_def mapped_def split: if_splits)
  then show "knownStatus (handleAuthZenEvaluation env now r srv)" "knownStatus (handleAuthZenEvaluations env now r srv)"
    unfolding handleAuthZenEvaluation_def handleAuthZenEvaluations_def
    by (intro orElse_known; auto intro: knownStatus_error body_status)+
qed

text \<open>The two handlers that can run into a panic do not answer with another status.\<close>

lemma ManagerList_error: "ManagerList f s = Inl e \<Longrightarrow> e = Panic"
  by (auto simp: ManagerList_def ListTenants_def applyTenantFilter_def Let_def split: option.splits if_splits)

lemma panicking_known:
  "handleListTenants r srv = Aborted \<or> knownStatus (handleListTenants r srv)"
  "fst (handleLoadSchema env now r srv) = Aborted \<or> knownStatus (fst (handleLoadSchema env now r srv))"
proof -
  have "knownStatus (writeError 400 e)" if "nonNegativeParam r k = Inl e" for k e
    using that request_errors(4) [of "queryValue r k" k e] by (auto simp: nonNegativeParam_def intro: knownStatus_error split: if_splits)
  then show "handleListTenants r srv = Aborted \<or> knownStatus (handleListTenants r srv)"
    by (auto simp: handleListTenants_def orElse_def writeError_def [of 500] dest: ManagerList_error split: sum.split)
  show "fst (handleLoadSchema env now r srv) = Aborted \<or> knownStatus (fst (handleLoadSchema env now r srv))"
    using mapped_status [OF manager_errors(1) [of "PathValue r 0" "srv_store srv"]]
    by (auto simp: handleLoadSchema_def orFail_def Let_def writeError_def [of 422] split: sum.split option.split)
qed

lemma getSchema_known: "registriesOk env srv \<Longrightarrow> knownStatus (handleGetSchema r srv)"
proof -
  assume "registriesOk env srv"
  then have "srv_schemas srv (PathValue r 0) = None \<longleftrightarrow> srv_compiled srv (PathValue r 0) = None" by (simp add: registriesOk_def)
  then show ?thesis by (auto simp: handleGetSchema_def Let_def writeError_def split: option.splits)
qed

lemma serve_known:
  assumes "storeOk (srv_store srv)" "registriesOk env srv"
  shows "knownStatus (fst (serveRequest env now h r srv)) \<or>
    fst (serveRequest env now h r srv) = Aborted \<and> (h = HandleListTenants \<or> h = HandleLoadSchema)"
  using data_known [OF assms(1)] tenants_known authZen_known panicking_known getSchema_known [OF assms(2)]
  by (cases h) (simp_all add: serveRequest_def handleHealth_def disj_commute)

section \<open>Examples\<close>

definition sampleEnv :: "unit serverEnv" where
  "sampleEnv = \<lparr>env_yaml = (\<lambda>_. Some \<lparr>RawVersion = js ''1.0'', RawTypes = map (map_prod js id) documentTypes\<rparr>), env_hash = id, env_expr = falseExpr,
     env_int64 = (\<lambda>n. Some (uint n)), env_rfc3339 = (\<lambda>_. None)\<rparr>"

definition superStore :: Store where
  "superStore = (case ensureBootstrapTenant 1 NewStore of Inr s \<Rightarrow> s | Inl _ \<Rightarrow> NewStore)"

definition superServer :: "unit Server" where
  "superServer = NewServer superStore (NewEngine DefaultMaxCheckDepth)"

definition getRequest :: "str list \<Rightarrow> goRequest" where
  "getRequest path = \<lparr>gr_path = path, gr_tenantHeader = js ''super'', gr_query = [], gr_body = None, gr_text = []\<rparr>"

text \<open>The server after a schema has been loaded and a tuple written for its bootstrap tenant.\<close>

definition loadedServer :: "unit Server" where
  "loadedServer = snd (serveRequest sampleEnv 2 HandleLoadSchema (getRequest [js ''super'']) superServer)"

definition tupleBody :: "(string \<times> string) list \<Rightarrow> json" where
  "tupleBody kvs = JObj (map (\<lambda>(k, v). (js k, JStr (js v))) kvs)"

definition documentServer :: "unit Server" where
  "documentServer = snd (serveRequest sampleEnv 3 HandleWriteTuple ((getRequest [js ''super''])\<lparr>gr_body := Some (tupleBody
     [(''object_type'', ''document''), (''object_id'', ''d1''), (''relation'', ''viewer''), (''subject_type'', ''user''), (''subject_id'', ''alice'')])\<rparr>) loadedServer)"

lemma superServer_run: "serverRun sampleEnv superServer"
proof -
  have "ensureBootstrapTenant 1 NewStore = Inr superStore"
  proof -
    have "(case ensureBootstrapTenant 1 NewStore of Inr _ \<Rightarrow> True | Inl _ \<Rightarrow> False)" by code_simp
    then show ?thesis by (auto simp: superStore_def split: sum.splits)
  qed
  then show ?thesis unfolding superServer_def by (rule serverRun.start)
qed

lemma documentServer_run: "serverRun sampleEnv documentServer" "serverRun sampleEnv loadedServer"
  unfolding documentServer_def loadedServer_def by (intro serverRun.request superServer_run)+

section \<open>Properties\<close>

text \<open>
  Claim C17. In every state the server can reach from its start by requests, the store satisfies its invariant, and
  the three registries agree: the engine checks with the schema that was compiled last for the tenant, which is
  the compilation of the source the server gives back and has no validation error; no shared schema is ever
  loaded, and the depth limit stays at its default.
\<close>

theorem server_invariant:
  assumes "serverRun env srv"
  shows "storeOk (srv_store srv) \<and> eng_schemas (srv_eng srv) = srv_compiled srv \<and> eng_sharedSchemas (srv_eng srv) = Map.empty \<and>
    MaxCheckDepth (srv_eng srv) = DefaultMaxCheckDepth \<and>
    (case srv_schemas srv tid of None \<Rightarrow> srv_compiled srv tid = None
     | Some source \<Rightarrow> \<exists>cs raw now. srv_compiled srv tid = Some cs \<and> env_yaml env source = Some raw \<and>
         Compile (exprCompile (env_expr env)) (env_hash env) now raw source = Inr cs \<and> Validate cs = [])"
proof -
  have r: "storeOk (srv_store srv)" "registriesOk env srv" using serverRun_ok [OF assms] serverReachable_ok by blast+
  then have iff: "srv_schemas srv tid = None \<longleftrightarrow> srv_compiled srv tid = None"
    and v: "\<And>source cs. srv_schemas srv tid = Some source \<Longrightarrow> srv_compiled srv tid = Some cs \<Longrightarrow> validSchema env source cs"
    by (simp_all add: registriesOk_def)
  show ?thesis
  proof (cases "srv_schemas srv tid")
    case None
    then show ?thesis using r iff [THEN iffD1, OF None] unfolding registriesOk_def None option.case by simp
  next
    case (Some source)
    then obtain cs where "srv_compiled srv tid = Some cs" "validSchema env source cs" using iff v by auto
    then show ?thesis using r Some by (auto simp: registriesOk_def validSchema_def)
  qed
qed

theorem server_invariant_witness: "\<exists>cs. srv_compiled loadedServer (js ''super'') = Some cs \<and> Validate cs = []"
proof -
  have "srv_schemas loadedServer (js ''super'') = Some []" by code_simp
  then show ?thesis using server_invariant [OF documentServer_run(2), of "js ''super''"] by auto
qed

text \<open>
  A request that fails changes nothing: whatever the handler, when the answer has a status of 400 or more,
  or there is none because of a panic, the store, the engine and the registries are as before.
\<close>

theorem failed_requests_change_nothing:
  assumes "serveRequest env now h r srv = (resp, srv')" "\<not> succeeded resp"
  shows "srv' = srv"
  using serve_effect [OF assms(1)] assms(2) by blast

theorem failed_requests_change_nothing_witness:
  "snd (serveRequest sampleEnv 5 HandleSuspendTenant (getRequest [js ''nobody'']) superServer) = superServer"
proof -
  obtain resp srv' where e: "serveRequest sampleEnv 5 HandleSuspendTenant (getRequest [js ''nobody'']) superServer = (resp, srv')"
    by (cases "serveRequest sampleEnv 5 HandleSuspendTenant (getRequest [js ''nobody'']) superServer")
  have "\<not> succeeded (fst (serveRequest sampleEnv 5 HandleSuspendTenant (getRequest [js ''nobody'']) superServer))" by code_simp
  then show ?thesis using failed_requests_change_nothing [OF e] by (simp add: e)
qed




definition evaluateBody :: "string \<Rightarrow> string \<Rightarrow> string \<Rightarrow> string \<Rightarrow> json" where
  "evaluateBody user ty i action = JObj [(js ''subject'', tupleBody [(''type'', ''user''), (''id'', user)]),
     (js ''resource'', tupleBody [(''type'', ty), (''id'', i)]), (js ''action'', tupleBody [(''name'', action)])]"


definition evaluationBody :: "json \<Rightarrow> json \<times> json \<Rightarrow> json" where
  "evaluationBody subject item = JObj [(js ''subject'', subject), (js ''resource'', fst item), (js ''action'', snd item)]"

definition batchBody :: "json \<Rightarrow> (json \<times> json) list \<Rightarrow> json" where
  "batchBody subject items = JObj [(js ''subject'', subject),
     (js ''evaluations'', JArr (map (\<lambda>item. JObj [(js ''resource'', fst item), (js ''action'', snd item)]) items))]"

lemma goFold_keys:
  "map goFold (js ''subject'') = js ''subject''" "map goFold (js ''resource'') = js ''resource''" "map goFold (js ''action'') = js ''action''"
  "map goFold (js ''evaluations'') = js ''evaluations''"
  by code_simp+

lemma decodeEvaluation_body:
  "decodeEvaluation (evaluationBody subject item) =
     bindE (entityDecoder subject zeroEntity) (\<lambda>s. bindE (entityDecoder (fst item) zeroEntity) (\<lambda>a. bindE (actionDecoder (snd item) zeroAction) (\<lambda>b.
       Inr \<lparr>AeSubject = s, AeResource = a, AeAction = b, AeContext = None\<rparr>)))"
  by (cases "entityDecoder subject zeroEntity"; cases "entityDecoder (fst item) zeroEntity"; cases "actionDecoder (snd item) zeroAction")
     (simp_all add: decodeEvaluation_def evaluationBody_def decodeStruct_def structField_def mapField_def goFold_keys js_inj)

lemma decodeBatchItem_body:
  "decodeBatchItem (JObj [(js ''resource'', a), (js ''action'', b)]) =
     bindE (entityDecoder a zeroEntity) (\<lambda>x. bindE (actionDecoder b zeroAction) (\<lambda>y. Inr \<lparr>AiResource = x, AiAction = y, AiContext = None\<rparr>))"
  by (cases "entityDecoder a zeroEntity"; cases "actionDecoder b zeroAction")
     (simp_all add: decodeBatchItem_def decodeStruct_def structField_def mapField_def goFold_keys js_inj)

lemma decodeEvaluations_body:
  "decodeEvaluations (batchBody subject items) =
     bindE (entityDecoder subject zeroEntity) (\<lambda>s.
       bindE (mapE (\<lambda>item. decodeBatchItem (JObj [(js ''resource'', fst item), (js ''action'', snd item)])) items) (\<lambda>xs.
         Inr \<lparr>AbSubject = s, AbEvaluations = xs\<rparr>))"
proof -
  have m: "mapE decodeBatchItem (map f xs) = mapE (\<lambda>x. decodeBatchItem (f x)) xs" for f :: "json \<times> json \<Rightarrow> json" and xs by (induction xs) simp_all
  show ?thesis
    by (cases "entityDecoder subject zeroEntity";
        cases "mapE (\<lambda>item. decodeBatchItem (JObj [(js ''resource'', fst item), (js ''action'', snd item)])) items")
       (simp_all add: decodeEvaluations_def batchBody_def decodeStruct_def structField_def sliceField_def goFold_keys js_inj m)
qed

lemma single_decision:
  "handleAuthZenEvaluation env now (r\<lparr>gr_body := Some (evaluationBody subject item)\<rparr>) srv = Reply 200 (DecisionBody d) \<longleftrightarrow>
   (\<exists>ctx s a b. tenantCtxFromHeader r (srv_store srv) = Inr ctx \<and> entityDecoder subject zeroEntity = Inr s \<and>
      entityDecoder (fst item) zeroEntity = Inr a \<and> actionDecoder (snd item) zeroAction = Inr b \<and>
      d = checkDecision env now ctx srv (itemRequestOf s \<lparr>AiResource = a, AiAction = b, AiContext = None\<rparr>))"
proof -
  have h: "tenantCtxFromHeader (r\<lparr>gr_body := x\<rparr>) s = tenantCtxFromHeader r s" for x s by (simp add: tenantCtxFromHeader_def)
  show ?thesis
    unfolding handleAuthZenEvaluation_def h orElse_def readJSON_def
    by (auto simp: decodeEvaluation_body bindE_Inr bindE_Inl checkRequestOf_def itemRequestOf_def writeError_def split: sum.splits if_splits)
qed

lemma batch_decisions:
  assumes "list_all2 (\<lambda>item d. \<exists>a b. entityDecoder (fst item) zeroEntity = Inr a \<and> actionDecoder (snd item) zeroAction = Inr b \<and>
      d = dec \<lparr>AiResource = a, AiAction = b, AiContext = None\<rparr>) items ds"
  shows "\<exists>xs. mapE (\<lambda>item. decodeBatchItem (JObj [(js ''resource'', fst item), (js ''action'', snd item)])) items = Inr xs \<and> map dec xs = ds"
  using assms
proof (induction rule: list_all2_induct)
  case (Cons item items d ds)
  then show ?case by (auto simp: decodeBatchItem_body)
qed simp

text \<open>
  Batch evaluation is evaluation item by item: when each of the resources and actions, asked alone for a
  subject, is answered with a decision, the batch of them for the same subject is answered with the list of
  these decisions, in order.
\<close>

theorem batch_is_map:
  assumes "items \<noteq> []" "list_all2 (\<lambda>item d. handleAuthZenEvaluation env now (r\<lparr>gr_body := Some (evaluationBody subject item)\<rparr>) srv =
      Reply 200 (DecisionBody d)) items ds"
  shows "handleAuthZenEvaluations env now (r\<lparr>gr_body := Some (batchBody subject items)\<rparr>) srv = Reply 200 (DecisionsBody ds)"
proof -
  have h: "tenantCtxFromHeader (r\<lparr>gr_body := x\<rparr>) s = tenantCtxFromHeader r s" for x s by (simp add: tenantCtxFromHeader_def)
  obtain item rest d ds' where i: "items = item # rest" "ds = d # ds'" using assms by (cases items; cases ds) auto
  obtain ctx s where c: "tenantCtxFromHeader r (srv_store srv) = Inr ctx" "entityDecoder subject zeroEntity = Inr s"
    using assms(2) unfolding i single_decision by auto
  have "list_all2 (\<lambda>item d. \<exists>a b. entityDecoder (fst item) zeroEntity = Inr a \<and> actionDecoder (snd item) zeroAction = Inr b \<and>
      d = checkDecision env now ctx srv (itemRequestOf s \<lparr>AiResource = a, AiAction = b, AiContext = None\<rparr>)) items ds"
    using assms(2) unfolding single_decision by (rule list_all2_mono) (use c in auto)
  from batch_decisions [OF this] obtain xs where
    "mapE (\<lambda>item. decodeBatchItem (JObj [(js ''resource'', fst item), (js ''action'', snd item)])) items = Inr xs"
    "map (\<lambda>x. checkDecision env now ctx srv (itemRequestOf s x)) xs = ds" by blast
  then show ?thesis
    unfolding handleAuthZenEvaluations_def h orElse_def readJSON_def by (simp add: c decodeEvaluations_body)
qed

theorem batch_is_map_witness:
  "handleAuthZenEvaluations sampleEnv 4 ((getRequest [])\<lparr>gr_body := Some (batchBody (tupleBody [(''type'', ''user''), (''id'', ''alice'')])
     [(tupleBody [(''type'', ''document''), (''id'', ''d1'')], tupleBody [(''name'', ''view'')]),
      (tupleBody [(''type'', ''document''), (''id'', ''d2'')], tupleBody [(''name'', ''view'')])])\<rparr>) documentServer =
   Reply 200 (DecisionsBody [True, False])"
proof -
  have a: "handleAuthZenEvaluation sampleEnv 4 ((getRequest [])\<lparr>gr_body := Some (evaluationBody (tupleBody [(''type'', ''user''), (''id'', ''alice'')])
      (tupleBody [(''type'', ''document''), (''id'', ''d1'')], tupleBody [(''name'', ''view'')]))\<rparr>) documentServer = Reply 200 (DecisionBody True)"
    by code_simp
  have b: "handleAuthZenEvaluation sampleEnv 4 ((getRequest [])\<lparr>gr_body := Some (evaluationBody (tupleBody [(''type'', ''user''), (''id'', ''alice'')])
      (tupleBody [(''type'', ''document''), (''id'', ''d2'')], tupleBody [(''name'', ''view'')]))\<rparr>) documentServer = Reply 200 (DecisionBody False)"
    by code_simp
  show ?thesis by (rule batch_is_map) (simp_all only: list_all2_Cons list_all2_Nil a b, simp)
qed



text \<open>
  A tenant with a shared schema gets no positive decision: the mode is accepted at creation, but no request
  loads a schema for it to share, so every evaluation for such a tenant answers false, also when a schema has
  been loaded under its own name.
\<close>

theorem shared_never_allowed:
  assumes "serverRun env srv" "map_of (st_tenants (srv_store srv)) (gr_tenantHeader r) = Some t" "SchemaMode t = SchemaShared"
  shows "handleAuthZenEvaluation env now r srv \<noteq> Reply 200 (DecisionBody True)"
proof
  assume a: "handleAuthZenEvaluation env now r srv = Reply 200 (DecisionBody True)"
  have x: "tenantCtxFromHeader r (srv_store srv) = Inr ctx \<Longrightarrow> ctx = Some \<lparr>CtxTenantID = gr_tenantHeader r, CtxTenant = t, CtxConfig = MergeConfig t None\<rparr>" for ctx
    using assms(2) by (auto simp: tenantCtxFromHeader_def Let_def BuildContext_def WithTenantContext_def GetTenant_def split: if_splits)
  obtain ctx req where c: "tenantCtxFromHeader r (srv_store srv) = Inr ctx" "checkDecision env now ctx srv req"
    using a by (auto simp: handleAuthZenEvaluation_def orElse_def writeError_def split: sum.splits if_splits)
  then have "schemaForTenant (srv_eng srv) \<lparr>CtxTenantID = gr_tenantHeader r, CtxTenant = t, CtxConfig = MergeConfig t None\<rparr> \<noteq> Inl (SharedSchemaNotFound (SharedSchemaRef t))"
    using x [OF c(1)] by (auto simp: checkDecision_def Check_def TenantFromContext_def split: if_splits)
  then show False using serverRun_ok [OF assms(1)] assms(3) by (simp add: schemaForTenant_def Let_def registriesOk_def)
qed

definition sharedServer :: "unit Server" where
  "sharedServer = snd (serveRequest sampleEnv 2 HandleCreateTenant ((getRequest [])\<lparr>gr_body := Some (tupleBody
     [(''id'', ''acme''), (''schema_mode'', ''shared''), (''shared_schema_ref'', ''base'')])\<rparr>) superServer)"

theorem shared_never_allowed_witness:
  "handleAuthZenEvaluation sampleEnv 9 ((getRequest [])\<lparr>gr_tenantHeader := js ''acme''\<rparr>) sharedServer \<noteq> Reply 200 (DecisionBody True)"
proof -
  have "case map_of (st_tenants (srv_store sharedServer)) (js ''acme'') of None \<Rightarrow> False | Some t \<Rightarrow> SchemaMode t = SchemaShared" by code_simp
  then obtain t where t: "map_of (st_tenants (srv_store sharedServer)) (js ''acme'') = Some t" "SchemaMode t = SchemaShared"
    by (auto split: option.splits)
  have "serverRun sampleEnv sharedServer" unfolding sharedServer_def by (rule serverRun.request [OF superServer_run])
  then show ?thesis by (rule shared_never_allowed) (use t in simp_all)
qed

text \<open>
  A restart brings a deleted bootstrap tenant back: on a store that has kept it as deleted, \<^verbatim>\<open>ensureBootstrapTenant\<close>
  sets it active, although no request can activate a deleted tenant.
\<close>

theorem bootstrap_revives:
  "case Delete 2 bootstrapTenantID superStore of Inl _ \<Rightarrow> False
   | Inr s \<Rightarrow> (case Activate 3 bootstrapTenantID s of Inl e \<Rightarrow> e = ErrTenantDeleted | Inr _ \<Rightarrow> False) \<and>
       (case ensureBootstrapTenant 4 s of Inl _ \<Rightarrow> False | Inr s' \<Rightarrow> statusOf s' bootstrapTenantID = Some TenantActive)"
  by code_simp

text \<open>
  The listing of tenants panics on an overflow: with an offset of one and the largest limit, the end of the slice is
  computed to lie before its start, and the request has no answer, as soon as there are two tenants.
\<close>

lemma slice_overflows:
  assumes "1 < length ts"
  shows "applyTenantFilter ts (Some \<lparr>FilterStatus = x, FilterParentID = y, FilterLimit = 9223372036854775807, FilterOffset = 1\<rparr>) = Inl Panic"
  using assms by (simp add: applyTenantFilter_def wrap64_def Let_def)

lemma Atoi_limits: "Atoi (js ''9223372036854775807'') = Some 9223372036854775807" "Atoi (js ''1'') = Some 1"
  by (simp_all add: Atoi_def digitsVal_def js_def startsWith_def isDigit_def Let_def)

theorem list_tenants_overflows:
  "handleListTenants ((getRequest [])\<lparr>gr_query := [(js ''limit'', js ''9223372036854775807''), (js ''offset'', js ''1'')]\<rparr>) sharedServer = Aborted"
proof -
  let ?r = "(getRequest [])\<lparr>gr_query := [(js ''limit'', js ''9223372036854775807''), (js ''offset'', js ''1'')]\<rparr>"
  have q: "queryValue ?r ''limit'' = js ''9223372036854775807''" "queryValue ?r ''offset'' = js ''1''"
    "queryValue ?r ''status'' = []" "queryValue ?r ''parent_id'' = []" by code_simp+
  have n: "js ''9223372036854775807'' \<noteq> []" "js ''1'' \<noteq> []" by (simp_all add: js_def)
  have p: "nonNegativeParam ?r ''limit'' = Inr 9223372036854775807" "nonNegativeParam ?r ''offset'' = Inr 1"
    unfolding nonNegativeParam_def q parseNonNegativeInt_def Atoi_limits by (simp_all add: n)
  have "length (st_tenants (srv_store sharedServer)) = 2" by code_simp
  then show ?thesis
    unfolding handleListTenants_def p orElse_def sum.case ManagerList_def ListTenants_def q
    by (simp add: slice_overflows matchesTenantFilter_def writeError_def)
qed

end
