(* ===== verification/Query_Hooks.thy ===== *)
theory Query_Hooks
  imports Api_Client
begin

text \<open>
  The data hooks of the console, \<^verbatim>\<open>src/lib/hooks\<close>. A query hook is the triple it hands to TanStack
  Query: key, request and whether it is enabled; a mutation hook is the request it sends and the
  keys it invalidates on success. What the library does with the keys is the interface
  \<open>key_matching\<close>: a filter made of strings matches exactly the keys that start with it, which is
  its documented behaviour for \<^verbatim>\<open>invalidateQueries\<close>. The lemmas of the locale say which cached
  queries a mutation marks as stale; the interpretation is on the prefix order.
\<close>

section \<open>Query keys\<close>

text \<open>
  An element of a key: a string, a number or an object of string properties. Keys are compared by
  their hash, which drops undefined properties and sorts the rest, so an object is the list of its
  defined properties in a fixed order.
\<close>

datatype keyElem = KStr str | KNum nat | KObj "(str \<times> str) list"

type_synonym queryKey = "keyElem list"

definition definedProp :: "string \<Rightarrow> str option \<Rightarrow> (str \<times> str) list" where
  "definedProp k v = (case v of None \<Rightarrow> [] | Some x \<Rightarrow> [(js k, x)])"

definition tenantKeys_lists :: queryKey where
  "tenantKeys_lists = [KStr (js ''tenants''), KStr (js ''list'')]"

definition tenantKeys_list :: "str option \<Rightarrow> queryKey" where
  "tenantKeys_list status = tenantKeys_lists @ [KObj (definedProp ''status'' status)]"

definition tenantKeys_detail :: "str \<Rightarrow> queryKey" where
  "tenantKeys_detail i = [KStr (js ''tenants''), KStr (js ''detail''), KStr i]"

definition schemaKeys_detail :: "str \<Rightarrow> queryKey" where
  "schemaKeys_detail tid = [KStr (js ''schema''), KStr tid]"

definition tupleKeys_lists :: queryKey where
  "tupleKeys_lists = [KStr (js ''tuples''), KStr (js ''list'')]"

definition filterKey :: "tupleFilter \<Rightarrow> keyElem" where
  "filterKey f = KObj (definedProp ''object_type'' (tf_object_type f) @ definedProp ''object_id'' (tf_object_id f) @
     definedProp ''relation'' (tf_relation f) @ definedProp ''subject_type'' (tf_subject_type f) @
     definedProp ''subject_id'' (tf_subject_id f) @ definedProp ''subject_relation'' (tf_subject_relation f))"

definition tupleKeys_list :: "str \<Rightarrow> tupleFilter \<Rightarrow> queryKey" where
  "tupleKeys_list tid f = tupleKeys_lists @ [KStr tid, filterKey f]"

definition changelogKeys_list :: "str \<Rightarrow> nat \<Rightarrow> nat \<Rightarrow> queryKey" where
  "changelogKeys_list tid sinceSeq limit = [KStr (js ''changelog''), KStr tid, KNum sinceSeq, KNum limit]"

definition orEmpty :: "str option \<Rightarrow> str" where
  "orEmpty v = (case v of None \<Rightarrow> [] | Some x \<Rightarrow> x)"

definition attributeKeys_objectList :: "str \<Rightarrow> str option \<Rightarrow> queryKey" where
  "attributeKeys_objectList tid ty = [KStr (js ''attributes''), KStr (js ''objectList''), KStr tid, KStr (orEmpty ty)]"

definition attributeKeys_subjectList :: "str \<Rightarrow> str option \<Rightarrow> queryKey" where
  "attributeKeys_subjectList tid ty = [KStr (js ''attributes''), KStr (js ''subjectList''), KStr tid, KStr (orEmpty ty)]"

definition attributeKeys_object :: "str \<Rightarrow> str \<Rightarrow> str \<Rightarrow> queryKey" where
  "attributeKeys_object tid ty i = [KStr (js ''attributes''), KStr (js ''object''), KStr tid, KStr ty, KStr i]"

definition attributeKeys_subject :: "str \<Rightarrow> str \<Rightarrow> str \<Rightarrow> queryKey" where
  "attributeKeys_subject tid ty i = [KStr (js ''attributes''), KStr (js ''subject''), KStr tid, KStr ty, KStr i]"

section \<open>Query hooks\<close>

record query =
  q_key :: queryKey
  q_request :: httpRequest
  q_enabled :: bool
  q_retry :: bool

text \<open>\<^verbatim>\<open>tenantId!\<close> in a template literal: \<^verbatim>\<open>null\<close> is printed as such, but the query is then disabled.\<close>

definition bang :: "str option \<Rightarrow> str" where
  "bang v = (case v of None \<Rightarrow> js ''null'' | Some x \<Rightarrow> x)"

definition given :: "str option \<Rightarrow> bool" where
  "given v \<longleftrightarrow> (case v of None \<Rightarrow> False | Some x \<Rightarrow> truthy x)"

definition useTenants :: "str option \<Rightarrow> query" where
  "useTenants status = \<lparr>q_key = tenantKeys_list status,
     q_request = listTenants \<lparr>tp_status = status, tp_parent_id = None, tp_limit = None, tp_offset = None\<rparr>,
     q_enabled = True, q_retry = True\<rparr>"

definition useTenant :: "str option \<Rightarrow> query" where
  "useTenant tid = \<lparr>q_key = tenantKeys_detail (orEmpty tid), q_request = getTenant (bang tid),
     q_enabled = given tid, q_retry = True\<rparr>"

definition useSchema :: "str option \<Rightarrow> query" where
  "useSchema tid = \<lparr>q_key = schemaKeys_detail (orEmpty tid), q_request = getSchema (bang tid),
     q_enabled = given tid, q_retry = False\<rparr>"

definition emptyFilter :: tupleFilter where
  "emptyFilter = \<lparr>tf_object_type = None, tf_object_id = None, tf_relation = None, tf_subject_type = None,
     tf_subject_id = None, tf_subject_relation = None\<rparr>"

definition useTuples :: "str option \<Rightarrow> tupleFilter option \<Rightarrow> query" where
  "useTuples tid f = (let f' = (case f of None \<Rightarrow> emptyFilter | Some g \<Rightarrow> g) in
     \<lparr>q_key = tupleKeys_list (orEmpty tid) f', q_request = readTuples (bang tid) f',
      q_enabled = given tid, q_retry = True\<rparr>)"

definition useChangelog :: "str option \<Rightarrow> nat option \<Rightarrow> nat option \<Rightarrow> query" where
  "useChangelog tid sinceSeq limit = (let l = (case limit of None \<Rightarrow> 100 | Some n \<Rightarrow> n) in
     \<lparr>q_key = changelogKeys_list (orEmpty tid) (case sinceSeq of None \<Rightarrow> 0 | Some n \<Rightarrow> n) l,
      q_request = readChangelog (bang tid) \<lparr>cp_since_seq = sinceSeq, cp_limit = Some l\<rparr>,
      q_enabled = given tid, q_retry = True\<rparr>)"

definition useListObjectAttributes :: "str option \<Rightarrow> str option \<Rightarrow> query" where
  "useListObjectAttributes tid ty = \<lparr>q_key = attributeKeys_objectList (orEmpty tid) ty,
     q_request = listObjectAttributes (bang tid) ty, q_enabled = given tid, q_retry = True\<rparr>"

definition useListSubjectAttributes :: "str option \<Rightarrow> str option \<Rightarrow> query" where
  "useListSubjectAttributes tid ty = \<lparr>q_key = attributeKeys_subjectList (orEmpty tid) ty,
     q_request = listSubjectAttributes (bang tid) ty, q_enabled = given tid, q_retry = True\<rparr>"

definition useObjectAttributes :: "str option \<Rightarrow> str \<Rightarrow> str \<Rightarrow> query" where
  "useObjectAttributes tid ty i = \<lparr>q_key = attributeKeys_object (orEmpty tid) ty i,
     q_request = getObjectAttributes (bang tid) ty i,
     q_enabled = (given tid \<and> truthy ty \<and> truthy i), q_retry = False\<rparr>"

definition useSubjectAttributes :: "str option \<Rightarrow> str \<Rightarrow> str \<Rightarrow> query" where
  "useSubjectAttributes tid ty i = \<lparr>q_key = attributeKeys_subject (orEmpty tid) ty i,
     q_request = getSubjectAttributes (bang tid) ty i,
     q_enabled = (given tid \<and> truthy ty \<and> truthy i), q_retry = False\<rparr>"

text \<open>The queries the console's pages issue; the changelog page always gives both numbers.\<close>

datatype queryUse =
    QTenants "str option" | QTenant "str option" | QSchema "str option"
  | QTuples "str option" "tupleFilter option" | QChangelog "str option" nat nat
  | QObjectList "str option" "str option" | QSubjectList "str option" "str option"
  | QObject "str option" str str | QSubject "str option" str str

fun queryOf :: "queryUse \<Rightarrow> query" where
  "queryOf (QTenants st) = useTenants st"
| "queryOf (QTenant tid) = useTenant tid"
| "queryOf (QSchema tid) = useSchema tid"
| "queryOf (QTuples tid f) = useTuples tid f"
| "queryOf (QChangelog tid n l) = useChangelog tid (Some n) (Some l)"
| "queryOf (QObjectList tid ty) = useListObjectAttributes tid ty"
| "queryOf (QSubjectList tid ty) = useListSubjectAttributes tid ty"
| "queryOf (QObject tid ty i) = useObjectAttributes tid ty i"
| "queryOf (QSubject tid ty i) = useSubjectAttributes tid ty i"

section \<open>Mutation hooks\<close>

record 'a mutation =
  m_request :: "'a \<Rightarrow> httpRequest"
  m_invalidates :: "queryKey list"

definition useWriteTuple :: "str \<Rightarrow> tupleRequest mutation" where
  "useWriteTuple tid = \<lparr>m_request = writeTuple tid, m_invalidates = [tupleKeys_lists]\<rparr>"

definition useWriteTuplesBatch :: "str \<Rightarrow> batchTuplesRequest mutation" where
  "useWriteTuplesBatch tid = \<lparr>m_request = writeTuplesBatch tid, m_invalidates = [tupleKeys_lists]\<rparr>"

definition useDeleteTuple :: "str \<Rightarrow> tupleRequest mutation" where
  "useDeleteTuple tid = \<lparr>m_request = deleteTuple tid, m_invalidates = [tupleKeys_lists]\<rparr>"

definition useSaveSchema :: "str \<Rightarrow> str mutation" where
  "useSaveSchema tid = \<lparr>m_request = loadSchema tid, m_invalidates = [schemaKeys_detail tid]\<rparr>"

definition useSaveObjectAttributes :: "str \<Rightarrow> str \<Rightarrow> str \<Rightarrow> jsobject mutation" where
  "useSaveObjectAttributes tid ty i = \<lparr>m_request = setObjectAttributes tid ty i,
     m_invalidates = [attributeKeys_object tid ty i, attributeKeys_objectList tid None]\<rparr>"

definition useSaveSubjectAttributes :: "str \<Rightarrow> str \<Rightarrow> str \<Rightarrow> jsobject mutation" where
  "useSaveSubjectAttributes tid ty i = \<lparr>m_request = setSubjectAttributes tid ty i,
     m_invalidates = [attributeKeys_subject tid ty i, attributeKeys_subjectList tid None]\<rparr>"

definition useCheck :: "str \<Rightarrow> checkRequest mutation" where
  "useCheck tid = \<lparr>m_request = checkPermission tid, m_invalidates = []\<rparr>"

definition useExpand :: "str \<Rightarrow> expandRequest mutation" where
  "useExpand tid = \<lparr>m_request = expandRelation tid, m_invalidates = []\<rparr>"

section \<open>The cache\<close>

text \<open>
  A cached query is its key, its data and whether it is marked invalid. \<open>invalidateAll\<close> is the
  \<^verbatim>\<open>onSuccess\<close> callback: one \<^verbatim>\<open>invalidateQueries\<close> per key, with the library's matching as argument.
\<close>

record 'd cached =
  ca_key :: queryKey
  ca_data :: 'd
  ca_invalid :: bool

definition invalidateQueries :: "(queryKey \<Rightarrow> queryKey \<Rightarrow> bool) \<Rightarrow> queryKey \<Rightarrow> 'd cached list \<Rightarrow> 'd cached list" where
  "invalidateQueries matches k cache =
     map (\<lambda>c. if matches k (ca_key c) then c\<lparr>ca_invalid := True\<rparr> else c) cache"

definition invalidateAll :: "(queryKey \<Rightarrow> queryKey \<Rightarrow> bool) \<Rightarrow> queryKey list \<Rightarrow> 'd cached list \<Rightarrow> 'd cached list" where
  "invalidateAll matches ks cache = fold (invalidateQueries matches) ks cache"

text \<open>Whether a success that invalidates \<open>ks\<close> marks the query with key \<open>k\<close>.\<close>

definition marks :: "(queryKey \<Rightarrow> queryKey \<Rightarrow> bool) \<Rightarrow> queryKey list \<Rightarrow> queryKey \<Rightarrow> bool" where
  "marks matches ks k \<longleftrightarrow>
     (\<forall>c \<in> set (invalidateAll matches ks [\<lparr>ca_key = k, ca_data = (), ca_invalid = False\<rparr>]). ca_invalid c)"

fun isStr :: "keyElem \<Rightarrow> bool" where
  "isStr (KStr _) = True"
| "isStr _ = False"

locale key_matching =
  fixes matches :: "queryKey \<Rightarrow> queryKey \<Rightarrow> bool"
  assumes matches_prefix: "list_all isStr f \<Longrightarrow> matches f k \<longleftrightarrow> prefix f k"
begin

lemma invalidateAll_map:
  "list_all (list_all isStr) ks \<Longrightarrow>
     invalidateAll matches ks cache =
       map (\<lambda>c. c\<lparr>ca_invalid := ca_invalid c \<or> (\<exists>k \<in> set ks. prefix k (ca_key c))\<rparr>) cache"
proof (induction ks arbitrary: cache)
  case (Cons k ks)
  then show ?case
    by (auto simp: invalidateAll_def invalidateQueries_def matches_prefix comp_def intro!: map_cong)
qed (simp add: invalidateAll_def)

lemma marks_iff: "list_all (list_all isStr) ks \<Longrightarrow> marks matches ks q \<longleftrightarrow> (\<exists>k \<in> set ks. prefix k q)"
  by (simp add: marks_def invalidateAll_map)

lemma invalidateAll_data:
  "list_all (list_all isStr) ks \<Longrightarrow> map ca_data (invalidateAll matches ks cache) = map ca_data cache"
  by (simp add: invalidateAll_map comp_def)

end

interpretation prefix_matching: key_matching prefix
  by unfold_locales simp

lemmas keys_defs = tenantKeys_lists_def tenantKeys_list_def tenantKeys_detail_def schemaKeys_detail_def
  tupleKeys_lists_def tupleKeys_list_def changelogKeys_list_def attributeKeys_objectList_def
  attributeKeys_subjectList_def attributeKeys_object_def attributeKeys_subject_def

section \<open>Keys determine requests\<close>

lemma map_of_definedProp: "map_of (definedProp k v) k' = (if k' = js k then v else None)"
  by (simp add: definedProp_def split: option.splits)

lemma filterKey_inj: "filterKey f = filterKey g \<Longrightarrow> f = g"
proof -
  assume eq: "filterKey f = filterKey g"
  have look: "filterKey h = KObj p \<Longrightarrow>
      tf_object_type h = map_of p (js ''object_type'') \<and> tf_object_id h = map_of p (js ''object_id'') \<and>
      tf_relation h = map_of p (js ''relation'') \<and> tf_subject_type h = map_of p (js ''subject_type'') \<and>
      tf_subject_id h = map_of p (js ''subject_id'') \<and> tf_subject_relation h = map_of p (js ''subject_relation'')"
    for h p by (auto simp: filterKey_def map_add_def map_of_definedProp js_def split: option.splits)
  obtain p where "filterKey f = KObj p" by (simp add: filterKey_def)
  with eq look [of f p] look [of g p] show "f = g" by simp
qed

lemma given_iff: "given a \<longleftrightarrow> (\<exists>x. a = Some x \<and> truthy x)"
  by (auto simp: given_def split: option.splits)

lemma Some_simps [simp]: "orEmpty (Some x) = x" "bang (Some x) = x"
  by (simp_all add: orEmpty_def bang_def)

lemma param_orEmpty: "orEmpty a = orEmpty b \<Longrightarrow> param k a = param k b"
  by (auto simp: param_def orEmpty_def split: option.splits)

lemmas hook_defs = useTenants_def useTenant_def useSchema_def useTuples_def useChangelog_def
  useListObjectAttributes_def useListSubjectAttributes_def useObjectAttributes_def useSubjectAttributes_def

lemma key_heads:
  "js ''tenants'' \<noteq> js ''schema''" "js ''tenants'' \<noteq> js ''tuples''" "js ''tenants'' \<noteq> js ''changelog''"
  "js ''tenants'' \<noteq> js ''attributes''" "js ''schema'' \<noteq> js ''tuples''" "js ''schema'' \<noteq> js ''changelog''"
  "js ''schema'' \<noteq> js ''attributes''" "js ''tuples'' \<noteq> js ''changelog''" "js ''tuples'' \<noteq> js ''attributes''"
  "js ''changelog'' \<noteq> js ''attributes''" "js ''list'' \<noteq> js ''detail''" "js ''objectList'' \<noteq> js ''subjectList''"
  "js ''objectList'' \<noteq> js ''object''" "js ''objectList'' \<noteq> js ''subject''" "js ''subjectList'' \<noteq> js ''object''"
  "js ''subjectList'' \<noteq> js ''subject''" "js ''object'' \<noteq> js ''subject''"
  by (simp_all add: js_def)

lemmas key_simps = keys_defs key_heads key_heads [symmetric]

lemma tupleKeys_mark:
  assumes "key_matching matches"
  shows "marks matches [tupleKeys_lists] (q_key (queryOf u)) \<longleftrightarrow> (\<exists>t f. u = QTuples t f)"
  using key_matching.marks_iff [OF assms, of "[tupleKeys_lists]"]
  by (cases u) (auto simp: hook_defs key_simps Let_def)

section \<open>Properties\<close>

text \<open>
  Claim C35. The cache never answers one request with the data of another: whenever two enabled
  queries of the console have the same key, they send the same request.
\<close>

theorem equal_keys_equal_requests:
  assumes "q_key (queryOf u) = q_key (queryOf v)" "q_enabled (queryOf u)" "q_enabled (queryOf v)"
  shows "q_request (queryOf u) = q_request (queryOf v)"
proof -
  have st: "definedProp ''status'' a = definedProp ''status'' b \<Longrightarrow> a = b" for a b
    by (metis map_of_definedProp)
  show ?thesis
    using assms
    by (cases u; cases v)
      (auto simp: hook_defs key_simps given_iff Let_def listObjectAttributes_def listSubjectAttributes_def
        dest: st filterKey_inj param_orEmpty [of _ _ "''type''"])
qed

theorem equal_keys_equal_requests_witness:
  "q_key (queryOf (QObjectList (Some (js ''super'')) None)) = q_key (queryOf (QObjectList (Some (js ''super'')) (Some []))) \<and>
   q_request (queryOf (QObjectList (Some (js ''super'')) None)) =
     q_request (queryOf (QObjectList (Some (js ''super'')) (Some [])))"
proof -
  have k: "q_key (queryOf (QObjectList (Some (js ''super'')) None)) =
      q_key (queryOf (QObjectList (Some (js ''super'')) (Some [])))" by code_simp
  have e: "q_enabled (queryOf (QObjectList (Some (js ''super'')) None))"
    "q_enabled (queryOf (QObjectList (Some (js ''super'')) (Some [])))" by code_simp+
  show ?thesis using k equal_keys_equal_requests [OF k e] by blast
qed

text \<open>
  After a tuple is written, written in a batch or deleted, the cache marks exactly the
  tuple lists, those of every tenant and every filter, and no other query of the console. The
  matching of keys is the library's, known only through its documented prefix rule.
\<close>

theorem tuple_mutations_mark_lists:
  assumes "key_matching matches"
  shows "(marks matches (m_invalidates (useWriteTuple tid)) (q_key (queryOf u)) \<longleftrightarrow> (\<exists>t f. u = QTuples t f)) \<and>
    (marks matches (m_invalidates (useWriteTuplesBatch tid)) (q_key (queryOf u)) \<longleftrightarrow> (\<exists>t f. u = QTuples t f)) \<and>
    (marks matches (m_invalidates (useDeleteTuple tid)) (q_key (queryOf u)) \<longleftrightarrow> (\<exists>t f. u = QTuples t f))"
  using tupleKeys_mark [OF assms] by (simp add: useWriteTuple_def useWriteTuplesBatch_def useDeleteTuple_def)

theorem tuple_mutations_mark_lists_witness:
  "key_matching prefix \<and>
   marks prefix (m_invalidates (useWriteTuple (js ''acme''))) (q_key (queryOf (QTuples (Some (js ''acme'')) None)))"
  using prefix_matching.key_matching_axioms
    tuple_mutations_mark_lists [OF prefix_matching.key_matching_axioms, of "js ''acme''" "QTuples (Some (js ''acme'')) None"]
  by blast

text \<open>
  After the attributes of an object are saved, the cache marks exactly that object's query
  and the tenant's unfiltered list of objects; a list filtered by a type, even the type just saved,
  stays as it was. The same holds for subjects.
\<close>

theorem save_attributes_marks:
  assumes "key_matching matches"
  shows "(marks matches (m_invalidates (useSaveObjectAttributes tid ty i)) (q_key (queryOf u)) \<longleftrightarrow>
      (\<exists>t. orEmpty t = tid \<and> (u = QObject t ty i \<or> u = QObjectList t None \<or> u = QObjectList t (Some [])))) \<and>
    (marks matches (m_invalidates (useSaveSubjectAttributes tid ty i)) (q_key (queryOf u)) \<longleftrightarrow>
      (\<exists>t. orEmpty t = tid \<and> (u = QSubject t ty i \<or> u = QSubjectList t None \<or> u = QSubjectList t (Some []))))"
proof -
  have e: "orEmpty a = [] \<longleftrightarrow> a = None \<or> a = Some []" "[] = orEmpty a \<longleftrightarrow> a = None \<or> a = Some []"
      "orEmpty None = []" for a by (cases a; auto simp: orEmpty_def)+
  have o: "marks matches [attributeKeys_object tid ty i, attributeKeys_objectList tid None] (q_key (queryOf u)) \<longleftrightarrow>
      (\<exists>t. orEmpty t = tid \<and> (u = QObject t ty i \<or> u = QObjectList t None \<or> u = QObjectList t (Some [])))"
    using key_matching.marks_iff [OF assms, of "[attributeKeys_object tid ty i, attributeKeys_objectList tid None]"]
    by (cases u) (auto simp: hook_defs key_simps Let_def e)
  have "marks matches [attributeKeys_subject tid ty i, attributeKeys_subjectList tid None] (q_key (queryOf u)) \<longleftrightarrow>
      (\<exists>t. orEmpty t = tid \<and> (u = QSubject t ty i \<or> u = QSubjectList t None \<or> u = QSubjectList t (Some [])))"
    using key_matching.marks_iff [OF assms, of "[attributeKeys_subject tid ty i, attributeKeys_subjectList tid None]"]
    by (cases u) (auto simp: hook_defs key_simps Let_def e)
  with o show ?thesis by (simp add: useSaveObjectAttributes_def useSaveSubjectAttributes_def)
qed

theorem save_attributes_marks_witness:
  "key_matching prefix \<and>
   \<not> marks prefix (m_invalidates (useSaveObjectAttributes (js ''acme'') (js ''document'') (js ''d1'')))
       (q_key (queryOf (QObjectList (Some (js ''acme'')) (Some (js ''document'')))))"
proof -
  have "js ''document'' \<noteq> []" by (simp add: js_def)
  then show ?thesis
    using prefix_matching.key_matching_axioms
      save_attributes_marks [OF prefix_matching.key_matching_axioms, of "js ''acme''" "js ''document''" "js ''d1''"
        "QObjectList (Some (js ''acme'')) (Some (js ''document''))"]
    by simp
qed

end
