(* ===== verification/Ui.thy ===== *)
theory Ui
  imports Query_Hooks
begin

text \<open>
  What the component theories share about the user interface. A rendered view is a list of
  labelled controls: a control shows its value and says what the user can do with it, and styling
  is left out. \<open>canSelect\<close>, \<open>canType\<close> and \<open>canPress\<close> say which inputs of the user a view admits;
  the step relations of the components use them as guards, so that a handler runs only when its
  control is there and enabled.

  A component whose state is initialised from its properties keeps that state for as long as it is
  rendered at the same place. This is the documented behaviour of React; the interface
  \<open>component_slot\<close> states it, and what follows for a page that swaps the properties of a mounted
  component is proved in the locale.
\<close>

section \<open>Controls\<close>

datatype control =
    SelectBox str "str list"
  | TextInput str str bool
  | PushButton bool
  | Shown str

type_synonym view = "(str \<times> control) list"

definition canSelect :: "view \<Rightarrow> str \<Rightarrow> str \<Rightarrow> bool" where
  "canSelect v l x \<longleftrightarrow> list_ex (\<lambda>(l', c). l' = l \<and> (case c of SelectBox _ xs \<Rightarrow> x \<in> set xs | _ \<Rightarrow> False)) v"

definition canType :: "view \<Rightarrow> str \<Rightarrow> bool" where
  "canType v l \<longleftrightarrow> list_ex (\<lambda>(l', c). l' = l \<and> (case c of TextInput _ _ dis \<Rightarrow> \<not> dis | _ \<Rightarrow> False)) v"

definition canPress :: "view \<Rightarrow> str \<Rightarrow> bool" where
  "canPress v l \<longleftrightarrow> list_ex (\<lambda>(l', c). l' = l \<and> (case c of PushButton dis \<Rightarrow> \<not> dis | _ \<Rightarrow> False)) v"

lemmas can_defs = canSelect_def canType_def canPress_def

text \<open>
  The notifications of \<^verbatim>\<open>sonner\<close>, in the order they are raised. The text of an error is
  \<^verbatim>\<open>err.message || fallback\<close>; the hook of the client may have put any value there.
\<close>

datatype toast = ToastSuccess str | ToastError json

definition errorText :: "clientError \<Rightarrow> string \<Rightarrow> json" where
  "errorText e fallback = (if jsonTruthy (err_message e) then err_message e else JStr (js fallback))"

section \<open>Mounted components\<close>

text \<open>
  \<open>commit init props st\<close> is the state of the component at a place after a render: \<open>props\<close> are the
  properties it is rendered with, or \<open>None\<close> when it is not rendered; \<open>st\<close> is its state before.
\<close>

locale component_slot =
  fixes commit :: "('p \<Rightarrow> 's) \<Rightarrow> 'p option \<Rightarrow> 's option \<Rightarrow> 's option"
  assumes mount: "commit init (Some p) None = Some (init p)"
    and keep: "commit init (Some p) (Some s) = Some s"
    and unmount: "commit init None st = None"
begin

text \<open>A sequence of renders without local updates; only the properties after the last gap matter.\<close>

lemma commits_keep: "list_all (\<lambda>p. p \<noteq> None) ps \<Longrightarrow> fold (commit init) ps (Some s) = Some s"
proof (induction ps)
  case (Cons p ps)
  then show ?case by (cases p) (auto simp: keep)
qed simp

lemma commits_first:
  "list_all (\<lambda>p. p \<noteq> None) ps \<Longrightarrow> fold (commit init) (None # Some p # ps) st = Some (init p)"
  by (simp add: unmount mount commits_keep)

lemma swap_keeps_old: "commit init (Some q) (commit init (Some p) None) = Some (init p)"
  by (simp add: mount keep)

end

text \<open>The semantics with exactly these laws, on which the interface is interpreted.\<close>

fun reconcile :: "('p \<Rightarrow> 's) \<Rightarrow> 'p option \<Rightarrow> 's option \<Rightarrow> 's option" where
  "reconcile init None st = None"
| "reconcile init (Some p) None = Some (init p)"
| "reconcile init (Some p) (Some s) = Some s"

interpretation slot: component_slot reconcile
  by unfold_locales simp_all

end
