(* ===== verification/Schema_Text.thy ===== *)
theory Schema_Text
  imports Prelude
begin

text \<open>
  The text side of the console's schema views. Four components of the console read the YAML
  source of a schema line by line, each with its own scanner: the graph
  (\<^verbatim>\<open>schema-graph.tsx\<close>), the tuple dialog (\<^verbatim>\<open>create-tuple-dialog.tsx\<close>), the evaluator
  (\<^verbatim>\<open>schema-evaluator.tsx\<close>) and the viewer (\<^verbatim>\<open>schema-viewer.tsx\<close>). This theory holds what they
  share: how a raw line is cut into an indentation and a trimmed text, the quote stripping and
  the inline list notation; and, as the reference the scanners are proved against, an abstract
  schema document with its rendering in the layout the repository's examples and documentation
  use (two spaces per level, one key per line).
\<close>

section \<open>Lines, quotes and inline lists\<close>

definition lineIndent :: "str \<Rightarrow> nat" where
  "lineIndent rawLine = length rawLine - length (trimStart rawLine)"

definition skipLine :: "str \<Rightarrow> bool" where
  "skipLine rawLine \<longleftrightarrow> \<not> truthy (trim rawLine) \<or> startsWith (trimStart rawLine) [HASH]"

definition isQuote :: "cu \<Rightarrow> bool" where
  "isQuote c \<longleftrightarrow> c = 0x27 \<or> c = 0x22"

text \<open>
  \<^verbatim>\<open>value.replace(/^['\"]|['\"]$/g, "")\<close>: one quote at the front, then one at the back of what is
  left; a one-character quote is removed once.
\<close>

definition stripQuotes :: "str \<Rightarrow> str" where
  "stripQuotes v =
     (let v1 = (if v \<noteq> [] \<and> isQuote (hd v) then tl v else v)
      in if v1 \<noteq> [] \<and> isQuote (last v1) then butlast v1 else v1)"

definition parseInlineList :: "str \<Rightarrow> str list" where
  "parseInlineList v =
     (let normalized = trim v in
      if \<not> truthy normalized then []
      else if startsWith normalized [0x5B] \<and> endsWith normalized [0x5D]
      then filter (\<lambda>x. truthy x) (map (\<lambda>item. stripQuotes (trim item)) (split COMMA (strSlice normalized 1 (-1))))
      else [stripQuotes normalized])"

text \<open>The section a scanner is in: the values of \<^verbatim>\<open>currentSection\<close>.\<close>

datatype sect = SecNull | SecAttributes | SecRelations | SecPermissions

section \<open>Abstract schema documents\<close>

text \<open>
  A document is a list of types, each with attributes, relations and permissions. The types of a
  relation are written as an inline list or as a block list; a permission is a \<^verbatim>\<open>resolve\<close> or a
  combination (\<^verbatim>\<open>union\<close>, \<^verbatim>\<open>intersect\<close>, \<^verbatim>\<open>exclusion\<close>) of references.
\<close>

record docRel =
  dr_name :: str
  dr_block :: bool
  dr_targets :: "str list"

datatype permBody = Resolve str | Combine str "str list"

record docType =
  dt_name :: str
  dt_attrs :: "(str \<times> str) list"
  dt_rels :: "docRel list"
  dt_perms :: "(str \<times> permBody) list"

definition ind :: "nat \<Rightarrow> str \<Rightarrow> str" where
  "ind n c = replicate n SPACE @ c"

definition keyLine :: "nat \<Rightarrow> str \<Rightarrow> str" where
  "keyLine n k = ind n (k @ [COLON])"

definition itemLine :: "nat \<Rightarrow> str \<Rightarrow> str" where
  "itemLine n v = ind n (js ''- '' @ v)"

definition attrLine :: "str \<times> str \<Rightarrow> str" where
  "attrLine a = ind 6 (fst a @ js '': '' @ snd a)"

definition relLines :: "docRel \<Rightarrow> str list" where
  "relLines r =
     keyLine 6 (dr_name r) #
     (if dr_block r then keyLine 8 (js ''types'') # map (itemLine 10) (dr_targets r)
      else [ind 8 (js ''types: ['' @ join (js '', '') (dr_targets r) @ js '']'')])"

fun bodyLines :: "permBody \<Rightarrow> str list" where
  "bodyLines (Resolve r) = [ind 8 (js ''resolve: '' @ r)]"
| "bodyLines (Combine oper refs) = keyLine 8 oper # map (itemLine 10) refs"

definition permLines :: "str \<times> permBody \<Rightarrow> str list" where
  "permLines p = keyLine 6 (fst p) # bodyLines (snd p)"

definition sectionLines :: "string \<Rightarrow> str list list \<Rightarrow> str list" where
  "sectionLines k bs = (if bs = [] then [] else keyLine 4 (js k) # concat bs)"

definition typeLines :: "docType \<Rightarrow> str list" where
  "typeLines t =
     keyLine 2 (dt_name t) #
     sectionLines ''attributes'' (map (\<lambda>a. [attrLine a]) (dt_attrs t)) @
     sectionLines ''relations'' (map relLines (dt_rels t)) @
     sectionLines ''permissions'' (map permLines (dt_perms t))"

definition docLines :: "docType list \<Rightarrow> str list" where
  "docLines d = js ''version: \"1.0\"'' # [] # js ''types:'' # concat (map typeLines d)"

definition renderDoc :: "docType list \<Rightarrow> str" where
  "renderDoc d = join [NL] (docLines d)"

text \<open>Names are made of letters, digits, \<^verbatim>\<open>_\<close>, \<^verbatim>\<open>.\<close> and \<^verbatim>\<open>-\<close>; references also use \<^verbatim>\<open>#\<close> and \<^verbatim>\<open>>\<close>.\<close>

definition identChar :: "cu \<Rightarrow> bool" where
  "identChar c \<longleftrightarrow>
     (0x30 \<le> c \<and> c \<le> 0x39) \<or> (0x41 \<le> c \<and> c \<le> 0x5A) \<or> (0x61 \<le> c \<and> c \<le> 0x7A) \<or>
     c = 0x5F \<or> c = 0x2E \<or> c = 0x2D"

definition wfName :: "str \<Rightarrow> bool" where
  "wfName s \<longleftrightarrow> s \<noteq> [] \<and> list_all identChar s"

definition wfRef :: "str \<Rightarrow> bool" where
  "wfRef s \<longleftrightarrow> s \<noteq> [] \<and> list_all (\<lambda>c. identChar c \<or> c = HASH \<or> c = 0x3E) s"

fun wfBody :: "permBody \<Rightarrow> bool" where
  "wfBody (Resolve r) = wfRef r"
| "wfBody (Combine oper refs) = (wfName oper \<and> list_all wfRef refs)"

definition wfType :: "docType \<Rightarrow> bool" where
  "wfType t \<longleftrightarrow>
     wfName (dt_name t) \<and>
     list_all (\<lambda>a. wfName (fst a) \<and> wfName (snd a)) (dt_attrs t) \<and>
     list_all (\<lambda>r. wfName (dr_name r) \<and> list_all wfRef (dr_targets r)) (dt_rels t) \<and>
     list_all (\<lambda>p. wfName (fst p) \<and> wfBody (snd p)) (dt_perms t)"

definition wfDoc :: "docType list \<Rightarrow> bool" where
  "wfDoc d \<longleftrightarrow> list_all wfType d"

text \<open>A small document, after the repository's Google Drive example: the instance of the witnesses.\<close>

definition sampleDoc :: "docType list" where
  "sampleDoc =
     [\<lparr>dt_name = js ''user'', dt_attrs = [(js ''department'', js ''string'')], dt_rels = [], dt_perms = []\<rparr>,
      \<lparr>dt_name = js ''folder'', dt_attrs = [],
       dt_rels = [\<lparr>dr_name = js ''viewer'', dr_block = True, dr_targets = [js ''user'', js ''group#member'']\<rparr>],
       dt_perms = [(js ''view'', Resolve (js ''viewer''))]\<rparr>,
      \<lparr>dt_name = js ''document'', dt_attrs = [],
       dt_rels = [\<lparr>dr_name = js ''owner'', dr_block = False, dr_targets = [js ''user'']\<rparr>,
                  \<lparr>dr_name = js ''parent'', dr_block = False, dr_targets = [js ''folder'']\<rparr>],
       dt_perms = [(js ''view'', Combine (js ''union'') [js ''owner'', js ''parent->view'']),
                   (js ''delete'', Resolve (js ''owner''))]\<rparr>]"

section \<open>Indented lines\<close>

lemma isWhite_SPACE [simp]: "isWhite SPACE"
  by (simp add: isWhite_def)

lemma replicate_SPACE_white [simp]: "list_all isWhite (replicate n SPACE)"
  by (induction n) auto

text \<open>A text that starts and ends with a visible character: what a rendered line carries.\<close>

definition solid :: "str \<Rightarrow> bool" where
  "solid c \<longleftrightarrow> c \<noteq> [] \<and> \<not> isWhite (hd c) \<and> \<not> isWhite (last c)"

lemma trimStart_ind [line_simps]: "solid c \<Longrightarrow> trimStart (ind n c) = c"
  by (simp add: ind_def trimStart_white_append trimStart_id solid_def)

lemma trim_ind [line_simps]: "solid c \<Longrightarrow> trim (ind n c) = c"
  by (simp add: trim_def trimStart_ind trimEnd_id solid_def)

lemma lineIndent_ind [line_simps]: "solid c \<Longrightarrow> lineIndent (ind n c) = n"
  by (simp add: lineIndent_def trimStart_ind) (simp add: ind_def)

lemma skipLine_ind [line_simps]: "solid c \<Longrightarrow> skipLine (ind n c) \<longleftrightarrow> hd c = HASH"
  by (auto simp: skipLine_def trim_ind trimStart_ind startsWith_one) (auto simp: solid_def)

lemma trimEnd_ind [line_simps]: "solid c \<Longrightarrow> trimEnd (ind n c) = ind n c"
  by (rule trimEnd_id) (auto simp: ind_def solid_def)

lemma solid_trim [simp]: "solid c \<Longrightarrow> trim c = c"
  by (simp add: solid_def trim_id)

lemma lineIndent_0: "solid c \<Longrightarrow> lineIndent c = 0"
  using lineIndent_ind [of c 0] by (simp add: ind_def)

lemma trim_Cons_SPACE [simp]: "trim (SPACE # s) = trim s"
  by (simp add: trim_def trimStart_Cons)

section \<open>Characters of names and references\<close>

definition refChar :: "cu \<Rightarrow> bool" where
  "refChar c \<longleftrightarrow> identChar c \<or> c = HASH \<or> c = 0x3E"

lemma identChar_refChar: "identChar c \<Longrightarrow> refChar c"
  by (simp add: refChar_def)

lemma wfRef_iff: "wfRef s \<longleftrightarrow> s \<noteq> [] \<and> list_all refChar s"
  by (simp add: wfRef_def refChar_def [abs_def])

lemma wfName_wfRef: "wfName s \<Longrightarrow> wfRef s"
  by (auto simp: wfName_def wfRef_iff list_all_iff identChar_refChar)

text \<open>The code units a name never has: each is decided by the bounds of the ranges.\<close>

lemma identChar_unat:
  "identChar c \<Longrightarrow> unat c \<in> {0x30..0x39} \<union> {0x41..0x5A} \<union> {0x61..0x7A} \<union> {0x5F, 0x2E, 0x2D}"
  by (auto simp: identChar_def word_le_nat_alt)

lemma identChar_neq [simp]:
  "identChar c \<Longrightarrow> c \<noteq> NL" "identChar c \<Longrightarrow> c \<noteq> COLON" "identChar c \<Longrightarrow> c \<noteq> COMMA"
  "identChar c \<Longrightarrow> c \<noteq> HASH" "identChar c \<Longrightarrow> c \<noteq> SPACE" "identChar c \<Longrightarrow> c \<noteq> 0x5B"
  "identChar c \<Longrightarrow> c \<noteq> 0x5D" "identChar c \<Longrightarrow> c \<noteq> 0x27" "identChar c \<Longrightarrow> c \<noteq> 0x22"
  "identChar c \<Longrightarrow> c \<noteq> SLASH" "identChar c \<Longrightarrow> c \<noteq> 0x2192"
  by (auto dest: identChar_unat)

lemma identChar_not_white [simp]: "identChar c \<Longrightarrow> \<not> isWhite c"
  by (auto simp: isWhite_def word_le_nat_alt dest!: identChar_unat)

lemma refChar_neq [simp]:
  "refChar c \<Longrightarrow> c \<noteq> NL" "refChar c \<Longrightarrow> c \<noteq> COLON" "refChar c \<Longrightarrow> c \<noteq> COMMA"
  "refChar c \<Longrightarrow> c \<noteq> 0x5B" "refChar c \<Longrightarrow> c \<noteq> 0x5D"
  by (auto simp: refChar_def) (simp_all add: identChar_def)

lemma not_identChar_lits [simp]:
  "\<not> identChar NL" "\<not> identChar COLON" "\<not> identChar COMMA" "\<not> identChar HASH"
  "\<not> identChar 0x2192" "\<not> refChar NL" "\<not> refChar COLON" "\<not> refChar COMMA"
  by (simp_all add: identChar_def refChar_def)

lemma refChar_not_white [simp]: "refChar c \<Longrightarrow> \<not> isWhite c"
  by (auto simp: refChar_def) (simp_all add: isWhite_def)

lemma refChar_not_quote [simp]: "refChar c \<Longrightarrow> \<not> isQuote c"
  by (auto simp: refChar_def isQuote_def) (simp_all add: identChar_def)

lemma wfRef_solid: "wfRef s \<Longrightarrow> solid s"
  by (auto simp: wfRef_iff solid_def list_all_iff)

lemma wfRef_trim [simp]: "wfRef s \<Longrightarrow> trim s = s"
  by (simp add: wfRef_solid)

lemma wfName_trim [simp]: "wfName s \<Longrightarrow> trim s = s"
  by (simp add: wfName_wfRef)

lemma wfRef_stripQuotes [simp]: "wfRef s \<Longrightarrow> stripQuotes s = s"
  by (auto simp: wfRef_iff stripQuotes_def list_all_iff)

lemma wfRef_last [simp]: "wfRef s \<Longrightarrow> last s \<noteq> COLON"
  by (auto simp: wfRef_iff list_all_iff)

lemma wfName_hd [simp]: "wfName s \<Longrightarrow> hd s \<noteq> HASH"
  by (auto simp: wfName_def list_all_iff)

lemma wfName_nonempty [simp]: "wfName s \<Longrightarrow> s \<noteq> []"
  by (simp add: wfName_def)

lemma wfRef_nonempty [simp]: "wfRef s \<Longrightarrow> s \<noteq> []"
  by (simp add: wfRef_def)

lemma solid_key: "wfName k \<Longrightarrow> solid (k @ [COLON])"
  by (auto simp: solid_def wfName_def list_all_iff) (simp add: isWhite_def)

section \<open>Rendered lines\<close>

lemma stripQuotes_Nil [simp]: "stripQuotes [] = []"
  by (simp add: stripQuotes_def)

lemma solid_append: "a \<noteq> [] \<Longrightarrow> \<not> isWhite (hd a) \<Longrightarrow> solid b \<Longrightarrow> solid (a @ b)"
  by (auto simp: solid_def)

lemma not_white_lits [simp]:
  "\<not> isWhite 0x2D" "\<not> isWhite 0x72" "\<not> isWhite 0x74" "\<not> isWhite 0x5D" "\<not> isWhite 0x5B"
  by (simp_all add: isWhite_def)

lemma solid_js_item: "wfRef v \<Longrightarrow> solid (js ''- '' @ v)"
  by (rule solid_append) (simp_all add: wfRef_solid js_def)

lemma wfName_visible: "wfName k \<Longrightarrow> \<not> isWhite (hd k)"
  using wfRef_solid [OF wfName_wfRef] by (simp add: solid_def)

lemma solid_attr:
  assumes "wfName k" "wfName v"
  shows "solid (k @ js '': '' @ v)"
proof -
  have "solid (js '': '' @ v)"
    using assms by (intro solid_append) (simp_all add: wfRef_solid wfName_wfRef js_def isWhite_def)
  with assms show ?thesis by (simp add: solid_append wfName_visible)
qed

lemma solid_resolve: "wfRef v \<Longrightarrow> solid (js ''resolve: '' @ v)"
  by (rule solid_append) (simp_all add: wfRef_solid js_def)

lemma solid_inline: "solid (js ''types: ['' @ p @ js '']'')"
  by (simp add: solid_def js_def)

lemmas solid_lines = solid_key solid_js_item solid_attr solid_resolve solid_inline

lemma wfName_js [simp]:
  "wfName (js ''types'')" "wfName (js ''attributes'')" "wfName (js ''relations'')"
  "wfName (js ''permissions'')" "wfName (js ''resolve'')"
  by (simp_all add: wfName_def js_def identChar_def)

lemma wfRef_chars: "wfRef s \<Longrightarrow> c \<in> set s \<Longrightarrow> refChar c"
  by (auto simp: wfRef_iff list_all_iff)

lemma wfName_chars: "wfName s \<Longrightarrow> c \<in> set s \<Longrightarrow> identChar c"
  by (auto simp: wfName_def list_all_iff)

lemma wfRef_no [simp]:
  "wfRef s \<Longrightarrow> NL \<notin> set s" "wfRef s \<Longrightarrow> COMMA \<notin> set s" "wfRef s \<Longrightarrow> COLON \<notin> set s"
  by (auto dest: wfRef_chars)

lemma wfName_no [simp]:
  "wfName s \<Longrightarrow> NL \<notin> set s" "wfName s \<Longrightarrow> HASH \<notin> set s" "wfName s \<Longrightarrow> COLON \<notin> set s"
  "wfName s \<Longrightarrow> 0x2192 \<notin> set s"
  by (auto dest: wfName_chars)

lemma NL_ind: "NL \<in> set (ind n c) \<longleftrightarrow> NL \<in> set c"
  by (auto simp: ind_def)

lemma NL_join: "list_all wfRef ts \<Longrightarrow> NL \<notin> set (join (js '', '') ts)"
  using set_join [of "js '', ''" ts] by (force simp: list_all_iff js_def)

lemma NL_lines:
  "wfName k \<Longrightarrow> NL \<notin> set (keyLine n k)"
  "wfRef v \<Longrightarrow> NL \<notin> set (itemLine n v)"
  "wfName (fst a) \<Longrightarrow> wfName (snd a) \<Longrightarrow> NL \<notin> set (attrLine a)"
  by (auto simp: keyLine_def itemLine_def attrLine_def NL_ind) (auto simp: js_def)

lemma NL_relLines:
  "wfName (dr_name r) \<Longrightarrow> list_all wfRef (dr_targets r) \<Longrightarrow> l \<in> set (relLines r) \<Longrightarrow> NL \<notin> set l"
  by (auto simp: relLines_def NL_lines NL_ind NL_join list_all_iff split: if_splits) (auto simp: js_def)

lemma NL_permLines:
  "wfName (fst p) \<Longrightarrow> wfBody (snd p) \<Longrightarrow> l \<in> set (permLines p) \<Longrightarrow> NL \<notin> set l"
  by (cases "snd p") (auto simp: permLines_def NL_lines NL_ind list_all_iff js_def)

lemma NL_section:
  "wfName (js k) \<Longrightarrow> (\<And>b l. b \<in> set bs \<Longrightarrow> l \<in> set b \<Longrightarrow> NL \<notin> set l) \<Longrightarrow>
     l \<in> set (sectionLines k bs) \<Longrightarrow> NL \<notin> set l"
  by (auto simp: sectionLines_def NL_lines split: if_splits)

lemma NL_typeLines:
  assumes "wfType t" "l \<in> set (typeLines t)"
  shows "NL \<notin> set l"
proof -
  have "l \<in> set (sectionLines ''attributes'' (map (\<lambda>a. [attrLine a]) (dt_attrs t))) \<Longrightarrow> NL \<notin> set l"
    using assms(1) by (erule_tac NL_section [rotated 2]) (force simp: wfType_def list_all_iff NL_lines)+
  moreover have "l \<in> set (sectionLines ''relations'' (map relLines (dt_rels t))) \<Longrightarrow> NL \<notin> set l"
    using assms(1) by (erule_tac NL_section [rotated 2]) (auto simp: wfType_def list_all_iff dest!: NL_relLines [rotated 2])
  moreover have "l \<in> set (sectionLines ''permissions'' (map permLines (dt_perms t))) \<Longrightarrow> NL \<notin> set l"
    using assms(1) by (erule_tac NL_section [rotated 2]) (force simp: wfType_def list_all_iff dest: NL_permLines)+
  ultimately show ?thesis
    using assms by (auto simp: typeLines_def wfType_def NL_lines)
qed

lemma split_renderDoc: "wfDoc d \<Longrightarrow> split NL (renderDoc d) = docLines d"
  unfolding renderDoc_def
  by (rule split_join) (auto simp: docLines_def wfDoc_def list_all_iff js_def dest: NL_typeLines)

lemma split_join_comma:
  "ts \<noteq> [] \<Longrightarrow> list_all wfRef ts \<Longrightarrow>
     map (\<lambda>item. stripQuotes (trim item)) (split COMMA (join (js '', '') ts)) = ts"
proof (induction "js '', ''" ts rule: join.induct)
  case (3 p q ps)
  have "split COMMA (SPACE # s) = (case split COMMA s of [] \<Rightarrow> [] | x # xs \<Rightarrow> (SPACE # x) # xs)" for s
    by (cases "split COMMA s") auto
  with 3 show ?case
    by (cases "split COMMA (join (js '', '') (q # ps))") (auto simp: js_def split_append)
qed (auto simp: split_none)

lemma parseInlineList_brackets:
  assumes "list_all wfRef ts"
  shows "parseInlineList (0x5B # join (js '', '') ts @ [0x5D]) = ts"
proof -
  have t: "trim (0x5B # j @ [0x5D]) = 0x5B # j @ [0x5D]" for j
    by (rule trim_id) (simp add: isWhite_def)
  have "filter (\<lambda>x. truthy x) ts = ts" using assms by (induction ts) auto
  then show ?thesis
    using assms t [of "[]"]
    by (cases "ts = []")
      (simp_all add: parseInlineList_def t startsWith_one endsWith_one split_join_comma)
qed

section \<open>What the scanners' tests see of a rendered line\<close>

lemma item_text [line_simps]:
  "hd (js ''- '' @ v) \<noteq> HASH" "startsWith (js ''- '' @ v) [0x2D]" "sliceFrom (js ''- '' @ v) (Suc 0) = SPACE # v"
  "\<not> startsWith (js ''- '' @ v) (js ''types:'')" "v \<noteq> [] \<Longrightarrow> endsWith (js ''- '' @ v) [COLON] \<longleftrightarrow> last v = COLON"
  by (simp_all add: js_def startsWith_def sliceFrom_def endsWith_one)

lemma key_text [line_simps]:
  "k \<noteq> [] \<Longrightarrow> hd (k @ [COLON]) = hd k" "endsWith (k @ [COLON]) [COLON]" "strSlice (k @ [COLON]) 0 (-1) = k"
  by (simp_all add: endsWith_one)

lemma types_key_text [line_simps]:
  "startsWith (js ''types'' @ [COLON]) (js ''types:'')" "sliceFrom (js ''types'' @ [COLON]) 6 = []"
  by (simp_all add: js_def startsWith_def sliceFrom_def)

lemma inline_text [line_simps]:
  "hd (js ''types: ['' @ p @ js '']'') \<noteq> HASH" "startsWith (js ''types: ['' @ p @ js '']'') (js ''types:'')"
  "\<not> endsWith (js ''types: ['' @ p @ js '']'') [COLON]"
  "trim (sliceFrom (js ''types: ['' @ p @ js '']'') 6) = 0x5B # p @ [0x5D]"
  by (simp_all add: js_def startsWith_def sliceFrom_def endsWith_one trim_id)

lemma attr_text [line_simps]:
  "k \<noteq> [] \<Longrightarrow> hd (k @ js '': '' @ v) = hd k"
  "v \<noteq> [] \<Longrightarrow> endsWith (k @ js '': '' @ v) [COLON] \<longleftrightarrow> last v = COLON"
  by (simp_all add: endsWith_one)

lemma resolve_text [line_simps]:
  "hd (js ''resolve: '' @ v) \<noteq> HASH" "\<not> startsWith (js ''resolve: '' @ v) (js ''types:'')"
  "v \<noteq> [] \<Longrightarrow> endsWith (js ''resolve: '' @ v) [COLON] \<longleftrightarrow> last v = COLON"
  by (simp_all add: js_def startsWith_def endsWith_one)

lemma js_neq [simp]:
  "js ''attributes'' \<noteq> js ''relations''" "js ''permissions'' \<noteq> js ''relations''"
  "js ''attributes'' \<noteq> js ''permissions''" "js ''relations'' \<noteq> js ''permissions''"
  "js ''relations'' \<noteq> js ''attributes''" "js ''permissions'' \<noteq> js ''attributes''"
  by (simp_all add: js_def)

section \<open>Lines below the section level\<close>

definition deepLine :: "str \<Rightarrow> bool" where
  "deepLine l \<longleftrightarrow> (\<exists>n c. l = ind n c \<and> 4 < n \<and> solid c \<and> hd c \<noteq> HASH)"

lemma attr_deep: "wfName (fst a) \<Longrightarrow> wfName (snd a) \<Longrightarrow> deepLine (attrLine a)"
  unfolding attrLine_def deepLine_def
  by (rule exI [of _ 6], rule exI) (auto simp: solid_attr line_simps)

lemma item_deep: "wfRef v \<Longrightarrow> deepLine (itemLine 10 v)"
  unfolding itemLine_def deepLine_def
  by (rule exI [of _ 10], rule exI) (auto simp: solid_js_item line_simps)

lemma key_deep: "wfName k \<Longrightarrow> 4 < n \<Longrightarrow> deepLine (keyLine n k)"
  unfolding keyLine_def deepLine_def
  by (rule exI [of _ n], rule exI) (auto simp: solid_key line_simps)

lemma resolve_deep: "wfRef v \<Longrightarrow> deepLine (ind 8 (js ''resolve: '' @ v))"
  unfolding deepLine_def
  by (rule exI [of _ 8], rule exI) (auto simp: solid_resolve line_simps)

lemma inline_deep: "deepLine (ind 8 (js ''types: ['' @ p @ js '']''))"
  unfolding deepLine_def
  by (rule exI [of _ 8], rule exI) (auto simp: solid_inline line_simps)

lemma attrs_deep:
  "list_all (\<lambda>a. wfName (fst a) \<and> wfName (snd a)) as \<Longrightarrow>
     list_all deepLine (concat (map (\<lambda>a. [attrLine a]) as))"
  by (induction as) (auto simp: attr_deep)

lemma rels_deep:
  "list_all (\<lambda>r. wfName (dr_name r) \<and> list_all wfRef (dr_targets r)) rs \<Longrightarrow>
     list_all deepLine (concat (map relLines rs))"
  by (induction rs) (auto simp: relLines_def list_all_iff key_deep inline_deep item_deep)

lemma perms_deep:
  "list_all (\<lambda>p. wfName (fst p) \<and> wfBody (snd p)) ps \<Longrightarrow>
     list_all deepLine (concat (map permLines ps))"
proof (induction ps)
  case (Cons p ps)
  then show ?case
    by (cases "snd p") (auto simp: permLines_def list_all_iff key_deep resolve_deep item_deep)
qed simp

lemma wfDoc_sample: "wfDoc sampleDoc"
  by code_simp

end
