(* ===== verification/Tuple_Parser.thy ===== *)
theory Tuple_Parser
  imports Schema_Text
begin

text \<open>
  The schema scanner of the tuple dialog, \<^verbatim>\<open>parseSchemaTypes\<close> in \<^verbatim>\<open>create-tuple-dialog.tsx\<close>. The
  source keeps references to the type and the relation it is filling and mutates them in place;
  here \<open>ds_currentType\<close> is the index of that object in \<open>ds_result\<close> and \<open>ds_currentRelation\<close> the
  index in its \<open>st_relations\<close>, so that a mutation through the reference is an update of the
  result. The main lemma, \<open>parseSchemaTypes_renderDoc\<close>, says that the scanner recovers the types,
  relations and allowed types of every rendered document.
\<close>

section \<open>Data\<close>

record schemaRelation =
  sr_name :: str
  sr_allowedTypes :: "str list"

record schemaTypeInfo =
  st_name :: str
  st_relations :: "schemaRelation list"

record dscan =
  ds_result :: "schemaTypeInfo list"
  ds_inTypesSection :: bool
  ds_currentType :: "nat option"
  ds_currentSection :: sect
  ds_currentRelation :: "nat option"
  ds_collectingTypesList :: bool

section \<open>The scanner\<close>

definition dscan_init :: dscan where
  "dscan_init = \<lparr>ds_result = [], ds_inTypesSection = False, ds_currentType = None,
     ds_currentSection = SecNull, ds_currentRelation = None, ds_collectingTypesList = False\<rparr>"

text \<open>\<^verbatim>\<open>currentRelation.allowedTypes.push(...items)\<close> through the two references.\<close>

definition pushAllowedTypes :: "nat \<Rightarrow> nat \<Rightarrow> str list \<Rightarrow> schemaTypeInfo list \<Rightarrow> schemaTypeInfo list" where
  "pushAllowedTypes i j items ts =
     ts[i := (ts ! i)\<lparr>st_relations := (st_relations (ts ! i))[j := (st_relations (ts ! i) ! j)
        \<lparr>sr_allowedTypes := sr_allowedTypes (st_relations (ts ! i) ! j) @ items\<rparr>]\<rparr>]"

definition parseSchemaTypesLine :: "nat \<Rightarrow> str \<Rightarrow> dscan \<Rightarrow> dscan" where
  "parseSchemaTypesLine indent line s =
     (if indent = 0 then
        s\<lparr>ds_inTypesSection := (line = js ''types:''), ds_currentType := None,
          ds_currentSection := SecNull, ds_currentRelation := None, ds_collectingTypesList := False\<rparr>
      else if \<not> ds_inTypesSection s then s
      else if indent = 2 \<and> endsWith line [COLON] then
        (let typeName = trim (strSlice line 0 (-1)) in
         if \<not> truthy typeName then s
         else s\<lparr>ds_result := ds_result s @ [\<lparr>st_name = typeName, st_relations = []\<rparr>],
                ds_currentType := Some (length (ds_result s)), ds_currentSection := SecNull,
                ds_currentRelation := None, ds_collectingTypesList := False\<rparr>)
      else (case ds_currentType s of None \<Rightarrow> s | Some i \<Rightarrow>
        if indent = 4 \<and> endsWith line [COLON] then
          s\<lparr>ds_currentSection :=
              (if trim (strSlice line 0 (-1)) = js ''relations'' then SecRelations else SecNull),
            ds_currentRelation := None, ds_collectingTypesList := False\<rparr>
        else if ds_currentSection s \<noteq> SecRelations then s
        else if indent = 6 \<and> endsWith line [COLON] then
          (let t = ds_result s ! i;
               r = \<lparr>sr_name = trim (strSlice line 0 (-1)), sr_allowedTypes = []\<rparr>
           in s\<lparr>ds_result := (ds_result s)[i := t\<lparr>st_relations := st_relations t @ [r]\<rparr>],
                ds_currentRelation := Some (length (st_relations t)),
                ds_collectingTypesList := False\<rparr>)
        else (case ds_currentRelation s of None \<Rightarrow> s | Some j \<Rightarrow>
          if indent = 8 \<and> startsWith line (js ''types:'') then
            (let rawTypes = trim (sliceFrom line 6) in
             if truthy rawTypes
             then s\<lparr>ds_result := pushAllowedTypes i j (parseInlineList rawTypes) (ds_result s),
                    ds_collectingTypesList := False\<rparr>
             else s\<lparr>ds_collectingTypesList := True\<rparr>)
          else if ds_collectingTypesList s \<and> 10 \<le> indent \<and> startsWith line [0x2D] then
            (let item = trim (sliceFrom line 1) in
             if truthy item
             then s\<lparr>ds_result := pushAllowedTypes i j [stripQuotes item] (ds_result s)\<rparr>
             else s)
          else if indent \<le> 8 then s\<lparr>ds_collectingTypesList := False\<rparr>
          else s)))"

definition dscanLine :: "str \<Rightarrow> dscan \<Rightarrow> dscan" where
  "dscanLine rawLine s =
     (if skipLine rawLine then s else parseSchemaTypesLine (lineIndent rawLine) (trim rawLine) s)"

definition parseSchemaTypes :: "str \<Rightarrow> schemaTypeInfo list" where
  "parseSchemaTypes source = ds_result (fold dscanLine (split NL source) dscan_init)"

section \<open>What a document says\<close>

definition docRelInfo :: "docRel \<Rightarrow> schemaRelation" where
  "docRelInfo r = \<lparr>sr_name = dr_name r, sr_allowedTypes = dr_targets r\<rparr>"

definition docTypeInfo :: "docType \<Rightarrow> schemaTypeInfo" where
  "docTypeInfo t = \<lparr>st_name = dt_name t, st_relations = map docRelInfo (dt_rels t)\<rparr>"

section \<open>Scanning rendered lines\<close>

lemma dscanLine_ind [line_simps]:
  "solid c \<Longrightarrow> hd c \<noteq> HASH \<Longrightarrow> dscanLine (ind n c) s = parseSchemaTypesLine n c s"
  by (simp add: dscanLine_def line_simps)

lemma dscanLine_key [line_simps]:
  "wfName k \<Longrightarrow> dscanLine (keyLine n k) s = parseSchemaTypesLine n (k @ [COLON]) s"
  by (simp add: keyLine_def dscanLine_ind solid_key)

lemma dscanLine_item [line_simps]:
  "wfRef v \<Longrightarrow> dscanLine (itemLine n v) s = parseSchemaTypesLine n (js ''- '' @ v) s"
  by (simp add: itemLine_def dscanLine_ind solid_js_item line_simps)

text \<open>
  The scanner inside a type: the types before it are finished, the current one is the last of the
  result. \<open>inSection\<close> adds the section, \<open>inTargets\<close> the relation whose block list is open.
\<close>

definition inType :: "schemaTypeInfo list \<Rightarrow> schemaTypeInfo \<Rightarrow> dscan \<Rightarrow> bool" where
  "inType R T s \<longleftrightarrow> ds_inTypesSection s \<and> ds_result s = R @ [T] \<and> ds_currentType s = Some (length R)"

definition inSection :: "sect \<Rightarrow> schemaTypeInfo list \<Rightarrow> schemaTypeInfo \<Rightarrow> dscan \<Rightarrow> bool" where
  "inSection x R T s \<longleftrightarrow> inType R T s \<and> ds_currentSection s = x"

definition inTargets :: "schemaTypeInfo list \<Rightarrow> str \<Rightarrow> schemaRelation list \<Rightarrow> schemaRelation \<Rightarrow> dscan \<Rightarrow> bool" where
  "inTargets R n rs r s \<longleftrightarrow>
     inSection SecRelations R \<lparr>st_name = n, st_relations = rs @ [r]\<rparr> s \<and>
     ds_currentRelation s = Some (length rs) \<and> ds_collectingTypesList s"

lemmas dscan_states = inType_def inSection_def inTargets_def

lemma dscan_type_key:
  "wfName n \<Longrightarrow> ds_inTypesSection s \<Longrightarrow>
     inSection SecNull (ds_result s) \<lparr>st_name = n, st_relations = []\<rparr> (dscanLine (keyLine 2 n) s)"
  by (simp add: line_simps parseSchemaTypesLine_def dscan_states)

lemma dscan_section_key:
  "wfName (js k) \<Longrightarrow> inType R T s \<Longrightarrow>
     inSection (if js k = js ''relations'' then SecRelations else SecNull) R T (dscanLine (keyLine 4 (js k)) s)"
  by (simp add: line_simps parseSchemaTypesLine_def dscan_states)

lemma dscan_null:
  "inSection SecNull R T s \<Longrightarrow> n \<noteq> 0 \<Longrightarrow> n \<noteq> 2 \<Longrightarrow> n \<noteq> 4 \<Longrightarrow> solid c \<Longrightarrow> hd c \<noteq> HASH \<Longrightarrow>
     dscanLine (ind n c) s = s"
  by (simp add: line_simps parseSchemaTypesLine_def dscan_states)

lemma dscan_block_item:
  "wfRef v \<Longrightarrow> inTargets R n rs r s \<Longrightarrow>
     inTargets R n rs (r\<lparr>sr_allowedTypes := sr_allowedTypes r @ [v]\<rparr>) (dscanLine (itemLine 10 v) s)"
  by (simp add: line_simps parseSchemaTypesLine_def dscan_states pushAllowedTypes_def)

lemma dscan_block_items:
  "list_all wfRef vs \<Longrightarrow> inTargets R n rs r s \<Longrightarrow>
     inTargets R n rs (r\<lparr>sr_allowedTypes := sr_allowedTypes r @ vs\<rparr>) (fold dscanLine (map (itemLine 10) vs) s)"
proof (induction vs arbitrary: r s)
  case (Cons v vs)
  then show ?case using Cons.IH [OF _ dscan_block_item [of v R n rs r s]] by simp
qed simp

lemma dscan_rel_key:
  assumes "wfName k" "inSection SecRelations R \<lparr>st_name = n, st_relations = rs\<rparr> s"
  shows "inSection SecRelations R \<lparr>st_name = n, st_relations = rs @ [\<lparr>sr_name = k, sr_allowedTypes = []\<rparr>]\<rparr>
           (dscanLine (keyLine 6 k) s) \<and>
         ds_currentRelation (dscanLine (keyLine 6 k) s) = Some (length rs)"
  using assms by (simp add: line_simps parseSchemaTypesLine_def dscan_states)

lemma dscan_relLines:
  assumes "wfName (dr_name r)" "list_all wfRef (dr_targets r)"
    and "inSection SecRelations R \<lparr>st_name = n, st_relations = rs\<rparr> s"
  shows "inSection SecRelations R \<lparr>st_name = n, st_relations = rs @ [docRelInfo r]\<rparr>
           (fold dscanLine (relLines r) s)"
proof (cases "dr_block r")
  case True
  let ?s = "dscanLine (keyLine 8 (js ''types'')) (dscanLine (keyLine 6 (dr_name r)) s)"
  have "inTargets R n rs \<lparr>sr_name = dr_name r, sr_allowedTypes = []\<rparr> ?s"
    using dscan_rel_key [OF assms(1,3)]
    by (simp add: line_simps parseSchemaTypesLine_def dscan_states)
  from dscan_block_items [OF assms(2) this] True show ?thesis
    by (simp add: relLines_def docRelInfo_def inTargets_def)
next
  case False
  with dscan_rel_key [OF assms(1,3)] show ?thesis
    by (simp add: relLines_def docRelInfo_def line_simps solid_inline parseSchemaTypesLine_def
        dscan_states pushAllowedTypes_def parseInlineList_brackets [OF assms(2)])
qed

lemma dscan_rels:
  "list_all (\<lambda>r. wfName (dr_name r) \<and> list_all wfRef (dr_targets r)) ds \<Longrightarrow>
   inSection SecRelations R \<lparr>st_name = n, st_relations = rs\<rparr> s \<Longrightarrow>
   inSection SecRelations R \<lparr>st_name = n, st_relations = rs @ map docRelInfo ds\<rparr>
     (fold dscanLine (concat (map relLines ds)) s)"
proof (induction ds arbitrary: rs s)
  case (Cons d ds)
  then show ?case using Cons.IH [of "rs @ [docRelInfo d]"] by (simp add: dscan_relLines)
qed simp

text \<open>Lines below the section level leave the scanner alone when the section is not \<^verbatim>\<open>relations\<close>.\<close>

lemma dscan_null_lines:
  "list_all deepLine ls \<Longrightarrow>
     inSection SecNull R T s \<Longrightarrow> fold dscanLine ls s = s"
  by (induction ls) (auto simp: dscan_null deepLine_def)

lemma dscan_typeLines:
  assumes "wfType t" "ds_inTypesSection s"
  shows "\<exists>T. inType (ds_result s) T (fold dscanLine (typeLines t) s) \<and> T = docTypeInfo t"
proof -
  let ?T = "\<lparr>st_name = dt_name t, st_relations = []\<rparr>" and ?R = "ds_result s"
  define s1 where "s1 = dscanLine (keyLine 2 (dt_name t)) s"
  define s2 where "s2 = fold dscanLine (sectionLines ''attributes'' (map (\<lambda>a. [attrLine a]) (dt_attrs t))) s1"
  define s3 where "s3 = fold dscanLine (sectionLines ''relations'' (map relLines (dt_rels t))) s2"
  define s4 where "s4 = fold dscanLine (sectionLines ''permissions'' (map permLines (dt_perms t))) s3"
  have s1: "inSection SecNull ?R ?T s1"
    using assms by (simp add: s1_def dscan_type_key wfType_def)
  have "list_all deepLine
      (concat (map (\<lambda>a. [attrLine a]) (dt_attrs t)))"
    using assms(1) by (intro attrs_deep) (simp add: wfType_def)
  from dscan_null_lines [OF this] s1 have s2: "inType ?R ?T s2"
    using dscan_section_key [of "''attributes''" ?R ?T s1]
    by (auto simp: s2_def sectionLines_def inSection_def)
  have s3: "inType ?R (docTypeInfo t) s3"
    using s2 dscan_section_key [of "''relations''" ?R ?T s2] assms(1)
      dscan_rels [of "dt_rels t" ?R "dt_name t" "[]" "dscanLine (keyLine 4 (js ''relations'')) s2"]
    by (auto simp: s3_def sectionLines_def inSection_def wfType_def docTypeInfo_def)
  have "list_all (\<lambda>p. wfName (fst p) \<and> wfBody (snd p)) (dt_perms t)"
    using assms(1) by (simp add: wfType_def)
  from dscan_null_lines [OF perms_deep [OF this]] s3 have "inType ?R (docTypeInfo t) s4"
    using dscan_section_key [of "''permissions''" ?R "docTypeInfo t" s3]
    by (auto simp: s4_def sectionLines_def inSection_def)
  then show ?thesis by (simp add: typeLines_def s1_def s2_def s3_def s4_def)
qed

lemma dscan_types:
  "list_all wfType d \<Longrightarrow> ds_inTypesSection s \<Longrightarrow>
     ds_result (fold dscanLine (concat (map typeLines d)) s) = ds_result s @ map docTypeInfo d"
proof (induction d arbitrary: s)
  case (Cons t d)
  then show ?case using dscan_typeLines [of t s] by (auto simp: inType_def)
qed simp

lemma parseSchemaTypes_renderDoc:
  assumes "wfDoc d"
  shows "parseSchemaTypes (renderDoc d) = map docTypeInfo d"
proof -
  have v: "dscanLine (js ''version: \"1.0\"'') dscan_init = dscan_init" by code_simp
  have t: "dscanLine (js ''types:'') dscan_init = dscan_init\<lparr>ds_inTypesSection := True\<rparr>" by code_simp
  have "dscanLine [] s = s" for s by (simp add: dscanLine_def skipLine_def)
  with assms v t show ?thesis
    using dscan_types [of d "dscan_init\<lparr>ds_inTypesSection := True\<rparr>"]
    by (simp add: parseSchemaTypes_def split_renderDoc docLines_def wfDoc_def dscan_init_def)
qed

section \<open>Type names\<close>

text \<open>Updating a type in place keeps its name, so a line adds a name or leaves the names as they are.\<close>

lemma map_update_same: "f x = f (xs ! i) \<Longrightarrow> map f (xs[i := x]) = map f xs"
  by (metis list_update_id map_update)

lemma dscanLine_names:
  "map st_name (ds_result (dscanLine l s)) = map st_name (ds_result s) \<or>
     (\<exists>n. n \<noteq> [] \<and> map st_name (ds_result (dscanLine l s)) = map st_name (ds_result s) @ [n])"
  by (auto simp: dscanLine_def parseSchemaTypesLine_def Let_def map_update_same pushAllowedTypes_def
      split: option.splits)

lemma parseSchemaTypes_names_nonempty: "t \<in> set (parseSchemaTypes source) \<Longrightarrow> st_name t \<noteq> []"
proof -
  have "[] \<notin> st_name ` set (ds_result s) \<Longrightarrow> [] \<notin> st_name ` set (ds_result (fold dscanLine ls s))" for ls s
  proof (induction ls arbitrary: s)
    case (Cons l ls)
    have "[] \<notin> set (map st_name (ds_result (dscanLine l s)))"
      using dscanLine_names [of l s] Cons.prems by (elim disjE exE conjE) (simp_all only: set_map set_append, auto)
    then show ?case using Cons.IH [of "dscanLine l s"] by simp
  qed simp
  from this [of dscan_init "split NL source"] show "t \<in> set (parseSchemaTypes source) \<Longrightarrow> st_name t \<noteq> []"
    by (force simp: parseSchemaTypes_def dscan_init_def)
qed

end
