(* ===== verification/Tuple_Dialog.thy ===== *)
theory Tuple_Dialog
  imports Ui Tuple_Parser
begin

text \<open>
  The dialog that creates a relation tuple, \<^verbatim>\<open>CreateTupleDialog\<close> in \<^verbatim>\<open>create-tuple-dialog.tsx\<close>. The
  source of the schema is \<open>None\<close> until the query has answered. The state is the form, whether the
  dialog is open, the fields of the mutation (\<^verbatim>\<open>isPending\<close>, the variables of the last call) and the
  notifications raised so far.
\<close>

record tupleForm =
  fm_object_type :: str
  fm_object_id :: str
  fm_relation :: str
  fm_subject_type :: str
  fm_subject_id :: str
  fm_subject_relation :: str

record dialog =
  dg_open :: bool
  dg_form :: tupleForm
  dg_pending :: bool
  dg_variables :: "tupleRequest option"
  dg_toasts :: "toast list"

definition emptyForm :: tupleForm where
  "emptyForm = \<lparr>fm_object_type = [], fm_object_id = [], fm_relation = [], fm_subject_type = [], fm_subject_id = [],
     fm_subject_relation = []\<rparr>"

definition dialog_init :: dialog where
  "dialog_init = \<lparr>dg_open = False, dg_form = emptyForm, dg_pending = False, dg_variables = None, dg_toasts = []\<rparr>"

section \<open>What the schema offers\<close>

definition schemaTypes :: "str option \<Rightarrow> schemaTypeInfo list" where
  "schemaTypes src = (case src of None \<Rightarrow> [] | Some s \<Rightarrow> if truthy s then parseSchemaTypes s else [])"

definition dialogTypeNames :: "str option \<Rightarrow> str list" where
  "dialogTypeNames src = map st_name (schemaTypes src)"

definition relationsOf :: "str option \<Rightarrow> str \<Rightarrow> schemaRelation list" where
  "relationsOf src v = (case find (\<lambda>t. st_name t = v) (schemaTypes src) of None \<Rightarrow> [] | Some t \<Rightarrow> st_relations t)"

definition relationsForType :: "str option \<Rightarrow> tupleForm \<Rightarrow> schemaRelation list" where
  "relationsForType src f = (if \<not> truthy (fm_object_type f) then [] else relationsOf src (fm_object_type f))"

text \<open>\<^verbatim>\<open>[...new Set(allowedTypes.map((t) => t.split("#")[0]).filter(Boolean))]\<close>\<close>

definition baseTypes :: "str list \<Rightarrow> str list" where
  "baseTypes ts = nubFirst (filter (\<lambda>t. truthy t) (map (\<lambda>t. hd (split HASH t)) ts))"

definition allowedFor :: "str option \<Rightarrow> schemaRelation option \<Rightarrow> str list" where
  "allowedFor src rel =
     (case rel of Some r \<Rightarrow> if length (sr_allowedTypes r) > 0 then baseTypes (sr_allowedTypes r) else dialogTypeNames src
      | None \<Rightarrow> dialogTypeNames src)"

definition subjectTypesForRelation :: "str option \<Rightarrow> tupleForm \<Rightarrow> str list" where
  "subjectTypesForRelation src f =
     allowedFor src (find (\<lambda>r. sr_name r = fm_relation f) (relationsForType src f))"

section \<open>Handlers\<close>

datatype formField = FObjectType | FObjectId | FRelation | FSubjectType | FSubjectId | FSubjectRelation

fun setField :: "formField \<Rightarrow> str \<Rightarrow> tupleForm \<Rightarrow> tupleForm" where
  "setField FObjectType v f = f\<lparr>fm_object_type := v\<rparr>"
| "setField FObjectId v f = f\<lparr>fm_object_id := v\<rparr>"
| "setField FRelation v f = f\<lparr>fm_relation := v\<rparr>"
| "setField FSubjectType v f = f\<lparr>fm_subject_type := v\<rparr>"
| "setField FSubjectId v f = f\<lparr>fm_subject_id := v\<rparr>"
| "setField FSubjectRelation v f = f\<lparr>fm_subject_relation := v\<rparr>"

definition updateField :: "formField \<Rightarrow> str \<Rightarrow> dialog \<Rightarrow> dialog" where
  "updateField k v s = s\<lparr>dg_form := setField k v (dg_form s)\<rparr>"

definition selectObjectType :: "str option \<Rightarrow> str \<Rightarrow> dialog \<Rightarrow> dialog" where
  "selectObjectType src v s =
     (let rels = relationsOf src v;
          autoRel = (if length rels = 1 then Some (rels ! 0) else None);
          allowed = (case autoRel of None \<Rightarrow> [] | Some r \<Rightarrow> allowedFor src (Some r))
      in s\<lparr>dg_form := (dg_form s)\<lparr>fm_object_type := v,
             fm_relation := (case autoRel of Some r \<Rightarrow> sr_name r | None \<Rightarrow> []),
             fm_subject_type := (if length allowed = 1 then allowed ! 0 else [])\<rparr>\<rparr>)"

definition selectRelation :: "str option \<Rightarrow> str \<Rightarrow> dialog \<Rightarrow> dialog" where
  "selectRelation src v s =
     (let rel = find (\<lambda>r. sr_name r = v) (relationsForType src (dg_form s));
          allowed = allowedFor src rel
      in s\<lparr>dg_form := (dg_form s)\<lparr>fm_relation := v,
             fm_subject_type := (if length allowed = 1 then allowed ! 0 else [])\<rparr>\<rparr>)"

definition setOpen :: "bool \<Rightarrow> dialog \<Rightarrow> dialog" where
  "setOpen b s = s\<lparr>dg_open := b\<rparr>"

definition formRequest :: "tupleForm \<Rightarrow> tupleRequest" where
  "formRequest f = \<lparr>tq_object_type = fm_object_type f, tq_object_id = fm_object_id f, tq_relation = fm_relation f,
     tq_subject_type = fm_subject_type f, tq_subject_id = fm_subject_id f,
     tq_subject_relation = (if truthy (fm_subject_relation f) then Some (fm_subject_relation f) else None),
     tq_attributes = None\<rparr>"

text \<open>\<^verbatim>\<open>handleSubmit\<close> up to its \<^verbatim>\<open>await\<close>, and from the settled promise on.\<close>

definition handleSubmit :: "dialog \<Rightarrow> dialog" where
  "handleSubmit s = s\<lparr>dg_pending := True, dg_variables := Some (formRequest (dg_form s))\<rparr>"

definition handleSubmitSettled :: "clientError + unit \<Rightarrow> dialog \<Rightarrow> dialog" where
  "handleSubmitSettled r s =
     (case r of
        Inr _ \<Rightarrow> s\<lparr>dg_pending := False, dg_toasts := dg_toasts s @ [ToastSuccess (js ''Tuple created'')],
                   dg_open := False, dg_form := emptyForm\<rparr>
      | Inl e \<Rightarrow> s\<lparr>dg_pending := False,
                   dg_toasts := dg_toasts s @ [ToastError (errorText e ''Failed to create tuple'')]\<rparr>)"

definition formValid :: "tupleForm \<Rightarrow> bool" where
  "formValid f \<longleftrightarrow> truthy (fm_object_type f) \<and> truthy (fm_object_id f) \<and> truthy (fm_relation f) \<and>
     truthy (fm_subject_type f) \<and> truthy (fm_subject_id f)"

section \<open>What is rendered\<close>

definition dialogView :: "str option \<Rightarrow> dialog \<Rightarrow> view" where
  "dialogView src s =
     (let f = dg_form s; names = dialogTypeNames src; hasSchema = (length names > 0);
          rels = relationsForType src f; subs = subjectTypesForRelation src f in
      (js ''Create Tuple'', PushButton False) #
      (if \<not> dg_open s then [] else
        [(js ''Object Type'', if hasSchema then SelectBox (fm_object_type f) names
            else TextInput (js ''document'') (fm_object_type f) False),
         (js ''Object ID'', TextInput (js ''doc_1'') (fm_object_id f) False),
         (js ''Relation'', if length rels > 0 then SelectBox (fm_relation f) (map sr_name rels)
            else TextInput (js ''viewer'') (fm_relation f) (hasSchema \<and> \<not> truthy (fm_object_type f))),
         (js ''Subject Type'', if length subs > 0 then SelectBox (fm_subject_type f) subs
            else TextInput (js ''user'') (fm_subject_type f) False),
         (js ''Subject ID'', TextInput (js ''alice'') (fm_subject_id f) False),
         (js ''Subject Relation'', TextInput (js ''member'') (fm_subject_relation f) False),
         (js ''Create'', PushButton (\<not> formValid f \<or> dg_pending s))]))"

inductive dialogStep :: "str option \<Rightarrow> dialog \<Rightarrow> dialog \<Rightarrow> bool" for src where
  openClose: "dialogStep src s (setOpen b s)"
| chooseType: "canSelect (dialogView src s) (js ''Object Type'') v \<Longrightarrow> dialogStep src s (selectObjectType src v s)"
| enterType: "canType (dialogView src s) (js ''Object Type'') \<Longrightarrow> dialogStep src s (updateField FObjectType v s)"
| enterId: "canType (dialogView src s) (js ''Object ID'') \<Longrightarrow> dialogStep src s (updateField FObjectId v s)"
| chooseRelation: "canSelect (dialogView src s) (js ''Relation'') v \<Longrightarrow> dialogStep src s (selectRelation src v s)"
| enterRelation: "canType (dialogView src s) (js ''Relation'') \<Longrightarrow> dialogStep src s (updateField FRelation v s)"
| chooseSubject: "canSelect (dialogView src s) (js ''Subject Type'') v \<Longrightarrow> dialogStep src s (updateField FSubjectType v s)"
| enterSubject: "canType (dialogView src s) (js ''Subject Type'') \<Longrightarrow> dialogStep src s (updateField FSubjectType v s)"
| enterSubjectId: "canType (dialogView src s) (js ''Subject ID'') \<Longrightarrow> dialogStep src s (updateField FSubjectId v s)"
| enterSubjectRelation: "canType (dialogView src s) (js ''Subject Relation'') \<Longrightarrow>
    dialogStep src s (updateField FSubjectRelation v s)"
| submit: "canPress (dialogView src s) (js ''Create'') \<Longrightarrow> dialogStep src s (handleSubmit s)"
| settled: "dg_pending s \<Longrightarrow> dialogStep src s (handleSubmitSettled r s)"

inductive dialogReachable :: "str option \<Rightarrow> dialog \<Rightarrow> bool" for src where
  start: "dialogReachable src dialog_init"
| step: "dialogReachable src s \<Longrightarrow> dialogStep src s t \<Longrightarrow> dialogReachable src t"

section \<open>The invariant of the form\<close>

lemma dialogView_can:
  fixes src s
  defines "V \<equiv> dialogView src s" and "f \<equiv> dg_form s"
  shows "canSelect V (js ''Object Type'') v \<longleftrightarrow> dg_open s \<and> v \<in> set (dialogTypeNames src)"
    "canType V (js ''Object Type'') \<longleftrightarrow> dg_open s \<and> dialogTypeNames src = []"
    "canType V (js ''Object ID'') \<longleftrightarrow> dg_open s"
    "canSelect V (js ''Relation'') v \<longleftrightarrow> dg_open s \<and> v \<in> sr_name ` set (relationsForType src f)"
    "canType V (js ''Relation'') \<longleftrightarrow> dg_open s \<and> relationsForType src f = [] \<and>
       (dialogTypeNames src = [] \<or> fm_object_type f \<noteq> [])"
    "canSelect V (js ''Subject Type'') v \<longleftrightarrow> dg_open s \<and> v \<in> set (subjectTypesForRelation src f)"
    "canType V (js ''Subject Type'') \<longleftrightarrow> dg_open s \<and> subjectTypesForRelation src f = []"
    "canType V (js ''Subject ID'') \<longleftrightarrow> dg_open s"
    "canType V (js ''Subject Relation'') \<longleftrightarrow> dg_open s"
    "canPress V (js ''Create'') \<longleftrightarrow> dg_open s \<and> formValid f \<and> \<not> dg_pending s"
  by (auto simp: V_def f_def dialogView_def can_defs Let_def js_def)

definition formOk :: "str option \<Rightarrow> tupleForm \<Rightarrow> bool" where
  "formOk src f \<longleftrightarrow> dialogTypeNames src \<noteq> [] \<longrightarrow>
     (fm_object_type f = [] \<or> fm_object_type f \<in> set (dialogTypeNames src)) \<and>
     (fm_relation f = [] \<or> relationsForType src f = [] \<or> fm_relation f \<in> sr_name ` set (relationsForType src f)) \<and>
     (fm_subject_type f = [] \<or> subjectTypesForRelation src f = [] \<or>
        fm_subject_type f \<in> set (subjectTypesForRelation src f))"

lemma single_in: "length xs = Suc 0 \<Longrightarrow> xs ! 0 \<in> set xs"
  by (cases xs) auto

lemma formOk_selectRelation:
  assumes "formOk src (dg_form s)" "v \<in> sr_name ` set (relationsForType src (dg_form s))"
  shows "formOk src (dg_form (selectRelation src v s))"
proof -
  have "relationsForType src (dg_form (selectRelation src v s)) = relationsForType src (dg_form s)"
    by (simp add: selectRelation_def relationsForType_def Let_def)
  with assms show ?thesis
    by (auto simp: formOk_def selectRelation_def subjectTypesForRelation_def Let_def single_in)
qed

lemma formOk_selectObjectType:
  assumes "v \<in> set (dialogTypeNames src)" "v \<noteq> []"
  shows "formOk src (dg_form (selectObjectType src v s))"
proof -
  let ?f = "dg_form (selectObjectType src v s)" and ?rels = "relationsOf src v"
  have rels: "relationsForType src ?f = ?rels"
    using assms(2) by (simp add: selectObjectType_def relationsForType_def Let_def)
  show ?thesis
  proof (cases "length ?rels = 1")
    case True
    then obtain r where r: "?rels = [r]" by (cases ?rels) auto
    show ?thesis using assms
      by (simp add: formOk_def rels subjectTypesForRelation_def)
        (simp add: selectObjectType_def r Let_def single_in)
  next
    case False
    with assms show ?thesis by (simp add: formOk_def rels) (simp add: selectObjectType_def Let_def)
  qed
qed

lemma dialogTypeNames_nonempty: "v \<in> set (dialogTypeNames src) \<Longrightarrow> v \<noteq> []"
  using parseSchemaTypes_names_nonempty by (auto simp: dialogTypeNames_def schemaTypes_def split: option.splits if_splits)

lemma formOk_step:
  assumes "dialogStep src s t" "formOk src (dg_form s)"
  shows "formOk src (dg_form t)"
  using assms(1)
proof (cases rule: dialogStep.cases)
  case (chooseType v)
  then show ?thesis by (auto simp: dialogView_can intro!: formOk_selectObjectType dest: dialogTypeNames_nonempty)
next
  case (chooseRelation v)
  then show ?thesis using assms(2) by (simp add: dialogView_can formOk_selectRelation)
next
  case (settled r)
  then show ?thesis using assms(2) by (cases r) (auto simp: handleSubmitSettled_def formOk_def emptyForm_def)
qed (use assms(2) in \<open>auto simp: dialogView_can formOk_def updateField_def setOpen_def handleSubmit_def
       relationsForType_def subjectTypesForRelation_def\<close>)

lemma formOk_reachable: "dialogReachable src s \<Longrightarrow> formOk src (dg_form s)"
  by (induction rule: dialogReachable.induct)
    (auto simp: formOk_step, simp add: formOk_def dialog_init_def emptyForm_def)

section \<open>The dialog on a document\<close>

text \<open>
  What a document says of a tuple: the object's type declares the relation and lists the subject's
  type for it (up to the \<^verbatim>\<open>#relation\<close> of the entry); a type without relations, and a relation
  without types, allow every declared type.
\<close>

definition declaredTuple :: "docType list \<Rightarrow> tupleRequest \<Rightarrow> bool" where
  "declaredTuple d q \<longleftrightarrow> (\<exists>t \<in> set d. dt_name t = tq_object_type q \<and>
     (if dt_rels t = [] then tq_subject_type q \<in> dt_name ` set d
      else \<exists>r \<in> set (dt_rels t). dr_name r = tq_relation q \<and>
        (if dr_targets r = [] then tq_subject_type q \<in> dt_name ` set d
         else baseTypes (dr_targets r) = [] \<or> tq_subject_type q \<in> set (baseTypes (dr_targets r)))))"

lemma renderDoc_truthy: "renderDoc d \<noteq> []"
  by (simp add: renderDoc_def docLines_def js_def)

lemma schemaTypes_renderDoc: "wfDoc d \<Longrightarrow> schemaTypes (Some (renderDoc d)) = map docTypeInfo d"
  by (simp add: schemaTypes_def renderDoc_truthy parseSchemaTypes_renderDoc)

lemma dialogTypeNames_renderDoc: "wfDoc d \<Longrightarrow> dialogTypeNames (Some (renderDoc d)) = map dt_name d"
  by (simp add: dialogTypeNames_def schemaTypes_renderDoc docTypeInfo_def)

lemma relationsOf_renderDoc:
  "wfDoc d \<Longrightarrow> relationsOf (Some (renderDoc d)) v =
     (case find (\<lambda>t. dt_name t = v) d of None \<Rightarrow> [] | Some t \<Rightarrow> map docRelInfo (dt_rels t))"
  by (simp add: relationsOf_def schemaTypes_renderDoc find_map docTypeInfo_def split: option.splits)

lemma formOk_declared:
  assumes "wfDoc d" "d \<noteq> []" "formOk (Some (renderDoc d)) f" "formValid f"
  shows "declaredTuple d (formRequest f)"
proof -
  let ?src = "Some (renderDoc d)"
  note names = dialogTypeNames_renderDoc [OF assms(1)]
  have v: "fm_object_type f \<noteq> []" "fm_relation f \<noteq> []" "fm_subject_type f \<noteq> []"
    using assms(4) by (auto simp: formValid_def)
  have ok: "fm_object_type f \<in> dt_name ` set d"
    "relationsForType ?src f = [] \<or> fm_relation f \<in> sr_name ` set (relationsForType ?src f)"
    "subjectTypesForRelation ?src f = [] \<or> fm_subject_type f \<in> set (subjectTypesForRelation ?src f)"
    using assms(2,3) v by (auto simp: formOk_def names)
  obtain t where t: "find (\<lambda>t. dt_name t = fm_object_type f) d = Some t"
    using ok(1) find_name [of "fm_object_type f" dt_name d] by auto
  have tin: "t \<in> set d" "dt_name t = fm_object_type f" using find_Some_D [OF t] by auto
  have rels: "relationsForType ?src f = map docRelInfo (dt_rels t)"
    using v by (simp add: relationsForType_def relationsOf_renderDoc [OF assms(1)] t)
  show ?thesis
  proof (cases "dt_rels t = []")
    case True
    then have "subjectTypesForRelation ?src f = map dt_name d"
      by (simp add: subjectTypesForRelation_def rels allowedFor_def names)
    with ok(3) assms(2) True tin show ?thesis by (auto simp: declaredTuple_def formRequest_def)
  next
    case False
    with ok(2) rels have "fm_relation f \<in> dr_name ` set (dt_rels t)" by (auto simp: docRelInfo_def)
    then obtain r where r: "find (\<lambda>r. dr_name r = fm_relation f) (dt_rels t) = Some r"
      using find_name [of "fm_relation f" dr_name "dt_rels t"] by auto
    have "subjectTypesForRelation ?src f = (if dr_targets r = [] then map dt_name d else baseTypes (dr_targets r))"
      using r by (simp add: subjectTypesForRelation_def rels allowedFor_def names find_map docRelInfo_def)
    with ok(3) assms(2) False tin find_Some_D [OF r] show ?thesis
      by (auto simp: declaredTuple_def formRequest_def split: if_splits)
  qed
qed

text \<open>A run on the sample document: the object's type has one choice of relation, the rest is typed.\<close>

definition completed :: dialog where
  "completed = updateField FSubjectId (js ''alice'') (updateField FObjectId (js ''f1'')
     (updateField FSubjectType (js ''group'')
       (selectObjectType (Some (renderDoc sampleDoc)) (js ''folder'') (setOpen True dialog_init))))"

lemma sample_folder:
  "relationsOf (Some (renderDoc sampleDoc)) (js ''folder'') =
     [\<lparr>sr_name = js ''viewer'', sr_allowedTypes = [js ''user'', js ''group#member'']\<rparr>]"
  by (simp add: relationsOf_renderDoc wfDoc_sample) (simp add: sampleDoc_def docRelInfo_def js_def)

lemma completed_eq:
  "completed = \<lparr>dg_open = True, dg_form = \<lparr>fm_object_type = js ''folder'', fm_object_id = js ''f1'',
     fm_relation = js ''viewer'', fm_subject_type = js ''group'', fm_subject_id = js ''alice'', fm_subject_relation = []\<rparr>,
     dg_pending = False, dg_variables = None, dg_toasts = []\<rparr>"
  by (simp add: completed_def selectObjectType_def sample_folder updateField_def setOpen_def dialog_init_def emptyForm_def Let_def)

lemma reach_completed: "dialogReachable (Some (renderDoc sampleDoc)) completed"
proof -
  let ?src = "Some (renderDoc sampleDoc)" and ?t = "selectObjectType (Some (renderDoc sampleDoc)) (js ''folder'') (setOpen True dialog_init)"
  have o: "dg_open ?t" by (simp add: selectObjectType_def setOpen_def Let_def)
  have n: "js ''folder'' \<in> set (dialogTypeNames ?src)"
    by (simp add: dialogTypeNames_renderDoc wfDoc_sample) (simp add: sampleDoc_def)
  have t: "dialogReachable ?src ?t"
    by (intro dialogReachable.step [OF _ dialogStep.chooseType] dialogReachable.step [OF _ dialogStep.openClose]
      dialogReachable.start) (simp only: dialogView_can, simp add: setOpen_def n)
  have "js ''group'' \<in> set (subjectTypesForRelation ?src (dg_form ?t))"
    by (simp add: subjectTypesForRelation_def relationsForType_def selectObjectType_def sample_folder Let_def allowedFor_def
        baseTypes_def) (simp add: js_def)
  with o show ?thesis unfolding completed_def
    by (intro dialogReachable.step [OF _ dialogStep.enterSubjectId] dialogReachable.step [OF _ dialogStep.enterId]
      dialogReachable.step [OF _ dialogStep.chooseSubject] t; simp only: dialogView_can; simp add: updateField_def)
qed

lemma press_completed: "canPress (dialogView (Some (renderDoc sampleDoc)) completed) (js ''Create'')"
  by (simp only: dialogView_can) (simp add: completed_eq formValid_def js_def)

text \<open>Every request recorded in the state was declared when it was sent.\<close>

lemma sent_declared_step:
  assumes "dialogStep (Some (renderDoc d)) s t" "wfDoc d" "d \<noteq> []" "formOk (Some (renderDoc d)) (dg_form s)"
    "\<And>q. dg_variables s = Some q \<Longrightarrow> declaredTuple d q" "dg_variables t = Some q"
  shows "declaredTuple d q"
  using assms(1)
proof (cases rule: dialogStep.cases)
  case submit
  then show ?thesis using assms(2-6) by (auto simp: handleSubmit_def dialogView_can formOk_declared)
next
  case (settled r)
  then show ?thesis using assms(5,6) by (cases r) (auto simp: handleSubmitSettled_def)
qed (use assms(5,6) in \<open>auto simp: updateField_def setOpen_def selectObjectType_def selectRelation_def Let_def\<close>)

lemma sent_declared:
  assumes "dialogReachable (Some (renderDoc d)) s" "wfDoc d" "d \<noteq> []"
  shows "dg_variables s = Some q \<Longrightarrow> declaredTuple d q"
  using assms(1)
proof (induction arbitrary: q rule: dialogReachable.induct)
  case start
  then show ?case by (simp add: dialog_init_def)
next
  case (step s t)
  then show ?case using sent_declared_step [OF step(2) assms(2,3) formOk_reachable [OF step(1)]] by blast
qed

section \<open>Properties\<close>



text \<open>
  Choosing an object type fills in what the schema leaves no choice about: the relation
  when the type declares exactly one, and then the subject's type when that relation allows exactly
  one; otherwise it clears them. The other fields stay.
\<close>

theorem select_type_fills:
  assumes "wfDoc d" "find (\<lambda>t. dt_name t = v) d = Some t"
  shows "dg_form (selectObjectType (Some (renderDoc d)) v s) = (dg_form s)
    \<lparr>fm_object_type := v,
     fm_relation := (case dt_rels t of [r] \<Rightarrow> dr_name r | _ \<Rightarrow> []),
     fm_subject_type := (case dt_rels t of [r] \<Rightarrow>
         (case (if dr_targets r = [] then map dt_name d else baseTypes (dr_targets r)) of [b] \<Rightarrow> b | _ \<Rightarrow> []) | _ \<Rightarrow> [])\<rparr>"
  using assms
  by (auto simp: selectObjectType_def relationsOf_renderDoc allowedFor_def dialogTypeNames_renderDoc docRelInfo_def Let_def
      split: list.splits)

theorem select_type_fills_witness:
  "wfDoc sampleDoc \<and>
   fm_relation (dg_form (selectObjectType (Some (renderDoc sampleDoc)) (js ''folder'') dialog_init)) = js ''viewer''"
proof -
  have f: "find (\<lambda>t. dt_name t = js ''folder'') sampleDoc = Some (sampleDoc ! 1)"
    by (simp add: sampleDoc_def js_def)
  show ?thesis using wfDoc_sample select_type_fills [OF wfDoc_sample f, of dialog_init]
    by simp (simp add: sampleDoc_def)
qed

end
