(* ===== verification/Tuples_Page.thy ===== *)
theory Tuples_Page
  imports Tuple_Dialog
begin

text \<open>
  The tuples page: the text of a tuple (\<^verbatim>\<open>tuple-display.tsx\<close>), the filters (\<^verbatim>\<open>tuple-filters.tsx\<close>), the
  table with its confirmed deletion (\<^verbatim>\<open>tuple-table.tsx\<close>) and the page (\<^verbatim>\<open>app/tuples/page.tsx\<close>). What
  a filter means to the server is in \<open>Console_Server\<close>.
  A missing list in an answer (\<^verbatim>\<open>null\<close>) is the empty list, as \<^verbatim>\<open>data.tuples ?? []\<close> makes it.
\<close>

section \<open>The text of a tuple\<close>

abbreviation "AT_SIGN \<equiv> (0x40 :: cu)"

definition TupleDisplay :: "str \<Rightarrow> str \<Rightarrow> str \<Rightarrow> str \<Rightarrow> str \<Rightarrow> str option \<Rightarrow> str" where
  "TupleDisplay objectType objectId relation subjectType subjectId subjectRelation =
     objectType @ [COLON] @ objectId @ [HASH] @ relation @ [AT_SIGN] @ subjectType @ [COLON] @ subjectId @
     (if given subjectRelation then [HASH] @ bang subjectRelation else [])"

definition displayTuple :: "relationTuple \<Rightarrow> str" where
  "displayTuple t = TupleDisplay (rt_object_type t) (rt_object_id t) (rt_relation t) (rt_subject_type t) (rt_subject_id t)
     (rt_subject_relation t)"

section \<open>Filters\<close>

datatype filterField = FfObjectType | FfObjectId | FfRelation | FfSubjectType | FfSubjectId

definition orUndefined :: "str \<Rightarrow> str option" where
  "orUndefined v = (if truthy v then Some v else None)"

fun updateFilter :: "filterField \<Rightarrow> str \<Rightarrow> tupleFilter \<Rightarrow> tupleFilter" where
  "updateFilter FfObjectType v f = f\<lparr>tf_object_type := orUndefined v\<rparr>"
| "updateFilter FfObjectId v f = f\<lparr>tf_object_id := orUndefined v\<rparr>"
| "updateFilter FfRelation v f = f\<lparr>tf_relation := orUndefined v\<rparr>"
| "updateFilter FfSubjectType v f = f\<lparr>tf_subject_type := orUndefined v\<rparr>"
| "updateFilter FfSubjectId v f = f\<lparr>tf_subject_id := orUndefined v\<rparr>"

definition hasFilters :: "tupleFilter \<Rightarrow> bool" where
  "hasFilters f \<longleftrightarrow> list_ex given [tf_object_type f, tf_object_id f, tf_relation f, tf_subject_type f, tf_subject_id f,
     tf_subject_relation f]"

text \<open>The search button has no handler; the last button is there when a filter is set and clears all.\<close>

definition filtersView :: "tupleFilter \<Rightarrow> view" where
  "filtersView f =
     [(js ''Object Type'', TextInput (js ''e.g. document'') (orEmpty (tf_object_type f)) False),
      (js ''Object ID'', TextInput (js ''e.g. doc_1'') (orEmpty (tf_object_id f)) False),
      (js ''Relation'', TextInput (js ''e.g. viewer'') (orEmpty (tf_relation f)) False),
      (js ''Subject Type'', TextInput (js ''e.g. user'') (orEmpty (tf_subject_type f)) False),
      (js ''Subject ID'', TextInput (js ''e.g. alice'') (orEmpty (tf_subject_id f)) False),
      (js ''Search'', PushButton False)] @
     (if hasFilters f then [(js ''Clear'', PushButton False)] else [])"

section \<open>The table\<close>

record tupleTable =
  tt_deleteTarget :: "relationTuple option"
  tt_pending :: bool
  tt_variables :: "tupleRequest option"
  tt_toasts :: "toast list"

definition tupleTable_init :: tupleTable where
  "tupleTable_init = \<lparr>tt_deleteTarget = None, tt_pending = False, tt_variables = None, tt_toasts = []\<rparr>"

definition setDeleteTarget :: "relationTuple option \<Rightarrow> tupleTable \<Rightarrow> tupleTable" where
  "setDeleteTarget t s = s\<lparr>tt_deleteTarget := t\<rparr>"

definition deleteRequest :: "relationTuple \<Rightarrow> tupleRequest" where
  "deleteRequest t = \<lparr>tq_object_type = rt_object_type t, tq_object_id = rt_object_id t, tq_relation = rt_relation t,
     tq_subject_type = rt_subject_type t, tq_subject_id = rt_subject_id t, tq_subject_relation = rt_subject_relation t,
     tq_attributes = None\<rparr>"

definition handleDelete :: "tupleTable \<Rightarrow> tupleTable" where
  "handleDelete s = (case tt_deleteTarget s of None \<Rightarrow> s
     | Some t \<Rightarrow> s\<lparr>tt_pending := True, tt_variables := Some (deleteRequest t)\<rparr>)"

definition handleDeleteSettled :: "clientError + unit \<Rightarrow> tupleTable \<Rightarrow> tupleTable" where
  "handleDeleteSettled r s =
     (case r of
        Inr _ \<Rightarrow> s\<lparr>tt_pending := False, tt_toasts := tt_toasts s @ [ToastSuccess (js ''Tuple deleted'')], tt_deleteTarget := None\<rparr>
      | Inl e \<Rightarrow> s\<lparr>tt_pending := False, tt_toasts := tt_toasts s @ [ToastError (errorText e ''Failed to delete tuple'')]\<rparr>)"

datatype tableView =
    TableMessage str
  | TableRows "(str \<times> str) list" "(str \<times> bool) option"

text \<open>The rows show the tuple and its date; the dialog shows its target and whether Delete is disabled.\<close>

definition TupleTable :: "(str \<Rightarrow> str) \<Rightarrow> relationTuple list \<Rightarrow> tupleTable \<Rightarrow> tableView" where
  "TupleTable toLocaleDateString ts s =
     (if length ts = 0 then TableMessage (js ''No tuples found. Create one to get started.'')
      else TableRows (map (\<lambda>t. (displayTuple t, toLocaleDateString (rt_created_at t))) ts)
        (map_option (\<lambda>t. (displayTuple t, tt_pending s)) (tt_deleteTarget s)))"

inductive tableStep :: "relationTuple list \<Rightarrow> tupleTable \<Rightarrow> tupleTable \<Rightarrow> bool" where
  choose: "t \<in> set ts \<Longrightarrow> tableStep ts s (setDeleteTarget (Some t) s)"
| cancel: "tableStep ts s (setDeleteTarget None s)"
| confirm: "ts \<noteq> [] \<Longrightarrow> tt_deleteTarget s \<noteq> None \<Longrightarrow> \<not> tt_pending s \<Longrightarrow> tableStep ts s (handleDelete s)"
| settled: "tt_pending s \<Longrightarrow> tableStep ts s (handleDeleteSettled r s)"

text \<open>A run of the table; the rows may change between steps. \<open>seen\<close> collects what was ever shown.\<close>

inductive tableRun :: "relationTuple set \<Rightarrow> tupleTable \<Rightarrow> bool" where
  start: "tableRun {} tupleTable_init"
| step: "tableRun seen s \<Longrightarrow> tableStep ts s t \<Longrightarrow> tableRun (seen \<union> set ts) t"

section \<open>The page\<close>

datatype tuplesBody = TuplesLoading | TuplesTable tableView | TuplesEmpty

datatype tuplesPageView = TuplesNoTenant | TuplesContent "nat option" view view tuplesBody

definition TuplesPage ::
  "(str \<Rightarrow> str) \<Rightarrow> str option \<Rightarrow> str option \<Rightarrow> tupleFilter \<Rightarrow> dialog \<Rightarrow> tupleTable \<Rightarrow> tuplesResponse option \<Rightarrow> bool \<Rightarrow>
   tuplesPageView" where
  "TuplesPage toLocaleDateString tid src f dlg tbl d isLoading =
     (if \<not> given tid then TuplesNoTenant
      else TuplesContent (map_option tuples_count d) (dialogView src dlg) (filtersView f)
        (if isLoading then TuplesLoading
         else case d of Some r \<Rightarrow> TuplesTable (TupleTable toLocaleDateString (tuples r) tbl) | None \<Rightarrow> TuplesEmpty))"

section \<open>Lemmas\<close>

lemma map_of_param: "map_of (param k v) k' = (if k' = js k \<and> given v then v else None)"
  by (auto simp: param_def given_def split: option.splits)

lemma split_display:
  assumes "COLON \<notin> set a" "HASH \<notin> set b" "COLON \<notin> set b" "COLON \<notin> set c"
  shows "map (split HASH) (split COLON (a @ COLON # b @ HASH # c)) = [split HASH a, b # split HASH c]"
  using assms by (simp add: split_append split_none)

text \<open>The parts of a displayed tuple, read back from the text.\<close>

definition readDisplay :: "str \<Rightarrow> str list list list" where
  "readDisplay s = map (\<lambda>p. map (split HASH) (split COLON p)) (split AT_SIGN s)"

definition plainPart :: "str \<Rightarrow> bool" where
  "plainPart s \<longleftrightarrow> COLON \<notin> set s \<and> HASH \<notin> set s \<and> AT_SIGN \<notin> set s"

lemma readDisplay_TupleDisplay:
  assumes "list_all plainPart [a, b, c, d, e, orEmpty r]"
  shows "readDisplay (TupleDisplay a b c d e r) =
    [[[a], [b, c]], [[d], e # (if given r then [bang r] else [])]]"
proof -
  have p: "plainPart x \<Longrightarrow> split AT_SIGN x = [x] \<and> split COLON x = [x] \<and> split HASH x = [x]" for x
    by (simp add: plainPart_def split_none)
  have "split AT_SIGN ((a @ [COLON] @ b @ [HASH] @ c) @ AT_SIGN # (d @ [COLON] @ e @ (if given r then [HASH] @ bang r else []))) =
      [a @ [COLON] @ b @ [HASH] @ c, d @ [COLON] @ e @ (if given r then [HASH] @ bang r else [])]"
    using assms by (subst split_append) (auto simp: plainPart_def split_none orEmpty_def bang_def given_def split: option.splits)
  then show ?thesis
    using assms
    by (auto simp: readDisplay_def TupleDisplay_def split_append split_none plainPart_def orEmpty_def bang_def given_def
        split: option.splits)
qed

lemma seen_run:
  assumes "tableRun seen s"
  shows "(\<forall>t. tt_deleteTarget s = Some t \<longrightarrow> t \<in> seen) \<and> (\<forall>q. tt_variables s = Some q \<longrightarrow> q \<in> deleteRequest ` seen)"
  using assms
proof (induction rule: tableRun.induct)
  case (step seen s ts t)
  from step(2) show ?case
  proof (cases rule: tableStep.cases)
    case (settled r)
    then show ?thesis using step(3) by (cases r) (auto simp: handleDeleteSettled_def)
  qed (use step(3) in \<open>auto simp: setDeleteTarget_def handleDelete_def split: option.splits\<close>)
qed (simp add: tupleTable_init_def)

definition sampleTuple :: relationTuple where
  "sampleTuple = \<lparr>rt_tenant_id = js ''acme'', rt_object_type = js ''document'', rt_object_id = js ''d1'', rt_relation = js ''viewer'',
     rt_subject_type = js ''group'', rt_subject_id = js ''g1'', rt_subject_relation = Some (js ''member''),
     rt_subject_tenant_id = None, rt_attributes = None, rt_created_at = [], rt_updated_at = [], rt_source_system = None,
     rt_external_id = None\<rparr>"

section \<open>Properties\<close>

text \<open>
  The clear button is there exactly when the request carries a filter: no filter is
  applied without being visible as one.
\<close>

theorem clear_iff_filtered: "canPress (filtersView f) (js ''Clear'') \<longleftrightarrow> rq_params (readTuples tid f) \<noteq> []"
proof -
  have p: "param k v \<noteq> [] \<longleftrightarrow> given v" for k v by (auto simp: param_def given_def split: option.splits)
  have "canPress (filtersView f) (js ''Clear'') \<longleftrightarrow> hasFilters f"
    by (simp add: filtersView_def can_defs js_inj)
  also have "\<dots> \<longleftrightarrow> rq_params (readTuples tid f) \<noteq> []"
    using p by (auto simp: hasFilters_def readTuples_def)
  finally show ?thesis .
qed

text \<open>
  The text of a tuple identifies it: two tuples whose parts contain no \<^verbatim>\<open>:\<close>, \<^verbatim>\<open>#\<close> or \<^verbatim>\<open>@\<close> are
  shown alike only when all their parts agree, the optional subject relation included.
\<close>

theorem display_identifies:
  assumes "displayTuple t = displayTuple u"
    "list_all plainPart [rt_object_type t, rt_object_id t, rt_relation t, rt_subject_type t, rt_subject_id t, orEmpty (rt_subject_relation t)]"
    "list_all plainPart [rt_object_type u, rt_object_id u, rt_relation u, rt_subject_type u, rt_subject_id u, orEmpty (rt_subject_relation u)]"
  shows "rt_object_type t = rt_object_type u \<and> rt_object_id t = rt_object_id u \<and> rt_relation t = rt_relation u \<and>
    rt_subject_type t = rt_subject_type u \<and> rt_subject_id t = rt_subject_id u \<and>
    orEmpty (rt_subject_relation t) = orEmpty (rt_subject_relation u)"
  using arg_cong [OF assms(1), of readDisplay] readDisplay_TupleDisplay [OF assms(2)] readDisplay_TupleDisplay [OF assms(3)]
  by (auto simp: displayTuple_def orEmpty_def given_def bang_def split: if_splits option.splits)

theorem display_identifies_witness:
  "displayTuple sampleTuple = displayTuple (sampleTuple\<lparr>rt_created_at := js ''today''\<rparr>) \<and>
   rt_object_id sampleTuple = rt_object_id (sampleTuple\<lparr>rt_created_at := js ''today''\<rparr>)"
proof -
  let ?t = sampleTuple and ?u = "sampleTuple\<lparr>rt_created_at := js ''today''\<rparr>"
  have d: "displayTuple ?t = displayTuple ?u" by (simp add: displayTuple_def)
  have p: "list_all plainPart [rt_object_type ?t, rt_object_id ?t, rt_relation ?t, rt_subject_type ?t, rt_subject_id ?t,
      orEmpty (rt_subject_relation ?t)]" by code_simp
  have q: "list_all plainPart [rt_object_type ?u, rt_object_id ?u, rt_relation ?u, rt_subject_type ?u, rt_subject_id ?u,
      orEmpty (rt_subject_relation ?u)]" by code_simp
  show ?thesis using d display_identifies [OF d p q] by blast
qed

text \<open>
  Whatever happens to the list in between, every deletion the table sends is for a tuple
  that was in a row of the table, with all the fields that identify it.
\<close>

theorem deletes_shown:
  assumes "tableRun seen s" "tt_variables s = Some q"
  shows "\<exists>t \<in> seen. q = deleteRequest t"
  using seen_run [OF assms(1)] assms(2) by blast

theorem deletes_shown_witness:
  "tt_variables (handleDelete (setDeleteTarget (Some sampleTuple) tupleTable_init)) = Some (deleteRequest sampleTuple) \<and>
   (\<exists>t. t = sampleTuple \<and> deleteRequest sampleTuple = deleteRequest t)"
proof -
  let ?s1 = "setDeleteTarget (Some sampleTuple) tupleTable_init"
  have r1: "tableRun ({} \<union> set [sampleTuple]) ?s1"
    by (rule tableRun.step [OF tableRun.start tableStep.choose]) simp
  have r2: "tableRun ({} \<union> set [sampleTuple] \<union> set [sampleTuple]) (handleDelete ?s1)"
    by (rule tableRun.step [OF r1 tableStep.confirm]) (simp_all add: setDeleteTarget_def tupleTable_init_def)
  have v: "tt_variables (handleDelete ?s1) = Some (deleteRequest sampleTuple)"
    by (simp add: handleDelete_def setDeleteTarget_def)
  show ?thesis using deletes_shown [OF r2 v] v by simp
qed

end
