(* ===== verification/Changelog.thy ===== *)
theory Changelog
  imports Tuples_Page
begin

text \<open>
  The changelog page (\<^verbatim>\<open>app/changelog/page.tsx\<close>, \<^verbatim>\<open>changelog-table.tsx\<close>) and what one sees by pressing Load More
  as long as it is offered. What the page relies on is the locale \<open>changelog_source\<close>: a request after a position is
  answered with the next entries, in order; positions are integers that a JavaScript number holds exactly. The server provides it in \<open>Console_Server\<close>.
\<close>

section \<open>The page\<close>

definition opVariant :: "changeOp \<Rightarrow> str" where
  "opVariant oper = (case oper of INSERT \<Rightarrow> js ''default'' | DELETE \<Rightarrow> js ''destructive'' | UPDATE \<Rightarrow> js ''secondary'')"

record changelogRow =
  cw_seq :: nat
  cw_op :: "changeOp \<times> str"
  cw_tuple :: str
  cw_ts :: str
  cw_source :: str
  cw_actor :: str

definition ChangelogTable :: "(str \<Rightarrow> str) \<Rightarrow> changelogEntry list \<Rightarrow> str + changelogRow list" where
  "ChangelogTable toLocaleString es =
     (if length es = 0 then Inl (js ''No changelog entries found.'')
      else Inr (map (\<lambda>e. \<lparr>cw_seq = cl_seq e, cw_op = (cl_op e, opVariant (cl_op e)), cw_tuple = displayTuple (cl_tuple e),
             cw_ts = toLocaleString (cl_ts e), cw_source = cl_source e,
             cw_actor = (if truthy (cl_actor e) then cl_actor e else js ''-'')\<rparr>) es))"

datatype changelogBody = LogLoading | LogTable "str + changelogRow list" bool | LogEmpty

datatype changelogPageView = LogNoTenant | LogContent "nat option" changelogBody

definition pageSize :: nat where "pageSize = 50"

text \<open>The page's state is \<^verbatim>\<open>sinceSeq\<close>; the flag of the table says whether Load More is offered.\<close>

definition ChangelogPage :: "(str \<Rightarrow> str) \<Rightarrow> str option \<Rightarrow> changelogResponse option \<Rightarrow> bool \<Rightarrow> changelogPageView" where
  "ChangelogPage toLocaleString tid d isLoading =
     (if \<not> given tid then LogNoTenant
      else LogContent (map_option latest_sequence d)
        (if isLoading then LogLoading
         else case d of
           Some r \<Rightarrow> LogTable (ChangelogTable toLocaleString (entries r)) (pageSize \<le> length (entries r))
         | None \<Rightarrow> LogEmpty))"

definition changelogQuery :: "str \<Rightarrow> nat \<Rightarrow> query" where
  "changelogQuery tid sinceSeq = useChangelog (Some tid) (Some sinceSeq) (Some pageSize)"

definition loadMore :: "changelogResponse \<Rightarrow> nat \<Rightarrow> nat" where
  "loadMore r sinceSeq = cl_seq (entries r ! (length (entries r) - 1))"

section \<open>Following Load More\<close>

text \<open>
  The pages one sees after \<open>sinceSeq\<close>, given the answers of the server; \<open>None\<close> when an answer fails or the pages never end.
\<close>

partial_function (option) pagesFrom :: "(nat \<Rightarrow> changelogResponse option) \<Rightarrow> nat \<Rightarrow> changelogEntry list list option" where
  "pagesFrom answer sinceSeq =
     Option.bind (answer sinceSeq) (\<lambda>r.
       if pageSize \<le> length (entries r)
       then Option.bind (pagesFrom answer (loadMore r sinceSeq)) (\<lambda>pages. Some (entries r # pages))
       else Some [entries r])"

section \<open>The contract of the log\<close>

lemma filter_last_shorter:
  assumes "ys = take n (filter (\<lambda>e. a < f e) xs)" "ys \<noteq> []"
  shows "length (filter (\<lambda>e. (f (last ys) :: nat) < f e) xs) < length (filter (\<lambda>e. a < f e) xs)"
proof -
  have "last ys \<in> set (filter (\<lambda>e. a < f e) xs)" using assms by (metis in_set_takeD last_in_set)
  then have l: "last ys \<in> set xs" "a < f (last ys)" by auto
  have "filter (\<lambda>e. f (last ys) < f e) xs = filter (\<lambda>e. f (last ys) < f e) (filter (\<lambda>e. a < f e) xs)"
    using l(2) by (auto intro: filter_cong)
  also have "length \<dots> < length (filter (\<lambda>e. a < f e) xs)"
    using l by (intro length_filter_less [of "last ys"]) auto
  finally show ?thesis .
qed

lemma after_last:
  assumes "sorted_wrt (\<lambda>x y. f x < f y) F" "take n F \<noteq> []"
  shows "filter (\<lambda>e. (f (last (take n F)) :: nat) < f e) F = drop n F"
proof -
  let ?l = "last (take n F)"
  have l: "take n F = butlast (take n F) @ [?l]" using assms(2) by simp
  have F: "sorted_wrt (\<lambda>x y. f x < f y) (butlast (take n F) @ [?l] @ drop n F)"
    using assms(1) l by (metis append.assoc append_take_drop_id)
  then have "\<forall>e \<in> set (butlast (take n F)). f e < f ?l" "\<forall>e \<in> set (drop n F). f ?l < f e"
    by (auto simp: sorted_wrt_append)
  then have "filter (\<lambda>e. f ?l < f e) (butlast (take n F) @ [?l] @ drop n F) = drop n F"
    by (auto simp: filter_empty_conv filter_id_conv not_less order.strict_implies_order)
  then show ?thesis using l by (metis append.assoc append_take_drop_id)
qed

locale changelog_source =
  fixes ok :: "'s \<Rightarrow> bool" and answer :: "'s \<Rightarrow> nat \<Rightarrow> changelogResponse option" and log :: "'s \<Rightarrow> changelogEntry list"
  assumes answers: "ok s \<Longrightarrow> n < 2 ^ 53 \<Longrightarrow> \<exists>r. answer s n = Some r \<and> entries r = take pageSize (filter (\<lambda>e. n < cl_seq e) (log s))"
    and increasing: "ok s \<Longrightarrow> sorted_wrt (\<lambda>x y. cl_seq x < cl_seq y) (log s)"
    and numbered: "ok s \<Longrightarrow> e \<in> set (log s) \<Longrightarrow> 0 < cl_seq e \<and> cl_seq e < 2 ^ 53"
begin

lemma pages_after:
  assumes "ok s"
  shows "a < 2 ^ 53 \<Longrightarrow> \<exists>pages. pagesFrom (answer s) a = Some pages \<and> concat pages = filter (\<lambda>e. a < cl_seq e) (log s)"
proof (induction "length (filter (\<lambda>e. a < cl_seq e) (log s))" arbitrary: a rule: less_induct)
  case less
  let ?F = "filter (\<lambda>e. a < cl_seq e) (log s)"
  obtain r where r: "answer s a = Some r" "entries r = take pageSize ?F" using answers [OF assms less.prems] by blast
  show ?case
  proof (cases "pageSize \<le> length (entries r)")
    case True
    then have n: "take pageSize ?F \<noteq> []" by (auto simp: r(2) pageSize_def)
    define m where "m = cl_seq (last (take pageSize ?F))"
    have m: "loadMore r a = m" using n by (simp add: loadMore_def r(2) last_conv_nth m_def)
    have "last (take pageSize ?F) \<in> set ?F" using n by (metis in_set_takeD last_in_set)
    then have l: "a < m" "m < 2 ^ 53" using numbered [OF assms] by (auto simp: m_def)
    have "length (filter (\<lambda>e. m < cl_seq e) (log s)) < length ?F" using filter_last_shorter [OF refl n] by (simp add: m_def)
    from less.hyps [OF this l(2)] obtain pages where p: "pagesFrom (answer s) m = Some pages" "concat pages = filter (\<lambda>e. m < cl_seq e) (log s)"
      by blast
    have "filter (\<lambda>e. m < cl_seq e) (log s) = filter (\<lambda>e. m < cl_seq e) ?F" using l(1) by (auto intro: filter_cong)
    also have "\<dots> = drop pageSize ?F" using after_last [OF sorted_wrt_filter [OF increasing [OF assms]] n] by (simp add: m_def)
    finally show ?thesis using True p by (subst pagesFrom.simps) (simp add: r(1) m, simp add: r(2))
  next
    case False
    then show ?thesis by (subst pagesFrom.simps) (simp add: r(1), simp add: r(2) pageSize_def)
  qed
qed

lemma pages_cover: "ok s \<Longrightarrow> \<exists>pages. pagesFrom (answer s) 0 = Some pages \<and> concat pages = log s"
  using pages_after [of s 0] numbered [of s] by (auto simp: filter_id_conv)

lemma beyond_end:
  assumes "ok s" "n < 2 ^ 53" "\<forall>e \<in> set (log s). cl_seq e \<le> n"
  shows "\<exists>r. answer s n = Some r \<and> entries r = []"
proof -
  have "filter (\<lambda>e. n < cl_seq e) (log s) = []" using assms(3) by (auto simp: filter_empty_conv)
  then show ?thesis using answers [OF assms(1,2)] by auto
qed

end

end
