(* ===== verification/Schema_Evaluator.thy ===== *)
theory Schema_Evaluator
  imports Ui Tuple_Parser
begin

text \<open>
  The permission evaluator of the schema page, \<^verbatim>\<open>schema-evaluator.tsx\<close>: its scanner
  \<^verbatim>\<open>parseSchemaTypeInfos\<close>, the form with its handlers, and what is rendered. The mutation of
  \<^verbatim>\<open>useCheck\<close> contributes three fields to the state, as TanStack Query documents them: whether it is
  pending, the variables of its last call and the data it answered (none while pending or after an
  error).
\<close>

section \<open>The scanner\<close>

record schemaPermInfo =
  ti_name :: str
  ti_permissions :: "str list"

record escan =
  es_result :: "schemaPermInfo list"
  es_inTypesSection :: bool
  es_currentType :: "nat option"
  es_currentSection :: sect

definition escan_init :: escan where
  "escan_init = \<lparr>es_result = [], es_inTypesSection = False, es_currentType = None, es_currentSection = SecNull\<rparr>"

definition parseSchemaTypeInfosLine :: "nat \<Rightarrow> str \<Rightarrow> escan \<Rightarrow> escan" where
  "parseSchemaTypeInfosLine indent line s =
     (if indent = 0 then
        s\<lparr>es_inTypesSection := (line = js ''types:''), es_currentType := None, es_currentSection := SecNull\<rparr>
      else if \<not> es_inTypesSection s then s
      else if indent = 2 \<and> endsWith line [COLON] then
        (let typeName = trim (strSlice line 0 (-1)) in
         if \<not> truthy typeName then s
         else s\<lparr>es_result := es_result s @ [\<lparr>ti_name = typeName, ti_permissions = []\<rparr>],
                es_currentType := Some (length (es_result s)), es_currentSection := SecNull\<rparr>)
      else (case es_currentType s of None \<Rightarrow> s | Some i \<Rightarrow>
        if indent = 4 \<and> endsWith line [COLON] then
          s\<lparr>es_currentSection :=
              (if trim (strSlice line 0 (-1)) = js ''permissions'' then SecPermissions else SecNull)\<rparr>
        else if es_currentSection s = SecPermissions \<and> indent = 6 \<and> endsWith line [COLON] then
          (let t = es_result s ! i in
           s\<lparr>es_result := (es_result s)[i := t\<lparr>ti_permissions := ti_permissions t @ [trim (strSlice line 0 (-1))]\<rparr>]\<rparr>)
        else s))"

definition escanLine :: "str \<Rightarrow> escan \<Rightarrow> escan" where
  "escanLine rawLine s =
     (if skipLine rawLine then s else parseSchemaTypeInfosLine (lineIndent rawLine) (trim rawLine) s)"

definition parseSchemaTypeInfos :: "str \<Rightarrow> schemaPermInfo list" where
  "parseSchemaTypeInfos source = es_result (fold escanLine (split NL source) escan_init)"

section \<open>The component\<close>

record evalForm =
  ef_resource_type :: str
  ef_resource_id :: str
  ef_action :: str
  ef_subject_type :: str
  ef_subject_id :: str

datatype decision = Allow | Deny

record evaluator =
  ev_form :: evalForm
  ev_decision :: "decision option"
  ev_pending :: bool
  ev_variables :: "checkRequest option"
  ev_data :: "bool option"

definition evaluator_init :: evaluator where
  "evaluator_init = \<lparr>ev_form = \<lparr>ef_resource_type = [], ef_resource_id = [], ef_action = [], ef_subject_type = [],
     ef_subject_id = []\<rparr>, ev_decision = None, ev_pending = False, ev_variables = None, ev_data = None\<rparr>"

definition typeNames :: "str \<Rightarrow> str list" where
  "typeNames source = map ti_name (parseSchemaTypeInfos source)"

definition actionsForType :: "str \<Rightarrow> evalForm \<Rightarrow> str list" where
  "actionsForType source f =
     (if \<not> truthy (ef_resource_type f) then []
      else case find (\<lambda>t. ti_name t = ef_resource_type f) (parseSchemaTypeInfos source) of
             None \<Rightarrow> [] | Some t \<Rightarrow> ti_permissions t)"

datatype evalField = FResourceType | FResourceId | FAction | FSubjectType | FSubjectId

fun updateForm :: "evalField \<Rightarrow> str \<Rightarrow> evalForm \<Rightarrow> evalForm" where
  "updateForm FResourceType v f = f\<lparr>ef_resource_type := v\<rparr>"
| "updateForm FResourceId v f = f\<lparr>ef_resource_id := v\<rparr>"
| "updateForm FAction v f = f\<lparr>ef_action := v\<rparr>"
| "updateForm FSubjectType v f = f\<lparr>ef_subject_type := v\<rparr>"
| "updateForm FSubjectId v f = f\<lparr>ef_subject_id := v\<rparr>"

definition evalUpdate :: "evalField \<Rightarrow> str \<Rightarrow> evaluator \<Rightarrow> evaluator" where
  "evalUpdate fld v s = s\<lparr>ev_form := updateForm fld v (ev_form s)\<rparr>"

definition selectResourceType :: "str \<Rightarrow> evaluator \<Rightarrow> evaluator" where
  "selectResourceType v s = s\<lparr>ev_form := (ev_form s)\<lparr>ef_resource_type := v, ef_action := []\<rparr>\<rparr>"

definition evalValid :: "evalForm \<Rightarrow> bool" where
  "evalValid f \<longleftrightarrow> truthy (ef_resource_type f) \<and> truthy (ef_resource_id f) \<and> truthy (ef_action f) \<and>
     truthy (ef_subject_type f) \<and> truthy (ef_subject_id f)"

definition evalRequest :: "evalForm \<Rightarrow> checkRequest" where
  "evalRequest f = \<lparr>cr_subject_type = ef_subject_type f, cr_subject_id = ef_subject_id f,
     cr_resource_type = ef_resource_type f, cr_resource_id = ef_resource_id f, cr_action = ef_action f\<rparr>"

text \<open>\<^verbatim>\<open>handleCheck\<close> up to its \<^verbatim>\<open>await\<close>, and from the settled promise on.\<close>

definition handleCheck :: "evaluator \<Rightarrow> evaluator" where
  "handleCheck s = s\<lparr>ev_decision := None, ev_pending := True, ev_variables := Some (evalRequest (ev_form s)),
     ev_data := None\<rparr>"

definition handleCheckSettled :: "clientError + bool \<Rightarrow> evaluator \<Rightarrow> evaluator" where
  "handleCheckSettled r s =
     (case r of
        Inr d \<Rightarrow> s\<lparr>ev_pending := False, ev_data := Some d, ev_decision := Some (if d then Allow else Deny)\<rparr>
      | Inl _ \<Rightarrow> s\<lparr>ev_pending := False, ev_decision := Some Deny\<rparr>)"

definition evaluatorView :: "str \<Rightarrow> evaluator \<Rightarrow> view" where
  "evaluatorView source s =
     (let f = ev_form s; names = typeNames source; hasSchema = (length names > 0); acts = actionsForType source f in
      [(js ''Subject Type'', if hasSchema then SelectBox (ef_subject_type f) names
          else TextInput (js ''user'') (ef_subject_type f) False),
       (js ''Subject ID'', TextInput (js ''alice'') (ef_subject_id f) False),
       (js ''Resource Type'', if hasSchema then SelectBox (ef_resource_type f) names
          else TextInput (js ''document'') (ef_resource_type f) False),
       (js ''Permission'', if length acts > 0 then SelectBox (ef_action f) acts
          else TextInput (js ''read'') (ef_action f) (hasSchema \<and> \<not> truthy (ef_resource_type f))),
       (js ''Resource ID'', TextInput (js ''doc_1'') (ef_resource_id f) False),
       (js ''Check'', PushButton (\<not> evalValid f \<or> ev_pending s))] @
      (case ev_decision s of None \<Rightarrow> []
       | Some d \<Rightarrow> [(js ''Decision'', Shown (if d = Allow then js ''ALLOW'' else js ''DENY''))]))"

text \<open>The steps of the component: a user input its view admits, or the answer to a pending check.\<close>

inductive evalStep :: "str \<Rightarrow> evaluator \<Rightarrow> evaluator \<Rightarrow> bool" for source where
  chooseSubject: "canSelect (evaluatorView source s) (js ''Subject Type'') v \<Longrightarrow>
    evalStep source s (evalUpdate FSubjectType v s)"
| typeSubject: "canType (evaluatorView source s) (js ''Subject Type'') \<Longrightarrow>
    evalStep source s (evalUpdate FSubjectType v s)"
| typeSubjectId: "canType (evaluatorView source s) (js ''Subject ID'') \<Longrightarrow>
    evalStep source s (evalUpdate FSubjectId v s)"
| chooseResource: "canSelect (evaluatorView source s) (js ''Resource Type'') v \<Longrightarrow>
    evalStep source s (selectResourceType v s)"
| typeResource: "canType (evaluatorView source s) (js ''Resource Type'') \<Longrightarrow>
    evalStep source s (evalUpdate FResourceType v s)"
| chooseAction: "canSelect (evaluatorView source s) (js ''Permission'') v \<Longrightarrow>
    evalStep source s (evalUpdate FAction v s)"
| typeAction: "canType (evaluatorView source s) (js ''Permission'') \<Longrightarrow>
    evalStep source s (evalUpdate FAction v s)"
| typeResourceId: "canType (evaluatorView source s) (js ''Resource ID'') \<Longrightarrow>
    evalStep source s (evalUpdate FResourceId v s)"
| check: "canPress (evaluatorView source s) (js ''Check'') \<Longrightarrow> evalStep source s (handleCheck s)"
| settled: "ev_pending s \<Longrightarrow> evalStep source s (handleCheckSettled r s)"

inductive evalReachable :: "str \<Rightarrow> evaluator \<Rightarrow> bool" for source where
  start: "evalReachable source evaluator_init"
| step: "evalReachable source s \<Longrightarrow> evalStep source s t \<Longrightarrow> evalReachable source t"

inductive_cases evalStepE: "evalStep source s t"

section \<open>The scanner on rendered documents\<close>

definition docPermInfo :: "docType \<Rightarrow> schemaPermInfo" where
  "docPermInfo t = \<lparr>ti_name = dt_name t, ti_permissions = map fst (dt_perms t)\<rparr>"

lemma escanLine_ind [line_simps]:
  "solid c \<Longrightarrow> hd c \<noteq> HASH \<Longrightarrow> escanLine (ind n c) s = parseSchemaTypeInfosLine n c s"
  by (simp add: escanLine_def line_simps)

lemma escanLine_key [line_simps]:
  "wfName k \<Longrightarrow> escanLine (keyLine n k) s = parseSchemaTypeInfosLine n (k @ [COLON]) s"
  by (simp add: keyLine_def escanLine_ind solid_key)

definition einType :: "sect \<Rightarrow> schemaPermInfo list \<Rightarrow> schemaPermInfo \<Rightarrow> escan \<Rightarrow> bool" where
  "einType x R T s \<longleftrightarrow> es_inTypesSection s \<and> es_result s = R @ [T] \<and> es_currentType s = Some (length R) \<and>
     es_currentSection s = x"

lemma escan_section_key:
  "wfName (js k) \<Longrightarrow> einType x R T s \<Longrightarrow>
     einType (if js k = js ''permissions'' then SecPermissions else SecNull) R T (escanLine (keyLine 4 (js k)) s)"
  by (simp add: line_simps parseSchemaTypeInfosLine_def einType_def)

lemma escan_null_lines:
  "list_all deepLine ls \<Longrightarrow> einType SecNull R T s \<Longrightarrow> fold escanLine ls s = s"
  by (induction ls) (auto simp: deepLine_def line_simps parseSchemaTypeInfosLine_def einType_def)

lemma escan_perm_key:
  "wfName k \<Longrightarrow> einType SecPermissions R T s \<Longrightarrow>
     einType SecPermissions R (T\<lparr>ti_permissions := ti_permissions T @ [k]\<rparr>) (escanLine (keyLine 6 k) s)"
  by (simp add: line_simps parseSchemaTypeInfosLine_def einType_def)

lemma escan_body:
  "wfBody b \<Longrightarrow> einType SecPermissions R T s \<Longrightarrow> fold escanLine (bodyLines b) s = s"
proof (cases b)
  case (Combine oper refs)
  assume "wfBody b" "einType SecPermissions R T s"
  then have "list_all wfRef refs" "einType SecPermissions R T s" by (simp_all add: Combine)
  then have "fold escanLine (map (itemLine 10) refs) s = s"
    by (induction refs)
      (auto simp: itemLine_def line_simps solid_js_item parseSchemaTypeInfosLine_def einType_def)
  with Combine \<open>wfBody b\<close> \<open>einType SecPermissions R T s\<close> show ?thesis
    by (simp add: line_simps parseSchemaTypeInfosLine_def einType_def)
qed (simp add: line_simps solid_resolve parseSchemaTypeInfosLine_def einType_def)

lemma escan_perms:
  "list_all (\<lambda>p. wfName (fst p) \<and> wfBody (snd p)) ps \<Longrightarrow> einType SecPermissions R T s \<Longrightarrow>
     einType SecPermissions R (T\<lparr>ti_permissions := ti_permissions T @ map fst ps\<rparr>)
       (fold escanLine (concat (map permLines ps)) s)"
proof (induction ps arbitrary: T s)
  case (Cons p ps)
  have "einType SecPermissions R (T\<lparr>ti_permissions := ti_permissions T @ [fst p]\<rparr>) (fold escanLine (permLines p) s)"
    using Cons.prems escan_perm_key [of "fst p" R T s] by (simp add: permLines_def escan_body)
  then show ?case using Cons by fastforce
qed simp

lemma escan_typeLines:
  assumes "wfType t" "es_inTypesSection s"
  shows "\<exists>x. einType x (es_result s) (docPermInfo t) (fold escanLine (typeLines t) s)"
proof -
  let ?T = "\<lparr>ti_name = dt_name t, ti_permissions = []\<rparr>" and ?R = "es_result s"
  define s1 where "s1 = escanLine (keyLine 2 (dt_name t)) s"
  define s2 where "s2 = fold escanLine (sectionLines ''attributes'' (map (\<lambda>a. [attrLine a]) (dt_attrs t))) s1"
  define s3 where "s3 = fold escanLine (sectionLines ''relations'' (map relLines (dt_rels t))) s2"
  define s4 where "s4 = fold escanLine (sectionLines ''permissions'' (map permLines (dt_perms t))) s3"
  have wf: "list_all (\<lambda>a. wfName (fst a) \<and> wfName (snd a)) (dt_attrs t)"
    "list_all (\<lambda>r. wfName (dr_name r) \<and> list_all wfRef (dr_targets r)) (dt_rels t)"
    "list_all (\<lambda>p. wfName (fst p) \<and> wfBody (snd p)) (dt_perms t)" "wfName (dt_name t)"
    using assms(1) by (simp_all add: wfType_def)
  have s1: "einType SecNull ?R ?T s1"
    using assms(2) wf(4) by (simp add: s1_def line_simps parseSchemaTypeInfosLine_def einType_def)
  then have s2: "einType SecNull ?R ?T s2"
    using escan_null_lines [OF attrs_deep [OF wf(1)]] escan_section_key [of "''attributes''" SecNull ?R ?T s1]
    by (auto simp: s2_def sectionLines_def)
  then have s3: "einType SecNull ?R ?T s3"
    using escan_null_lines [OF rels_deep [OF wf(2)]] escan_section_key [of "''relations''" SecNull ?R ?T s2]
    by (auto simp: s3_def sectionLines_def)
  have "\<exists>x. einType x ?R (docPermInfo t) s4"
    using s3 escan_section_key [of "''permissions''" SecNull ?R ?T s3]
      escan_perms [OF wf(3), of ?R ?T "escanLine (keyLine 4 (js ''permissions'')) s3"]
    by (cases "dt_perms t = []") (auto simp: s4_def sectionLines_def docPermInfo_def)
  then show ?thesis by (simp add: typeLines_def s1_def s2_def s3_def s4_def)
qed

lemma escan_types:
  "list_all wfType d \<Longrightarrow> es_inTypesSection s \<Longrightarrow>
     es_result (fold escanLine (concat (map typeLines d)) s) = es_result s @ map docPermInfo d"
proof (induction d arbitrary: s)
  case (Cons t d)
  then show ?case using escan_typeLines [of t s] by (auto simp: einType_def)
qed simp

lemma parseSchemaTypeInfos_renderDoc:
  assumes "wfDoc d"
  shows "parseSchemaTypeInfos (renderDoc d) = map docPermInfo d"
proof -
  have v: "escanLine (js ''version: \"1.0\"'') escan_init = escan_init" by code_simp
  have t: "escanLine (js ''types:'') escan_init = escan_init\<lparr>es_inTypesSection := True\<rparr>" by code_simp
  have "escanLine [] s = s" for s by (simp add: escanLine_def skipLine_def)
  with assms v t show ?thesis
    using escan_types [of d "escan_init\<lparr>es_inTypesSection := True\<rparr>"]
    by (simp add: parseSchemaTypeInfos_def split_renderDoc docLines_def wfDoc_def escan_init_def)
qed

section \<open>The type names of the evaluator and of the dialog\<close>

definition names_rel :: "dscan \<Rightarrow> escan \<Rightarrow> bool" where
  "names_rel d e \<longleftrightarrow>
     es_inTypesSection e = ds_inTypesSection d \<and> es_currentType e = ds_currentType d \<and>
     map ti_name (es_result e) = map st_name (ds_result d) \<and>
     (\<forall>i. ds_currentType d = Some i \<longrightarrow> i < length (ds_result d))"

lemma names_update:
  "map f xs = ns \<Longrightarrow> i < length xs \<Longrightarrow> f x = f (xs ! i) \<Longrightarrow> map f (xs[i := x]) = ns"
  by (auto simp: map_update list_update_same_conv)

lemma pushAllowedTypes_names:
  "i < length ts \<Longrightarrow> map st_name (pushAllowedTypes i j items ts) = map st_name ts \<and>
     length (pushAllowedTypes i j items ts) = length ts"
  by (simp add: pushAllowedTypes_def names_update)


lemma names_rel_step:
  assumes "names_rel d e"
  shows "names_rel (dscanLine l d) (escanLine l e)"
proof (cases "skipLine l")
  case False
  define n where "n = lineIndent l"
  define x where "x = trim l"
  have eqs: "es_inTypesSection e = ds_inTypesSection d" "es_currentType e = ds_currentType d"
    "map ti_name (es_result e) = map st_name (ds_result d)"
    and bnd: "\<And>i. ds_currentType d = Some i \<Longrightarrow> i < length (ds_result d)"
    using assms by (auto simp: names_rel_def)
  have len: "length (es_result e) = length (ds_result d)" using eqs(3) map_eq_imp_length_eq by blast
  have "names_rel (parseSchemaTypesLine n x d) (parseSchemaTypeInfosLine n x e)"
  proof (cases "n = 0 \<or> \<not> ds_inTypesSection d \<or> n = 2 \<and> endsWith x [COLON] \<or> ds_currentType d = None")
    case True
    then show ?thesis
      using eqs len bnd
      by (auto simp: names_rel_def parseSchemaTypesLine_def parseSchemaTypeInfosLine_def Let_def)
  next
    case inside: False
    then obtain i where i: "ds_currentType d = Some i" by auto
    have d: "map st_name (ds_result (parseSchemaTypesLine n x d)) = map st_name (ds_result d) \<and>
        ds_currentType (parseSchemaTypesLine n x d) = Some i \<and> ds_inTypesSection (parseSchemaTypesLine n x d)"
      using inside bnd [OF i]
      by (auto simp: parseSchemaTypesLine_def i Let_def names_update pushAllowedTypes_names split: option.splits)
    have e: "map ti_name (es_result (parseSchemaTypeInfosLine n x e)) = map ti_name (es_result e) \<and>
        es_currentType (parseSchemaTypeInfosLine n x e) = Some i \<and> es_inTypesSection (parseSchemaTypeInfosLine n x e)"
      using inside bnd [OF i] len eqs
      by (auto simp: parseSchemaTypeInfosLine_def i Let_def names_update)
    show ?thesis using d e eqs bnd [OF i] by (auto simp: names_rel_def dest: map_eq_imp_length_eq)
  qed
  with False show ?thesis by (simp add: dscanLine_def escanLine_def n_def x_def)
qed (use assms in \<open>simp add: dscanLine_def escanLine_def\<close>)

lemma names_rel_fold: "names_rel d e \<Longrightarrow> names_rel (fold dscanLine ls d) (fold escanLine ls e)"
  by (induction ls arbitrary: d e) (auto simp: names_rel_step)

lemma names_rel_init: "names_rel dscan_init escan_init"
  by (simp add: names_rel_def dscan_init_def escan_init_def)

lemma typeNames_dialog: "typeNames source = map st_name (parseSchemaTypes source)"
  using names_rel_fold [OF names_rel_init, of "split NL source"]
  by (simp add: typeNames_def parseSchemaTypeInfos_def parseSchemaTypes_def names_rel_def)

section \<open>What the form can hold\<close>

text \<open>
  The invariant of the form. With a schema the two types are declared ones, or not chosen yet, and
  the permission is one the chosen type declares whenever it declares any.
\<close>

definition formInv :: "str \<Rightarrow> evaluator \<Rightarrow> bool" where
  "formInv source s \<longleftrightarrow> typeNames source \<noteq> [] \<longrightarrow>
     (let f = ev_form s in
      (ef_subject_type f = [] \<or> ef_subject_type f \<in> set (typeNames source)) \<and>
      (ef_resource_type f = [] \<or> ef_resource_type f \<in> set (typeNames source)) \<and>
      (ef_action f = [] \<or> actionsForType source f = [] \<or> ef_action f \<in> set (actionsForType source f)))"

lemma evaluatorView_can:
  fixes source s
  defines "V \<equiv> evaluatorView source s" and "f \<equiv> ev_form s"
  shows "canSelect V (js ''Subject Type'') v \<longleftrightarrow> v \<in> set (typeNames source)"
    "canSelect V (js ''Resource Type'') v \<longleftrightarrow> v \<in> set (typeNames source)"
    "canSelect V (js ''Permission'') v \<longleftrightarrow> v \<in> set (actionsForType source f)"
    "canType V (js ''Subject Type'') \<longleftrightarrow> typeNames source = []"
    "canType V (js ''Resource Type'') \<longleftrightarrow> typeNames source = []"
    "canType V (js ''Permission'') \<longleftrightarrow> actionsForType source f = [] \<and> (typeNames source = [] \<or> ef_resource_type f \<noteq> [])"
    "canPress V (js ''Check'') \<longleftrightarrow> evalValid f \<and> \<not> ev_pending s"
    "canType V (js ''Subject ID'')" "canType V (js ''Resource ID'')"
    "(js ''Decision'', Shown (js ''ALLOW'')) \<in> set V \<longleftrightarrow> ev_decision s = Some Allow"
  by (auto simp: V_def f_def evaluatorView_def can_defs Let_def js_def split: option.splits)

lemma actionsForType_same:
  "ef_resource_type f = ef_resource_type g \<Longrightarrow> actionsForType source f = actionsForType source g"
  by (simp add: actionsForType_def)

lemma formInv_step:
  assumes "evalStep source s t" "formInv source s"
  shows "formInv source t"
  using assms
proof (cases rule: evalStep.cases)
  case (settled r)
  then show ?thesis using assms(2) by (cases r) (auto simp: formInv_def handleCheckSettled_def)
next
  case (typeAction v)
  then show ?thesis using assms(2) actionsForType_same [of "ev_form t" "ev_form s" source]
    by (auto simp: evaluatorView_can formInv_def evalUpdate_def Let_def)
qed (use assms(2) in \<open>auto simp: evaluatorView_can formInv_def evalUpdate_def selectResourceType_def handleCheck_def Let_def
       actionsForType_def\<close>)

lemma formInv_reachable: "evalReachable source s \<Longrightarrow> formInv source s"
  by (induction rule: evalReachable.induct)
    (auto simp: formInv_step, simp add: formInv_def evaluator_init_def)

text \<open>A request the loaded schema knows: no field is empty, and with a schema the types and the permission are declared.\<close>

definition requestDeclared :: "str \<Rightarrow> checkRequest \<Rightarrow> bool" where
  "requestDeclared source q \<longleftrightarrow>
     cr_subject_type q \<noteq> [] \<and> cr_subject_id q \<noteq> [] \<and> cr_resource_type q \<noteq> [] \<and> cr_resource_id q \<noteq> [] \<and> cr_action q \<noteq> [] \<and>
     (typeNames source \<noteq> [] \<longrightarrow>
        cr_subject_type q \<in> set (typeNames source) \<and> cr_resource_type q \<in> set (typeNames source) \<and>
        (case find (\<lambda>t. ti_name t = cr_resource_type q) (parseSchemaTypeInfos source) of
           Some t \<Rightarrow> ti_permissions t = [] \<or> cr_action q \<in> set (ti_permissions t) | None \<Rightarrow> False))"

lemma formInv_request:
  "formInv source s \<Longrightarrow> evalValid (ev_form s) \<Longrightarrow> requestDeclared source (evalRequest (ev_form s))"
  using find_name [of "ef_resource_type (ev_form s)" ti_name "parseSchemaTypeInfos source"]
  by (auto simp: formInv_def requestDeclared_def evalRequest_def evalValid_def Let_def actionsForType_def typeNames_def)

text \<open>The invariant of the decision: it is shown only after an answer to a request the schema knows.\<close>

definition decisionInv :: "str \<Rightarrow> evaluator \<Rightarrow> bool" where
  "decisionInv source s \<longleftrightarrow>
     (\<forall>q. ev_variables s = Some q \<longrightarrow> requestDeclared source q) \<and>
     (ev_decision s = Some Allow \<longleftrightarrow> ev_data s = Some True) \<and>
     (ev_pending s \<longrightarrow> ev_decision s = None) \<and>
     (ev_variables s = None \<longrightarrow> ev_decision s = None \<and> \<not> ev_pending s)"

lemma decisionInv_step:
  assumes "evalStep source s t" "formInv source s" "decisionInv source s"
  shows "decisionInv source t"
  using assms(1)
proof (cases rule: evalStep.cases)
  case (settled r)
  then show ?thesis using assms(3) by (cases r) (auto simp: decisionInv_def handleCheckSettled_def)
next
  case check
  then show ?thesis using assms formInv_request [OF assms(2)]
    by (auto simp: decisionInv_def handleCheck_def evaluatorView_can)
qed (use assms(3) in \<open>auto simp: decisionInv_def evalUpdate_def selectResourceType_def\<close>)

lemma decisionInv_reachable: "evalReachable source s \<Longrightarrow> decisionInv source s"
  by (induction rule: evalReachable.induct)
    (auto simp: decisionInv_step formInv_reachable, simp add: decisionInv_def evaluator_init_def)

text \<open>A run on the sample schema: a check of \<^verbatim>\<open>view\<close> that is granted, and the subject changed after it.\<close>

definition filled :: evaluator where
  "filled = evalUpdate FResourceId (js ''d1'') (evalUpdate FAction (js ''view'')
     (selectResourceType (js ''document'') (evalUpdate FSubjectId (js ''alice'')
       (evalUpdate FSubjectType (js ''user'') evaluator_init))))"

definition granted :: evaluator where
  "granted = handleCheckSettled (Inr True) (handleCheck filled)"

lemma sample_infos:
  "parseSchemaTypeInfos (renderDoc sampleDoc) =
     [\<lparr>ti_name = js ''user'', ti_permissions = []\<rparr>, \<lparr>ti_name = js ''folder'', ti_permissions = [js ''view'']\<rparr>,
      \<lparr>ti_name = js ''document'', ti_permissions = [js ''view'', js ''delete'']\<rparr>]"
  by (simp add: parseSchemaTypeInfos_renderDoc wfDoc_sample) (simp add: sampleDoc_def docPermInfo_def)

lemmas run_simps = evaluatorView_can sample_infos typeNames_def actionsForType_def evalUpdate_def selectResourceType_def
  handleCheck_def handleCheckSettled_def evaluator_init_def evalValid_def evalRequest_def js_def

lemma reach_filled: "evalReachable (renderDoc sampleDoc) filled"
  unfolding filled_def
  by (intro evalReachable.step [OF _ evalStep.typeResourceId] evalReachable.step [OF _ evalStep.chooseAction]
    evalReachable.step [OF _ evalStep.chooseResource] evalReachable.step [OF _ evalStep.typeSubjectId]
    evalReachable.step [OF _ evalStep.chooseSubject] evalReachable.start; simp only: evaluatorView_can; simp add: run_simps)

lemma press_filled: "canPress (evaluatorView (renderDoc sampleDoc) filled) (js ''Check'')"
  by (simp only: evaluatorView_can) (simp add: filled_def run_simps)

lemma reach_granted: "evalReachable (renderDoc sampleDoc) granted"
  unfolding granted_def
  by (intro evalReachable.step [OF _ evalStep.settled] evalReachable.step [OF _ evalStep.check] reach_filled press_filled)
    (simp add: handleCheck_def)

lemma shown_granted: "(js ''Decision'', Shown (js ''ALLOW'')) \<in> set (evaluatorView (renderDoc sampleDoc) granted)"
  by (simp only: evaluatorView_can) (simp add: granted_def handleCheckSettled_def)

section \<open>Properties\<close>

text \<open>
  The evaluator's scanner reads every rendered well-formed schema document back: the types
  in order, each with exactly the permissions it declares, in order.
\<close>

theorem parseSchemaTypeInfos_roundtrip:
  assumes "wfDoc d"
  shows "parseSchemaTypeInfos (renderDoc d) = map docPermInfo d"
  using assms by (rule parseSchemaTypeInfos_renderDoc)

theorem parseSchemaTypeInfos_roundtrip_witness:
  "parseSchemaTypeInfos (renderDoc sampleDoc) = map docPermInfo sampleDoc"
  using parseSchemaTypeInfos_roundtrip [OF wfDoc_sample] .

text \<open>
  On every text, a schema or not, the evaluator offers the type names the tuple dialog
  offers, in the same order.
\<close>

theorem evaluator_types_of_dialog: "typeNames source = map st_name (parseSchemaTypes source)"
  by (rule typeNames_dialog)

text \<open>
  Whatever the user does, a check that can be started is for a request the schema knows:
  no field is empty, and with a schema both types are declared and the permission is one the
  resource type declares, unless it declares none.
\<close>

theorem evaluator_sends_declared:
  assumes "evalReachable source s" "canPress (evaluatorView source s) (js ''Check'')"
  shows "requestDeclared source (evalRequest (ev_form s))"
  using formInv_request [OF formInv_reachable [OF assms(1)]] assms(2) by (simp add: evaluatorView_can)

theorem evaluator_sends_declared_witness:
  "evalReachable (renderDoc sampleDoc) filled \<and> canPress (evaluatorView (renderDoc sampleDoc) filled) (js ''Check'') \<and>
   requestDeclared (renderDoc sampleDoc) (evalRequest (ev_form filled))"
  using reach_filled press_filled evaluator_sends_declared [OF reach_filled press_filled] by blast



text \<open>
  The decision outlives the form it was made for: a state is reachable in which \<^verbatim>\<open>ALLOW\<close>
  is shown beside a form whose own request was never sent.
\<close>

theorem decision_outlives_form:
  "\<exists>s. evalReachable (renderDoc sampleDoc) s \<and>
     (js ''Decision'', Shown (js ''ALLOW'')) \<in> set (evaluatorView (renderDoc sampleDoc) s) \<and>
     ev_variables s \<noteq> Some (evalRequest (ev_form s))"
proof (intro exI conjI)
  show "evalReachable (renderDoc sampleDoc) (evalUpdate FSubjectId (js ''bob'') granted)"
    by (rule evalReachable.step [OF reach_granted evalStep.typeSubjectId]) (simp only: evaluatorView_can)
  show "(js ''Decision'', Shown (js ''ALLOW''))
      \<in> set (evaluatorView (renderDoc sampleDoc) (evalUpdate FSubjectId (js ''bob'') granted))"
    by (simp only: evaluatorView_can) (simp add: granted_def handleCheckSettled_def evalUpdate_def)
  show "ev_variables (evalUpdate FSubjectId (js ''bob'') granted) \<noteq>
       Some (evalRequest (ev_form (evalUpdate FSubjectId (js ''bob'') granted)))"
    by (simp add: granted_def filled_def run_simps)
qed

end
