(* ===== verification/Json_Text.thy ===== *)
theory Json_Text
  imports Json_Value
begin

text \<open>
  \<^verbatim>\<open>JSON.stringify\<close> and \<^verbatim>\<open>JSON.parse\<close> as ECMAScript defines them, on the values the console handles.
  The two conversions of numbers, \<open>showNum\<close> (\<^verbatim>\<open>Number::toString\<close>) and \<open>toNum\<close> (the value of a JSON
  number), are arguments; \<open>numText\<close> is what the standard says of them. \<open>parse_stringify\<close> is the
  round trip. The reader of values is recursive on what is left of the text; the tests
  \<^verbatim>\<open>length r < length s\<close> in it always hold (\<open>readers_shorter\<close>) and make its termination evident.
\<close>

abbreviation "QUOTE \<equiv> (0x22 :: cu)"
abbreviation "BACKSLASH \<equiv> (0x5C :: cu)"
abbreviation "DASH \<equiv> (0x2D :: cu)"
abbreviation "DOT \<equiv> (0x2E :: cu)"

section \<open>Hexadecimal escapes\<close>

definition hexDigit :: "nat \<Rightarrow> cu" where
  "hexDigit n = (if n < 10 then of_nat (0x30 + n) else of_nat (0x57 + n))"

definition hexValue :: "cu \<Rightarrow> nat option" where
  "hexValue c = (let n = unat c in
     if 0x30 \<le> n \<and> n \<le> 0x39 then Some (n - 0x30)
     else if 0x61 \<le> n \<and> n \<le> 0x66 then Some (n - 0x57)
     else if 0x41 \<le> n \<and> n \<le> 0x46 then Some (n - 0x37) else None)"

definition hex4 :: "cu \<Rightarrow> str" where
  "hex4 c = (let n = unat c in
     [hexDigit (n div 4096), hexDigit (n div 256 mod 16), hexDigit (n div 16 mod 16), hexDigit (n mod 16)])"

definition unhex4 :: "cu \<Rightarrow> cu \<Rightarrow> cu \<Rightarrow> cu \<Rightarrow> cu option" where
  "unhex4 a b c d =
     Option.bind (hexValue a) (\<lambda>w. Option.bind (hexValue b) (\<lambda>x. Option.bind (hexValue c) (\<lambda>y.
       map_option (\<lambda>z. of_nat (((w * 16 + x) * 16 + y) * 16 + z)) (hexValue d))))"

section \<open>Writing\<close>

definition isHigh :: "cu \<Rightarrow> bool" where "isHigh c \<longleftrightarrow> 0xD800 \<le> c \<and> c \<le> 0xDBFF"

definition isLow :: "cu \<Rightarrow> bool" where "isLow c \<longleftrightarrow> 0xDC00 \<le> c \<and> c \<le> 0xDFFF"

definition escapeU :: "cu \<Rightarrow> str" where
  "escapeU c = [BACKSLASH, 0x75] @ hex4 c"

definition quoteCu :: "cu \<Rightarrow> str" where
  "quoteCu c =
     (if c = 0x08 then [BACKSLASH, 0x62] else if c = 0x09 then [BACKSLASH, 0x74]
      else if c = 0x0A then [BACKSLASH, 0x6E] else if c = 0x0C then [BACKSLASH, 0x66]
      else if c = 0x0D then [BACKSLASH, 0x72] else if c = QUOTE then [BACKSLASH, QUOTE]
      else if c = BACKSLASH then [BACKSLASH, BACKSLASH]
      else if c < 0x20 then escapeU c else [c])"

text \<open>A surrogate that is not part of a pair is escaped.\<close>

fun quoteBody :: "str \<Rightarrow> str" where
  "quoteBody [] = []"
| "quoteBody [c] = (if isHigh c \<or> isLow c then escapeU c else quoteCu c)"
| "quoteBody (c # d # s) =
     (if isHigh c \<and> isLow d then c # d # quoteBody s
      else (if isHigh c \<or> isLow c then escapeU c else quoteCu c) @ quoteBody (d # s))"

definition quoteJson :: "str \<Rightarrow> str" where
  "quoteJson s = [QUOTE] @ quoteBody s @ [QUOTE]"

definition isFiniteNum :: "jsnum \<Rightarrow> bool" where
  "isFiniteNum x \<longleftrightarrow> unat x div 2 ^ 52 mod 2 ^ 11 \<noteq> 2 ^ 11 - 1"

fun stringify :: "(jsnum \<Rightarrow> str) \<Rightarrow> json \<Rightarrow> str" where
  "stringify showNum JNull = js ''null''"
| "stringify showNum (JBool b) = (if b then js ''true'' else js ''false'')"
| "stringify showNum (JNum x) = (if isFiniteNum x then showNum x else js ''null'')"
| "stringify showNum (JStr s) = quoteJson s"
| "stringify showNum (JArr vs) = [0x5B] @ join [COMMA] (map (stringify showNum) vs) @ [0x5D]"
| "stringify showNum (JObj kvs) =
     [0x7B] @ join [COMMA] (map (\<lambda>(k, v). quoteJson k @ [COLON] @ stringify showNum v) kvs) @ [0x7D]"

section \<open>Reading\<close>

definition isJsonWs :: "cu \<Rightarrow> bool" where
  "isJsonWs c \<longleftrightarrow> c = 0x20 \<or> c = 0x09 \<or> c = 0x0A \<or> c = 0x0D"

definition skipWs :: "str \<Rightarrow> str" where
  "skipWs s = dropWhile isJsonWs s"

definition simpleEscape :: "cu \<Rightarrow> cu option" where
  "simpleEscape e = map_of [(QUOTE, QUOTE), (BACKSLASH, BACKSLASH), (SLASH, SLASH), (0x62, 0x08), (0x66, 0x0C), (0x6E, 0x0A),
     (0x72, 0x0D), (0x74, 0x09)] e"

text \<open>The rest of a string literal, after the opening quote.\<close>

fun readString :: "str \<Rightarrow> (str \<times> str) option" where
  "readString [] = None"
| "readString (c # cs) =
     (if c = QUOTE then Some ([], cs)
      else if c = BACKSLASH then
        (case cs of
           e # es \<Rightarrow>
             if e = 0x75 then
               (case es of
                  h1 # h2 # h3 # h4 # r \<Rightarrow>
                    (case unhex4 h1 h2 h3 h4 of
                       Some u \<Rightarrow> map_option (\<lambda>(x, r'). (u # x, r')) (readString r) | None \<Rightarrow> None)
                | _ \<Rightarrow> None)
             else (case simpleEscape e of Some u \<Rightarrow> map_option (\<lambda>(x, r'). (u # x, r')) (readString es) | None \<Rightarrow> None)
         | [] \<Rightarrow> None)
      else if c < 0x20 then None
      else map_option (\<lambda>(x, r'). (c # x, r')) (readString cs))"

text \<open>The longest number at the start of the text: sign, integer part, fraction, exponent.\<close>

definition readDigits :: "str \<Rightarrow> str \<times> str" where
  "readDigits s = (takeWhile isDigit s, dropWhile isDigit s)"

definition readInt :: "str \<Rightarrow> (str \<times> str) option" where
  "readInt s = (case readDigits s of (ds, r) \<Rightarrow>
     if ds = [] then None else if hd ds = 0x30 then Some ([0x30], tl ds @ r) else Some (ds, r))"

definition readFrac :: "str \<Rightarrow> (str \<times> str) option" where
  "readFrac s = (if s \<noteq> [] \<and> hd s = DOT
     then (case readDigits (tl s) of (ds, r) \<Rightarrow> if ds = [] then None else Some (DOT # ds, r)) else Some ([], s))"

definition readExp :: "str \<Rightarrow> (str \<times> str) option" where
  "readExp s = (if s \<noteq> [] \<and> (hd s = 0x65 \<or> hd s = 0x45)
     then (let sg = (if tl s \<noteq> [] \<and> (hd (tl s) = 0x2B \<or> hd (tl s) = DASH) then [hd (tl s)] else []) in
       case readDigits (drop (length sg) (tl s)) of (ds, r) \<Rightarrow> if ds = [] then None else Some (hd s # sg @ ds, r))
     else Some ([], s))"

definition readNumber :: "str \<Rightarrow> (str \<times> str) option" where
  "readNumber s =
     (let sg = (if s \<noteq> [] \<and> hd s = DASH then [DASH] else []) in
      Option.bind (readInt (drop (length sg) s)) (\<lambda>(i, r1).
      Option.bind (readFrac r1) (\<lambda>(f, r2).
      map_option (\<lambda>(e, r3). (sg @ i @ f @ e, r3)) (readExp r2))))"

definition readWord :: "(str \<Rightarrow> jsnum) \<Rightarrow> str \<Rightarrow> (json \<times> str) option" where
  "readWord toNum s =
     (if startsWith s (js ''null'') then Some (JNull, drop 4 s)
      else if startsWith s (js ''true'') then Some (JBool True, drop 4 s)
      else if startsWith s (js ''false'') then Some (JBool False, drop 5 s)
      else map_option (\<lambda>(t, r). (JNum (toNum t), r)) (readNumber s))"

lemma skipWs_length: "length (skipWs s) \<le> length s"
  by (simp add: skipWs_def length_dropWhile_le)

lemma skipWs_Cons: "skipWs s = c # cs \<Longrightarrow> length cs < length s"
  using skipWs_length [of s] by simp

function (sequential) readValue :: "(str \<Rightarrow> jsnum) \<Rightarrow> str \<Rightarrow> (json \<times> str) option"
  and readElems :: "(str \<Rightarrow> jsnum) \<Rightarrow> json list \<Rightarrow> str \<Rightarrow> (json \<times> str) option"
  and readMembers :: "(str \<Rightarrow> jsnum) \<Rightarrow> jsobject \<Rightarrow> str \<Rightarrow> (json \<times> str) option" where
  "readValue toNum s =
     (case skipWs s of
        [] \<Rightarrow> None
      | c # cs \<Rightarrow>
          if c = QUOTE then map_option (\<lambda>(x, r). (JStr x, r)) (readString cs)
          else if c = 0x5B then
            (if startsWith (skipWs cs) [0x5D] then Some (JArr [], tl (skipWs cs)) else readElems toNum [] cs)
          else if c = 0x7B then
            (if startsWith (skipWs cs) [0x7D] then Some (JObj [], tl (skipWs cs)) else readMembers toNum [] cs)
          else readWord toNum (c # cs))"
| "readElems toNum acc s =
     (case readValue toNum s of
        None \<Rightarrow> None
      | Some (v, r) \<Rightarrow>
          (case skipWs r of
             [] \<Rightarrow> None
           | d # ds \<Rightarrow>
               if d = 0x5D then Some (JArr (acc @ [v]), ds)
               else if d = COMMA \<and> length ds < length s then readElems toNum (acc @ [v]) ds
               else None))"
| "readMembers toNum acc s =
     (case skipWs s of
        [] \<Rightarrow> None
      | q # qs \<Rightarrow>
          if q \<noteq> QUOTE then None
          else (case readString qs of
             None \<Rightarrow> None
           | Some (k, r) \<Rightarrow>
               (case skipWs r of
                  [] \<Rightarrow> None
                | d # ds \<Rightarrow>
                    if d = COLON \<and> length ds < length s then
                      (case readValue toNum ds of
                         None \<Rightarrow> None
                       | Some (v, r2) \<Rightarrow>
                           (case skipWs r2 of
                              [] \<Rightarrow> None
                            | e # es \<Rightarrow>
                                if e = 0x7D then Some (JObj (addProp k v acc), es)
                                else if e = COMMA \<and> length es < length s then readMembers toNum (addProp k v acc) es
                                else None))
                    else None)))"
  by pat_completeness auto
termination
proof (relation "measure (\<lambda>x. case x of Inl (_, s) \<Rightarrow> 2 * length s
    | Inr (Inl (_, _, s)) \<Rightarrow> 2 * length s + 1 | Inr (Inr (_, _, s)) \<Rightarrow> 2 * length s + 1)", goal_cases)
qed (auto dest!: skipWs_Cons)

declare readValue.simps [simp del] readElems.simps [simp del] readMembers.simps [simp del]

definition jsonParse :: "(str \<Rightarrow> jsnum) \<Rightarrow> str \<Rightarrow> json option" where
  "jsonParse toNum s = (case readValue toNum s of
     Some (v, r) \<Rightarrow> if skipWs r = [] then Some v else None | None \<Rightarrow> None)"

section \<open>Values with a text of their own\<close>

text \<open>
  What the standard says of the conversions: the text of a finite number is a JSON number, which the
  reader takes whole, and its value is the number again. (Negative zero is written \<^verbatim>\<open>0\<close>.)
\<close>

definition ownNum :: "jsnum \<Rightarrow> bool" where
  "ownNum x \<longleftrightarrow> isFiniteNum x \<and> x \<noteq> 0x8000000000000000"

definition endsNumber :: "str \<Rightarrow> bool" where
  "endsNumber r \<longleftrightarrow> r = [] \<or> \<not> isDigit (hd r) \<and> hd r \<noteq> DOT \<and> hd r \<noteq> 0x65 \<and> hd r \<noteq> 0x45"

definition numText :: "(jsnum \<Rightarrow> str) \<Rightarrow> (str \<Rightarrow> jsnum) \<Rightarrow> bool" where
  "numText showNum toNum \<longleftrightarrow>
     (\<forall>x. ownNum x \<longrightarrow> toNum (showNum x) = x \<and>
        (\<forall>r. endsNumber r \<longrightarrow> readNumber (showNum x @ r) = Some (showNum x, r)))"

text \<open>A value as it exists in the console: its numbers have a text of their own, its objects their order of properties.\<close>

definition addProps :: "(str \<times> 'a) list \<Rightarrow> (str \<times> 'a) list \<Rightarrow> (str \<times> 'a) list" where
  "addProps kvs obj = fold (\<lambda>(k, v). addProp k v) kvs obj"

fun okJson :: "json \<Rightarrow> bool" where
  "okJson JNull = True"
| "okJson (JBool b) = True"
| "okJson (JNum x) = ownNum x"
| "okJson (JStr s) = True"
| "okJson (JArr vs) = list_all okJson vs"
| "okJson (JObj kvs) = (addProps kvs [] = kvs \<and> list_all (\<lambda>(_, v). okJson v) kvs)"

section \<open>Strings round trip\<close>

lemma hexValue_hexDigit:
  assumes "n < 16"
  shows "hexValue (hexDigit n) = Some n"
proof -
  have u: "unat (of_nat m :: cu) = m" if "m < 256" for m using that by (simp add: unat_of_nat)
  show ?thesis
    using assms u [of "0x30 + n"] u [of "0x57 + n"]
    by (auto simp: hexValue_def hexDigit_def Let_def simp del: of_nat_add)
qed

lemma unhex4_hex4: "hex4 c = [h1, h2, h3, h4] \<Longrightarrow> unhex4 h1 h2 h3 h4 = Some c"
proof -
  assume h: "hex4 c = [h1, h2, h3, h4]"
  let ?n = "unat c"
  have n: "?n < 65536" using unsigned_less [of c] by simp
  then have "?n div 4096 < 16" by simp
  moreover have "m div (k * 16) * 16 + m div k mod 16 = m div k" for m k :: nat
    by (simp add: div_mult2_eq)
  from this [of ?n 256] this [of ?n 16] this [of ?n 1]
  have "((?n div 4096 * 16 + ?n div 256 mod 16) * 16 + ?n div 16 mod 16) * 16 + ?n mod 16 = ?n" by simp
  ultimately show ?thesis using h
    by (auto simp: hex4_def Let_def unhex4_def hexValue_hexDigit simp del: of_nat_add of_nat_mult)
qed

lemma readString_escapeU: "readString (escapeU c @ t) = map_option (\<lambda>(x, r). (c # x, r)) (readString t)"
proof -
  obtain h1 h2 h3 h4 where h: "hex4 c = [h1, h2, h3, h4]" by (simp add: hex4_def Let_def)
  then show ?thesis using unhex4_hex4 [OF h] by (simp add: escapeU_def)
qed

lemma readString_quoteCu: "readString (quoteCu c @ t) = map_option (\<lambda>(x, r). (c # x, r)) (readString t)"
  using readString_escapeU [of c t] by (auto simp: quoteCu_def simpleEscape_def not_less)

lemma readString_plain:
  "0xD800 \<le> c \<Longrightarrow> readString (c # t) = map_option (\<lambda>(x, r). (c # x, r)) (readString t)"
proof -
  assume "0xD800 \<le> c"
  then have "c \<noteq> QUOTE" "c \<noteq> BACKSLASH" "\<not> c < 0x20" by (auto simp: word_le_nat_alt word_less_nat_alt)
  then show ?thesis by simp
qed

lemma readString_quoteBody: "readString (quoteBody s @ QUOTE # r) = Some (s, r)"
proof (induction s rule: quoteBody.induct)
  case (2 c)
  then show ?case by (simp del: readString.simps(2) add: readString_escapeU readString_quoteCu) simp
next
  case (3 c d s)
  show ?case
  proof (cases "isHigh c \<and> isLow d")
    case True
    then have "0xD800 \<le> c" "0xD800 \<le> d" by (auto simp: isHigh_def isLow_def word_le_nat_alt)
    then show ?thesis using 3(1) [OF True] True by (simp del: readString.simps(2) add: readString_plain)
  next
    case False
    then have q: "quoteBody (c # d # s) = (if isHigh c \<or> isLow c then escapeU c else quoteCu c) @ quoteBody (d # s)" by auto
    show ?thesis unfolding q using 3(2) [OF False]
      by (simp del: readString.simps(2) add: readString_escapeU readString_quoteCu)
  qed
qed simp

section \<open>The first character of a value\<close>

definition startsValue :: "str \<Rightarrow> bool" where
  "startsValue s \<longleftrightarrow> s \<noteq> [] \<and> \<not> isJsonWs (hd s) \<and> hd s \<noteq> 0x5D \<and> hd s \<noteq> 0x7D"

lemma skipWs_start: "startsValue s \<Longrightarrow> skipWs (s @ r) = s @ r"
  by (cases s) (auto simp: startsValue_def skipWs_def)

lemma readNumber_start: "readNumber s = Some x \<Longrightarrow> s \<noteq> [] \<and> (hd s = DASH \<or> isDigit (hd s))"
proof -
  assume "readNumber s = Some x"
  then have "readInt (drop (length (if s \<noteq> [] \<and> hd s = DASH then [DASH] else [])) s) \<noteq> None"
    by (auto simp: readNumber_def Let_def bind_eq_Some_conv)
  then show ?thesis
    by (cases s) (auto simp: readInt_def readDigits_def split: if_splits)
qed

lemma digit_not:
  "isDigit c \<Longrightarrow> \<not> isJsonWs c \<and> c \<noteq> 0x5D \<and> c \<noteq> 0x7D \<and> c \<noteq> QUOTE \<and> c \<noteq> 0x5B \<and> c \<noteq> 0x7B \<and> c \<noteq> 0x6E \<and> c \<noteq> 0x74 \<and> c \<noteq> 0x66"
  by (auto simp: isDigit_def isJsonWs_def)

lemma showNum_start:
  assumes "numText showNum toNum" "ownNum x"
  shows "\<exists>c cs. showNum x = c # cs \<and> (c = DASH \<or> isDigit c)"
proof -
  have "readNumber (showNum x @ []) = Some (showNum x, [])" using assms by (simp add: numText_def endsNumber_def del: append_Nil2)
  then show ?thesis using readNumber_start by (cases "showNum x") fastforce+
qed

lemma stringify_start:
  assumes "numText showNum toNum" "okJson v"
  shows "startsValue (stringify showNum v)"
proof (cases v)
  case (JNum x)
  with assms have x: "ownNum x" by simp
  then show ?thesis using showNum_start [OF assms(1) x] digit_not JNum
    by (auto simp: startsValue_def ownNum_def) (auto simp: isJsonWs_def)
qed (auto simp: startsValue_def isJsonWs_def quoteJson_def js_def)

section \<open>Values round trip\<close>

lemma startsWith_one_Cons: "startsWith (c # s) [x] \<longleftrightarrow> c = x"
  by (auto simp: startsWith_def)

lemma readValue_word:
  "readWord toNum (c # cs) = x \<Longrightarrow> \<not> isJsonWs c \<Longrightarrow> c \<noteq> QUOTE \<Longrightarrow> c \<noteq> 0x5B \<Longrightarrow> c \<noteq> 0x7B \<Longrightarrow> readValue toNum (c # cs) = x"
  by (subst readValue.simps) (simp add: skipWs_def)

lemma readValue_null: "readValue toNum (js ''null'' @ r) = Some (JNull, r)"
  by (simp add: js_def) (rule readValue_word, simp_all add: readWord_def startsWith_def js_def isJsonWs_def)

lemma readValue_true: "readValue toNum (js ''true'' @ r) = Some (JBool True, r)"
  by (simp add: js_def) (rule readValue_word, simp_all add: readWord_def startsWith_def js_def isJsonWs_def)

lemma readValue_false: "readValue toNum (js ''false'' @ r) = Some (JBool False, r)"
  by (simp add: js_def) (rule readValue_word, simp_all add: readWord_def startsWith_def js_def isJsonWs_def)

lemmas readValue_literals = readValue_null readValue_true readValue_false

lemma readValue_number:
  assumes "numText showNum toNum" "ownNum x" "endsNumber r"
  shows "readValue toNum (showNum x @ r) = Some (JNum x, r)"
proof -
  obtain c cs where c: "showNum x = c # cs" "c = DASH \<or> isDigit c" using showNum_start [OF assms(1,2)] by blast
  have n: "readNumber (c # cs @ r) = Some (c # cs, r)" "toNum (c # cs) = x"
    using assms c(1) unfolding numText_def by (metis append_Cons)+
  have "\<not> isJsonWs c \<and> c \<noteq> QUOTE \<and> c \<noteq> 0x5B \<and> c \<noteq> 0x7B \<and> c \<noteq> 0x6E \<and> c \<noteq> 0x74 \<and> c \<noteq> 0x66"
    using c(2) digit_not by (auto simp: isJsonWs_def)
  then show ?thesis
    using n unfolding c(1) append_Cons
    by (intro readValue_word) (simp_all add: readWord_def startsWith_def js_def)
qed

definition readsBack :: "(jsnum \<Rightarrow> str) \<Rightarrow> (str \<Rightarrow> jsnum) \<Rightarrow> json \<Rightarrow> bool" where
  "readsBack showNum toNum v \<longleftrightarrow>
     startsValue (stringify showNum v) \<and>
     (\<forall>r. endsNumber r \<longrightarrow> readValue toNum (stringify showNum v @ r) = Some (v, r))"

lemma endsNumber_punct: "endsNumber (COMMA # r)" "endsNumber (0x5D # r)" "endsNumber (0x7D # r)"
  by (simp_all add: endsNumber_def isDigit_def)

lemma skipWs_punct: "skipWs (COMMA # r) = COMMA # r" "skipWs (0x5D # r) = 0x5D # r" "skipWs (0x7D # r) = 0x7D # r"
  "skipWs (COLON # r) = COLON # r" "skipWs (QUOTE # r) = QUOTE # r"
  by (simp_all add: skipWs_def isJsonWs_def)

lemma readElems_join:
  assumes "\<And>v. v \<in> set vs \<Longrightarrow> readsBack showNum toNum v" "vs \<noteq> []"
  shows "readElems toNum acc (join [COMMA] (map (stringify showNum) vs) @ 0x5D # r) = Some (JArr (acc @ vs), r)"
  using assms
proof (induction vs arbitrary: acc)
  case (Cons v vs)
  have v: "\<And>r. endsNumber r \<Longrightarrow> readValue toNum (stringify showNum v @ r) = Some (v, r)"
    using Cons.prems(1) [of v] by (simp add: readsBack_def)
  show ?case
  proof (cases vs)
    case Nil
    then show ?thesis by (subst readElems.simps) (simp add: v endsNumber_punct skipWs_punct)
  next
    case (Cons w ws)
    then show ?thesis using Cons.IH [of "acc @ [v]"] Cons.prems(1)
      by (subst readElems.simps) (simp add: v endsNumber_punct skipWs_punct)
  qed
qed simp

lemma readMembers_join:
  assumes "\<And>k v. (k, v) \<in> set kvs \<Longrightarrow> readsBack showNum toNum v" "kvs \<noteq> []"
  shows "readMembers toNum acc
      (join [COMMA] (map (\<lambda>(k, v). quoteJson k @ [COLON] @ stringify showNum v) kvs) @ 0x7D # r) =
    Some (JObj (addProps kvs acc), r)"
  using assms
proof (induction kvs arbitrary: acc)
  case (Cons kv kvs)
  obtain k v where kv: "kv = (k, v)" by fastforce
  have v: "\<And>r. endsNumber r \<Longrightarrow> readValue toNum (stringify showNum v @ r) = Some (v, r)"
    using Cons.prems(1) [of k v] by (simp add: readsBack_def kv)
  show ?case
  proof (cases kvs)
    case Nil
    then show ?thesis
      by (subst readMembers.simps)
        (simp add: kv quoteJson_def v readString_quoteBody endsNumber_punct skipWs_punct addProps_def del: readString.simps)
  next
    case more: (Cons w ws)
    have "readMembers toNum (addProp k v acc) (join [COMMA] (map (\<lambda>(k, v). quoteJson k @ [COLON] @ stringify showNum v) kvs) @ 0x7D # r) =
        Some (JObj (addProps kvs (addProp k v acc)), r)"
      using Cons.prems(1) more by (intro Cons.IH) (meson list.set_intros(2), simp)
    then show ?thesis using more
      by (subst readMembers.simps)
        (simp add: kv quoteJson_def v readString_quoteBody endsNumber_punct skipWs_punct addProps_def del: readString.simps)
  qed
qed simp

lemma stringify_arr_start:
  "vs \<noteq> [] \<Longrightarrow> startsValue (hd (map f vs)) \<Longrightarrow> startsValue (join [COMMA] (map f vs) @ r)"
  by (cases vs; cases "tl vs"; cases "f (hd vs)") (auto simp: startsValue_def)

lemma not_closing: "startsValue s \<Longrightarrow> \<not> startsWith (skipWs s) [0x5D] \<and> \<not> startsWith (skipWs s) [0x7D]"
  by (cases s) (auto simp: startsValue_def skipWs_def startsWith_def)

lemma readsBack_ok:
  assumes "numText showNum toNum"
  shows "okJson v \<Longrightarrow> readsBack showNum toNum v"
proof (induction v rule: okJson.induct)
  case (5 vs)
  have e: "\<And>v. v \<in> set vs \<Longrightarrow> readsBack showNum toNum v" using 5 by (simp add: list_all_iff)
  have "readValue toNum (stringify showNum (JArr vs) @ r) = Some (JArr vs, r)" for r
  proof (cases "vs = []")
    case False
    then have "startsValue (join [COMMA] (map (stringify showNum) vs) @ 0x5D # r)"
      using e by (intro stringify_arr_start) (auto simp: readsBack_def hd_map)
    then show ?thesis using readElems_join [OF e False, where acc = "[]" and r = r] not_closing
      by (subst readValue.simps) (simp add: skipWs_def isJsonWs_def)
  qed (subst readValue.simps, simp add: skipWs_def isJsonWs_def startsWith_def)
  then show ?case using stringify_start [OF assms 5(2)] by (simp add: readsBack_def del: stringify.simps)
next
  case (6 kvs)
  have e: "\<And>k v. (k, v) \<in> set kvs \<Longrightarrow> readsBack showNum toNum v" using 6 by (fastforce simp: list_all_iff)
  have "readValue toNum (stringify showNum (JObj kvs) @ r) = Some (JObj kvs, r)" for r
  proof (cases "kvs = []")
    case False
    then have "startsValue (join [COMMA] (map (\<lambda>(k, v). quoteJson k @ [COLON] @ stringify showNum v) kvs) @ 0x7D # r)"
      by (intro stringify_arr_start) (auto simp: quoteJson_def startsValue_def hd_map isJsonWs_def split: prod.splits)
    then show ?thesis using readMembers_join [OF e False, where acc = "[]" and r = r] 6(2) not_closing
      by (subst readValue.simps) (simp add: skipWs_def isJsonWs_def)
  qed (subst readValue.simps, simp add: skipWs_def isJsonWs_def startsWith_def)
  then show ?case using stringify_start [OF assms 6(2)] by (simp add: readsBack_def del: stringify.simps)
next
  case (3 x)
  then show ?case using readValue_number [OF assms] stringify_start [OF assms 3]
    by (simp add: readsBack_def ownNum_def)
next
  case (4 s)
  then show ?case using stringify_start [OF assms 4]
    by (simp add: readsBack_def quoteJson_def)
      (subst readValue.simps, simp add: skipWs_punct readString_quoteBody del: readString.simps)
next
  case 1
  then show ?case using stringify_start [OF assms 1] by (simp add: readsBack_def readValue_literals)
next
  case (2 b)
  then show ?case using stringify_start [OF assms 2] by (simp add: readsBack_def readValue_literals)
qed

lemma parse_stringify:
  assumes "numText showNum toNum" "okJson v"
  shows "jsonParse toNum (stringify showNum v) = Some v"
proof -
  have "readValue toNum (stringify showNum v @ []) = Some (v, [])"
    using readsBack_ok [OF assms] by (simp add: readsBack_def endsNumber_def del: append_Nil2)
  then show ?thesis by (simp add: jsonParse_def skipWs_def)
qed

section \<open>The readers consume\<close>

lemma readString_shorter: "readString s = Some (x, r) \<Longrightarrow> length r < length s"
proof (induction s arbitrary: x rule: readString.induct)
  case (2 c cs)
  then show ?case by (fastforce split: if_splits list.splits option.splits)
qed simp

lemma readDigits_append: "readDigits s = (ds, r) \<Longrightarrow> s = ds @ r"
  by (auto simp: readDigits_def)

lemma readInt_append: "readInt u = Some (a, b) \<Longrightarrow> u = a @ b \<and> a \<noteq> []"
proof -
  assume *: "readInt u = Some (a, b)"
  obtain ds r where d: "readDigits u = (ds, r)" by fastforce
  have "ds \<noteq> [] \<and> (hd ds = 0x30 \<and> a = [0x30] \<and> b = tl ds @ r \<or> a = ds \<and> b = r)"
    using * by (auto simp: readInt_def d split: if_splits)
  then show ?thesis using readDigits_append [OF d] by (cases ds) auto
qed

lemma readFrac_append: "readFrac u = Some (a, b) \<Longrightarrow> u = a @ b"
proof -
  assume *: "readFrac u = Some (a, b)"
  obtain ds r where d: "readDigits (tl u) = (ds, r)" by fastforce
  have "u \<noteq> [] \<and> hd u = DOT \<and> a = DOT # ds \<and> b = r \<or> a = [] \<and> b = u"
    using * by (auto simp: readFrac_def d split: if_splits)
  then show ?thesis using readDigits_append [OF d] by (cases u) auto
qed

lemma readExp_append: "readExp u = Some (a, b) \<Longrightarrow> u = a @ b"
proof -
  assume *: "readExp u = Some (a, b)"
  define sg where "sg = (if tl u \<noteq> [] \<and> (hd (tl u) = 0x2B \<or> hd (tl u) = DASH) then [hd (tl u)] else [])"
  obtain ds r where d: "readDigits (drop (length sg) (tl u)) = (ds, r)" by fastforce
  have "tl u = sg @ ds @ r" using readDigits_append [OF d] by (cases "tl u") (auto simp: sg_def split: if_splits)
  moreover have "u \<noteq> [] \<and> a = hd u # sg @ ds \<and> b = r \<or> a = [] \<and> b = u"
    using * by (auto simp: readExp_def d Let_def sg_def [symmetric] split: if_splits)
  ultimately show ?thesis by (cases u) auto
qed

lemma readNumber_append: "readNumber s = Some (t, r) \<Longrightarrow> s = t @ r \<and> t \<noteq> []"
  by (cases s) (fastforce simp: readNumber_def Let_def bind_eq_Some_conv split: if_splits
      dest!: readInt_append readFrac_append readExp_append)+

lemma readWord_shorter: "readWord toNum s = Some (v, r) \<Longrightarrow> length r < length s"
proof -
  have w: "startsWith s (js w) \<Longrightarrow> length w \<le> length s" for w
    unfolding startsWith_def by (metis length_js length_take min.cobounded1)
  assume "readWord toNum s = Some (v, r)"
  then show ?thesis
    using w [of "''null''"] w [of "''true''"] w [of "''false''"]
    by (auto simp: readWord_def split: if_splits dest!: readNumber_append)
qed

lemma tl_shorter: "startsWith s [c] \<Longrightarrow> length (tl s) < length s"
  by (cases s) (auto simp: startsWith_def)

lemma readers_shorter:
  "(readValue toNum s = Some (v, r) \<longrightarrow> length r < length s)"
  "(readElems toNum acc s = Some (v, r) \<longrightarrow> length r < length s)"
  "(readMembers toNum obj s = Some (v, r) \<longrightarrow> length r < length s)"
proof (induction toNum s and toNum acc s and toNum obj s arbitrary: v r and v r and v r
    rule: readValue_readElems_readMembers.induct)
  case (1 toNum s)
  show ?case
  proof (cases "skipWs s")
    case (Cons c cs)
    have l: "length cs < length s" by (rule skipWs_Cons [OF Cons])
    have t: "length (tl (skipWs cs)) \<le> length cs" using skipWs_length [of cs] by simp
    have el: "length r < length s"
      if "c = 0x5B" "\<not> startsWith (skipWs cs) [0x5D]" "readElems toNum [] cs = Some (v, r)"
      using 1(1) [OF Cons _ that(1,2), rule_format, OF _ that(3)] that(1) l by simp
    have mem: "length r < length s"
      if "c = 0x7B" "\<not> startsWith (skipWs cs) [0x7D]" "readMembers toNum [] cs = Some (v, r)"
      using 1(2) [OF Cons _ _ that(1,2), rule_format, OF _ _ that(3)] that(1) l by simp
    show ?thesis
      using Cons l t el mem skipWs_length [of s]
      by (subst readValue.simps) (auto dest!: readString_shorter readWord_shorter split: if_splits)
  qed (subst readValue.simps, simp)
next
  case (2 toNum acc s)
  show ?case
  proof (cases "readValue toNum s")
    case (Some wq)
    obtain w q where wq: "wq = (w, q)" by fastforce
    then have q: "length q < length s" using 2(1) Some by simp
    show ?thesis
    proof (cases "skipWs q")
      case (Cons d ds)
      have el: "length r < length s"
        if "d \<noteq> 0x5D" "d = COMMA \<and> length ds < length s" "readElems toNum (acc @ [w]) ds = Some (v, r)"
        using 2(2) [OF Some wq [symmetric] Cons that(1,2), rule_format, OF that(3)] that(2) by simp
      show ?thesis using Cons el skipWs_Cons [OF Cons] q Some wq
        by (subst readElems.simps) auto
    qed (subst readElems.simps, simp add: Some wq)
  qed (subst readElems.simps, simp)
next
  case (3 toNum obj s)
  show ?case
  proof
    assume "readMembers toNum obj s = Some (v, r)"
    then obtain qs k r1 ds w r2 e es where
      m: "skipWs s = QUOTE # qs" "readString qs = Some (k, r1)" "skipWs r1 = COLON # ds" "length ds < length s"
        "readValue toNum ds = Some (w, r2)" "skipWs r2 = e # es"
        "e = 0x7D \<and> r = es \<or> e = COMMA \<and> length es < length s \<and> readMembers toNum (addProp k w obj) es = Some (v, r)"
      by (subst (asm) readMembers.simps) (auto split: list.splits option.splits if_splits)
    have "length r2 < length ds" using 3(1) [OF m(1) _ m(2) refl m(3)] m(4,5) by simp
    then have "length es < length s" using skipWs_Cons [OF m(6)] m(4) by simp
    moreover have "length r < length s" if "e = COMMA" "readMembers toNum (addProp k w obj) es = Some (v, r)"
      using 3(2) [OF m(1) _ m(2) refl m(3) _ m(5) refl m(6), rule_format, OF _ _ _ _ that(2)] m(4) that(1) calculation by simp
    ultimately show "length r < length s" using m(7) by blast
  qed
qed

end
