(* ===== verification/Console_Server.thy ===== *)
theory Console_Server
  imports Server_Laws Changelog Schema_Evaluator Json_Text
begin

text \<open>
  The console against the server: a request of the client travels through the browser, the rewrites and the router
  (\<open>Api_Routes\<close>) to its handler (\<open>Server_Api\<close>), and the answer comes back as the console's data. The path arguments, the
  query and the JSON value of the body arrive as they were sent, which the encodings of URLs and of JSON provide for
  well-formed text. Times are shown by an argument.
\<close>

section \<open>The way there\<close>

definition fromConsole :: "httpRequest \<Rightarrow> str list \<Rightarrow> goRequest" where
  "fromConsole q path =
     \<lparr>gr_path = path, gr_tenantHeader = (case map_of (rq_headers q) (js ''X-Tenant-ID'') of Some v \<Rightarrow> v | None \<Rightarrow> []),
      gr_query = rq_params q, gr_body = (case rq_body q of JsonBody v \<Rightarrow> Some v | _ \<Rightarrow> None),
      gr_text = (case rq_body q of TextBody t \<Rightarrow> t | _ \<Rightarrow> [])\<rparr>"

definition callServer :: "'p serverEnv \<Rightarrow> gotime \<Rightarrow> str \<Rightarrow> httpRequest \<Rightarrow> 'p Server \<Rightarrow> goResponse option \<times> 'p Server" where
  "callServer env now page q srv =
     (case deliver page q of
        None \<Rightarrow> (None, srv)
      | Some (h, path) \<Rightarrow> (case serveRequest env now h (fromConsole q path) srv of (resp, srv') \<Rightarrow> (Some resp, srv')))"

section \<open>The way back\<close>

definition omitempty :: "str \<Rightarrow> str option" where
  "omitempty s = (if s = [] then None else Some s)"

definition wireTuple :: "(gotime \<Rightarrow> str) \<Rightarrow> RelationTuple \<Rightarrow> relationTuple" where
  "wireTuple showTime t =
     \<lparr>rt_tenant_id = TupleTenantID t, rt_object_type = ObjectType t, rt_object_id = ObjectID t, rt_relation = Relation t,
      rt_subject_type = SubjectType t, rt_subject_id = SubjectID t, rt_subject_relation = omitempty (SubjectRelation t),
      rt_subject_tenant_id = omitempty (SubjectTenantID t),
      rt_attributes = (case Attributes t of None \<Rightarrow> None | Some m \<Rightarrow> if m = [] then None else Some m),
      rt_created_at = showTime (CreatedAt t), rt_updated_at = showTime (UpdatedAt t), rt_source_system = omitempty (SourceSystem t),
      rt_external_id = omitempty (ExternalID t)\<rparr>"

definition wireOp :: "str \<Rightarrow> changeOp" where
  "wireOp oper = (if oper = ChangeOpInsert then INSERT else if oper = ChangeOpDelete then DELETE else UPDATE)"

definition wireEntry :: "(gotime \<Rightarrow> str) \<Rightarrow> ChangelogEntry \<Rightarrow> changelogEntry" where
  "wireEntry showTime e =
     \<lparr>cl_seq = unat (Sequence e), cl_tenant_id = EntryTenantID e, cl_op = wireOp (Operation e), cl_tuple = wireTuple showTime (EntryTuple e),
      cl_ts = showTime (Timestamp e), cl_actor = Actor e, cl_source = Source e,
      cl_meta = (case EntryMetadata e of None \<Rightarrow> None | Some m \<Rightarrow> if m = [] then None else Some m)\<rparr>"

definition wireChangelog :: "(gotime \<Rightarrow> str) \<Rightarrow> goResponse option \<Rightarrow> changelogResponse option" where
  "wireChangelog showTime resp =
     (case resp of
        Some (Reply n (ChangelogBody es k latest)) \<Rightarrow>
          if n = 200 then Some \<lparr>entries = map (wireEntry showTime) es, entries_count = k, latest_sequence = unat latest\<rparr> else None
      | _ \<Rightarrow> None)"

section \<open>Delivery\<close>

lemma tenant_plainSeg: "serverRun env srv \<Longrightarrow> statusOf (srv_store srv) tid \<noteq> None \<Longrightarrow> plainSeg tid"
  using serverRun_ok reachable_ids regexp_plainSeg by blast

lemma readable_status: "readableTenant s tid \<Longrightarrow> statusOf s tid \<noteq> None"
  by (auto simp: readableTenant_def statusOf_def)

lemma callServer_call:
  assumes "apiCall q h path" "page \<in> set consolePages" "list_all plainSeg path"
  shows "callServer env now page q srv = (case serveRequest env now h (fromConsole q path) srv of (resp, srv') \<Rightarrow> (Some resp, srv'))"
  using apiCall_delivered [OF assms] by (simp add: callServer_def)

text \<open>The context built for a tenant that may be read.\<close>

definition tenantContext :: "Store \<Rightarrow> str \<Rightarrow> goContext" where
  "tenantContext s tid = Some \<lparr>CtxTenantID = tid, CtxTenant = the (map_of (st_tenants s) tid),
     CtxConfig = MergeConfig (the (map_of (st_tenants s) tid)) None\<rparr>"

lemma BuildContext_tenant: "statusOf s tid \<noteq> None \<Longrightarrow> BuildContext ctx s tid = Inr (tenantContext s tid)"
  by (auto simp: BuildContext_def GetTenant_def statusOf_def WithTenantContext_def tenantContext_def)

lemma forTenant_tenantContext: "forTenant (tenantContext s tid) tid"
  by (simp add: forTenant_def tenantContext_def)

lemma path_context:
  assumes "statusOf s tid \<noteq> None" "tid \<noteq> []"
  shows "tenantCtxFromPath (fromConsole q (tid # path)) s = Inr (tenantContext s tid)"
  using BuildContext_tenant [OF assms(1)] assms(2) by (simp add: tenantCtxFromPath_def PathValue_def fromConsole_def)

lemma plainSeg_nonempty: "plainSeg s \<Longrightarrow> s \<noteq> []"
  by (simp add: plainSeg_def)

section \<open>Decoding the console's tuples\<close>

definition goTupleRequest :: "tupleRequest \<Rightarrow> TupleRequest" where
  "goTupleRequest q = \<lparr>TrObjectType = tq_object_type q, TrObjectID = tq_object_id q, TrRelation = tq_relation q,
     TrSubjectType = tq_subject_type q, TrSubjectID = tq_subject_id q, TrSubjectRelation = orEmpty (tq_subject_relation q),
     TrAttributes = map_option goMapOf (tq_attributes q), TrTTLSeconds = None, TrExpiresAt = []\<rparr>"

lemma goFold_tuple:
  "map goFold (js ''object_type'') = js ''object_type''" "map goFold (js ''object_id'') = js ''object_id''" "map goFold (js ''relation'') = js ''relation''"
  "map goFold (js ''subject_type'') = js ''subject_type''" "map goFold (js ''subject_id'') = js ''subject_id''"
  "map goFold (js ''subject_relation'') = js ''subject_relation''" "map goFold (js ''attributes'') = js ''attributes''"
  by code_simp+

lemma decode_tupleJson: "decodeTuple i (tupleJson q) = Inr (goTupleRequest q)"
  by (cases "tq_subject_relation q"; cases "tq_attributes q")
     (simp_all add: decodeTuple_def tupleJson_def decodeStruct_def stringField_def mapField_def int64Field_def goFold_tuple js_inj optField_def
       goTupleRequest_def zeroTupleRequest_def orEmpty_def)

section \<open>The filter of the tuples page\<close>

lemma queryValue_readTuples:
  "queryValue (fromConsole (readTuples tid f) path) ''object_type'' = orEmpty (tf_object_type f)"
  "queryValue (fromConsole (readTuples tid f) path) ''object_id'' = orEmpty (tf_object_id f)"
  "queryValue (fromConsole (readTuples tid f) path) ''relation'' = orEmpty (tf_relation f)"
  "queryValue (fromConsole (readTuples tid f) path) ''subject_type'' = orEmpty (tf_subject_type f)"
  "queryValue (fromConsole (readTuples tid f) path) ''subject_id'' = orEmpty (tf_subject_id f)"
  "queryValue (fromConsole (readTuples tid f) path) ''subject_relation'' = orEmpty (tf_subject_relation f)"
  "queryValue (fromConsole (readTuples tid f) path) ''include_expired'' = []"
  by (auto simp: queryValue_def fromConsole_def readTuples_def map_add_def map_of_param js_inj orEmpty_def given_def split: option.splits)

text \<open>A tuple agrees with every field of the filter that is filled in.\<close>

definition agrees :: "tupleFilter \<Rightarrow> RelationTuple \<Rightarrow> bool" where
  "agrees f t \<longleftrightarrow> list_all (\<lambda>(wanted, has). orEmpty wanted = [] \<or> orEmpty wanted = has)
     [(tf_object_type f, ObjectType t), (tf_object_id f, ObjectID t), (tf_relation f, Relation t), (tf_subject_type f, SubjectType t),
      (tf_subject_id f, SubjectID t), (tf_subject_relation f, SubjectRelation t)]"

lemma matches_agrees:
  "matchesTupleFilter t (Some (tupleFilterOf (fromConsole (readTuples tid f) path) b)) \<longleftrightarrow> agrees f t"
  by (auto simp: matchesTupleFilter_def tupleFilterOf_def queryValue_readTuples agrees_def)

section \<open>The log of a tenant\<close>

text \<open>The answer the changelog page gets for a position, and the states it gets one in.\<close>

definition answerAt :: "'p serverEnv \<Rightarrow> gotime \<Rightarrow> (gotime \<Rightarrow> str) \<Rightarrow> str \<Rightarrow> 'p Server \<Rightarrow> nat \<Rightarrow> changelogResponse option" where
  "answerAt env now showTime tid srv n =
     wireChangelog showTime (fst (callServer env now (js ''/changelog'') (q_request (changelogQuery tid n)) srv))"

definition logReady :: "'p serverEnv \<Rightarrow> str \<Rightarrow> 'p Server \<Rightarrow> bool" where
  "logReady env tid srv \<longleftrightarrow> serverRun env srv \<and> readableTenant (srv_store srv) tid \<and> length (changelogOf (srv_store srv) tid) < 2 ^ 53"

definition shownLog :: "(gotime \<Rightarrow> str) \<Rightarrow> str \<Rightarrow> 'p Server \<Rightarrow> changelogEntry list" where
  "shownLog showTime tid srv = map (wireEntry showTime) (changelogOf (srv_store srv) tid)"

lemma unat_of_nat_small: "n < 2 ^ 64 \<Longrightarrow> unat (of_nat n :: 64 word) = n"
  by (simp add: unat_of_nat)

lemma shownLog_seq:
  assumes "logReady env tid srv"
  shows "map cl_seq (shownLog showTime tid srv) = [1..<Suc (length (changelogOf (srv_store srv) tid))] \<and>
    unat (seqOf (srv_store srv) tid) = length (changelogOf (srv_store srv) tid)"
proof -
  let ?l = "changelogOf (srv_store srv) tid"
  have b: "length ?l < 2 ^ 53" "storeOk (srv_store srv)" using assms serverRun_ok serverReachable_ok by (auto simp: logReady_def)
  have d: "map Sequence ?l = map (\<lambda>i. of_nat (i + 1)) [0..<length ?l]" "seqOf (srv_store srv) tid = of_nat (length ?l)"
    using dataOk_of [OF b(2), of tid] by (simp_all add: dataOk_def logOk_def)
  have "map cl_seq (shownLog showTime tid srv) = map unat (map Sequence ?l)" by (simp add: shownLog_def wireEntry_def)
  also have "\<dots> = map (\<lambda>i. unat (of_nat (i + 1) :: 64 word)) [0..<length ?l]" unfolding d(1) by (simp only: map_map comp_def)
  also have "\<dots> = map Suc [0..<length ?l]" using b(1) by (intro map_cong refl) (auto simp: unat_of_nat_small simp del: of_nat_Suc of_nat_add)
  finally show ?thesis using d(2) b(1) by (simp add: map_Suc_upt unat_of_nat_small)
qed

lemma parseUint_showNat: "n < 2 ^ w \<Longrightarrow> parseUint w (showNat n) = Some n"
  using showNat_digits [of n] by (simp add: parseUint_def)

lemma Atoi_showNat: "n < 2 ^ 63 \<Longrightarrow> Atoi (showNat n) = Some (int n)"
proof -
  assume n: "n < 2 ^ 63"
  have d: "isDigit (hd (showNat n))" using showNat_digits [of n] by (auto simp: list_all_iff)
  have "hd (showNat n) \<noteq> 0x2D" "hd (showNat n) \<noteq> 0x2B" using d by (auto simp: isDigit_def)
  then have "\<not> startsWith (showNat n) [0x2D]" "\<not> startsWith (showNat n) [0x2B]"
    using showNat_digits [of n] by (cases "showNat n"; simp add: startsWith_one_Cons)+
  then show ?thesis using n showNat_digits [of n] by (simp add: Atoi_def Let_def)
qed

lemma changelogQuery_values:
  "queryValue (fromConsole (q_request (changelogQuery tid n)) path) ''since_seq'' = showNat n"
  "queryValue (fromConsole (q_request (changelogQuery tid n)) path) ''limit'' = showNat pageSize"
  by (simp_all add: queryValue_def fromConsole_def changelogQuery_def useChangelog_def readChangelog_def definedParam_def js_inj)

lemma handleReadChangelog_page:
  assumes "statusOf (srv_store srv) tid \<noteq> None" "tid \<noteq> []" "readableTenant (srv_store srv) tid" "n < 2 ^ 53"
  shows "handleReadChangelog (fromConsole (q_request (changelogQuery tid n)) [tid]) srv =
    Reply 200 (ChangelogBody (take pageSize (filter (\<lambda>e. of_nat n < Sequence e) (changelogOf (srv_store srv) tid)))
      (length (take pageSize (filter (\<lambda>e. of_nat n < Sequence e) (changelogOf (srv_store srv) tid)))) (seqOf (srv_store srv) tid))"
proof -
  have p: "parseUint 64 (showNat n) = Some n" "parseNonNegativeInt (showNat pageSize) ''limit'' = Inr 50"
    using assms(4) Atoi_showNat [of pageSize] by (simp_all add: parseUint_showNat parseNonNegativeInt_def pageSize_def)
  have ne: "showNat n \<noteq> []" "showNat pageSize \<noteq> []" using showNat_digits by blast+
  note r = reading_tenant [OF forTenant_tenantContext assms(3)]
  show ?thesis
    unfolding handleReadChangelog_def path_context [OF assms(1,2)] changelogQuery_values
    by (simp add: orElse_def Let_def ne p ReadChangelog_def LatestSequence_def r) (simp add: pageSize_def)
qed

lemma logReady_tenant:
  assumes "logReady env tid srv"
  shows "plainSeg tid" "statusOf (srv_store srv) tid \<noteq> None" "readableTenant (srv_store srv) tid"
  using assms tenant_plainSeg readable_status unfolding logReady_def by blast+

lemma changelog_delivered:
  assumes "logReady env tid srv"
  shows "callServer env now (js ''/changelog'') (q_request (changelogQuery tid n)) srv =
    (Some (handleReadChangelog (fromConsole (q_request (changelogQuery tid n)) [tid]) srv), srv)"
proof -
  have "plainSeg tid" using logReady_tenant(1) [OF assms] .
  moreover have "apiCall (q_request (changelogQuery tid n)) HandleReadChangelog [tid]"
    unfolding changelogQuery_def useChangelog_def by (simp add: apiCall.intros)
  moreover have "js ''/changelog'' \<in> set consolePages" by (simp add: consolePages_def)
  ultimately show ?thesis by (simp add: callServer_call serveRequest_def)
qed

lemma answerAt_eq:
  assumes "logReady env tid srv" "n < 2 ^ 53"
  shows "answerAt env now showTime tid srv n =
    Some \<lparr>entries = take pageSize (filter (\<lambda>e. n < cl_seq e) (shownLog showTime tid srv)),
      entries_count = length (take pageSize (filter (\<lambda>e. n < cl_seq e) (shownLog showTime tid srv))),
      latest_sequence = length (shownLog showTime tid srv)\<rparr>"
proof -
  let ?l = "changelogOf (srv_store srv) tid"
  note r = logReady_tenant(3) [OF assms(1)] and t = logReady_tenant(2) [OF assms(1)] plainSeg_nonempty [OF logReady_tenant(1) [OF assms(1)]]
  have "(of_nat n < Sequence e) = (n < unat (Sequence e))" for e :: ChangelogEntry
    using assms(2) unat_of_nat_small [of n] by (simp add: word_less_nat_alt)
  then have f: "map (wireEntry showTime) (filter (\<lambda>e. of_nat n < Sequence e) ?l) = filter (\<lambda>e. n < cl_seq e) (shownLog showTime tid srv)"
    by (simp add: shownLog_def filter_map comp_def wireEntry_def)
  have "length (take k (filter (\<lambda>e. of_nat n < Sequence e) ?l)) = length (take k (filter (\<lambda>e. n < cl_seq e) (shownLog showTime tid srv)))" for k
    by (simp flip: f)
  then show ?thesis
    using shownLog_seq [OF assms(1), of showTime]
    by (simp add: answerAt_def changelog_delivered [OF assms(1)] handleReadChangelog_page [OF t r assms(2)] wireChangelog_def take_map [symmetric] f)
       (simp add: shownLog_def)
qed

interpretation srvLog: changelog_source "logReady env tid" "answerAt env now showTime tid" "shownLog showTime tid" for env now showTime tid
proof
  fix s :: "'a Server" and n :: nat
  assume ok: "logReady env tid s"
  show "n < 2 ^ 53 \<Longrightarrow> \<exists>r. answerAt env now showTime tid s n = Some r \<and>
      entries r = take pageSize (filter (\<lambda>e. n < cl_seq e) (shownLog showTime tid s))"
    using answerAt_eq [OF ok] by simp
  note q = shownLog_seq [OF ok, of showTime, THEN conjunct1]
  have "sorted_wrt (<) (map cl_seq (shownLog showTime tid s))" unfolding q by (rule sorted_wrt_upt)
  then show "sorted_wrt (\<lambda>x y. cl_seq x < cl_seq y) (shownLog showTime tid s)" by (simp add: sorted_wrt_map)
  fix e assume "e \<in> set (shownLog showTime tid s)"
  then have "cl_seq e \<in> set (map cl_seq (shownLog showTime tid s))" by simp
  then show "0 < cl_seq e \<and> cl_seq e < 2 ^ 53" unfolding q using ok by (auto simp: logReady_def)
qed

section \<open>Writing and checking\<close>

lemma writeError_Reply: "writeError n e = Reply m b \<Longrightarrow> n = m"
  by (simp add: writeError_def split: if_splits)

lemma write_served:
  assumes "serverRun env srv" "page \<in> set consolePages" "plainSeg tid" "callServer env now page (writeTuple tid q) srv = (Some (Reply 201 b), srv')"
  shows "\<exists>s. writableTenant (srv_store srv) tid \<and>
    WriteTuple now (tenantContext (srv_store srv) tid) (tupleFromRequest (goTupleRequest q)) (srv_store srv) = Inr s \<and> srv' = srv\<lparr>srv_store := s\<rparr>"
proof -
  have c: "apiCall (writeTuple tid q) HandleWriteTuple [tid]" by (rule apiCall.intros)
  have "serveRequest env now HandleWriteTuple (fromConsole (writeTuple tid q) [tid]) srv = (Reply 201 b, srv')"
    using assms(4) callServer_call [OF c assms(2), of env now srv] assms(3) by (auto split: prod.splits)
  then have h: "handleWriteTuple env now (fromConsole (writeTuple tid q) [tid]) srv = (Reply 201 b, srv')" by (simp add: serveRequest_def)
  have st: "statusOf (srv_store srv) tid \<noteq> None"
  proof
    assume "statusOf (srv_store srv) tid = None"
    then have "tenantCtxFromPath (fromConsole (writeTuple tid q) [tid]) (srv_store srv) = Inl (BuildContextFailed tid ErrTenantNotFound)"
      using plainSeg_nonempty [OF assms(3)]
      by (simp add: tenantCtxFromPath_def PathValue_def fromConsole_def BuildContext_def GetTenant_def statusOf_def)
    then show False using h by (simp add: handleWriteTuple_def orFail_def writeError_def tenantContextErrStatus_def errStatus_def)
  qed
  note ctx = path_context [OF st plainSeg_nonempty [OF assms(3)]]
  have body: "readJSON (fromConsole (writeTuple tid q) [tid]) (decodeTuple (env_int64 env)) = Inr (goTupleRequest q)"
    by (simp add: readJSON_def fromConsole_def writeTuple_def decode_tupleJson)
  have t: "tupleFromWriteRequest (env_rfc3339 env) (goTupleRequest q) now = Inr (tupleFromRequest (goTupleRequest q))"
    by (simp add: tupleFromWriteRequest_def tupleExpiryFromRequest_def goTupleRequest_def TrimSpace_def tupleFromRequest_def)
  let ?w = "WriteTuple now (tenantContext (srv_store srv) tid) (tupleFromRequest (goTupleRequest q)) (srv_store srv)"
  have "orFail bad srv (validateTupleRequest (goTupleRequest q)) (\<lambda>_. orFail errStatus srv ?w (\<lambda>s. (Reply 201 OkBody, srv\<lparr>srv_store := s\<rparr>))) =
      (Reply 201 b, srv')" using h unfolding handleWriteTuple_def ctx body by (simp only: orFail_def sum.case t)
  from orFail_cases [OF this] have "orFail errStatus srv ?w (\<lambda>s. (Reply 201 OkBody, srv\<lparr>srv_store := s\<rparr>)) = (Reply 201 b, srv')"
    by (auto dest: writeError_Reply [OF sym])
  from orFail_cases [OF this] obtain s where s: "?w = Inr s" "srv' = srv\<lparr>srv_store := s\<rparr>"
  proof (elim disjE exE conjE)
    fix e assume "Reply 201 b = writeError (errStatus e) e"
    then have "errStatus e = 201" by (rule writeError_Reply [OF sym])
    then show ?thesis using errStatus_error [of e] by simp
  qed (use that in simp)
  have "writableTenant (srv_store srv) tid"
    using s(1) forTenant_tenantContext [of "srv_store srv" tid] by (auto simp: WriteTuple_def writing_Inr forTenant_def)
  then show ?thesis using s by blast
qed

lemma decode_check:
  "decodeEvaluation (JObj [(js ''subject'', JObj [(js ''type'', JStr st), (js ''id'', JStr si)]),
     (js ''resource'', JObj [(js ''type'', JStr ot), (js ''id'', JStr oi)]), (js ''action'', JObj [(js ''name'', JStr p)])]) =
   Inr \<lparr>AeSubject = \<lparr>AzType = st, AzID = si, AzProperties = None\<rparr>, AeResource = \<lparr>AzType = ot, AzID = oi, AzProperties = None\<rparr>,
     AeAction = \<lparr>AaName = p, AaProperties = None\<rparr>, AeContext = None\<rparr>"
proof -
  have "map goFold (js ''type'') = js ''type''" "map goFold (js ''id'') = js ''id''" "map goFold (js ''name'') = js ''name''" by code_simp+
  then show ?thesis
    using decodeEvaluation_body [of "JObj [(js ''type'', JStr st), (js ''id'', JStr si)]"
        "(JObj [(js ''type'', JStr ot), (js ''id'', JStr oi)], JObj [(js ''name'', JStr p)])"]
    by (simp add: evaluationBody_def entityDecoder_def actionDecoder_def decodeStruct_def stringField_def mapField_def js_inj zeroEntity_def zeroAction_def)
qed

text \<open>The request the engine gets for a check of the console.\<close>

definition engineRequest :: "checkRequest \<Rightarrow> CheckRequest" where
  "engineRequest c = \<lparr>ReqObjectType = cr_resource_type c, ReqObjectID = cr_resource_id c, ReqPermission = cr_action c,
     ReqSubjectType = cr_subject_type c, ReqSubjectID = cr_subject_id c, ReqContext = None\<rparr>"

lemma check_served:
  assumes "page \<in> set consolePages" "statusOf (srv_store srv) tid \<noteq> None" "tid \<noteq> []"
  shows "callServer env now page (checkPermission tid c) srv =
    (Some (Reply 200 (DecisionBody (checkDecision env now (tenantContext (srv_store srv) tid) srv (engineRequest c)))), srv)"
proof -
  have a: "apiCall (checkPermission tid c) HandleEvaluation []" by (rule apiCall.intros)
  have x: "tenantCtxFromHeader (fromConsole (checkPermission tid c) []) (srv_store srv) = Inr (tenantContext (srv_store srv) tid)"
    using BuildContext_tenant [OF assms(2)] assms(3) by (simp add: tenantCtxFromHeader_def fromConsole_def checkPermission_def)
  have b: "readJSON (fromConsole (checkPermission tid c) []) decodeEvaluation =
      Inr \<lparr>AeSubject = \<lparr>AzType = cr_subject_type c, AzID = cr_subject_id c, AzProperties = None\<rparr>,
        AeResource = \<lparr>AzType = cr_resource_type c, AzID = cr_resource_id c, AzProperties = None\<rparr>,
        AeAction = \<lparr>AaName = cr_action c, AaProperties = None\<rparr>, AeContext = None\<rparr>"
    by (simp add: readJSON_def fromConsole_def checkPermission_def decode_check)
  show ?thesis
    unfolding callServer_call [OF a assms(1) list.pred_inject(1)] serveRequest_def
    by (simp add: handleAuthZenEvaluation_def orElse_def x b checkRequestOf_def engineRequest_def)
qed

text \<open>A permission without a condition that has the relation among its alternatives.\<close>

definition grantsRelation :: "'p CompiledSchema \<Rightarrow> str \<Rightarrow> str \<Rightarrow> str \<Rightarrow> bool" where
  "grantsRelation cs ty p rel \<longleftrightarrow> (case GetPermission cs ty p of Inl _ \<Rightarrow> False
     | Inr pd \<Rightarrow> PermCondition pd = None \<and> list_ex (\<lambda>ref. Kind ref = KindRelation \<and> RelationRef ref = rel) (Children pd))"

text \<open>A union schema and live tuples that are within the bounds of exactness.\<close>

definition withinBounds :: "gotime \<Rightarrow> Store \<Rightarrow> str \<Rightarrow> 'p CompiledSchema \<Rightarrow> bool" where
  "withinBounds now s tid cs \<longleftrightarrow> unionSchema cs \<and> plainTuples (liveTuples now s tid) \<and>
     card (set (liveTuples now s tid)) * length (permissionNames cs) \<le> DefaultMaxCheckDepth"

lemma writable_active:
  assumes "serverReachable s" "writableTenant s tid"
  shows "\<exists>t. map_of (st_tenants s) tid = Some t \<and> Status t = TenantActive"
  using reachable_status [OF assms(1), of tid] assms(2) by (auto simp: statusOf_def writableTenant_def)

lemma decision_grants:
  assumes "serverRun env srv" "map_of (st_tenants (srv_store srv)) tid = Some t" "IsReadable t" "SchemaMode t = SchemaOwn"
    "srv_compiled srv tid = Some cs" "withinBounds now (srv_store srv) tid cs" "plainNode (checkNode req)"
    "GetPermission cs (ReqObjectType req) (ReqPermission req) = Inr pd" "PermCondition pd = None"
  shows "checkDecision env now (tenantContext (srv_store srv) tid) srv req \<longleftrightarrow>
    grants (env_expr env) (tenantLookups now tid (srv_store srv)) cs req pd"
proof -
  have reg: "eng_schemas (srv_eng srv) = srv_compiled srv" "MaxCheckDepth (srv_eng srv) = DefaultMaxCheckDepth"
    using serverRun_ok [OF assms(1)] by (simp_all add: registriesOk_def)
  have "servesTenant (srv_eng srv) (tenantContext (srv_store srv) tid) tid (srv_store srv) cs"
    using assms(2-5) reg(1) by (auto simp: servesTenant_def tenantContext_def schemaForTenant_def Let_def readableTenant_def IsReadable_def)
  moreover have "card (reachNodes (tenantLookups now tid (srv_store srv)) cs (checkNode req)) \<le> Suc (MaxCheckDepth (srv_eng srv))"
    using mem.reachNodes_bound [of now tid "srv_store srv" cs "checkNode req"] assms(6) reg(2) by (simp add: withinBounds_def)
  ultimately obtain r where "Check (env_expr env) (srv_eng srv) (memoryLookups now (tenantContext (srv_store srv) tid) (srv_store srv))
      (tenantContext (srv_store srv) tid) req = Inr r" "Allowed r \<longleftrightarrow> grants (env_expr env) (tenantLookups now tid (srv_store srv)) cs req pd"
    using Check_decides [OF _ _ _ assms(7,8,9)] assms(6) unfolding withinBounds_def by blast
  then show ?thesis by (simp add: checkDecision_def)
qed

section \<open>Examples\<close>

definition sampleRequest :: tupleRequest where
  "sampleRequest = \<lparr>tq_object_type = js ''document'', tq_object_id = js ''d1'', tq_relation = js ''viewer'', tq_subject_type = js ''user'',
     tq_subject_id = js ''alice'', tq_subject_relation = None, tq_attributes = None\<rparr>"

lemma super_tenant: "plainSeg (js ''super'')" "js ''/tuples'' \<in> set consolePages" "js ''/schema'' \<in> set consolePages"
  by code_simp+

section \<open>Properties\<close>

text \<open>
  Claim C23. A filter means what it says, from the form to the store: for the request the page sends, the server
  answers, in order, exactly the tenant's tuples that have not expired and agree with every field of the
  filter that is filled in.
\<close>

theorem filter_means:
  assumes "serverRun env srv" "readableTenant (srv_store srv) tid" "page \<in> set consolePages"
  shows "callServer env now page (readTuples tid f) srv =
    (let ts = filter (\<lambda>t. \<not> tupleIsExpiredAt t now \<and> agrees f t) (tuplesOf (srv_store srv) tid)
     in (Some (Reply 200 (TuplesBody ts (length ts))), srv))"
proof -
  note st = readable_status [OF assms(2)] and pl = tenant_plainSeg [OF assms(1) readable_status [OF assms(2)]]
  have c: "apiCall (readTuples tid f) HandleReadTuples [tid]" by (rule apiCall.intros)
  have "ReadTuples now (tenantContext (srv_store srv) tid) (Some (tupleFilterOf (fromConsole (readTuples tid f) [tid]) False)) (srv_store srv) =
      Inr (filter (\<lambda>t. \<not> tupleIsExpiredAt t now \<and> agrees f t) (tuplesOf (srv_store srv) tid))"
    unfolding ReadTuples_def reading_tenant [OF forTenant_tenantContext assms(2)] matches_agrees by (simp add: tupleFilterOf_def)
  then show ?thesis
    using pl callServer_call [OF c assms(3), of env now srv]
    by (simp add: serveRequest_def handleReadTuples_def path_context [OF st plainSeg_nonempty [OF pl]] queryValue_readTuples orElse_def Let_def)
qed

theorem filter_means_witness:
  "\<exists>ts. callServer sampleEnv 9 (js ''/tuples'') (readTuples (js ''super'')
     \<lparr>tf_object_type = Some (js ''document''), tf_object_id = None, tf_relation = None, tf_subject_type = None, tf_subject_id = None,
      tf_subject_relation = None\<rparr>) documentServer = (Some (Reply 200 (TuplesBody ts (length ts))), documentServer)"
proof -
  have "readableTenant (srv_store documentServer) (js ''super'')" by code_simp
  from filter_means [OF documentServer_run(1) this super_tenant(2)] show ?thesis by (simp add: Let_def)
qed

text \<open>
  Claim C24. Pressing Load More as long as it is offered comes to an end and shows every entry of the tenant's log
  exactly once and in order, in every state the server can be in, as long as the sequence numbers are integers a
  JavaScript number holds exactly.
\<close>

theorem pages_cover_log:
  assumes "serverRun env srv" "readableTenant (srv_store srv) tid" "length (changelogOf (srv_store srv) tid) < 2 ^ 53"
  shows "\<exists>pages. pagesFrom (answerAt env now showTime tid srv) 0 = Some pages \<and>
    concat pages = map (wireEntry showTime) (changelogOf (srv_store srv) tid)"
  using srvLog.pages_cover [of env tid srv now showTime] assms by (simp add: logReady_def shownLog_def)

theorem pages_cover_log_witness:
  "\<exists>pages. pagesFrom (answerAt sampleEnv 9 (\<lambda>_. []) (js ''super'') documentServer) 0 = Some pages \<and> length (concat pages) = 1"
proof -
  have r: "readableTenant (srv_store documentServer) (js ''super'')" "length (changelogOf (srv_store documentServer) (js ''super'')) = 1" by code_simp+
  then show ?thesis using pages_cover_log [OF documentServer_run(1) r(1), of 9 "\<lambda>_. []"] by auto
qed

text \<open>
  The position in the log outlives a change of tenant: when the position reached in one tenant's log lies
  beyond the end of the other's, the page says that there are no entries, without a button, while the badge shows
  that there are some.
\<close>

theorem position_outlives_tenant:
  assumes "logReady env tid srv" "length (changelogOf (srv_store srv) tid) \<le> n" "n < 2 ^ 53"
  shows "ChangelogPage toLocaleString (Some tid) (answerAt env now showTime tid srv n) False =
    LogContent (Some (length (changelogOf (srv_store srv) tid))) (LogTable (Inl (js ''No changelog entries found.'')) False)"
proof -
  have "\<forall>x \<in> set (map cl_seq (shownLog showTime tid srv)). x \<le> n" using shownLog_seq [OF assms(1), of showTime] assms(2) by auto
  then have "filter (\<lambda>e. n < cl_seq e) (shownLog showTime tid srv) = []" by (auto simp: filter_empty_conv)
  then show ?thesis
    using answerAt_eq [OF assms(1,3), of now showTime] plainSeg_nonempty [OF logReady_tenant(1) [OF assms(1)]]
    by (simp add: ChangelogPage_def ChangelogTable_def given_iff shownLog_def) (simp add: pageSize_def)
qed

theorem position_outlives_tenant_witness:
  "ChangelogPage (\<lambda>x. x) (Some (js ''super'')) (answerAt sampleEnv 9 (\<lambda>_. []) (js ''super'') documentServer 50) False =
   LogContent (Some 1) (LogTable (Inl (js ''No changelog entries found.'')) False)"
proof -
  have r: "readableTenant (srv_store documentServer) (js ''super'')" "length (changelogOf (srv_store documentServer) (js ''super'')) = 1" by code_simp+
  then have "logReady sampleEnv (js ''super'') documentServer" using documentServer_run by (simp add: logReady_def)
  from position_outlives_tenant [OF this, of 50 "\<lambda>x. x" 9 "\<lambda>_. []"] r(2) show ?thesis by simp
qed

text \<open>
  Claim C16. What is created is granted: after the server has accepted a tuple for a direct subject, created in the
  console, an evaluation from the console of any unconditional permission that has the tuple's relation among its
  alternatives answers true for that subject and object, at every later time, within the bounds of exactness.
\<close>

theorem written_then_allowed:
  assumes "serverRun env srv" "page \<in> set consolePages" "plainSeg tid"
    "callServer env now page (writeTuple tid q) srv = (Some (Reply 201 b), srv')" "orEmpty (tq_subject_relation q) = []"
    "map_of (st_tenants (srv_store srv)) tid = Some t" "SchemaMode t = SchemaOwn" "srv_compiled srv tid = Some cs"
    "grantsRelation cs (tq_object_type q) p (tq_relation q)" "withinBounds now' (srv_store srv') tid cs"
    "plainNode (tq_object_type q, tq_object_id q, p)"
  shows "callServer env now' page (checkPermission tid \<lparr>cr_subject_type = tq_subject_type q, cr_subject_id = tq_subject_id q,
      cr_resource_type = tq_object_type q, cr_resource_id = tq_object_id q, cr_action = p\<rparr>) srv' = (Some (Reply 200 (DecisionBody True)), srv')"
proof -
  let ?c = "\<lparr>cr_subject_type = tq_subject_type q, cr_subject_id = tq_subject_id q, cr_resource_type = tq_object_type q,
    cr_resource_id = tq_object_id q, cr_action = p\<rparr>"
  let ?t = "tupleFromRequest (goTupleRequest q)"
  obtain s where s: "writableTenant (srv_store srv) tid" "WriteTuple now (tenantContext (srv_store srv) tid) ?t (srv_store srv) = Inr s"
    "srv' = srv\<lparr>srv_store := s\<rparr>" using write_served [OF assms(1-4)] by blast
  have reach: "serverReachable (srv_store srv)" using serverRun_ok [OF assms(1)] by blast
  note live = written_live [OF serverReachable_ok [OF reach] forTenant_tenantContext s(2)]
  have run: "serverRun env srv'"
  proof -
    have "snd (serveRequest env now HandleWriteTuple (fromConsole (writeTuple tid q) [tid]) srv) = srv'"
      using assms(4) callServer_call [OF apiCall.intros(6) assms(2), of tid env now q srv] assms(3) by (auto split: prod.splits)
    then show ?thesis using serverRun.request [OF assms(1)] by blast
  qed
  have t': "map_of (st_tenants (srv_store srv')) tid = Some t" using live assms(6) s(3) by simp
  have act: "IsReadable t" using writable_active [OF reach s(1)] assms(6) by (auto simp: IsReadable_def)
  obtain pd ref where pd: "GetPermission cs (tq_object_type q) p = Inr pd" "PermCondition pd = None" "ref \<in> set (Children pd)"
    "Kind ref = KindRelation" "RelationRef ref = tq_relation q"
    using assms(9) by (auto simp: grantsRelation_def list_ex_iff split: sum.splits)
  have "list_ex (\<lambda>u. ObjectType u = tq_object_type q \<and> ObjectID u = tq_object_id q \<and> Relation u = tq_relation q \<and> SubjectType u = tq_subject_type q \<and>
      SubjectID u = tq_subject_id q \<and> SubjectRelation u = [] \<and> \<not> tupleIsExpiredAt u now') (tuplesOf s tid)"
    unfolding list_ex_iff using live assms(5)
    by (intro bexI [of _ "stamp now tid ?t"]) (simp_all add: stamp_def tupleFromRequest_def goTupleRequest_def tupleIsExpiredAt_def)
  then have d: "lk_direct (tenantLookups now' tid (srv_store srv')) (tq_object_type q) (tq_object_id q) (tq_relation q) (tq_subject_type q) (tq_subject_id q) = Inr True"
    using s(3) by (simp add: tenantLookups_def)
  have "PermOperation pd = PermOpUnion \<or> PermOperation pd = PermOpDirect" using unionSchema_perm [OF _ pd(1)] assms(10) by (simp add: withinBounds_def)
  then have "grants (env_expr env) (tenantLookups now' tid (srv_store srv')) cs (engineRequest ?c) pd"
    using pd(3-5) d by (intro grants_refHolds.anyOf [OF _ pd(3)] grants_refHolds.tuple) (simp_all add: engineRequest_def)
  then have "checkDecision env now' (tenantContext (srv_store srv') tid) srv' (engineRequest ?c)"
    using decision_grants [OF run t' act assms(7) _ assms(10), of "engineRequest ?c" pd] assms(8,11) pd(1,2) s(3)
    by (simp add: engineRequest_def checkNode_def)
  then show ?thesis
    using check_served [OF assms(2) _ plainSeg_nonempty [OF assms(3)], of srv' env now' ?c] t' by (simp add: statusOf_def)
qed

theorem written_then_allowed_witness:
  "\<exists>srv'. callServer sampleEnv 4 (js ''/tuples'') (writeTuple (js ''super'') sampleRequest) loadedServer = (Some (Reply 201 OkBody), srv') \<and>
     callServer sampleEnv 6 (js ''/tuples'') (checkPermission (js ''super'') \<lparr>cr_subject_type = js ''user'', cr_subject_id = js ''alice'',
       cr_resource_type = js ''document'', cr_resource_id = js ''d1'', cr_action = js ''view''\<rparr>) srv' = (Some (Reply 200 (DecisionBody True)), srv')"
proof -
  define srv' where "srv' = snd (callServer sampleEnv 4 (js ''/tuples'') (writeTuple (js ''super'') sampleRequest) loadedServer)"
  define cs where "cs = the (srv_compiled loadedServer (js ''super''))"
  have "fst (callServer sampleEnv 4 (js ''/tuples'') (writeTuple (js ''super'') sampleRequest) loadedServer) = Some (Reply 201 OkBody)" by code_simp
  then have w: "callServer sampleEnv 4 (js ''/tuples'') (writeTuple (js ''super'') sampleRequest) loadedServer = (Some (Reply 201 OkBody), srv')"
    by (simp add: srv'_def prod_eq_iff)
  have "case map_of (st_tenants (srv_store loadedServer)) (js ''super'') of Some t \<Rightarrow> SchemaMode t = SchemaOwn | None \<Rightarrow> False" by code_simp
  then obtain t where t: "map_of (st_tenants (srv_store loadedServer)) (js ''super'') = Some t" "SchemaMode t = SchemaOwn" by (auto split: option.splits)
  have c: "srv_compiled loadedServer (js ''super'') = Some cs"
  proof -
    have "srv_compiled loadedServer (js ''super'') \<noteq> None" by code_simp
    then show ?thesis by (simp add: cs_def)
  qed
  have g: "grantsRelation cs (js ''document'') (js ''view'') (js ''viewer'')" unfolding cs_def by code_simp
  have b: "withinBounds 6 (srv_store srv') (js ''super'') cs" unfolding srv'_def cs_def by code_simp
  have "plainNode (js ''document'', js ''d1'', js ''view'')" by code_simp
  then show ?thesis
    using w written_then_allowed [OF documentServer_run(2) super_tenant(2,1) w _ t c, of "js ''view''" 6] g b
    by (auto simp: sampleRequest_def orEmpty_def)
qed

lemma delete_request_tuple:
  "sameTuple (tupleFromRequest (goTupleRequest (deleteRequest (wireTuple showTime t)))) t"
  "tupleIdentityKey (tupleFromRequest (goTupleRequest (deleteRequest (wireTuple showTime t)))) = tupleIdentityKey t"
  by (simp_all add: sameTuple_def tupleIdentityKey_def tupleFromRequest_def goTupleRequest_def deleteRequest_def wireTuple_def omitempty_def orEmpty_def)

text \<open>
  The delete button of the table deletes what its row shows: for a tuple of the tenant, as the server sent it
  to the console, whose five parts are not blank, the request of the table is answered with 204 and removes this
  tuple from the store, and no other.
\<close>

theorem row_deletes_its_tuple:
  assumes "serverRun env srv" "page \<in> set consolePages" "writableTenant (srv_store srv) tid" "t \<in> set (tuplesOf (srv_store srv) tid)"
    "validateTupleRequest (goTupleRequest (deleteRequest (wireTuple showTime t))) = Inr ()"
  shows "\<exists>s. callServer env now page (deleteTuple tid (deleteRequest (wireTuple showTime t))) srv = (Some (Reply 204 NoContent), srv\<lparr>srv_store := s\<rparr>) \<and>
    tupleMap (tuplesOf s tid) = (tupleMap (tuplesOf (srv_store srv) tid))(tupleIdentityKey t := None)"
proof -
  let ?q = "deleteRequest (wireTuple showTime t)"
  have st: "statusOf (srv_store srv) tid \<noteq> None" using readable_status [OF writable_readable [OF assms(3)]] .
  note pl = tenant_plainSeg [OF assms(1) st]
  have c: "apiCall (deleteTuple tid ?q) HandleDeleteTuple [tid]" by (rule apiCall.intros)
  have "storeOk (srv_store srv)" using serverRun_ok [OF assms(1)] serverReachable_ok by blast
  moreover have "list_ex (sameTuple (tupleFromRequest (goTupleRequest ?q))) (tuplesOf (srv_store srv) tid)"
    using assms(4) delete_request_tuple(1) unfolding list_ex_iff by blast
  ultimately obtain s where s: "DeleteTuple now (tenantContext (srv_store srv) tid) (tupleFromRequest (goTupleRequest ?q)) (srv_store srv) = Inr s"
    "tupleMap (tuplesOf s tid) = (tupleMap (tuplesOf (srv_store srv) tid))(tupleIdentityKey t := None)"
    using DeleteTuple_spec [OF _ forTenant_tenantContext [of "srv_store srv"] assms(3), where now = now and tuple = "tupleFromRequest (goTupleRequest ?q)"] delete_request_tuple(2) [of showTime t]
    by (auto split: sum.splits)
  have b: "readJSON (fromConsole (deleteTuple tid ?q) [tid]) (decodeTuple (env_int64 env)) = Inr (goTupleRequest ?q)"
    by (simp add: readJSON_def fromConsole_def deleteTuple_def decode_tupleJson)
  show ?thesis
    using s pl callServer_call [OF c assms(2), of env now srv]
    by (auto simp: serveRequest_def handleDeleteTuple_def path_context [OF st plainSeg_nonempty [OF pl]] b assms(5) orFail_def)
qed

theorem row_deletes_its_tuple_witness:
  "\<exists>t s. t \<in> set (tuplesOf (srv_store documentServer) (js ''super'')) \<and>
     callServer sampleEnv 9 (js ''/tuples'') (deleteTuple (js ''super'') (deleteRequest (wireTuple (\<lambda>_. []) t))) documentServer =
       (Some (Reply 204 NoContent), documentServer\<lparr>srv_store := s\<rparr>)"
proof -
  define t where "t = hd (tuplesOf (srv_store documentServer) (js ''super''))"
  have "tuplesOf (srv_store documentServer) (js ''super'') \<noteq> []" by code_simp
  then have m: "t \<in> set (tuplesOf (srv_store documentServer) (js ''super''))" by (simp add: t_def)
  have w: "writableTenant (srv_store documentServer) (js ''super'')" by code_simp
  have v: "validateTupleRequest (goTupleRequest (deleteRequest (wireTuple (\<lambda>_. []) t))) = Inr ()" unfolding t_def by code_simp
  show ?thesis using m row_deletes_its_tuple [OF documentServer_run(1) super_tenant(2) w m v, of 9] by blast
qed

text \<open>The answer of a check as the client's promise settles; every answer but a decision is an error of the client.\<close>

definition wireDecision :: "clientError \<Rightarrow> goResponse option \<Rightarrow> clientError + bool" where
  "wireDecision err resp = (case resp of Some (Reply n (DecisionBody d)) \<Rightarrow> if n = 200 then Inr d else Inl err | _ \<Rightarrow> Inl err)"


definition askForm :: "string \<Rightarrow> evaluator" where
  "askForm user = evaluator_init\<lparr>ev_form := \<lparr>ef_resource_type = js ''document'', ef_resource_id = js ''d1'', ef_action = js ''view'',
     ef_subject_type = js ''user'', ef_subject_id = js user\<rparr>\<rparr>"


end
