(* ===== verification/Schema_Graph.thy ===== *)
theory Schema_Graph
  imports Complex_Main Tuple_Parser
begin

text \<open>
  The schema graph of \<^verbatim>\<open>schema-graph.tsx\<close>: its scanner \<^verbatim>\<open>parseTypes\<close>, the graph builder
  \<^verbatim>\<open>buildGraph\<close> and what the nodes show. The scanner stores the types in a \<^verbatim>\<open>Map\<close> under their names,
  so its state keeps an association list and \<open>gs_currentType\<close> is the key of the current object.
  The layout computed by dagre is a parameter, a function from the nodes and edges to positions.
\<close>

section \<open>Data\<close>

record parsedRelation =
  pr_relation :: str
  pr_targets :: "str list"

record parsedType =
  pt_name :: str
  pt_relations :: "parsedRelation list"

record gscan =
  gs_parsed :: "(str \<times> parsedType) list"
  gs_inTypesSection :: bool
  gs_currentType :: "str option"
  gs_currentSection :: sect
  gs_currentRelation :: "nat option"
  gs_collectingTypesList :: bool

record typeNodeData =
  label :: str
  isExternal :: bool
  relCount :: nat

record flowNode =
  node_id :: str
  node_data :: typeNodeData
  node_x :: rat
  node_y :: rat

record flowEdge =
  edge_id :: str
  edge_source :: str
  edge_target :: str
  edge_label :: str

section \<open>The scanner\<close>

definition gscan_init :: gscan where
  "gscan_init = \<lparr>gs_parsed = [], gs_inTypesSection = False, gs_currentType = None,
     gs_currentSection = SecNull, gs_currentRelation = None, gs_collectingTypesList = False\<rparr>"

definition pushRelation :: "str \<Rightarrow> parsedRelation \<Rightarrow> (str \<times> parsedType) list \<Rightarrow> (str \<times> parsedType) list" where
  "pushRelation k r = AList.map_entry k (\<lambda>t. t\<lparr>pt_relations := pt_relations t @ [r]\<rparr>)"

definition pushTargets :: "str \<Rightarrow> nat \<Rightarrow> str list \<Rightarrow> (str \<times> parsedType) list \<Rightarrow> (str \<times> parsedType) list" where
  "pushTargets k j items =
     AList.map_entry k (\<lambda>t. t\<lparr>pt_relations := (pt_relations t)[j := (pt_relations t ! j)
       \<lparr>pr_targets := pr_targets (pt_relations t ! j) @ items\<rparr>]\<rparr>)"

definition relationCount :: "str \<Rightarrow> (str \<times> parsedType) list \<Rightarrow> nat" where
  "relationCount k m = (case map_of m k of None \<Rightarrow> 0 | Some t \<Rightarrow> length (pt_relations t))"

definition parseTypesLine :: "nat \<Rightarrow> str \<Rightarrow> gscan \<Rightarrow> gscan" where
  "parseTypesLine indent line s =
     (if indent = 0 then
        s\<lparr>gs_inTypesSection := (line = js ''types:''), gs_currentType := None,
          gs_currentSection := SecNull, gs_currentRelation := None, gs_collectingTypesList := False\<rparr>
      else if \<not> gs_inTypesSection s then s
      else if indent = 2 \<and> endsWith line [COLON] then
        (let typeName = trim (strSlice line 0 (-1)) in
         if \<not> truthy typeName then s
         else s\<lparr>gs_parsed := AList.update typeName \<lparr>pt_name = typeName, pt_relations = []\<rparr> (gs_parsed s),
                gs_currentType := Some typeName, gs_currentSection := SecNull,
                gs_currentRelation := None, gs_collectingTypesList := False\<rparr>)
      else (case gs_currentType s of None \<Rightarrow> s | Some k \<Rightarrow>
        if indent = 4 \<and> endsWith line [COLON] then
          s\<lparr>gs_currentSection :=
              (if trim (strSlice line 0 (-1)) = js ''relations'' then SecRelations else SecNull),
            gs_currentRelation := None, gs_collectingTypesList := False\<rparr>
        else if gs_currentSection s \<noteq> SecRelations then s
        else if indent = 6 \<and> endsWith line [COLON] then
          s\<lparr>gs_parsed := pushRelation k
               \<lparr>pr_relation = trim (strSlice line 0 (-1)), pr_targets = []\<rparr> (gs_parsed s),
            gs_currentRelation := Some (relationCount k (gs_parsed s)),
            gs_collectingTypesList := False\<rparr>
        else (case gs_currentRelation s of None \<Rightarrow> s | Some j \<Rightarrow>
          if indent = 8 \<and> startsWith line (js ''types:'') then
            (let rawTypes = trim (sliceFrom line 6) in
             if truthy rawTypes
             then s\<lparr>gs_parsed := pushTargets k j (parseInlineList rawTypes) (gs_parsed s),
                    gs_collectingTypesList := False\<rparr>
             else s\<lparr>gs_collectingTypesList := True\<rparr>)
          else if gs_collectingTypesList s \<and> 10 \<le> indent \<and> startsWith line [0x2D] then
            (let item = trim (sliceFrom line 1) in
             if truthy item
             then s\<lparr>gs_parsed := pushTargets k j [stripQuotes item] (gs_parsed s)\<rparr>
             else s)
          else if indent \<le> 8 then s\<lparr>gs_collectingTypesList := False\<rparr>
          else s)))"

definition gscanLine :: "str \<Rightarrow> gscan \<Rightarrow> gscan" where
  "gscanLine rawLine s =
     (if skipLine rawLine then s else parseTypesLine (lineIndent rawLine) (trim rawLine) s)"

definition parseTypes :: "str \<Rightarrow> parsedType list" where
  "parseTypes source = map snd (gs_parsed (fold gscanLine (split NL source) gscan_init))"

section \<open>The graph builder\<close>

record gbuild =
  gb_nodes :: "flowNode list"
  gb_addedTypes :: "str list"
  gb_edgeRelations :: "(str \<times> str list) list"

definition ARROW :: cu where "ARROW = 0x2192"

definition typeId :: "str \<Rightarrow> str" where
  "typeId n = js ''type:'' @ n"

definition pushNode :: "str \<Rightarrow> bool \<Rightarrow> nat \<Rightarrow> gbuild \<Rightarrow> gbuild" where
  "pushNode n ext cnt g =
     g\<lparr>gb_addedTypes := gb_addedTypes g @ [n],
       gb_nodes := gb_nodes g @ [\<lparr>node_id = typeId n,
         node_data = \<lparr>label = n, isExternal = ext, relCount = cnt\<rparr>, node_x = 0, node_y = 0\<rparr>]\<rparr>"

text \<open>\<^verbatim>\<open>if (!m.has(k)) m.set(k, []); m.get(k).push(v)\<close>.\<close>

definition pushEdge :: "str \<Rightarrow> str \<Rightarrow> (str \<times> str list) list \<Rightarrow> (str \<times> str list) list" where
  "pushEdge k v m =
     (case map_of m k of None \<Rightarrow> m @ [(k, [v])] | Some vs \<Rightarrow> AList.update k (vs @ [v]) m)"

definition targetType :: "str \<Rightarrow> str" where
  "targetType target = hd (split HASH target)"

definition visitTarget :: "(str \<rightharpoonup> parsedType) \<Rightarrow> str \<Rightarrow> str \<Rightarrow> str \<Rightarrow> gbuild \<Rightarrow> gbuild" where
  "visitTarget typesByName srcName rel target g =
     (let tt = targetType target in
      if \<not> truthy tt then g
      else
        let g1 = (if tt \<in> set (gb_addedTypes g) then g
                  else case typesByName tt of
                         None \<Rightarrow> pushNode tt True 0 g
                       | Some targetDef \<Rightarrow> pushNode tt False (length (pt_relations targetDef)) g)
        in g1\<lparr>gb_edgeRelations := pushEdge (srcName @ [ARROW] @ tt) rel (gb_edgeRelations g1)\<rparr>)"

definition visitType :: "(str \<rightharpoonup> parsedType) \<Rightarrow> parsedType \<Rightarrow> gbuild \<Rightarrow> gbuild" where
  "visitType typesByName typeDef g =
     (let g0 = (if pt_name typeDef \<in> set (gb_addedTypes g) then g
                else pushNode (pt_name typeDef) False (length (pt_relations typeDef)) g)
      in fold (\<lambda>r. fold (visitTarget typesByName (pt_name typeDef) (pr_relation r)) (pr_targets r))
           (pt_relations typeDef) g0)"

definition edgeOf :: "str \<times> str list \<Rightarrow> flowEdge" where
  "edgeOf e =
     (let key = fst e; arrowIdx = indexOf ARROW key;
          sourceType = (case arrowIdx of Some i \<Rightarrow> take i key | None \<Rightarrow> strSlice key 0 (-1));
          targType = (case arrowIdx of Some i \<Rightarrow> drop (i + 1) key | None \<Rightarrow> key)
      in \<lparr>edge_id = js ''edge:'' @ key, edge_source = typeId sourceType, edge_target = typeId targType,
          edge_label = join (js '', '') (snd e)\<rparr>)"

type_synonym graph_layout = "flowNode list \<Rightarrow> flowEdge list \<Rightarrow> str \<Rightarrow> rat \<times> rat"

definition placeNode :: "(str \<Rightarrow> rat \<times> rat) \<Rightarrow> flowNode \<Rightarrow> flowNode" where
  "placeNode pos n = n\<lparr>node_x := fst (pos (node_id n)) - 80, node_y := snd (pos (node_id n)) - 28\<rparr>"

definition graphOf :: "graph_layout \<Rightarrow> parsedType list \<Rightarrow> flowNode list \<times> flowEdge list" where
  "graphOf layout parsedTypes =
     (let typesByName = map_of (rev (map (\<lambda>t. (pt_name t, t)) parsedTypes));
          g = fold (visitType typesByName) parsedTypes
                \<lparr>gb_nodes = [], gb_addedTypes = [], gb_edgeRelations = []\<rparr>;
          edges = map edgeOf (gb_edgeRelations g)
      in (map (placeNode (layout (gb_nodes g) edges)) (gb_nodes g), edges))"

definition buildGraph :: "graph_layout \<Rightarrow> str \<Rightarrow> flowNode list \<times> flowEdge list" where
  "buildGraph layout source = graphOf layout (parseTypes source)"

section \<open>What is shown\<close>

text \<open>The line under a node's name, and the colours of the node and of its place in the mini map.\<close>

definition typeNodeCaption :: "typeNodeData \<Rightarrow> str" where
  "typeNodeCaption d =
     (if isExternal d then js ''external''
      else if relCount d > 0
      then showNat (relCount d) @ js '' relation'' @ (if relCount d \<noteq> 1 then js ''s'' else [])
      else js ''no relations'')"

definition miniMapColors :: "typeNodeData \<Rightarrow> str \<times> str" where
  "miniMapColors d =
     (if isExternal d then js ''#cbd5e1'' else js ''#93c5fd'',
      if isExternal d then js ''#94a3b8'' else js ''#3b82f6'')"

datatype graphView = GraphMessage str | GraphCanvas "flowNode list" "flowEdge list"

definition SchemaGraph :: "graph_layout \<Rightarrow> str \<Rightarrow> graphView" where
  "SchemaGraph layout source =
     (case buildGraph layout source of (nodes, edges) \<Rightarrow>
        if nodes = [] then GraphMessage (js ''Unable to parse schema relations for graph visualization.'')
        else GraphCanvas nodes edges)"

section \<open>The two scanners agree\<close>

text \<open>
  The graph's scanner and the dialog's scanner read the same schema. They differ in one thing: a
  type declared twice appears twice in the dialog's list, while the graph's \<^verbatim>\<open>Map\<close> keeps the last
  declaration, at the place of the first. \<open>asMap\<close> is that difference.
\<close>

definition toParsedRelation :: "schemaRelation \<Rightarrow> parsedRelation" where
  "toParsedRelation r = \<lparr>pr_relation = sr_name r, pr_targets = sr_allowedTypes r\<rparr>"

definition toParsedType :: "schemaTypeInfo \<Rightarrow> parsedType" where
  "toParsedType t = \<lparr>pt_name = st_name t, pt_relations = map toParsedRelation (st_relations t)\<rparr>"

definition asMap :: "schemaTypeInfo list \<Rightarrow> (str \<times> parsedType) list" where
  "asMap ts = fold (\<lambda>t. AList.update (st_name t) (toParsedType t)) ts []"

lemma update_update_same: "AList.update k v (AList.update k w m) = AList.update k v m"
  by (induction m) auto

lemma map_entry_update: "AList.map_entry k f (AList.update k v m) = AList.update k (f v) m"
  by (induction m) auto

lemma map_of_update_same: "map_of (AList.update k v m) k = Some v"
  by (simp add: update_conv')

lemma asMap_snoc: "asMap (ts @ [t]) = AList.update (st_name t) (toParsedType t) (asMap ts)"
  by (simp add: asMap_def)

text \<open>The simulation: the dialog's current type is the last of its list.\<close>

definition scan_rel :: "dscan \<Rightarrow> gscan \<Rightarrow> bool" where
  "scan_rel d g \<longleftrightarrow>
     gs_inTypesSection g = ds_inTypesSection d \<and>
     gs_currentSection g = ds_currentSection d \<and>
     gs_currentRelation g = ds_currentRelation d \<and>
     gs_collectingTypesList g = ds_collectingTypesList d \<and>
     gs_parsed g = asMap (ds_result d) \<and>
     (case ds_currentType d of
        None \<Rightarrow> gs_currentType g = None
      | Some i \<Rightarrow> (\<exists>ts t. ds_result d = ts @ [t] \<and> i = length ts \<and> gs_currentType g = Some (st_name t) \<and>
          (\<forall>j. ds_currentRelation d = Some j \<longrightarrow> j < length (st_relations t))))"

lemma scan_rel_init: "scan_rel dscan_init gscan_init"
  by (simp add: scan_rel_def dscan_init_def gscan_init_def asMap_def)

lemma scan_rel_Some:
  "ds_currentType d = Some (length ts) \<Longrightarrow> ds_result d = ts @ [t] \<Longrightarrow>
     scan_rel d g \<longleftrightarrow>
       gs_inTypesSection g = ds_inTypesSection d \<and> gs_currentSection g = ds_currentSection d \<and>
       gs_currentRelation g = ds_currentRelation d \<and>
       gs_collectingTypesList g = ds_collectingTypesList d \<and>
       gs_parsed g = asMap (ts @ [t]) \<and> gs_currentType g = Some (st_name t) \<and>
       (\<forall>j. ds_currentRelation d = Some j \<longrightarrow> j < length (st_relations t))"
  by (auto simp: scan_rel_def)

definition addAllowed :: "nat \<Rightarrow> str list \<Rightarrow> schemaTypeInfo \<Rightarrow> schemaTypeInfo" where
  "addAllowed j items t = t\<lparr>st_relations := (st_relations t)[j := (st_relations t ! j)
     \<lparr>sr_allowedTypes := sr_allowedTypes (st_relations t ! j) @ items\<rparr>]\<rparr>"

lemma addAllowed_simps [simp]:
  "st_name (addAllowed j items t) = st_name t"
  "length (st_relations (addAllowed j items t)) = length (st_relations t)"
  by (simp_all add: addAllowed_def)

lemma pushAllowedTypes_snoc: "pushAllowedTypes (length ts) j items (ts @ [t]) = ts @ [addAllowed j items t]"
  by (simp add: pushAllowedTypes_def addAllowed_def)

lemma pushTargets_rel:
  "j < length (st_relations t) \<Longrightarrow>
     pushTargets (st_name t) j items (asMap (ts @ [t])) = asMap (ts @ [addAllowed j items t])"
  by (simp add: pushTargets_def addAllowed_def asMap_snoc map_entry_update toParsedType_def
      toParsedRelation_def map_update)

lemma pushRelation_rel:
  "pushRelation (st_name t) (toParsedRelation r) (asMap (ts @ [t])) =
     asMap (ts @ [t\<lparr>st_relations := st_relations t @ [r]\<rparr>])"
  by (simp add: pushRelation_def asMap_snoc map_entry_update toParsedType_def)

lemma relationCount_rel: "relationCount (st_name t) (asMap (ts @ [t])) = length (st_relations t)"
  by (simp add: relationCount_def asMap_snoc map_of_update_same toParsedType_def)

lemma toParsedRelation_new:
  "\<lparr>pr_relation = r, pr_targets = []\<rparr> = toParsedRelation \<lparr>sr_name = r, sr_allowedTypes = []\<rparr>"
  by (simp add: toParsedRelation_def)

lemma scan_rel_outside:
  assumes "scan_rel d g" "n = 0 \<or> \<not> ds_inTypesSection d \<or> n = 2 \<and> endsWith l [COLON] \<or> ds_currentType d = None"
  shows "scan_rel (parseSchemaTypesLine n l d) (parseTypesLine n l g)"
proof -
  have "scan_rel d g \<Longrightarrow> gs_inTypesSection g = ds_inTypesSection d" by (simp add: scan_rel_def)
  with assms show ?thesis
    by (cases "n = 0"; cases "ds_inTypesSection d"; cases "n = 2 \<and> endsWith l [COLON]")
      (auto simp: scan_rel_def parseSchemaTypesLine_def parseTypesLine_def Let_def asMap_snoc toParsedType_def)
qed

lemma scan_rel_inside:
  assumes rel: "scan_rel d g" and d: "ds_result d = ts @ [t]" "ds_currentType d = Some (length ts)"
    and line: "n \<noteq> 0" "ds_inTypesSection d" "\<not> (n = 2 \<and> endsWith l [COLON])"
  shows "scan_rel (parseSchemaTypesLine n l d) (parseTypesLine n l g)"
proof -
  note step = parseSchemaTypesLine_def parseTypesLine_def Let_def scan_rel_Some pushAllowedTypes_snoc
    pushRelation_rel pushTargets_rel relationCount_rel toParsedRelation_new
  note g = rel [unfolded scan_rel_Some [OF d(2,1)]]
  have notype: "(n = 2 \<and> endsWith l [COLON]) = False" using line by blast
  consider (sec) "(n = 4 \<and> endsWith l [COLON]) = True"
    | (other) "(n = 4 \<and> endsWith l [COLON]) = False" "ds_currentSection d \<noteq> SecRelations"
    | (key) "(n = 4 \<and> endsWith l [COLON]) = False" "ds_currentSection d = SecRelations"
        "(n = 6 \<and> endsWith l [COLON]) = True"
    | (item) "(n = 4 \<and> endsWith l [COLON]) = False" "ds_currentSection d = SecRelations"
        "(n = 6 \<and> endsWith l [COLON]) = False"
    by blast
  then show ?thesis
  proof cases
    case sec
    with d line g show ?thesis by (simp add: step notype)
  next
    case other
    with d line(1,2) g show ?thesis by (simp add: step notype other)
  next
    case key
    with d line(1,2) g show ?thesis by (simp add: step notype key)
  next
    case item
    with d line(1,2) g show ?thesis
      by (cases "ds_currentRelation d") (simp_all add: step notype item)
  qed
qed

lemma scan_rel_line:
  assumes "scan_rel d g"
  shows "scan_rel (dscanLine l d) (gscanLine l g)"
proof (cases "lineIndent l = 0 \<or> \<not> ds_inTypesSection d \<or>
    lineIndent l = 2 \<and> endsWith (trim l) [COLON] \<or> ds_currentType d = None")
  case True
  with assms show ?thesis by (simp add: dscanLine_def gscanLine_def scan_rel_outside)
next
  case False
  with assms obtain ts t where "ds_result d = ts @ [t]" "ds_currentType d = Some (length ts)"
    by (auto simp: scan_rel_def)
  with assms False show ?thesis by (auto simp: dscanLine_def gscanLine_def intro: scan_rel_inside)
qed

lemma scan_rel_fold: "scan_rel d g \<Longrightarrow> scan_rel (fold dscanLine ls d) (fold gscanLine ls g)"
  by (induction ls arbitrary: d g) (auto simp: scan_rel_line)

lemma parseTypes_asMap: "parseTypes source = map snd (asMap (parseSchemaTypes source))"
  using scan_rel_fold [OF scan_rel_init] by (simp add: parseTypes_def parseSchemaTypes_def scan_rel_def)

lemma update_new: "k \<notin> fst ` set m \<Longrightarrow> AList.update k v m = m @ [(k, v)]"
  by (induction m) auto

lemma asMap_distinct:
  "distinct (map st_name ts) \<Longrightarrow> asMap ts = map (\<lambda>t. (st_name t, toParsedType t)) ts"
proof (induction ts rule: rev_induct)
  case (snoc t ts)
  then show ?case by (auto simp: asMap_snoc update_new image_image)
qed (simp add: asMap_def)

section \<open>The graph of a schema\<close>

text \<open>
  The links a schema declares: source type, target type and relation, in the order of the text.
  The builder's three results are described by them: the edges by grouping, the added types by
  collecting.
\<close>

definition targetLinks :: "str \<Rightarrow> str \<Rightarrow> str list \<Rightarrow> (str \<times> str \<times> str) list" where
  "targetLinks n rel tgs =
     map (\<lambda>tg. (n, targetType tg, rel)) (filter (\<lambda>tg. truthy (targetType tg)) tgs)"

definition typeLinks :: "parsedType \<Rightarrow> (str \<times> str \<times> str) list" where
  "typeLinks t = concat (map (\<lambda>r. targetLinks (pt_name t) (pr_relation r) (pr_targets r)) (pt_relations t))"

definition links :: "parsedType list \<Rightarrow> (str \<times> str \<times> str) list" where
  "links ts = concat (map typeLinks ts)"

definition linkTarget :: "str \<times> str \<times> str \<Rightarrow> str" where
  "linkTarget l = fst (snd l)"

definition pushLink :: "str \<times> str \<times> str \<Rightarrow> (str \<times> str list) list \<Rightarrow> (str \<times> str list) list" where
  "pushLink l = (case l of (n, tt, rel) \<Rightarrow> pushEdge (n @ [ARROW] @ tt) rel)"

lemma pushNode_edges [simp]: "gb_edgeRelations (pushNode n e c g) = gb_edgeRelations g"
  by (simp add: pushNode_def)

lemma visitTargets_edges:
  "gb_edgeRelations (fold (visitTarget m n rel) tgs g) = fold pushLink (targetLinks n rel tgs) (gb_edgeRelations g)"
  by (induction tgs arbitrary: g)
    (auto simp: visitTarget_def targetLinks_def pushLink_def Let_def split: option.splits)

lemma visitRelations_edges:
  "gb_edgeRelations (fold (\<lambda>r. fold (visitTarget m n (pr_relation r)) (pr_targets r)) rs g) =
     fold pushLink (concat (map (\<lambda>r. targetLinks n (pr_relation r) (pr_targets r)) rs)) (gb_edgeRelations g)"
  by (induction rs arbitrary: g) (auto simp: visitTargets_edges)

lemma visitTypes_edges:
  "gb_edgeRelations (fold (visitType m) ts g) = fold pushLink (links ts) (gb_edgeRelations g)"
  by (induction ts arbitrary: g) (auto simp: visitType_def visitRelations_edges links_def typeLinks_def Let_def)

text \<open>Grouping: after the pushes, a key holds the values pushed under it, in order.\<close>

lemma map_of_pushEdge:
  "map_of (pushEdge k v m) k' =
     (if k' = k then Some (case map_of m k of None \<Rightarrow> [v] | Some vs \<Rightarrow> vs @ [v]) else map_of m k')"
  by (auto simp: pushEdge_def update_conv' map_add_def split: option.splits)

lemma keys_pushEdge: "set (map fst (pushEdge k v m)) = insert k (set (map fst m))"
  by (auto simp: pushEdge_def dom_update split: option.splits)

lemma distinct_pushEdge: "distinct (map fst m) \<Longrightarrow> distinct (map fst (pushEdge k v m))"
  by (auto simp: pushEdge_def distinct_update map_of_eq_None_iff split: option.splits)

definition valuesAt :: "str \<Rightarrow> (str \<times> str \<times> str) list \<Rightarrow> str list" where
  "valuesAt k ls = map (\<lambda>(_, _, r). r) (filter (\<lambda>(n, tt, _). n @ [ARROW] @ tt = k) ls)"

lemma fold_pushLink:
  "map_of (fold pushLink ls m) k =
     (if valuesAt k ls = [] then map_of m k
      else Some ((case map_of m k of None \<Rightarrow> [] | Some vs \<Rightarrow> vs) @ valuesAt k ls))"
proof (induction ls arbitrary: m)
  case (Cons l ls)
  then show ?case
    by (cases l) (auto simp: pushLink_def map_of_pushEdge valuesAt_def split: option.splits)
qed (simp add: valuesAt_def)

lemma distinct_fold_pushLink: "distinct (map fst m) \<Longrightarrow> distinct (map fst (fold pushLink ls m))"
  by (induction ls arbitrary: m) (auto simp: pushLink_def distinct_pushEdge split: prod.splits)

text \<open>The added types, and the nodes that go with them.\<close>

definition nodeOf :: "(str \<rightharpoonup> parsedType) \<Rightarrow> str \<Rightarrow> flowNode" where
  "nodeOf m n = \<lparr>node_id = typeId n, node_data = \<lparr>label = n, isExternal = (m n = None),
     relCount = (case m n of None \<Rightarrow> 0 | Some t \<Rightarrow> length (pt_relations t))\<rparr>, node_x = 0, node_y = 0\<rparr>"

definition nodesOk :: "(str \<rightharpoonup> parsedType) \<Rightarrow> gbuild \<Rightarrow> bool" where
  "nodesOk m g \<longleftrightarrow> gb_nodes g = map (nodeOf m) (gb_addedTypes g) \<and> distinct (gb_addedTypes g)"

lemma visitTarget_nodes: "nodesOk m g \<Longrightarrow> nodesOk m (visitTarget m n rel tg g)"
  by (auto simp: nodesOk_def visitTarget_def pushNode_def nodeOf_def Let_def split: option.splits)

lemma visitTarget_added:
  "set (gb_addedTypes (visitTarget m n rel tg g)) =
     set (gb_addedTypes g) \<union> (if truthy (targetType tg) then {targetType tg} else {})"
  by (auto simp: visitTarget_def pushNode_def Let_def split: option.splits)

lemma visitTargets_nodes: "nodesOk m g \<Longrightarrow> nodesOk m (fold (visitTarget m n rel) tgs g)"
  by (induction tgs arbitrary: g) (auto simp: visitTarget_nodes)

lemma visitTargets_added:
  "set (gb_addedTypes (fold (visitTarget m n rel) tgs g)) =
     set (gb_addedTypes g) \<union> linkTarget ` set (targetLinks n rel tgs)"
  by (induction tgs arbitrary: g) (simp_all add: visitTarget_added targetLinks_def linkTarget_def)

lemma visitRelations_nodes:
  "nodesOk m g \<Longrightarrow> nodesOk m (fold (\<lambda>r. fold (visitTarget m n (pr_relation r)) (pr_targets r)) rs g)"
  by (induction rs arbitrary: g) (auto simp: visitTargets_nodes)

lemma visitRelations_added:
  "set (gb_addedTypes (fold (\<lambda>r. fold (visitTarget m n (pr_relation r)) (pr_targets r)) rs g)) =
     set (gb_addedTypes g) \<union>
     linkTarget ` set (concat (map (\<lambda>r. targetLinks n (pr_relation r) (pr_targets r)) rs))"
  by (induction rs arbitrary: g) (simp_all add: visitTargets_added image_Un Un_assoc)

lemma visitType_nodes: "nodesOk m g \<Longrightarrow> m (pt_name t) = Some t \<Longrightarrow> nodesOk m (visitType m t g)"
  unfolding visitType_def Let_def
  by (rule visitRelations_nodes) (auto simp: nodesOk_def pushNode_def nodeOf_def)

lemma visitType_added:
  "set (gb_addedTypes (visitType m t g)) =
     insert (pt_name t) (set (gb_addedTypes g)) \<union> linkTarget ` set (typeLinks t)"
  by (simp add: visitType_def visitRelations_added typeLinks_def Let_def pushNode_def insert_absorb)

lemma visitTypes_nodes:
  "nodesOk m g \<Longrightarrow> \<forall>t \<in> set ts. m (pt_name t) = Some t \<Longrightarrow> nodesOk m (fold (visitType m) ts g)"
  by (induction ts arbitrary: g) (auto simp: visitType_nodes)

lemma visitTypes_added:
  "set (gb_addedTypes (fold (visitType m) ts g)) =
     set (gb_addedTypes g) \<union> pt_name ` set ts \<union> linkTarget ` set (links ts)"
  by (induction ts arbitrary: g) (simp_all add: visitType_added links_def image_Un Un_assoc Un_left_commute)

text \<open>The names in a scanned schema are distinct: they are the keys of the \<^verbatim>\<open>Map\<close>.\<close>

lemma update_named:
  "\<forall>x \<in> set m. fst x = pt_name (snd x) \<Longrightarrow> pt_name v = k \<Longrightarrow>
     x \<in> set (AList.update k v m) \<Longrightarrow> fst x = pt_name (snd x)"
  by (induction m) (auto split: if_splits)

lemma asMap_named: "x \<in> set (asMap ts) \<Longrightarrow> fst x = pt_name (snd x)"
proof (induction ts arbitrary: x rule: rev_induct)
  case (snoc t ts)
  then show ?case by (auto simp: asMap_snoc toParsedType_def dest!: update_named [rotated 2])
qed (simp add: asMap_def)

lemma asMap_keys: "distinct (map fst (asMap ts))"
  by (induction ts rule: rev_induct) (simp_all add: asMap_snoc distinct_update asMap_def)

lemma parseTypes_distinct: "distinct (map pt_name (parseTypes source))"
proof -
  have "map pt_name (parseTypes source) = map fst (asMap (parseSchemaTypes source))"
    by (auto simp: parseTypes_asMap asMap_named)
  then show ?thesis by (simp only: asMap_keys)
qed

lemma typesByName_iff:
  "distinct (map pt_name ts) \<Longrightarrow>
     map_of (rev (map (\<lambda>t. (pt_name t, t)) ts)) n = Some t \<longleftrightarrow> t \<in> set ts \<and> pt_name t = n"
  by (subst map_of_eq_Some_iff) (auto simp: rev_map [symmetric] comp_def)

lemma typesByName_None:
  "map_of (rev (map (\<lambda>t. (pt_name t, t)) ts)) n = None \<longleftrightarrow> n \<notin> pt_name ` set ts"
  by (auto simp: map_of_eq_None_iff image_iff)

text \<open>The builder's result in terms of the declared links.\<close>

lemma graphOf_nodes:
  assumes "distinct (map pt_name ts)"
  shows "\<exists>added pos. fst (graphOf layout ts) =
      map (placeNode pos) (map (nodeOf (map_of (rev (map (\<lambda>t. (pt_name t, t)) ts)))) added) \<and>
      distinct added \<and> set added = pt_name ` set ts \<union> linkTarget ` set (links ts)"
proof -
  let ?m = "map_of (rev (map (\<lambda>t. (pt_name t, t)) ts))"
  let ?g = "fold (visitType ?m) ts \<lparr>gb_nodes = [], gb_addedTypes = [], gb_edgeRelations = []\<rparr>"
  have "nodesOk ?m ?g"
    by (rule visitTypes_nodes) (auto simp: nodesOk_def typesByName_iff [OF assms])
  moreover have "set (gb_addedTypes ?g) = pt_name ` set ts \<union> linkTarget ` set (links ts)"
    by (simp add: visitTypes_added)
  ultimately show ?thesis
    by (intro exI [of _ "gb_addedTypes ?g"] exI) (auto simp: graphOf_def Let_def nodesOk_def)
qed

lemma typeId_inj [simp]: "typeId a = typeId b \<longleftrightarrow> a = b"
  by (simp add: typeId_def)

lemma graphOf_node_ids:
  assumes "distinct (map pt_name ts)"
  shows "distinct (map node_id (fst (graphOf layout ts)))"
    and "node_id ` set (fst (graphOf layout ts)) = typeId ` (pt_name ` set ts \<union> linkTarget ` set (links ts))"
proof -
  obtain added pos where g: "fst (graphOf layout ts) =
      map (placeNode pos) (map (nodeOf (map_of (rev (map (\<lambda>t. (pt_name t, t)) ts)))) added)"
    and a: "distinct added" "set added = pt_name ` set ts \<union> linkTarget ` set (links ts)"
    using graphOf_nodes [OF assms] by blast
  have "map node_id (fst (graphOf layout ts)) = map typeId added"
    by (simp add: g placeNode_def nodeOf_def)
  then have "node_id ` set (fst (graphOf layout ts)) = typeId ` set added"
    and "distinct (map node_id (fst (graphOf layout ts))) = distinct (map typeId added)"
    by (metis list.set_map, simp)
  then show "distinct (map node_id (fst (graphOf layout ts)))"
    and "node_id ` set (fst (graphOf layout ts)) = typeId ` (pt_name ` set ts \<union> linkTarget ` set (links ts))"
    using a by (simp_all add: distinct_map inj_on_def)
qed

lemma links_source: "(n, tt, r) \<in> set (links ts) \<Longrightarrow> n \<in> pt_name ` set ts"
  by (auto simp: links_def typeLinks_def targetLinks_def)

lemma links_target: "(n, tt, r) \<in> set (links ts) \<Longrightarrow> tt \<in> linkTarget ` set (links ts)"
  by (force simp: linkTarget_def)

definition linkEdge :: "(str \<times> str \<times> str) list \<Rightarrow> str \<Rightarrow> str \<Rightarrow> flowEdge" where
  "linkEdge ls n tt = \<lparr>edge_id = js ''edge:'' @ n @ [ARROW] @ tt, edge_source = typeId n, edge_target = typeId tt,
     edge_label = join (js '', '') (map (\<lambda>(_, _, r). r) (filter (\<lambda>(n', tt', _). n' = n \<and> tt' = tt) ls))\<rparr>"

lemma arrow_key_inj:
  "ARROW \<notin> set n \<Longrightarrow> ARROW \<notin> set n' \<Longrightarrow> n @ [ARROW] @ tt = n' @ [ARROW] @ tt' \<longleftrightarrow> n = n' \<and> tt = tt'"
proof (induction n arbitrary: n')
  case Nil
  then show ?case by (cases n') auto
next
  case (Cons c n)
  then show ?case by (cases n') auto
qed

lemma edgeOf_key:
  "ARROW \<notin> set n \<Longrightarrow> edgeOf (n @ [ARROW] @ tt, vs) =
     \<lparr>edge_id = js ''edge:'' @ n @ [ARROW] @ tt, edge_source = typeId n, edge_target = typeId tt,
      edge_label = join (js '', '') vs\<rparr>"
  using indexOf_append [of ARROW n tt] by (simp add: edgeOf_def)

lemma links_no_arrow:
  "\<forall>t \<in> set ts. ARROW \<notin> set (pt_name t) \<Longrightarrow> (n, tt, r) \<in> set (links ts) \<Longrightarrow> ARROW \<notin> set n"
  using links_source by fastforce

lemma valuesAt_links:
  assumes arrow: "\<forall>t \<in> set ts. ARROW \<notin> set (pt_name t)" and l: "(n, tt, r) \<in> set (links ts)"
  shows "valuesAt (n @ [ARROW] @ tt) (links ts) =
    map (\<lambda>(_, _, r). r) (filter (\<lambda>(n', tt', _). n' = n \<and> tt' = tt) (links ts))"
proof -
  have "n' @ [ARROW] @ tt' = n @ [ARROW] @ tt \<longleftrightarrow> n' = n \<and> tt' = tt"
    if "(n', tt', r') \<in> set (links ts)" for n' tt' r'
    by (rule arrow_key_inj [OF links_no_arrow [OF arrow that] links_no_arrow [OF arrow l]])
  then have "filter (\<lambda>(n', tt', _). n' @ [ARROW] @ tt' = n @ [ARROW] @ tt) (links ts) =
      filter (\<lambda>(n', tt', _). n' = n \<and> tt' = tt) (links ts)"
    by (intro filter_cong) auto
  then show ?thesis by (simp only: valuesAt_def)
qed

lemma edgeOf_links:
  assumes "\<forall>t \<in> set ts. ARROW \<notin> set (pt_name t)" "(n, tt, r) \<in> set (links ts)"
  shows "edgeOf (n @ [ARROW] @ tt, valuesAt (n @ [ARROW] @ tt) (links ts)) = linkEdge (links ts) n tt"
  using edgeOf_key [OF links_no_arrow [OF assms]] valuesAt_links [OF assms] by (simp add: linkEdge_def)

text \<open>The grouped map holds, for each key of a link, the values pushed under it, and nothing else.\<close>

lemma grouped_mem: "(k, vs) \<in> set (fold pushLink ls []) \<longleftrightarrow> valuesAt k ls = vs \<and> vs \<noteq> []"
proof -
  have "map_of (fold pushLink ls []) k = Some vs \<longleftrightarrow> valuesAt k ls = vs \<and> vs \<noteq> []"
    by (auto simp: fold_pushLink)
  then show ?thesis by (metis map_of_eq_Some_iff distinct_fold_pushLink distinct.simps(1) list.map(1))
qed

lemma valuesAt_Nil_iff: "valuesAt k ls = [] \<longleftrightarrow> \<not> (\<exists>n tt r. (n, tt, r) \<in> set ls \<and> k = n @ [ARROW] @ tt)"
  by (auto simp: valuesAt_def filter_empty_conv)

lemma grouped_edges:
  assumes "\<forall>t \<in> set ts. ARROW \<notin> set (pt_name t)"
  shows "edgeOf ` set (fold pushLink (links ts) []) =
    {linkEdge (links ts) n tt | n tt r. (n, tt, r) \<in> set (links ts)}" (is "?E = ?L")
proof
  show "?E \<subseteq> ?L"
  proof
    fix e assume "e \<in> ?E"
    then obtain k where k: "valuesAt k (links ts) \<noteq> []" "e = edgeOf (k, valuesAt k (links ts))"
      by (auto simp: grouped_mem)
    then obtain n tt r where "(n, tt, r) \<in> set (links ts)" "k = n @ [ARROW] @ tt"
      by (auto simp: valuesAt_Nil_iff)
    with k(2) edgeOf_links [OF assms] show "e \<in> ?L" by blast
  qed
  show "?L \<subseteq> ?E"
  proof
    fix e assume "e \<in> ?L"
    then obtain n tt r where l: "(n, tt, r) \<in> set (links ts)" "e = linkEdge (links ts) n tt" by blast
    let ?k = "n @ [ARROW] @ tt"
    have "(?k, valuesAt ?k (links ts)) \<in> set (fold pushLink (links ts) [])"
      using l(1) by (auto simp only: grouped_mem valuesAt_Nil_iff)
    with edgeOf_links [OF assms l(1)] l(2) show "e \<in> ?E" by (metis image_eqI)
  qed
qed

lemma graphOf_edges_eq: "snd (graphOf layout ts) = map edgeOf (fold pushLink (links ts) [])"
  by (simp add: graphOf_def Let_def visitTypes_edges)

lemma graphOf_edge_ids: "distinct (map edge_id (snd (graphOf layout ts)))"
proof -
  let ?m = "fold pushLink (links ts) []"
  have "map edge_id (snd (graphOf layout ts)) = map (\<lambda>k. js ''edge:'' @ k) (map fst ?m)"
    by (simp add: graphOf_edges_eq edgeOf_def Let_def)
  then show ?thesis by (simp only: distinct_map [of "\<lambda>k. js ''edge:'' @ k"])
      (simp add: distinct_fold_pushLink inj_on_def)
qed

section \<open>Properties\<close>

text \<open>
  Claim C34. The graph's scanner reads a rendered schema back: for every well-formed document with
  distinct type names, \<^verbatim>\<open>parseTypes\<close> returns its types in order, each with its relations in order and
  their target types, whether these are written inline or as a block list; attributes and
  permissions leave no trace.
\<close>

theorem parseTypes_roundtrip:
  assumes "wfDoc d" "distinct (map dt_name d)"
  shows "parseTypes (renderDoc d) =
    map (\<lambda>t. \<lparr>pt_name = dt_name t, pt_relations =
      map (\<lambda>r. \<lparr>pr_relation = dr_name r, pr_targets = dr_targets r\<rparr>) (dt_rels t)\<rparr>) d"
proof -
  have "asMap (map docTypeInfo d) = map (\<lambda>t. (st_name t, toParsedType t)) (map docTypeInfo d)"
    using assms(2) by (intro asMap_distinct) (simp add: docTypeInfo_def comp_def)
  then show ?thesis
    by (simp add: parseTypes_asMap parseSchemaTypes_renderDoc [OF assms(1)] toParsedType_def docTypeInfo_def
        docRelInfo_def toParsedRelation_def)
qed

theorem parseTypes_roundtrip_witness:
  "wfDoc sampleDoc \<and> distinct (map dt_name sampleDoc) \<and>
   map pt_name (parseTypes (renderDoc sampleDoc)) = [js ''user'', js ''folder'', js ''document'']"
proof -
  have d: "distinct (map dt_name sampleDoc)" by code_simp
  have n: "map dt_name sampleDoc = [js ''user'', js ''folder'', js ''document'']"
    by (simp add: sampleDoc_def)
  show ?thesis using wfDoc_sample d parseTypes_roundtrip [OF wfDoc_sample d] n by (simp add: comp_def)
qed

text \<open>
  Claim C38. On every text the graph's scanner and the tuple dialog's scanner agree: the graph's
  types are the dialog's types put into a \<^verbatim>\<open>Map\<close> under their names, so a type declared once is the
  same in both, and of a type declared twice the graph shows the last declaration.
\<close>

theorem scanners_agree:
  "parseTypes source =
     map snd (fold (\<lambda>t. AList.update (st_name t) (toParsedType t)) (parseSchemaTypes source) [])"
  using parseTypes_asMap [of source] by (simp add: asMap_def)

definition nodeInfo :: "parsedType list \<Rightarrow> str \<Rightarrow> typeNodeData" where
  "nodeInfo ts n = \<lparr>label = n, isExternal = (n \<notin> pt_name ` set ts),
     relCount = (case find (\<lambda>t. pt_name t = n) ts of None \<Rightarrow> 0 | Some t \<Rightarrow> length (pt_relations t))\<rparr>"

lemma nodeOf_nodeInfo:
  assumes "distinct (map pt_name ts)"
  shows "node_data (nodeOf (map_of (rev (map (\<lambda>t. (pt_name t, t)) ts))) n) = nodeInfo ts n"
proof (cases "find (\<lambda>t. pt_name t = n) ts")
  case None
  then have "n \<notin> pt_name ` set ts" by (auto simp: find_None_iff)
  with None typesByName_None [of ts n] show ?thesis by (simp add: nodeOf_def nodeInfo_def)
next
  case (Some t)
  then have "t \<in> set ts" "pt_name t = n" by (auto simp: find_Some_iff)
  with Some typesByName_iff [OF assms, of n t] show ?thesis by (auto simp: nodeOf_def nodeInfo_def)
qed

text \<open>
  The nodes of the graph, for every text and every layout: the node ids are distinct, and
  the node data are exactly one record for each declared type and each type some relation points
  to; a node is marked external exactly when its type is not declared, and otherwise carries the
  number of its relations.
\<close>

theorem graph_nodes:
  fixes layout source
  defines "ts \<equiv> parseTypes source"
  shows "distinct (map node_id (fst (buildGraph layout source))) \<and>
    node_data ` set (fst (buildGraph layout source)) =
      nodeInfo ts ` (pt_name ` set ts \<union> linkTarget ` set (links ts))"
proof -
  have d: "distinct (map pt_name ts)" by (simp add: ts_def parseTypes_distinct)
  obtain added pos where g: "fst (graphOf layout ts) =
      map (placeNode pos) (map (nodeOf (map_of (rev (map (\<lambda>t. (pt_name t, t)) ts)))) added)"
    and a: "set added = pt_name ` set ts \<union> linkTarget ` set (links ts)"
    using graphOf_nodes [OF d] by blast
  have "node_data (placeNode pos x) = node_data x" for x by (simp add: placeNode_def)
  then have "node_data ` set (fst (graphOf layout ts)) = nodeInfo ts ` set added"
    by (simp add: g image_image nodeOf_nodeInfo [OF d])
  with graphOf_node_ids(1) [OF d, of layout] a show ?thesis
    by (simp add: buildGraph_def ts_def)
qed

text \<open>
  Claim C37. The edges of the graph, for every text whose type names do not contain the arrow
  character: there is exactly one edge for each ordered pair of types linked by some relation, its
  label lists the names of those relations in order, its id is unique, and both its ends are nodes
  of the graph, which is what the layout needs.
\<close>

theorem graph_edges:
  fixes layout source
  defines "ts \<equiv> parseTypes source" and "g \<equiv> buildGraph layout source"
  assumes "\<forall>t \<in> set ts. ARROW \<notin> set (pt_name t)"
  shows "set (snd g) = {linkEdge (links ts) n tt | n tt r. (n, tt, r) \<in> set (links ts)} \<and>
    distinct (map edge_id (snd g)) \<and>
    edge_source ` set (snd g) \<union> edge_target ` set (snd g) \<subseteq> node_id ` set (fst g)"
proof -
  have E: "set (snd g) = {linkEdge (links ts) n tt | n tt r. (n, tt, r) \<in> set (links ts)}"
    using grouped_edges [OF assms(3)] by (simp add: g_def buildGraph_def graphOf_edges_eq ts_def)
  have "distinct (map pt_name ts)" by (simp add: ts_def parseTypes_distinct)
  then have N: "node_id ` set (fst g) = typeId ` (pt_name ` set ts \<union> linkTarget ` set (links ts))"
    by (simp add: g_def buildGraph_def graphOf_node_ids ts_def)
  have "edge_source ` set (snd g) \<union> edge_target ` set (snd g) \<subseteq> node_id ` set (fst g)"
    unfolding E N by (auto simp: linkEdge_def dest: links_source links_target)
  with E show ?thesis by (simp add: g_def buildGraph_def graphOf_edge_ids)
qed

theorem graph_edges_witness:
  "list_all (\<lambda>t. ARROW \<notin> set (pt_name t)) (parseTypes (renderDoc sampleDoc)) \<and>
   distinct (map edge_id (snd (buildGraph (\<lambda>_ _ _. (0, 0)) (renderDoc sampleDoc))))"
proof -
  have "parseTypes (renderDoc sampleDoc) = map snd (asMap (map docTypeInfo sampleDoc))"
    by (simp add: parseTypes_asMap parseSchemaTypes_renderDoc wfDoc_sample)
  moreover have "list_all (\<lambda>t. ARROW \<notin> set (pt_name t)) (map snd (asMap (map docTypeInfo sampleDoc)))"
    by code_simp
  ultimately have "\<forall>t \<in> set (parseTypes (renderDoc sampleDoc)). ARROW \<notin> set (pt_name t)"
    by (simp add: list_all_iff)
  then show ?thesis
    using graph_edges [of "renderDoc sampleDoc" "\<lambda>_ _ _. (0, 0)"] by (simp add: list_all_iff)
qed

definition arrowSource :: str where
  "arrowSource = join [NL]
     [js ''types:'', js ''  a'' @ [ARROW] @ js ''b:'', js ''    relations:'', js ''      r:'',
      js ''        types: [c]'']"

text \<open>
  The arrow character in a type name breaks the edges: for the schema that declares a
  type with the name a, arrow, b and a relation to the type c, the edge starts at a node that does
  not exist.
\<close>

theorem graph_arrow_name:
  "map edge_source (snd (buildGraph layout arrowSource)) = [typeId (js ''a'')] \<and>
   map node_id (fst (buildGraph layout arrowSource)) = [typeId (js ''a'' @ [ARROW] @ js ''b''), typeId (js ''c'')]"
proof -
  have p: "parseTypes arrowSource = [\<lparr>pt_name = js ''a'' @ [ARROW] @ js ''b'',
      pt_relations = [\<lparr>pr_relation = js ''r'', pr_targets = [js ''c'']\<rparr>]\<rparr>]"
    by code_simp
  have e: "map edge_source (map edgeOf (fold pushLink (links (parseTypes arrowSource)) [])) = [typeId (js ''a'')]"
    by (simp add: p) code_simp
  have n: "map node_id (gb_nodes (fold (visitType (map_of (rev (map (\<lambda>t. (pt_name t, t)) (parseTypes arrowSource)))))
      (parseTypes arrowSource) \<lparr>gb_nodes = [], gb_addedTypes = [], gb_edgeRelations = []\<rparr>)) =
      [typeId (js ''a'' @ [ARROW] @ js ''b''), typeId (js ''c'')]"
    by (simp add: p) code_simp
  have "node_id (placeNode pos x) = node_id x" for pos x by (simp add: placeNode_def)
  with e n show ?thesis
    by (simp add: buildGraph_def graphOf_edges_eq) (simp add: graphOf_def Let_def comp_def)
qed

end
