(* ===== verification/Schema_Viewer.thy ===== *)
theory Schema_Viewer
  imports Schema_Text Json_Value
begin

text \<open>
  The visual tab of the schema page, \<^verbatim>\<open>schema-viewer.tsx\<close>: the scanner \<^verbatim>\<open>parseYamlSimple\<close> and what is
  rendered of its result. Unlike the other scanners it does not track the \<^verbatim>\<open>types:\<close> section, keeps
  attributes and permissions too, and stores a permission only when the next one begins. The main
  lemma, \<open>parseYamlSimple_renderDoc\<close>, says exactly what it shows of a rendered document. Nothing in
  the body of its \<^verbatim>\<open>try\<close> can throw, so the \<^verbatim>\<open>catch\<close> has no counterpart here.
\<close>

section \<open>The scanner\<close>

record viewerType =
  vt_name :: str
  vt_attributes :: "(str \<times> str) list option"
  vt_relations :: "(str \<times> str list) list option"
  vt_permissions :: "(str \<times> str) list option"

record vscan =
  vs_types :: "viewerType list"
  vs_currentType :: "viewerType option"
  vs_currentSection :: sect
  vs_currentRelation :: "str option"
  vs_currentPermission :: "str option"
  vs_permissionBody :: "str list"

definition vscan_init :: vscan where
  "vscan_init = \<lparr>vs_types = [], vs_currentType = None, vs_currentSection = SecNull, vs_currentRelation = None,
     vs_currentPermission = None, vs_permissionBody = []\<rparr>"

text \<open>\<^verbatim>\<open>if (!o) o = {}; o[k] = v\<close> on an optional object.\<close>

definition optSet :: "str \<Rightarrow> 'a \<Rightarrow> (str \<times> 'a) list option \<Rightarrow> (str \<times> 'a) list option" where
  "optSet k v obj = Some (objSet k v (case obj of None \<Rightarrow> [] | Some o' \<Rightarrow> o'))"

definition sectionNamed :: "str \<Rightarrow> sect option" where
  "sectionNamed s = (if s = js ''attributes'' then Some SecAttributes else if s = js ''relations'' then Some SecRelations
     else if s = js ''permissions'' then Some SecPermissions else None)"

text \<open>Storing the permission whose body has been collected, at the next permission and at the end.\<close>

definition flushPermission :: "vscan \<Rightarrow> viewerType \<Rightarrow> viewerType" where
  "flushPermission s t =
     (case vs_currentPermission s of
        Some p \<Rightarrow> if truthy p \<and> length (vs_permissionBody s) > 0
                  then t\<lparr>vt_permissions := optSet p (join [NL] (vs_permissionBody s)) (vt_permissions t)\<rparr> else t
      | None \<Rightarrow> t)"

text \<open>The types of a relation: \<^verbatim>\<open>replace(/[\[\]]/g, "").split(",").map(trim).filter(Boolean)\<close>.\<close>

definition viewerTargets :: "str \<Rightarrow> str list" where
  "viewerTargets typesStr =
     filter (\<lambda>s. truthy s) (map trim (split COMMA (filter (\<lambda>c. c \<noteq> 0x5B \<and> c \<noteq> 0x5D) typesStr)))"

definition parseYamlSimpleLine :: "nat \<Rightarrow> str \<Rightarrow> vscan \<Rightarrow> vscan" where
  "parseYamlSimpleLine indent trimmed s =
     (if indent = 2 \<and> \<not> startsWith trimmed [0x2D] \<and> endsWith trimmed [COLON] then
        s\<lparr>vs_types := vs_types s @ (case vs_currentType s of Some t \<Rightarrow> [t] | None \<Rightarrow> []),
          vs_currentType := Some \<lparr>vt_name = strSlice trimmed 2 (-1), vt_attributes = None, vt_relations = None,
            vt_permissions = None\<rparr>,
          vs_currentSection := SecNull\<rparr>
      else if indent = 4 \<and> endsWith (trim trimmed) [COLON] then
        (case sectionNamed (strSlice (trim trimmed) 0 (-1)) of
           Some sec \<Rightarrow> s\<lparr>vs_currentSection := sec, vs_currentRelation := None, vs_currentPermission := None\<rparr>
         | None \<Rightarrow> s)
      else if indent = 6 \<and> vs_currentType s \<noteq> None \<and> vs_currentSection s \<noteq> SecNull then
        (let kv = trim trimmed; t = the (vs_currentType s) in
         if vs_currentSection s = SecAttributes \<and> includesCu kv COLON then
           (let parts = map trim (split COLON kv) in
            s\<lparr>vs_currentType := Some (t\<lparr>vt_attributes := optSet (parts ! 0) (parts ! 1) (vt_attributes t)\<rparr>)\<rparr>)
         else if vs_currentSection s = SecRelations \<and> endsWith kv [COLON] then
           s\<lparr>vs_currentRelation := Some (strSlice kv 0 (-1)),
             vs_currentType := Some (t\<lparr>vt_relations := optSet (strSlice kv 0 (-1)) [] (vt_relations t)\<rparr>)\<rparr>
         else if vs_currentSection s = SecPermissions \<and> endsWith kv [COLON] then
           s\<lparr>vs_currentType := Some (flushPermission s t), vs_currentPermission := Some (strSlice kv 0 (-1)),
             vs_permissionBody := []\<rparr>
         else s)
      else if indent = 8 \<and> vs_currentType s \<noteq> None then
        (let t = the (vs_currentType s) in
         if vs_currentSection s = SecRelations \<and> (case vs_currentRelation s of Some r \<Rightarrow> truthy r | None \<Rightarrow> False) \<and>
            startsWith (trim trimmed) (js ''types:'') then
           (let types = viewerTargets (trim (sliceFrom (trim trimmed) 6)); r = the (vs_currentRelation s) in
            case vt_relations t of
              Some rels \<Rightarrow> if r \<in> fst ` set rels
                then s\<lparr>vs_currentType := Some (t\<lparr>vt_relations := Some (AList.update r types rels)\<rparr>)\<rparr> else s
            | None \<Rightarrow> s)
         else if vs_currentSection s = SecPermissions \<and>
            (case vs_currentPermission s of Some p \<Rightarrow> truthy p | None \<Rightarrow> False) then
           s\<lparr>vs_permissionBody := vs_permissionBody s @ [trim trimmed]\<rparr>
         else s)
      else if indent = 10 \<and> vs_currentSection s = SecPermissions then
        s\<lparr>vs_permissionBody := vs_permissionBody s @ [trim trimmed]\<rparr>
      else s)"

definition vscanLine :: "str \<Rightarrow> vscan \<Rightarrow> vscan" where
  "vscanLine line s = parseYamlSimpleLine (lineIndent line) (trimEnd line) s"

definition vscanEnd :: "vscan \<Rightarrow> viewerType list" where
  "vscanEnd s = vs_types s @ (case vs_currentType s of Some t \<Rightarrow> [flushPermission s t] | None \<Rightarrow> [])"

definition parseYamlSimple :: "str \<Rightarrow> viewerType list" where
  "parseYamlSimple source = vscanEnd (fold vscanLine (split NL source) vscan_init)"

text \<open>
  The rendered page: a message when there is no type, else one card per type with its tables. A
  permission is shown as \<^verbatim>\<open>def.raw || JSON.stringify(def)\<close>; the text is empty when the body was one blank line.
\<close>

record viewerCard =
  card_title :: str
  card_attributes :: "(str \<times> str) list"
  card_relations :: "(str \<times> str list) list"
  card_permissions :: "(str \<times> str) list"

definition tableRows :: "'a list option \<Rightarrow> 'a list" where
  "tableRows rows = (case rows of Some xs \<Rightarrow> xs | None \<Rightarrow> [])"

definition shownBody :: "str \<Rightarrow> str" where
  "shownBody raw = (if truthy raw then raw else js ''{\"raw\":\"\"}'')"

definition SchemaViewer :: "str \<Rightarrow> str + viewerCard list" where
  "SchemaViewer source =
     (let types = parseYamlSimple source in
      if length types = 0 then Inl (js ''Unable to parse schema for visual display.'')
      else Inr (map (\<lambda>t. \<lparr>card_title = vt_name t, card_attributes = tableRows (vt_attributes t),
                          card_relations = tableRows (vt_relations t),
                          card_permissions = map (\<lambda>(n, raw). (n, shownBody raw)) (tableRows (vt_permissions t))\<rparr>) types))"

section \<open>What it shows of a document\<close>

fun bodyItems :: "permBody \<Rightarrow> str list" where
  "bodyItems (Resolve r) = [js ''resolve: '' @ r]"
| "bodyItems (Combine oper refs) = (oper @ [COLON]) # map (\<lambda>r. js ''- '' @ r) refs"

definition optObj :: "(str \<times> 'a) list \<Rightarrow> (str \<times> 'a) list option" where
  "optObj kvs = (if kvs = [] then None else Some (objOf kvs))"

definition permEntry :: "str \<times> permBody \<Rightarrow> str \<times> str" where
  "permEntry p = (fst p, join [NL] (bodyItems (snd p)))"

definition relEntry :: "docRel \<Rightarrow> str \<times> str list" where
  "relEntry r = (dr_name r, if dr_block r then [] else dr_targets r)"

definition cardOf :: "docType \<Rightarrow> (str \<times> permBody) list \<Rightarrow> viewerType" where
  "cardOf t ps = \<lparr>vt_name = dt_name t, vt_attributes = optObj (dt_attrs t), vt_relations = optObj (map relEntry (dt_rels t)),
     vt_permissions = optObj (map permEntry ps)\<rparr>"

text \<open>
  The permission still being collected when the scanner leaves a type: the last one of the type, or,
  when the type has no section at all, the one left over from before it.
\<close>

definition leftOver :: "docType \<Rightarrow> (str \<times> permBody) option \<Rightarrow> (str \<times> permBody) option" where
  "leftOver t c =
     (if dt_perms t \<noteq> [] then Some (last (dt_perms t))
      else if dt_attrs t = [] \<and> dt_rels t = [] then c else None)"

definition lastPerms :: "docType \<Rightarrow> (str \<times> permBody) option \<Rightarrow> (str \<times> permBody) list" where
  "lastPerms t c = butlast (dt_perms t) @ (case leftOver t c of Some p \<Rightarrow> [p] | None \<Rightarrow> [])"

fun cardsOf :: "(str \<times> permBody) option \<Rightarrow> docType list \<Rightarrow> viewerType list" where
  "cardsOf c [] = []"
| "cardsOf c [t] = [cardOf t (lastPerms t c)]"
| "cardsOf c (t # u # ts) = cardOf t (butlast (dt_perms t)) # cardsOf (leftOver t c) (u # ts)"

section \<open>Scanning rendered lines\<close>

lemma endsWith_ind: "c \<noteq> [] \<Longrightarrow> endsWith (ind n c) [x] = endsWith c [x]"
  by (simp add: endsWith_one ind_def)

lemma startsWith_ind: "0 < n \<Longrightarrow> x \<noteq> SPACE \<Longrightarrow> \<not> startsWith (ind n c) [x]"
  by (cases n) (auto simp: startsWith_one ind_def)

lemma slice_ind: "drop 2 (butlast (ind 2 (k @ [COLON]))) = k"
  by (simp add: ind_def butlast_append numeral_2_eq_2)

lemma vscanLine_ind:
  "solid c \<Longrightarrow> vscanLine (ind n c) s = parseYamlSimpleLine n (ind n c) s"
  by (simp add: vscanLine_def trimEnd_ind lineIndent_ind)

lemma solid_nonempty: "solid c \<Longrightarrow> c \<noteq> []"
  by (simp add: solid_def)

lemmas vline_simps = vscanLine_ind parseYamlSimpleLine_def trim_ind endsWith_ind startsWith_ind slice_ind solid_nonempty Let_def

definition vin :: "sect \<Rightarrow> viewerType list \<Rightarrow> viewerType \<Rightarrow> (str \<times> permBody) option \<Rightarrow> vscan \<Rightarrow> bool" where
  "vin x R T c s \<longleftrightarrow> vs_types s = R \<and> vs_currentType s = Some T \<and> vs_currentSection s = x \<and>
     vs_currentPermission s = map_option fst c \<and>
     (case c of Some p \<Rightarrow> fst p \<noteq> [] \<and> vs_permissionBody s = bodyItems (snd p) | None \<Rightarrow> True)"

definition store :: "(str \<times> permBody) option \<Rightarrow> viewerType \<Rightarrow> viewerType" where
  "store c T = (case c of Some p \<Rightarrow>
     T\<lparr>vt_permissions := optSet (fst p) (snd (permEntry p)) (vt_permissions T)\<rparr> | None \<Rightarrow> T)"

lemma bodyItems_nonempty: "bodyItems b \<noteq> []"
  by (cases b) auto

lemma vin_flush: "vin x R T c s \<Longrightarrow> flushPermission s T = store c T"
  by (auto simp: vin_def flushPermission_def store_def permEntry_def bodyItems_nonempty split: option.splits)

lemma vscan_section:
  assumes "vin x R T c s" "sectionNamed (js k) = Some y" "wfName (js k)"
  shows "vin y R T None (vscanLine (keyLine 4 (js k)) s)"
    "vs_currentRelation (vscanLine (keyLine 4 (js k)) s) = None"
  using assms by (simp_all add: keyLine_def solid_key vline_simps line_simps vin_def)

lemma vscan_attr:
  assumes "vin SecAttributes R T None s" "wfName (fst a)" "wfName (snd a)"
  shows "vin SecAttributes R (T\<lparr>vt_attributes := optSet (fst a) (snd a) (vt_attributes T)\<rparr>) None (vscanLine (attrLine a) s)"
proof -
  have "split COLON (fst a @ js '': '' @ snd a) = [fst a, SPACE # snd a]"
    using assms split_append [of COLON "fst a" "SPACE # snd a"] by (simp add: js_def split_none wfName_no)
  moreover have "includesCu (fst a @ js '': '' @ snd a) COLON" by (simp add: includesCu_def js_def)
  ultimately show ?thesis
    using assms by (simp add: attrLine_def vline_simps solid_attr vin_def)
qed


lemma addProp_update: "AList.update k v (addProp k w obj) = addProp k v obj"
proof -
  have ins: "AList.update k v (insertIndex i (k, w) obj) = insertIndex i (k, v) obj" if "k \<notin> fst ` set obj" for i
    using that by (induction obj) (auto split: option.splits)
  have snoc: "AList.update k v (obj @ [(k, w)]) = obj @ [(k, v)]" if "k \<notin> fst ` set obj"
    using that by (induction obj) auto
  have "AList.update k v (AList.update k w obj) = AList.update k v obj"
    by (induction obj) auto
  then show ?thesis using ins snoc
    by (auto simp: addProp_def dom_update split: option.splits)
qed

lemma fst_addProp: "fst ` set (addProp k v obj) = insert k (fst ` set obj)"
  using arg_cong [OF map_of_addProp [of k v obj], of dom] by (simp add: dom_map_of_conv_image_fst)

text \<open>The two assignments of a relation, the empty list and then its types, are one.\<close>

definition noProto :: "(str \<times> 'a) list option \<Rightarrow> bool" where
  "noProto obj \<longleftrightarrow> PROTO \<notin> fst ` set (tableRows obj)"

lemma noProto_optSet: "noProto obj \<Longrightarrow> noProto (optSet k v obj)"
  by (auto simp: noProto_def optSet_def objSet_def fst_addProp tableRows_def split: option.splits)

lemma optSet_types:
  assumes "noProto obj" "optSet k w obj = Some rels"
  shows "Some (if k \<in> fst ` set rels then AList.update k v rels else rels) = optSet k v obj"
proof (cases "k = PROTO")
  case True
  then show ?thesis using assms by (auto simp: noProto_def optSet_def objSet_def tableRows_def split: option.splits)
next
  case False
  then have "rels = addProp k w (case obj of None \<Rightarrow> [] | Some o' \<Rightarrow> o')"
    using assms by (simp add: optSet_def objSet_def)
  then show ?thesis using False by (simp add: fst_addProp addProp_update optSet_def objSet_def)
qed

lemma viewerTargets_brackets:
  assumes "list_all wfRef ts"
  shows "viewerTargets (0x5B # join (js '', '') ts @ [0x5D]) = ts"
proof -
  let ?j = "join (js '', '') ts"
  have ref: "refChar c \<Longrightarrow> c \<noteq> 0x5B \<and> c \<noteq> 0x5D" for c by (auto simp: refChar_def)
  have "c \<in> set (js '', '') \<or> refChar c" if "c \<in> set ?j" for c
    using that set_join [of "js '', ''" ts] assms wfRef_chars by (fastforce simp: list_all_iff)
  then have "c \<noteq> 0x5B \<and> c \<noteq> 0x5D" if "c \<in> set ?j" for c
    using that ref [of c] by (fastforce simp: js_def)
  then have f: "filter (\<lambda>c. c \<noteq> 0x5B \<and> c \<noteq> 0x5D) ?j = ?j" by (simp add: filter_id_conv)
  have t: "filter (\<lambda>s. truthy s) ts = ts" using assms by (induction ts) auto
  have "map trim (split COMMA ?j) = ts" if "ts \<noteq> []"
    using that assms
  proof (induction "js '', ''" ts rule: join.induct)
    case (3 p q ps)
    then show ?case
      by (cases "split COMMA (join (js '', '') (q # ps))") (auto simp: js_def split_append)
  qed (auto simp: split_none)
  then show ?thesis using f t by (cases "ts = []") (simp_all add: viewerTargets_def)
qed

lemma vscan_relKey:
  assumes "vin SecRelations R T None s" "wfName k"
  shows "vin SecRelations R (T\<lparr>vt_relations := optSet k [] (vt_relations T)\<rparr>) None (vscanLine (keyLine 6 k) s)"
    "vs_currentRelation (vscanLine (keyLine 6 k) s) = Some k"
  using assms by (simp_all add: keyLine_def solid_key vline_simps line_simps vin_def)

lemma vscan_relTypes:
  assumes "vin SecRelations R (T\<lparr>vt_relations := optSet k [] (vt_relations T)\<rparr>) None s" "noProto (vt_relations T)"
    "vs_currentRelation s = Some k" "k \<noteq> []" "solid c" "startsWith c (js ''types:'')"
    "viewerTargets (trim (sliceFrom c 6)) = ts"
  shows "vin SecRelations R (T\<lparr>vt_relations := optSet k ts (vt_relations T)\<rparr>) None (vscanLine (ind 8 c) s)"
proof -
  obtain rels where rels: "optSet k [] (vt_relations T) = Some rels" by (simp add: optSet_def)
  show ?thesis
    using assms optSet_types [OF assms(2) rels, of ts, symmetric]
    by (cases "k \<in> fst ` set rels") (simp_all add: vline_simps vin_def rels)
qed

lemma vscan_items:
  "list_all wfRef ts \<Longrightarrow> vin SecRelations R T None s \<Longrightarrow> fold vscanLine (map (itemLine 10) ts) s = s"
  by (induction ts) (auto simp: itemLine_def vline_simps solid_js_item vin_def)

lemma vscan_rel:
  assumes "vin SecRelations R T None s" "noProto (vt_relations T)" "wfName (dr_name r)" "list_all wfRef (dr_targets r)"
  shows "vin SecRelations R (T\<lparr>vt_relations := optSet (dr_name r) (snd (relEntry r)) (vt_relations T)\<rparr>) None
    (fold vscanLine (relLines r) s)"
proof -
  note k = vscan_relKey [OF assms(1,3)]
  note t = vscan_relTypes [OF k(1) assms(2) k(2)]
  show ?thesis
  proof (cases "dr_block r")
    case True
    have "vin SecRelations R (T\<lparr>vt_relations := optSet (dr_name r) [] (vt_relations T)\<rparr>) None
        (vscanLine (keyLine 8 (js ''types'')) (vscanLine (keyLine 6 (dr_name r)) s))"
      unfolding keyLine_def [of 8] using assms(3)
      by (intro t) (simp_all add: solid_key line_simps viewerTargets_def)
    then show ?thesis using vscan_items [OF assms(4)] True by (simp add: relLines_def relEntry_def)
  next
    case False
    then show ?thesis using assms(3,4)
      by (simp add: relLines_def relEntry_def) (intro t, simp_all add: solid_inline line_simps viewerTargets_brackets)
  qed
qed


text \<open>A section is a sequence of assignments to one of the objects of the type.\<close>

definition optSets :: "(str \<times> 'a) list \<Rightarrow> (str \<times> 'a) list option \<Rightarrow> (str \<times> 'a) list option" where
  "optSets = fold (\<lambda>(k, v). optSet k v)"

lemma optSets_Some: "optSets kvs (Some obj) = Some (fold (\<lambda>(k, v). objSet k v) kvs obj)"
  by (induction kvs arbitrary: obj) (auto simp: optSets_def optSet_def)

lemma optSets_None: "optSets kvs None = optObj kvs"
proof (cases kvs)
  case (Cons e es)
  then have "optSets kvs None = optSets es (Some (objSet (fst e) (snd e) []))"
    by (cases e) (simp add: optSets_def optSet_def)
  then show ?thesis using Cons by (cases e) (simp add: optSets_Some optObj_def objOf_def)
qed (simp add: optSets_def optObj_def)

lemma optSets_Cons: "optSets (e # es) obj = optSets es (optSet (fst e) (snd e) obj)"
  by (cases e) (simp add: optSets_def)

lemma vscan_attrs:
  "list_all (\<lambda>a. wfName (fst a) \<and> wfName (snd a)) as \<Longrightarrow> vin SecAttributes R T None s \<Longrightarrow>
     vin SecAttributes R (T\<lparr>vt_attributes := optSets as (vt_attributes T)\<rparr>) None
       (fold vscanLine (concat (map (\<lambda>a. [attrLine a]) as)) s)"
proof (induction as arbitrary: T s)
  case (Cons a as)
  then show ?case using vscan_attr [of R T s a] Cons.IH [of "T\<lparr>vt_attributes := optSet (fst a) (snd a) (vt_attributes T)\<rparr>"]
    by (simp add: optSets_Cons)
qed (simp add: optSets_def)

lemma vscan_rels:
  "list_all (\<lambda>r. wfName (dr_name r) \<and> list_all wfRef (dr_targets r)) rs \<Longrightarrow> vin SecRelations R T None s \<Longrightarrow>
     noProto (vt_relations T) \<Longrightarrow>
     vin SecRelations R (T\<lparr>vt_relations := optSets (map relEntry rs) (vt_relations T)\<rparr>) None
       (fold vscanLine (concat (map relLines rs)) s)"
proof (induction rs arbitrary: T s)
  case (Cons r rs)
  have "fst (relEntry r) = dr_name r" by (simp add: relEntry_def)
  with Cons show ?case
    using vscan_rel [of R T s r]
      Cons.IH [of "T\<lparr>vt_relations := optSet (dr_name r) (snd (relEntry r)) (vt_relations T)\<rparr>"]
    by (simp add: optSets_Cons noProto_optSet)
qed (simp add: optSets_def)

lemma vscan_permItems:
  "list_all wfRef refs \<Longrightarrow> vs_currentSection s = SecPermissions \<Longrightarrow>
     fold vscanLine (map (itemLine 10) refs) s = s\<lparr>vs_permissionBody := vs_permissionBody s @ map (\<lambda>r. js ''- '' @ r) refs\<rparr>"
  by (induction refs arbitrary: s) (auto simp: itemLine_def vline_simps solid_js_item)

lemma vscan_perm:
  assumes "vin SecPermissions R T c s" "wfName (fst p)" "wfBody (snd p)"
  shows "vin SecPermissions R (store c T) (Some p) (fold vscanLine (permLines p) s)"
proof -
  define s1 where "s1 = vscanLine (keyLine 6 (fst p)) s"
  have fl: "flushPermission s T = store c T" by (rule vin_flush [OF assms(1)])
  have s1: "vs_types s1 = R \<and> vs_currentType s1 = Some (store c T) \<and> vs_currentSection s1 = SecPermissions \<and>
      vs_currentPermission s1 = Some (fst p) \<and> vs_permissionBody s1 = []"
    using assms fl by (simp add: s1_def keyLine_def solid_key vline_simps line_simps vin_def)
  have n: "fst p \<noteq> []" using assms(2) by simp
  have "vin SecPermissions R (store c T) (Some p) (fold vscanLine (bodyLines (snd p)) s1)"
  proof (cases "snd p")
    case (Resolve r)
    then show ?thesis using s1 n assms(3) by (simp add: vline_simps solid_resolve vin_def)
  next
    case (Combine oper refs)
    then show ?thesis using s1 n assms(3) by (simp add: keyLine_def vline_simps solid_key vscan_permItems vin_def)
  qed
  then show ?thesis by (simp add: permLines_def s1_def)
qed

lemma vscan_perms:
  "list_all (\<lambda>p. wfName (fst p) \<and> wfBody (snd p)) ps \<Longrightarrow> vin SecPermissions R T (Some p) s \<Longrightarrow>
     vin SecPermissions R (T\<lparr>vt_permissions := optSets (map permEntry (butlast (p # ps))) (vt_permissions T)\<rparr>)
       (Some (last (p # ps))) (fold vscanLine (concat (map permLines ps)) s)"
proof (induction ps arbitrary: T s p)
  case (Cons q ps)
  have "fst (permEntry p) = fst p" by (simp add: permEntry_def)
  with Cons show ?case
    using vscan_perm [of R T "Some p" s q] Cons.IH [of "store (Some p) T" q]
    by (simp add: optSets_Cons store_def)
qed (simp add: optSets_def)


text \<open>The types finished or in progress.\<close>

definition vdone :: "vscan \<Rightarrow> viewerType list" where
  "vdone s = vs_types s @ (case vs_currentType s of Some t \<Rightarrow> [t] | None \<Rightarrow> [])"

definition vcarry :: "(str \<times> permBody) option \<Rightarrow> vscan \<Rightarrow> bool" where
  "vcarry c s \<longleftrightarrow> vs_currentPermission s = map_option fst c \<and>
     (case c of Some p \<Rightarrow> fst p \<noteq> [] \<and> vs_permissionBody s = bodyItems (snd p) | None \<Rightarrow> True)"

lemma sectionNamed_simps:
  "sectionNamed (js ''attributes'') = Some SecAttributes" "sectionNamed (js ''relations'') = Some SecRelations"
  "sectionNamed (js ''permissions'') = Some SecPermissions"
  by (simp_all add: sectionNamed_def)

lemma vscan_typeKey:
  assumes "vcarry c s" "wfName k"
  shows "vin SecNull (vdone s) \<lparr>vt_name = k, vt_attributes = None, vt_relations = None, vt_permissions = None\<rparr> c
    (vscanLine (keyLine 2 k) s)"
  using assms by (auto simp: keyLine_def solid_key vline_simps line_simps vin_def vdone_def vcarry_def split: option.splits)

lemma vscan_permSection:
  assumes "list_all (\<lambda>p. wfName (fst p) \<and> wfBody (snd p)) ps" "ps \<noteq> []" "vin x R T c s" "vt_permissions T = None"
  shows "\<exists>x. vin x R (T\<lparr>vt_permissions := optObj (map permEntry (butlast ps))\<rparr>) (Some (last ps))
    (fold vscanLine (sectionLines ''permissions'' (map permLines ps)) s)"
proof -
  obtain p qs where ps: "ps = p # qs" using assms(2) by (cases ps) auto
  have "vin SecPermissions R T None (vscanLine (keyLine 4 (js ''permissions'')) s)"
    using vscan_section(1) [OF assms(3) sectionNamed_simps(3)] by simp
  from vscan_perm [OF this, of p] assms(1) ps
  have "vin SecPermissions R T (Some p) (fold vscanLine (permLines p) (vscanLine (keyLine 4 (js ''permissions'')) s))"
    by (simp add: store_def)
  from vscan_perms [OF _ this, of qs] assms(1,4) ps show ?thesis
    by (auto simp: sectionLines_def optSets_None)
qed

lemma vscan_typeLines:
  assumes "wfType t" "vcarry c s"
  shows "\<exists>x. vin x (vdone s) (cardOf t (butlast (dt_perms t))) (leftOver t c) (fold vscanLine (typeLines t) s)"
proof -
  define s1 where "s1 = vscanLine (keyLine 2 (dt_name t)) s"
  define s2 where "s2 = fold vscanLine (sectionLines ''attributes'' (map (\<lambda>a. [attrLine a]) (dt_attrs t))) s1"
  define s3 where "s3 = fold vscanLine (sectionLines ''relations'' (map relLines (dt_rels t))) s2"
  define s4 where "s4 = fold vscanLine (sectionLines ''permissions'' (map permLines (dt_perms t))) s3"
  let ?R = "vdone s" and ?T = "\<lparr>vt_name = dt_name t, vt_attributes = None, vt_relations = None, vt_permissions = None\<rparr>"
  let ?T2 = "?T\<lparr>vt_attributes := optObj (dt_attrs t)\<rparr>"
  let ?T3 = "?T2\<lparr>vt_relations := optObj (map relEntry (dt_rels t))\<rparr>"
  have wf: "list_all (\<lambda>a. wfName (fst a) \<and> wfName (snd a)) (dt_attrs t)"
    "list_all (\<lambda>r. wfName (dr_name r) \<and> list_all wfRef (dr_targets r)) (dt_rels t)"
    "list_all (\<lambda>p. wfName (fst p) \<and> wfBody (snd p)) (dt_perms t)" "wfName (dt_name t)"
    using assms(1) by (simp_all add: wfType_def)
  have "vin SecNull ?R ?T c s1" unfolding s1_def by (rule vscan_typeKey [OF assms(2) wf(4)])
  then have "\<exists>x. vin x ?R ?T2 (if dt_attrs t = [] then c else None) s2"
    using vscan_section(1) [of SecNull ?R ?T c s1, OF _ sectionNamed_simps(1)]
      vscan_attrs [OF wf(1), of ?R ?T "vscanLine (keyLine 4 (js ''attributes'')) s1"]
    by (auto simp: s2_def sectionLines_def optSets_None) (auto simp: optObj_def)
  then obtain x2 where s2: "vin x2 ?R ?T2 (if dt_attrs t = [] then c else None) s2" ..
  then have "\<exists>x. vin x ?R ?T3 (if dt_attrs t = [] \<and> dt_rels t = [] then c else None) s3"
    using vscan_section(1) [OF s2 sectionNamed_simps(2)]
      vscan_rels [OF wf(2), of ?R ?T2 "vscanLine (keyLine 4 (js ''relations'')) s2"]
    by (cases "dt_rels t = []") (auto simp: s3_def sectionLines_def optSets_None noProto_def tableRows_def optObj_def [of "[]"])
  then obtain x3 where s3: "vin x3 ?R ?T3 (if dt_attrs t = [] \<and> dt_rels t = [] then c else None) s3" ..
  have "\<exists>x. vin x ?R (cardOf t (butlast (dt_perms t))) (leftOver t c) s4"
    using s3 vscan_permSection [OF wf(3) _ s3]
    by (cases "dt_perms t = []") (auto simp: s4_def sectionLines_def cardOf_def leftOver_def optObj_def [of "[]"])
  then show ?thesis by (simp add: typeLines_def s1_def s2_def s3_def s4_def)
qed

lemma store_card:
  "store (leftOver t c) (cardOf t (butlast (dt_perms t))) = cardOf t (lastPerms t c)"
proof -
  have "optSet k v (optObj kvs) = optObj (kvs @ [(k, v)])" for k :: str and v :: str and kvs
    by (auto simp: optObj_def optSet_def objOf_def)
  then show ?thesis by (cases "leftOver t c") (simp_all add: store_def cardOf_def lastPerms_def permEntry_def)
qed

lemma vscan_types:
  assumes "list_all wfType ts" "vcarry c s" "ts \<noteq> []"
  shows "vscanEnd (fold vscanLine (concat (map typeLines ts)) s) = vdone s @ cardsOf c ts"
  using assms
proof (induction ts arbitrary: c s)
  case (Cons t ts)
  let ?s = "fold vscanLine (typeLines t) s"
  obtain x where x: "vin x (vdone s) (cardOf t (butlast (dt_perms t))) (leftOver t c) ?s"
    using vscan_typeLines [of t c s] Cons.prems by auto
  then have "vcarry (leftOver t c) ?s" "vdone ?s = vdone s @ [cardOf t (butlast (dt_perms t))]"
    by (simp_all add: vin_def vcarry_def vdone_def)
  moreover have "vscanEnd ?s = vdone s @ [cardOf t (lastPerms t c)]"
    using vin_flush [OF x] x by (simp add: vscanEnd_def vin_def store_card)
  ultimately show ?case using Cons.IH [of "leftOver t c" ?s] Cons.prems by (cases ts) auto
qed simp

lemma parseYamlSimple_renderDoc:
  assumes "wfDoc d"
  shows "parseYamlSimple (renderDoc d) = cardsOf None d"
proof -
  have h: "fold vscanLine [js ''version: \"1.0\"'', [], js ''types:''] vscan_init = vscan_init" by code_simp
  have i: "vcarry None vscan_init" "vdone vscan_init = []" "vscanEnd vscan_init = []"
    by (simp_all add: vcarry_def vdone_def vscanEnd_def vscan_init_def)
  have "fold vscanLine (docLines d) vscan_init = fold vscanLine (concat (map typeLines d)) vscan_init"
    using h by (simp add: docLines_def)
  then show ?thesis
    using assms vscan_types [of d None vscan_init] i
    by (cases "d = []") (simp_all add: parseYamlSimple_def split_renderDoc wfDoc_def)
qed


section \<open>Properties\<close>

lemma cardsOf_maps:
  "map vt_name (cardsOf c ts) = map dt_name ts"
  "map vt_attributes (cardsOf c ts) = map (\<lambda>t. optObj (dt_attrs t)) ts"
  "map vt_relations (cardsOf c ts) = map (\<lambda>t. optObj (map relEntry (dt_rels t))) ts"
  by (induction c ts rule: cardsOf.induct) (auto simp: cardOf_def)

lemma cardsOf_nth:
  "i < length ts \<Longrightarrow> \<exists>c'. vt_permissions (cardsOf c ts ! i) =
     optObj (map permEntry (if Suc i < length ts then butlast (dt_perms (ts ! i)) else lastPerms (ts ! i) c'))"
proof (induction c ts arbitrary: i rule: cardsOf.induct)
  case (2 c t)
  then show ?case by (auto simp: cardOf_def)
next
  case (3 c t u ts)
  show ?case
  proof (cases i)
    case (Suc j)
    then show ?thesis using 3(1) [of j] 3(2) by (auto split: if_splits)
  qed (simp add: cardOf_def)
qed simp

lemma tableRows_optObj: "tableRows (optObj kvs) = objOf kvs"
  by (auto simp: tableRows_def optObj_def objOf_def)

text \<open>
  Claim C39. The visual tab shows every rendered well-formed document: one card per type, in order,
  with its name, with exactly its attributes and with its relations, each with the types of its
  inline list. (A later entry of the same name replaces an earlier one, as in an object.)
\<close>

theorem viewer_shows:
  assumes "wfDoc d" "d \<noteq> []"
  shows "\<exists>cards. SchemaViewer (renderDoc d) = Inr cards \<and> map card_title cards = map dt_name d \<and>
    map card_attributes cards = map (\<lambda>t. objOf (dt_attrs t)) d \<and>
    map card_relations cards =
      map (\<lambda>t. objOf (map (\<lambda>r. (dr_name r, if dr_block r then [] else dr_targets r)) (dt_rels t))) d"
proof -
  have n: "length (cardsOf None d) \<noteq> 0" using assms(2) cardsOf_maps(1) [of None d] by (metis length_0_conv length_map)
  have a: "map (\<lambda>t. tableRows (vt_attributes t)) (cardsOf None d) = map (\<lambda>t. objOf (dt_attrs t)) d"
    using arg_cong [OF cardsOf_maps(2) [of None d], of "map tableRows"] by (simp add: comp_def tableRows_optObj)
  have r: "map (\<lambda>t. tableRows (vt_relations t)) (cardsOf None d) = map (\<lambda>t. objOf (map relEntry (dt_rels t))) d"
    using arg_cong [OF cardsOf_maps(3) [of None d], of "map tableRows"] by (simp add: comp_def tableRows_optObj)
  show ?thesis
    using n a r cardsOf_maps(1) [of None d]
    by (simp add: SchemaViewer_def parseYamlSimple_renderDoc [OF assms(1)] comp_def relEntry_def [abs_def])
qed

theorem viewer_shows_witness:
  "\<exists>cards. SchemaViewer (renderDoc sampleDoc) = Inr cards \<and> map card_title cards = map dt_name sampleDoc"
proof -
  have "sampleDoc \<noteq> []" by (simp add: sampleDoc_def)
  then show ?thesis using viewer_shows [OF wfDoc_sample] by blast
qed

text \<open>
  Of the permissions, the last type that has a section shows all of its own; every type
  that another type follows shows all but its last one, so that a type with a single permission
  shows none.
\<close>

theorem viewer_permissions:
  assumes "wfDoc d" "i < length d"
  shows "(Suc i < length d \<longrightarrow>
      vt_permissions (parseYamlSimple (renderDoc d) ! i) = optObj (map permEntry (butlast (dt_perms (d ! i))))) \<and>
    (Suc i = length d \<and> (dt_perms (d ! i) \<noteq> [] \<or> dt_attrs (d ! i) \<noteq> [] \<or> dt_rels (d ! i) \<noteq> []) \<longrightarrow>
      vt_permissions (parseYamlSimple (renderDoc d) ! i) = optObj (map permEntry (dt_perms (d ! i))))"
proof -
  obtain c' where "vt_permissions (cardsOf None d ! i) =
      optObj (map permEntry (if Suc i < length d then butlast (dt_perms (d ! i)) else lastPerms (d ! i) c'))"
    using cardsOf_nth [OF assms(2)] by blast
  moreover have "lastPerms t c' = dt_perms t" if "dt_perms t \<noteq> [] \<or> dt_attrs t \<noteq> [] \<or> dt_rels t \<noteq> []" for t
    using that by (auto simp: lastPerms_def leftOver_def)
  ultimately show ?thesis by (auto simp: parseYamlSimple_renderDoc [OF assms(1)])
qed

theorem viewer_permissions_witness:
  "dt_perms (sampleDoc ! 1) = [(js ''view'', Resolve (js ''viewer''))] \<and>
   vt_permissions (parseYamlSimple (renderDoc sampleDoc) ! 1) = None"
proof -
  have s: "dt_perms (sampleDoc ! 1) = [(js ''view'', Resolve (js ''viewer''))]" "length sampleDoc = 3"
    by (simp_all add: sampleDoc_def)
  then show ?thesis using viewer_permissions [OF wfDoc_sample, of 1] by (simp add: optObj_def)
qed

text \<open>
  A permission can be shown under a type that does not declare it: when the last type has
  no section, it shows the last permission of the type before it.
\<close>

theorem viewer_misattributes:
  "\<exists>d. wfDoc d \<and> dt_perms (last d) = [] \<and>
     vt_permissions (last (parseYamlSimple (renderDoc d))) = Some [(js ''view'', js ''resolve: viewer'')]"
proof -
  let ?d = "[sampleDoc ! 1, \<lparr>dt_name = js ''user'', dt_attrs = [], dt_rels = [], dt_perms = []\<rparr>]"
  have w: "wfDoc ?d" by code_simp
  have "vt_permissions (last (cardsOf None ?d)) = Some [(js ''view'', js ''resolve: viewer'')]" by code_simp
  then show ?thesis using w by (intro exI [of _ ?d]) (simp add: parseYamlSimple_renderDoc)
qed

end
