(* ===== verification/Schema_Page.thy ===== *)
theory Schema_Page
  imports Schema_Graph Schema_Evaluator Schema_Viewer
begin

text \<open>
  The schema page: the YAML editor (\<^verbatim>\<open>schema-editor.tsx\<close>), the line with the compiled schema's data
  (\<^verbatim>\<open>schema-meta.tsx\<close>) and the page that composes the four tabs (\<^verbatim>\<open>app/schema/page.tsx\<close>). Only the
  content of the selected tab is mounted, as the tabs of Radix do without \<^verbatim>\<open>forceMount\<close>. The editor
  takes its text from the loaded schema when it is mounted and owns it from then on; what this
  means when the page changes tenant is proved with the interface \<open>component_slot\<close>.
\<close>

section \<open>The editor\<close>

record editor =
  ed_value :: str
  ed_errors :: "json list"
  ed_pending :: bool
  ed_saved :: "httpRequest option"
  ed_toasts :: "toast list"

text \<open>\<^verbatim>\<open>useState(initialValue)\<close>: the properties are the tenant and the text.\<close>

definition editor_init :: "str \<times> str \<Rightarrow> editor" where
  "editor_init p = \<lparr>ed_value = snd p, ed_errors = [], ed_pending = False, ed_saved = None, ed_toasts = []\<rparr>"

definition setEditorValue :: "str \<Rightarrow> editor \<Rightarrow> editor" where
  "setEditorValue v s = s\<lparr>ed_value := v\<rparr>"

text \<open>
  \<^verbatim>\<open>handleSave\<close> up to its \<^verbatim>\<open>await\<close>, and from the settled promise on. \<^verbatim>\<open>details\<close> is an array by its
  declared type; nothing is listed for another value.
\<close>

definition handleSave :: "str \<Rightarrow> editor \<Rightarrow> editor" where
  "handleSave tid s = s\<lparr>ed_errors := [], ed_pending := True,
     ed_saved := Some (m_request (useSaveSchema tid) (ed_value s))\<rparr>"

definition handleSaveSettled :: "clientError + schemaResponse \<Rightarrow> editor \<Rightarrow> editor" where
  "handleSaveSettled r s =
     (case r of
        Inr _ \<Rightarrow> s\<lparr>ed_pending := False, ed_toasts := ed_toasts s @ [ToastSuccess (js ''Schema saved successfully'')]\<rparr>
      | Inl e \<Rightarrow>
          (case err_details e of
             Some d \<Rightarrow> if jsonTruthy d
               then s\<lparr>ed_pending := False, ed_errors := (case d of JArr xs \<Rightarrow> xs | _ \<Rightarrow> [])\<rparr>
               else s\<lparr>ed_pending := False, ed_toasts := ed_toasts s @ [ToastError (errorText e ''Failed to save schema'')]\<rparr>
           | None \<Rightarrow> s\<lparr>ed_pending := False, ed_toasts := ed_toasts s @ [ToastError (errorText e ''Failed to save schema'')]\<rparr>))"

text \<open>\<^verbatim>\<open>handleUpload\<close>: the text of the chosen file, if one was chosen, replaces the editor's text.\<close>

definition handleUpload :: "str option \<Rightarrow> editor \<Rightarrow> editor" where
  "handleUpload file s = (case file of Some text \<Rightarrow> setEditorValue text s | None \<Rightarrow> s)"

definition editorView :: "editor \<Rightarrow> view" where
  "editorView s = [(js ''Save Schema'', PushButton (ed_pending s)), (js ''Upload File'', PushButton False),
     (js ''Source'', TextInput [] (ed_value s) False)]"

definition editorErrors :: "editor \<Rightarrow> json list option" where
  "editorErrors s = (if length (ed_errors s) > 0 then Some (ed_errors s) else None)"

section \<open>The compiled schema's data\<close>

record schemaMetaView =
  sm_version :: str
  sm_shortHash :: str
  sm_compiled :: str
  sm_copied :: bool

definition SchemaMeta :: "(str \<Rightarrow> str) \<Rightarrow> bool \<Rightarrow> schemaResponse \<Rightarrow> schemaMetaView" where
  "SchemaMeta toLocaleString copied r = \<lparr>sm_version = sch_version r, sm_shortHash = strSlice (sch_hash r) 0 12,
     sm_compiled = toLocaleString (sch_compiled_at r), sm_copied = copied\<rparr>"

text \<open>\<^verbatim>\<open>copyHash\<close>: what goes to the clipboard, and the flag until the timer clears it.\<close>

definition copyHash :: "schemaResponse \<Rightarrow> str \<times> bool" where
  "copyHash r = (sch_hash r, True)"

section \<open>The page\<close>

datatype schemaTab = TabEditor | TabVisual | TabGraph | TabEvaluate

record schemaQuery =
  sq_data :: "schemaResponse option"
  sq_isLoading :: bool
  sq_error :: bool

datatype tabContent =
    EditorContent str str
  | VisualContent "str + viewerCard list"
  | GraphContent graphView
  | EvaluateContent str str
  | EmptyContent str str

datatype schemaPageView =
    SchemaNoTenant
  | SchemaLoading
  | SchemaTabs "schemaResponse option" "(schemaTab \<times> bool) list" tabContent

definition hasSchema :: "schemaQuery \<Rightarrow> schemaResponse option" where
  "hasSchema q = (if sq_error q then None else sq_data q)"

definition tabContentOf :: "graph_layout \<Rightarrow> str \<Rightarrow> schemaQuery \<Rightarrow> schemaTab \<Rightarrow> tabContent" where
  "tabContentOf layout tid q tab =
     (case tab of
        TabEditor \<Rightarrow> EditorContent tid (case sq_data q of Some r \<Rightarrow> sch_source r | None \<Rightarrow> [])
      | TabVisual \<Rightarrow> (case hasSchema q of Some r \<Rightarrow> VisualContent (SchemaViewer (sch_source r))
          | None \<Rightarrow> EmptyContent (js ''No schema loaded'')
              (js ''Load a schema using the Editor tab to see the visual representation.''))
      | TabGraph \<Rightarrow> (case hasSchema q of Some r \<Rightarrow> GraphContent (SchemaGraph layout (sch_source r))
          | None \<Rightarrow> EmptyContent (js ''No schema loaded'')
              (js ''Load a schema using the Editor tab to see the visual representation.''))
      | TabEvaluate \<Rightarrow> (case hasSchema q of Some r \<Rightarrow> EvaluateContent tid (sch_source r)
          | None \<Rightarrow> EmptyContent (js ''No schema loaded'')
              (js ''Load a schema using the Editor tab to test authorization checks.'')))"

definition SchemaPage :: "graph_layout \<Rightarrow> str option \<Rightarrow> schemaQuery \<Rightarrow> schemaTab \<Rightarrow> schemaPageView" where
  "SchemaPage layout tid q tab =
     (if \<not> given tid then SchemaNoTenant
      else if sq_isLoading q then SchemaLoading
      else SchemaTabs (hasSchema q)
        [(TabEditor, False), (TabVisual, hasSchema q = None), (TabGraph, hasSchema q = None), (TabEvaluate, hasSchema q = None)]
        (tabContentOf layout (bang tid) q tab))"

text \<open>The properties the page gives the editor, or \<open>None\<close> when it does not render it.\<close>

definition editorProps :: "graph_layout \<Rightarrow> str option \<times> schemaQuery \<times> schemaTab \<Rightarrow> (str \<times> str) option" where
  "editorProps layout inp =
     (case SchemaPage layout (fst inp) (fst (snd inp)) (snd (snd inp)) of
        SchemaTabs _ _ (EditorContent tid v) \<Rightarrow> Some (tid, v) | _ \<Rightarrow> None)"

text \<open>The editor after a sequence of renders of the page, with React's rule for its state as argument.\<close>

definition editorAfter ::
  "((str \<times> str \<Rightarrow> editor) \<Rightarrow> (str \<times> str) option \<Rightarrow> editor option \<Rightarrow> editor option) \<Rightarrow> graph_layout \<Rightarrow>
   (str option \<times> schemaQuery \<times> schemaTab) list \<Rightarrow> editor option \<Rightarrow> editor option" where
  "editorAfter commit layout renders st = fold (\<lambda>r. commit editor_init (editorProps layout r)) renders st"

text \<open>The answers of the query: data at hand, and a first fetch under way.\<close>

definition loaded :: "schemaResponse \<Rightarrow> schemaQuery" where
  "loaded r = \<lparr>sq_data = Some r, sq_isLoading = False, sq_error = False\<rparr>"

definition fetching :: schemaQuery where
  "fetching = \<lparr>sq_data = None, sq_isLoading = True, sq_error = False\<rparr>"

lemma editorProps_loaded: "a \<noteq> [] \<Longrightarrow> editorProps layout (Some a, loaded r, TabEditor) = Some (a, sch_source r)"
  by (simp add: editorProps_def SchemaPage_def loaded_def tabContentOf_def given_iff)

lemma editorProps_gone:
  "editorProps layout (t, fetching, tab) = None" "tab \<noteq> TabEditor \<Longrightarrow> editorProps layout (t, q, tab) = None"
  by (auto simp: editorProps_def SchemaPage_def fetching_def tabContentOf_def split: schemaTab.splits option.splits)

section \<open>Properties\<close>

text \<open>
  Changing to a tenant whose schema has to be fetched, or coming back to the editor tab,
  mounts a new editor: its text is the schema of the tenant shown, and Save sends that text to that
  tenant.
\<close>

theorem editor_fresh:
  assumes "component_slot commit" "b \<noteq> []" "gap = (t, fetching, tab) \<or> gap = (t, q, TabVisual)"
  shows "editorAfter commit layout [gap, (Some b, loaded r, TabEditor)] st = Some (editor_init (b, sch_source r)) \<and>
    ed_saved (handleSave b (editor_init (b, sch_source r))) = Some (loadSchema b (sch_source r))"
proof -
  have "editorProps layout gap = None" using assms(3) by (auto simp: editorProps_gone)
  then have "editorAfter commit layout [gap, (Some b, loaded r, TabEditor)] st = Some (editor_init (b, sch_source r))"
    using component_slot.commits_first [OF assms(1), of "[]" editor_init "(b, sch_source r)" st] assms(2)
    by (simp add: editorAfter_def editorProps_loaded)
  then show ?thesis by (simp add: handleSave_def editor_init_def useSaveSchema_def)
qed

theorem editor_fresh_witness:
  "component_slot (reconcile :: (str \<times> str \<Rightarrow> editor) \<Rightarrow> _) \<and>
   editorAfter reconcile (\<lambda>_ _ _. (0, 0)) [(Some (js ''b''), fetching, TabEditor),
     (Some (js ''b''), loaded \<lparr>sch_tenant_id = js ''b'', sch_hash = [], sch_version = [], sch_source = js ''types:'', sch_compiled_at = []\<rparr>,
      TabEditor)] None = Some (editor_init (js ''b'', js ''types:''))"
proof -
  let ?r = "\<lparr>sch_tenant_id = js ''b'', sch_hash = [], sch_version = [], sch_source = js ''types:'', sch_compiled_at = []\<rparr>"
  have "js ''b'' \<noteq> []" by (simp add: js_def)
  then show ?thesis
    using slot.component_slot_axioms
      editor_fresh [OF slot.component_slot_axioms, of "js ''b''" "(Some (js ''b''), fetching, TabEditor)" "Some (js ''b'')"
        TabEditor _ "\<lambda>_ _ _. (0, 0)" ?r None]
    by simp
qed

text \<open>
  Changing to a tenant whose schema is cached keeps the editor: it still shows the text it
  had, here the unedited schema of the first tenant, and Save sends that text to the second tenant.
\<close>

theorem editor_keeps_other_tenant:
  assumes "component_slot commit" "a \<noteq> []" "b \<noteq> []"
  shows "\<exists>s. editorAfter commit layout [(Some a, loaded ra, TabEditor), (Some b, loaded rb, TabEditor)] None = Some s \<and>
    ed_value s = sch_source ra \<and> ed_saved (handleSave b s) = Some (loadSchema b (sch_source ra))"
  using component_slot.swap_keeps_old [OF assms(1), of editor_init "(b, sch_source rb)" "(a, sch_source ra)"] assms(2,3)
  by (simp add: editorAfter_def editorProps_loaded handleSave_def editor_init_def useSaveSchema_def)

theorem editor_keeps_other_tenant_witness:
  "component_slot (reconcile :: (str \<times> str \<Rightarrow> editor) \<Rightarrow> _) \<and>
   (\<exists>s ra rb. sch_source ra \<noteq> sch_source rb \<and> editorAfter reconcile (\<lambda>_ _ _. (0, 0))
     [(Some (js ''a''), loaded ra, TabEditor), (Some (js ''b''), loaded rb, TabEditor)] None = Some s \<and>
     ed_value s = sch_source ra)"
proof -
  let ?r = "\<lambda>x. \<lparr>sch_tenant_id = [], sch_hash = [], sch_version = [], sch_source = x, sch_compiled_at = []\<rparr>"
  have n: "js ''a'' \<noteq> []" "js ''b'' \<noteq> []" "js ''a'' \<noteq> js ''b''" by (simp_all add: js_def)
  have "sch_source (?r (js ''a'')) \<noteq> sch_source (?r (js ''b''))" using n by simp
  then show ?thesis
    using slot.component_slot_axioms
      editor_keeps_other_tenant [OF slot.component_slot_axioms n(1,2), of "\<lambda>_ _ _. (0, 0)" "?r (js ''a'')" "?r (js ''b'')"]
    by blast
qed

end
