(* ===== verification/Tenant_Nav.thy ===== *)
theory Tenant_Nav
  imports Ui
begin

text \<open>
  The frame of the console: the store with the selected tenant (\<^verbatim>\<open>tenant-store.ts\<close>), the selector in
  the header (\<^verbatim>\<open>tenant-selector.tsx\<close>) with the effect that repairs the selection, and the navigation
  (\<^verbatim>\<open>sidebar.tsx\<close>). The effect runs after every render in which one of its dependencies changed;
  running it again without a change is harmless, as proved below.
\<close>

section \<open>The store\<close>

record tenantStore =
  selectedTenantId :: "str option"
  sidebarCollapsed :: bool

definition tenantStore_init :: tenantStore where
  "tenantStore_init = \<lparr>selectedTenantId = Some (js ''super''), sidebarCollapsed = False\<rparr>"

definition setSelectedTenantId :: "str option \<Rightarrow> tenantStore \<Rightarrow> tenantStore" where
  "setSelectedTenantId i s = s\<lparr>selectedTenantId := i\<rparr>"

definition toggleSidebar :: "tenantStore \<Rightarrow> tenantStore" where
  "toggleSidebar s = s\<lparr>sidebarCollapsed := \<not> sidebarCollapsed s\<rparr>"

section \<open>The selector\<close>

definition selectorTenants :: "listTenantsResponse option \<Rightarrow> tenant list" where
  "selectorTenants d = (case d of Some r \<Rightarrow> tenants r | None \<Rightarrow> [])"

definition selectedTenant :: "tenant list \<Rightarrow> tenantStore \<Rightarrow> tenant option" where
  "selectedTenant ts s = find (\<lambda>t. Some (tenant_id t) = selectedTenantId s) ts"

definition fallbackTenant :: "tenant list \<Rightarrow> str" where
  "fallbackTenant ts =
     (case find (\<lambda>t. tenant_id t = js ''super'') ts of Some t \<Rightarrow> tenant_id t | None \<Rightarrow> tenant_id (ts ! 0))"

definition selectorEffect :: "bool \<Rightarrow> tenant list \<Rightarrow> tenantStore \<Rightarrow> tenantStore" where
  "selectorEffect isLoading ts s =
     (if isLoading \<or> length ts = 0 then s
      else if \<not> given (selectedTenantId s) then setSelectedTenantId (Some (fallbackTenant ts)) s
      else if selectedTenant ts s = None then setSelectedTenantId (Some (fallbackTenant ts)) s
      else s)"

text \<open>Choosing an entry of the list; the popover closes.\<close>

definition onSelectTenant :: "str \<Rightarrow> tenantStore \<times> bool \<Rightarrow> tenantStore \<times> bool" where
  "onSelectTenant v s = (setSelectedTenantId (Some v) (fst s), False)"

definition tenantLabel :: "tenant \<Rightarrow> str \<times> tenantStatus" where
  "tenantLabel t = (if truthy (display_name t) then display_name t else tenant_id t, tenant_status t)"

definition selectorLabel :: "bool \<Rightarrow> tenant list \<Rightarrow> tenantStore \<Rightarrow> str + (str \<times> tenantStatus)" where
  "selectorLabel isLoading ts s =
     (case selectedTenant ts s of
        Some t \<Rightarrow> Inr (tenantLabel t)
      | None \<Rightarrow> Inl (if isLoading then js ''Loading...'' else js ''Select tenant...''))"

definition selectorEntries :: "tenant list \<Rightarrow> tenantStore \<Rightarrow> (str \<times> bool \<times> str \<times> tenantStatus) list" where
  "selectorEntries ts s = map (\<lambda>t. (tenant_id t, selectedTenantId s = Some (tenant_id t), tenantLabel t)) ts"

section \<open>The navigation\<close>

definition navItems :: "(str \<times> str) list" where
  "navItems = map (\<lambda>(h, l). (js h, js l)) [(''/schema'', ''Schema''), (''/tuples'', ''Tuples''),
     (''/attributes'', ''Attributes''), (''/explorer'', ''Explorer''), (''/changelog'', ''Changelog'')]"

text \<open>What the sidebar renders: target, visible label, tooltip and whether the entry is active.\<close>

definition Sidebar :: "str \<Rightarrow> tenantStore \<Rightarrow> (str \<times> str option \<times> str option \<times> bool) list" where
  "Sidebar pathname s =
     map (\<lambda>(href, label). (href, if sidebarCollapsed s then None else Some label,
            if sidebarCollapsed s then Some label else None, startsWith pathname href)) navItems"

section \<open>Properties\<close>

lemma selected_iff: "selectedTenant ts s \<noteq> None \<longleftrightarrow> (\<exists>t \<in> set ts. selectedTenantId s = Some (tenant_id t))"
  unfolding selectedTenant_def find_None_iff by (metis (no_types))

lemma fallback_in: "ts \<noteq> [] \<Longrightarrow> fallbackTenant ts \<in> tenant_id ` set ts"
proof (cases "find (\<lambda>t. tenant_id t = js ''super'') ts")
  case (Some t)
  then show ?thesis using find_Some_D [OF Some] by (simp add: fallbackTenant_def) (metis image_eqI)
qed (simp add: fallbackTenant_def)

lemma fallback_super:
  assumes "js ''super'' \<in> tenant_id ` set ts"
  shows "fallbackTenant ts = js ''super''"
proof -
  obtain t where t: "find (\<lambda>t. tenant_id t = js ''super'') ts = Some t" using find_name [OF assms] ..
  then show ?thesis using find_Some_D [OF t] by (simp add: fallbackTenant_def)
qed

text \<open>
  Once the tenants are loaded, one run of the selector's effect leaves a tenant of the
  list selected. It keeps a valid selection; otherwise it selects \<^verbatim>\<open>super\<close> when the list has it. A
  second run changes nothing, so the effect settles.
\<close>

theorem selection_settles:
  assumes "ts \<noteq> []"
  shows "(\<exists>t \<in> set ts. selectedTenantId (selectorEffect False ts s) = Some (tenant_id t)) \<and>
    ((\<exists>t \<in> set ts. selectedTenantId s = Some (tenant_id t) \<and> tenant_id t \<noteq> []) \<longrightarrow> selectorEffect False ts s = s) \<and>
    ((\<forall>t \<in> set ts. selectedTenantId s \<noteq> Some (tenant_id t)) \<and> js ''super'' \<in> tenant_id ` set ts \<longrightarrow>
       selectedTenantId (selectorEffect False ts s) = Some (js ''super'')) \<and>
    selectorEffect False ts (selectorEffect False ts s) = selectorEffect False ts s"
proof -
  let ?s = "selectorEffect False ts s"
  have sel: "\<exists>t \<in> set ts. selectedTenantId ?s = Some (tenant_id t)"
    using fallback_in [OF assms] selected_iff [of ts s] assms
    by (auto simp: selectorEffect_def setSelectedTenantId_def)
  have keep: "(\<exists>t \<in> set ts. selectedTenantId s = Some (tenant_id t) \<and> tenant_id t \<noteq> []) \<Longrightarrow> ?s = s"
    using selected_iff [of ts s] by (auto simp: selectorEffect_def given_iff)
  have sup: "(\<forall>t \<in> set ts. selectedTenantId s \<noteq> Some (tenant_id t)) \<Longrightarrow> js ''super'' \<in> tenant_id ` set ts \<Longrightarrow>
      selectedTenantId ?s = Some (js ''super'')"
    using selected_iff [of ts s] fallback_super [of ts] assms
    by (auto simp: selectorEffect_def setSelectedTenantId_def)
  have "selectedTenant ts ?s \<noteq> None" using sel selected_iff by blast
  moreover have "given (selectedTenantId ?s) \<or> ?s = setSelectedTenantId (Some (fallbackTenant ts)) ?s"
    using assms by (auto simp: selectorEffect_def setSelectedTenantId_def)
  ultimately have "selectorEffect False ts ?s = ?s" by (auto simp: selectorEffect_def [of False ts ?s])
  with sel keep sup show ?thesis by blast
qed

text \<open>Tenants for the witness.\<close>

definition sampleTenant :: "string \<Rightarrow> tenant" where
  "sampleTenant i = \<lparr>tenant_id = js i, display_name = [], parent_tenant_id = None, tenant_status = Active, schema_mode = Own,
     shared_schema_ref = None, tenant_config = \<lparr>max_tuples = 0, max_requests_per_sec = 0, cache_ttl_override = None,
       allowed_object_types = None, retention_days = 0, sync_enabled = False, webhook_url = None, config_metadata = None\<rparr>,
     tenant_created_at = [], tenant_updated_at = []\<rparr>"

theorem selection_settles_witness:
  "selectedTenantId (selectorEffect False [sampleTenant ''acme'', sampleTenant ''super'']
     \<lparr>selectedTenantId = Some (js ''gone''), sidebarCollapsed = False\<rparr>) = Some (js ''super'')"
  using selection_settles [of "[sampleTenant ''acme'', sampleTenant ''super'']"
      "\<lparr>selectedTenantId = Some (js ''gone''), sidebarCollapsed = False\<rparr>"]
  by (simp add: sampleTenant_def js_inj)

lemma startsWith_take: "startsWith p q \<Longrightarrow> n \<le> length q \<Longrightarrow> take n p = take n q"
  by (metis min.absorb1 startsWith_def take_take)

text \<open>
  On every path at most one entry of the navigation is active, and each page of the
  console activates its own.
\<close>

theorem one_active_entry:
  "length (filter (\<lambda>(_, _, _, active). active) (Sidebar pathname s)) \<le> 1 \<and>
   list_all (\<lambda>(href, _). map fst (filter (\<lambda>(_, _, _, active). active) (Sidebar href s)) = [href]) navItems"
proof
  have "startsWith pathname (js h) \<Longrightarrow> 2 \<le> length h \<Longrightarrow> take 2 pathname = js (take 2 h)" for h
    using startsWith_take [of pathname "js h" 2] by (simp add: js_def take_map)
  then have d: "startsWith pathname (js ''/schema'') \<Longrightarrow> take 2 pathname = js ''/s''"
    "startsWith pathname (js ''/tuples'') \<Longrightarrow> take 2 pathname = js ''/t''"
    "startsWith pathname (js ''/attributes'') \<Longrightarrow> take 2 pathname = js ''/a''"
    "startsWith pathname (js ''/explorer'') \<Longrightarrow> take 2 pathname = js ''/e''"
    "startsWith pathname (js ''/changelog'') \<Longrightarrow> take 2 pathname = js ''/c''"
    by force+
  show "length (filter (\<lambda>(_, _, _, active). active) (Sidebar pathname s)) \<le> 1"
    using d by (auto simp: Sidebar_def navItems_def js_inj)
  show "list_all (\<lambda>(href, _). map fst (filter (\<lambda>(_, _, _, active). active) (Sidebar href s)) = [href]) navItems"
    by (simp add: Sidebar_def navItems_def startsWith_def js_def)
qed

end
