(* ===== verification/Explorer.thy ===== *)
theory Explorer
  imports Ui Complex_Main
begin

text \<open>
  The explorer: the flow graph of a subject tree (\<^verbatim>\<open>subject-tree.tsx\<close>), its nodes (\<^verbatim>\<open>tree-node.tsx\<close>) and
  the page that expands a relation (\<^verbatim>\<open>app/explorer/page.tsx\<close>). The positions dagre computes are an
  argument. \<^verbatim>\<open>useNodesState\<close> and \<^verbatim>\<open>useEdgesState\<close> of React Flow are a state initialised with the
  argument of the first render, so the view is a component whose state comes from its properties
  when it is mounted (\<open>component_slot\<close>).
\<close>

section \<open>From the tree to the graph\<close>

record treeFlowNode =
  fn_id :: str
  fn_subject :: subjectRef
  fn_isRoot :: bool
  fn_position :: "rat \<times> rat"

record treeFlowEdge =
  fe_id :: str
  fe_source :: str
  fe_target :: str

definition subjectLabel :: "subjectRef \<Rightarrow> str" where
  "subjectLabel s = Subject_Type s @ [COLON] @ Subject_ID s @
     (if given (Subject_Relation s) then [HASH] @ bang (Subject_Relation s) else [])"

definition flowNodeId :: "subjectRef \<Rightarrow> nat \<Rightarrow> str" where
  "flowNodeId s depth = subjectLabel s @ js ''-'' @ showNat depth"

fun treeToFlow :: "subjectTree \<Rightarrow> str option \<Rightarrow> nat \<Rightarrow> treeFlowNode list \<times> treeFlowEdge list" where
  "treeToFlow (SubjectTree s children) parentId depth =
     (let nodeId = flowNodeId s depth;
          node = \<lparr>fn_id = nodeId, fn_subject = s, fn_isRoot = (depth = 0), fn_position = (0, 0)\<rparr>;
          edges = (if given parentId
                   then [\<lparr>fe_id = bang parentId @ js ''->'' @ nodeId, fe_source = bang parentId, fe_target = nodeId\<rparr>] else []);
          results = (case children of Some cs \<Rightarrow> map (\<lambda>child. treeToFlow child (Some nodeId) (depth + 1)) cs | None \<Rightarrow> [])
      in (node # concat (map fst results), edges @ concat (map snd results)))"

type_synonym tree_layout = "treeFlowNode list \<Rightarrow> treeFlowEdge list \<Rightarrow> str \<Rightarrow> rat \<times> rat"

definition layoutTree :: "tree_layout \<Rightarrow> treeFlowNode list \<Rightarrow> treeFlowEdge list \<Rightarrow> treeFlowNode list" where
  "layoutTree dagre nodes edges =
     map (\<lambda>n. let pos = dagre nodes edges (fn_id n) in n\<lparr>fn_position := (fst pos - 90, snd pos - 25)\<rparr>) nodes"

text \<open>The state of \<^verbatim>\<open>SubjectTreeView\<close> when it is mounted with a tree.\<close>

definition SubjectTreeView_init :: "tree_layout \<Rightarrow> subjectTree \<Rightarrow> treeFlowNode list \<times> treeFlowEdge list" where
  "SubjectTreeView_init dagre tree =
     (case treeToFlow tree None 0 of (rawNodes, rawEdges) \<Rightarrow> (layoutTree dagre rawNodes rawEdges, rawEdges))"

section \<open>A node\<close>

text \<open>
  \<^verbatim>\<open>typeIcons[subject.Type]\<close> and \<^verbatim>\<open>typeColors[subject.Type]\<close> also find the properties every object
  inherits; a type of such a name gets a function instead of an icon or a colour.
\<close>

datatype 'a looked = Own_Entry 'a | Inherited | Missing

definition inheritedKeys :: "str list" where
  "inheritedKeys = map js [''constructor'', ''hasOwnProperty'', ''isPrototypeOf'', ''propertyIsEnumerable'', ''toLocaleString'',
     ''toString'', ''valueOf'', ''__defineGetter__'', ''__defineSetter__'', ''__lookupGetter__'', ''__lookupSetter__'', ''__proto__'']"

definition lookupLiteral :: "(str \<times> 'a) list \<Rightarrow> str \<Rightarrow> 'a looked" where
  "lookupLiteral obj k = (case map_of obj k of Some v \<Rightarrow> Own_Entry v
     | None \<Rightarrow> if k \<in> set inheritedKeys then Inherited else Missing)"

datatype nodeIcon = IconUser | IconUsers | IconBox

definition typeIcon :: "str \<Rightarrow> nodeIcon looked" where
  "typeIcon ty = (case lookupLiteral [(js ''user'', IconUser), (js ''group'', IconUsers)] ty of
     Missing \<Rightarrow> Own_Entry IconBox | r \<Rightarrow> r)"

definition nodeColor :: "bool \<Rightarrow> str \<Rightarrow> str looked" where
  "nodeColor isRoot ty =
     (if isRoot then Own_Entry (js ''bg-blue-50 border-blue-300'')
      else case lookupLiteral [(js ''user'', js ''bg-green-50 border-green-200''), (js ''group'', js ''bg-purple-50 border-purple-200'')] ty of
        Missing \<Rightarrow> Own_Entry (js ''bg-gray-50 border-gray-200'') | r \<Rightarrow> r)"

record treeNodeView =
  nv_icon :: "nodeIcon looked"
  nv_color :: "str looked"
  nv_title :: str
  nv_relation :: "str option"

definition TreeNode :: "treeFlowNode \<Rightarrow> treeNodeView" where
  "TreeNode n = (let s = fn_subject n in
     \<lparr>nv_icon = typeIcon (Subject_Type s), nv_color = nodeColor (fn_isRoot n) (Subject_Type s),
      nv_title = Subject_Type s @ [COLON] @ Subject_ID s,
      nv_relation = (if given (Subject_Relation s) then Some ([HASH] @ bang (Subject_Relation s)) else None)\<rparr>)"

section \<open>The page\<close>

record explorer =
  ex_object_type :: str
  ex_object_id :: str
  ex_relation :: str
  ex_tree :: "subjectTree option"
  ex_pending :: bool
  ex_variables :: "expandRequest option"
  ex_toasts :: "toast list"

definition explorer_init :: explorer where
  "explorer_init = \<lparr>ex_object_type = [], ex_object_id = [], ex_relation = [], ex_tree = None, ex_pending = False,
     ex_variables = None, ex_toasts = []\<rparr>"

definition handleExpand :: "explorer \<Rightarrow> explorer" where
  "handleExpand s = s\<lparr>ex_pending := True, ex_variables := Some
     \<lparr>er_object_type = ex_object_type s, er_object_id = ex_object_id s, er_relation = ex_relation s\<rparr>\<rparr>"

definition handleExpandSettled :: "clientError + subjectTree \<Rightarrow> explorer \<Rightarrow> explorer" where
  "handleExpandSettled r s =
     (case r of
        Inr t \<Rightarrow> s\<lparr>ex_pending := False, ex_tree := Some t\<rparr>
      | Inl e \<Rightarrow> s\<lparr>ex_pending := False, ex_toasts := ex_toasts s @ [ToastError (errorText e ''Failed to expand relation'')]\<rparr>)"

definition explorerValid :: "explorer \<Rightarrow> bool" where
  "explorerValid s \<longleftrightarrow> truthy (ex_object_type s) \<and> truthy (ex_object_id s) \<and> truthy (ex_relation s)"

definition explorerView :: "explorer \<Rightarrow> view" where
  "explorerView s =
     [(js ''Object Type'', TextInput (js ''document'') (ex_object_type s) False),
      (js ''Object ID'', TextInput (js ''doc_1'') (ex_object_id s) False),
      (js ''Relation'', TextInput (js ''viewer'') (ex_relation s) False),
      (js ''Expand'', PushButton (\<not> explorerValid s \<or> ex_pending s))]"

text \<open>The tree the page renders, if any: the property of \<^verbatim>\<open>SubjectTreeView\<close>.\<close>

definition ExplorerPage :: "str option \<Rightarrow> explorer \<Rightarrow> (view \<times> subjectTree option) option" where
  "ExplorerPage tid s = (if \<not> given tid then None else Some (explorerView s, ex_tree s))"

definition treeProps :: "str option \<Rightarrow> explorer \<Rightarrow> subjectTree option" where
  "treeProps tid s = (case ExplorerPage tid s of Some (_, t) \<Rightarrow> t | None \<Rightarrow> None)"

section \<open>The shape of the graph\<close>

fun nodeCount :: "subjectTree \<Rightarrow> nat" where
  "nodeCount (SubjectTree s children) = Suc (case children of Some cs \<Rightarrow> sum_list (map nodeCount cs) | None \<Rightarrow> 0)"

text \<open>The subjects of a tree with their depths, in the order of the graph's nodes.\<close>

fun placements :: "subjectTree \<Rightarrow> nat \<Rightarrow> (subjectRef \<times> nat) list" where
  "placements (SubjectTree s children) d =
     (s, d) # (case children of Some cs \<Rightarrow> concat (map (\<lambda>c. placements c (d + 1)) cs) | None \<Rightarrow> [])"

lemma flowNodeId_given: "given (Some (flowNodeId s d))"
  by (simp add: given_def flowNodeId_def js_def)

lemma treeToFlow_nodes:
  "map (\<lambda>n. (fn_id n, fn_subject n, fn_isRoot n)) (fst (treeToFlow t p d)) =
     map (\<lambda>(s, k). (flowNodeId s k, s, k = 0)) (placements t d)"
proof (induction t p d rule: treeToFlow.induct)
  case (1 s children p d)
  show ?case
  proof (cases children)
    case (Some cs)
    have "map (\<lambda>n. (fn_id n, fn_subject n, fn_isRoot n)) (concat (map (\<lambda>c. fst (treeToFlow c (Some (flowNodeId s d)) (d + 1))) cs)) =
        map (\<lambda>(s, k). (flowNodeId s k, s, k = 0)) (concat (map (\<lambda>c. placements c (d + 1)) cs))"
      using 1 [OF refl refl refl Some]
      by (auto simp: map_concat comp_def intro!: arg_cong [of _ _ concat])
    then show ?thesis using Some by (simp add: Let_def comp_def)
  qed (simp add: Let_def)
qed

lemma length_placements: "length (placements t d) = nodeCount t"
proof (induction t d rule: placements.induct)
  case (1 s children d)
  then show ?case by (cases children) (auto simp: length_concat comp_def intro!: arg_cong [of _ _ sum_list])
qed

lemma ids_of_nodes: "map fn_id (fst (treeToFlow t p d)) = map (\<lambda>(s, k). flowNodeId s k) (placements t d)"
  using arg_cong [OF treeToFlow_nodes [of t p d], of "map fst"] by (simp add: comp_def case_prod_beta)

lemma treeToFlow_targets:
  "map fe_target (snd (treeToFlow t p d)) =
     (if given p then map fn_id (fst (treeToFlow t p d)) else tl (map fn_id (fst (treeToFlow t p d))))"
proof (induction t p d rule: treeToFlow.induct)
  case (1 s children p d)
  show ?case
  proof (cases children)
    case (Some cs)
    have "map fe_target (concat (map (\<lambda>c. snd (treeToFlow c (Some (flowNodeId s d)) (d + 1))) cs)) =
        map fn_id (concat (map (\<lambda>c. fst (treeToFlow c (Some (flowNodeId s d)) (d + 1))) cs))"
      using 1 [OF refl refl refl Some]
      by (auto simp: map_concat comp_def flowNodeId_given intro!: arg_cong [of _ _ concat])
    then show ?thesis using Some by (simp add: Let_def comp_def)
  qed (simp add: Let_def)
qed

lemma treeToFlow_sources:
  "e \<in> set (snd (treeToFlow t p d)) \<Longrightarrow> fe_source e \<in> fn_id ` set (fst (treeToFlow t p d)) \<or> given p \<and> fe_source e = bang p"
proof (induction t p d arbitrary: e rule: treeToFlow.induct)
  case (1 s children p d)
  show ?case
  proof (cases children)
    case (Some cs)
    have IH: "fe_source e \<in> fn_id ` set (fst (treeToFlow c (Some (flowNodeId s d)) (d + 1))) \<or> fe_source e = flowNodeId s d"
      if "c \<in> set cs" "e \<in> set (snd (treeToFlow c (Some (flowNodeId s d)) (d + 1)))" for c e
      using 1(1) [OF refl refl refl Some that] by auto
    show ?thesis using 1(2) Some IH by (fastforce simp: Let_def split: if_splits)
  qed (use 1(2) in \<open>auto simp: Let_def split: if_splits\<close>)
qed

lemma unique_suffix:
  fixes c :: cu
  assumes "a @ c # x = b @ c # y" "c \<notin> set x" "c \<notin> set y"
  shows "a = b \<and> x = y"
proof -
  have "rev x @ c # rev a = rev y @ c # rev b" using arg_cong [OF assms(1), of rev] by simp
  moreover have "split c (rev x @ c # rev a) = rev x # split c (rev a)" "split c (rev y @ c # rev b) = rev y # split c (rev b)"
    using assms(2,3) by (simp_all add: split_append)
  ultimately show ?thesis by (metis append_same_eq assms(1) list.inject rev_rev_ident)
qed

lemma flowNodeId_inj: "flowNodeId s k = flowNodeId s' k' \<longleftrightarrow> subjectLabel s = subjectLabel s' \<and> k = k'"
proof -
  have n: "(0x2D :: cu) \<notin> set (showNat m)" for m
    using showNat_digits [of m] by (auto simp: list_all_iff isDigit_def)
  have e: "flowNodeId t m = subjectLabel t @ 0x2D # showNat m" for t m by (simp add: flowNodeId_def js_def)
  show ?thesis unfolding e using unique_suffix [OF _ n n] showNat_inj by metis
qed

lemma distinct_ids:
  "distinct (map (\<lambda>(s, k). flowNodeId s k) ps) \<longleftrightarrow> distinct (map (\<lambda>(s, k). (subjectLabel s, k)) ps)"
proof (induction ps)
  case (Cons p ps)
  have "(case p of (s, k) \<Rightarrow> flowNodeId s k) \<in> (\<lambda>(s, k). flowNodeId s k) ` set ps \<longleftrightarrow>
      (case p of (s, k) \<Rightarrow> (subjectLabel s, k)) \<in> (\<lambda>(s, k). (subjectLabel s, k)) ` set ps"
    by (simp add: image_iff case_prod_beta flowNodeId_inj)
  with Cons show ?case by simp
qed simp

lemma placements_deep: "x \<in> set (placements u (Suc d)) \<Longrightarrow> 0 < snd x"
proof (induction u "Suc d" arbitrary: d rule: placements.induct)
  case (1 s children)
  then show ?case by (cases children) fastforce+
qed

lemma placements_roots: "map (\<lambda>x. snd x = 0) (placements t 0) = True # replicate (nodeCount t - 1) False"
proof -
  obtain s ch where t: "t = SubjectTree s ch" by (cases t)
  define r where "r = tl (placements t 0)"
  have p: "placements t 0 = (s, 0) # r" by (simp add: r_def t)
  have "\<forall>x \<in> set r. 0 < snd x" using placements_deep by (cases ch) (fastforce simp: r_def t)+
  then have "map (\<lambda>x. snd x = 0) r = replicate (length r) False" by (induction r) auto
  then show ?thesis using length_placements [of t 0] by (simp add: p)
qed

text \<open>Two subjects that share a member: the member appears twice at the same depth.\<close>

definition sharedMember :: subjectTree where
  "sharedMember =
     (let alice = SubjectTree \<lparr>Subject_Type = js ''user'', Subject_ID = js ''alice'', Subject_Relation = None\<rparr> None;
          grp = (\<lambda>i. SubjectTree \<lparr>Subject_Type = js ''group'', Subject_ID = js i, Subject_Relation = Some (js ''member'')\<rparr> (Some [alice]))
      in SubjectTree \<lparr>Subject_Type = js ''document'', Subject_ID = js ''d1'', Subject_Relation = Some (js ''viewer'')\<rparr>
           (Some [grp ''eng'', grp ''ops'']))"

section \<open>Properties\<close>


text \<open>
  The identifiers of the nodes are distinct exactly when no subject appears twice at the
  same depth of the tree.
\<close>

theorem node_ids_distinct:
  "distinct (map fn_id (fst (treeToFlow t None 0))) \<longleftrightarrow> distinct (map (\<lambda>(s, k). (subjectLabel s, k)) (placements t 0))"
  unfolding ids_of_nodes by (rule distinct_ids)

text \<open>
  A member of two groups at the same depth gives two nodes with the same identifier.
\<close>

theorem shared_member_clashes: "\<not> distinct (map fn_id (fst (treeToFlow sharedMember None 0)))"
  by code_simp

text \<open>
  The second expansion is not shown: after the page has rendered one tree, a new tree
  leaves the graph of the first one on the screen, until the view is unmounted.
\<close>

theorem second_tree_not_shown:
  assumes "component_slot commit" "given tid"
  shows "commit (SubjectTreeView_init dagre) (treeProps tid (handleExpandSettled (Inr t2) s))
      (commit (SubjectTreeView_init dagre) (treeProps tid (handleExpandSettled (Inr t1) explorer_init)) None) =
    Some (SubjectTreeView_init dagre t1)"
proof -
  have "treeProps tid (handleExpandSettled (Inr t) u) = Some t" for t u
    using assms(2) by (simp add: treeProps_def ExplorerPage_def handleExpandSettled_def)
  then show ?thesis using component_slot.swap_keeps_old [OF assms(1)] by simp
qed

theorem second_tree_not_shown_witness:
  "component_slot (reconcile :: (subjectTree \<Rightarrow> treeFlowNode list \<times> treeFlowEdge list) \<Rightarrow> _) \<and>
   reconcile (SubjectTreeView_init (\<lambda>_ _ _. (0, 0))) (treeProps (Some (js ''acme'')) (handleExpandSettled (Inr (SubjectTree (treeSubject sharedMember) None)) explorer_init))
      (reconcile (SubjectTreeView_init (\<lambda>_ _ _. (0, 0))) (treeProps (Some (js ''acme'')) (handleExpandSettled (Inr sharedMember) explorer_init)) None) =
    Some (SubjectTreeView_init (\<lambda>_ _ _. (0, 0)) sharedMember)"
proof -
  have "given (Some (js ''acme''))" by (simp add: given_def js_def)
  then show ?thesis
    using slot.component_slot_axioms second_tree_not_shown [OF slot.component_slot_axioms] by blast
qed

end
