(* ===== verification/Attributes.thy ===== *)
theory Attributes
  imports Ui Json_Text
begin

text \<open>
  The attributes page: the editor of an entity's attributes (\<^verbatim>\<open>attribute-editor.tsx\<close>) and the page with
  its two tabs (\<^verbatim>\<open>app/attributes/page.tsx\<close>). The tabs for objects and for subjects are two copies of the
  same code around different hooks; here they are one definition with the kind of entity as argument,
  and \<open>ObjectAttributesTab\<close> and \<open>SubjectAttributesTab\<close> are its two instances. Which entity is edited is
  state of the tab; what is edited is state of the editor, which takes it from the loaded attributes
  when it is mounted.
\<close>

section \<open>The editor\<close>

record attrEntry =
  ae_key :: str
  ae_value :: str

definition entryOf :: "(jsnum \<Rightarrow> str) \<Rightarrow> str \<times> json \<Rightarrow> attrEntry" where
  "entryOf showNum kv = \<lparr>ae_key = fst kv, ae_value = (case snd kv of JStr s \<Rightarrow> s | v \<Rightarrow> stringify showNum v)\<rparr>"

definition AttributeEditor_init :: "(jsnum \<Rightarrow> str) \<Rightarrow> jsobject \<Rightarrow> attrEntry list" where
  "AttributeEditor_init showNum attributes = map (entryOf showNum) attributes"

definition addEntry :: "attrEntry list \<Rightarrow> attrEntry list" where
  "addEntry es = es @ [\<lparr>ae_key = [], ae_value = []\<rparr>]"

definition removeEntry :: "nat \<Rightarrow> attrEntry list \<Rightarrow> attrEntry list" where
  "removeEntry index es = map fst (filter (\<lambda>(_, i). i \<noteq> index) (zip es [0..<length es]))"

datatype entryField = EntryKey | EntryValue

text \<open>The index is that of a row, hence in range.\<close>

definition updateEntry :: "nat \<Rightarrow> entryField \<Rightarrow> str \<Rightarrow> attrEntry list \<Rightarrow> attrEntry list" where
  "updateEntry index field v es =
     es[index := (case field of EntryKey \<Rightarrow> (es ! index)\<lparr>ae_key := v\<rparr> | EntryValue \<Rightarrow> (es ! index)\<lparr>ae_value := v\<rparr>)]"

definition saveEntry :: "(str \<Rightarrow> jsnum) \<Rightarrow> attrEntry \<Rightarrow> jsobject \<Rightarrow> jsobject" where
  "saveEntry toNum e attrs =
     (if truthy (trim (ae_key e))
      then objSet (trim (ae_key e)) (case jsonParse toNum (ae_value e) of Some v \<Rightarrow> v | None \<Rightarrow> JStr (ae_value e)) attrs
      else attrs)"

text \<open>What the editor's \<^verbatim>\<open>handleSave\<close> passes to \<^verbatim>\<open>onSave\<close>.\<close>

definition editedAttributes :: "(str \<Rightarrow> jsnum) \<Rightarrow> attrEntry list \<Rightarrow> jsobject" where
  "editedAttributes toNum es = fold (saveEntry toNum) es []"

definition AttributeEditor :: "bool \<Rightarrow> attrEntry list \<Rightarrow> view" where
  "AttributeEditor isSaving es =
     concat (map (\<lambda>e. [(js ''Key'', TextInput (js ''key'') (ae_key e) False),
        (js ''Value'', TextInput (js ''value'') (ae_value e) False), (js ''Remove'', PushButton False)]) es) @
     [(js ''Add Attribute'', PushButton False), (js ''Save'', PushButton isSaving)]"

section \<open>The tabs\<close>

datatype entityKind = ObjectEntity | SubjectEntity

record attrTab =
  at_selected :: "(str \<times> str) option"
  at_showNewForm :: bool
  at_newType :: str
  at_newId :: str
  at_filterType :: str
  at_saving :: bool
  at_sent :: "httpRequest option"
  at_toasts :: "toast list"

definition attrTab_init :: attrTab where
  "attrTab_init = \<lparr>at_selected = None, at_showNewForm = False, at_newType = [], at_newId = [], at_filterType = [],
     at_saving = False, at_sent = None, at_toasts = []\<rparr>"

definition selectedType :: "attrTab \<Rightarrow> str" where
  "selectedType s = (case at_selected s of Some (ty, _) \<Rightarrow> ty | None \<Rightarrow> [])"

definition selectedId :: "attrTab \<Rightarrow> str" where
  "selectedId s = (case at_selected s of Some (_, i) \<Rightarrow> i | None \<Rightarrow> [])"

definition listQuery :: "entityKind \<Rightarrow> str \<Rightarrow> attrTab \<Rightarrow> query" where
  "listQuery kind tid s =
     (let ty = (if truthy (at_filterType s) then Some (at_filterType s) else None) in
      case kind of ObjectEntity \<Rightarrow> useListObjectAttributes (Some tid) ty | SubjectEntity \<Rightarrow> useListSubjectAttributes (Some tid) ty)"

definition entityQuery :: "entityKind \<Rightarrow> str \<Rightarrow> attrTab \<Rightarrow> query" where
  "entityQuery kind tid s =
     (case kind of ObjectEntity \<Rightarrow> useObjectAttributes (Some tid) (selectedType s) (selectedId s)
      | SubjectEntity \<Rightarrow> useSubjectAttributes (Some tid) (selectedType s) (selectedId s))"

definition saveMutation :: "entityKind \<Rightarrow> str \<Rightarrow> attrTab \<Rightarrow> jsobject mutation" where
  "saveMutation kind tid s =
     (case kind of ObjectEntity \<Rightarrow> useSaveObjectAttributes tid (selectedType s) (selectedId s)
      | SubjectEntity \<Rightarrow> useSaveSubjectAttributes tid (selectedType s) (selectedId s))"

definition handleSelectEntity :: "str \<times> str \<Rightarrow> attrTab \<Rightarrow> attrTab" where
  "handleSelectEntity e s = s\<lparr>at_selected := Some e, at_showNewForm := False\<rparr>"

definition handleLookupNew :: "attrTab \<Rightarrow> attrTab" where
  "handleLookupNew s =
     (if \<not> truthy (at_newType s) \<or> \<not> truthy (at_newId s) then s
      else s\<lparr>at_selected := Some (at_newType s, at_newId s), at_showNewForm := False, at_newType := [], at_newId := []\<rparr>)"

definition openNewForm :: "attrTab \<Rightarrow> attrTab" where
  "openNewForm s = s\<lparr>at_showNewForm := True, at_selected := None\<rparr>"

definition cancelNewForm :: "attrTab \<Rightarrow> attrTab" where
  "cancelNewForm s = s\<lparr>at_showNewForm := False\<rparr>"

definition setFilterType :: "str \<Rightarrow> attrTab \<Rightarrow> attrTab" where
  "setFilterType v s = s\<lparr>at_filterType := v\<rparr>"

definition setNewEntity :: "str \<Rightarrow> str \<Rightarrow> attrTab \<Rightarrow> attrTab" where
  "setNewEntity ty i s = s\<lparr>at_newType := ty, at_newId := i\<rparr>"

text \<open>The tab's \<^verbatim>\<open>handleSave\<close> up to its \<^verbatim>\<open>await\<close>, and from the settled promise on.\<close>

definition handleSaveAttributes :: "entityKind \<Rightarrow> str \<Rightarrow> jsobject \<Rightarrow> attrTab \<Rightarrow> attrTab" where
  "handleSaveAttributes kind tid attrs s = s\<lparr>at_saving := True, at_sent := Some (m_request (saveMutation kind tid s) attrs)\<rparr>"

definition savedText :: "entityKind \<Rightarrow> str" where
  "savedText kind = (case kind of ObjectEntity \<Rightarrow> js ''Object attributes saved'' | SubjectEntity \<Rightarrow> js ''Subject attributes saved'')"

definition handleSaveAttributesSettled :: "entityKind \<Rightarrow> clientError + jsobject \<Rightarrow> attrTab \<Rightarrow> attrTab" where
  "handleSaveAttributesSettled kind r s =
     (case r of
        Inr _ \<Rightarrow> s\<lparr>at_saving := False, at_toasts := at_toasts s @ [ToastSuccess (savedText kind)]\<rparr>
      | Inl e \<Rightarrow> s\<lparr>at_saving := False, at_toasts := at_toasts s @ [ToastError (errorText e ''Failed to save attributes'')]\<rparr>)"

text \<open>The answers of the two queries.\<close>

record attrQuery =
  aq_list :: "(str \<times> str) list"
  aq_isListLoading :: bool
  aq_data :: "jsobject option"
  aq_isLoading :: bool

datatype listPanel = ListLoading | ListMessage str | ListItems "(str \<times> str \<times> bool) list"

datatype editPanel = NewEntityForm view | EntityCard str str "jsobject option" | EditHint str

definition listPanelOf :: "entityKind \<Rightarrow> attrTab \<Rightarrow> attrQuery \<Rightarrow> listPanel" where
  "listPanelOf kind s q =
     (if aq_isListLoading q then ListLoading
      else if length (aq_list q) = 0
      then ListMessage (case kind of ObjectEntity \<Rightarrow> js ''No objects with attributes'' | SubjectEntity \<Rightarrow> js ''No subjects with attributes'')
      else ListItems (map (\<lambda>(ty, i). (ty, i, at_selected s = Some (ty, i))) (aq_list q)))"

text \<open>The card of the selected entity holds the editor with the given attributes, or \<open>None\<close> while loading.\<close>

definition editPanelOf :: "entityKind \<Rightarrow> attrTab \<Rightarrow> attrQuery \<Rightarrow> editPanel" where
  "editPanelOf kind s q =
     (if at_showNewForm s
      then NewEntityForm
        [(js ''Type'', TextInput (case kind of ObjectEntity \<Rightarrow> js ''document'' | SubjectEntity \<Rightarrow> js ''user'') (at_newType s) False),
         (js ''ID'', TextInput (case kind of ObjectEntity \<Rightarrow> js ''doc_1'' | SubjectEntity \<Rightarrow> js ''alice'') (at_newId s) False),
         (js ''Open'', PushButton (\<not> truthy (at_newType s) \<or> \<not> truthy (at_newId s))), (js ''Cancel'', PushButton False)]
      else case at_selected s of
        Some (ty, i) \<Rightarrow> EntityCard ty i (if aq_isLoading q then None else Some (case aq_data q of Some a \<Rightarrow> a | None \<Rightarrow> []))
      | None \<Rightarrow> EditHint (case kind of
            ObjectEntity \<Rightarrow> js ''Select an object from the list or click + to look up a new one''
          | SubjectEntity \<Rightarrow> js ''Select a subject from the list or click + to look up a new one''))"

definition attributesTab :: "entityKind \<Rightarrow> attrTab \<Rightarrow> attrQuery \<Rightarrow> str \<times> bool \<times> listPanel \<times> editPanel" where
  "attributesTab kind s q = (at_filterType s, truthy (at_filterType s), listPanelOf kind s q, editPanelOf kind s q)"

definition ObjectAttributesTab :: "attrTab \<Rightarrow> attrQuery \<Rightarrow> str \<times> bool \<times> listPanel \<times> editPanel" where
  "ObjectAttributesTab = attributesTab ObjectEntity"

definition SubjectAttributesTab :: "attrTab \<Rightarrow> attrQuery \<Rightarrow> str \<times> bool \<times> listPanel \<times> editPanel" where
  "SubjectAttributesTab = attributesTab SubjectEntity"

text \<open>The page shows one of the tabs, or asks for a tenant.\<close>

definition AttributesPage ::
  "str option \<Rightarrow> entityKind \<Rightarrow> attrTab \<Rightarrow> attrQuery \<Rightarrow> (str \<times> bool \<times> listPanel \<times> editPanel) option" where
  "AttributesPage tid tab s q =
     (if \<not> given tid then None
      else Some (case tab of ObjectEntity \<Rightarrow> ObjectAttributesTab s q | SubjectEntity \<Rightarrow> SubjectAttributesTab s q))"

text \<open>The attributes the mounted editor is given, or \<open>None\<close> when it is not rendered.\<close>

definition attrEditorProps :: "entityKind \<Rightarrow> attrTab \<Rightarrow> attrQuery \<Rightarrow> jsobject option" where
  "attrEditorProps kind s q = (case editPanelOf kind s q of EntityCard _ _ a \<Rightarrow> a | _ \<Rightarrow> None)"

definition loadedAttrs :: "jsobject option \<Rightarrow> attrQuery" where
  "loadedAttrs d = \<lparr>aq_list = [], aq_isListLoading = False, aq_data = d, aq_isLoading = False\<rparr>"

section \<open>Lemmas\<close>

lemma editor_addProps:
  assumes "numText showNum toNum"
    "list_all (\<lambda>(k, v). okJson v \<and> trim k = k \<and> k \<noteq> [] \<and> k \<noteq> PROTO \<and>
       (case v of JStr s \<Rightarrow> jsonParse toNum s = None | _ \<Rightarrow> True)) attrs"
  shows "fold (saveEntry toNum) (AttributeEditor_init showNum attrs) obj = addProps attrs obj"
  using assms(2)
proof (induction attrs arbitrary: obj)
  case (Cons kv attrs)
  obtain k v where kv: "kv = (k, v)" by fastforce
  have "(case jsonParse toNum (ae_value (entryOf showNum kv)) of Some w \<Rightarrow> w | None \<Rightarrow> JStr (ae_value (entryOf showNum kv))) = v"
    using Cons.prems parse_stringify [OF assms(1), of v]
    by (cases v) (simp_all add: kv entryOf_def del: stringify.simps)
  moreover have "trim (ae_key (entryOf showNum kv)) = k" "k \<noteq> []" "k \<noteq> PROTO"
    using Cons.prems by (simp_all add: kv entryOf_def)
  ultimately have "saveEntry toNum (entryOf showNum kv) obj = addProp k v obj"
    by (simp only: saveEntry_def objSet_def if_False not_True_eq_False not_False_eq_True if_True simp_thms)
  then show ?case using Cons by (simp add: AttributeEditor_init_def addProps_def kv)
qed (simp add: AttributeEditor_init_def addProps_def)

text \<open>Conversions for the witnesses: the decimal numeral of the bit pattern.\<close>

definition bitsText :: "jsnum \<Rightarrow> str" where "bitsText x = showNat (unat x)"

definition textBits :: "str \<Rightarrow> jsnum" where "textBits t = of_nat (digitsVal t)"

lemma hd_showNat: "0 < n \<Longrightarrow> hd (showNat n) \<noteq> 0x30"
proof (induction n rule: showNat.induct)
  case (1 n)
  show ?case
  proof (cases "n < 10")
    case True
    then have "unat (of_nat (0x30 + n) :: cu) = 0x30 + n" by (simp add: digit_word(2) del: of_nat_add)
    moreover have "unat (0x30 :: cu) = 0x30" by simp
    ultimately have "of_nat (0x30 + n) \<noteq> (0x30 :: cu)" using 1(2) by (metis add_cancel_right_right less_irrefl)
    then show ?thesis using True by (subst showNat.simps) (simp del: of_nat_add)
  next
    case False
    then show ?thesis using 1 showNat_digits [of "n div 10"] by (subst showNat.simps) simp
  qed
qed

lemma bitsText_numText: "numText bitsText textBits"
proof -
  have "readNumber (showNat n @ r) = Some (showNat n, r)" if r: "endsNumber r" for n r
  proof -
    have d: "showNat n \<noteq> []" "list_all isDigit (showNat n)" using showNat_digits by auto
    have t: "takeWhile isDigit (showNat n @ r) = showNat n" "dropWhile isDigit (showNat n @ r) = r"
      using d(2) r by (cases r; auto simp: endsNumber_def list_all_iff takeWhile_append2 dropWhile_append2)+
    have "hd (showNat n) = 0x30 \<Longrightarrow> showNat n = [0x30]"
      using hd_showNat [of n] by (cases "n = 0") (auto simp: showNat.simps [of 0])
    then have i: "readInt (showNat n @ r) = Some (showNat n, r)"
      using d(1) by (auto simp: readInt_def readDigits_def t)
    have "hd (showNat n) \<noteq> DASH" using d by (cases "showNat n") (auto simp: isDigit_def)
    then have "hd (showNat n @ r) \<noteq> DASH" using d(1) by simp
    moreover have "readFrac r = Some ([], r)" "readExp r = Some ([], r)"
      using r by (auto simp: readFrac_def readExp_def endsNumber_def)
    ultimately show ?thesis by (simp add: readNumber_def Let_def i)
  qed
  then show ?thesis using showNat_digits by (simp add: numText_def bitsText_def textBits_def)
qed

definition saveRequest :: "entityKind \<Rightarrow> str \<Rightarrow> str \<times> str \<Rightarrow> jsobject \<Rightarrow> httpRequest" where
  "saveRequest kind tid e attrs =
     (case kind of ObjectEntity \<Rightarrow> setObjectAttributes tid (fst e) (snd e) attrs
      | SubjectEntity \<Rightarrow> setSubjectAttributes tid (fst e) (snd e) attrs)"

lemma sent_request: "at_sent (handleSaveAttributes kind tid attrs (handleSelectEntity e s)) = Some (saveRequest kind tid e attrs)"
  by (cases e; cases kind)
    (simp_all add: handleSaveAttributes_def saveMutation_def handleSelectEntity_def selectedType_def selectedId_def
      useSaveObjectAttributes_def useSaveSubjectAttributes_def saveRequest_def)

lemma props_loaded: "attrEditorProps kind (handleSelectEntity e s) (loadedAttrs d) = Some (case d of Some a \<Rightarrow> a | None \<Rightarrow> [])"
  by (cases e) (simp add: attrEditorProps_def editPanelOf_def handleSelectEntity_def loadedAttrs_def)

section \<open>Properties\<close>

text \<open>
  Saving without an edit keeps the attributes: for every object of attributes whose keys
  have no surrounding blanks and whose strings are not themselves JSON texts, the editor writes back
  exactly the values it was given, numbers, nested objects and arrays included, in the same order.
\<close>

theorem unedited_save_keeps:
  assumes "numText showNum toNum" "addProps attrs [] = attrs"
    "list_all (\<lambda>(k, v). okJson v \<and> trim k = k \<and> k \<noteq> [] \<and> k \<noteq> PROTO \<and>
       (case v of JStr s \<Rightarrow> jsonParse toNum s = None | _ \<Rightarrow> True)) attrs"
  shows "editedAttributes toNum (AttributeEditor_init showNum attrs) = attrs"
  using editor_addProps [OF assms(1,3), of "[]"] assms(2) by (simp add: editedAttributes_def)

theorem unedited_save_keeps_witness:
  "editedAttributes textBits (AttributeEditor_init bitsText
     [(js ''level'', JNum 5), (js ''dept'', JStr (js ''eng'')), (js ''tags'', JArr [JNull, JObj [(js ''on'', JBool True)]])]) =
   [(js ''level'', JNum 5), (js ''dept'', JStr (js ''eng'')), (js ''tags'', JArr [JNull, JObj [(js ''on'', JBool True)]])]"
proof (rule unedited_save_keeps [OF bitsText_numText])
  let ?a = "[(js ''level'', JNum 5), (js ''dept'', JStr (js ''eng'')), (js ''tags'', JArr [JNull, JObj [(js ''on'', JBool True)]])]"
  have i: "arrayIndex (js ''level'') = None" "arrayIndex (js ''dept'') = None" "arrayIndex (js ''tags'') = None"
    "arrayIndex (js ''on'') = None" by code_simp+
  have t: "trim (js ''level'') = js ''level''" "trim (js ''dept'') = js ''dept''" "trim (js ''tags'') = js ''tags''" by code_simp+
  have n: "js ''level'' \<noteq> []" "js ''dept'' \<noteq> []" "js ''tags'' \<noteq> []" by (simp_all add: js_def)
  have "readValue textBits (js ''eng'') = None"
    by (simp add: js_def) (rule readValue_word, simp_all add: readWord_def startsWith_def js_def isJsonWs_def readNumber_def
        readInt_def readDigits_def isDigit_def)
  then have p: "jsonParse textBits (js ''eng'') = None" by (simp add: jsonParse_def)
  show "addProps ?a [] = ?a" by (simp add: addProps_def addProp_def i js_inj)
  show "list_all (\<lambda>(k, v). okJson v \<and> trim k = k \<and> k \<noteq> [] \<and> k \<noteq> PROTO \<and>
       (case v of JStr s \<Rightarrow> jsonParse textBits s = None | _ \<Rightarrow> True)) ?a"
    using t n p by (simp add: PROTO_def js_inj addProps_def addProp_def i) (simp add: ownNum_def isFiniteNum_def)
qed

text \<open>
  A string that reads as JSON changes its type by a save without an edit: the string
  \<^verbatim>\<open>true\<close> is written back as the boolean, the string \<^verbatim>\<open>null\<close> as the null value.
\<close>

theorem string_becomes_value:
  "editedAttributes toNum (AttributeEditor_init showNum [(js ''flag'', JStr (js ''true'')), (js ''note'', JStr (js ''null''))]) =
     [(js ''flag'', JBool True), (js ''note'', JNull)]"
proof -
  have p: "jsonParse toNum (js ''true'') = Some (JBool True)" "jsonParse toNum (js ''null'') = Some JNull"
    using readValue_literals [of toNum "[]"] by (simp_all add: jsonParse_def skipWs_def)
  have "trim (js ''flag'') = js ''flag''" "trim (js ''note'') = js ''note''" by code_simp+
  moreover have "js ''flag'' \<noteq> []" "js ''note'' \<noteq> []" "js ''flag'' \<noteq> PROTO" "js ''note'' \<noteq> PROTO" "js ''note'' \<noteq> js ''flag''"
    by (simp_all add: PROTO_def js_inj) (simp_all add: js_def)
  moreover have "arrayIndex (js ''flag'') = None" "arrayIndex (js ''note'') = None" by code_simp+
  ultimately show ?thesis
    by (simp add: editedAttributes_def AttributeEditor_init_def saveEntry_def entryOf_def p objSet_def addProp_def)
qed

text \<open>
  Changing to an entity whose attributes are cached keeps the editor: it still holds the
  entries of the first entity, and Save writes them to the second, for objects and for subjects.
\<close>

theorem entity_switch_keeps_entries:
  assumes "component_slot commit"
  shows "commit (AttributeEditor_init showNum) (attrEditorProps kind (handleSelectEntity e2 s) (loadedAttrs (Some a2)))
      (commit (AttributeEditor_init showNum) (attrEditorProps kind (handleSelectEntity e1 s) (loadedAttrs (Some a1))) None) =
        Some (AttributeEditor_init showNum a1) \<and>
    at_sent (handleSaveAttributes kind tid (editedAttributes toNum (AttributeEditor_init showNum a1)) (handleSelectEntity e2 s)) =
      Some (saveRequest kind tid e2 (editedAttributes toNum (AttributeEditor_init showNum a1)))"
  using component_slot.swap_keeps_old [OF assms] by (simp add: props_loaded sent_request)

theorem entity_switch_keeps_entries_witness:
  "component_slot (reconcile :: (jsobject \<Rightarrow> attrEntry list) \<Rightarrow> _) \<and>
   reconcile (AttributeEditor_init bitsText)
      (attrEditorProps ObjectEntity (handleSelectEntity (js ''document'', js ''d2'') attrTab_init) (loadedAttrs (Some [])))
      (reconcile (AttributeEditor_init bitsText)
        (attrEditorProps ObjectEntity (handleSelectEntity (js ''document'', js ''d1'') attrTab_init)
          (loadedAttrs (Some [(js ''flag'', JBool True)]))) None) =
     Some (AttributeEditor_init bitsText [(js ''flag'', JBool True)])"
  using slot.component_slot_axioms
    entity_switch_keeps_entries [OF slot.component_slot_axioms, of bitsText ObjectEntity "(js ''document'', js ''d2'')"
      attrTab_init "[]" "(js ''document'', js ''d1'')" "[(js ''flag'', JBool True)]" "js ''acme''" textBits]
  by blast

text \<open>
  An entity whose attributes could not be loaded is edited as if it had none: the editor
  starts empty, and a save without an edit replaces the attributes by the empty object.
\<close>

theorem failed_load_saves_empty:
  "attrEditorProps kind (handleSelectEntity e s) (loadedAttrs None) = Some [] \<and>
   at_sent (handleSaveAttributes kind tid (editedAttributes toNum (AttributeEditor_init showNum [])) (handleSelectEntity e s)) =
     Some (saveRequest kind tid e [])"
  by (simp add: props_loaded sent_request editedAttributes_def AttributeEditor_init_def)

end
