(* ===== verification/Ui_Elements.thy ===== *)
theory Ui_Elements
  imports Ui Complex_Main
begin

text \<open>
  React elements, as the components of \<^verbatim>\<open>components/ui\<close> build them. An element has a tag, the name of a host element
  or of a component of a library, and properties; what stands between its tags in the source is its property
  \<^verbatim>\<open>children\<close>. A component of the console is a function from properties to an element.

  The attributes of a JSX element make an object in which a later attribute wins, the properties spread with
  \<^verbatim>\<open>{...props}\<close> come last in all components here, and children written between the tags win over a spread
  \<^verbatim>\<open>children\<close> (\<open>jsxProps\<close>). Reading a property that is not there gives \<^verbatim>\<open>undefined\<close> (\<open>field\<close>), for which a default in
  a parameter list is taken (\<open>withDefault\<close>); \<open>rest\<close> is the rest pattern of a parameter list. Class names
  are computed by \<^verbatim>\<open>clsx\<close>, \<^verbatim>\<open>tailwind-merge\<close> and \<^verbatim>\<open>class-variance-authority\<close>, which are arguments (record \<open>styling\<close>).
\<close>

section \<open>Elements\<close>

datatype propVal =
    PUndefined
  | PBool bool
  | PNum rat
  | PStr str
  | PHandler nat
  | PObj "(string \<times> propVal) list"
  | PNodes "jsxElem list"
and jsxElem =
    El (elTag: string) (elProps: "(string \<times> propVal) list")
  | Leaf propVal

type_synonym props = "(string \<times> propVal) list"

abbreviation lit :: "string \<Rightarrow> propVal" where "lit s \<equiv> PStr (js s)"

definition field :: "props \<Rightarrow> string \<Rightarrow> propVal" where
  "field p k = (case map_of p k of None \<Rightarrow> PUndefined | Some v \<Rightarrow> v)"

definition withDefault :: "propVal \<Rightarrow> propVal \<Rightarrow> propVal" where
  "withDefault d v = (if v = PUndefined then d else v)"

definition rest :: "string list \<Rightarrow> props \<Rightarrow> props" where
  "rest taken p = filter (\<lambda>(k, _). k \<notin> set taken) p"

definition jsxProps :: "props \<Rightarrow> props \<Rightarrow> jsxElem list option \<Rightarrow> props" where
  "jsxProps own spread kids =
     (case kids of None \<Rightarrow> [] | Some ks \<Rightarrow> [(''children'', PNodes ks)]) @ spread @ rev own"

text \<open>Truth of a value, and what a value renders to as a child: \<^verbatim>\<open>undefined\<close> and booleans render nothing.\<close>

definition truthyVal :: "propVal \<Rightarrow> bool" where
  "truthyVal v = (case v of PUndefined \<Rightarrow> False | PBool b \<Rightarrow> b | PNum n \<Rightarrow> n \<noteq> 0 | PStr s \<Rightarrow> s \<noteq> [] | _ \<Rightarrow> True)"

definition nodes :: "propVal \<Rightarrow> jsxElem list" where
  "nodes v = (case v of PNodes ks \<Rightarrow> ks | PUndefined \<Rightarrow> [] | PBool _ \<Rightarrow> [] | _ \<Rightarrow> [Leaf v])"

text \<open>\<^verbatim>\<open>v && (...)\<close> among children, and \<^verbatim>\<open>b && v\<close> among the inputs of \<^verbatim>\<open>cn\<close>.\<close>

definition guarded :: "propVal \<Rightarrow> jsxElem list \<Rightarrow> jsxElem list" where
  "guarded v ks = (if truthyVal v then ks else nodes v)"

definition andThen :: "bool \<Rightarrow> propVal \<Rightarrow> propVal" where
  "andThen b v = (if b then v else PBool False)"

section \<open>Class names\<close>

text \<open>\<open>lib_cva base variants defaults\<close> is the function that \<^verbatim>\<open>cva\<close> returns, from the chosen variants to a class name.\<close>

record styling =
  lib_clsx :: "propVal list \<Rightarrow> str"
  lib_twMerge :: "str \<Rightarrow> str"
  lib_cva :: "string \<Rightarrow> (string \<times> (string \<times> string) list) list \<Rightarrow> (string \<times> string) list \<Rightarrow> props \<Rightarrow> str"

definition cn :: "styling \<Rightarrow> propVal list \<Rightarrow> propVal" where
  "cn lib inputs = PStr (lib_twMerge lib (lib_clsx lib inputs))"

section \<open>Reading an element\<close>

lemma kid_smaller: "k \<in> set (nodes (field ps c)) \<Longrightarrow> size k < size (El t ps)"
proof -
  assume k: "k \<in> set (nodes (field ps c))"
  then obtain v where v: "map_of ps c = Some v" by (auto simp: field_def nodes_def split: option.splits)
  then have m: "(c, v) \<in> set ps" by (rule map_of_SomeD)
  have "size k \<le> Suc (size v)"
    using k v by (auto simp: field_def nodes_def intro: le_SucI size_list_estimation' split: propVal.splits)
  moreover have "size_prod (\<lambda>_. 0) size (c, v) \<le> size_list (size_prod (\<lambda>_. 0) size) ps"
    by (rule size_list_estimation' [OF m]) simp
  ultimately show ?thesis by simp
qed

text \<open>All elements of a tree, parents first.\<close>

function elements :: "jsxElem \<Rightarrow> jsxElem list" where
  "elements (El t ps) = El t ps # concat (map elements (nodes (field ps ''children'')))"
| "elements (Leaf v) = []"
  by pat_completeness auto
termination
  by (relation "measure size") (simp_all only: wf_measure in_measure kid_smaller)

end
