(* ===== verification/Ui_Library.thy ===== *)
theory Ui_Library
  imports Ui_Elements
begin

text \<open>
  The components of \<^verbatim>\<open>components/ui\<close>, one section per file and one definition per component, in the order of the
  files except that \<open>SelectContent\<close> comes after the scroll buttons it uses. Tags such as \<^verbatim>\<open>DialogPrimitive.Content\<close> are
  components of the libraries \<^verbatim>\<open>radix-ui\<close>, \<^verbatim>\<open>cmdk\<close>, \<^verbatim>\<open>sonner\<close> and \<^verbatim>\<open>lucide-react\<close>; a component of the console inside another is
  applied. The theme that \<^verbatim>\<open>useTheme\<close> returns is an argument of \<open>Toaster\<close>.
\<close>

section \<open>Button: \<^verbatim>\<open>button.tsx\<close>\<close>

definition buttonVariants :: "styling \<Rightarrow> props \<Rightarrow> propVal" where
  "buttonVariants lib p = PStr (lib_cva lib
    ''inline-flex items-center justify-center gap-2 whitespace-nowrap rounded-md text-sm font-medium transition-all disabled:pointer-events-none disabled:opacity-50 [&_svg]:pointer-events-none [&_svg:not([class*='size-'])]:size-4 shrink-0 [&_svg]:shrink-0 outline-none focus-visible:border-ring focus-visible:ring-ring/50 focus-visible:ring-[3px] aria-invalid:ring-destructive/20 dark:aria-invalid:ring-destructive/40 aria-invalid:border-destructive''
    [(''variant'', [(''default'', ''bg-primary text-primary-foreground hover:bg-primary/90''),
       (''destructive'',
         ''bg-destructive text-white hover:bg-destructive/90 focus-visible:ring-destructive/20 dark:focus-visible:ring-destructive/40 dark:bg-destructive/60''),
       (''outline'',
         ''border bg-background shadow-xs hover:bg-accent hover:text-accent-foreground dark:bg-input/30 dark:border-input dark:hover:bg-input/50''),
       (''secondary'', ''bg-secondary text-secondary-foreground hover:bg-secondary/80''),
       (''ghost'', ''hover:bg-accent hover:text-accent-foreground dark:hover:bg-accent/50''),
       (''link'', ''text-primary underline-offset-4 hover:underline'')]),
     (''size'', [(''default'', ''h-9 px-4 py-2 has-[>svg]:px-3''),
       (''xs'', ''h-6 gap-1 rounded-md px-2 text-xs has-[>svg]:px-1.5 [&_svg:not([class*='size-'])]:size-3''),
       (''sm'', ''h-8 rounded-md gap-1.5 px-3 has-[>svg]:px-2.5''),
       (''lg'', ''h-10 rounded-md px-6 has-[>svg]:px-4''),
       (''icon'', ''size-9''),
       (''icon-xs'', ''size-6 rounded-md [&_svg:not([class*='size-'])]:size-3''),
       (''icon-sm'', ''size-8''),
       (''icon-lg'', ''size-10'')])]
    [(''variant'', ''default''), (''size'', ''default'')] p)"

definition Button :: "styling \<Rightarrow> props \<Rightarrow> jsxElem" where
  "Button lib p =
     (let comp = (if truthyVal (withDefault (PBool False) (field p ''asChild'')) then ''Slot.Root'' else ''button'') in
     El comp (jsxProps
       [(''data-slot'', lit ''button''),
        (''data-variant'', withDefault (lit ''default'') (field p ''variant'')),
        (''data-size'', withDefault (lit ''default'') (field p ''size'')),
        (''className'', cn lib [buttonVariants lib [(''variant'', withDefault (lit ''default'') (field p ''variant'')), (''size'', withDefault
          (lit ''default'') (field p ''size'')), (''className'', field p ''className'')]])]
       (rest [''className'', ''variant'', ''size'', ''asChild''] p) None))"

section \<open>Badge: \<^verbatim>\<open>badge.tsx\<close>\<close>

definition badgeVariants :: "styling \<Rightarrow> props \<Rightarrow> propVal" where
  "badgeVariants lib p = PStr (lib_cva lib
    ''inline-flex items-center justify-center rounded-full border border-transparent px-2 py-0.5 text-xs font-medium w-fit whitespace-nowrap shrink-0 [&>svg]:size-3 gap-1 [&>svg]:pointer-events-none focus-visible:border-ring focus-visible:ring-ring/50 focus-visible:ring-[3px] aria-invalid:ring-destructive/20 dark:aria-invalid:ring-destructive/40 aria-invalid:border-destructive transition-[color,box-shadow] overflow-hidden''
    [(''variant'', [(''default'', ''bg-primary text-primary-foreground [a&]:hover:bg-primary/90''),
       (''secondary'', ''bg-secondary text-secondary-foreground [a&]:hover:bg-secondary/90''),
       (''destructive'',
         ''bg-destructive text-white [a&]:hover:bg-destructive/90 focus-visible:ring-destructive/20 dark:focus-visible:ring-destructive/40 dark:bg-destructive/60''),
       (''outline'', ''border-border text-foreground [a&]:hover:bg-accent [a&]:hover:text-accent-foreground''),
       (''ghost'', ''[a&]:hover:bg-accent [a&]:hover:text-accent-foreground''),
       (''link'', ''text-primary underline-offset-4 [a&]:hover:underline'')])]
    [(''variant'', ''default'')] p)"

definition Badge :: "styling \<Rightarrow> props \<Rightarrow> jsxElem" where
  "Badge lib p =
     (let comp = (if truthyVal (withDefault (PBool False) (field p ''asChild'')) then ''Slot.Root'' else ''span'') in
     El comp (jsxProps
       [(''data-slot'', lit ''badge''),
        (''data-variant'', withDefault (lit ''default'') (field p ''variant'')),
        (''className'', cn lib [badgeVariants lib [(''variant'', withDefault (lit ''default'') (field p ''variant''))], field p ''className''])]
       (rest [''className'', ''variant'', ''asChild''] p) None))"

section \<open>Cards: \<^verbatim>\<open>card.tsx\<close>\<close>

definition Card :: "styling \<Rightarrow> props \<Rightarrow> jsxElem" where
  "Card lib p =
     El ''div'' (jsxProps
       [(''data-slot'', lit ''card''),
        (''className'', cn lib [lit ''bg-card text-card-foreground flex flex-col gap-6 rounded-xl border py-6 shadow-sm'', field p ''className''])]
       (rest [''className''] p) None)"

definition CardHeader :: "styling \<Rightarrow> props \<Rightarrow> jsxElem" where
  "CardHeader lib p =
     El ''div'' (jsxProps
       [(''data-slot'', lit ''card-header''),
        (''className'',
          cn lib [lit ''@container/card-header grid auto-rows-min grid-rows-[auto_auto] items-start gap-2 px-6 has-data-[slot=card-action]:grid-cols-[1fr_auto] [.border-b]:pb-6'',
          field p ''className''])]
       (rest [''className''] p) None)"

definition CardTitle :: "styling \<Rightarrow> props \<Rightarrow> jsxElem" where
  "CardTitle lib p =
     El ''div'' (jsxProps
       [(''data-slot'', lit ''card-title''),
        (''className'', cn lib [lit ''leading-none font-semibold'', field p ''className''])]
       (rest [''className''] p) None)"

definition CardDescription :: "styling \<Rightarrow> props \<Rightarrow> jsxElem" where
  "CardDescription lib p =
     El ''div'' (jsxProps
       [(''data-slot'', lit ''card-description''),
        (''className'', cn lib [lit ''text-muted-foreground text-sm'', field p ''className''])]
       (rest [''className''] p) None)"

definition CardAction :: "styling \<Rightarrow> props \<Rightarrow> jsxElem" where
  "CardAction lib p =
     El ''div'' (jsxProps
       [(''data-slot'', lit ''card-action''),
        (''className'', cn lib [lit ''col-start-2 row-span-2 row-start-1 self-start justify-self-end'', field p ''className''])]
       (rest [''className''] p) None)"

definition CardContent :: "styling \<Rightarrow> props \<Rightarrow> jsxElem" where
  "CardContent lib p =
     El ''div'' (jsxProps
       [(''data-slot'', lit ''card-content''),
        (''className'', cn lib [lit ''px-6'', field p ''className''])]
       (rest [''className''] p) None)"

definition CardFooter :: "styling \<Rightarrow> props \<Rightarrow> jsxElem" where
  "CardFooter lib p =
     El ''div'' (jsxProps
       [(''data-slot'', lit ''card-footer''),
        (''className'', cn lib [lit ''flex items-center px-6 [.border-t]:pt-6'', field p ''className''])]
       (rest [''className''] p) None)"

section \<open>Input: \<^verbatim>\<open>input.tsx\<close>\<close>

definition Input :: "styling \<Rightarrow> props \<Rightarrow> jsxElem" where
  "Input lib p =
     El ''input'' (jsxProps
       [(''type'', field p ''type''),
        (''data-slot'', lit ''input''),
        (''className'',
          cn lib [lit ''file:text-foreground placeholder:text-muted-foreground selection:bg-primary selection:text-primary-foreground dark:bg-input/30 border-input h-9 w-full min-w-0 rounded-md border bg-transparent px-3 py-1 text-base shadow-xs transition-[color,box-shadow] outline-none file:inline-flex file:h-7 file:border-0 file:bg-transparent file:text-sm file:font-medium disabled:pointer-events-none disabled:cursor-not-allowed disabled:opacity-50 md:text-sm'',
          lit ''focus-visible:border-ring focus-visible:ring-ring/50 focus-visible:ring-[3px]'',
          lit ''aria-invalid:ring-destructive/20 dark:aria-invalid:ring-destructive/40 aria-invalid:border-destructive'', field p ''className''])]
       (rest [''className'', ''type''] p) None)"

section \<open>Label: \<^verbatim>\<open>label.tsx\<close>\<close>

definition Label :: "styling \<Rightarrow> props \<Rightarrow> jsxElem" where
  "Label lib p =
     El ''LabelPrimitive.Root'' (jsxProps
       [(''data-slot'', lit ''label''),
        (''className'',
          cn lib [lit ''flex items-center gap-2 text-sm leading-none font-medium select-none group-data-[disabled=true]:pointer-events-none group-data-[disabled=true]:opacity-50 peer-disabled:cursor-not-allowed peer-disabled:opacity-50'',
          field p ''className''])]
       (rest [''className''] p) None)"

section \<open>Popovers: \<^verbatim>\<open>popover.tsx\<close>\<close>

definition Popover :: "styling \<Rightarrow> props \<Rightarrow> jsxElem" where
  "Popover lib p =
     El ''PopoverPrimitive.Root'' (jsxProps [(''data-slot'', lit ''popover'')] p None)"

definition PopoverTrigger :: "styling \<Rightarrow> props \<Rightarrow> jsxElem" where
  "PopoverTrigger lib p =
     El ''PopoverPrimitive.Trigger'' (jsxProps [(''data-slot'', lit ''popover-trigger'')] p None)"

definition PopoverContent :: "styling \<Rightarrow> props \<Rightarrow> jsxElem" where
  "PopoverContent lib p =
     El ''PopoverPrimitive.Portal'' (jsxProps
       []
       [] (Some ([El ''PopoverPrimitive.Content'' (jsxProps
             [(''data-slot'', lit ''popover-content''),
              (''align'', withDefault (lit ''center'') (field p ''align'')),
              (''sideOffset'', withDefault (PNum 4) (field p ''sideOffset'')),
              (''className'',
                cn lib [lit ''bg-popover text-popover-foreground data-[state=open]:animate-in data-[state=closed]:animate-out data-[state=closed]:fade-out-0 data-[state=open]:fade-in-0 data-[state=closed]:zoom-out-95 data-[state=open]:zoom-in-95 data-[side=bottom]:slide-in-from-top-2 data-[side=left]:slide-in-from-right-2 data-[side=right]:slide-in-from-left-2 data-[side=top]:slide-in-from-bottom-2 z-50 w-72 origin-(--radix-popover-content-transform-origin) rounded-md border p-4 shadow-md outline-hidden'',
                field p ''className''])]
             (rest [''className'', ''align'', ''sideOffset''] p) None)])))"

definition PopoverAnchor :: "styling \<Rightarrow> props \<Rightarrow> jsxElem" where
  "PopoverAnchor lib p =
     El ''PopoverPrimitive.Anchor'' (jsxProps [(''data-slot'', lit ''popover-anchor'')] p None)"

definition PopoverHeader :: "styling \<Rightarrow> props \<Rightarrow> jsxElem" where
  "PopoverHeader lib p =
     El ''div'' (jsxProps
       [(''data-slot'', lit ''popover-header''),
        (''className'', cn lib [lit ''flex flex-col gap-1 text-sm'', field p ''className''])]
       (rest [''className''] p) None)"

definition PopoverTitle :: "styling \<Rightarrow> props \<Rightarrow> jsxElem" where
  "PopoverTitle lib p =
     El ''div'' (jsxProps
       [(''data-slot'', lit ''popover-title''),
        (''className'', cn lib [lit ''font-medium'', field p ''className''])]
       (rest [''className''] p) None)"

definition PopoverDescription :: "styling \<Rightarrow> props \<Rightarrow> jsxElem" where
  "PopoverDescription lib p =
     El ''p'' (jsxProps
       [(''data-slot'', lit ''popover-description''),
        (''className'', cn lib [lit ''text-muted-foreground'', field p ''className''])]
       (rest [''className''] p) None)"

section \<open>Select boxes: \<^verbatim>\<open>select.tsx\<close>\<close>

definition Select :: "styling \<Rightarrow> props \<Rightarrow> jsxElem" where
  "Select lib p =
     El ''SelectPrimitive.Root'' (jsxProps [(''data-slot'', lit ''select'')] p None)"

definition SelectGroup :: "styling \<Rightarrow> props \<Rightarrow> jsxElem" where
  "SelectGroup lib p =
     El ''SelectPrimitive.Group'' (jsxProps [(''data-slot'', lit ''select-group'')] p None)"

definition SelectValue :: "styling \<Rightarrow> props \<Rightarrow> jsxElem" where
  "SelectValue lib p =
     El ''SelectPrimitive.Value'' (jsxProps [(''data-slot'', lit ''select-value'')] p None)"

definition SelectTrigger :: "styling \<Rightarrow> props \<Rightarrow> jsxElem" where
  "SelectTrigger lib p =
     El ''SelectPrimitive.Trigger'' (jsxProps
       [(''data-slot'', lit ''select-trigger''),
        (''data-size'', withDefault (lit ''default'') (field p ''size'')),
        (''className'',
          cn lib [lit ''border-input data-[placeholder]:text-muted-foreground [&_svg:not([class*='text-'])]:text-muted-foreground focus-visible:border-ring focus-visible:ring-ring/50 aria-invalid:ring-destructive/20 dark:aria-invalid:ring-destructive/40 aria-invalid:border-destructive dark:bg-input/30 dark:hover:bg-input/50 flex w-fit items-center justify-between gap-2 rounded-md border bg-transparent px-3 py-2 text-sm whitespace-nowrap shadow-xs transition-[color,box-shadow] outline-none focus-visible:ring-[3px] disabled:cursor-not-allowed disabled:opacity-50 data-[size=default]:h-9 data-[size=sm]:h-8 *:data-[slot=select-value]:line-clamp-1 *:data-[slot=select-value]:flex *:data-[slot=select-value]:items-center *:data-[slot=select-value]:gap-2 [&_svg]:pointer-events-none [&_svg]:shrink-0 [&_svg:not([class*='size-'])]:size-4'',
          field p ''className''])]
       (rest [''className'', ''size'', ''children''] p) (Some (nodes (field p ''children'') @
           [El ''SelectPrimitive.Icon'' (jsxProps
             [(''asChild'', PBool True)]
             [] (Some ([El ''ChevronDownIcon'' (jsxProps [(''className'', lit ''size-4 opacity-50'')] [] None)])))])))"

definition SelectLabel :: "styling \<Rightarrow> props \<Rightarrow> jsxElem" where
  "SelectLabel lib p =
     El ''SelectPrimitive.Label'' (jsxProps
       [(''data-slot'', lit ''select-label''),
        (''className'', cn lib [lit ''text-muted-foreground px-2 py-1.5 text-xs'', field p ''className''])]
       (rest [''className''] p) None)"

definition SelectItem :: "styling \<Rightarrow> props \<Rightarrow> jsxElem" where
  "SelectItem lib p =
     El ''SelectPrimitive.Item'' (jsxProps
       [(''data-slot'', lit ''select-item''),
        (''className'',
          cn lib [lit ''focus:bg-accent focus:text-accent-foreground [&_svg:not([class*='text-'])]:text-muted-foreground relative flex w-full cursor-default items-center gap-2 rounded-sm py-1.5 pr-8 pl-2 text-sm outline-hidden select-none data-[disabled]:pointer-events-none data-[disabled]:opacity-50 [&_svg]:pointer-events-none [&_svg]:shrink-0 [&_svg:not([class*='size-'])]:size-4 *:[span]:last:flex *:[span]:last:items-center *:[span]:last:gap-2'',
          field p ''className''])]
       (rest [''className'', ''children''] p) (Some ([El ''span'' (jsxProps
             [(''data-slot'', lit ''select-item-indicator''),
              (''className'', lit ''absolute right-2 flex size-3.5 items-center justify-center'')]
             [] (Some ([El ''SelectPrimitive.ItemIndicator'' (jsxProps
                   []
                   [] (Some ([El ''CheckIcon'' (jsxProps [(''className'', lit ''size-4'')] [] None)])))]))),
           El ''SelectPrimitive.ItemText'' (jsxProps
             []
             [] (Some (nodes (field p ''children''))))])))"

definition SelectSeparator :: "styling \<Rightarrow> props \<Rightarrow> jsxElem" where
  "SelectSeparator lib p =
     El ''SelectPrimitive.Separator'' (jsxProps
       [(''data-slot'', lit ''select-separator''),
        (''className'', cn lib [lit ''bg-border pointer-events-none -mx-1 my-1 h-px'', field p ''className''])]
       (rest [''className''] p) None)"

definition SelectScrollUpButton :: "styling \<Rightarrow> props \<Rightarrow> jsxElem" where
  "SelectScrollUpButton lib p =
     El ''SelectPrimitive.ScrollUpButton'' (jsxProps
       [(''data-slot'', lit ''select-scroll-up-button''),
        (''className'', cn lib [lit ''flex cursor-default items-center justify-center py-1'', field p ''className''])]
       (rest [''className''] p) (Some ([El ''ChevronUpIcon'' (jsxProps [(''className'', lit ''size-4'')] [] None)])))"

definition SelectScrollDownButton :: "styling \<Rightarrow> props \<Rightarrow> jsxElem" where
  "SelectScrollDownButton lib p =
     El ''SelectPrimitive.ScrollDownButton'' (jsxProps
       [(''data-slot'', lit ''select-scroll-down-button''),
        (''className'', cn lib [lit ''flex cursor-default items-center justify-center py-1'', field p ''className''])]
       (rest [''className''] p) (Some ([El ''ChevronDownIcon'' (jsxProps [(''className'', lit ''size-4'')] [] None)])))"

definition SelectContent :: "styling \<Rightarrow> props \<Rightarrow> jsxElem" where
  "SelectContent lib p =
     El ''SelectPrimitive.Portal'' (jsxProps
       []
       [] (Some ([El ''SelectPrimitive.Content'' (jsxProps
             [(''data-slot'', lit ''select-content''),
              (''className'',
                cn lib [lit ''bg-popover text-popover-foreground data-[state=open]:animate-in data-[state=closed]:animate-out data-[state=closed]:fade-out-0 data-[state=open]:fade-in-0 data-[state=closed]:zoom-out-95 data-[state=open]:zoom-in-95 data-[side=bottom]:slide-in-from-top-2 data-[side=left]:slide-in-from-right-2 data-[side=right]:slide-in-from-left-2 data-[side=top]:slide-in-from-bottom-2 relative z-50 max-h-(--radix-select-content-available-height) min-w-[8rem] origin-(--radix-select-content-transform-origin) overflow-x-hidden overflow-y-auto rounded-md border shadow-md'',
                andThen (withDefault (lit ''item-aligned'') (field p ''position'') = lit ''popper'')
                (lit ''data-[side=bottom]:translate-y-1 data-[side=left]:-translate-x-1 data-[side=right]:translate-x-1 data-[side=top]:-translate-y-1''),
                field p ''className'']),
              (''position'', withDefault (lit ''item-aligned'') (field p ''position'')),
              (''align'', withDefault (lit ''center'') (field p ''align''))]
             (rest [''className'', ''children'', ''position'', ''align''] p) (Some ([SelectScrollUpButton lib (jsxProps [] [] None),
                 El ''SelectPrimitive.Viewport'' (jsxProps
                   [(''className'', cn lib [lit ''p-1'', andThen (withDefault (lit ''item-aligned'') (field p ''position'') = lit ''popper'')
                     (lit ''h-[var(--radix-select-trigger-height)] w-full min-w-[var(--radix-select-trigger-width)] scroll-my-1'')])]
                   [] (Some (nodes (field p ''children'')))),
                 SelectScrollDownButton lib (jsxProps [] [] None)])))])))"

section \<open>Separator: \<^verbatim>\<open>separator.tsx\<close>\<close>

definition Separator :: "styling \<Rightarrow> props \<Rightarrow> jsxElem" where
  "Separator lib p =
     El ''SeparatorPrimitive.Root'' (jsxProps
       [(''data-slot'', lit ''separator''),
        (''decorative'', withDefault (PBool True) (field p ''decorative'')),
        (''orientation'', withDefault (lit ''horizontal'') (field p ''orientation'')),
        (''className'',
          cn lib [lit ''bg-border shrink-0 data-[orientation=horizontal]:h-px data-[orientation=horizontal]:w-full data-[orientation=vertical]:h-full data-[orientation=vertical]:w-px'',
          field p ''className''])]
       (rest [''className'', ''orientation'', ''decorative''] p) None)"

section \<open>Sheets: \<^verbatim>\<open>sheet.tsx\<close>\<close>

definition Sheet :: "styling \<Rightarrow> props \<Rightarrow> jsxElem" where
  "Sheet lib p =
     El ''SheetPrimitive.Root'' (jsxProps [(''data-slot'', lit ''sheet'')] p None)"

definition SheetTrigger :: "styling \<Rightarrow> props \<Rightarrow> jsxElem" where
  "SheetTrigger lib p =
     El ''SheetPrimitive.Trigger'' (jsxProps [(''data-slot'', lit ''sheet-trigger'')] p None)"

definition SheetClose :: "styling \<Rightarrow> props \<Rightarrow> jsxElem" where
  "SheetClose lib p =
     El ''SheetPrimitive.Close'' (jsxProps [(''data-slot'', lit ''sheet-close'')] p None)"

definition SheetPortal :: "styling \<Rightarrow> props \<Rightarrow> jsxElem" where
  "SheetPortal lib p =
     El ''SheetPrimitive.Portal'' (jsxProps [(''data-slot'', lit ''sheet-portal'')] p None)"

definition SheetOverlay :: "styling \<Rightarrow> props \<Rightarrow> jsxElem" where
  "SheetOverlay lib p =
     El ''SheetPrimitive.Overlay'' (jsxProps
       [(''data-slot'', lit ''sheet-overlay''),
        (''className'',
          cn lib [lit ''data-[state=open]:animate-in data-[state=closed]:animate-out data-[state=closed]:fade-out-0 data-[state=open]:fade-in-0 fixed inset-0 z-50 bg-black/50'',
          field p ''className''])]
       (rest [''className''] p) None)"

definition SheetContent :: "styling \<Rightarrow> props \<Rightarrow> jsxElem" where
  "SheetContent lib p =
     SheetPortal lib (jsxProps
       []
       [] (Some ([SheetOverlay lib (jsxProps [] [] None),
           El ''SheetPrimitive.Content'' (jsxProps
             [(''data-slot'', lit ''sheet-content''),
              (''className'',
                cn lib [lit ''bg-background data-[state=open]:animate-in data-[state=closed]:animate-out fixed z-50 flex flex-col gap-4 shadow-lg transition ease-in-out data-[state=closed]:duration-300 data-[state=open]:duration-500'',
                andThen (withDefault (lit ''right'') (field p ''side'') = lit ''right'')
                (lit ''data-[state=closed]:slide-out-to-right data-[state=open]:slide-in-from-right inset-y-0 right-0 h-full w-3/4 border-l sm:max-w-sm''),
                andThen (withDefault (lit ''right'') (field p ''side'') = lit ''left'')
                (lit ''data-[state=closed]:slide-out-to-left data-[state=open]:slide-in-from-left inset-y-0 left-0 h-full w-3/4 border-r sm:max-w-sm''),
                andThen (withDefault (lit ''right'') (field p ''side'') = lit ''top'')
                (lit ''data-[state=closed]:slide-out-to-top data-[state=open]:slide-in-from-top inset-x-0 top-0 h-auto border-b''), andThen
                (withDefault (lit ''right'') (field p ''side'') = lit ''bottom'')
                (lit ''data-[state=closed]:slide-out-to-bottom data-[state=open]:slide-in-from-bottom inset-x-0 bottom-0 h-auto border-t''),
                field p ''className''])]
             (rest [''className'', ''children'', ''side'', ''showCloseButton''] p) (Some (nodes (field p ''children'') @
                 guarded (withDefault (PBool True) (field p ''showCloseButton'')) [El ''SheetPrimitive.Close'' (jsxProps
                   [(''className'',
                     lit ''ring-offset-background focus:ring-ring data-[state=open]:bg-secondary absolute top-4 right-4 rounded-xs opacity-70 transition-opacity hover:opacity-100 focus:ring-2 focus:ring-offset-2 focus:outline-hidden disabled:pointer-events-none'')]
                   [] (Some ([El ''XIcon'' (jsxProps [(''className'', lit ''size-4'')] [] None),
                       El ''span'' (jsxProps
                         [(''className'', lit ''sr-only'')]
                         [] (Some ([Leaf (lit ''Close'')])))])))])))])))"

definition SheetHeader :: "styling \<Rightarrow> props \<Rightarrow> jsxElem" where
  "SheetHeader lib p =
     El ''div'' (jsxProps
       [(''data-slot'', lit ''sheet-header''),
        (''className'', cn lib [lit ''flex flex-col gap-1.5 p-4'', field p ''className''])]
       (rest [''className''] p) None)"

definition SheetFooter :: "styling \<Rightarrow> props \<Rightarrow> jsxElem" where
  "SheetFooter lib p =
     El ''div'' (jsxProps
       [(''data-slot'', lit ''sheet-footer''),
        (''className'', cn lib [lit ''mt-auto flex flex-col gap-2 p-4'', field p ''className''])]
       (rest [''className''] p) None)"

definition SheetTitle :: "styling \<Rightarrow> props \<Rightarrow> jsxElem" where
  "SheetTitle lib p =
     El ''SheetPrimitive.Title'' (jsxProps
       [(''data-slot'', lit ''sheet-title''),
        (''className'', cn lib [lit ''text-foreground font-semibold'', field p ''className''])]
       (rest [''className''] p) None)"

definition SheetDescription :: "styling \<Rightarrow> props \<Rightarrow> jsxElem" where
  "SheetDescription lib p =
     El ''SheetPrimitive.Description'' (jsxProps
       [(''data-slot'', lit ''sheet-description''),
        (''className'', cn lib [lit ''text-muted-foreground text-sm'', field p ''className''])]
       (rest [''className''] p) None)"

section \<open>Skeleton: \<^verbatim>\<open>skeleton.tsx\<close>\<close>

definition Skeleton :: "styling \<Rightarrow> props \<Rightarrow> jsxElem" where
  "Skeleton lib p =
     El ''div'' (jsxProps
       [(''data-slot'', lit ''skeleton''),
        (''className'', cn lib [lit ''bg-accent animate-pulse rounded-md'', field p ''className''])]
       (rest [''className''] p) None)"

section \<open>Notifications: \<^verbatim>\<open>sonner.tsx\<close>\<close>

definition Toaster :: "propVal \<Rightarrow> styling \<Rightarrow> props \<Rightarrow> jsxElem" where
  "Toaster theme lib p =
     El ''Sonner'' (jsxProps
       [(''theme'', withDefault (lit ''system'') theme),
        (''className'', lit ''toaster group''),
        (''icons'', PObj [(''success'', PNodes [El ''CircleCheckIcon'' (jsxProps [(''className'', lit ''size-4'')] [] None)]), (''info'',
          PNodes [El ''InfoIcon'' (jsxProps [(''className'', lit ''size-4'')] [] None)]), (''warning'', PNodes [El ''TriangleAlertIcon''
          (jsxProps [(''className'', lit ''size-4'')] [] None)]), (''error'', PNodes [El ''OctagonXIcon'' (jsxProps [(''className'',
          lit ''size-4'')] [] None)]), (''loading'', PNodes [El ''Loader2Icon'' (jsxProps [(''className'', lit ''size-4 animate-spin'')] [] None)])]),
        (''style'', PObj [(''--normal-bg'', lit ''var(--popover)''), (''--normal-text'', lit ''var(--popover-foreground)''), (''--normal-border'',
          lit ''var(--border)''), (''--border-radius'', lit ''var(--radius)'')])]
       p None)"

section \<open>Tables: \<^verbatim>\<open>table.tsx\<close>\<close>

definition Table :: "styling \<Rightarrow> props \<Rightarrow> jsxElem" where
  "Table lib p =
     El ''div'' (jsxProps
       [(''data-slot'', lit ''table-container''),
        (''className'', lit ''relative w-full overflow-x-auto'')]
       [] (Some ([El ''table'' (jsxProps
             [(''data-slot'', lit ''table''),
              (''className'', cn lib [lit ''w-full caption-bottom text-sm'', field p ''className''])]
             (rest [''className''] p) None)])))"

definition TableHeader :: "styling \<Rightarrow> props \<Rightarrow> jsxElem" where
  "TableHeader lib p =
     El ''thead'' (jsxProps
       [(''data-slot'', lit ''table-header''),
        (''className'', cn lib [lit ''[&_tr]:border-b'', field p ''className''])]
       (rest [''className''] p) None)"

definition TableBody :: "styling \<Rightarrow> props \<Rightarrow> jsxElem" where
  "TableBody lib p =
     El ''tbody'' (jsxProps
       [(''data-slot'', lit ''table-body''),
        (''className'', cn lib [lit ''[&_tr:last-child]:border-0'', field p ''className''])]
       (rest [''className''] p) None)"

definition TableFooter :: "styling \<Rightarrow> props \<Rightarrow> jsxElem" where
  "TableFooter lib p =
     El ''tfoot'' (jsxProps
       [(''data-slot'', lit ''table-footer''),
        (''className'', cn lib [lit ''bg-muted/50 border-t font-medium [&>tr]:last:border-b-0'', field p ''className''])]
       (rest [''className''] p) None)"

definition TableRow :: "styling \<Rightarrow> props \<Rightarrow> jsxElem" where
  "TableRow lib p =
     El ''tr'' (jsxProps
       [(''data-slot'', lit ''table-row''),
        (''className'', cn lib [lit ''hover:bg-muted/50 data-[state=selected]:bg-muted border-b transition-colors'', field p ''className''])]
       (rest [''className''] p) None)"

definition TableHead :: "styling \<Rightarrow> props \<Rightarrow> jsxElem" where
  "TableHead lib p =
     El ''th'' (jsxProps
       [(''data-slot'', lit ''table-head''),
        (''className'',
          cn lib [lit ''text-foreground h-10 px-2 text-left align-middle font-medium whitespace-nowrap [&:has([role=checkbox])]:pr-0 [&>[role=checkbox]]:translate-y-[2px]'',
          field p ''className''])]
       (rest [''className''] p) None)"

definition TableCell :: "styling \<Rightarrow> props \<Rightarrow> jsxElem" where
  "TableCell lib p =
     El ''td'' (jsxProps
       [(''data-slot'', lit ''table-cell''),
        (''className'', cn lib [lit ''p-2 align-middle whitespace-nowrap [&:has([role=checkbox])]:pr-0 [&>[role=checkbox]]:translate-y-[2px]'',
          field p ''className''])]
       (rest [''className''] p) None)"

definition TableCaption :: "styling \<Rightarrow> props \<Rightarrow> jsxElem" where
  "TableCaption lib p =
     El ''caption'' (jsxProps
       [(''data-slot'', lit ''table-caption''),
        (''className'', cn lib [lit ''text-muted-foreground mt-4 text-sm'', field p ''className''])]
       (rest [''className''] p) None)"

section \<open>Tabs: \<^verbatim>\<open>tabs.tsx\<close>\<close>

definition tabsListVariants :: "styling \<Rightarrow> props \<Rightarrow> propVal" where
  "tabsListVariants lib p = PStr (lib_cva lib
    ''rounded-lg p-[3px] group-data-[orientation=horizontal]/tabs:h-9 data-[variant=line]:rounded-none group/tabs-list text-muted-foreground inline-flex w-fit items-center justify-center group-data-[orientation=vertical]/tabs:h-fit group-data-[orientation=vertical]/tabs:flex-col''
    [(''variant'', [(''default'', ''bg-muted''),
       (''line'', ''gap-1 bg-transparent'')])]
    [(''variant'', ''default'')] p)"

definition Tabs :: "styling \<Rightarrow> props \<Rightarrow> jsxElem" where
  "Tabs lib p =
     El ''TabsPrimitive.Root'' (jsxProps
       [(''data-slot'', lit ''tabs''),
        (''data-orientation'', withDefault (lit ''horizontal'') (field p ''orientation'')),
        (''orientation'', withDefault (lit ''horizontal'') (field p ''orientation'')),
        (''className'', cn lib [lit ''group/tabs flex gap-2 data-[orientation=horizontal]:flex-col'', field p ''className''])]
       (rest [''className'', ''orientation''] p) None)"

definition TabsList :: "styling \<Rightarrow> props \<Rightarrow> jsxElem" where
  "TabsList lib p =
     El ''TabsPrimitive.List'' (jsxProps
       [(''data-slot'', lit ''tabs-list''),
        (''data-variant'', withDefault (lit ''default'') (field p ''variant'')),
        (''className'', cn lib [tabsListVariants lib [(''variant'', withDefault (lit ''default'') (field p ''variant''))], field p ''className''])]
       (rest [''className'', ''variant''] p) None)"

definition TabsTrigger :: "styling \<Rightarrow> props \<Rightarrow> jsxElem" where
  "TabsTrigger lib p =
     El ''TabsPrimitive.Trigger'' (jsxProps
       [(''data-slot'', lit ''tabs-trigger''),
        (''className'',
          cn lib [lit ''focus-visible:border-ring focus-visible:ring-ring/50 focus-visible:outline-ring text-foreground/60 hover:text-foreground dark:text-muted-foreground dark:hover:text-foreground relative inline-flex h-[calc(100%-1px)] flex-1 items-center justify-center gap-1.5 rounded-md border border-transparent px-2 py-1 text-sm font-medium whitespace-nowrap transition-all group-data-[orientation=vertical]/tabs:w-full group-data-[orientation=vertical]/tabs:justify-start focus-visible:ring-[3px] focus-visible:outline-1 disabled:pointer-events-none disabled:opacity-50 group-data-[variant=default]/tabs-list:data-[state=active]:shadow-sm group-data-[variant=line]/tabs-list:data-[state=active]:shadow-none [&_svg]:pointer-events-none [&_svg]:shrink-0 [&_svg:not([class*='size-'])]:size-4'',
          lit ''group-data-[variant=line]/tabs-list:bg-transparent group-data-[variant=line]/tabs-list:data-[state=active]:bg-transparent dark:group-data-[variant=line]/tabs-list:data-[state=active]:border-transparent dark:group-data-[variant=line]/tabs-list:data-[state=active]:bg-transparent'',
          lit ''data-[state=active]:bg-background dark:data-[state=active]:text-foreground dark:data-[state=active]:border-input dark:data-[state=active]:bg-input/30 data-[state=active]:text-foreground'',
          lit ''after:bg-foreground after:absolute after:opacity-0 after:transition-opacity group-data-[orientation=horizontal]/tabs:after:inset-x-0 group-data-[orientation=horizontal]/tabs:after:bottom-[-5px] group-data-[orientation=horizontal]/tabs:after:h-0.5 group-data-[orientation=vertical]/tabs:after:inset-y-0 group-data-[orientation=vertical]/tabs:after:-right-1 group-data-[orientation=vertical]/tabs:after:w-0.5 group-data-[variant=line]/tabs-list:data-[state=active]:after:opacity-100'',
          field p ''className''])]
       (rest [''className''] p) None)"

definition TabsContent :: "styling \<Rightarrow> props \<Rightarrow> jsxElem" where
  "TabsContent lib p =
     El ''TabsPrimitive.Content'' (jsxProps
       [(''data-slot'', lit ''tabs-content''),
        (''className'', cn lib [lit ''flex-1 outline-none'', field p ''className''])]
       (rest [''className''] p) None)"

section \<open>Tooltips: \<^verbatim>\<open>tooltip.tsx\<close>\<close>

definition TooltipProvider :: "styling \<Rightarrow> props \<Rightarrow> jsxElem" where
  "TooltipProvider lib p =
     El ''TooltipPrimitive.Provider'' (jsxProps
       [(''data-slot'', lit ''tooltip-provider''),
        (''delayDuration'', withDefault (PNum 0) (field p ''delayDuration''))]
       (rest [''delayDuration''] p) None)"

definition Tooltip :: "styling \<Rightarrow> props \<Rightarrow> jsxElem" where
  "Tooltip lib p =
     El ''TooltipPrimitive.Root'' (jsxProps [(''data-slot'', lit ''tooltip'')] p None)"

definition TooltipTrigger :: "styling \<Rightarrow> props \<Rightarrow> jsxElem" where
  "TooltipTrigger lib p =
     El ''TooltipPrimitive.Trigger'' (jsxProps [(''data-slot'', lit ''tooltip-trigger'')] p None)"

definition TooltipContent :: "styling \<Rightarrow> props \<Rightarrow> jsxElem" where
  "TooltipContent lib p =
     El ''TooltipPrimitive.Portal'' (jsxProps
       []
       [] (Some ([El ''TooltipPrimitive.Content'' (jsxProps
             [(''data-slot'', lit ''tooltip-content''),
              (''sideOffset'', withDefault (PNum 0) (field p ''sideOffset'')),
              (''className'',
                cn lib [lit ''bg-foreground text-background animate-in fade-in-0 zoom-in-95 data-[state=closed]:animate-out data-[state=closed]:fade-out-0 data-[state=closed]:zoom-out-95 data-[side=bottom]:slide-in-from-top-2 data-[side=left]:slide-in-from-right-2 data-[side=right]:slide-in-from-left-2 data-[side=top]:slide-in-from-bottom-2 z-50 w-fit origin-(--radix-tooltip-content-transform-origin) rounded-md px-3 py-1.5 text-xs text-balance'',
                field p ''className''])]
             (rest [''className'', ''sideOffset'', ''children''] p) (Some (nodes (field p ''children'') @
                 [El ''TooltipPrimitive.Arrow'' (jsxProps
                   [(''className'', lit ''bg-foreground fill-foreground z-50 size-2.5 translate-y-[calc(-50%_-_2px)] rotate-45 rounded-[2px]'')]
                   [] None)])))])))"

section \<open>Menus: \<^verbatim>\<open>dropdown-menu.tsx\<close>\<close>

definition DropdownMenu :: "styling \<Rightarrow> props \<Rightarrow> jsxElem" where
  "DropdownMenu lib p =
     El ''DropdownMenuPrimitive.Root'' (jsxProps [(''data-slot'', lit ''dropdown-menu'')] p None)"

definition DropdownMenuPortal :: "styling \<Rightarrow> props \<Rightarrow> jsxElem" where
  "DropdownMenuPortal lib p =
     El ''DropdownMenuPrimitive.Portal'' (jsxProps [(''data-slot'', lit ''dropdown-menu-portal'')] p None)"

definition DropdownMenuTrigger :: "styling \<Rightarrow> props \<Rightarrow> jsxElem" where
  "DropdownMenuTrigger lib p =
     El ''DropdownMenuPrimitive.Trigger'' (jsxProps [(''data-slot'', lit ''dropdown-menu-trigger'')] p None)"

definition DropdownMenuContent :: "styling \<Rightarrow> props \<Rightarrow> jsxElem" where
  "DropdownMenuContent lib p =
     El ''DropdownMenuPrimitive.Portal'' (jsxProps
       []
       [] (Some ([El ''DropdownMenuPrimitive.Content'' (jsxProps
             [(''data-slot'', lit ''dropdown-menu-content''),
              (''sideOffset'', withDefault (PNum 4) (field p ''sideOffset'')),
              (''className'',
                cn lib [lit ''bg-popover text-popover-foreground data-[state=open]:animate-in data-[state=closed]:animate-out data-[state=closed]:fade-out-0 data-[state=open]:fade-in-0 data-[state=closed]:zoom-out-95 data-[state=open]:zoom-in-95 data-[side=bottom]:slide-in-from-top-2 data-[side=left]:slide-in-from-right-2 data-[side=right]:slide-in-from-left-2 data-[side=top]:slide-in-from-bottom-2 z-50 max-h-(--radix-dropdown-menu-content-available-height) min-w-[8rem] origin-(--radix-dropdown-menu-content-transform-origin) overflow-x-hidden overflow-y-auto rounded-md border p-1 shadow-md'',
                field p ''className''])]
             (rest [''className'', ''sideOffset''] p) None)])))"

definition DropdownMenuGroup :: "styling \<Rightarrow> props \<Rightarrow> jsxElem" where
  "DropdownMenuGroup lib p =
     El ''DropdownMenuPrimitive.Group'' (jsxProps [(''data-slot'', lit ''dropdown-menu-group'')] p None)"

definition DropdownMenuItem :: "styling \<Rightarrow> props \<Rightarrow> jsxElem" where
  "DropdownMenuItem lib p =
     El ''DropdownMenuPrimitive.Item'' (jsxProps
       [(''data-slot'', lit ''dropdown-menu-item''),
        (''data-inset'', field p ''inset''),
        (''data-variant'', withDefault (lit ''default'') (field p ''variant'')),
        (''className'',
          cn lib [lit ''focus:bg-accent focus:text-accent-foreground data-[variant=destructive]:text-destructive data-[variant=destructive]:focus:bg-destructive/10 dark:data-[variant=destructive]:focus:bg-destructive/20 data-[variant=destructive]:focus:text-destructive data-[variant=destructive]:*:[svg]:!text-destructive [&_svg:not([class*='text-'])]:text-muted-foreground relative flex cursor-default items-center gap-2 rounded-sm px-2 py-1.5 text-sm outline-hidden select-none data-[disabled]:pointer-events-none data-[disabled]:opacity-50 data-[inset]:pl-8 [&_svg]:pointer-events-none [&_svg]:shrink-0 [&_svg:not([class*='size-'])]:size-4'',
          field p ''className''])]
       (rest [''className'', ''inset'', ''variant''] p) None)"

definition DropdownMenuCheckboxItem :: "styling \<Rightarrow> props \<Rightarrow> jsxElem" where
  "DropdownMenuCheckboxItem lib p =
     El ''DropdownMenuPrimitive.CheckboxItem'' (jsxProps
       [(''data-slot'', lit ''dropdown-menu-checkbox-item''),
        (''className'',
          cn lib [lit ''focus:bg-accent focus:text-accent-foreground relative flex cursor-default items-center gap-2 rounded-sm py-1.5 pr-2 pl-8 text-sm outline-hidden select-none data-[disabled]:pointer-events-none data-[disabled]:opacity-50 [&_svg]:pointer-events-none [&_svg]:shrink-0 [&_svg:not([class*='size-'])]:size-4'',
          field p ''className'']),
        (''checked'', field p ''checked'')]
       (rest [''className'', ''children'', ''checked''] p) (Some ([El ''span'' (jsxProps
             [(''className'', lit ''pointer-events-none absolute left-2 flex size-3.5 items-center justify-center'')]
             [] (Some ([El ''DropdownMenuPrimitive.ItemIndicator'' (jsxProps
                   []
                   [] (Some ([El ''CheckIcon'' (jsxProps [(''className'', lit ''size-4'')] [] None)])))])))] @
           nodes (field p ''children''))))"

definition DropdownMenuRadioGroup :: "styling \<Rightarrow> props \<Rightarrow> jsxElem" where
  "DropdownMenuRadioGroup lib p =
     El ''DropdownMenuPrimitive.RadioGroup'' (jsxProps [(''data-slot'', lit ''dropdown-menu-radio-group'')] p None)"

definition DropdownMenuRadioItem :: "styling \<Rightarrow> props \<Rightarrow> jsxElem" where
  "DropdownMenuRadioItem lib p =
     El ''DropdownMenuPrimitive.RadioItem'' (jsxProps
       [(''data-slot'', lit ''dropdown-menu-radio-item''),
        (''className'',
          cn lib [lit ''focus:bg-accent focus:text-accent-foreground relative flex cursor-default items-center gap-2 rounded-sm py-1.5 pr-2 pl-8 text-sm outline-hidden select-none data-[disabled]:pointer-events-none data-[disabled]:opacity-50 [&_svg]:pointer-events-none [&_svg]:shrink-0 [&_svg:not([class*='size-'])]:size-4'',
          field p ''className''])]
       (rest [''className'', ''children''] p) (Some ([El ''span'' (jsxProps
             [(''className'', lit ''pointer-events-none absolute left-2 flex size-3.5 items-center justify-center'')]
             [] (Some ([El ''DropdownMenuPrimitive.ItemIndicator'' (jsxProps
                   []
                   [] (Some ([El ''CircleIcon'' (jsxProps [(''className'', lit ''size-2 fill-current'')] [] None)])))])))] @
           nodes (field p ''children''))))"

definition DropdownMenuLabel :: "styling \<Rightarrow> props \<Rightarrow> jsxElem" where
  "DropdownMenuLabel lib p =
     El ''DropdownMenuPrimitive.Label'' (jsxProps
       [(''data-slot'', lit ''dropdown-menu-label''),
        (''data-inset'', field p ''inset''),
        (''className'', cn lib [lit ''px-2 py-1.5 text-sm font-medium data-[inset]:pl-8'', field p ''className''])]
       (rest [''className'', ''inset''] p) None)"

definition DropdownMenuSeparator :: "styling \<Rightarrow> props \<Rightarrow> jsxElem" where
  "DropdownMenuSeparator lib p =
     El ''DropdownMenuPrimitive.Separator'' (jsxProps
       [(''data-slot'', lit ''dropdown-menu-separator''),
        (''className'', cn lib [lit ''bg-border -mx-1 my-1 h-px'', field p ''className''])]
       (rest [''className''] p) None)"

definition DropdownMenuShortcut :: "styling \<Rightarrow> props \<Rightarrow> jsxElem" where
  "DropdownMenuShortcut lib p =
     El ''span'' (jsxProps
       [(''data-slot'', lit ''dropdown-menu-shortcut''),
        (''className'', cn lib [lit ''text-muted-foreground ml-auto text-xs tracking-widest'', field p ''className''])]
       (rest [''className''] p) None)"

definition DropdownMenuSub :: "styling \<Rightarrow> props \<Rightarrow> jsxElem" where
  "DropdownMenuSub lib p =
     El ''DropdownMenuPrimitive.Sub'' (jsxProps [(''data-slot'', lit ''dropdown-menu-sub'')] p None)"

definition DropdownMenuSubTrigger :: "styling \<Rightarrow> props \<Rightarrow> jsxElem" where
  "DropdownMenuSubTrigger lib p =
     El ''DropdownMenuPrimitive.SubTrigger'' (jsxProps
       [(''data-slot'', lit ''dropdown-menu-sub-trigger''),
        (''data-inset'', field p ''inset''),
        (''className'',
          cn lib [lit ''focus:bg-accent focus:text-accent-foreground data-[state=open]:bg-accent data-[state=open]:text-accent-foreground [&_svg:not([class*='text-'])]:text-muted-foreground flex cursor-default items-center gap-2 rounded-sm px-2 py-1.5 text-sm outline-hidden select-none data-[inset]:pl-8 [&_svg]:pointer-events-none [&_svg]:shrink-0 [&_svg:not([class*='size-'])]:size-4'',
          field p ''className''])]
       (rest [''className'', ''inset'', ''children''] p) (Some (nodes (field p ''children'') @
           [El ''ChevronRightIcon'' (jsxProps [(''className'', lit ''ml-auto size-4'')] [] None)])))"

definition DropdownMenuSubContent :: "styling \<Rightarrow> props \<Rightarrow> jsxElem" where
  "DropdownMenuSubContent lib p =
     El ''DropdownMenuPrimitive.SubContent'' (jsxProps
       [(''data-slot'', lit ''dropdown-menu-sub-content''),
        (''className'',
          cn lib [lit ''bg-popover text-popover-foreground data-[state=open]:animate-in data-[state=closed]:animate-out data-[state=closed]:fade-out-0 data-[state=open]:fade-in-0 data-[state=closed]:zoom-out-95 data-[state=open]:zoom-in-95 data-[side=bottom]:slide-in-from-top-2 data-[side=left]:slide-in-from-right-2 data-[side=right]:slide-in-from-left-2 data-[side=top]:slide-in-from-bottom-2 z-50 min-w-[8rem] origin-(--radix-dropdown-menu-content-transform-origin) overflow-hidden rounded-md border p-1 shadow-lg'',
          field p ''className''])]
       (rest [''className''] p) None)"

section \<open>Dialogs: \<^verbatim>\<open>dialog.tsx\<close>\<close>

definition Dialog :: "styling \<Rightarrow> props \<Rightarrow> jsxElem" where
  "Dialog lib p =
     El ''DialogPrimitive.Root'' (jsxProps [(''data-slot'', lit ''dialog'')] p None)"

definition DialogTrigger :: "styling \<Rightarrow> props \<Rightarrow> jsxElem" where
  "DialogTrigger lib p =
     El ''DialogPrimitive.Trigger'' (jsxProps [(''data-slot'', lit ''dialog-trigger'')] p None)"

definition DialogPortal :: "styling \<Rightarrow> props \<Rightarrow> jsxElem" where
  "DialogPortal lib p =
     El ''DialogPrimitive.Portal'' (jsxProps [(''data-slot'', lit ''dialog-portal'')] p None)"

definition DialogClose :: "styling \<Rightarrow> props \<Rightarrow> jsxElem" where
  "DialogClose lib p =
     El ''DialogPrimitive.Close'' (jsxProps [(''data-slot'', lit ''dialog-close'')] p None)"

definition DialogOverlay :: "styling \<Rightarrow> props \<Rightarrow> jsxElem" where
  "DialogOverlay lib p =
     El ''DialogPrimitive.Overlay'' (jsxProps
       [(''data-slot'', lit ''dialog-overlay''),
        (''className'',
          cn lib [lit ''data-[state=open]:animate-in data-[state=closed]:animate-out data-[state=closed]:fade-out-0 data-[state=open]:fade-in-0 fixed inset-0 z-50 bg-black/50'',
          field p ''className''])]
       (rest [''className''] p) None)"

definition DialogContent :: "styling \<Rightarrow> props \<Rightarrow> jsxElem" where
  "DialogContent lib p =
     DialogPortal lib (jsxProps
       [(''data-slot'', lit ''dialog-portal'')]
       [] (Some ([DialogOverlay lib (jsxProps [] [] None),
           El ''DialogPrimitive.Content'' (jsxProps
             [(''data-slot'', lit ''dialog-content''),
              (''className'',
                cn lib [lit ''bg-background data-[state=open]:animate-in data-[state=closed]:animate-out data-[state=closed]:fade-out-0 data-[state=open]:fade-in-0 data-[state=closed]:zoom-out-95 data-[state=open]:zoom-in-95 fixed top-[50%] left-[50%] z-50 grid w-full max-w-[calc(100%-2rem)] translate-x-[-50%] translate-y-[-50%] gap-4 rounded-lg border p-6 shadow-lg duration-200 outline-none sm:max-w-lg'',
                field p ''className''])]
             (rest [''className'', ''children'', ''showCloseButton''] p) (Some (nodes (field p ''children'') @
                 guarded (withDefault (PBool True) (field p ''showCloseButton'')) [El ''DialogPrimitive.Close'' (jsxProps
                   [(''data-slot'', lit ''dialog-close''),
                    (''className'',
                      lit ''ring-offset-background focus:ring-ring data-[state=open]:bg-accent data-[state=open]:text-muted-foreground absolute top-4 right-4 rounded-xs opacity-70 transition-opacity hover:opacity-100 focus:ring-2 focus:ring-offset-2 focus:outline-hidden disabled:pointer-events-none [&_svg]:pointer-events-none [&_svg]:shrink-0 [&_svg:not([class*='size-'])]:size-4'')]
                   [] (Some ([El ''XIcon'' (jsxProps [] [] None),
                       El ''span'' (jsxProps
                         [(''className'', lit ''sr-only'')]
                         [] (Some ([Leaf (lit ''Close'')])))])))])))])))"

definition DialogHeader :: "styling \<Rightarrow> props \<Rightarrow> jsxElem" where
  "DialogHeader lib p =
     El ''div'' (jsxProps
       [(''data-slot'', lit ''dialog-header''),
        (''className'', cn lib [lit ''flex flex-col gap-2 text-center sm:text-left'', field p ''className''])]
       (rest [''className''] p) None)"

definition DialogFooter :: "styling \<Rightarrow> props \<Rightarrow> jsxElem" where
  "DialogFooter lib p =
     El ''div'' (jsxProps
       [(''data-slot'', lit ''dialog-footer''),
        (''className'', cn lib [lit ''flex flex-col-reverse gap-2 sm:flex-row sm:justify-end'', field p ''className''])]
       (rest [''className'', ''showCloseButton'', ''children''] p) (Some (nodes (field p ''children'') @
           guarded (withDefault (PBool False) (field p ''showCloseButton'')) [El ''DialogPrimitive.Close'' (jsxProps
             [(''asChild'', PBool True)]
             [] (Some ([Button lib (jsxProps
                   [(''variant'', lit ''outline'')]
                   [] (Some ([Leaf (lit ''Close'')])))])))])))"

definition DialogTitle :: "styling \<Rightarrow> props \<Rightarrow> jsxElem" where
  "DialogTitle lib p =
     El ''DialogPrimitive.Title'' (jsxProps
       [(''data-slot'', lit ''dialog-title''),
        (''className'', cn lib [lit ''text-lg leading-none font-semibold'', field p ''className''])]
       (rest [''className''] p) None)"

definition DialogDescription :: "styling \<Rightarrow> props \<Rightarrow> jsxElem" where
  "DialogDescription lib p =
     El ''DialogPrimitive.Description'' (jsxProps
       [(''data-slot'', lit ''dialog-description''),
        (''className'', cn lib [lit ''text-muted-foreground text-sm'', field p ''className''])]
       (rest [''className''] p) None)"

section \<open>Command palette: \<^verbatim>\<open>command.tsx\<close>\<close>

definition Command :: "styling \<Rightarrow> props \<Rightarrow> jsxElem" where
  "Command lib p =
     El ''CommandPrimitive'' (jsxProps
       [(''data-slot'', lit ''command''),
        (''className'', cn lib [lit ''bg-popover text-popover-foreground flex h-full w-full flex-col overflow-hidden rounded-md'',
          field p ''className''])]
       (rest [''className''] p) None)"

definition CommandDialog :: "styling \<Rightarrow> props \<Rightarrow> jsxElem" where
  "CommandDialog lib p =
     Dialog lib (jsxProps
       []
       (rest [''title'', ''description'', ''children'', ''className'', ''showCloseButton''] p) (Some ([DialogHeader lib (jsxProps
             [(''className'', lit ''sr-only'')]
             [] (Some ([DialogTitle lib (jsxProps
                   []
                   [] (Some (nodes (withDefault (lit ''Command Palette'') (field p ''title''))))),
                 DialogDescription lib (jsxProps
                   []
                   [] (Some (nodes (withDefault (lit ''Search for a command to run...'') (field p ''description'')))))]))),
           DialogContent lib (jsxProps
             [(''className'', cn lib [lit ''overflow-hidden p-0'', field p ''className'']),
              (''showCloseButton'', withDefault (PBool True) (field p ''showCloseButton''))]
             [] (Some ([Command lib (jsxProps
                   [(''className'',
                     lit ''[&_[cmdk-group-heading]]:text-muted-foreground **:data-[slot=command-input-wrapper]:h-12 [&_[cmdk-group-heading]]:px-2 [&_[cmdk-group-heading]]:font-medium [&_[cmdk-group]]:px-2 [&_[cmdk-group]:not([hidden])_~[cmdk-group]]:pt-0 [&_[cmdk-input-wrapper]_svg]:h-5 [&_[cmdk-input-wrapper]_svg]:w-5 [&_[cmdk-input]]:h-12 [&_[cmdk-item]]:px-2 [&_[cmdk-item]]:py-3 [&_[cmdk-item]_svg]:h-5 [&_[cmdk-item]_svg]:w-5'')]
                   [] (Some (nodes (field p ''children''))))])))])))"

definition CommandInput :: "styling \<Rightarrow> props \<Rightarrow> jsxElem" where
  "CommandInput lib p =
     El ''div'' (jsxProps
       [(''data-slot'', lit ''command-input-wrapper''),
        (''className'', lit ''flex h-9 items-center gap-2 border-b px-3'')]
       [] (Some ([El ''SearchIcon'' (jsxProps [(''className'', lit ''size-4 shrink-0 opacity-50'')] [] None),
           El ''CommandPrimitive.Input'' (jsxProps
             [(''data-slot'', lit ''command-input''),
              (''className'',
                cn lib [lit ''placeholder:text-muted-foreground flex h-10 w-full rounded-md bg-transparent py-3 text-sm outline-hidden disabled:cursor-not-allowed disabled:opacity-50'',
                field p ''className''])]
             (rest [''className''] p) None)])))"

definition CommandList :: "styling \<Rightarrow> props \<Rightarrow> jsxElem" where
  "CommandList lib p =
     El ''CommandPrimitive.List'' (jsxProps
       [(''data-slot'', lit ''command-list''),
        (''className'', cn lib [lit ''max-h-[300px] scroll-py-1 overflow-x-hidden overflow-y-auto'', field p ''className''])]
       (rest [''className''] p) None)"

definition CommandEmpty :: "styling \<Rightarrow> props \<Rightarrow> jsxElem" where
  "CommandEmpty lib p =
     El ''CommandPrimitive.Empty'' (jsxProps
       [(''data-slot'', lit ''command-empty''),
        (''className'', lit ''py-6 text-center text-sm'')]
       p None)"

definition CommandGroup :: "styling \<Rightarrow> props \<Rightarrow> jsxElem" where
  "CommandGroup lib p =
     El ''CommandPrimitive.Group'' (jsxProps
       [(''data-slot'', lit ''command-group''),
        (''className'',
          cn lib [lit ''text-foreground [&_[cmdk-group-heading]]:text-muted-foreground overflow-hidden p-1 [&_[cmdk-group-heading]]:px-2 [&_[cmdk-group-heading]]:py-1.5 [&_[cmdk-group-heading]]:text-xs [&_[cmdk-group-heading]]:font-medium'',
          field p ''className''])]
       (rest [''className''] p) None)"

definition CommandSeparator :: "styling \<Rightarrow> props \<Rightarrow> jsxElem" where
  "CommandSeparator lib p =
     El ''CommandPrimitive.Separator'' (jsxProps
       [(''data-slot'', lit ''command-separator''),
        (''className'', cn lib [lit ''bg-border -mx-1 h-px'', field p ''className''])]
       (rest [''className''] p) None)"

definition CommandItem :: "styling \<Rightarrow> props \<Rightarrow> jsxElem" where
  "CommandItem lib p =
     El ''CommandPrimitive.Item'' (jsxProps
       [(''data-slot'', lit ''command-item''),
        (''className'',
          cn lib [lit ''data-[selected=true]:bg-accent data-[selected=true]:text-accent-foreground [&_svg:not([class*='text-'])]:text-muted-foreground relative flex cursor-default items-center gap-2 rounded-sm px-2 py-1.5 text-sm outline-hidden select-none data-[disabled=true]:pointer-events-none data-[disabled=true]:opacity-50 [&_svg]:pointer-events-none [&_svg]:shrink-0 [&_svg:not([class*='size-'])]:size-4'',
          field p ''className''])]
       (rest [''className''] p) None)"

definition CommandShortcut :: "styling \<Rightarrow> props \<Rightarrow> jsxElem" where
  "CommandShortcut lib p =
     El ''span'' (jsxProps
       [(''data-slot'', lit ''command-shortcut''),
        (''className'', cn lib [lit ''text-muted-foreground ml-auto text-xs tracking-widest'', field p ''className''])]
       (rest [''className''] p) None)"

end
