(* ===== verification/Ui_Laws.thy ===== *)
theory Ui_Laws
  imports Ui_Library
begin

text \<open>
  What the console relies on in its components: a wrapper hands the properties it is given on to the element of the
  library it wraps, marks that element with its slot, and renders the children it is given. From this follows that
  the abstract controls of the component theories (\<^typ>\<open>control\<close>) are what the rendered elements offer.
\<close>

section \<open>Properties of an element\<close>

lemma map_of_rest: "map_of (rest taken p) k = (if k \<in> set taken then None else map_of p k)"
  by (induction p) (auto simp: rest_def)

lemma field_jsxProps:
  "field (jsxProps own spread kids) k =
     (if k = ''children'' \<and> kids \<noteq> None then PNodes (the kids)
      else case map_of spread k of Some v \<Rightarrow> v | None \<Rightarrow> field (rev own) k)"
  by (auto simp: field_def jsxProps_def split: option.splits)

lemma map_of_jsxProps:
  "map_of (jsxProps own spread kids) k =
     (if k = ''children'' \<and> kids \<noteq> None then Some (PNodes (the kids))
      else case map_of spread k of Some v \<Rightarrow> Some v | None \<Rightarrow> map_of (rev own) k)"
  by (auto simp: jsxProps_def map_add_def split: option.splits)

lemma field_Some: "map_of p k = Some v \<Longrightarrow> field p k = v"
  by (simp add: field_def)

lemma field_Cons: "field ((k', v) # p) k = (if k' = k then v else field p k)"
  by (simp add: field_def)

lemma field_Nil: "field [] k = PUndefined"
  by (simp add: field_def)

lemma nodes_simps [simp]: "nodes (PNodes ks) = ks" "nodes PUndefined = []"
  by (simp_all add: nodes_def)

lemmas wrapper_simps = field_jsxProps field_Some field_Cons field_Nil map_of_rest map_of_jsxProps

section \<open>Wrappers\<close>

definition forwards :: "(props \<Rightarrow> jsxElem) \<Rightarrow> (props \<Rightarrow> string) \<Rightarrow> string list \<Rightarrow> bool" where
  "forwards component host taken \<longleftrightarrow> (\<forall>p k v. k \<notin> set taken \<and> map_of p k = Some v \<longrightarrow>
     (\<exists>h \<in> set (elements (component p)). elTag h = host p \<and> field (elProps h) k = v))"

definition slotted :: "(props \<Rightarrow> jsxElem) \<Rightarrow> (props \<Rightarrow> string) \<Rightarrow> string \<Rightarrow> bool" where
  "slotted component host slot \<longleftrightarrow> (\<forall>p. map_of p ''data-slot'' = None \<longrightarrow>
     (\<exists>h \<in> set (elements (component p)). elTag h = host p \<and> field (elProps h) ''data-slot'' = lit slot))"

definition wraps :: "(props \<Rightarrow> jsxElem) \<times> (props \<Rightarrow> string) \<times> string option \<times> string list \<Rightarrow> bool" where
  "wraps w = (case w of (component, host, slot, taken) \<Rightarrow>
     forwards component host taken \<and> (case slot of None \<Rightarrow> True | Some s \<Rightarrow> slotted component host s))"

definition hostTag :: "string \<Rightarrow> props \<Rightarrow> string" where
  "hostTag plain p = (if truthyVal (withDefault (PBool False) (field p ''asChild'')) then ''Slot.Root'' else plain)"

lemma wraps_button:
  "wraps (Button lib, hostTag ''button'', Some ''button'', [''className'', ''variant'', ''size'', ''asChild''])"
  by (simp_all add: wraps_def forwards_def slotted_def wrapper_simps Button_def hostTag_def Let_def)

lemma wraps_badge:
  "wraps (Badge lib, hostTag ''span'', Some ''badge'', [''className'', ''variant'', ''asChild''])"
  by (simp_all add: wraps_def forwards_def slotted_def wrapper_simps Badge_def hostTag_def Let_def)

lemma wraps_card:
  "wraps (Card lib, (\<lambda>_. ''div''), Some ''card'', [''className''])"
  "wraps (CardHeader lib, (\<lambda>_. ''div''), Some ''card-header'', [''className''])"
  "wraps (CardTitle lib, (\<lambda>_. ''div''), Some ''card-title'', [''className''])"
  "wraps (CardDescription lib, (\<lambda>_. ''div''), Some ''card-description'', [''className''])"
  "wraps (CardAction lib, (\<lambda>_. ''div''), Some ''card-action'', [''className''])"
  "wraps (CardContent lib, (\<lambda>_. ''div''), Some ''card-content'', [''className''])"
  "wraps (CardFooter lib, (\<lambda>_. ''div''), Some ''card-footer'', [''className''])"
  by (simp_all add: wraps_def forwards_def slotted_def wrapper_simps Card_def CardHeader_def CardTitle_def CardDescription_def CardAction_def CardContent_def CardFooter_def)

lemma wraps_input:
  "wraps (Input lib, (\<lambda>_. ''input''), Some ''input'', [''className'', ''type''])"
  by (simp_all add: wraps_def forwards_def slotted_def wrapper_simps Input_def)

lemma wraps_label:
  "wraps (Label lib, (\<lambda>_. ''LabelPrimitive.Root''), Some ''label'', [''className''])"
  by (simp_all add: wraps_def forwards_def slotted_def wrapper_simps Label_def)

lemma wraps_popover:
  "wraps (Popover lib, (\<lambda>_. ''PopoverPrimitive.Root''), Some ''popover'', [])"
  "wraps (PopoverTrigger lib, (\<lambda>_. ''PopoverPrimitive.Trigger''), Some ''popover-trigger'', [])"
  "wraps (PopoverContent lib, (\<lambda>_. ''PopoverPrimitive.Content''), Some ''popover-content'', [''className'', ''align'', ''sideOffset''])"
  "wraps (PopoverAnchor lib, (\<lambda>_. ''PopoverPrimitive.Anchor''), Some ''popover-anchor'', [])"
  "wraps (PopoverHeader lib, (\<lambda>_. ''div''), Some ''popover-header'', [''className''])"
  "wraps (PopoverTitle lib, (\<lambda>_. ''div''), Some ''popover-title'', [''className''])"
  "wraps (PopoverDescription lib, (\<lambda>_. ''p''), Some ''popover-description'', [''className''])"
  by (simp_all add: wraps_def forwards_def slotted_def wrapper_simps Popover_def PopoverTrigger_def PopoverContent_def PopoverAnchor_def PopoverHeader_def PopoverTitle_def PopoverDescription_def)

lemma wraps_select:
  "wraps (Select lib, (\<lambda>_. ''SelectPrimitive.Root''), Some ''select'', [])"
  "wraps (SelectGroup lib, (\<lambda>_. ''SelectPrimitive.Group''), Some ''select-group'', [])"
  "wraps (SelectValue lib, (\<lambda>_. ''SelectPrimitive.Value''), Some ''select-value'', [])"
  "wraps (SelectTrigger lib, (\<lambda>_. ''SelectPrimitive.Trigger''), Some ''select-trigger'', [''className'', ''size'', ''children''])"
  "wraps (SelectLabel lib, (\<lambda>_. ''SelectPrimitive.Label''), Some ''select-label'', [''className''])"
  "wraps (SelectItem lib, (\<lambda>_. ''SelectPrimitive.Item''), Some ''select-item'', [''className'', ''children''])"
  "wraps (SelectSeparator lib, (\<lambda>_. ''SelectPrimitive.Separator''), Some ''select-separator'', [''className''])"
  "wraps (SelectScrollUpButton lib, (\<lambda>_. ''SelectPrimitive.ScrollUpButton''), Some ''select-scroll-up-button'', [''className'', ''children''])"
  "wraps (SelectScrollDownButton lib, (\<lambda>_. ''SelectPrimitive.ScrollDownButton''), Some ''select-scroll-down-button'', [''className'', ''children''])"
  "wraps (SelectContent lib, (\<lambda>_. ''SelectPrimitive.Content''), Some ''select-content'', [''className'', ''children'', ''position'', ''align''])"
  by (simp_all add: wraps_def forwards_def slotted_def wrapper_simps Select_def SelectGroup_def SelectValue_def SelectTrigger_def SelectLabel_def SelectItem_def SelectSeparator_def SelectScrollUpButton_def SelectScrollDownButton_def SelectContent_def)

lemma wraps_separator:
  "wraps (Separator lib, (\<lambda>_. ''SeparatorPrimitive.Root''), Some ''separator'', [''className'', ''orientation'', ''decorative''])"
  by (simp_all add: wraps_def forwards_def slotted_def wrapper_simps Separator_def)

lemma wraps_sheet:
  "wraps (Sheet lib, (\<lambda>_. ''SheetPrimitive.Root''), Some ''sheet'', [])"
  "wraps (SheetTrigger lib, (\<lambda>_. ''SheetPrimitive.Trigger''), Some ''sheet-trigger'', [])"
  "wraps (SheetClose lib, (\<lambda>_. ''SheetPrimitive.Close''), Some ''sheet-close'', [])"
  "wraps (SheetPortal lib, (\<lambda>_. ''SheetPrimitive.Portal''), Some ''sheet-portal'', [])"
  "wraps (SheetOverlay lib, (\<lambda>_. ''SheetPrimitive.Overlay''), Some ''sheet-overlay'', [''className''])"
  "wraps (SheetContent lib, (\<lambda>_. ''SheetPrimitive.Content''), Some ''sheet-content'', [''className'', ''children'', ''side'', ''showCloseButton''])"
  "wraps (SheetHeader lib, (\<lambda>_. ''div''), Some ''sheet-header'', [''className''])"
  "wraps (SheetFooter lib, (\<lambda>_. ''div''), Some ''sheet-footer'', [''className''])"
  "wraps (SheetTitle lib, (\<lambda>_. ''SheetPrimitive.Title''), Some ''sheet-title'', [''className''])"
  "wraps (SheetDescription lib, (\<lambda>_. ''SheetPrimitive.Description''), Some ''sheet-description'', [''className''])"
  by (simp_all add: wraps_def forwards_def slotted_def wrapper_simps Sheet_def SheetTrigger_def SheetClose_def SheetPortal_def SheetOverlay_def SheetContent_def SheetHeader_def SheetFooter_def SheetTitle_def SheetDescription_def)

lemma wraps_skeleton:
  "wraps (Skeleton lib, (\<lambda>_. ''div''), Some ''skeleton'', [''className''])"
  by (simp_all add: wraps_def forwards_def slotted_def wrapper_simps Skeleton_def)

lemma wraps_sonner:
  "wraps (Toaster theme lib, (\<lambda>_. ''Sonner''), None, [])"
  by (simp_all add: wraps_def forwards_def slotted_def wrapper_simps Toaster_def)

lemma wraps_table:
  "wraps (Table lib, (\<lambda>_. ''table''), Some ''table'', [''className''])"
  "wraps (TableHeader lib, (\<lambda>_. ''thead''), Some ''table-header'', [''className''])"
  "wraps (TableBody lib, (\<lambda>_. ''tbody''), Some ''table-body'', [''className''])"
  "wraps (TableFooter lib, (\<lambda>_. ''tfoot''), Some ''table-footer'', [''className''])"
  "wraps (TableRow lib, (\<lambda>_. ''tr''), Some ''table-row'', [''className''])"
  "wraps (TableHead lib, (\<lambda>_. ''th''), Some ''table-head'', [''className''])"
  "wraps (TableCell lib, (\<lambda>_. ''td''), Some ''table-cell'', [''className''])"
  "wraps (TableCaption lib, (\<lambda>_. ''caption''), Some ''table-caption'', [''className''])"
  by (simp_all add: wraps_def forwards_def slotted_def wrapper_simps Table_def TableHeader_def TableBody_def TableFooter_def TableRow_def TableHead_def TableCell_def TableCaption_def)

lemma wraps_tabs:
  "wraps (Tabs lib, (\<lambda>_. ''TabsPrimitive.Root''), Some ''tabs'', [''className'', ''orientation''])"
  "wraps (TabsList lib, (\<lambda>_. ''TabsPrimitive.List''), Some ''tabs-list'', [''className'', ''variant''])"
  "wraps (TabsTrigger lib, (\<lambda>_. ''TabsPrimitive.Trigger''), Some ''tabs-trigger'', [''className''])"
  "wraps (TabsContent lib, (\<lambda>_. ''TabsPrimitive.Content''), Some ''tabs-content'', [''className''])"
  by (simp_all add: wraps_def forwards_def slotted_def wrapper_simps Tabs_def TabsList_def TabsTrigger_def TabsContent_def)

lemma wraps_tooltip:
  "wraps (TooltipProvider lib, (\<lambda>_. ''TooltipPrimitive.Provider''), Some ''tooltip-provider'', [''delayDuration''])"
  "wraps (Tooltip lib, (\<lambda>_. ''TooltipPrimitive.Root''), Some ''tooltip'', [])"
  "wraps (TooltipTrigger lib, (\<lambda>_. ''TooltipPrimitive.Trigger''), Some ''tooltip-trigger'', [])"
  "wraps (TooltipContent lib, (\<lambda>_. ''TooltipPrimitive.Content''), Some ''tooltip-content'', [''className'', ''sideOffset'', ''children''])"
  by (simp_all add: wraps_def forwards_def slotted_def wrapper_simps TooltipProvider_def Tooltip_def TooltipTrigger_def TooltipContent_def)

lemma wraps_dropdown_menu:
  "wraps (DropdownMenu lib, (\<lambda>_. ''DropdownMenuPrimitive.Root''), Some ''dropdown-menu'', [])"
  "wraps (DropdownMenuPortal lib, (\<lambda>_. ''DropdownMenuPrimitive.Portal''), Some ''dropdown-menu-portal'', [])"
  "wraps (DropdownMenuTrigger lib, (\<lambda>_. ''DropdownMenuPrimitive.Trigger''), Some ''dropdown-menu-trigger'', [])"
  "wraps (DropdownMenuContent lib, (\<lambda>_. ''DropdownMenuPrimitive.Content''), Some ''dropdown-menu-content'', [''className'', ''sideOffset''])"
  "wraps (DropdownMenuGroup lib, (\<lambda>_. ''DropdownMenuPrimitive.Group''), Some ''dropdown-menu-group'', [])"
  "wraps (DropdownMenuItem lib, (\<lambda>_. ''DropdownMenuPrimitive.Item''), Some ''dropdown-menu-item'', [''className'', ''inset'', ''variant''])"
  "wraps (DropdownMenuCheckboxItem lib, (\<lambda>_. ''DropdownMenuPrimitive.CheckboxItem''), Some ''dropdown-menu-checkbox-item'', [''className'', ''children'', ''checked''])"
  "wraps (DropdownMenuRadioGroup lib, (\<lambda>_. ''DropdownMenuPrimitive.RadioGroup''), Some ''dropdown-menu-radio-group'', [])"
  "wraps (DropdownMenuRadioItem lib, (\<lambda>_. ''DropdownMenuPrimitive.RadioItem''), Some ''dropdown-menu-radio-item'', [''className'', ''children''])"
  "wraps (DropdownMenuLabel lib, (\<lambda>_. ''DropdownMenuPrimitive.Label''), Some ''dropdown-menu-label'', [''className'', ''inset''])"
  "wraps (DropdownMenuSeparator lib, (\<lambda>_. ''DropdownMenuPrimitive.Separator''), Some ''dropdown-menu-separator'', [''className''])"
  "wraps (DropdownMenuShortcut lib, (\<lambda>_. ''span''), Some ''dropdown-menu-shortcut'', [''className''])"
  "wraps (DropdownMenuSub lib, (\<lambda>_. ''DropdownMenuPrimitive.Sub''), Some ''dropdown-menu-sub'', [])"
  "wraps (DropdownMenuSubTrigger lib, (\<lambda>_. ''DropdownMenuPrimitive.SubTrigger''), Some ''dropdown-menu-sub-trigger'', [''className'', ''inset'', ''children''])"
  "wraps (DropdownMenuSubContent lib, (\<lambda>_. ''DropdownMenuPrimitive.SubContent''), Some ''dropdown-menu-sub-content'', [''className''])"
  by (simp_all add: wraps_def forwards_def slotted_def wrapper_simps DropdownMenu_def DropdownMenuPortal_def DropdownMenuTrigger_def DropdownMenuContent_def DropdownMenuGroup_def DropdownMenuItem_def DropdownMenuCheckboxItem_def DropdownMenuRadioGroup_def DropdownMenuRadioItem_def DropdownMenuLabel_def DropdownMenuSeparator_def DropdownMenuShortcut_def DropdownMenuSub_def DropdownMenuSubTrigger_def DropdownMenuSubContent_def)

lemma wraps_dialog:
  "wraps (Dialog lib, (\<lambda>_. ''DialogPrimitive.Root''), Some ''dialog'', [])"
  "wraps (DialogTrigger lib, (\<lambda>_. ''DialogPrimitive.Trigger''), Some ''dialog-trigger'', [])"
  "wraps (DialogPortal lib, (\<lambda>_. ''DialogPrimitive.Portal''), Some ''dialog-portal'', [])"
  "wraps (DialogClose lib, (\<lambda>_. ''DialogPrimitive.Close''), Some ''dialog-close'', [])"
  "wraps (DialogOverlay lib, (\<lambda>_. ''DialogPrimitive.Overlay''), Some ''dialog-overlay'', [''className''])"
  "wraps (DialogContent lib, (\<lambda>_. ''DialogPrimitive.Content''), Some ''dialog-content'', [''className'', ''children'', ''showCloseButton''])"
  "wraps (DialogHeader lib, (\<lambda>_. ''div''), Some ''dialog-header'', [''className''])"
  "wraps (DialogFooter lib, (\<lambda>_. ''div''), Some ''dialog-footer'', [''className'', ''showCloseButton'', ''children''])"
  "wraps (DialogTitle lib, (\<lambda>_. ''DialogPrimitive.Title''), Some ''dialog-title'', [''className''])"
  "wraps (DialogDescription lib, (\<lambda>_. ''DialogPrimitive.Description''), Some ''dialog-description'', [''className''])"
  by (simp_all add: wraps_def forwards_def slotted_def wrapper_simps Dialog_def DialogTrigger_def DialogPortal_def DialogClose_def DialogOverlay_def DialogContent_def DialogHeader_def DialogFooter_def DialogTitle_def DialogDescription_def Dialog_def DialogPortal_def)

lemma wraps_command:
  "wraps (Command lib, (\<lambda>_. ''CommandPrimitive''), Some ''command'', [''className''])"
  "wraps (CommandDialog lib, (\<lambda>_. ''DialogPrimitive.Root''), None, [''title'', ''description'', ''children'', ''className'', ''showCloseButton''])"
  "wraps (CommandInput lib, (\<lambda>_. ''CommandPrimitive.Input''), Some ''command-input'', [''className''])"
  "wraps (CommandList lib, (\<lambda>_. ''CommandPrimitive.List''), Some ''command-list'', [''className''])"
  "wraps (CommandEmpty lib, (\<lambda>_. ''CommandPrimitive.Empty''), Some ''command-empty'', [])"
  "wraps (CommandGroup lib, (\<lambda>_. ''CommandPrimitive.Group''), Some ''command-group'', [''className''])"
  "wraps (CommandSeparator lib, (\<lambda>_. ''CommandPrimitive.Separator''), Some ''command-separator'', [''className''])"
  "wraps (CommandItem lib, (\<lambda>_. ''CommandPrimitive.Item''), Some ''command-item'', [''className''])"
  "wraps (CommandShortcut lib, (\<lambda>_. ''span''), Some ''command-shortcut'', [''className''])"
  by (simp_all add: wraps_def forwards_def slotted_def wrapper_simps Command_def CommandDialog_def CommandInput_def CommandList_def CommandEmpty_def CommandGroup_def CommandSeparator_def CommandItem_def CommandShortcut_def Dialog_def DialogPortal_def)

section \<open>Children\<close>

definition keepsChildren :: "(props \<Rightarrow> jsxElem) \<Rightarrow> bool" where
  "keepsChildren component \<longleftrightarrow> (\<forall>p v k h. map_of p ''children'' = Some v \<and> k \<in> set (nodes v) \<and> h \<in> set (elements k) \<longrightarrow>
     h \<in> set (elements (component p)))"

lemma children_button:
  "keepsChildren (Button lib)"
  by (auto simp: keepsChildren_def wrapper_simps Button_def Let_def)

lemma children_badge:
  "keepsChildren (Badge lib)"
  by (auto simp: keepsChildren_def wrapper_simps Badge_def Let_def)

lemma children_card:
  "keepsChildren (Card lib)"
  "keepsChildren (CardHeader lib)"
  "keepsChildren (CardTitle lib)"
  "keepsChildren (CardDescription lib)"
  "keepsChildren (CardAction lib)"
  "keepsChildren (CardContent lib)"
  "keepsChildren (CardFooter lib)"
  by (auto simp: keepsChildren_def wrapper_simps Card_def CardHeader_def CardTitle_def CardDescription_def CardAction_def CardContent_def CardFooter_def)

lemma children_input:
  "keepsChildren (Input lib)"
  by (auto simp: keepsChildren_def wrapper_simps Input_def)

lemma children_label:
  "keepsChildren (Label lib)"
  by (auto simp: keepsChildren_def wrapper_simps Label_def)

lemma children_popover:
  "keepsChildren (Popover lib)"
  "keepsChildren (PopoverTrigger lib)"
  "keepsChildren (PopoverContent lib)"
  "keepsChildren (PopoverAnchor lib)"
  "keepsChildren (PopoverHeader lib)"
  "keepsChildren (PopoverTitle lib)"
  "keepsChildren (PopoverDescription lib)"
  by (auto simp: keepsChildren_def wrapper_simps Popover_def PopoverTrigger_def PopoverContent_def PopoverAnchor_def PopoverHeader_def PopoverTitle_def PopoverDescription_def)

lemma children_select:
  "keepsChildren (Select lib)"
  "keepsChildren (SelectGroup lib)"
  "keepsChildren (SelectValue lib)"
  "keepsChildren (SelectTrigger lib)"
  "keepsChildren (SelectLabel lib)"
  "keepsChildren (SelectItem lib)"
  "keepsChildren (SelectSeparator lib)"
  "keepsChildren (SelectContent lib)"
  by (auto simp: keepsChildren_def wrapper_simps Select_def SelectGroup_def SelectValue_def SelectTrigger_def SelectLabel_def SelectItem_def SelectSeparator_def SelectContent_def)

lemma children_separator:
  "keepsChildren (Separator lib)"
  by (auto simp: keepsChildren_def wrapper_simps Separator_def)

lemma children_sheet:
  "keepsChildren (Sheet lib)"
  "keepsChildren (SheetTrigger lib)"
  "keepsChildren (SheetClose lib)"
  "keepsChildren (SheetPortal lib)"
  "keepsChildren (SheetOverlay lib)"
  "keepsChildren (SheetContent lib)"
  "keepsChildren (SheetHeader lib)"
  "keepsChildren (SheetFooter lib)"
  "keepsChildren (SheetTitle lib)"
  "keepsChildren (SheetDescription lib)"
  by (auto simp: keepsChildren_def wrapper_simps Sheet_def SheetTrigger_def SheetClose_def SheetPortal_def SheetOverlay_def SheetContent_def SheetHeader_def SheetFooter_def SheetTitle_def SheetDescription_def)

lemma children_skeleton:
  "keepsChildren (Skeleton lib)"
  by (auto simp: keepsChildren_def wrapper_simps Skeleton_def)

lemma children_sonner:
  "keepsChildren (Toaster theme lib)"
  by (auto simp: keepsChildren_def wrapper_simps Toaster_def)

lemma children_table:
  "keepsChildren (Table lib)"
  "keepsChildren (TableHeader lib)"
  "keepsChildren (TableBody lib)"
  "keepsChildren (TableFooter lib)"
  "keepsChildren (TableRow lib)"
  "keepsChildren (TableHead lib)"
  "keepsChildren (TableCell lib)"
  "keepsChildren (TableCaption lib)"
  by (auto simp: keepsChildren_def wrapper_simps Table_def TableHeader_def TableBody_def TableFooter_def TableRow_def TableHead_def TableCell_def TableCaption_def)

lemma children_tabs:
  "keepsChildren (Tabs lib)"
  "keepsChildren (TabsList lib)"
  "keepsChildren (TabsTrigger lib)"
  "keepsChildren (TabsContent lib)"
  by (auto simp: keepsChildren_def wrapper_simps Tabs_def TabsList_def TabsTrigger_def TabsContent_def)

lemma children_tooltip:
  "keepsChildren (TooltipProvider lib)"
  "keepsChildren (Tooltip lib)"
  "keepsChildren (TooltipTrigger lib)"
  "keepsChildren (TooltipContent lib)"
  by (auto simp: keepsChildren_def wrapper_simps TooltipProvider_def Tooltip_def TooltipTrigger_def TooltipContent_def)

lemma children_dropdown_menu:
  "keepsChildren (DropdownMenu lib)"
  "keepsChildren (DropdownMenuPortal lib)"
  "keepsChildren (DropdownMenuTrigger lib)"
  "keepsChildren (DropdownMenuContent lib)"
  "keepsChildren (DropdownMenuGroup lib)"
  "keepsChildren (DropdownMenuItem lib)"
  "keepsChildren (DropdownMenuCheckboxItem lib)"
  "keepsChildren (DropdownMenuRadioGroup lib)"
  "keepsChildren (DropdownMenuRadioItem lib)"
  "keepsChildren (DropdownMenuLabel lib)"
  "keepsChildren (DropdownMenuSeparator lib)"
  "keepsChildren (DropdownMenuShortcut lib)"
  "keepsChildren (DropdownMenuSub lib)"
  "keepsChildren (DropdownMenuSubTrigger lib)"
  "keepsChildren (DropdownMenuSubContent lib)"
  by (auto simp: keepsChildren_def wrapper_simps DropdownMenu_def DropdownMenuPortal_def DropdownMenuTrigger_def DropdownMenuContent_def DropdownMenuGroup_def DropdownMenuItem_def DropdownMenuCheckboxItem_def DropdownMenuRadioGroup_def DropdownMenuRadioItem_def DropdownMenuLabel_def DropdownMenuSeparator_def DropdownMenuShortcut_def DropdownMenuSub_def DropdownMenuSubTrigger_def DropdownMenuSubContent_def)

lemma children_dialog:
  "keepsChildren (Dialog lib)"
  "keepsChildren (DialogTrigger lib)"
  "keepsChildren (DialogPortal lib)"
  "keepsChildren (DialogClose lib)"
  "keepsChildren (DialogOverlay lib)"
  "keepsChildren (DialogContent lib)"
  "keepsChildren (DialogHeader lib)"
  "keepsChildren (DialogFooter lib)"
  "keepsChildren (DialogTitle lib)"
  "keepsChildren (DialogDescription lib)"
  by (auto simp: keepsChildren_def wrapper_simps Dialog_def DialogTrigger_def DialogPortal_def DialogClose_def DialogOverlay_def DialogContent_def DialogHeader_def DialogFooter_def DialogTitle_def DialogDescription_def)

lemma children_command:
  "keepsChildren (Command lib)"
  "keepsChildren (CommandDialog lib)"
  "keepsChildren (CommandInput lib)"
  "keepsChildren (CommandList lib)"
  "keepsChildren (CommandEmpty lib)"
  "keepsChildren (CommandGroup lib)"
  "keepsChildren (CommandSeparator lib)"
  "keepsChildren (CommandItem lib)"
  "keepsChildren (CommandShortcut lib)"
  by (auto simp: keepsChildren_def wrapper_simps Command_def CommandDialog_def CommandInput_def CommandList_def CommandEmpty_def CommandGroup_def CommandSeparator_def CommandItem_def CommandShortcut_def Dialog_def DialogContent_def DialogPortal_def)

section \<open>All components\<close>

text \<open>
  For every component the element it wraps, its slot, and the properties it does not hand on as they are. The two scroll
  buttons of a select box show an icon in place of any children.
\<close>

definition containers :: "propVal \<Rightarrow> styling \<Rightarrow> ((props \<Rightarrow> jsxElem) \<times> (props \<Rightarrow> string) \<times> string option \<times> string list) list" where
  "containers theme lib =
    [(Button lib, hostTag ''button'', Some ''button'', [''className'', ''variant'', ''size'', ''asChild'']),
     (Badge lib, hostTag ''span'', Some ''badge'', [''className'', ''variant'', ''asChild'']),
     (Card lib, (\<lambda>_. ''div''), Some ''card'', [''className'']),
     (CardHeader lib, (\<lambda>_. ''div''), Some ''card-header'', [''className'']),
     (CardTitle lib, (\<lambda>_. ''div''), Some ''card-title'', [''className'']),
     (CardDescription lib, (\<lambda>_. ''div''), Some ''card-description'', [''className'']),
     (CardAction lib, (\<lambda>_. ''div''), Some ''card-action'', [''className'']),
     (CardContent lib, (\<lambda>_. ''div''), Some ''card-content'', [''className'']),
     (CardFooter lib, (\<lambda>_. ''div''), Some ''card-footer'', [''className'']),
     (Input lib, (\<lambda>_. ''input''), Some ''input'', [''className'', ''type'']),
     (Label lib, (\<lambda>_. ''LabelPrimitive.Root''), Some ''label'', [''className'']),
     (Popover lib, (\<lambda>_. ''PopoverPrimitive.Root''), Some ''popover'', []),
     (PopoverTrigger lib, (\<lambda>_. ''PopoverPrimitive.Trigger''), Some ''popover-trigger'', []),
     (PopoverContent lib, (\<lambda>_. ''PopoverPrimitive.Content''), Some ''popover-content'', [''className'', ''align'', ''sideOffset'']),
     (PopoverAnchor lib, (\<lambda>_. ''PopoverPrimitive.Anchor''), Some ''popover-anchor'', []),
     (PopoverHeader lib, (\<lambda>_. ''div''), Some ''popover-header'', [''className'']),
     (PopoverTitle lib, (\<lambda>_. ''div''), Some ''popover-title'', [''className'']),
     (PopoverDescription lib, (\<lambda>_. ''p''), Some ''popover-description'', [''className'']),
     (Select lib, (\<lambda>_. ''SelectPrimitive.Root''), Some ''select'', []),
     (SelectGroup lib, (\<lambda>_. ''SelectPrimitive.Group''), Some ''select-group'', []),
     (SelectValue lib, (\<lambda>_. ''SelectPrimitive.Value''), Some ''select-value'', []),
     (SelectTrigger lib, (\<lambda>_. ''SelectPrimitive.Trigger''), Some ''select-trigger'', [''className'', ''size'', ''children'']),
     (SelectLabel lib, (\<lambda>_. ''SelectPrimitive.Label''), Some ''select-label'', [''className'']),
     (SelectItem lib, (\<lambda>_. ''SelectPrimitive.Item''), Some ''select-item'', [''className'', ''children'']),
     (SelectSeparator lib, (\<lambda>_. ''SelectPrimitive.Separator''), Some ''select-separator'', [''className'']),
     (SelectContent lib, (\<lambda>_. ''SelectPrimitive.Content''), Some ''select-content'', [''className'', ''children'', ''position'', ''align'']),
     (Separator lib, (\<lambda>_. ''SeparatorPrimitive.Root''), Some ''separator'', [''className'', ''orientation'', ''decorative'']),
     (Sheet lib, (\<lambda>_. ''SheetPrimitive.Root''), Some ''sheet'', []),
     (SheetTrigger lib, (\<lambda>_. ''SheetPrimitive.Trigger''), Some ''sheet-trigger'', []),
     (SheetClose lib, (\<lambda>_. ''SheetPrimitive.Close''), Some ''sheet-close'', []),
     (SheetPortal lib, (\<lambda>_. ''SheetPrimitive.Portal''), Some ''sheet-portal'', []),
     (SheetOverlay lib, (\<lambda>_. ''SheetPrimitive.Overlay''), Some ''sheet-overlay'', [''className'']),
     (SheetContent lib, (\<lambda>_. ''SheetPrimitive.Content''), Some ''sheet-content'', [''className'', ''children'', ''side'', ''showCloseButton'']),
     (SheetHeader lib, (\<lambda>_. ''div''), Some ''sheet-header'', [''className'']),
     (SheetFooter lib, (\<lambda>_. ''div''), Some ''sheet-footer'', [''className'']),
     (SheetTitle lib, (\<lambda>_. ''SheetPrimitive.Title''), Some ''sheet-title'', [''className'']),
     (SheetDescription lib, (\<lambda>_. ''SheetPrimitive.Description''), Some ''sheet-description'', [''className'']),
     (Skeleton lib, (\<lambda>_. ''div''), Some ''skeleton'', [''className'']),
     (Toaster theme lib, (\<lambda>_. ''Sonner''), None, []),
     (Table lib, (\<lambda>_. ''table''), Some ''table'', [''className'']),
     (TableHeader lib, (\<lambda>_. ''thead''), Some ''table-header'', [''className'']),
     (TableBody lib, (\<lambda>_. ''tbody''), Some ''table-body'', [''className'']),
     (TableFooter lib, (\<lambda>_. ''tfoot''), Some ''table-footer'', [''className'']),
     (TableRow lib, (\<lambda>_. ''tr''), Some ''table-row'', [''className'']),
     (TableHead lib, (\<lambda>_. ''th''), Some ''table-head'', [''className'']),
     (TableCell lib, (\<lambda>_. ''td''), Some ''table-cell'', [''className'']),
     (TableCaption lib, (\<lambda>_. ''caption''), Some ''table-caption'', [''className'']),
     (Tabs lib, (\<lambda>_. ''TabsPrimitive.Root''), Some ''tabs'', [''className'', ''orientation'']),
     (TabsList lib, (\<lambda>_. ''TabsPrimitive.List''), Some ''tabs-list'', [''className'', ''variant'']),
     (TabsTrigger lib, (\<lambda>_. ''TabsPrimitive.Trigger''), Some ''tabs-trigger'', [''className'']),
     (TabsContent lib, (\<lambda>_. ''TabsPrimitive.Content''), Some ''tabs-content'', [''className'']),
     (TooltipProvider lib, (\<lambda>_. ''TooltipPrimitive.Provider''), Some ''tooltip-provider'', [''delayDuration'']),
     (Tooltip lib, (\<lambda>_. ''TooltipPrimitive.Root''), Some ''tooltip'', []),
     (TooltipTrigger lib, (\<lambda>_. ''TooltipPrimitive.Trigger''), Some ''tooltip-trigger'', []),
     (TooltipContent lib, (\<lambda>_. ''TooltipPrimitive.Content''), Some ''tooltip-content'', [''className'', ''sideOffset'', ''children'']),
     (DropdownMenu lib, (\<lambda>_. ''DropdownMenuPrimitive.Root''), Some ''dropdown-menu'', []),
     (DropdownMenuPortal lib, (\<lambda>_. ''DropdownMenuPrimitive.Portal''), Some ''dropdown-menu-portal'', []),
     (DropdownMenuTrigger lib, (\<lambda>_. ''DropdownMenuPrimitive.Trigger''), Some ''dropdown-menu-trigger'', []),
     (DropdownMenuContent lib, (\<lambda>_. ''DropdownMenuPrimitive.Content''), Some ''dropdown-menu-content'', [''className'', ''sideOffset'']),
     (DropdownMenuGroup lib, (\<lambda>_. ''DropdownMenuPrimitive.Group''), Some ''dropdown-menu-group'', []),
     (DropdownMenuItem lib, (\<lambda>_. ''DropdownMenuPrimitive.Item''), Some ''dropdown-menu-item'', [''className'', ''inset'', ''variant'']),
     (DropdownMenuCheckboxItem lib, (\<lambda>_. ''DropdownMenuPrimitive.CheckboxItem''), Some ''dropdown-menu-checkbox-item'', [''className'', ''children'', ''checked'']),
     (DropdownMenuRadioGroup lib, (\<lambda>_. ''DropdownMenuPrimitive.RadioGroup''), Some ''dropdown-menu-radio-group'', []),
     (DropdownMenuRadioItem lib, (\<lambda>_. ''DropdownMenuPrimitive.RadioItem''), Some ''dropdown-menu-radio-item'', [''className'', ''children'']),
     (DropdownMenuLabel lib, (\<lambda>_. ''DropdownMenuPrimitive.Label''), Some ''dropdown-menu-label'', [''className'', ''inset'']),
     (DropdownMenuSeparator lib, (\<lambda>_. ''DropdownMenuPrimitive.Separator''), Some ''dropdown-menu-separator'', [''className'']),
     (DropdownMenuShortcut lib, (\<lambda>_. ''span''), Some ''dropdown-menu-shortcut'', [''className'']),
     (DropdownMenuSub lib, (\<lambda>_. ''DropdownMenuPrimitive.Sub''), Some ''dropdown-menu-sub'', []),
     (DropdownMenuSubTrigger lib, (\<lambda>_. ''DropdownMenuPrimitive.SubTrigger''), Some ''dropdown-menu-sub-trigger'', [''className'', ''inset'', ''children'']),
     (DropdownMenuSubContent lib, (\<lambda>_. ''DropdownMenuPrimitive.SubContent''), Some ''dropdown-menu-sub-content'', [''className'']),
     (Dialog lib, (\<lambda>_. ''DialogPrimitive.Root''), Some ''dialog'', []),
     (DialogTrigger lib, (\<lambda>_. ''DialogPrimitive.Trigger''), Some ''dialog-trigger'', []),
     (DialogPortal lib, (\<lambda>_. ''DialogPrimitive.Portal''), Some ''dialog-portal'', []),
     (DialogClose lib, (\<lambda>_. ''DialogPrimitive.Close''), Some ''dialog-close'', []),
     (DialogOverlay lib, (\<lambda>_. ''DialogPrimitive.Overlay''), Some ''dialog-overlay'', [''className'']),
     (DialogContent lib, (\<lambda>_. ''DialogPrimitive.Content''), Some ''dialog-content'', [''className'', ''children'', ''showCloseButton'']),
     (DialogHeader lib, (\<lambda>_. ''div''), Some ''dialog-header'', [''className'']),
     (DialogFooter lib, (\<lambda>_. ''div''), Some ''dialog-footer'', [''className'', ''showCloseButton'', ''children'']),
     (DialogTitle lib, (\<lambda>_. ''DialogPrimitive.Title''), Some ''dialog-title'', [''className'']),
     (DialogDescription lib, (\<lambda>_. ''DialogPrimitive.Description''), Some ''dialog-description'', [''className'']),
     (Command lib, (\<lambda>_. ''CommandPrimitive''), Some ''command'', [''className'']),
     (CommandDialog lib, (\<lambda>_. ''DialogPrimitive.Root''), None, [''title'', ''description'', ''children'', ''className'', ''showCloseButton'']),
     (CommandInput lib, (\<lambda>_. ''CommandPrimitive.Input''), Some ''command-input'', [''className'']),
     (CommandList lib, (\<lambda>_. ''CommandPrimitive.List''), Some ''command-list'', [''className'']),
     (CommandEmpty lib, (\<lambda>_. ''CommandPrimitive.Empty''), Some ''command-empty'', []),
     (CommandGroup lib, (\<lambda>_. ''CommandPrimitive.Group''), Some ''command-group'', [''className'']),
     (CommandSeparator lib, (\<lambda>_. ''CommandPrimitive.Separator''), Some ''command-separator'', [''className'']),
     (CommandItem lib, (\<lambda>_. ''CommandPrimitive.Item''), Some ''command-item'', [''className'']),
     (CommandShortcut lib, (\<lambda>_. ''span''), Some ''command-shortcut'', [''className''])]"

definition scrollButtons :: "styling \<Rightarrow> ((props \<Rightarrow> jsxElem) \<times> (props \<Rightarrow> string) \<times> string option \<times> string list) list" where
  "scrollButtons lib =
    [(SelectScrollUpButton lib, (\<lambda>_. ''SelectPrimitive.ScrollUpButton''), Some ''select-scroll-up-button'', [''className'', ''children'']),
     (SelectScrollDownButton lib, (\<lambda>_. ''SelectPrimitive.ScrollDownButton''), Some ''select-scroll-down-button'', [''className'', ''children''])]"

definition slotsOf :: "((props \<Rightarrow> jsxElem) \<times> (props \<Rightarrow> string) \<times> string option \<times> string list) list \<Rightarrow> string list" where
  "slotsOf ws = concat (map (\<lambda>(_, _, slot, _). case slot of None \<Rightarrow> [] | Some s \<Rightarrow> [s]) ws)"

lemma slots_all: "slotsOf (containers theme lib @ scrollButtons lib) =
    [''button'', ''badge'', ''card'', ''card-header'', ''card-title'', ''card-description'', ''card-action'', ''card-content'',
     ''card-footer'', ''input'', ''label'', ''popover'', ''popover-trigger'', ''popover-content'', ''popover-anchor'',
     ''popover-header'', ''popover-title'', ''popover-description'', ''select'', ''select-group'', ''select-value'',
     ''select-trigger'', ''select-label'', ''select-item'', ''select-separator'', ''select-content'', ''separator'', ''sheet'',
     ''sheet-trigger'', ''sheet-close'', ''sheet-portal'', ''sheet-overlay'', ''sheet-content'', ''sheet-header'', ''sheet-footer'',
     ''sheet-title'', ''sheet-description'', ''skeleton'', ''table'', ''table-header'', ''table-body'', ''table-footer'',
     ''table-row'', ''table-head'', ''table-cell'', ''table-caption'', ''tabs'', ''tabs-list'', ''tabs-trigger'', ''tabs-content'',
     ''tooltip-provider'', ''tooltip'', ''tooltip-trigger'', ''tooltip-content'', ''dropdown-menu'', ''dropdown-menu-portal'',
     ''dropdown-menu-trigger'', ''dropdown-menu-content'', ''dropdown-menu-group'', ''dropdown-menu-item'',
     ''dropdown-menu-checkbox-item'', ''dropdown-menu-radio-group'', ''dropdown-menu-radio-item'', ''dropdown-menu-label'',
     ''dropdown-menu-separator'', ''dropdown-menu-shortcut'', ''dropdown-menu-sub'', ''dropdown-menu-sub-trigger'',
     ''dropdown-menu-sub-content'', ''dialog'', ''dialog-trigger'', ''dialog-portal'', ''dialog-close'', ''dialog-overlay'',
     ''dialog-content'', ''dialog-header'', ''dialog-footer'', ''dialog-title'', ''dialog-description'', ''command'',
     ''command-input'', ''command-list'', ''command-empty'', ''command-group'', ''command-separator'', ''command-item'',
     ''command-shortcut'', ''select-scroll-up-button'', ''select-scroll-down-button'']"
  by (simp add: slotsOf_def containers_def scrollButtons_def)


section \<open>Controls\<close>

text \<open>
  What a rendered element offers the user, in the terms of the component theories: a button by its \<^verbatim>\<open>disabled\<close>, a text field by its
  value, placeholder and \<^verbatim>\<open>disabled\<close>, a select box by its value and the values of its items.
\<close>

definition textOf :: "propVal \<Rightarrow> str" where
  "textOf v = (case v of PStr s \<Rightarrow> s | _ \<Rightarrow> [])"

definition readControl :: "jsxElem \<Rightarrow> control option" where
  "readControl e =
     (case e of Leaf _ \<Rightarrow> None
      | El tag ps \<Rightarrow>
          if tag = ''button'' then Some (PushButton (truthyVal (field ps ''disabled'')))
          else if tag = ''input'' then Some (TextInput (textOf (field ps ''placeholder'')) (textOf (field ps ''value'')) (truthyVal (field ps ''disabled'')))
          else if tag = ''SelectPrimitive.Root'' then
            Some (SelectBox (textOf (field ps ''value''))
              (map (\<lambda>i. textOf (field (elProps i) ''value'')) (filter (\<lambda>i. elTag i = ''SelectPrimitive.Item'') (elements e))))
          else None)"

text \<open>A select box as the pages write it, with one item per option.\<close>

definition optionItem :: "styling \<Rightarrow> str \<Rightarrow> jsxElem" where
  "optionItem lib x = SelectItem lib (jsxProps [(''key'', PStr x), (''value'', PStr x)] [] (Some [Leaf (PStr x)]))"

definition selectField :: "styling \<Rightarrow> str \<Rightarrow> propVal \<Rightarrow> string \<Rightarrow> str list \<Rightarrow> jsxElem" where
  "selectField lib v onValueChange placeholder xs =
     Select lib (jsxProps [(''value'', PStr v), (''onValueChange'', onValueChange)] [] (Some
       [SelectTrigger lib (jsxProps [] [] (Some [SelectValue lib (jsxProps [(''placeholder'', lit placeholder)] [] None)])),
        SelectContent lib (jsxProps [] [] (Some (map (optionItem lib) xs)))]))"

lemma field_absent: "k \<noteq> ''children'' \<Longrightarrow> map_of (rev own) k = None \<Longrightarrow> field (jsxProps own spread kids) k = field spread k"
  by (auto simp: field_def map_of_jsxProps split: option.splits)

lemma field_rest: "k \<notin> set taken \<Longrightarrow> field (rest taken p) k = field p k"
  by (simp add: field_def map_of_rest)

lemma item_values:
  "map (\<lambda>i. textOf (field (elProps i) ''value'')) (filter (\<lambda>i. elTag i = ''SelectPrimitive.Item'') (concat (map (elements \<circ> optionItem lib) xs))) = xs"
  by (induction xs) (simp_all add: optionItem_def SelectItem_def wrapper_simps textOf_def)

text \<open>
  The controls are what is rendered: a button that is not rendered as its child reads as a button with the \<^verbatim>\<open>disabled\<close> of its
  properties, an input as a text field with their value and placeholder, and a select box as one that offers exactly its
  options, in order.
\<close>

theorem controls_rendered:
  "readControl (Button lib p) =
     (if truthyVal (field p ''asChild'') then None else Some (PushButton (truthyVal (field p ''disabled'')))) \<and>
   readControl (Input lib p) =
     Some (TextInput (textOf (field p ''placeholder'')) (textOf (field p ''value'')) (truthyVal (field p ''disabled''))) \<and>
   readControl (selectField lib v h ph xs) = Some (SelectBox v xs)"
proof -
  have "readControl (Button lib p) = (if truthyVal (field p ''asChild'') then None else Some (PushButton (truthyVal (field p ''disabled''))))"
    by (cases "field p ''asChild'' = PUndefined")
       (simp_all add: Button_def readControl_def field_absent field_rest withDefault_def [of "PBool False"] truthyVal_def [of PUndefined] truthyVal_def [of "PBool False"])
  moreover have "readControl (Input lib p) =
      Some (TextInput (textOf (field p ''placeholder'')) (textOf (field p ''value'')) (truthyVal (field p ''disabled'')))"
    by (simp add: Input_def readControl_def field_absent field_rest)
  moreover have "readControl (selectField lib v h ph xs) = Some (SelectBox v xs)"
    using item_values [of lib xs]
    by (simp add: selectField_def Select_def SelectTrigger_def SelectValue_def SelectContent_def SelectScrollUpButton_def SelectScrollDownButton_def
        readControl_def wrapper_simps textOf_def [of "PStr v"])
  ultimately show ?thesis by blast
qed

end
