(* ===== verification/App_Shell.thy ===== *)
theory App_Shell
  imports Ui_Laws Tenant_Nav
begin

text \<open>
  The frame around the pages: \<^verbatim>\<open>app/layout.tsx\<close>, \<^verbatim>\<open>app/page.tsx\<close>, \<^verbatim>\<open>providers.tsx\<close>, \<^verbatim>\<open>header.tsx\<close> and
  \<^verbatim>\<open>empty-state.tsx\<close>, over the components of the library. The sidebar and the tenant selector are components with state of
  their own (theory \<open>Tenant_Nav\<close>) and appear here by name. The two fonts are arguments.
\<close>

section \<open>The components\<close>

definition EmptyState :: "string \<Rightarrow> str \<Rightarrow> str \<Rightarrow> propVal \<Rightarrow> jsxElem" where
  "EmptyState icon title description action =
     El ''div'' (jsxProps [(''className'', lit ''flex flex-col items-center justify-center py-16 text-center'')] [] (Some (
       [El icon (jsxProps [(''className'', lit ''h-12 w-12 text-muted-foreground/50 mb-4'')] [] None),
        El ''h3'' (jsxProps [(''className'', lit ''text-lg font-medium'')] [] (Some [Leaf (PStr title)])),
        El ''p'' (jsxProps [(''className'', lit ''mt-1 text-sm text-muted-foreground max-w-sm'')] [] (Some [Leaf (PStr description)]))] @
       guarded action [El ''div'' (jsxProps [(''className'', lit ''mt-4'')] [] (Some (nodes action)))])))"

definition Header :: jsxElem where
  "Header =
     El ''header'' (jsxProps [(''className'', lit ''flex h-14 items-center justify-between border-b px-6'')] [] (Some
       [El ''div'' (jsxProps [(''className'', lit ''text-sm font-medium text-muted-foreground'')] [] (Some [Leaf (lit ''Admin Console'')])),
        El ''TenantSelector'' (jsxProps [] [] None)]))"

text \<open>The client of the queries is made once per mounted provider; its options are all that the console sets.\<close>

definition queryClientOptions :: propVal where
  "queryClientOptions =
     PObj [(''defaultOptions'', PObj [(''queries'', PObj [(''staleTime'', PNum (30 * 1000)), (''refetchOnWindowFocus'', PBool False)])])]"

definition Providers :: "propVal \<Rightarrow> styling \<Rightarrow> propVal \<Rightarrow> jsxElem" where
  "Providers theme lib children =
     El ''QueryClientProvider'' (jsxProps [(''client'', queryClientOptions)] [] (Some
       [TooltipProvider lib (jsxProps [] [] (Some (nodes children @ [Toaster theme lib (jsxProps [] [] None)])))]))"

definition RootLayout :: "str \<Rightarrow> str \<Rightarrow> propVal \<Rightarrow> styling \<Rightarrow> propVal \<Rightarrow> jsxElem" where
  "RootLayout geistSans geistMono theme lib children =
     El ''html'' (jsxProps [(''lang'', lit ''en'')] [] (Some
       [El ''body'' (jsxProps [(''className'', PStr (geistSans @ js '' '' @ geistMono @ js '' antialiased''))] [] (Some
         [Providers theme lib (PNodes
           [El ''div'' (jsxProps [(''className'', lit ''flex h-screen overflow-hidden'')] [] (Some
             [El ''Sidebar'' (jsxProps [] [] None),
              El ''div'' (jsxProps [(''className'', lit ''flex flex-1 flex-col overflow-hidden'')] [] (Some
                [Header,
                 El ''main'' (jsxProps [(''className'', lit ''flex-1 overflow-auto p-6'')] [] (Some (nodes children)))]))]))])]))]))"

text \<open>The options of the two fonts of the package, and the title and description of the document.\<close>

definition geistSansOptions :: propVal where
  "geistSansOptions = PObj [(''variable'', lit ''--font-geist-sans''), (''subsets'', PNodes [Leaf (lit ''latin'')])]"

definition geistMonoOptions :: propVal where
  "geistMonoOptions = PObj [(''variable'', lit ''--font-geist-mono''), (''subsets'', PNodes [Leaf (lit ''latin'')])]"

definition metadata :: propVal where
  "metadata = PObj [(''title'', lit ''ZanGuard Console''), (''description'', lit ''ZanGuard Authorization Admin Console'')]"

text \<open>The start page sends the browser on.\<close>

definition Home :: str where
  "Home = js ''/schema''"

section \<open>The frame of a page\<close>

lemma start_page: "Home \<in> fst ` set navItems"
  by (simp add: Home_def navItems_def)

text \<open>
  Every page is shown in the frame: what it renders is below \<^verbatim>\<open>main\<close>, and beside it are one sidebar, one tenant selector and one place
  for notifications, when the page has none of these itself.
\<close>

lemma layout_tags:
  "map elTag (elements (RootLayout sans monoFont theme lib children)) =
     [''html'', ''body'', ''QueryClientProvider'', ''TooltipPrimitive.Provider'', ''div'', ''Sidebar'', ''div'', ''header'', ''div'', ''TenantSelector'', ''main''] @
     map elTag (concat (map elements (nodes children))) @ [''Sonner'']"
  by (simp add: RootLayout_def Providers_def Header_def TooltipProvider_def Toaster_def wrapper_simps field_def map_concat comp_def)

lemma layout_frames:
  "k \<in> set (nodes children) \<Longrightarrow> h \<in> set (elements k) \<Longrightarrow>
     \<exists>ps. El ''main'' ps \<in> set (elements (RootLayout sans monoFont theme lib children)) \<and> h \<in> set (elements (El ''main'' ps))"
  by (intro exI [of _ "jsxProps [(''className'', lit ''flex-1 overflow-auto p-6'')] [] (Some (nodes children))"])
     (auto simp: RootLayout_def Providers_def TooltipProvider_def wrapper_simps)

text \<open>An empty state shows its action exactly when it is given one.\<close>

lemma empty_state_action:
  "action = PNodes ks \<Longrightarrow> set (concat (map elements ks)) \<subseteq> set (elements (EmptyState icon title description action))"
  by (auto simp: EmptyState_def guarded_def truthyVal_def wrapper_simps)

end
