(* ===== verification/App_Canvas.thy ===== *)
theory App_Canvas
  imports App_Shell Schema_Graph Explorer
begin

text \<open>
  The components that draw on a canvas or in a popover, as the elements they render: the node and the canvas of the schema graph
  (\<^verbatim>\<open>schema-graph.tsx\<close>), the canvas of the subject tree (\<^verbatim>\<open>subject-tree.tsx\<close>) and the tenant selector (\<^verbatim>\<open>tenant-selector.tsx\<close>). Their data are
  computed in \<open>Schema_Graph\<close>, \<open>Explorer\<close> and \<open>Tenant_Nav\<close>; here it is shown that the elements show them. A callback is a \<open>PHandler\<close>
  with a number of its own. The nodes and edges a canvas is given are objects with the fields of the source.
\<close>

section \<open>The schema graph\<close>

definition hiddenHandle :: "string \<Rightarrow> string \<Rightarrow> jsxElem" where
  "hiddenHandle type position =
     El ''Handle'' (jsxProps [(''type'', lit type), (''position'', lit position), (''style'', PObj [(''opacity'', PNum 0), (''pointerEvents'', lit ''none'')])] [] None)"

definition TypeNode :: "typeNodeData \<Rightarrow> jsxElem" where
  "TypeNode d =
     El ''div'' (jsxProps [(''style'', PObj
         [(''background'', lit (if isExternal d then ''#f8fafc'' else ''#ffffff'')),
          (''border'', lit (if isExternal d then ''1.5px dashed #94a3b8'' else ''1.5px solid #e2e8f0'')),
          (''borderRadius'', PNum 10), (''minWidth'', PNum 140),
          (''boxShadow'', lit (if isExternal d then ''none'' else ''0 1px 3px 0 rgba(0,0,0,0.08)''))])] [] (Some
       [hiddenHandle ''target'' ''left'',
        El ''div'' (jsxProps [(''style'', PObj [(''padding'', lit ''8px 14px'')])] [] (Some
          [El ''div'' (jsxProps [(''style'', PObj
              [(''fontFamily'', lit ''ui-monospace, monospace''), (''fontSize'', PNum 13), (''fontWeight'', PNum 600),
               (''color'', lit (if isExternal d then ''#64748b'' else ''#0f172a'')), (''whiteSpace'', lit ''nowrap'')])] [] (Some [Leaf (PStr (label d))])),
           El ''div'' (jsxProps [(''style'', PObj [(''fontSize'', PNum 11), (''color'', lit ''#94a3b8''), (''marginTop'', PNum 2)])] []
             (Some [Leaf (PStr (typeNodeCaption d))]))])),
        hiddenHandle ''source'' ''right'']))"

definition flowNodeProp :: "flowNode \<Rightarrow> propVal" where
  "flowNodeProp n = PObj [(''id'', PStr (node_id n)), (''type'', lit ''typeNode''), (''width'', PNum 160), (''height'', PNum 56),
     (''data'', PObj [(''label'', PStr (label (node_data n))), (''isExternal'', PBool (isExternal (node_data n))),
       (''relCount'', PNum (of_nat (relCount (node_data n))))]),
     (''position'', PObj [(''x'', PNum (node_x n)), (''y'', PNum (node_y n))])]"

abbreviation pArray :: "propVal list \<Rightarrow> propVal" where "pArray vs \<equiv> PNodes (map Leaf vs)"

definition flowEdgeProp :: "flowEdge \<Rightarrow> propVal" where
  "flowEdgeProp e = PObj [(''id'', PStr (edge_id e)), (''source'', PStr (edge_source e)), (''target'', PStr (edge_target e)), (''label'', PStr (edge_label e)),
     (''type'', lit ''smoothstep''),
     (''markerEnd'', PObj [(''type'', lit ''arrowclosed''), (''width'', PNum 14), (''height'', PNum 14), (''color'', lit ''#94a3b8'')]),
     (''style'', PObj [(''stroke'', lit ''#94a3b8''), (''strokeWidth'', PNum (3 / 2))]),
     (''labelStyle'', PObj [(''fill'', lit ''#475569''), (''fontSize'', PNum 11), (''fontFamily'', lit ''ui-monospace, monospace'')]),
     (''labelBgStyle'', PObj [(''fill'', lit ''#ffffff''), (''fillOpacity'', PNum (95 / 100))]), (''labelBgPadding'', pArray [PNum 4, PNum 8]),
     (''labelBgBorderRadius'', PNum 4)]"

definition SchemaGraphElement :: "graph_layout \<Rightarrow> str \<Rightarrow> jsxElem" where
  "SchemaGraphElement layout source =
     (case SchemaGraph layout source of
        GraphMessage text \<Rightarrow> El ''p'' (jsxProps [(''className'', lit ''text-sm text-muted-foreground'')] [] (Some [Leaf (PStr text)]))
      | GraphCanvas ns es \<Rightarrow>
          El ''div'' (jsxProps [(''className'', lit ''h-[580px] rounded-lg border overflow-hidden bg-slate-50/40'')] [] (Some
            [El ''ReactFlow'' (jsxProps
               [(''nodes'', pArray (map flowNodeProp ns)), (''edges'', pArray (map flowEdgeProp es)), (''nodeTypes'', PObj [(''typeNode'', PHandler 0)]),
                (''fitView'', PBool True), (''fitViewOptions'', PObj [(''padding'', PNum (3 / 10))]), (''nodesDraggable'', PBool True),
                (''nodesConnectable'', PBool False), (''elementsSelectable'', PBool True), (''proOptions'', PObj [(''hideAttribution'', PBool True)]),
                (''defaultEdgeOptions'', PObj [(''type'', lit ''smoothstep'')])] [] (Some
               [El ''Background'' (jsxProps [(''variant'', lit ''dots''), (''gap'', PNum 20), (''size'', PNum 1), (''color'', lit ''#cbd5e1'')] [] None),
                El ''Controls'' (jsxProps [(''showInteractive'', PBool False)] [] None),
                El ''MiniMap'' (jsxProps
                  [(''nodeColor'', PHandler 1), (''nodeStrokeColor'', PHandler 2), (''nodeStrokeWidth'', PNum 2), (''maskColor'', lit ''rgba(241,245,249,0.85)''),
                   (''style'', PObj [(''border'', lit ''1px solid #e2e8f0''), (''borderRadius'', PNum 8)]), (''pannable'', PBool True),
                   (''zoomable'', PBool True)] [] None)]))])))"

section \<open>The subject tree\<close>

definition treeNodeProp :: "treeFlowNode \<Rightarrow> propVal" where
  "treeNodeProp n = PObj [(''id'', PStr (fn_id n)), (''type'', lit ''subjectNode''),
     (''data'', PObj [(''subject'', PObj [(''Type'', PStr (Subject_Type (fn_subject n))), (''ID'', PStr (Subject_ID (fn_subject n))),
       (''Relation'', case Subject_Relation (fn_subject n) of Some r \<Rightarrow> PStr r | None \<Rightarrow> PUndefined)]), (''isRoot'', PBool (fn_isRoot n))]),
     (''position'', PObj [(''x'', PNum (fst (fn_position n))), (''y'', PNum (snd (fn_position n)))])]"

definition treeEdgeProp :: "treeFlowEdge \<Rightarrow> propVal" where
  "treeEdgeProp e = PObj [(''id'', PStr (fe_id e)), (''source'', PStr (fe_source e)), (''target'', PStr (fe_target e)),
     (''animated'', PBool True), (''style'', PObj [(''stroke'', lit ''#94a3b8'')])]"

definition SubjectTreeView :: "treeFlowNode list \<times> treeFlowEdge list \<Rightarrow> jsxElem" where
  "SubjectTreeView st =
     El ''div'' (jsxProps [(''className'', lit ''h-[500px] rounded-md border bg-gray-50/50'')] [] (Some
       [El ''ReactFlow'' (jsxProps
          [(''nodes'', pArray (map treeNodeProp (fst st))), (''edges'', pArray (map treeEdgeProp (snd st))), (''onNodesChange'', PHandler 0),
           (''onEdgesChange'', PHandler 1), (''nodeTypes'', PObj [(''subjectNode'', PHandler 2)]), (''fitView'', PBool True),
           (''fitViewOptions'', PObj [(''padding'', PNum (2 / 10))]), (''proOptions'', PObj [(''hideAttribution'', PBool True)])] [] (Some
          [El ''Background'' (jsxProps [] [] None), El ''Controls'' (jsxProps [] [] None)]))]))"

section \<open>The tenant selector\<close>

abbreviation setOpenHandler :: propVal where "setOpenHandler \<equiv> PHandler 0"

abbreviation onSelectHandler :: propVal where "onSelectHandler \<equiv> PHandler 1"

definition statusText :: "tenantStatus \<Rightarrow> str" where
  "statusText st = (case st of Pending \<Rightarrow> js ''pending'' | Active \<Rightarrow> js ''active'' | Suspended \<Rightarrow> js ''suspended'' | Deleted \<Rightarrow> js ''deleted'')"

definition statusBadge :: "styling \<Rightarrow> string \<Rightarrow> tenant \<Rightarrow> jsxElem" where
  "statusBadge lib cls t =
     Badge lib (jsxProps [(''variant'', lit (if tenant_status t = Active then ''default'' else ''secondary'')), (''className'', lit cls)] []
       (Some [Leaf (PStr (statusText (tenant_status t)))]))"

definition tenantItem :: "styling \<Rightarrow> tenantStore \<Rightarrow> tenant \<Rightarrow> jsxElem" where
  "tenantItem lib s t =
     CommandItem lib (jsxProps [(''key'', PStr (tenant_id t)), (''value'', PStr (tenant_id t)), (''onSelect'', onSelectHandler)] [] (Some
       [El ''Check'' (jsxProps [(''className'', cn lib [lit ''mr-2 h-4 w-4'', lit (if selectedTenantId s = Some (tenant_id t) then ''opacity-100'' else ''opacity-0'')])]
          [] None),
        El ''span'' (jsxProps [(''className'', lit ''truncate'')] [] (Some [Leaf (PStr (fst (tenantLabel t)))])),
        statusBadge lib ''ml-auto text-[10px] px-1.5 py-0'' t]))"

definition selectorButton :: "styling \<Rightarrow> bool \<Rightarrow> bool \<Rightarrow> tenant list \<Rightarrow> tenantStore \<Rightarrow> jsxElem" where
  "selectorButton lib isOpen isLoading ts s =
     Button lib (jsxProps [(''variant'', lit ''outline''), (''role'', lit ''combobox''), (''aria-expanded'', PBool isOpen),
         (''className'', lit ''w-[260px] justify-between'')] [] (Some
       [case selectedTenant ts s of
          Some t \<Rightarrow> El ''span'' (jsxProps [(''className'', lit ''flex items-center gap-2 truncate'')] [] (Some
            [El ''span'' (jsxProps [(''className'', lit ''truncate'')] [] (Some [Leaf (PStr (fst (tenantLabel t)))])),
             statusBadge lib ''text-[10px] px-1.5 py-0'' t]))
        | None \<Rightarrow> El ''span'' (jsxProps [(''className'', lit ''text-muted-foreground'')] [] (Some
            [Leaf (lit (if isLoading then ''Loading...'' else ''Select tenant...''))])),
        El ''ChevronsUpDown'' (jsxProps [(''className'', lit ''ml-2 h-4 w-4 shrink-0 opacity-50'')] [] None)]))"

definition TenantSelector :: "styling \<Rightarrow> bool \<Rightarrow> bool \<Rightarrow> tenant list \<Rightarrow> tenantStore \<Rightarrow> jsxElem" where
  "TenantSelector lib isOpen isLoading ts s =
     Popover lib (jsxProps [(''open'', PBool isOpen), (''onOpenChange'', setOpenHandler)] [] (Some
       [PopoverTrigger lib (jsxProps [(''asChild'', PBool True)] [] (Some [selectorButton lib isOpen isLoading ts s])),
        PopoverContent lib (jsxProps [(''className'', lit ''w-[260px] p-0'')] [] (Some
          [Command lib (jsxProps [] [] (Some
            [CommandInput lib (jsxProps [(''placeholder'', lit ''Search tenants...'')] [] None),
             CommandList lib (jsxProps [] [] (Some
               [CommandEmpty lib (jsxProps [] [] (Some [Leaf (lit ''No tenants found.'')])),
                CommandGroup lib (jsxProps [] [] (Some (map (tenantItem lib s) ts)))]))]))]))]))"

section \<open>What is shown\<close>

text \<open>The texts of an element, in the order they are rendered.\<close>

definition leafVal :: "jsxElem \<Rightarrow> propVal list" where
  "leafVal k = (case k of Leaf v \<Rightarrow> [v] | El _ _ \<Rightarrow> [])"

definition textsOf :: "jsxElem \<Rightarrow> propVal list" where
  "textsOf e = concat (map (\<lambda>h. concat (map leafVal (nodes (field (elProps h) ''children'')))) (elements e))"

lemma leafVal_simps [simp]: "leafVal (Leaf v) = [v]" "leafVal (El t ps) = []"
  by (simp_all add: leafVal_def)

lemma typeNode_shows: "textsOf (TypeNode d) = [PStr (label d), PStr (typeNodeCaption d)]"
  by (simp add: textsOf_def TypeNode_def hiddenHandle_def wrapper_simps)

lemma canvas_nodes:
  assumes "SchemaGraph layout source = GraphCanvas ns es"
  shows "\<exists>h \<in> set (elements (SchemaGraphElement layout source)). elTag h = ''ReactFlow'' \<and>
    field (elProps h) ''nodes'' = pArray (map flowNodeProp (fst (buildGraph layout source))) \<and>
    field (elProps h) ''edges'' = pArray (map flowEdgeProp (snd (buildGraph layout source)))"
proof -
  have "buildGraph layout source = (ns, es)" using assms by (auto simp: SchemaGraph_def split: prod.splits if_splits)
  then show ?thesis by (simp add: SchemaGraphElement_def assms wrapper_simps)
qed

lemma tree_canvas_nodes:
  "\<exists>h \<in> set (elements (SubjectTreeView st)). elTag h = ''ReactFlow'' \<and> field (elProps h) ''nodes'' = pArray (map treeNodeProp (fst st))"
  by (simp add: SubjectTreeView_def wrapper_simps)

text \<open>
  The selector offers exactly the tenants of the answer, in their order: the items of the popover carry the identifiers, and each of them calls
  the handler with which the identifier becomes the selection and the popover closes.
\<close>

definition itemsOf :: "jsxElem \<Rightarrow> (propVal \<times> propVal) list" where
  "itemsOf e = map (\<lambda>h. (field (elProps h) ''value'', field (elProps h) ''onSelect''))
     (filter (\<lambda>h. elTag h = ''CommandPrimitive.Item'') (elements e))"

lemma tenantItem_elements:
  "filter (\<lambda>h. elTag h = ''CommandPrimitive.Item'') (elements (tenantItem lib s t)) = [tenantItem lib s t]"
  "field (elProps (tenantItem lib s t)) ''value'' = PStr (tenant_id t)" "field (elProps (tenantItem lib s t)) ''onSelect'' = onSelectHandler"
  by (simp_all add: tenantItem_def CommandItem_def statusBadge_def Badge_def wrapper_simps withDefault_def truthyVal_def)

lemma items_map: "filter (\<lambda>h. elTag h = ''CommandPrimitive.Item'') (concat (map (elements \<circ> tenantItem lib s) ts)) = map (tenantItem lib s) ts"
  by (induction ts) (simp_all add: tenantItem_elements)

lemma selector_offers:
  "itemsOf (TenantSelector lib isOpen isLoading ts s) = map (\<lambda>t. (PStr (tenant_id t), onSelectHandler)) ts \<and>
   onSelectTenant (tenant_id t) (s, True) = (s\<lparr>selectedTenantId := Some (tenant_id t)\<rparr>, False)"
proof
  have b: "filter (\<lambda>h. elTag h = ''CommandPrimitive.Item'') (elements (selectorButton lib isOpen isLoading ts s)) = []"
    by (simp add: selectorButton_def Button_def statusBadge_def Badge_def wrapper_simps withDefault_def truthyVal_def split: option.splits)
  show "itemsOf (TenantSelector lib isOpen isLoading ts s) = map (\<lambda>t. (PStr (tenant_id t), onSelectHandler)) ts"
    by (simp add: itemsOf_def TenantSelector_def Popover_def PopoverTrigger_def PopoverContent_def Command_def CommandInput_def CommandList_def
        CommandEmpty_def CommandGroup_def wrapper_simps b items_map tenantItem_elements)
qed (simp add: onSelectTenant_def setSelectedTenantId_def)

end
