(* ===== verification/Postgres_Store.thy ===== *)
theory Postgres_Store
  imports Memory_Store
begin

text \<open>
  The store on PostgreSQL, \<^verbatim>\<open>pkg/storage/postgres/store.go\<close>, which the server uses in production. The database is a record
  of the tables of \<^verbatim>\<open>deployments/postgres/init/010_schema.sql\<close>; a nullable column has an option type, the
  columns no statement reads (the \<^verbatim>\<open>UUID\<close> of a tuple) are left out. A statement is a function on the database that fails
  with an SQLSTATE: \<^verbatim>\<open>23505\<close> for a unique index, \<^verbatim>\<open>23503\<close> for a foreign key, \<^verbatim>\<open>22001\<close> for a text too long for its
  column, \<^verbatim>\<open>2200H\<close> for an exhausted sequence, or the code of a value \<^verbatim>\<open>jsonb\<close> rejects.

  A transaction (\<open>pgTx\<close>) works on a copy of the database. As documented for PostgreSQL, after a statement has failed every
  further statement of the transaction fails with \<^verbatim>\<open>25P02\<close> until it is rolled back, and values taken from
  a sequence are not given back by a rollback. \<^verbatim>\<open>NOW()\<close> is the time of the call. A statement that fails takes no value from the
  sequence here, and a text with a zero character is refused when it is stored, not when it is only compared.

  What is PostgreSQL's and the driver's own is an argument (record \<open>pgEnv\<close>): what a \<^verbatim>\<open>VARCHAR(n)\<close>, a
  \<^verbatim>\<open>JSONB\<close> and a \<^verbatim>\<open>TIMESTAMPTZ\<close> column hold of a value, the order of the rows of a query without \<^verbatim>\<open>ORDER BY\<close>, and the
  collation of texts. Encoding a tenant's configuration and decoding it again gives the same configuration.
\<close>

section \<open>Tables\<close>

record tenantRow =
  tn_id :: str
  tn_display_name :: str
  tn_parent_tenant_id :: "str option"
  tn_status :: str
  tn_schema_mode :: str
  tn_shared_schema_ref :: "str option"
  tn_config :: TenantConfig
  tn_created_at :: gotime
  tn_updated_at :: gotime
  tn_deleted_at :: "gotime option"

record tupleRow =
  pt_tenant_id :: str
  pt_object_type :: str
  pt_object_id :: str
  pt_relation :: str
  pt_subject_type :: str
  pt_subject_id :: str
  pt_subject_relation :: "str option"
  pt_subject_tenant_id :: "str option"
  pt_source_system :: "str option"
  pt_external_id :: "str option"
  pt_attributes :: "gomap option"
  pt_expires_at :: "gotime option"
  pt_created_at :: gotime
  pt_updated_at :: gotime
  pt_deleted_at :: "gotime option"

record attrRow =
  ar_tenant_id :: str
  ar_type :: str
  ar_id :: str
  ar_attributes :: "gomap option"
  ar_updated_at :: gotime

record logRow =
  lg_sequence :: nat
  lg_tenant_id :: str
  lg_operation :: str
  lg_object_type :: str
  lg_object_id :: str
  lg_relation :: str
  lg_subject_type :: str
  lg_subject_id :: str
  lg_subject_relation :: "str option"
  lg_actor :: str
  lg_source :: str
  lg_metadata :: "gomap option"
  lg_created_at :: gotime

text \<open>\<open>db_sequence\<close> is the last value of the sequence behind \<^verbatim>\<open>BIGSERIAL\<close>, one for all tenants.\<close>

record database =
  db_tenants :: "tenantRow list"
  db_tuples :: "tupleRow list"
  db_objAttrs :: "attrRow list"
  db_subAttrs :: "attrRow list"
  db_changelog :: "logRow list"
  db_sequence :: nat

definition emptyDatabase :: database where
  "emptyDatabase = \<lparr>db_tenants = [], db_tuples = [], db_objAttrs = [], db_subAttrs = [], db_changelog = [], db_sequence = 0\<rparr>"

record pgEnv =
  pg_varchar :: "nat \<Rightarrow> str \<Rightarrow> str option"
  pg_jsonb :: "gomap option \<Rightarrow> string + gomap option"
  pg_time :: "gotime \<Rightarrow> gotime"
  pg_scan :: "tupleRow list \<Rightarrow> tupleRow list"
  pg_le :: "str \<Rightarrow> str \<Rightarrow> bool"

section \<open>Statements and transactions\<close>

text \<open>A text for a \<^verbatim>\<open>VARCHAR(n)\<close> column, also as \<^verbatim>\<open>NULLIF($i,'')\<close>.\<close>

definition varchar :: "pgEnv \<Rightarrow> nat \<Rightarrow> str \<Rightarrow> (str \<Rightarrow> string + 'a) \<Rightarrow> string + 'a" where
  "varchar pg n s f = (case pg_varchar pg n s of None \<Rightarrow> Inl ''22001'' | Some s' \<Rightarrow> f s')"

definition varcharNull :: "pgEnv \<Rightarrow> nat \<Rightarrow> str \<Rightarrow> (str option \<Rightarrow> string + 'a) \<Rightarrow> string + 'a" where
  "varcharNull pg n s f = (if s = [] then f None else varchar pg n s (\<lambda>s'. f (Some s')))"

definition coalesce :: "str option \<Rightarrow> str" where
  "coalesce c = (case c of None \<Rightarrow> [] | Some s \<Rightarrow> s)"

record pgTx =
  tx_db :: database
  tx_failed :: bool

definition txExec :: "(database \<Rightarrow> string + 'a \<times> database) \<Rightarrow> pgTx \<Rightarrow> (goError + 'a) \<times> pgTx" where
  "txExec stmt tx =
     (if tx_failed tx then (Inl (DatabaseError ''25P02''), tx)
      else case stmt (tx_db tx) of
        Inl code \<Rightarrow> (Inl (DatabaseError code), tx\<lparr>tx_failed := True\<rparr>)
      | Inr (x, db) \<Rightarrow> (Inr x, tx\<lparr>tx_db := db\<rparr>))"

text \<open>The early return of an error, with the state so far.\<close>

definition bindS :: "(goError + 'a) \<times> 's \<Rightarrow> ('a \<Rightarrow> 's \<Rightarrow> (goError + 'b) \<times> 's) \<Rightarrow> (goError + 'b) \<times> 's" where
  "bindS r f = (case r of (Inl e, s) \<Rightarrow> (Inl e, s) | (Inr x, s) \<Rightarrow> f x s)"

text \<open>\<^verbatim>\<open>Begin\<close>, the deferred \<^verbatim>\<open>Rollback\<close> and the final \<^verbatim>\<open>Commit\<close>, which reports an error when the transaction has failed.\<close>

definition inTx :: "(pgTx \<Rightarrow> (goError + 'a) \<times> pgTx) \<Rightarrow> database \<Rightarrow> (goError + 'a) \<times> database" where
  "inTx body db =
     (case body \<lparr>tx_db = db, tx_failed = False\<rparr> of
        (Inr x, tx) \<Rightarrow>
          if tx_failed tx then (Inl (DatabaseError ''25P02''), db\<lparr>db_sequence := db_sequence (tx_db tx)\<rparr>) else (Inr x, tx_db tx)
      | (Inl e, tx) \<Rightarrow> (Inl e, db\<lparr>db_sequence := db_sequence (tx_db tx)\<rparr>))"

text \<open>A statement on its own is a transaction.\<close>

definition pgExec :: "(database \<Rightarrow> string + 'a \<times> database) \<Rightarrow> database \<Rightarrow> (goError + 'a) \<times> database" where
  "pgExec stmt db = inTx (txExec stmt) db"

section \<open>Tenants\<close>

definition pgTenantStatus :: "str \<Rightarrow> database \<Rightarrow> goError + str" where
  "pgTenantStatus tid db =
     (case find (\<lambda>r. tn_id r = tid \<and> tn_deleted_at r = None) (db_tenants db) of
        None \<Rightarrow> Inl ErrTenantNotFound | Some r \<Rightarrow> Inr (tn_status r))"

definition ensureTenantReadable :: "str \<Rightarrow> database \<Rightarrow> goError + unit" where
  "ensureTenantReadable tid db = bindE (pgTenantStatus tid db) (\<lambda>status. if status = TenantDeleted then Inl ErrTenantDeleted else Inr ())"

definition ensureTenantWritable :: "str \<Rightarrow> database \<Rightarrow> goError + unit" where
  "ensureTenantWritable tid db = bindE (pgTenantStatus tid db) (\<lambda>status.
     if status = TenantDeleted then Inl ErrTenantDeleted else if status = TenantActive then Inr () else Inl ErrTenantSuspended)"

definition insertTenant :: "pgEnv \<Rightarrow> gotime \<Rightarrow> Tenant \<Rightarrow> database \<Rightarrow> string + unit \<times> database" where
  "insertTenant pg now t db =
     varchar pg 128 (TenantIdent t) (\<lambda>ident. varchar pg 256 (DisplayName t) (\<lambda>name. varcharNull pg 128 (ParentTenantID t) (\<lambda>parent.
     varchar pg 32 (Status t) (\<lambda>status. varchar pg 32 (SchemaMode t) (\<lambda>mode. varcharNull pg 128 (SharedSchemaRef t) (\<lambda>ref.
       if list_ex (\<lambda>r. tn_id r = ident) (db_tenants db) then Inl ''23505''
       else if parent \<noteq> None \<and> parent \<noteq> Some ident \<and> \<not> list_ex (\<lambda>r. Some (tn_id r) = parent) (db_tenants db) then Inl ''23503''
       else Inr ((), db\<lparr>db_tenants := db_tenants db @ [\<lparr>tn_id = ident, tn_display_name = name, tn_parent_tenant_id = parent, tn_status = status,
         tn_schema_mode = mode, tn_shared_schema_ref = ref, tn_config = Config t, tn_created_at = pg_time pg now, tn_updated_at = pg_time pg now,
         tn_deleted_at = None\<rparr>]\<rparr>)))))))"

definition pgCreateTenant :: "pgEnv \<Rightarrow> gotime \<Rightarrow> Tenant \<Rightarrow> database \<Rightarrow> (goError + unit) \<times> database" where
  "pgCreateTenant pg now t db =
     (case pgExec (insertTenant pg now t) db of (Inl e, db') \<Rightarrow> (Inl (CreateTenantFailed e), db') | (Inr _, db') \<Rightarrow> (Inr (), db'))"

definition readTenant :: "tenantRow \<Rightarrow> Tenant" where
  "readTenant r = \<lparr>TenantIdent = tn_id r, DisplayName = tn_display_name r, ParentTenantID = coalesce (tn_parent_tenant_id r), Status = tn_status r,
     SchemaMode = tn_schema_mode r, SharedSchemaRef = coalesce (tn_shared_schema_ref r), Config = tn_config r,
     TenantCreatedAt = tn_created_at r, TenantUpdatedAt = tn_updated_at r\<rparr>"

definition pgGetTenant :: "str \<Rightarrow> database \<Rightarrow> goError + Tenant" where
  "pgGetTenant tid db =
     (case find (\<lambda>r. tn_id r = tid \<and> tn_deleted_at r = None) (db_tenants db) of
        None \<Rightarrow> Inl ErrTenantNotFound | Some r \<Rightarrow> Inr (readTenant r))"

definition updateTenantRow :: "pgEnv \<Rightarrow> gotime \<Rightarrow> Tenant \<Rightarrow> database \<Rightarrow> string + nat \<times> database" where
  "updateTenantRow pg now t db =
     (let n = length (filter (\<lambda>r. tn_id r = TenantIdent t) (db_tenants db)) in
      if n = 0 then Inr (0, db)
      else varchar pg 256 (DisplayName t) (\<lambda>name. varchar pg 32 (Status t) (\<lambda>status. varchar pg 32 (SchemaMode t) (\<lambda>mode.
        varcharNull pg 128 (SharedSchemaRef t) (\<lambda>ref.
          Inr (n, db\<lparr>db_tenants := map (\<lambda>r. if tn_id r = TenantIdent t then r\<lparr>tn_display_name := name, tn_status := status, tn_schema_mode := mode,
            tn_shared_schema_ref := ref, tn_config := Config t, tn_updated_at := pg_time pg now\<rparr> else r) (db_tenants db)\<rparr>))))))"

definition pgUpdateTenant :: "pgEnv \<Rightarrow> gotime \<Rightarrow> Tenant \<Rightarrow> database \<Rightarrow> (goError + unit) \<times> database" where
  "pgUpdateTenant pg now t db = bindS (pgExec (updateTenantRow pg now t) db) (\<lambda>n db'. if n = 0 then (Inl ErrTenantNotFound, db') else (Inr (), db'))"

text \<open>\<^verbatim>\<open>ORDER BY\<close> for a collation.\<close>

fun insertBy :: "('k \<Rightarrow> 'k \<Rightarrow> bool) \<Rightarrow> ('a \<Rightarrow> 'k) \<Rightarrow> 'a \<Rightarrow> 'a list \<Rightarrow> 'a list" where
  "insertBy le key x [] = [x]"
| "insertBy le key x (y # ys) = (if le (key x) (key y) then x # y # ys else y # insertBy le key x ys)"

definition orderBy :: "('k \<Rightarrow> 'k \<Rightarrow> bool) \<Rightarrow> ('a \<Rightarrow> 'k) \<Rightarrow> 'a list \<Rightarrow> 'a list" where
  "orderBy le key xs = foldr (insertBy le key) xs []"

definition pgListTenants :: "pgEnv \<Rightarrow> TenantFilter option \<Rightarrow> database \<Rightarrow> goError + Tenant list" where
  "pgListTenants pg flt db =
     (let rows = orderBy (pg_le pg) tn_id (filter (\<lambda>r. tn_deleted_at r = None \<and>
            (case flt of None \<Rightarrow> True | Some f \<Rightarrow> (FilterStatus f \<noteq> [] \<longrightarrow> tn_status r = FilterStatus f) \<and>
              (FilterParentID f \<noteq> [] \<longrightarrow> tn_parent_tenant_id r = Some (FilterParentID f)))) (db_tenants db));
          skipped = (case flt of None \<Rightarrow> rows | Some f \<Rightarrow> if 0 < FilterOffset f then drop (nat (FilterOffset f)) rows else rows);
          taken = (case flt of None \<Rightarrow> skipped | Some f \<Rightarrow> if 0 < FilterLimit f then take (nat (FilterLimit f)) skipped else skipped)
      in Inr (map readTenant taken))"

text \<open>The preamble of the methods.\<close>

definition pgReading :: "goContext \<Rightarrow> database \<Rightarrow> (str \<Rightarrow> goError + 'a) \<Rightarrow> goError + 'a" where
  "pgReading ctx db body = bindE (tenantIDFromCtx ctx) (\<lambda>tid. bindE (ensureTenantReadable tid db) (\<lambda>_. body tid))"

definition pgWriting :: "goContext \<Rightarrow> database \<Rightarrow> (str \<Rightarrow> (goError + 'a) \<times> database) \<Rightarrow> (goError + 'a) \<times> database" where
  "pgWriting ctx db body =
     (case bindE (tenantIDFromCtx ctx) (\<lambda>tid. bindE (ensureTenantWritable tid db) (\<lambda>_. Inr tid)) of
        Inl e \<Rightarrow> (Inl e, db) | Inr tid \<Rightarrow> body tid)"

section \<open>Writing tuples\<close>

definition appendChangelogTx :: "pgEnv \<Rightarrow> gotime \<Rightarrow> str \<Rightarrow> ChangelogEntry \<Rightarrow> database \<Rightarrow> string + unit \<times> database" where
  "appendChangelogTx pg now tid e db =
     (let t = EntryTuple e in
      varchar pg 128 tid (\<lambda>ten. varchar pg 8 (Operation e) (\<lambda>oper. varchar pg 128 (ObjectType t) (\<lambda>ot. varchar pg 256 (ObjectID t) (\<lambda>oi.
      varchar pg 128 (Relation t) (\<lambda>r. varchar pg 128 (SubjectType t) (\<lambda>st. varchar pg 256 (SubjectID t) (\<lambda>si.
      varcharNull pg 128 (SubjectRelation t) (\<lambda>sr. varchar pg 256 (Actor e) (\<lambda>act. varchar pg 32 (Source e) (\<lambda>src.
        case pg_jsonb pg (EntryMetadata e) of Inl code \<Rightarrow> Inl code
        | Inr meta \<Rightarrow>
            if db_sequence db + 1 \<ge> 2 ^ 63 then Inl ''2200H''
            else if \<not> list_ex (\<lambda>row. tn_id row = ten) (db_tenants db) then Inl ''23503''
            else Inr ((), db\<lparr>db_sequence := db_sequence db + 1, db_changelog := db_changelog db @
              [\<lparr>lg_sequence = db_sequence db + 1, lg_tenant_id = ten, lg_operation = oper, lg_object_type = ot, lg_object_id = oi, lg_relation = r,
                lg_subject_type = st, lg_subject_id = si, lg_subject_relation = sr, lg_actor = act, lg_source = src, lg_metadata = meta,
                lg_created_at = pg_time pg now\<rparr>]\<rparr>))))))))))))"

definition isUniqueViolation :: "goError \<Rightarrow> bool" where
  "isUniqueViolation e \<longleftrightarrow> e = DatabaseError ''23505''"

definition marshalTupleAttributes :: "gomap option \<Rightarrow> gomap option" where
  "marshalTupleAttributes attrs = (case attrs of None \<Rightarrow> Some [] | Some a \<Rightarrow> Some a)"

text \<open>The condition of the unique index \<^verbatim>\<open>uq_tuples_identity_active\<close>, and of the statements that address one tuple.\<close>

definition sameIdentity :: "str \<Rightarrow> str \<Rightarrow> str \<Rightarrow> str \<Rightarrow> str \<Rightarrow> str \<Rightarrow> str \<Rightarrow> tupleRow \<Rightarrow> bool" where
  "sameIdentity tid ot oi r st si sr row \<longleftrightarrow> pt_tenant_id row = tid \<and> pt_object_type row = ot \<and> pt_object_id row = oi \<and> pt_relation row = r \<and>
     pt_subject_type row = st \<and> pt_subject_id row = si \<and> coalesce (pt_subject_relation row) = sr \<and> pt_deleted_at row = None"

definition insertTupleRow :: "pgEnv \<Rightarrow> gotime \<Rightarrow> str \<Rightarrow> RelationTuple \<Rightarrow> gomap option \<Rightarrow> database \<Rightarrow> string + unit \<times> database" where
  "insertTupleRow pg now tid t attrsJSON db =
     varchar pg 128 tid (\<lambda>ten. varchar pg 128 (ObjectType t) (\<lambda>ot. varchar pg 256 (ObjectID t) (\<lambda>oi. varchar pg 128 (Relation t) (\<lambda>r.
     varchar pg 128 (SubjectType t) (\<lambda>st. varchar pg 256 (SubjectID t) (\<lambda>si. varcharNull pg 128 (SubjectRelation t) (\<lambda>sr.
     varcharNull pg 128 (SubjectTenantID t) (\<lambda>stn. varcharNull pg 64 (SourceSystem t) (\<lambda>src. varcharNull pg 512 (ExternalID t) (\<lambda>ext.
       case pg_jsonb pg attrsJSON of Inl code \<Rightarrow> Inl code
       | Inr attrs \<Rightarrow>
           if list_ex (sameIdentity ten ot oi r st si (coalesce sr)) (db_tuples db) then Inl ''23505''
           else if \<not> list_ex (\<lambda>row. tn_id row = ten) (db_tenants db) then Inl ''23503''
           else Inr ((), db\<lparr>db_tuples := db_tuples db @ [\<lparr>pt_tenant_id = ten, pt_object_type = ot, pt_object_id = oi, pt_relation = r,
             pt_subject_type = st, pt_subject_id = si, pt_subject_relation = sr, pt_subject_tenant_id = stn, pt_source_system = src,
             pt_external_id = ext, pt_attributes = attrs, pt_expires_at = map_option (pg_time pg) (ExpiresAt t), pt_created_at = pg_time pg now,
             pt_updated_at = pg_time pg now, pt_deleted_at = None\<rparr>]\<rparr>)))))))))))"

definition isExpiredRow :: "gotime \<Rightarrow> tupleRow \<Rightarrow> bool" where
  "isExpiredRow now row \<longleftrightarrow> (case pt_expires_at row of None \<Rightarrow> False | Some e \<Rightarrow> e \<le> now)"

definition refreshExpiredTupleTx :: "pgEnv \<Rightarrow> gotime \<Rightarrow> str \<Rightarrow> RelationTuple \<Rightarrow> gomap option \<Rightarrow> database \<Rightarrow> string + bool \<times> database" where
  "refreshExpiredTupleTx pg now tid t attrsJSON db =
     (let hit = (\<lambda>row. sameIdentity tid (ObjectType t) (ObjectID t) (Relation t) (SubjectType t) (SubjectID t) (SubjectRelation t) row \<and>
            isExpiredRow now row) in
      if \<not> list_ex hit (db_tuples db) then Inr (False, db)
      else varcharNull pg 128 (SubjectTenantID t) (\<lambda>stn. varcharNull pg 64 (SourceSystem t) (\<lambda>src. varcharNull pg 512 (ExternalID t) (\<lambda>ext.
        case pg_jsonb pg attrsJSON of Inl code \<Rightarrow> Inl code
        | Inr attrs \<Rightarrow> Inr (True, db\<lparr>db_tuples := map (\<lambda>row. if hit row then row\<lparr>pt_subject_tenant_id := stn, pt_source_system := src,
            pt_external_id := ext, pt_attributes := attrs, pt_expires_at := map_option (pg_time pg) (ExpiresAt t), pt_updated_at := pg_time pg now\<rparr>
            else row) (db_tuples db)\<rparr>)))))"

text \<open>The entry written with a change has the six parts of the tuple and nothing else of it.\<close>

definition changeEntry :: "str \<Rightarrow> str \<Rightarrow> RelationTuple \<Rightarrow> ChangelogEntry" where
  "changeEntry oper tid t = \<lparr>Sequence = 0, EntryTenantID = [], Operation = oper,
     EntryTuple = \<lparr>TupleTenantID = tid, ObjectType = ObjectType t, ObjectID = ObjectID t, Relation = Relation t, SubjectType = SubjectType t,
       SubjectID = SubjectID t, SubjectRelation = SubjectRelation t, SubjectTenantID = [], Attributes = None, ExpiresAt = None,
       CreatedAt = 0, UpdatedAt = 0, SourceSystem = [], ExternalID = []\<rparr>,
     Timestamp = 0, Actor = [], Source = js ''api'', EntryMetadata = None\<rparr>"

text \<open>The body of \<^verbatim>\<open>WriteTuple\<close> within its transaction, which is also the body of the loop of \<^verbatim>\<open>WriteTuples\<close>.\<close>

definition writeTupleTx :: "pgEnv \<Rightarrow> gotime \<Rightarrow> str \<Rightarrow> RelationTuple \<Rightarrow> pgTx \<Rightarrow> (goError + unit) \<times> pgTx" where
  "writeTupleTx pg now tid t tx =
     (let attrsJSON = marshalTupleAttributes (Attributes t);
          log = (\<lambda>tx'. txExec (appendChangelogTx pg now tid (changeEntry ChangeOpInsert tid t)) tx')
      in case txExec (insertTupleRow pg now tid t attrsJSON) tx of
           (Inr _, tx1) \<Rightarrow> log tx1
         | (Inl e, tx1) \<Rightarrow>
             if isUniqueViolation e
             then bindS (txExec (refreshExpiredTupleTx pg now tid t attrsJSON) tx1) (\<lambda>refreshed tx2.
               if \<not> refreshed then (Inl ErrDuplicateTuple, tx2) else log tx2)
             else (Inl e, tx1))"

fun writeTuplesTx :: "pgEnv \<Rightarrow> gotime \<Rightarrow> str \<Rightarrow> RelationTuple list \<Rightarrow> pgTx \<Rightarrow> (goError + unit) \<times> pgTx" where
  "writeTuplesTx pg now tid [] tx = (Inr (), tx)"
| "writeTuplesTx pg now tid (t # ts) tx = bindS (writeTupleTx pg now tid t tx) (\<lambda>_ tx1. writeTuplesTx pg now tid ts tx1)"

definition pgWriteTuple :: "pgEnv \<Rightarrow> gotime \<Rightarrow> goContext \<Rightarrow> RelationTuple \<Rightarrow> database \<Rightarrow> (goError + unit) \<times> database" where
  "pgWriteTuple pg now ctx t db = pgWriting ctx db (\<lambda>tid. inTx (writeTupleTx pg now tid t) db)"

definition pgWriteTuples :: "pgEnv \<Rightarrow> gotime \<Rightarrow> goContext \<Rightarrow> RelationTuple list \<Rightarrow> database \<Rightarrow> (goError + unit) \<times> database" where
  "pgWriteTuples pg now ctx ts db = pgWriting ctx db (\<lambda>tid. inTx (writeTuplesTx pg now tid ts) db)"

definition markDeleted :: "pgEnv \<Rightarrow> gotime \<Rightarrow> str \<Rightarrow> RelationTuple \<Rightarrow> database \<Rightarrow> string + bool \<times> database" where
  "markDeleted pg now tid t db =
     (let hit = sameIdentity tid (ObjectType t) (ObjectID t) (Relation t) (SubjectType t) (SubjectID t) (SubjectRelation t) in
      Inr (list_ex hit (db_tuples db),
        db\<lparr>db_tuples := map (\<lambda>row. if hit row then row\<lparr>pt_deleted_at := Some (pg_time pg now)\<rparr> else row) (db_tuples db)\<rparr>))"

definition deleteTupleTx :: "pgEnv \<Rightarrow> gotime \<Rightarrow> str \<Rightarrow> RelationTuple \<Rightarrow> pgTx \<Rightarrow> (goError + unit) \<times> pgTx" where
  "deleteTupleTx pg now tid t tx =
     bindS (txExec (markDeleted pg now tid t) tx) (\<lambda>hit tx1.
       if \<not> hit then (Inl ErrNotFound, tx1) else txExec (appendChangelogTx pg now tid (changeEntry ChangeOpDelete tid t)) tx1)"

definition pgDeleteTuple :: "pgEnv \<Rightarrow> gotime \<Rightarrow> goContext \<Rightarrow> RelationTuple \<Rightarrow> database \<Rightarrow> (goError + unit) \<times> database" where
  "pgDeleteTuple pg now ctx t db = pgWriting ctx db (\<lambda>tid. inTx (deleteTupleTx pg now tid t) db)"

section \<open>Reading tuples\<close>

definition readRow :: "tupleRow \<Rightarrow> RelationTuple" where
  "readRow r = \<lparr>TupleTenantID = pt_tenant_id r, ObjectType = pt_object_type r, ObjectID = pt_object_id r, Relation = pt_relation r,
     SubjectType = pt_subject_type r, SubjectID = pt_subject_id r, SubjectRelation = coalesce (pt_subject_relation r),
     SubjectTenantID = coalesce (pt_subject_tenant_id r), Attributes = pt_attributes r, ExpiresAt = pt_expires_at r, CreatedAt = pt_created_at r,
     UpdatedAt = pt_updated_at r, SourceSystem = coalesce (pt_source_system r), ExternalID = coalesce (pt_external_id r)\<rparr>"

text \<open>The rows of a tenant that are not deleted, and those that have not expired either.\<close>

definition activeRow :: "str \<Rightarrow> tupleRow \<Rightarrow> bool" where
  "activeRow tid row \<longleftrightarrow> pt_tenant_id row = tid \<and> pt_deleted_at row = None"

definition liveRow :: "gotime \<Rightarrow> str \<Rightarrow> tupleRow \<Rightarrow> bool" where
  "liveRow now tid row \<longleftrightarrow> activeRow tid row \<and> (case pt_expires_at row of None \<Rightarrow> True | Some e \<Rightarrow> now < e)"

definition matchesRow :: "TupleFilter option \<Rightarrow> tupleRow \<Rightarrow> bool" where
  "matchesRow flt row \<longleftrightarrow>
     (case flt of None \<Rightarrow> True | Some f \<Rightarrow>
        (FObjectType f \<noteq> [] \<longrightarrow> pt_object_type row = FObjectType f) \<and> (FObjectID f \<noteq> [] \<longrightarrow> pt_object_id row = FObjectID f) \<and>
        (FRelation f \<noteq> [] \<longrightarrow> pt_relation row = FRelation f) \<and> (FSubjectType f \<noteq> [] \<longrightarrow> pt_subject_type row = FSubjectType f) \<and>
        (FSubjectID f \<noteq> [] \<longrightarrow> pt_subject_id row = FSubjectID f) \<and>
        (FSubjectRelation f \<noteq> [] \<longrightarrow> pt_subject_relation row = Some (FSubjectRelation f)))"

definition pgReadTuples :: "pgEnv \<Rightarrow> gotime \<Rightarrow> goContext \<Rightarrow> TupleFilter option \<Rightarrow> database \<Rightarrow> goError + RelationTuple list" where
  "pgReadTuples pg now ctx flt db = pgReading ctx db (\<lambda>tid.
     Inr (map readRow (pg_scan pg (filter (\<lambda>row. activeRow tid row \<and>
       ((flt = None \<or> \<not> FIncludeExpired (the flt)) \<longrightarrow> liveRow now tid row) \<and> matchesRow flt row) (db_tuples db)))))"

definition pgCheckDirect :: "gotime \<Rightarrow> goContext \<Rightarrow> str \<Rightarrow> str \<Rightarrow> str \<Rightarrow> str \<Rightarrow> str \<Rightarrow> database \<Rightarrow> goError + bool" where
  "pgCheckDirect now ctx ot oi r st si db = pgReading ctx db (\<lambda>tid.
     Inr (list_ex (\<lambda>row. liveRow now tid row \<and> pt_object_type row = ot \<and> pt_object_id row = oi \<and> pt_relation row = r \<and>
       pt_subject_type row = st \<and> pt_subject_id row = si \<and> (pt_subject_relation row = None \<or> pt_subject_relation row = Some [])) (db_tuples db)))"

definition relationRows :: "pgEnv \<Rightarrow> gotime \<Rightarrow> str \<Rightarrow> str \<Rightarrow> str \<Rightarrow> str \<Rightarrow> database \<Rightarrow> tupleRow list" where
  "relationRows pg now tid ot oi r db =
     pg_scan pg (filter (\<lambda>row. liveRow now tid row \<and> pt_object_type row = ot \<and> pt_object_id row = oi \<and> pt_relation row = r) (db_tuples db))"

definition pgListRelatedObjects :: "pgEnv \<Rightarrow> gotime \<Rightarrow> goContext \<Rightarrow> str \<Rightarrow> str \<Rightarrow> str \<Rightarrow> database \<Rightarrow> goError + ObjectRef list" where
  "pgListRelatedObjects pg now ctx ot oi r db = pgReading ctx db (\<lambda>tid.
     Inr (map (\<lambda>row. \<lparr>ObjType = pt_subject_type row, ObjID = pt_subject_id row\<rparr>) (relationRows pg now tid ot oi r db)))"

definition rowSubject :: "tupleRow \<Rightarrow> SubjectRef" where
  "rowSubject row = \<lparr>SubjType = pt_subject_type row, SubjID = pt_subject_id row, SubjRelation = coalesce (pt_subject_relation row)\<rparr>"

definition pgListSubjects :: "pgEnv \<Rightarrow> gotime \<Rightarrow> goContext \<Rightarrow> str \<Rightarrow> str \<Rightarrow> str \<Rightarrow> database \<Rightarrow> goError + SubjectRef list" where
  "pgListSubjects pg now ctx ot oi r db = pgReading ctx db (\<lambda>tid. Inr (map rowSubject (relationRows pg now tid ot oi r db)))"

definition pgExpand :: "pgEnv \<Rightarrow> gotime \<Rightarrow> goContext \<Rightarrow> str \<Rightarrow> str \<Rightarrow> str \<Rightarrow> database \<Rightarrow> goError + SubjectTree" where
  "pgExpand pg now ctx ot oi r db = bindE (pgListSubjects pg now ctx ot oi r db) (\<lambda>subjects.
     Inr (GoSubjectTree \<lparr>SubjType = ot, SubjID = oi, SubjRelation = r\<rparr> (map (\<lambda>sub. GoSubjectTree sub []) subjects)))"

definition pgCheckDirectCrossTenant :: "gotime \<Rightarrow> str \<Rightarrow> str \<Rightarrow> str \<Rightarrow> str \<Rightarrow> str \<Rightarrow> str \<Rightarrow> database \<Rightarrow> goError + bool" where
  "pgCheckDirectCrossTenant now tid ot oi r st si db = bindE (ensureTenantReadable tid db) (\<lambda>_.
     Inr (list_ex (\<lambda>row. liveRow now tid row \<and> pt_object_type row = ot \<and> pt_object_id row = oi \<and> pt_relation row = r \<and>
       pt_subject_type row = st \<and> pt_subject_id row = si) (db_tuples db)))"

definition pgCountTuples :: "gotime \<Rightarrow> goContext \<Rightarrow> database \<Rightarrow> goError + nat" where
  "pgCountTuples now ctx db = pgReading ctx db (\<lambda>tid. Inr (length (filter (liveRow now tid) (db_tuples db))))"

definition pgExportTenantSnapshot :: "pgEnv \<Rightarrow> gotime \<Rightarrow> goContext \<Rightarrow> database \<Rightarrow> goError + RelationTuple list" where
  "pgExportTenantSnapshot pg now ctx db = pgReading ctx db (\<lambda>tid.
     Inr (map (\<lambda>row. (readRow row)\<lparr>SubjectTenantID := [], SourceSystem := [], ExternalID := []\<rparr>)
       (pg_scan pg (filter (liveRow now tid) (db_tuples db)))))"

section \<open>Attributes\<close>

definition sameEntity :: "str \<Rightarrow> str \<Rightarrow> str \<Rightarrow> attrRow \<Rightarrow> bool" where
  "sameEntity tid ty i row \<longleftrightarrow> ar_tenant_id row = tid \<and> ar_type row = ty \<and> ar_id row = i"

definition findAttrs :: "str \<Rightarrow> str \<Rightarrow> str \<Rightarrow> attrRow list \<Rightarrow> goError + gomap option" where
  "findAttrs tid ty i rows = (case find (sameEntity tid ty i) rows of None \<Rightarrow> Inl ErrNotFound | Some row \<Rightarrow> Inr (ar_attributes row))"

text \<open>\<^verbatim>\<open>INSERT ... ON CONFLICT ... DO UPDATE\<close> on one of the two tables.\<close>

definition upsertAttrs :: "pgEnv \<Rightarrow> gotime \<Rightarrow> str \<Rightarrow> str \<Rightarrow> str \<Rightarrow> gomap option \<Rightarrow> tenantRow list \<Rightarrow> attrRow list \<Rightarrow> string + attrRow list" where
  "upsertAttrs pg now tid ty i attrs tenants rows =
     varchar pg 128 tid (\<lambda>ten. varchar pg 128 ty (\<lambda>ty'. varchar pg 256 i (\<lambda>i'.
       case pg_jsonb pg attrs of Inl code \<Rightarrow> Inl code
       | Inr a \<Rightarrow>
           if list_ex (sameEntity ten ty' i') rows
           then Inr (map (\<lambda>row. if sameEntity ten ty' i' row then row\<lparr>ar_attributes := a, ar_updated_at := pg_time pg now\<rparr> else row) rows)
           else if \<not> list_ex (\<lambda>row. tn_id row = ten) tenants then Inl ''23503''
           else Inr (rows @ [\<lparr>ar_tenant_id = ten, ar_type = ty', ar_id = i', ar_attributes = a, ar_updated_at = pg_time pg now\<rparr>]))))"

definition lexLe :: "(str \<Rightarrow> str \<Rightarrow> bool) \<Rightarrow> str \<times> str \<Rightarrow> str \<times> str \<Rightarrow> bool" where
  "lexLe le a b = (if fst a = fst b then le (snd a) (snd b) else le (fst a) (fst b))"

definition listRows :: "pgEnv \<Rightarrow> str \<Rightarrow> str \<Rightarrow> attrRow list \<Rightarrow> AttributesItem list" where
  "listRows pg tid ty rows =
     map (\<lambda>row. \<lparr>ItemTenantID = tid, ItemType = ar_type row, ItemID = ar_id row, ItemAttributes = ar_attributes row, ItemUpdatedAt = ar_updated_at row\<rparr>)
       (orderBy (lexLe (pg_le pg)) (\<lambda>row. (ar_type row, ar_id row)) (filter (\<lambda>row. ar_tenant_id row = tid \<and> (ty \<noteq> [] \<longrightarrow> ar_type row = ty)) rows))"

definition pgGetObjectAttributes :: "goContext \<Rightarrow> str \<Rightarrow> str \<Rightarrow> database \<Rightarrow> goError + gomap option" where
  "pgGetObjectAttributes ctx ty i db = pgReading ctx db (\<lambda>tid. findAttrs tid ty i (db_objAttrs db))"

definition pgSetObjectAttributes :: "pgEnv \<Rightarrow> gotime \<Rightarrow> goContext \<Rightarrow> str \<Rightarrow> str \<Rightarrow> gomap option \<Rightarrow> database \<Rightarrow> (goError + unit) \<times> database" where
  "pgSetObjectAttributes pg now ctx ty i attrs db = pgWriting ctx db (\<lambda>tid.
     pgExec (\<lambda>d. case upsertAttrs pg now tid ty i attrs (db_tenants d) (db_objAttrs d) of Inl c \<Rightarrow> Inl c | Inr rows \<Rightarrow> Inr ((), d\<lparr>db_objAttrs := rows\<rparr>)) db)"

definition pgListObjectAttributes :: "pgEnv \<Rightarrow> goContext \<Rightarrow> str \<Rightarrow> database \<Rightarrow> goError + AttributesItem list" where
  "pgListObjectAttributes pg ctx ty db = pgReading ctx db (\<lambda>tid. Inr (listRows pg tid ty (db_objAttrs db)))"

definition pgGetSubjectAttributes :: "goContext \<Rightarrow> str \<Rightarrow> str \<Rightarrow> database \<Rightarrow> goError + gomap option" where
  "pgGetSubjectAttributes ctx ty i db = pgReading ctx db (\<lambda>tid. findAttrs tid ty i (db_subAttrs db))"

definition pgSetSubjectAttributes :: "pgEnv \<Rightarrow> gotime \<Rightarrow> goContext \<Rightarrow> str \<Rightarrow> str \<Rightarrow> gomap option \<Rightarrow> database \<Rightarrow> (goError + unit) \<times> database" where
  "pgSetSubjectAttributes pg now ctx ty i attrs db = pgWriting ctx db (\<lambda>tid.
     pgExec (\<lambda>d. case upsertAttrs pg now tid ty i attrs (db_tenants d) (db_subAttrs d) of Inl c \<Rightarrow> Inl c | Inr rows \<Rightarrow> Inr ((), d\<lparr>db_subAttrs := rows\<rparr>)) db)"

definition pgListSubjectAttributes :: "pgEnv \<Rightarrow> goContext \<Rightarrow> str \<Rightarrow> database \<Rightarrow> goError + AttributesItem list" where
  "pgListSubjectAttributes pg ctx ty db = pgReading ctx db (\<lambda>tid. Inr (listRows pg tid ty (db_subAttrs db)))"

section \<open>The changelog and the data of a tenant\<close>

definition pgAppendChangelog :: "pgEnv \<Rightarrow> gotime \<Rightarrow> goContext \<Rightarrow> ChangelogEntry \<Rightarrow> database \<Rightarrow> (goError + unit) \<times> database" where
  "pgAppendChangelog pg now ctx e db = pgWriting ctx db (\<lambda>tid. inTx (txExec (appendChangelogTx pg now tid e)) db)"

definition readLogRow :: "logRow \<Rightarrow> ChangelogEntry" where
  "readLogRow r = \<lparr>Sequence = of_nat (lg_sequence r), EntryTenantID = lg_tenant_id r, Operation = lg_operation r,
     EntryTuple = \<lparr>TupleTenantID = [], ObjectType = lg_object_type r, ObjectID = lg_object_id r, Relation = lg_relation r,
       SubjectType = lg_subject_type r, SubjectID = lg_subject_id r, SubjectRelation = coalesce (lg_subject_relation r), SubjectTenantID = [],
       Attributes = None, ExpiresAt = None, CreatedAt = 0, UpdatedAt = 0, SourceSystem = [], ExternalID = []\<rparr>,
     Timestamp = lg_created_at r, Actor = lg_actor r, Source = lg_source r, EntryMetadata = None\<rparr>"

definition pgReadChangelog :: "goContext \<Rightarrow> 64 word \<Rightarrow> int \<Rightarrow> database \<Rightarrow> goError + ChangelogEntry list" where
  "pgReadChangelog ctx sinceSeq limit db = pgReading ctx db (\<lambda>tid.
     let limit' = (if limit \<le> 0 then 1000 else limit) in
     Inr (map readLogRow (take (nat limit') (sort_key lg_sequence
       (filter (\<lambda>r. lg_tenant_id r = tid \<and> unat sinceSeq < lg_sequence r) (db_changelog db))))))"

definition pgLatestSequence :: "goContext \<Rightarrow> database \<Rightarrow> goError + 64 word" where
  "pgLatestSequence ctx db = pgReading ctx db (\<lambda>tid.
     Inr (of_nat (fold max (map lg_sequence (filter (\<lambda>r. lg_tenant_id r = tid) (db_changelog db))) 0)))"

text \<open>Four statements, each a transaction of its own.\<close>

definition pgPurgeTenantData :: "goContext \<Rightarrow> database \<Rightarrow> (goError + unit) \<times> database" where
  "pgPurgeTenantData ctx db = pgWriting ctx db (\<lambda>tid.
     bindS (pgExec (\<lambda>d. Inr ((), d\<lparr>db_tuples := filter (\<lambda>r. pt_tenant_id r \<noteq> tid) (db_tuples d)\<rparr>)) db) (\<lambda>_ d1.
     bindS (pgExec (\<lambda>d. Inr ((), d\<lparr>db_objAttrs := filter (\<lambda>r. ar_tenant_id r \<noteq> tid) (db_objAttrs d)\<rparr>)) d1) (\<lambda>_ d2.
     bindS (pgExec (\<lambda>d. Inr ((), d\<lparr>db_subAttrs := filter (\<lambda>r. ar_tenant_id r \<noteq> tid) (db_subAttrs d)\<rparr>)) d2) (\<lambda>_ d3.
       pgExec (\<lambda>d. Inr ((), d\<lparr>db_changelog := filter (\<lambda>r. lg_tenant_id r \<noteq> tid) (db_changelog d)\<rparr>)) d3))))"

end
