(* ===== verification/Postgres_Laws.thy ===== *)
theory Postgres_Laws
  imports Postgres_Store Store_Laws "HOL-Library.Multiset"
begin

text \<open>
  The store on PostgreSQL against what a store promises. What the statements need of the database server is the locale
  \<open>postgres\<close>; \<open>standardPg\<close> is a server that has it. The steps and reachable states of the database, its invariant, the
  abstraction of the active rows of a tenant to a map from identities to tuples, and what writing and deleting are on that
  map. Where the store differs from the memory store in what a client sees, a theorem shows it.
\<close>

section \<open>Identities\<close>

type_synonym identity = "str \<times> str \<times> str \<times> str \<times> str \<times> str"

definition tupleIdentity :: "RelationTuple \<Rightarrow> identity" where
  "tupleIdentity t = (ObjectType t, ObjectID t, Relation t, SubjectType t, SubjectID t, SubjectRelation t)"

definition rowIdentity :: "tupleRow \<Rightarrow> identity" where
  "rowIdentity row = (pt_object_type row, pt_object_id row, pt_relation row, pt_subject_type row, pt_subject_id row, coalesce (pt_subject_relation row))"

definition logIdentity :: "logRow \<Rightarrow> identity" where
  "logIdentity r = (lg_object_type r, lg_object_id r, lg_relation r, lg_subject_type r, lg_subject_id r, coalesce (lg_subject_relation r))"

text \<open>What the columns hold of the identity of a tuple; the widths are the same in both tables.\<close>

definition nullText :: "pgEnv \<Rightarrow> nat \<Rightarrow> str \<Rightarrow> str option option" where
  "nullText pg n s = (if s = [] then Some None else map_option Some (pg_varchar pg n s))"

fun storedIn :: "pgEnv \<Rightarrow> identity \<Rightarrow> identity option" where
  "storedIn pg (ot, oi, r, st, si, sr) =
     (case (pg_varchar pg 128 ot, pg_varchar pg 256 oi, pg_varchar pg 128 r, pg_varchar pg 128 st, pg_varchar pg 256 si,
         nullText pg 128 sr) of
        (Some ot', Some oi', Some r', Some st', Some si', Some c) \<Rightarrow> Some (ot', oi', r', st', si', coalesce c)
      | _ \<Rightarrow> None)"

declare storedIn.simps [simp del]

definition activeRows :: "str \<Rightarrow> database \<Rightarrow> tupleRow list" where
  "activeRows tid db = filter (activeRow tid) (db_tuples db)"

definition tenantLog :: "str \<Rightarrow> database \<Rightarrow> logRow list" where
  "tenantLog tid db = filter (\<lambda>r. lg_tenant_id r = tid) (db_changelog db)"

text \<open>The table of a tenant as a map, and the identities that its log leaves.\<close>

definition rowMap :: "str \<Rightarrow> database \<Rightarrow> (identity \<rightharpoonup> RelationTuple)" where
  "rowMap tid db = map_of (map (\<lambda>row. (rowIdentity row, readRow row)) (activeRows tid db))"

definition replayLogRow :: "logRow \<Rightarrow> identity set \<Rightarrow> identity set" where
  "replayLogRow r ids = (if lg_operation r = ChangeOpInsert then insert (logIdentity r) ids else ids - {logIdentity r})"

definition replayLog :: "logRow list \<Rightarrow> identity set" where
  "replayLog rows = fold replayLogRow rows {}"

lemma coalesce_simps [simp]: "coalesce None = []" "coalesce (Some s) = s"
  by (simp_all add: coalesce_def)

section \<open>The database server\<close>

text \<open>
  A short plain text is stored as it is, what is read can be stored again and is the same, \<^verbatim>\<open>null\<close> is a JSON document, and a query
  returns the rows that satisfy it, in some order.
\<close>

definition plainText :: "str \<Rightarrow> bool" where
  "plainText s \<longleftrightarrow> list_all (\<lambda>c. 0 < c \<and> c < 128) s"

locale postgres =
  fixes pg :: pgEnv
  assumes short_kept: "plainText s \<Longrightarrow> length s \<le> n \<Longrightarrow> pg_varchar pg n s = Some s"
    and kept_again: "pg_varchar pg n s = Some s' \<Longrightarrow> pg_varchar pg n s' = Some s'"
    and null_json: "\<exists>v. pg_jsonb pg None = Inr v"
    and scan_rows: "mset (pg_scan pg rows) = mset rows"
begin

lemma stored_again: "storedIn pg i = Some j \<Longrightarrow> storedIn pg j = Some j"
  by (cases i; cases j) (auto simp: storedIn.simps nullText_def kept_again split: option.splits if_splits)

lemma scan_set [simp]: "set (pg_scan pg rows) = set rows"
  by (metis scan_rows set_mset_mset)

lemma constants_kept: "pg_varchar pg 8 ChangeOpInsert = Some ChangeOpInsert" "pg_varchar pg 8 ChangeOpDelete = Some ChangeOpDelete"
  "pg_varchar pg 256 [] = Some []" "pg_varchar pg 32 (js ''api'') = Some (js ''api'')"
  by (rule short_kept; code_simp)+

end

text \<open>
  PostgreSQL as documented: a text that is too long is an error unless the excess is spaces, which are cut off; times have
  microseconds; the zero character is no text.
\<close>

definition standardPg :: pgEnv where
  "standardPg =
     \<lparr>pg_varchar = (\<lambda>n s. if 0 \<in> set s then None else if length s \<le> n then Some s
         else if list_all (\<lambda>c. c = 0x20) (drop n s) then Some (take n s) else None),
      pg_jsonb = (\<lambda>v. Inr v), pg_time = (\<lambda>t. t div 1000 * 1000), pg_scan = (\<lambda>rows. rows),
      pg_le = (\<lambda>a b. lexordp_eq a b)\<rparr>"

interpretation std: postgres standardPg
  by unfold_locales (auto simp: standardPg_def plainText_def list_all_iff dest: in_set_takeD split: if_splits)

section \<open>Statements and transactions\<close>

lemma varchar_Inr: "varchar pg n s f = Inr x \<longleftrightarrow> (\<exists>s'. pg_varchar pg n s = Some s' \<and> f s' = Inr x)"
  by (auto simp: varchar_def split: option.splits)

lemma varcharNull_Inr: "varcharNull pg n s f = Inr x \<longleftrightarrow> (\<exists>c. nullText pg n s = Some c \<and> f c = Inr x)"
  by (auto simp: varcharNull_def nullText_def varchar_Inr)

lemma varchar_kept: "pg_varchar pg n s = Some s' \<Longrightarrow> varchar pg n s f = f s'"
  by (simp add: varchar_def)

lemma sameIdentity_iff: "sameIdentity tid ot oi r st si sr row \<longleftrightarrow> activeRow tid row \<and> rowIdentity row = (ot, oi, r, st, si, sr)"
  by (auto simp: sameIdentity_def activeRow_def rowIdentity_def)

text \<open>The tables after a row has been added to the tuples, and after one has been added to the log.\<close>

definition addRow :: "tupleRow \<Rightarrow> database \<Rightarrow> database" where
  "addRow row db = db\<lparr>db_tuples := db_tuples db @ [row]\<rparr>"

definition addLog :: "logRow \<Rightarrow> database \<Rightarrow> database" where
  "addLog r db = db\<lparr>db_sequence := db_sequence db + 1, db_changelog := db_changelog db @ [r]\<rparr>"

lemma insertTupleRow_Inr:
  assumes "insertTupleRow pg now tid t a db = Inr (u, db')"
  shows "\<exists>row. db' = addRow row db \<and> pt_deleted_at row = None \<and> pg_varchar pg 128 tid = Some (pt_tenant_id row) \<and>
    storedIn pg (tupleIdentity t) = Some (rowIdentity row) \<and> rowIdentity row \<notin> rowIdentity ` set (activeRows (pt_tenant_id row) db)"
proof (cases "pg_jsonb pg a")
  case (Inr attrs)
  show ?thesis
    using assms unfolding insertTupleRow_def varchar_Inr varcharNull_Inr Inr sum.case
    apply (elim exE conjE)
    subgoal for ten ot oi r st si sr stn src ext
      apply (rule exI [of _ "last (db_tuples db')"])
      apply (auto simp: addRow_def tupleIdentity_def storedIn.simps rowIdentity_def sameIdentity_iff list_ex_iff activeRows_def split: if_splits)
      done
    done
qed (use assms in \<open>simp add: insertTupleRow_def varchar_Inr varcharNull_Inr\<close>)

lemma appendChangelogTx_Inr:
  assumes "appendChangelogTx pg now tid e db = Inr (u, db')"
  shows "\<exists>r. db' = addLog r db \<and> lg_sequence r = db_sequence db + 1 \<and> db_sequence db + 1 < 2 ^ 63 \<and>
    pg_varchar pg 128 tid = Some (lg_tenant_id r) \<and> pg_varchar pg 8 (Operation e) = Some (lg_operation r) \<and>
    storedIn pg (tupleIdentity (EntryTuple e)) = Some (logIdentity r)"
proof (cases "pg_jsonb pg (EntryMetadata e)")
  case (Inr meta)
  show ?thesis
    using assms unfolding appendChangelogTx_def Let_def varchar_Inr varcharNull_Inr Inr sum.case
    apply (elim exE conjE)
    subgoal for ten oper ot oi r st si sr act src
      apply (rule exI [of _ "last (db_changelog db')"])
      apply (auto simp: addLog_def tupleIdentity_def storedIn.simps logIdentity_def split: if_splits)
      done
    done
qed (use assms in \<open>simp add: appendChangelogTx_def Let_def varchar_Inr varcharNull_Inr\<close>)

lemma changeEntry_sel [simp]: "Operation (changeEntry oper tid t) = oper" "tupleIdentity (EntryTuple (changeEntry oper tid t)) = tupleIdentity t"
  by (simp_all add: changeEntry_def tupleIdentity_def)

text \<open>Statements in a transaction, and a transaction around a body.\<close>

lemma txExec_simps:
  "tx_failed tx \<Longrightarrow> txExec stmt tx = (Inl (DatabaseError ''25P02''), tx)"
  "\<not> tx_failed tx \<Longrightarrow> stmt (tx_db tx) = Inl code \<Longrightarrow> txExec stmt tx = (Inl (DatabaseError code), tx\<lparr>tx_failed := True\<rparr>)"
  "\<not> tx_failed tx \<Longrightarrow> stmt (tx_db tx) = Inr (x, db) \<Longrightarrow> txExec stmt tx = (Inr x, tx\<lparr>tx_db := db\<rparr>)"
  by (simp_all add: txExec_def)

lemma txExec_Inr:
  "txExec stmt tx = (Inr x, tx') \<longleftrightarrow> (\<exists>db. \<not> tx_failed tx \<and> stmt (tx_db tx) = Inr (x, db) \<and> tx' = tx\<lparr>tx_db := db\<rparr>)"
  by (auto simp: txExec_def split: sum.splits)

lemma txExec_Inl: "txExec stmt tx = (Inl e, tx') \<Longrightarrow> tx_db tx' = tx_db tx \<and> tx_failed tx'"
  by (auto simp: txExec_def split: sum.splits if_splits)

lemma bindS_simps [simp]: "bindS (Inl e, s) f = (Inl e, s)" "bindS (Inr x, s) f = f x s"
  by (simp_all add: bindS_def)

lemma bindS_Inr: "bindS r f = (Inr y, s') \<longleftrightarrow> (\<exists>x s. r = (Inr x, s) \<and> f x s = (Inr y, s'))"
  by (auto simp: bindS_def split: prod.splits sum.splits)

lemma bindS_Inl: "bindS r f = (Inl e, s') \<longleftrightarrow> r = (Inl e, s') \<or> (\<exists>x s. r = (Inr x, s) \<and> f x s = (Inl e, s'))"
  by (auto simp: bindS_def split: prod.splits sum.splits)

text \<open>A write in a running transaction: the rows and the log grow by one each, or an error is returned.\<close>

lemma writeTupleTx_Inr:
  assumes "writeTupleTx pg now tid t tx = (Inr u, tx')"
  shows "\<exists>row r. \<not> tx_failed tx \<and> tx' = tx\<lparr>tx_db := addLog r (addRow row (tx_db tx))\<rparr> \<and> pt_deleted_at row = None \<and>
    pg_varchar pg 128 tid = Some (pt_tenant_id row) \<and> storedIn pg (tupleIdentity t) = Some (rowIdentity row) \<and>
    rowIdentity row \<notin> rowIdentity ` set (activeRows (pt_tenant_id row) (tx_db tx)) \<and> lg_tenant_id r = pt_tenant_id row \<and>
    logIdentity r = rowIdentity row \<and> pg_varchar pg 8 ChangeOpInsert = Some (lg_operation r) \<and>
    lg_sequence r = db_sequence (tx_db tx) + 1 \<and> db_sequence (tx_db tx) + 1 < 2 ^ 63"
proof -
  let ?ins = "insertTupleRow pg now tid t (marshalTupleAttributes (Attributes t))"
  let ?log = "txExec (appendChangelogTx pg now tid (changeEntry ChangeOpInsert tid t))"
  obtain v tx1 where tx1: "txExec ?ins tx = (Inr v, tx1)" "?log tx1 = (Inr u, tx')"
  proof (cases "txExec ?ins tx")
    case (Pair a tx1)
    then show ?thesis
      using assms that txExec_Inl [of ?ins tx _ tx1] by (cases a) (auto simp: writeTupleTx_def Let_def txExec_simps(1) split: if_splits)
  qed
  then obtain db1 db2 where d: "\<not> tx_failed tx" "?ins (tx_db tx) = Inr (v, db1)" "tx1 = tx\<lparr>tx_db := db1\<rparr>"
    "appendChangelogTx pg now tid (changeEntry ChangeOpInsert tid t) db1 = Inr (u, db2)" "tx' = tx1\<lparr>tx_db := db2\<rparr>"
    by (auto simp: txExec_Inr)
  obtain row where row: "db1 = addRow row (tx_db tx)" "pt_deleted_at row = None" "pg_varchar pg 128 tid = Some (pt_tenant_id row)"
    "storedIn pg (tupleIdentity t) = Some (rowIdentity row)" "rowIdentity row \<notin> rowIdentity ` set (activeRows (pt_tenant_id row) (tx_db tx))"
    using insertTupleRow_Inr [OF d(2)] by blast
  obtain r where "db2 = addLog r db1" "lg_sequence r = db_sequence db1 + 1" "db_sequence db1 + 1 < 2 ^ 63"
    "pg_varchar pg 128 tid = Some (lg_tenant_id r)" "pg_varchar pg 8 ChangeOpInsert = Some (lg_operation r)"
    "storedIn pg (tupleIdentity t) = Some (logIdentity r)"
    using appendChangelogTx_Inr [OF d(4)] by auto
  then show ?thesis using row d by (intro exI [of _ row] exI [of _ r]) (simp add: addRow_def)
qed

lemma insertTupleRow_tables: "insertTupleRow pg now tid t a db = Inr (u, db') \<Longrightarrow> \<exists>row. db' = addRow row db"
  using insertTupleRow_Inr by blast

lemma writeTupleTx_Inl:
  assumes "writeTupleTx pg now tid t tx = (Inl e, tx')"
  shows "db_sequence (tx_db tx') = db_sequence (tx_db tx)"
proof (cases "txExec (insertTupleRow pg now tid t (marshalTupleAttributes (Attributes t))) tx")
  case (Pair a tx1)
  show ?thesis
  proof (cases a)
    case (Inl e1)
    then have "tx_failed tx1 \<and> tx_db tx1 = tx_db tx" using Pair txExec_Inl by blast
    then show ?thesis using assms Pair Inl by (auto simp: writeTupleTx_def Let_def txExec_simps(1) split: if_splits)
  next
    case (Inr v)
    then obtain row where row: "tx_db tx1 = addRow row (tx_db tx)" using Pair insertTupleRow_tables by (fastforce simp: txExec_Inr)
    have "txExec (appendChangelogTx pg now tid (changeEntry ChangeOpInsert tid t)) tx1 = (Inl e, tx')"
      using assms Pair Inr by (simp add: writeTupleTx_def Let_def)
    then show ?thesis using txExec_Inl row by (fastforce simp: addRow_def)
  qed
qed

text \<open>What a transaction leaves, when its body returns and when it fails.\<close>

lemma inTx_Inr: "inTx body db = (Inr x, db') \<longleftrightarrow> (\<exists>tx. body \<lparr>tx_db = db, tx_failed = False\<rparr> = (Inr x, tx) \<and> \<not> tx_failed tx \<and> db' = tx_db tx)"
  by (auto simp: inTx_def split: prod.splits sum.splits if_splits)

lemma inTx_Inl:
  "inTx body db = (Inl e, db') \<longleftrightarrow> (\<exists>a tx. body \<lparr>tx_db = db, tx_failed = False\<rparr> = (a, tx) \<and> db' = db\<lparr>db_sequence := db_sequence (tx_db tx)\<rparr> \<and>
     (a = Inl e \<or> (\<exists>x. a = Inr x) \<and> tx_failed tx \<and> e = DatabaseError ''25P02''))"
  by (auto simp: inTx_def split: prod.splits sum.splits if_splits)

lemma pgExec_Inr: "stmt db = Inr (x, db') \<Longrightarrow> pgExec stmt db = (Inr x, db')"
  by (simp add: pgExec_def inTx_def txExec_def)

lemma pgExec_Inl: "stmt db = Inl code \<Longrightarrow> pgExec stmt db = (Inl (DatabaseError code), db)"
  by (simp add: pgExec_def inTx_def txExec_def)

section \<open>The invariant\<close>

definition databaseOk :: "pgEnv \<Rightarrow> database \<Rightarrow> bool" where
  "databaseOk pg db \<longleftrightarrow> distinct (map tn_id (db_tenants db)) \<and>
     (\<forall>r \<in> set (db_tenants db). pg_varchar pg 128 (tn_id r) = Some (tn_id r)) \<and>
     (\<forall>row \<in> set (db_tuples db). storedIn pg (rowIdentity row) = Some (rowIdentity row)) \<and>
     (\<forall>tid. distinct (map rowIdentity (activeRows tid db)) \<and> replayLog (tenantLog tid db) = rowIdentity ` set (activeRows tid db)) \<and>
     sorted_wrt (<) (map lg_sequence (db_changelog db)) \<and>
     (\<forall>r \<in> set (db_changelog db). 0 < lg_sequence r \<and> lg_sequence r \<le> db_sequence db) \<and> db_sequence db < 2 ^ 63"

text \<open>The calls of the interface on the database; a call that fails is a step too, since it may have used up sequence numbers.\<close>

fun pgRun :: "pgEnv \<Rightarrow> gotime \<Rightarrow> goContext \<Rightarrow> dataCall \<Rightarrow> database \<Rightarrow> (goError + unit) \<times> database" where
  "pgRun pg now ctx (CallWrite ts) db = pgWriteTuples pg now ctx ts db"
| "pgRun pg now ctx (CallDelete t) db = pgDeleteTuple pg now ctx t db"
| "pgRun pg now ctx (CallSetObject ty i attrs) db = pgSetObjectAttributes pg now ctx ty i attrs db"
| "pgRun pg now ctx (CallSetSubject ty i attrs) db = pgSetSubjectAttributes pg now ctx ty i attrs db"
| "pgRun pg now ctx CallPurge db = pgPurgeTenantData ctx db"

inductive pgStep :: "pgEnv \<Rightarrow> database \<Rightarrow> database \<Rightarrow> bool" for pg where
  createTenant: "pgCreateTenant pg now ten db = (res, db') \<Longrightarrow> pgStep pg db db'"
| updateTenant: "pgUpdateTenant pg now ten db = (res, db') \<Longrightarrow> pgStep pg db db'"
| data: "pgRun pg now ctx c db = (res, db') \<Longrightarrow> pgStep pg db db'"

inductive pgReachable :: "pgEnv \<Rightarrow> database \<Rightarrow> bool" for pg where
  fresh: "pgReachable pg emptyDatabase"
| step: "pgReachable pg db \<Longrightarrow> pgStep pg db db' \<Longrightarrow> pgReachable pg db'"

lemma replayLog_snoc: "replayLog (rows @ [r]) = replayLogRow r (replayLog rows)"
  by (simp add: replayLog_def)

lemma views_simps [simp]:
  "activeRows tid (addLog r db) = activeRows tid db" "tenantLog tid (addRow row db) = tenantLog tid db"
  "activeRows tid (addRow row db) = activeRows tid db @ (if activeRow tid row then [row] else [])"
  "tenantLog tid (addLog r db) = tenantLog tid db @ (if lg_tenant_id r = tid then [r] else [])"
  "activeRows tid (db\<lparr>db_sequence := n\<rparr>) = activeRows tid db" "tenantLog tid (db\<lparr>db_sequence := n\<rparr>) = tenantLog tid db"
  by (simp_all add: activeRows_def tenantLog_def addLog_def addRow_def)

lemma addLog_sel [simp]:
  "db_tenants (addLog r db) = db_tenants db" "db_tuples (addLog r db) = db_tuples db" "db_sequence (addLog r db) = db_sequence db + 1"
  "db_changelog (addLog r db) = db_changelog db @ [r]" "db_objAttrs (addLog r db) = db_objAttrs db" "db_subAttrs (addLog r db) = db_subAttrs db"
  "db_tenants (addRow row db) = db_tenants db" "db_tuples (addRow row db) = db_tuples db @ [row]" "db_sequence (addRow row db) = db_sequence db"
  "db_changelog (addRow row db) = db_changelog db" "db_objAttrs (addRow row db) = db_objAttrs db" "db_subAttrs (addRow row db) = db_subAttrs db"
  by (simp_all add: addLog_def addRow_def)

lemma databaseOk_sequence: "databaseOk pg db \<Longrightarrow> db_sequence db \<le> n \<Longrightarrow> n < 2 ^ 63 \<Longrightarrow> databaseOk pg (db\<lparr>db_sequence := n\<rparr>)"
  by (auto simp: databaseOk_def)

lemma databaseOk_insert:
  assumes "databaseOk pg db" "pt_deleted_at row = None" "storedIn pg (rowIdentity row) = Some (rowIdentity row)"
    "rowIdentity row \<notin> rowIdentity ` set (activeRows (pt_tenant_id row) db)" "lg_tenant_id r = pt_tenant_id row"
    "logIdentity r = rowIdentity row" "lg_operation r = ChangeOpInsert" "lg_sequence r = db_sequence db + 1" "db_sequence db + 1 < 2 ^ 63"
  shows "databaseOk pg (addLog r (addRow row db))"
  using assms by (auto simp: databaseOk_def activeRow_def replayLog_snoc replayLogRow_def sorted_wrt_append less_Suc_eq_le)


text \<open>The rows of one identity marked as deleted.\<close>

definition dropRows :: "gotime \<Rightarrow> str \<Rightarrow> identity \<Rightarrow> database \<Rightarrow> database" where
  "dropRows now tid i db =
     db\<lparr>db_tuples := map (\<lambda>row. if activeRow tid row \<and> rowIdentity row = i then row\<lparr>pt_deleted_at := Some now\<rparr> else row) (db_tuples db)\<rparr>"

lemma rowIdentity_mark [simp]: "rowIdentity (row\<lparr>pt_deleted_at := x\<rparr>) = rowIdentity row"
  by (simp add: rowIdentity_def)

lemma activeRow_mark [simp]: "activeRow tid (row\<lparr>pt_deleted_at := x\<rparr>) \<longleftrightarrow> pt_tenant_id row = tid \<and> x = None"
  by (simp add: activeRow_def)

lemma dropRows_sel [simp]:
  "db_tenants (dropRows now tid i db) = db_tenants db" "db_changelog (dropRows now tid i db) = db_changelog db"
  "db_sequence (dropRows now tid i db) = db_sequence db" "tenantLog ten (dropRows now tid i db) = tenantLog ten db"
  by (simp_all add: dropRows_def tenantLog_def)

lemma dropRows_active: "activeRows ten (dropRows now tid i db) = filter (\<lambda>row. \<not> (ten = tid \<and> rowIdentity row = i)) (activeRows ten db)"
proof -
  have "filter (activeRow ten) (map (\<lambda>row. if activeRow tid row \<and> rowIdentity row = i then row\<lparr>pt_deleted_at := Some now\<rparr> else row) rows) =
      filter (\<lambda>row. \<not> (ten = tid \<and> rowIdentity row = i)) (filter (activeRow ten) rows)" for rows
    by (induction rows) (auto simp: activeRow_def)
  then show ?thesis by (simp add: activeRows_def dropRows_def)
qed

lemma dropRows_identities: "map rowIdentity (db_tuples (dropRows now tid i db)) = map rowIdentity (db_tuples db)"
  by (simp add: dropRows_def comp_def if_distrib [of rowIdentity])

lemma markDeleted_eq:
  "markDeleted pg now tid t db = Inr (tupleIdentity t \<in> rowIdentity ` set (activeRows tid db), dropRows (pg_time pg now) tid (tupleIdentity t) db)"
  by (auto simp: markDeleted_def sameIdentity_iff dropRows_def tupleIdentity_def activeRows_def list_ex_iff image_iff)

lemma databaseOk_delete:
  assumes "databaseOk pg db" "lg_tenant_id r = tid" "logIdentity r = i" "lg_operation r = ChangeOpDelete" "lg_sequence r = db_sequence db + 1"
    "db_sequence db + 1 < 2 ^ 63"
  shows "databaseOk pg (addLog r (dropRows now tid i db))"
proof -
  have "\<forall>j \<in> set (map rowIdentity (db_tuples (dropRows now tid i db))). storedIn pg j = Some j"
    unfolding dropRows_identities using assms(1) by (simp add: databaseOk_def)
  moreover have "distinct (map rowIdentity (activeRows ten (dropRows now tid i db))) \<and>
      replayLog (tenantLog ten (addLog r (dropRows now tid i db))) = rowIdentity ` set (activeRows ten (dropRows now tid i db))" for ten
    using assms by (auto simp: databaseOk_def dropRows_active replayLog_snoc replayLogRow_def distinct_map_filter)
  ultimately show ?thesis using assms by (auto simp: databaseOk_def sorted_wrt_append less_Suc_eq_le)
qed

lemma pgTenantStatus_stored:
  assumes "databaseOk pg db" "pgTenantStatus tid db = Inr status"
  shows "pg_varchar pg 128 tid = Some tid \<and> list_ex (\<lambda>r. tn_id r = tid) (db_tenants db)"
proof -
  obtain r where "find (\<lambda>r. tn_id r = tid \<and> tn_deleted_at r = None) (db_tenants db) = Some r"
    using assms(2) by (auto simp: pgTenantStatus_def split: option.splits)
  then have "r \<in> set (db_tenants db)" "tn_id r = tid" by (auto simp: find_Some_iff)
  then show ?thesis using assms(1) by (auto simp: databaseOk_def list_ex_iff)
qed

lemma writable_stored:
  assumes "databaseOk pg db" "ensureTenantWritable tid db = Inr u"
  shows "pg_varchar pg 128 tid = Some tid" "list_ex (\<lambda>r. tn_id r = tid) (db_tenants db)"
  using pgTenantStatus_stored [OF assms(1)] assms(2) by (auto simp: ensureTenantWritable_def bindE_Inr)

context postgres
begin

lemma write_keeps:
  assumes "databaseOk pg (tx_db tx)" "writeTupleTx pg now tid t tx = (Inr u, tx')"
  shows "databaseOk pg (tx_db tx') \<and> \<not> tx_failed tx' \<and> db_sequence (tx_db tx') = db_sequence (tx_db tx) + 1"
proof -
  from writeTupleTx_Inr [OF assms(2)] obtain row r where "\<not> tx_failed tx" "tx' = tx\<lparr>tx_db := addLog r (addRow row (tx_db tx))\<rparr>"
    "pt_deleted_at row = None" "storedIn pg (tupleIdentity t) = Some (rowIdentity row)"
    "rowIdentity row \<notin> rowIdentity ` set (activeRows (pt_tenant_id row) (tx_db tx))" "lg_tenant_id r = pt_tenant_id row"
    "logIdentity r = rowIdentity row" "pg_varchar pg 8 ChangeOpInsert = Some (lg_operation r)"
    "lg_sequence r = db_sequence (tx_db tx) + 1" "db_sequence (tx_db tx) + 1 < 2 ^ 63" by blast
  then show ?thesis using databaseOk_insert [OF assms(1), of row r] stored_again constants_kept by simp
qed

lemma writes_keep:
  assumes "writeTuplesTx pg now tid ts tx = (res, tx')" "databaseOk pg (tx_db tx)" "\<not> tx_failed tx"
  shows "db_sequence (tx_db tx) \<le> db_sequence (tx_db tx') \<and> db_sequence (tx_db tx') < 2 ^ 63 \<and>
    (\<forall>u. res = Inr u \<longrightarrow> databaseOk pg (tx_db tx') \<and> \<not> tx_failed tx')"
  using assms
proof (induction ts arbitrary: tx)
  case Nil
  then show ?case by (auto simp: databaseOk_def)
next
  case (Cons t ts)
  obtain a tx1 where a: "writeTupleTx pg now tid t tx = (a, tx1)" by force
  show ?case
  proof (cases a)
    case (Inl e)
    then show ?thesis using Cons.prems a writeTupleTx_Inl [of pg now tid t tx e tx1] by (auto simp: databaseOk_def)
  next
    case (Inr u)
    note k = write_keeps [OF Cons.prems(2) a [unfolded Inr]]
    then show ?thesis using Cons.IH [of tx1] Cons.prems(1) a Inr by simp
  qed
qed

lemma delete_keeps:
  assumes "deleteTupleTx pg now tid t tx = (res, tx')" "databaseOk pg (tx_db tx)" "\<not> tx_failed tx" "pg_varchar pg 128 tid = Some tid"
  shows "db_sequence (tx_db tx) \<le> db_sequence (tx_db tx') \<and> db_sequence (tx_db tx') < 2 ^ 63 \<and> (\<forall>u. res = Inr u \<longrightarrow> databaseOk pg (tx_db tx'))"
proof -
  let ?i = "tupleIdentity t"
  let ?tx = "tx\<lparr>tx_db := dropRows (pg_time pg now) tid ?i (tx_db tx)\<rparr>"
  let ?log = "appendChangelogTx pg now tid (changeEntry ChangeOpDelete tid t)"
  have eq: "deleteTupleTx pg now tid t tx = (if ?i \<notin> rowIdentity ` set (activeRows tid (tx_db tx)) then (Inl ErrNotFound, ?tx) else txExec ?log ?tx)"
    using assms(3) by (simp add: deleteTupleTx_def txExec_simps(3) markDeleted_eq)
  show ?thesis
  proof (cases "?i \<in> rowIdentity ` set (activeRows tid (tx_db tx))")
    case True
    show ?thesis
    proof (cases "?log (tx_db ?tx)")
      case (Inr p)
      obtain u db' where p: "p = (u, db')" by (cases p)
      from appendChangelogTx_Inr [OF Inr [unfolded p]] obtain r where r: "db' = addLog r (tx_db ?tx)" "lg_sequence r = db_sequence (tx_db tx) + 1"
        "db_sequence (tx_db tx) + 1 < 2 ^ 63" "lg_tenant_id r = tid" "lg_operation r = ChangeOpDelete" "storedIn pg ?i = Some (logIdentity r)"
        using assms(4) constants_kept by auto
      have "storedIn pg ?i = Some ?i" using True assms(2) by (auto simp: databaseOk_def activeRows_def)
      then have "databaseOk pg db'" using databaseOk_delete [OF assms(2), of r tid ?i] r by simp
      then show ?thesis using assms(1,3) True Inr p r(1,3) by (auto simp: eq txExec_simps(3))
    qed (use assms True in \<open>auto simp: eq txExec_simps(2) databaseOk_def\<close>)
  qed (use assms in \<open>auto simp: eq databaseOk_def\<close>)
qed

end

lemma pgWriting_cases:
  assumes "pgWriting ctx db body = (res, db')"
  shows "(\<exists>e. res = Inl e \<and> db' = db) \<or> (\<exists>tid. forTenant ctx tid \<and> ensureTenantWritable tid db = Inr () \<and> body tid = (res, db'))"
  using assms by (auto simp: pgWriting_def bindE_Inr tenantIDFromCtx_Inr split: sum.splits)

lemma pgWriting_keeps:
  assumes "pgWriting ctx db body = (res, db')" "P db"
    "\<And>tid. body tid = (res, db') \<Longrightarrow> forTenant ctx tid \<Longrightarrow> ensureTenantWritable tid db = Inr () \<Longrightarrow> P db'"
  shows "P db'"
  using pgWriting_cases [OF assms(1)] assms(2,3) by blast

lemma pgWriting_tenant: "forTenant ctx tid \<Longrightarrow> ensureTenantWritable tid db = Inr () \<Longrightarrow> pgWriting ctx db body = body tid"
  by (simp add: pgWriting_def tenantIDFromCtx_Inr [THEN iffD2])

lemma pgReading_tenant: "forTenant ctx tid \<Longrightarrow> ensureTenantReadable tid db = Inr () \<Longrightarrow> pgReading ctx db body = body tid"
  by (simp add: pgReading_def tenantIDFromCtx_Inr [THEN iffD2])

lemma attrs_tables:
  "pgExec (\<lambda>d. case f d of Inl c \<Rightarrow> Inl c | Inr rows \<Rightarrow> Inr ((), d\<lparr>db_objAttrs := rows\<rparr>)) db = (res, db') \<Longrightarrow> \<exists>rows. db' = db\<lparr>db_objAttrs := rows\<rparr>"
  "pgExec (\<lambda>d. case f d of Inl c \<Rightarrow> Inl c | Inr rows \<Rightarrow> Inr ((), d\<lparr>db_subAttrs := rows\<rparr>)) db = (res, db') \<Longrightarrow> \<exists>rows. db' = db\<lparr>db_subAttrs := rows\<rparr>"
  by (cases "f db"; force simp: pgExec_def inTx_def txExec_def intro: exI [of _ "db_objAttrs db"] exI [of _ "db_subAttrs db"])+

text \<open>A tenant's rows removed from the four tables.\<close>

definition purged :: "str \<Rightarrow> database \<Rightarrow> database" where
  "purged tid db = db\<lparr>db_tuples := filter (\<lambda>r. pt_tenant_id r \<noteq> tid) (db_tuples db),
     db_objAttrs := filter (\<lambda>r. ar_tenant_id r \<noteq> tid) (db_objAttrs db), db_subAttrs := filter (\<lambda>r. ar_tenant_id r \<noteq> tid) (db_subAttrs db),
     db_changelog := filter (\<lambda>r. lg_tenant_id r \<noteq> tid) (db_changelog db)\<rparr>"

lemma pgPurge_eq: "pgPurgeTenantData ctx db = pgWriting ctx db (\<lambda>tid. (Inr (), purged tid db))"
  by (simp add: pgPurgeTenantData_def pgExec_Inr purged_def)

lemma purged_views:
  "activeRows ten (purged tid db) = (if ten = tid then [] else activeRows ten db)"
  "tenantLog ten (purged tid db) = (if ten = tid then [] else tenantLog ten db)"
  unfolding activeRows_def tenantLog_def purged_def by (auto simp: activeRow_def intro!: filter_cong)

lemma databaseOk_purged: "databaseOk pg db \<Longrightarrow> databaseOk pg (purged tid db)"
  unfolding databaseOk_def purged_views by (auto simp: purged_def replayLog_def sorted_wrt_map sorted_wrt_filter)

lemma map_if_ids: "(\<And>r. f (g r) = f r) \<Longrightarrow> map f (map (\<lambda>r. if P r then g r else r) xs) = map f xs"
  by (induction xs) simp_all

lemma updateTenantRow_Inr:
  assumes "updateTenantRow pg now t db = Inr (n, db')"
  shows "\<exists>ts. db' = db\<lparr>db_tenants := ts\<rparr> \<and> map tn_id ts = map tn_id (db_tenants db) \<and>
    map (\<lambda>r. (tn_id r, tn_deleted_at r, tn_parent_tenant_id r)) ts = map (\<lambda>r. (tn_id r, tn_deleted_at r, tn_parent_tenant_id r)) (db_tenants db)"
proof (cases "length (filter (\<lambda>r. tn_id r = TenantIdent t) (db_tenants db)) = 0")
  case True
  then show ?thesis using assms by (intro exI [of _ "db_tenants db"]) (auto simp: updateTenantRow_def Let_def)
next
  case False
  then show ?thesis
    using assms unfolding updateTenantRow_def Let_def if_not_P [OF False] varchar_Inr varcharNull_Inr
    by (elim exE conjE) (auto simp: map_if_ids)
qed

lemma insertTenant_Inr:
  assumes "insertTenant pg now t db = Inr (u, db')"
  shows "\<exists>r. db' = db\<lparr>db_tenants := db_tenants db @ [r]\<rparr> \<and> pg_varchar pg 128 (TenantIdent t) = Some (tn_id r) \<and> tn_id r \<notin> tn_id ` set (db_tenants db) \<and>
    tn_deleted_at r = None \<and> nullText pg 128 (ParentTenantID t) = Some (tn_parent_tenant_id r)"
  using assms unfolding insertTenant_def varchar_Inr varcharNull_Inr
  by (elim exE conjE, intro exI [of _ "last (db_tenants db')"]) (auto simp: list_ex_iff image_iff split: if_splits)

context postgres
begin

lemma tenants_keep:
  "databaseOk pg db \<Longrightarrow> pgCreateTenant pg now ten db = (res, db') \<Longrightarrow> databaseOk pg db'"
  "databaseOk pg db \<Longrightarrow> pgUpdateTenant pg now ten db = (res, db') \<Longrightarrow> databaseOk pg db'"
proof -
  assume ok: "databaseOk pg db" and r: "pgCreateTenant pg now ten db = (res, db')"
  show "databaseOk pg db'"
  proof (cases "insertTenant pg now ten db")
    case (Inr p)
    obtain u d where "p = (u, d)" by (cases p)
    then have p: "insertTenant pg now ten db = Inr (u, d)" using Inr by simp
    then have "db' = d" using r by (simp add: pgCreateTenant_def pgExec_Inr)
    then show ?thesis using insertTenant_Inr [OF p] ok kept_again by (auto simp: databaseOk_def activeRows_def tenantLog_def)
  qed (use ok r in \<open>simp add: pgCreateTenant_def pgExec_Inl\<close>)
next
  assume ok: "databaseOk pg db" and r: "pgUpdateTenant pg now ten db = (res, db')"
  show "databaseOk pg db'"
  proof (cases "updateTenantRow pg now ten db")
    case (Inr p)
    obtain n d where "p = (n, d)" by (cases p)
    then have p: "updateTenantRow pg now ten db = Inr (n, d)" using Inr by simp
    then have "db' = d" using r by (auto simp: pgUpdateTenant_def pgExec_Inr split: if_splits)
    then obtain ts where ts: "db' = db\<lparr>db_tenants := ts\<rparr>" "map tn_id ts = map tn_id (db_tenants db)" using updateTenantRow_Inr [OF p] by blast
    have "\<forall>i \<in> set (map tn_id ts). pg_varchar pg 128 i = Some i" unfolding ts(2) using ok by (simp add: databaseOk_def)
    then have "\<forall>r \<in> set ts. pg_varchar pg 128 (tn_id r) = Some (tn_id r)" by simp
    then show ?thesis using ok ts by (simp add: databaseOk_def activeRows_def tenantLog_def)
  qed (use ok r in \<open>simp add: pgUpdateTenant_def pgExec_Inl\<close>)
qed

lemma inTx_keeps:
  assumes "databaseOk pg db" "inTx body db = (res, db')"
    "\<And>a tx. body \<lparr>tx_db = db, tx_failed = False\<rparr> = (a, tx) \<Longrightarrow> db_sequence db \<le> db_sequence (tx_db tx) \<and> db_sequence (tx_db tx) < 2 ^ 63 \<and>
       (\<forall>u. a = Inr u \<longrightarrow> databaseOk pg (tx_db tx))"
  shows "databaseOk pg db'"
proof (cases res)
  case (Inl e)
  then show ?thesis using assms(2,3) databaseOk_sequence [OF assms(1)] by (auto simp: inTx_Inl)
next
  case (Inr x)
  then show ?thesis using assms(2,3) by (auto simp: inTx_Inr)
qed

lemma run_keeps:
  assumes ok: "databaseOk pg db" and run: "pgRun pg now ctx c db = (res, db')"
  shows "databaseOk pg db'"
proof (cases c)
  case (CallWrite ts)
  show ?thesis
    by (rule pgWriting_keeps [where P = "databaseOk pg", OF run [unfolded CallWrite pgRun.simps pgWriteTuples_def] ok], erule inTx_keeps [OF ok])
       (use ok writes_keep in fastforce)
next
  case (CallDelete t)
  show ?thesis
    by (rule pgWriting_keeps [where P = "databaseOk pg", OF run [unfolded CallDelete pgRun.simps pgDeleteTuple_def] ok], erule inTx_keeps [OF ok])
       (use ok delete_keeps writable_stored(1) in fastforce)
next
  case (CallSetObject ty i attrs)
  show ?thesis
    by (rule pgWriting_keeps [where P = "databaseOk pg", OF run [unfolded CallSetObject pgRun.simps pgSetObjectAttributes_def] ok])
       (drule attrs_tables(1), use ok in \<open>auto simp: databaseOk_def activeRows_def tenantLog_def\<close>)
next
  case (CallSetSubject ty i attrs)
  show ?thesis
    by (rule pgWriting_keeps [where P = "databaseOk pg", OF run [unfolded CallSetSubject pgRun.simps pgSetSubjectAttributes_def] ok])
       (drule attrs_tables(2), use ok in \<open>auto simp: databaseOk_def activeRows_def tenantLog_def\<close>)
next
  case CallPurge
  show ?thesis
    by (rule pgWriting_keeps [where P = "databaseOk pg", OF run [unfolded CallPurge pgRun.simps pgPurge_eq] ok]) (use ok in \<open>auto intro: databaseOk_purged\<close>)
qed

lemma reachable_database: "pgReachable pg db \<Longrightarrow> databaseOk pg db"
proof (induction rule: pgReachable.induct)
  case fresh
  show ?case by (simp add: databaseOk_def emptyDatabase_def activeRows_def tenantLog_def replayLog_def)
next
  case (step db db')
  from step.hyps(2) step.IH show ?case by (cases rule: pgStep.cases) (auto intro: tenants_keep run_keeps)
qed

end

section \<open>Writing and deleting, as operations on a map\<close>

text \<open>The columns take the texts of a tuple as they are, and \<^verbatim>\<open>jsonb\<close> its attributes.\<close>

definition keepsNull :: "pgEnv \<Rightarrow> nat \<Rightarrow> str \<Rightarrow> bool" where
  "keepsNull pg n s \<longleftrightarrow> s = [] \<or> pg_varchar pg n s = Some s"

definition fits :: "pgEnv \<Rightarrow> RelationTuple \<Rightarrow> bool" where
  "fits pg t \<longleftrightarrow> storedIn pg (tupleIdentity t) = Some (tupleIdentity t) \<and> keepsNull pg 128 (SubjectTenantID t) \<and> keepsNull pg 64 (SourceSystem t) \<and>
     keepsNull pg 512 (ExternalID t) \<and> isl (pg_jsonb pg (marshalTupleAttributes (Attributes t))) = False"

definition storedTuple :: "pgEnv \<Rightarrow> gotime \<Rightarrow> str \<Rightarrow> RelationTuple \<Rightarrow> RelationTuple" where
  "storedTuple pg now tid t = t\<lparr>TupleTenantID := tid, Attributes := projr (pg_jsonb pg (marshalTupleAttributes (Attributes t))),
     ExpiresAt := map_option (pg_time pg) (ExpiresAt t), CreatedAt := pg_time pg now, UpdatedAt := pg_time pg now\<rparr>"

definition nullable :: "str \<Rightarrow> str option" where
  "nullable s = (if s = [] then None else Some s)"

definition newRow :: "pgEnv \<Rightarrow> gotime \<Rightarrow> str \<Rightarrow> RelationTuple \<Rightarrow> tupleRow" where
  "newRow pg now tid t = \<lparr>pt_tenant_id = tid, pt_object_type = ObjectType t, pt_object_id = ObjectID t, pt_relation = Relation t,
     pt_subject_type = SubjectType t, pt_subject_id = SubjectID t, pt_subject_relation = nullable (SubjectRelation t),
     pt_subject_tenant_id = nullable (SubjectTenantID t), pt_source_system = nullable (SourceSystem t), pt_external_id = nullable (ExternalID t),
     pt_attributes = projr (pg_jsonb pg (marshalTupleAttributes (Attributes t))), pt_expires_at = map_option (pg_time pg) (ExpiresAt t),
     pt_created_at = pg_time pg now, pt_updated_at = pg_time pg now, pt_deleted_at = None\<rparr>"

lemma coalesce_nullable [simp]: "coalesce (nullable s) = s"
  by (simp add: nullable_def)

lemma newRow_facts [simp]:
  "rowIdentity (newRow pg now tid t) = tupleIdentity t" "activeRow ten (newRow pg now tid t) \<longleftrightarrow> ten = tid"
  "readRow (newRow pg now tid t) = storedTuple pg now tid t"
  by (auto simp: newRow_def rowIdentity_def tupleIdentity_def activeRow_def readRow_def storedTuple_def)

lemma varcharNull_kept: "keepsNull pg n s \<Longrightarrow> varcharNull pg n s f = f (nullable s)"
  by (auto simp: keepsNull_def varcharNull_def nullable_def varchar_def)

lemma stored_columns:
  assumes "storedIn pg (tupleIdentity t) = Some (tupleIdentity t)"
  shows "pg_varchar pg 128 (ObjectType t) = Some (ObjectType t)" "pg_varchar pg 256 (ObjectID t) = Some (ObjectID t)"
    "pg_varchar pg 128 (Relation t) = Some (Relation t)" "pg_varchar pg 128 (SubjectType t) = Some (SubjectType t)"
    "pg_varchar pg 256 (SubjectID t) = Some (SubjectID t)" "keepsNull pg 128 (SubjectRelation t)"
  using assms by (auto simp: storedIn.simps tupleIdentity_def nullText_def keepsNull_def split: option.splits if_splits)

lemma insertTupleRow_fits:
  assumes "fits pg t" "pg_varchar pg 128 tid = Some tid" "list_ex (\<lambda>r. tn_id r = tid) (db_tenants db)"
  shows "insertTupleRow pg now tid t (marshalTupleAttributes (Attributes t)) db =
    (if tupleIdentity t \<in> rowIdentity ` set (activeRows tid db) then Inl ''23505'' else Inr ((), addRow (newRow pg now tid t) db))"
proof -
  obtain v where v: "pg_jsonb pg (marshalTupleAttributes (Attributes t)) = Inr v" using assms(1) by (cases "pg_jsonb pg (marshalTupleAttributes (Attributes t))") (auto simp: fits_def)
  have f: "storedIn pg (tupleIdentity t) = Some (tupleIdentity t)" "keepsNull pg 128 (SubjectTenantID t)" "keepsNull pg 64 (SourceSystem t)"
    "keepsNull pg 512 (ExternalID t)" using assms(1) by (simp_all add: fits_def)
  have "list_ex (sameIdentity tid (ObjectType t) (ObjectID t) (Relation t) (SubjectType t) (SubjectID t) (SubjectRelation t)) (db_tuples db) \<longleftrightarrow>
      tupleIdentity t \<in> rowIdentity ` set (activeRows tid db)"
    by (auto simp: list_ex_iff sameIdentity_iff tupleIdentity_def activeRows_def image_iff)
  then show ?thesis
    unfolding insertTupleRow_def
    by (simp add: assms(2,3) f stored_columns [OF f(1)] varchar_kept varcharNull_kept v addRow_def newRow_def)
qed

lemma dom_rowMap: "dom (rowMap tid db) = rowIdentity ` set (activeRows tid db)"
  by (simp add: rowMap_def dom_map_of_conv_image_fst image_image)

lemma rowMap_addRow:
  assumes "rowIdentity row \<notin> dom (rowMap tid db)" "activeRow tid row"
  shows "rowMap tid (addRow row db) = (rowMap tid db)(rowIdentity row \<mapsto> readRow row)"
proof -
  have "rowMap tid (addRow row db) = [rowIdentity row \<mapsto> readRow row] ++ rowMap tid db" using assms(2) by (simp add: rowMap_def map_of_append)
  then show ?thesis using assms(1) by (auto simp: map_add_def fun_eq_iff split: option.splits)
qed

lemma rowMap_addLog [simp]: "rowMap tid (addLog r db) = rowMap tid db"
  by (simp add: rowMap_def)

lemma rowMap_drop: "rowMap tid (dropRows now tid i db) = (rowMap tid db)(i := None)"
proof -
  have "map_of (map (\<lambda>row. (rowIdentity row, readRow row)) (filter (\<lambda>row. rowIdentity row \<noteq> i) rows)) =
      (map_of (map (\<lambda>row. (rowIdentity row, readRow row)) rows))(i := None)" for rows
    by (induction rows) (auto simp: fun_eq_iff)
  then show ?thesis by (simp add: rowMap_def dropRows_active)
qed

text \<open>The abstract write, and the log it leaves.\<close>

definition putRow :: "pgEnv \<Rightarrow> gotime \<Rightarrow> str \<Rightarrow> RelationTuple \<Rightarrow> (identity \<rightharpoonup> RelationTuple) \<Rightarrow> (identity \<rightharpoonup> RelationTuple)" where
  "putRow pg now tid t m = m(tupleIdentity t \<mapsto> storedTuple pg now tid t)"

definition freshFor :: "RelationTuple list \<Rightarrow> (identity \<rightharpoonup> RelationTuple) \<Rightarrow> bool" where
  "freshFor ts m \<longleftrightarrow> distinct (map tupleIdentity ts) \<and> tupleIdentity ` set ts \<inter> dom m = {}"

definition logged :: "logRow list \<Rightarrow> (str \<times> identity) list" where
  "logged rows = map (\<lambda>r. (lg_operation r, logIdentity r)) rows"

lemma freshFor_Cons: "freshFor (t # ts) m \<longleftrightarrow> tupleIdentity t \<notin> dom m \<and> freshFor ts (putRow pg now tid t m)"
  by (auto simp: freshFor_def putRow_def)

context postgres
begin

lemma append_fits:
  assumes "storedIn pg (tupleIdentity t) = Some (tupleIdentity t)" "pg_varchar pg 128 tid = Some tid" "list_ex (\<lambda>r. tn_id r = tid) (db_tenants db)"
    "db_sequence db + 1 < 2 ^ 63" "oper = ChangeOpInsert \<or> oper = ChangeOpDelete"
  shows "\<exists>r. appendChangelogTx pg now tid (changeEntry oper tid t) db = Inr ((), addLog r db) \<and> lg_tenant_id r = tid \<and> lg_operation r = oper \<and>
    logIdentity r = tupleIdentity t"
proof -
  obtain v where v: "pg_jsonb pg None = Inr v" using null_json by blast
  have k: "pg_varchar pg 8 oper = Some oper" using assms(5) constants_kept by auto
  have "appendChangelogTx pg now tid (changeEntry oper tid t) db = Inr ((), addLog \<lparr>lg_sequence = db_sequence db + 1, lg_tenant_id = tid,
      lg_operation = oper, lg_object_type = ObjectType t, lg_object_id = ObjectID t, lg_relation = Relation t, lg_subject_type = SubjectType t,
      lg_subject_id = SubjectID t, lg_subject_relation = nullable (SubjectRelation t), lg_actor = [], lg_source = js ''api'', lg_metadata = v,
      lg_created_at = pg_time pg now\<rparr> db)"
    unfolding appendChangelogTx_def Let_def
    using assms(3,4) by (simp add: changeEntry_def assms(2) k constants_kept stored_columns [OF assms(1)] varchar_kept varcharNull_kept v addLog_def)
  then show ?thesis by (auto simp: logIdentity_def tupleIdentity_def)
qed

lemma write_taken:
  assumes "fits pg t" "pg_varchar pg 128 tid = Some tid" "list_ex (\<lambda>r. tn_id r = tid) (db_tenants (tx_db tx))" "\<not> tx_failed tx"
    "tupleIdentity t \<in> dom (rowMap tid (tx_db tx))"
  shows "writeTupleTx pg now tid t tx = (Inl (DatabaseError ''25P02''), tx\<lparr>tx_failed := True\<rparr>)"
  using assms(4,5) insertTupleRow_fits [OF assms(1-3), of now, folded dom_rowMap]
  by (simp add: writeTupleTx_def Let_def txExec_simps isUniqueViolation_def)

lemma write_fresh:
  assumes "fits pg t" "pg_varchar pg 128 tid = Some tid" "list_ex (\<lambda>r. tn_id r = tid) (db_tenants (tx_db tx))" "\<not> tx_failed tx"
    "tupleIdentity t \<notin> dom (rowMap tid (tx_db tx))" "db_sequence (tx_db tx) + 1 < 2 ^ 63"
  shows "\<exists>r. writeTupleTx pg now tid t tx = (Inr (), tx\<lparr>tx_db := addLog r (addRow (newRow pg now tid t) (tx_db tx))\<rparr>) \<and> lg_tenant_id r = tid \<and>
    lg_operation r = ChangeOpInsert \<and> logIdentity r = tupleIdentity t"
proof -
  let ?db = "addRow (newRow pg now tid t) (tx_db tx)"
  obtain r where "appendChangelogTx pg now tid (changeEntry ChangeOpInsert tid t) ?db = Inr ((), addLog r ?db)" "lg_tenant_id r = tid"
    "lg_operation r = ChangeOpInsert" "logIdentity r = tupleIdentity t"
    using append_fits [of t tid ?db ChangeOpInsert now] assms by (auto simp: fits_def)
  then show ?thesis
    using assms(4,5) insertTupleRow_fits [OF assms(1-3), of now, folded dom_rowMap]
    by (intro exI [of _ r]) (simp add: writeTupleTx_def Let_def txExec_simps)
qed

lemma writes_fit:
  assumes "\<forall>t \<in> set ts. fits pg t" "pg_varchar pg 128 tid = Some tid" "list_ex (\<lambda>r. tn_id r = tid) (db_tenants (tx_db tx))"
    "db_sequence (tx_db tx) + length ts < 2 ^ 63" "\<not> tx_failed tx"
  shows "case writeTuplesTx pg now tid ts tx of
      (Inr _, tx') \<Rightarrow> freshFor ts (rowMap tid (tx_db tx)) \<and> \<not> tx_failed tx' \<and>
        rowMap tid (tx_db tx') = fold (putRow pg now tid) ts (rowMap tid (tx_db tx)) \<and>
        logged (tenantLog tid (tx_db tx')) = logged (tenantLog tid (tx_db tx)) @ map (\<lambda>t. (ChangeOpInsert, tupleIdentity t)) ts
    | (Inl e, tx') \<Rightarrow> \<not> freshFor ts (rowMap tid (tx_db tx)) \<and> e = DatabaseError ''25P02''"
  using assms
proof (induction ts arbitrary: tx)
  case Nil
  then show ?case by (simp add: freshFor_def)
next
  case (Cons t ts)
  have seq: "db_sequence (tx_db tx) + 1 < 2 ^ 63" "fits pg t" using Cons.prems by simp_all
  show ?case
  proof (cases "tupleIdentity t \<in> dom (rowMap tid (tx_db tx))")
    case True
    then show ?thesis using write_taken [OF seq(2) Cons.prems(2,3,5)] by (auto simp: freshFor_def)
  next
    case False
    let ?db = "addRow (newRow pg now tid t) (tx_db tx)"
    obtain r where r: "writeTupleTx pg now tid t tx = (Inr (), tx\<lparr>tx_db := addLog r ?db\<rparr>)" "lg_tenant_id r = tid" "lg_operation r = ChangeOpInsert"
      "logIdentity r = tupleIdentity t" using write_fresh [OF seq(2) Cons.prems(2,3,5) False seq(1)] by blast
    have m: "rowMap tid ?db = putRow pg now tid t (rowMap tid (tx_db tx))" using False by (simp add: rowMap_addRow putRow_def)
    have "logged (tenantLog tid (addLog r ?db)) = logged (tenantLog tid (tx_db tx)) @ [(ChangeOpInsert, tupleIdentity t)]"
      using r by (simp add: logged_def)
    then show ?thesis
      using Cons.IH [of "tx\<lparr>tx_db := addLog r ?db\<rparr>"] Cons.prems r(1) False
      by (simp add: m freshFor_Cons [of t ts _ pg now tid] split: prod.splits sum.splits)
  qed
qed

end

section \<open>A small database\<close>

text \<open>The tenant \<^verbatim>\<open>acme\<close> of the memory store's examples, created on PostgreSQL, and its first tuple.\<close>

definition acmeDatabase :: database where
  "acmeDatabase = snd (pgCreateTenant standardPg 1000 acme emptyDatabase)"

lemma acmeDatabase_eq:
  "acmeDatabase = emptyDatabase\<lparr>db_tenants := [\<lparr>tn_id = js ''acme'', tn_display_name = DisplayName acme, tn_parent_tenant_id = None, tn_status = TenantActive,
     tn_schema_mode = SchemaMode acme, tn_shared_schema_ref = None, tn_config = Config acme, tn_created_at = 1000, tn_updated_at = 1000,
     tn_deleted_at = None\<rparr>]\<rparr>"
  by code_simp

lemma acmeDatabase_reachable: "pgReachable standardPg acmeDatabase"
  by (rule pgReachable.step [OF pgReachable.fresh pgStep.createTenant [of standardPg 1000 acme emptyDatabase "fst (pgCreateTenant standardPg 1000 acme emptyDatabase)"]])
     (simp add: acmeDatabase_def)

lemma acmeDatabase_facts: "forTenant acmeContext (js ''acme'')" "ensureTenantWritable (js ''acme'') acmeDatabase = Inr ()"
  "ensureTenantReadable (js ''acme'') acmeDatabase = Inr ()" "db_tuples acmeDatabase = []" "rowMap (js ''acme'') acmeDatabase = Map.empty"
  "db_sequence acmeDatabase = 0"
proof -
  have "tn_status (hd (db_tenants acmeDatabase)) = TenantActive" by (simp add: acmeDatabase_eq)
  then show "ensureTenantWritable (js ''acme'') acmeDatabase = Inr ()" "ensureTenantReadable (js ''acme'') acmeDatabase = Inr ()"
    by (simp_all add: acmeDatabase_eq ensureTenantWritable_def ensureTenantReadable_def pgTenantStatus_def emptyDatabase_def)
qed (use acme_tenant in \<open>simp_all add: acmeDatabase_eq emptyDatabase_def rowMap_def activeRows_def\<close>)

definition aliceViews :: RelationTuple where
  "aliceViews = plainTuple ''document'' ''d1'' ''viewer'' ''user'' ''alice'' ''''"

lemma alice_fits: "fits standardPg aliceViews"
  by code_simp

definition aliceDatabase :: database where
  "aliceDatabase = snd (pgWriteTuples standardPg 5000 acmeContext [aliceViews] acmeDatabase)"

lemma alice_written:
  "\<exists>r. aliceDatabase = addLog r (addRow (newRow standardPg 5000 (js ''acme'') aliceViews) acmeDatabase)"
  "pgWriteTuples standardPg 5000 acmeContext [aliceViews] acmeDatabase = (Inr (), aliceDatabase)"
proof -
  obtain r where "writeTupleTx standardPg 5000 (js ''acme'') aliceViews \<lparr>tx_db = acmeDatabase, tx_failed = False\<rparr> =
      (Inr (), \<lparr>tx_db = addLog r (addRow (newRow standardPg 5000 (js ''acme'') aliceViews) acmeDatabase), tx_failed = False\<rparr>)"
    using std.write_fresh [OF alice_fits, where tid = "js ''acme''" and tx = "\<lparr>tx_db = acmeDatabase, tx_failed = False\<rparr>" and now = 5000]
      writable_stored [OF std.reachable_database [OF acmeDatabase_reachable] acmeDatabase_facts(2)] by (auto simp: acmeDatabase_facts)
  then have "pgWriteTuples standardPg 5000 acmeContext [aliceViews] acmeDatabase =
      (Inr (), addLog r (addRow (newRow standardPg 5000 (js ''acme'') aliceViews) acmeDatabase))"
    by (simp add: pgWriteTuples_def pgWriting_tenant [OF acmeDatabase_facts(1,2)] inTx_def)
  then show "\<exists>r. aliceDatabase = addLog r (addRow (newRow standardPg 5000 (js ''acme'') aliceViews) acmeDatabase)"
    "pgWriteTuples standardPg 5000 acmeContext [aliceViews] acmeDatabase = (Inr (), aliceDatabase)" by (auto simp: aliceDatabase_def)
qed

lemma aliceDatabase_facts: "forTenant acmeContext (js ''acme'')" "ensureTenantWritable (js ''acme'') aliceDatabase = Inr ()"
  "db_sequence aliceDatabase = 1" "db_tenants aliceDatabase = db_tenants acmeDatabase"
  "db_tuples aliceDatabase = [newRow standardPg 5000 (js ''acme'') aliceViews]"
  "rowMap (js ''acme'') aliceDatabase = [tupleIdentity aliceViews \<mapsto> storedTuple standardPg 5000 (js ''acme'') aliceViews]"
proof -
  obtain r where db: "aliceDatabase = addLog r (addRow (newRow standardPg 5000 (js ''acme'') aliceViews) acmeDatabase)"
    using alice_written(1) by blast
  show "db_sequence aliceDatabase = 1" and ten: "db_tenants aliceDatabase = db_tenants acmeDatabase"
    and "db_tuples aliceDatabase = [newRow standardPg 5000 (js ''acme'') aliceViews]" unfolding db by (simp_all add: acmeDatabase_facts)
  show "ensureTenantWritable (js ''acme'') aliceDatabase = Inr ()"
    using acmeDatabase_facts(2) by (simp add: ensureTenantWritable_def pgTenantStatus_def ten)
  show "rowMap (js ''acme'') aliceDatabase = [tupleIdentity aliceViews \<mapsto> storedTuple standardPg 5000 (js ''acme'') aliceViews]"
    unfolding db by (simp add: rowMap_addRow acmeDatabase_facts)
qed (rule acmeDatabase_facts(1))

lemma aliceDatabase_reachable: "pgReachable standardPg aliceDatabase"
  by (rule pgReachable.step [OF acmeDatabase_reachable pgStep.data [of standardPg 5000 acmeContext "CallWrite [aliceViews]" acmeDatabase
        "fst (pgWriteTuples standardPg 5000 acmeContext [aliceViews] acmeDatabase)"]]) (simp add: aliceDatabase_def)

section \<open>Properties\<close>

text \<open>
  Claim C18. The invariant of the database, in every state it can reach by calls that succeed or fail: the active rows of a tenant have
  distinct identities, the numbers of the changelog increase strictly up to the sequence, which stays below $2^{63}$, and replaying a
  tenant's log gives exactly the identities of its active rows.
\<close>

theorem pg_invariant:
  assumes "postgres pg" "pgReachable pg db"
  shows "distinct (map rowIdentity (activeRows tid db)) \<and> sorted_wrt (<) (map lg_sequence (db_changelog db)) \<and>
    (\<forall>r \<in> set (db_changelog db). lg_sequence r \<le> db_sequence db) \<and> db_sequence db < 2 ^ 63 \<and>
    replayLog (tenantLog tid db) = rowIdentity ` set (activeRows tid db)"
  using postgres.reachable_database [OF assms] by (simp add: databaseOk_def)

theorem pg_invariant_witness: "replayLog (tenantLog (js ''acme'') acmeDatabase) = rowIdentity ` set (activeRows (js ''acme'') acmeDatabase)"
  using pg_invariant [OF std.postgres_axioms acmeDatabase_reachable, of "js ''acme''"] by blast

text \<open>
  Claim C14. A write of tuples that the columns take refines insertion into the map of the tenant's active rows. It succeeds exactly when the
  identities are distinct and none of them is taken, and then puts exactly these tuples and logs one insertion for each, in order;
  otherwise it fails with the error of an aborted transaction and the tables are as before.
\<close>

theorem pg_write_refines:
  assumes "postgres pg" "pgReachable pg db" "forTenant ctx tid" "ensureTenantWritable tid db = Inr ()" "\<forall>t \<in> set ts. fits pg t"
    "db_sequence db + length ts < 2 ^ 63"
  shows "case pgWriteTuples pg now ctx ts db of
      (Inr _, db') \<Rightarrow> freshFor ts (rowMap tid db) \<and> rowMap tid db' = fold (putRow pg now tid) ts (rowMap tid db) \<and>
        logged (tenantLog tid db') = logged (tenantLog tid db) @ map (\<lambda>t. (ChangeOpInsert, tupleIdentity t)) ts
    | (Inl e, db') \<Rightarrow> \<not> freshFor ts (rowMap tid db) \<and> e = DatabaseError ''25P02'' \<and> db' = db\<lparr>db_sequence := db_sequence db'\<rparr>"
proof -
  note ok = postgres.reachable_database [OF assms(1,2)]
  show ?thesis
    using postgres.writes_fit [OF assms(1,5), where tx = "\<lparr>tx_db = db, tx_failed = False\<rparr>" and tid = tid and now = now]
      writable_stored [OF ok assms(4)] assms(6)
    by (simp add: pgWriteTuples_def pgWriting_tenant [OF assms(3,4)] inTx_def split: prod.splits sum.splits)
qed

theorem pg_write_refines_witness:
  "\<exists>db'. pgWriteTuples standardPg 5000 acmeContext [aliceViews] acmeDatabase = (Inr (), db') \<and>
     rowMap (js ''acme'') db' = [tupleIdentity aliceViews \<mapsto> storedTuple standardPg 5000 (js ''acme'') aliceViews]"
proof -
  have "freshFor [aliceViews] (rowMap (js ''acme'') acmeDatabase)" by (simp add: freshFor_def acmeDatabase_facts)
  then show ?thesis
    using pg_write_refines [OF std.postgres_axioms acmeDatabase_reachable acmeDatabase_facts(1,2), of "[aliceViews]" 5000]
    by (auto simp: alice_fits acmeDatabase_facts putRow_def split: prod.splits sum.splits)
qed

text \<open>
  A deletion refines removal from the map: it succeeds exactly when the identity is among the active rows, expired or not, and then
  removes exactly it and logs one deletion; otherwise it fails with \<^verbatim>\<open>ErrNotFound\<close> and nothing changes.
\<close>

theorem pg_delete_refines:
  assumes "postgres pg" "pgReachable pg db" "forTenant ctx tid" "ensureTenantWritable tid db = Inr ()" "db_sequence db + 1 < 2 ^ 63"
  shows "case pgDeleteTuple pg now ctx t db of
      (Inr _, db') \<Rightarrow> tupleIdentity t \<in> dom (rowMap tid db) \<and> rowMap tid db' = (rowMap tid db)(tupleIdentity t := None) \<and>
        logged (tenantLog tid db') = logged (tenantLog tid db) @ [(ChangeOpDelete, tupleIdentity t)]
    | (Inl e, db') \<Rightarrow> tupleIdentity t \<notin> dom (rowMap tid db) \<and> e = ErrNotFound \<and> db' = db"
proof -
  note ok = postgres.reachable_database [OF assms(1,2)]
  let ?db = "dropRows (pg_time pg now) tid (tupleIdentity t) db"
  show ?thesis
  proof (cases "tupleIdentity t \<in> rowIdentity ` set (activeRows tid db)")
    case True
    then have "storedIn pg (tupleIdentity t) = Some (tupleIdentity t)" using ok by (auto simp: databaseOk_def activeRows_def)
    then obtain r where "appendChangelogTx pg now tid (changeEntry ChangeOpDelete tid t) ?db = Inr ((), addLog r ?db)" "lg_tenant_id r = tid"
      "lg_operation r = ChangeOpDelete" "logIdentity r = tupleIdentity t"
      using postgres.append_fits [OF assms(1), of t tid ?db ChangeOpDelete now] writable_stored [OF ok assms(4)] assms(5) by auto
    then show ?thesis
      using True by (simp add: pgDeleteTuple_def pgWriting_tenant [OF assms(3,4)] inTx_def deleteTupleTx_def txExec_simps markDeleted_eq dom_rowMap
          rowMap_drop logged_def)
  qed (simp add: pgDeleteTuple_def pgWriting_tenant [OF assms(3,4)] inTx_def deleteTupleTx_def txExec_simps markDeleted_eq dom_rowMap)
qed

theorem pg_delete_refines_witness: "\<exists>db'. pgDeleteTuple standardPg 6000 acmeContext aliceViews aliceDatabase = (Inr (), db') \<and> rowMap (js ''acme'') db' = Map.empty"
  using pg_delete_refines [OF std.postgres_axioms aliceDatabase_reachable aliceDatabase_facts(1,2), where now = 6000 and t = aliceViews]
  by (auto simp: aliceDatabase_facts split: prod.splits sum.splits)

end
