(* ===== verification/Store_Simulation.thy ===== *)
theory Store_Simulation
  imports Postgres_Laws
begin

text \<open>
  The two implementations of the store run side by side. They are alike for a tenant (\<open>alike\<close>) when both accept its writes and hold
  tuples with the same identities and expiries. A call that succeeds on PostgreSQL succeeds on the memory store, and the stores are
  alike again. The names are without separators, since the memory store joins the parts of a tuple to one key.
\<close>

section \<open>Keys and identities\<close>

fun plainIdentity :: "identity \<Rightarrow> bool" where
  "plainIdentity (ot, oi, r, st, si, sr) \<longleftrightarrow> COLON \<notin> set ot \<and> HASH \<notin> set oi \<and> 0x40 \<notin> set r \<and> COLON \<notin> set st \<and> HASH \<notin> set si"

definition partsOf :: "RelationTuple \<Rightarrow> identity \<times> gotime option" where
  "partsOf t = (tupleIdentity t, ExpiresAt t)"

lemma key_identity:
  assumes "plainIdentity (tupleIdentity t)" "plainIdentity (tupleIdentity u)"
  shows "tupleIdentityKey t = tupleIdentityKey u \<longleftrightarrow> tupleIdentity t = tupleIdentity u"
proof
  assume k: "tupleIdentityKey t = tupleIdentityKey u"
  note inj = append_sep_inj
  have s: "COLON \<notin> set (ObjectType t)" "HASH \<notin> set (ObjectID t)" "0x40 \<notin> set (Relation t)" "COLON \<notin> set (SubjectType t)" "HASH \<notin> set (SubjectID t)"
    "COLON \<notin> set (ObjectType u)" "HASH \<notin> set (ObjectID u)" "0x40 \<notin> set (Relation u)" "COLON \<notin> set (SubjectType u)" "HASH \<notin> set (SubjectID u)"
    using assms by (simp_all add: tupleIdentity_def)
  have 1: "ObjectType t @ COLON # ObjectID t @ HASH # Relation t @ 0x40 # SubjectType t @ COLON # SubjectID t @ HASH # SubjectRelation t =
      ObjectType u @ COLON # ObjectID u @ HASH # Relation u @ 0x40 # SubjectType u @ COLON # SubjectID u @ HASH # SubjectRelation u"
    using k by (simp add: tupleIdentityKey_def tupleText_def)
  note 2 = inj [OF 1 s(1,6)]
  note 3 = inj [OF 2 [THEN conjunct2] s(2,7)]
  note 4 = inj [OF 3 [THEN conjunct2] s(3,8)]
  note 5 = inj [OF 4 [THEN conjunct2] s(4,9)]
  note 6 = inj [OF 5 [THEN conjunct2] s(5,10)]
  show "tupleIdentity t = tupleIdentity u" using 2 3 4 5 6 by (simp add: tupleIdentity_def)
qed (simp add: tupleIdentity_def tupleIdentityKey_def)

lemma ran_fold_upd:
  "distinct (map k xs) \<Longrightarrow> k ` set xs \<inter> dom m = {} \<Longrightarrow> ran (fold (\<lambda>x m. m(k x \<mapsto> v x)) xs m) = v ` set xs \<union> ran m"
proof (induction xs arbitrary: m)
  case (Cons x xs)
  then have r: "ran (m(k x \<mapsto> v x)) = insert (v x) (ran m)" by (intro ran_map_upd) (auto simp: domIff)
  have "distinct (map k xs)" "k ` set xs \<inter> dom (m(k x \<mapsto> v x)) = {}" using Cons.prems by auto
  from Cons.IH [OF this] show ?case by (simp add: r del: fun_upd_apply)
qed simp

lemma ran_remove: "(\<And>i v. m i = Some v \<Longrightarrow> key v = i) \<Longrightarrow> ran (m(i := None)) = {v \<in> ran m. key v \<noteq> i}"
  by (force simp: ran_def)

lemma ran_tupleMap: "distinct (map tupleIdentityKey ts) \<Longrightarrow> ran (tupleMap ts) = set ts"
  by (simp add: tupleMap_def ran_distinct comp_def image_image)

lemma rowMap_identity: "rowMap tid db i = Some t \<Longrightarrow> tupleIdentity t = i"
  by (auto simp: rowMap_def dest!: map_of_SomeD) (simp add: readRow_def tupleIdentity_def rowIdentity_def)

lemma dom_rowMap_parts: "dom (rowMap tid db) = fst ` partsOf ` ran (rowMap tid db)"
proof -
  have "dom (rowMap tid db) = tupleIdentity ` ran (rowMap tid db)"
  proof (intro set_eqI iffI)
    fix i assume "i \<in> dom (rowMap tid db)"
    then obtain t where "rowMap tid db i = Some t" by blast
    then show "i \<in> tupleIdentity ` ran (rowMap tid db)" using rowMap_identity by (metis image_eqI ranI)
  next
    fix i assume "i \<in> tupleIdentity ` ran (rowMap tid db)"
    then show "i \<in> dom (rowMap tid db)" using rowMap_identity by (fastforce simp: ran_def)
  qed
  then show ?thesis by (simp add: image_image partsOf_def)
qed

section \<open>Stores that are alike\<close>

definition alike :: "pgEnv \<Rightarrow> str \<Rightarrow> Store \<Rightarrow> database \<Rightarrow> bool" where
  "alike pg tid s db \<longleftrightarrow> storeOk s \<and> databaseOk pg db \<and> writableTenant s tid \<and> ensureTenantWritable tid db = Inr () \<and>
     partsOf ` set (tuplesOf s tid) = partsOf ` ran (rowMap tid db) \<and> (\<forall>t \<in> set (tuplesOf s tid). plainIdentity (tupleIdentity t))"

text \<open>The tuples of a write have names without separators that the columns take, and expiries that have no nanoseconds.\<close>

fun plainCall :: "pgEnv \<Rightarrow> dataCall \<Rightarrow> bool" where
  "plainCall pg (CallWrite ts) \<longleftrightarrow>
     (\<forall>t \<in> set ts. fits pg t \<and> plainIdentity (tupleIdentity t) \<and> map_option (pg_time pg) (ExpiresAt t) = ExpiresAt t)"
| "plainCall pg c \<longleftrightarrow> True"

lemma parts_stored [simp]: "partsOf (stamp now tid t) = partsOf t" "tupleIdentity (stamp now tid t) = tupleIdentity t"
  "map_option (pg_time pg) (ExpiresAt t) = ExpiresAt t \<Longrightarrow> partsOf (storedTuple pg now tid t) = partsOf t"
  by (simp_all add: partsOf_def stamp_def storedTuple_def tupleIdentity_def)

lemma alike_identities: "alike pg tid s db \<Longrightarrow> dom (rowMap tid db) = tupleIdentity ` set (tuplesOf s tid)"
  unfolding dom_rowMap_parts alike_def by (elim conjE, drule sym [of "partsOf ` set (tuplesOf s tid)"]) (simp add: image_image, simp add: partsOf_def)

lemma alike_next:
  assumes "alike pg tid s db" "forTenant ctx tid" "runCall now ctx c s = Inr s'" "databaseOk pg db'" "db_tenants db' = db_tenants db"
    "partsOf ` set (tuplesOf s' tid) = partsOf ` ran (rowMap tid db')" "\<forall>t \<in> set (tuplesOf s' tid). plainIdentity (tupleIdentity t)"
  shows "alike pg tid s' db'"
proof -
  have "callOk ctx s s'" using runCall_ok [OF assms(3)] assms(1) by (simp add: alike_def)
  then have "storeOk s'" "st_tenants s' = st_tenants s" using callOk_storeOk assms(1) by (auto simp: alike_def callOk_def)
  then show ?thesis
    using assms(1,4-7) by (simp add: alike_def writableTenant_def ensureTenantWritable_def pgTenantStatus_def)
qed

section \<open>One call on both\<close>

context postgres
begin

lemma writes_count:
  "writeTuplesTx pg now tid ts tx = (Inr u, tx') \<Longrightarrow> databaseOk pg (tx_db tx) \<Longrightarrow>
     databaseOk pg (tx_db tx') \<and> db_sequence (tx_db tx') = db_sequence (tx_db tx) + length ts \<and> db_tenants (tx_db tx') = db_tenants (tx_db tx)"
proof (induction ts arbitrary: tx)
  case (Cons t ts)
  then obtain v tx1 where tx1: "writeTupleTx pg now tid t tx = (Inr v, tx1)" "writeTuplesTx pg now tid ts tx1 = (Inr u, tx')"
    by (auto simp: bindS_Inr)
  have "db_tenants (tx_db tx1) = db_tenants (tx_db tx)" using writeTupleTx_Inr [OF tx1(1)] by auto
  then show ?case using write_keeps [OF Cons.prems(2) tx1(1)] Cons.IH [OF tx1(2)] by simp
qed simp

lemma alike_write:
  assumes "alike pg tid s db" "forTenant ctx tid" "plainCall pg (CallWrite ts)" "pgWriteTuples pg now ctx ts db = (Inr u, db')"
  shows "\<exists>s'. WriteTuples now ctx ts s = Inr s' \<and> alike pg tid s' db'"
proof -
  have a: "storeOk s" "databaseOk pg db" "writableTenant s tid" "ensureTenantWritable tid db = Inr ()"
    "partsOf ` set (tuplesOf s tid) = partsOf ` ran (rowMap tid db)" "\<forall>t \<in> set (tuplesOf s tid). plainIdentity (tupleIdentity t)"
    using assms(1) by (simp_all add: alike_def)
  have ts: "\<forall>t \<in> set ts. fits pg t" "\<And>t. t \<in> set ts \<Longrightarrow> plainIdentity (tupleIdentity t)"
    "\<And>t. t \<in> set ts \<Longrightarrow> partsOf (storedTuple pg now tid t) = partsOf t" using assms(3) by auto
  obtain tx' where tx': "writeTuplesTx pg now tid ts \<lparr>tx_db = db, tx_failed = False\<rparr> = (Inr u, tx')" "db' = tx_db tx'"
    using assms(4) by (auto simp: pgWriteTuples_def pgWriting_tenant [OF assms(2) a(4)] inTx_Inr)
  note c = writes_count [OF tx'(1)]
  have d: "databaseOk pg db'" "db_sequence db' = db_sequence db + length ts" "db_tenants db' = db_tenants db" using c a(2) tx'(2) by simp_all
  have "db_sequence db + length ts < 2 ^ 63" using d(1) unfolding databaseOk_def d(2) by blast
  then have f: "freshFor ts (rowMap tid db)" "rowMap tid db' = fold (putRow pg now tid) ts (rowMap tid db)"
    using writes_fit [OF ts(1), where tx = "\<lparr>tx_db = db, tx_failed = False\<rparr>" and now = now and tid = tid] writable_stored [OF a(2,4)] tx'
    by simp_all
  then have fr: "distinct (map tupleIdentity ts)" "tupleIdentity ` set ts \<inter> dom (rowMap tid db) = {}" by (simp_all add: freshFor_def)
  have k: "distinct (map tupleIdentityKey ts)" using fr(1) key_identity ts(2) by (auto simp: distinct_map inj_on_def)
  have n: "tupleIdentityKey t \<noteq> tupleIdentityKey v" if "t \<in> set ts" "v \<in> set (tuplesOf s tid)" for t v
  proof
    assume "tupleIdentityKey t = tupleIdentityKey v"
    then have "tupleIdentity t = tupleIdentity v" using key_identity ts(2) a(6) that by blast
    then show False using that fr(2) unfolding alike_identities [OF assms(1)] by blast
  qed
  have "writable now ts (tuplesOf s tid)" using k n by (force simp: writable_def)
  then obtain s' where s': "writeTuplesLocked now tid ts s = Inr s'" "dataOk tid (tuplesOf s' tid) (changelogOf s' tid) (seqOf s' tid)"
    "tupleMap (tuplesOf s' tid) = fold putTuple (map (stamp now tid) ts) (tupleMap (tuplesOf s tid))"
    using writeTuplesLocked_spec [OF dataOk_of [OF a(1), of tid], of now ts] by auto
  have "set (tuplesOf s' tid) = ran (tupleMap (tuplesOf s' tid))" using s'(2) by (simp add: dataOk_def ran_tupleMap)
  also have "\<dots> = ran (fold (\<lambda>x m. m(tupleIdentityKey x \<mapsto> x)) (map (stamp now tid) ts) (tupleMap (tuplesOf s tid)))"
    unfolding s'(3) putTuple_def [abs_def] ..
  also have "\<dots> = stamp now tid ` set ts \<union> set (tuplesOf s tid)"
    using ran_tupleMap dataOk_of [OF a(1), of tid] k n
    by (subst ran_fold_upd) (auto simp: dataOk_def comp_def dom_tupleMap image_image)
  finally have m: "set (tuplesOf s' tid) = stamp now tid ` set ts \<union> set (tuplesOf s tid)" .
  have "ran (rowMap tid db') = storedTuple pg now tid ` set ts \<union> ran (rowMap tid db)"
    unfolding f(2) putRow_def [abs_def] by (rule ran_fold_upd [OF fr])
  then have "partsOf ` set (tuplesOf s' tid) = partsOf ` ran (rowMap tid db')"
    using a(5) ts(3) by (simp add: m image_Un image_image)
  moreover have "\<forall>t \<in> set (tuplesOf s' tid). plainIdentity (tupleIdentity t)" using m ts(2) a(6) by auto
  moreover have "runCall now ctx (CallWrite ts) s = Inr s'" using s'(1) by (simp add: WriteTuples_def writing_tenant [OF assms(2) a(3)])
  ultimately show ?thesis
    using alike_next [OF assms(1,2), of now "CallWrite ts" s' db'] d(1,3) by auto
qed

lemma alike_delete:
  assumes "alike pg tid s db" "forTenant ctx tid" "pgDeleteTuple pg now ctx t db = (Inr u, db')"
  shows "\<exists>s'. DeleteTuple now ctx t s = Inr s' \<and> alike pg tid s' db'"
proof -
  have a: "storeOk s" "databaseOk pg db" "writableTenant s tid" "ensureTenantWritable tid db = Inr ()"
    "partsOf ` set (tuplesOf s tid) = partsOf ` ran (rowMap tid db)" "\<forall>t \<in> set (tuplesOf s tid). plainIdentity (tupleIdentity t)"
    using assms(1) by (simp_all add: alike_def)
  let ?db = "dropRows (pg_time pg now) tid (tupleIdentity t) db"
  have i: "tupleIdentity t \<in> dom (rowMap tid db)" and "\<exists>r. db' = addLog r ?db"
    using assms(3) appendChangelogTx_Inr [of pg now tid "changeEntry ChangeOpDelete tid t" ?db]
    by (auto simp: pgDeleteTuple_def pgWriting_tenant [OF assms(2) a(4)] inTx_Inr deleteTupleTx_def bindS_Inr txExec_Inr markDeleted_eq dom_rowMap
        split: if_splits)
  then have db': "rowMap tid db' = (rowMap tid db)(tupleIdentity t := None)" "db_tenants db' = db_tenants db" by (auto simp: rowMap_drop)
  have ok: "databaseOk pg db'" using run_keeps [OF a(2), of now ctx "CallDelete t"] assms(3) by simp
  have ex: "list_ex (sameTuple t) (tuplesOf s tid)"
    using i unfolding alike_identities [OF assms(1)] by (auto simp: list_ex_iff sameTuple_def tupleIdentity_def)
  then obtain s' where s': "DeleteTuple now ctx t s = Inr s'" "tupleMap (tuplesOf s' tid) = (tupleMap (tuplesOf s tid))(tupleIdentityKey t := None)"
    using DeleteTuple_spec [OF a(1) assms(2) a(3), where now = now and tuple = t] by (auto split: sum.splits)
  have ok': "storeOk s'" using callOk_storeOk [OF delete_callOk [OF s'(1) a(1)] a(1)] .
  have p: "plainIdentity (tupleIdentity t)" using i a(6) unfolding alike_identities [OF assms(1)] by auto
  have "set (tuplesOf s' tid) = ran ((tupleMap (tuplesOf s tid))(tupleIdentityKey t := None))"
    using ran_tupleMap dataOk_of [OF ok', of tid] s'(2) by (metis dataOk_def)
  also have "\<dots> = {v \<in> set (tuplesOf s tid). tupleIdentityKey v \<noteq> tupleIdentityKey t}"
    using dataOk_of [OF a(1), of tid] by (auto simp: ran_def dataOk_def tupleMap_iff)
  also have "\<dots> = {v \<in> set (tuplesOf s tid). fst (partsOf v) \<noteq> tupleIdentity t}"
    using key_identity [OF _ p] a(6) by (auto simp: partsOf_def)
  finally have m: "set (tuplesOf s' tid) = {v \<in> set (tuplesOf s tid). fst (partsOf v) \<noteq> tupleIdentity t}" .
  have r: "ran (rowMap tid db') = {v \<in> ran (rowMap tid db). fst (partsOf v) \<noteq> tupleIdentity t}"
    unfolding db' partsOf_def fst_conv by (rule ran_remove) (rule rowMap_identity)
  have "partsOf ` {v \<in> A. fst (partsOf v) \<noteq> j} = {x \<in> partsOf ` A. fst x \<noteq> j}" for A j by auto
  then have "partsOf ` set (tuplesOf s' tid) = partsOf ` ran (rowMap tid db')" using a(5) by (simp add: m r)
  then show ?thesis
    using alike_next [OF assms(1,2), of now "CallDelete t" s' db'] s'(1) ok db'(2) a(6) m by simp
qed

end

section \<open>Sequences of calls\<close>

lemma purge_tuples: "forTenant ctx tid \<Longrightarrow> \<exists>s'. PurgeTenantData ctx s = Inr s' \<and> tuplesOf s' tid = []"
  by (auto simp: PurgeTenantData_def tenantIDFromCtx_Inr [THEN iffD2] tuplesOf_def)

lemma attributes_tuples:
  assumes "storeOk s" "writableTenant s tid" "forTenant ctx tid"
  shows "\<exists>s'. SetObjectAttributes ctx ty i attrs s = Inr s' \<and> tuplesOf s' tid = tuplesOf s tid"
    "\<exists>s'. SetSubjectAttributes ctx ty i attrs s = Inr s' \<and> tuplesOf s' tid = tuplesOf s tid"
  using tenant_bucket [OF assms(1,2)]
  by (auto simp: SetObjectAttributes_def SetSubjectAttributes_def writing_tenant [OF assms(3,2)] storeAttrs_def tuplesOf_def)

context postgres
begin

lemma alike_attributes:
  assumes "alike pg tid s db" "forTenant ctx tid" "runCall now ctx c s = Inr s'" "tuplesOf s' tid = tuplesOf s tid"
    "db' = db\<lparr>db_objAttrs := rows\<rparr> \<or> db' = db\<lparr>db_subAttrs := rows\<rparr>"
  shows "alike pg tid s' db'"
proof -
  have "databaseOk pg db'" "db_tenants db' = db_tenants db" "rowMap tid db' = rowMap tid db"
    using assms(1,5) by (auto simp: alike_def databaseOk_def activeRows_def tenantLog_def rowMap_def)
  then show ?thesis using assms(1,4) by (intro alike_next [OF assms(1-3)]) (simp_all add: alike_def)
qed

lemma alike_call:
  assumes "alike pg tid s db" "forTenant ctx tid" "plainCall pg c" "pgRun pg now ctx c db = (Inr u, db')"
  shows "\<exists>s'. runCall now ctx c s = Inr s' \<and> alike pg tid s' db'"
proof -
  have a: "storeOk s" "writableTenant s tid" "ensureTenantWritable tid db = Inr ()" "databaseOk pg db" using assms(1) by (simp_all add: alike_def)
  show ?thesis
  proof (cases c)
    case (CallWrite ts)
    then show ?thesis using alike_write [OF assms(1,2)] assms(3,4) by simp
  next
    case (CallDelete t)
    then show ?thesis using alike_delete [OF assms(1,2)] assms(4) by simp
  next
    case (CallSetObject ty i attrs)
    have "\<exists>rows. db' = db\<lparr>db_objAttrs := rows\<rparr>"
      using assms(4) unfolding CallSetObject pgRun.simps pgSetObjectAttributes_def pgWriting_tenant [OF assms(2) a(3)] by (rule attrs_tables(1))
    then show ?thesis
      using attributes_tuples(1) [OF a(1,2) assms(2), of ty i attrs] alike_attributes [OF assms(1,2), of now c] CallSetObject by auto
  next
    case (CallSetSubject ty i attrs)
    have "\<exists>rows. db' = db\<lparr>db_subAttrs := rows\<rparr>"
      using assms(4) unfolding CallSetSubject pgRun.simps pgSetSubjectAttributes_def pgWriting_tenant [OF assms(2) a(3)] by (rule attrs_tables(2))
    then show ?thesis
      using attributes_tuples(2) [OF a(1,2) assms(2), of ty i attrs] alike_attributes [OF assms(1,2), of now c] CallSetSubject by auto
  next
    case CallPurge
    then have "db' = purged tid db" using assms(4) by (simp add: pgPurge_eq pgWriting_tenant [OF assms(2) a(3)])
    moreover obtain s' where "PurgeTenantData ctx s = Inr s'" "tuplesOf s' tid = []" using purge_tuples [OF assms(2)] by blast
    ultimately show ?thesis
      using alike_next [OF assms(1,2), of now CallPurge s' db'] databaseOk_purged [OF a(4), of tid] CallPurge
      by (simp add: rowMap_def purged_views) (simp add: purged_def)
  qed
qed

end

text \<open>Calls one after the other, each at its time, as long as they succeed.\<close>

fun runCalls :: "goContext \<Rightarrow> (gotime \<times> dataCall) list \<Rightarrow> Store \<Rightarrow> Store option" where
  "runCalls ctx [] s = Some s"
| "runCalls ctx ((now, c) # cs) s = (case runCall now ctx c s of Inl _ \<Rightarrow> None | Inr s' \<Rightarrow> runCalls ctx cs s')"

fun pgRunCalls :: "pgEnv \<Rightarrow> goContext \<Rightarrow> (gotime \<times> dataCall) list \<Rightarrow> database \<Rightarrow> database option" where
  "pgRunCalls pg ctx [] db = Some db"
| "pgRunCalls pg ctx ((now, c) # cs) db = (case pgRun pg now ctx c db of (Inl _, _) \<Rightarrow> None | (Inr _, db') \<Rightarrow> pgRunCalls pg ctx cs db')"

lemma alike_calls:
  assumes "postgres pg" "forTenant ctx tid"
  shows "alike pg tid s db \<Longrightarrow> list_all (\<lambda>(now, c). plainCall pg c) cs \<Longrightarrow> pgRunCalls pg ctx cs db = Some db' \<Longrightarrow>
    \<exists>s'. runCalls ctx cs s = Some s' \<and> alike pg tid s' db'"
proof (induction cs arbitrary: s db)
  case (Cons nc cs)
  obtain now c where nc: "nc = (now, c)" by force
  then obtain u db1 where db1: "pgRun pg now ctx c db = (Inr u, db1)" "pgRunCalls pg ctx cs db1 = Some db'"
    using Cons.prems(3) by (auto split: prod.splits sum.splits)
  then obtain s1 where "runCall now ctx c s = Inr s1" "alike pg tid s1 db1"
    using postgres.alike_call [OF assms(1) Cons.prems(1) assms(2)] Cons.prems(2) nc by force
  then show ?case using Cons.IH [OF _ _ db1(2)] Cons.prems(2) nc by auto
qed simp

lemma coalesce_empty: "coalesce c = [] \<longleftrightarrow> c = None \<or> c = Some []" "[] = coalesce c \<longleftrightarrow> c = None \<or> c = Some []"
  by (cases c; auto)+

definition aliveAt :: "gotime \<Rightarrow> gotime option \<Rightarrow> bool" where
  "aliveAt now e \<longleftrightarrow> (case e of None \<Rightarrow> True | Some x \<Rightarrow> now < x)"

lemma expired_alive: "tupleIsExpiredAt t now \<longleftrightarrow> \<not> aliveAt now (snd (partsOf t))"
  by (simp add: tupleIsExpiredAt_def aliveAt_def partsOf_def split: option.splits)

lemma live_alive: "liveRow now tid row \<longleftrightarrow> activeRow tid row \<and> aliveAt now (pt_expires_at row)"
  by (simp add: liveRow_def aliveAt_def)

lemma alike_reads:
  assumes "alike pg tid s db" "forTenant ctx tid"
  shows "pgCheckDirect now ctx ot oi r st si db = CheckDirect now ctx ot oi r st si s"
    "tupleIdentity ` set (filter (\<lambda>t. \<not> tupleIsExpiredAt t now) (tuplesOf s tid)) = rowIdentity ` set (filter (liveRow now tid) (db_tuples db))"
proof -
  have a: "writableTenant s tid" "ensureTenantWritable tid db = Inr ()" "databaseOk pg db"
    "partsOf ` set (tuplesOf s tid) = partsOf ` ran (rowMap tid db)" using assms(1) by (simp_all add: alike_def)
  have rd: "ensureTenantReadable tid db = Inr ()" using a(2) by (cases "pgTenantStatus tid db") (auto simp: ensureTenantReadable_def ensureTenantWritable_def split: if_splits)
  have rows: "partsOf ` ran (rowMap tid db) = (\<lambda>row. (rowIdentity row, pt_expires_at row)) ` set (activeRows tid db)"
    using a(3) by (simp add: rowMap_def ran_distinct databaseOk_def comp_def image_image) (simp add: partsOf_def readRow_def tupleIdentity_def rowIdentity_def)
  have live: "fst ` {x \<in> partsOf ` set ts. aliveAt now (snd x)} = tupleIdentity ` set (filter (\<lambda>t. \<not> tupleIsExpiredAt t now) ts)" for ts
    by (simp add: Compr_image_eq image_image expired_alive) (simp add: partsOf_def)
  have liveRows: "fst ` {x \<in> (\<lambda>row. (rowIdentity row, pt_expires_at row)) ` set (activeRows tid db). aliveAt now (snd x)} =
      rowIdentity ` set (filter (liveRow now tid) (db_tuples db))"
    unfolding Compr_image_eq image_image activeRows_def by (simp add: live_alive conj_assoc)
  show ids: "tupleIdentity ` set (filter (\<lambda>t. \<not> tupleIsExpiredAt t now) (tuplesOf s tid)) = rowIdentity ` set (filter (liveRow now tid) (db_tuples db))"
    unfolding live [symmetric] liveRows [symmetric] a(4) rows ..
  have "CheckDirect now ctx ot oi r st si s = Inr ((ot, oi, r, st, si, []) \<in> tupleIdentity ` set (filter (\<lambda>t. \<not> tupleIsExpiredAt t now) (tuplesOf s tid)))"
    by (auto simp: CheckDirect_def reading_tenant [OF assms(2) writable_readable [OF a(1)]] list_ex_iff tupleIdentity_def image_iff)
  moreover have "pgCheckDirect now ctx ot oi r st si db = Inr ((ot, oi, r, st, si, []) \<in> rowIdentity ` set (filter (liveRow now tid) (db_tuples db)))"
    by (auto simp: pgCheckDirect_def pgReading_tenant [OF assms(2) rd] list_ex_iff rowIdentity_def image_iff coalesce_empty)
  ultimately show "pgCheckDirect now ctx ot oi r st si db = CheckDirect now ctx ot oi r st si s" by (simp only: ids)
qed

section \<open>The stores agree\<close>

lemma acme_alike: "alike standardPg (js ''acme'') acmeStore acmeDatabase"
  using acme_tenant acmeDatabase_facts std.reachable_database [OF acmeDatabase_reachable] reachable_ok [OF acmeStore_reachable]
  by (simp add: alike_def)



end
