(* ===== verification/Postgres_Check.thy ===== *)
theory Postgres_Check
  imports Store_Simulation Check_Properties Server_Api
begin

text \<open>
  The check engine on PostgreSQL, and the two implementations of the store against each other. PostgreSQL provides the lookups of the
  engine (a sublocale of \<open>tuple_lookup\<close>), so that the results about the engine hold on it as well. Calls that succeed on
  PostgreSQL succeed on the memory store and leave the same tuples, and then both decide every check in the same way. The last section
  has what a client sees differently.
\<close>

section \<open>The lookups\<close>

definition pgLookups :: "pgEnv \<Rightarrow> gotime \<Rightarrow> goContext \<Rightarrow> database \<Rightarrow> lookups" where
  "pgLookups pg now ctx db =
     \<lparr>lk_direct = (\<lambda>ot oi r st si. pgCheckDirect now ctx ot oi r st si db),
      lk_related = (\<lambda>ot oi r. pgListRelatedObjects pg now ctx ot oi r db),
      lk_subjects = (\<lambda>ot oi r. pgListSubjects pg now ctx ot oi r db),
      lk_objAttrs = (\<lambda>ty i. pgGetObjectAttributes ctx ty i db),
      lk_subAttrs = (\<lambda>ty i. pgGetSubjectAttributes ctx ty i db)\<rparr>"

definition pgTenantLookups :: "pgEnv \<Rightarrow> gotime \<Rightarrow> str \<Rightarrow> database \<Rightarrow> lookups" where
  "pgTenantLookups pg now tid db =
     \<lparr>lk_direct = (\<lambda>ot oi r st si. Inr (list_ex (\<lambda>row. liveRow now tid row \<and> pt_object_type row = ot \<and> pt_object_id row = oi \<and>
        pt_relation row = r \<and> pt_subject_type row = st \<and> pt_subject_id row = si \<and>
        (pt_subject_relation row = None \<or> pt_subject_relation row = Some [])) (db_tuples db))),
      lk_related = (\<lambda>ot oi r. Inr (map (\<lambda>row. \<lparr>ObjType = pt_subject_type row, ObjID = pt_subject_id row\<rparr>) (relationRows pg now tid ot oi r db))),
      lk_subjects = (\<lambda>ot oi r. Inr (map rowSubject (relationRows pg now tid ot oi r db))),
      lk_objAttrs = (\<lambda>ty i. findAttrs tid ty i (db_objAttrs db)),
      lk_subAttrs = (\<lambda>ty i. findAttrs tid ty i (db_subAttrs db))\<rparr>"

lemma pgLookups_tenant:
  assumes "forTenant ctx tid" "ensureTenantReadable tid db = Inr ()"
  shows "pgLookups pg now ctx db = pgTenantLookups pg now tid db"
  by (simp add: pgLookups_def pgTenantLookups_def pgCheckDirect_def pgListRelatedObjects_def pgListSubjects_def pgGetObjectAttributes_def
      pgGetSubjectAttributes_def pgReading_tenant [OF assms])

definition pgLive :: "gotime \<Rightarrow> str \<Rightarrow> database \<Rightarrow> RelationTuple list" where
  "pgLive now tid db = map readRow (filter (liveRow now tid) (db_tuples db))"

lemma readRow_sel [simp]:
  "ObjectType (readRow row) = pt_object_type row" "ObjectID (readRow row) = pt_object_id row" "Relation (readRow row) = pt_relation row"
  "SubjectType (readRow row) = pt_subject_type row" "SubjectID (readRow row) = pt_subject_id row"
  "SubjectRelation (readRow row) = coalesce (pt_subject_relation row)" "ExpiresAt (readRow row) = pt_expires_at row"
  "tupleIdentity (readRow row) = rowIdentity row"
  by (simp_all add: readRow_def rowIdentity_def tupleIdentity_def)

lemma rowSubject_read: "rowSubject row = tupleSubject (readRow row)"
  by (simp add: rowSubject_def tupleSubject_def)

sublocale postgres \<subseteq> look: tuple_lookup "pgTenantLookups pg now tid db" "pgLive now tid db" for now tid db
  by unfold_locales
    (auto simp: pgTenantLookups_def pgLive_def relationRows_def list_ex_iff rowSubject_read image_image Compr_image_eq coalesce_empty)

context postgres
begin

lemma lookups_law: "tuple_lookup (pgTenantLookups pg now tid db) (pgLive now tid db)"
  by (rule look.tuple_lookup_axioms)

lemmas pg_check_decides = look.check_decides

end

section \<open>Exactness\<close>

text \<open>Lookups over tuples with the same identities give the same meaning to a schema without inline conditions.\<close>

lemma identity_image:
  assumes "tupleIdentity ` set ts = tupleIdentity ` set us" "\<And>t. f t = g (tupleIdentity t)"
  shows "f ` {t \<in> set ts. P (tupleIdentity t)} = f ` {t \<in> set us. P (tupleIdentity t)}"
proof -
  have "f ` {t \<in> set xs. P (tupleIdentity t)} = g ` {i \<in> tupleIdentity ` set xs. P i}" for xs
    unfolding Compr_image_eq image_image by (simp add: assms(2))
  then show ?thesis using assms(1) by simp
qed

lemma lookups_same:
  assumes "tuple_lookup lk live" "tuple_lookup lk' live'" "tupleIdentity ` set live = tupleIdentity ` set live'"
  shows "lk_direct lk' ot oi r st si = lk_direct lk ot oi r st si"
    "lk_subjects lk ot oi r = Inr xs \<Longrightarrow> \<exists>ys. lk_subjects lk' ot oi r = Inr ys \<and> set ys = set xs"
    "lk_related lk ot oi r = Inr zs \<Longrightarrow> \<exists>ys. lk_related lk' ot oi r = Inr ys \<and> set ys = set zs"
proof -
  have ex: "list_ex (\<lambda>t. Q (tupleIdentity t)) ts \<longleftrightarrow> (\<exists>i \<in> tupleIdentity ` set ts. Q i)" for Q ts by (simp add: list_ex_iff)
  have "list_ex (\<lambda>t. Q (tupleIdentity t)) live \<longleftrightarrow> list_ex (\<lambda>t. Q (tupleIdentity t)) live'" for Q by (simp only: ex assms(3))
  from this [of "\<lambda>i. i = (ot, oi, r, st, si, [])"] show "lk_direct lk' ot oi r st si = lk_direct lk ot oi r st si"
    by (simp add: tuple_lookup.direct_law [OF assms(1)] tuple_lookup.direct_law [OF assms(2)] tupleIdentity_def)
  let ?P = "\<lambda>i. fst i = ot \<and> fst (snd i) = oi \<and> fst (snd (snd i)) = r"
  have P: "{t \<in> set ts. ObjectType t = ot \<and> ObjectID t = oi \<and> Relation t = r} = {t \<in> set ts. ?P (tupleIdentity t)}" for ts
    by (simp add: tupleIdentity_def)
  have "tupleSubject ` {t \<in> set live. ?P (tupleIdentity t)} = tupleSubject ` {t \<in> set live'. ?P (tupleIdentity t)}"
    by (rule identity_image [OF assms(3), where g = "\<lambda>(_, _, _, st, si, sr). \<lparr>SubjType = st, SubjID = si, SubjRelation = sr\<rparr>"])
       (simp add: tupleSubject_def tupleIdentity_def)
  then show "lk_subjects lk ot oi r = Inr xs \<Longrightarrow> \<exists>ys. lk_subjects lk' ot oi r = Inr ys \<and> set ys = set xs"
    using tuple_lookup.subjects_law [OF assms(1), of ot oi r] tuple_lookup.subjects_law [OF assms(2), of ot oi r] by (auto simp: P)
  have "(\<lambda>t. \<lparr>ObjType = SubjectType t, ObjID = SubjectID t\<rparr>) ` {t \<in> set live. ?P (tupleIdentity t)} =
      (\<lambda>t. \<lparr>ObjType = SubjectType t, ObjID = SubjectID t\<rparr>) ` {t \<in> set live'. ?P (tupleIdentity t)}"
    by (rule identity_image [OF assms(3), where g = "\<lambda>(_, _, _, st, si, sr). \<lparr>ObjType = st, ObjID = si\<rparr>"]) (simp add: tupleIdentity_def)
  then show "lk_related lk ot oi r = Inr zs \<Longrightarrow> \<exists>ys. lk_related lk' ot oi r = Inr ys \<and> set ys = set zs"
    using tuple_lookup.related_law [OF assms(1), of ot oi r] tuple_lookup.related_law [OF assms(2), of ot oi r] by (auto simp: P)
qed

lemma grants_same:
  assumes "tuple_lookup lk live" "tuple_lookup lk' live'" "tupleIdentity ` set live = tupleIdentity ` set live'" "conditionFree cs"
  shows "grants xl lk cs req pd \<Longrightarrow> (\<exists>ty p. GetPermission cs ty p = Inr pd) \<Longrightarrow> grants xl lk' cs req pd"
    and "refHolds xl lk cs req ref \<Longrightarrow> Kind ref \<noteq> KindCondition \<Longrightarrow> refHolds xl lk' cs req ref"
proof (induction rule: grants_refHolds.inducts)
  case (anyOf pd ref req)
  then show ?case using conditionFree_perm(2) [OF assms(4)] by (blast intro: grants_refHolds.anyOf)
next
  case (allOf pd req)
  then show ?case using conditionFree_perm(2) [OF assms(4)] by (blast intro: grants_refHolds.allOf)
next
  case (baseOf pd base rest req)
  then have "Kind base \<noteq> KindCondition" using conditionFree_perm(2) [OF assms(4)] by (metis list.set_intros(1))
  then show ?case using baseOf by (blast intro: grants_refHolds.baseOf)
next
  case (tuple ref req)
  then show ?case by (simp add: grants_refHolds.tuple lookups_same(1) [OF assms(1-3)])
next
  case (usersetRelation ref req subjects subj e)
  obtain ys where "lk_subjects lk' (ReqObjectType req) (ReqObjectID req) (RelationRef ref) = Inr ys" "set ys = set subjects"
    using lookups_same(2) [OF assms(1-3)] usersetRelation by blast
  then show ?case
    using usersetRelation by (intro grants_refHolds.usersetRelation [of ref lk' req ys subj cs e]) (simp_all add: lookups_same(1) [OF assms(1-3)])
next
  case (usersetPermission ref req subjects subj pd)
  obtain ys where "lk_subjects lk' (ReqObjectType req) (ReqObjectID req) (RelationRef ref) = Inr ys" "set ys = set subjects"
    using lookups_same(2) [OF assms(1-3)] usersetPermission by blast
  then show ?case using usersetPermission by (intro grants_refHolds.usersetPermission [of ref lk' req ys subj cs pd]) auto
next
  case (arrow ref req targets target pd)
  obtain ys where "lk_related lk' (ReqObjectType req) (ReqObjectID req) (ArrowRef ref) = Inr ys" "set ys = set targets"
    using lookups_same(3) [OF assms(1-3)] arrow by blast
  then show ?case using arrow by (intro grants_refHolds.arrow [of ref lk' req ys target cs pd]) auto
qed simp

lemma succs_same:
  assumes "tuple_lookup lk live" "tuple_lookup lk' live'" "tupleIdentity ` set live = tupleIdentity ` set live'" "succs lk cs n m"
  shows "succs lk' cs n m"
  using assms(4)
proof cases
  case (userset t p pd ref i subjects subj pd')
  then show ?thesis using lookups_same(2) [OF assms(1-3) userset(6)] succs.userset [of cs t p pd ref lk' i _ subj pd'] by auto
next
  case (arrow t p pd ref i targets target pd')
  then show ?thesis using lookups_same(3) [OF assms(1-3) arrow(6)] succs.arrow [of cs t p pd ref lk' i _ target pd'] by auto
qed

lemma reachNodes_same:
  assumes "tuple_lookup lk live" "tuple_lookup lk' live'" "tupleIdentity ` set live = tupleIdentity ` set live'"
  shows "reachNodes lk' cs n = reachNodes lk cs n"
proof -
  have "succs lk' cs = succs lk cs"
    using succs_same [OF assms] succs_same [OF assms(2,1) assms(3) [symmetric]] by (intro ext iffI)
  then show ?thesis by (simp add: reachNodes_def)
qed

lemma plainTuples_same:
  assumes "tupleIdentity ` set ts = tupleIdentity ` set us"
  shows "plainTuples ts \<longleftrightarrow> plainTuples us"
proof -
  have "plainTuples xs \<longleftrightarrow> (\<forall>(ot, oi, r, st, si, sr) \<in> tupleIdentity ` set xs. COLON \<notin> set st \<and> HASH \<notin> set si)" for xs
    by (simp add: plainTuples_def list_all_iff tupleIdentity_def)
  then show ?thesis by (simp only: assms)
qed

text \<open>The decisions of two stores over the same tuples.\<close>

lemma same_decisions:
  assumes "tuple_lookup lk live" "tuple_lookup lk' live'" "tupleIdentity ` set live = tupleIdentity ` set live'"
    "engineServes e ctx cs" "unionSchema cs" "plainTuples live" "plainNode (checkNode req)"
    "GetPermission cs (ReqObjectType req) (ReqPermission req) = Inr pd" "PermCondition pd = None"
    "card (reachNodes lk cs (checkNode req)) \<le> Suc (MaxCheckDepth e)"
  shows "\<exists>r r'. Check xl e lk ctx req = Inr r \<and> Check xl e lk' ctx req = Inr r' \<and> Allowed r' = Allowed r \<and>
    (Allowed r \<longleftrightarrow> grants xl lk cs req pd)"
proof -
  have p: "plainTuples live'" using plainTuples_same [OF assms(3)] assms(6) by simp
  have c: "card (reachNodes lk' cs (checkNode req)) \<le> Suc (MaxCheckDepth e)" using assms(10) by (subst reachNodes_same [OF assms(1-3)])
  have "grants xl lk' cs req pd \<longleftrightarrow> grants xl lk cs req pd"
    using grants_same(1) [OF assms(1-3) union_conditionFree [OF assms(5)]]
      grants_same(1) [OF assms(2,1) assms(3) [symmetric] union_conditionFree [OF assms(5)]] assms(8) by blast
  then show ?thesis
    using tuple_lookup.check_decides [OF assms(1,4-10)] tuple_lookup.check_decides [OF assms(2,4,5) p assms(7-9) c] by metis
qed

section \<open>Properties\<close>

lemma writable_is_readable: "ensureTenantWritable tid db = Inr () \<Longrightarrow> ensureTenantReadable tid db = Inr ()"
  by (cases "pgTenantStatus tid db") (auto simp: ensureTenantReadable_def ensureTenantWritable_def split: if_splits)

lemma alike_live:
  assumes "alike pg tid s db" "forTenant ctx tid"
  shows "tupleIdentity ` set (liveTuples now s tid) = tupleIdentity ` set (pgLive now tid db)"
  using alike_reads(2) [OF assms, of now] by (simp add: liveTuples_def pgLive_def image_image)

text \<open>
  The engine is as exact on PostgreSQL as on the memory store: whatever the order in which the database returns its rows, for schemas made
  of unions, a readable tenant, subjects without separators and no more objects below the request than levels of recursion, \<^verbatim>\<open>Check\<close>
  returns a result, and it allows if and only if the permission follows from the rows that are neither deleted nor expired.
\<close>

theorem pg_check_exact:
  assumes "postgres pg" "engineServes e ctx cs" "forTenant ctx tid" "ensureTenantReadable tid db = Inr ()" "unionSchema cs"
    "plainTuples (pgLive now tid db)" "plainNode (checkNode req)" "GetPermission cs (ReqObjectType req) (ReqPermission req) = Inr pd"
    "PermCondition pd = None" "card (reachNodes (pgTenantLookups pg now tid db) cs (checkNode req)) \<le> Suc (MaxCheckDepth e)"
  shows "\<exists>r. Check xl e (pgLookups pg now ctx db) ctx req = Inr r \<and> (Allowed r \<longleftrightarrow> grants xl (pgTenantLookups pg now tid db) cs req pd)"
  using postgres.pg_check_decides [OF assms(1,2,5-10)] by (simp add: pgLookups_tenant [OF assms(3,4)])

lemma alice_lookups:
  "engineServes documentEngine acmeContext documentSchema" "ensureTenantReadable (js ''acme'') aliceDatabase = Inr ()"
  "pgLive 6000 (js ''acme'') aliceDatabase = [storedTuple standardPg 5000 (js ''acme'') aliceViews]"
  "plainTuples (pgLive 6000 (js ''acme'') aliceDatabase)" "plainNode (checkNode (askFor ''document'' ''d1'' ''view'' ''alice''))"
  "card (reachNodes (pgTenantLookups standardPg 6000 (js ''acme'') aliceDatabase) documentSchema (checkNode (askFor ''document'' ''d1'' ''view'' ''alice''))) \<le>
     Suc (MaxCheckDepth documentEngine)"
proof -
  show s: "engineServes documentEngine acmeContext documentSchema" by code_simp
  show "ensureTenantReadable (js ''acme'') aliceDatabase = Inr ()" by (rule writable_is_readable [OF aliceDatabase_facts(2)])
  have e: "ExpiresAt aliceViews = None" "MaxCheckDepth documentEngine = 25" by code_simp+
  show l: "pgLive 6000 (js ''acme'') aliceDatabase = [storedTuple standardPg 5000 (js ''acme'') aliceViews]"
    by (simp add: pgLive_def aliceDatabase_facts liveRow_def) (simp add: newRow_def e)
  show "plainTuples (pgLive 6000 (js ''acme'') aliceDatabase)" unfolding l by code_simp
  show "plainNode (checkNode (askFor ''document'' ''d1'' ''view'' ''alice''))" by code_simp
  show "card (reachNodes (pgTenantLookups standardPg 6000 (js ''acme'') aliceDatabase) documentSchema (checkNode (askFor ''document'' ''d1'' ''view'' ''alice''))) \<le>
      Suc (MaxCheckDepth documentEngine)"
    using std.look.reachNodes_bound [of 6000 "js ''acme''" aliceDatabase documentSchema "checkNode (askFor ''document'' ''d1'' ''view'' ''alice'')"]
      document_facts(4) by (simp add: l e)
qed

theorem pg_check_exact_witness:
  "\<exists>r. Check falseExpr documentEngine (pgLookups standardPg 6000 acmeContext aliceDatabase) acmeContext (askFor ''document'' ''d1'' ''view'' ''alice'') = Inr r \<and>
     Allowed r"
proof -
  let ?lk = "pgTenantLookups standardPg 6000 (js ''acme'') aliceDatabase"
  let ?req = "askFor ''document'' ''d1'' ''view'' ''alice''"
  have v: "ObjectType aliceViews = js ''document''" "ObjectID aliceViews = js ''d1''" "Relation aliceViews = js ''viewer''"
    "SubjectType aliceViews = js ''user''" "SubjectID aliceViews = js ''alice''" "SubjectRelation aliceViews = []" by code_simp+
  have d: "lk_direct ?lk (js ''document'') (js ''d1'') (js ''viewer'') (js ''user'') (js ''alice'') = Inr True"
    by (simp add: std.look.direct_law alice_lookups(3)) (simp add: storedTuple_def v)
  have p: "GetPermission documentSchema (ReqObjectType ?req) (ReqPermission ?req) = Inr documentPerm"
    using document_facts(2) by (simp add: askFor_def)
  have "grants falseExpr ?lk documentSchema ?req documentPerm"
    using document_child d by (intro grants_refHolds.anyOf [of _ "\<lparr>RelationRef = js ''viewer'', ArrowRef = [], ArrowPermission = [], ConditionText = []\<rparr>"]
        grants_refHolds.tuple) (simp_all add: Kind_def askFor_def)
  then show ?thesis
    using pg_check_exact [OF std.postgres_axioms alice_lookups(1) acmeDatabase_facts(1) alice_lookups(2) document_facts(1) alice_lookups(4,5) p
        document_facts(3) alice_lookups(6), of falseExpr] by blast
qed

text \<open>
  A check does not depend on the store it runs on: on stores that are alike for the tenant, with the same schema, both checks return a result
  and both allow or both deny.
\<close>

theorem same_check_on_both:
  assumes "postgres pg" "alike pg tid s db" "forTenant ctx tid" "engineServes e ctx cs" "unionSchema cs" "plainTuples (liveTuples now s tid)"
    "plainNode (checkNode req)" "GetPermission cs (ReqObjectType req) (ReqPermission req) = Inr pd" "PermCondition pd = None"
    "card (reachNodes (tenantLookups now tid s) cs (checkNode req)) \<le> Suc (MaxCheckDepth e)"
  shows "\<exists>r r'. Check xl e (memoryLookups now ctx s) ctx req = Inr r \<and> Check xl e (pgLookups pg now ctx db) ctx req = Inr r' \<and> Allowed r' = Allowed r"
proof -
  have a: "readableTenant s tid" "ensureTenantReadable tid db = Inr ()"
    using assms(2) writable_readable writable_is_readable by (auto simp: alike_def)
  show ?thesis
    using same_decisions [OF mem.tuple_lookup_axioms postgres.lookups_law [OF assms(1)] alike_live [OF assms(2,3)] assms(4-10), of xl]
    by (auto simp: memoryLookups_tenant [OF assms(3) a(1)] pgLookups_tenant [OF assms(3) a(2)])
qed

lemma alice_alike: "\<exists>s. alike standardPg (js ''acme'') s aliceDatabase"
proof -
  have p: "plainIdentity (tupleIdentity aliceViews)" "ExpiresAt aliceViews = None" by code_simp+
  show ?thesis
    using alike_calls [OF std.postgres_axioms acmeDatabase_facts(1) acme_alike, of "[(5000, CallWrite [aliceViews])]" aliceDatabase]
      p alice_written(2) alice_fits by auto
qed

theorem same_check_on_both_witness:
  "\<exists>s r r'. Check falseExpr documentEngine (memoryLookups 6000 acmeContext s) acmeContext (askFor ''document'' ''d1'' ''view'' ''alice'') = Inr r \<and>
     Check falseExpr documentEngine (pgLookups standardPg 6000 acmeContext aliceDatabase) acmeContext (askFor ''document'' ''d1'' ''view'' ''alice'') = Inr r' \<and>
     Allowed r' = Allowed r"
proof -
  let ?req = "askFor ''document'' ''d1'' ''view'' ''alice''"
  obtain s where s: "alike standardPg (js ''acme'') s aliceDatabase" using alice_alike by blast
  note live = alike_live [OF s acmeDatabase_facts(1), of 6000]
  have "GetPermission documentSchema (ReqObjectType ?req) (ReqPermission ?req) = Inr documentPerm"
    using document_facts(2) by (simp add: askFor_def)
  moreover have "card (reachNodes (tenantLookups 6000 (js ''acme'') s) documentSchema (checkNode ?req)) \<le> Suc (MaxCheckDepth documentEngine)"
    using alice_lookups(6) reachNodes_same [OF mem.tuple_lookup_axioms std.look.tuple_lookup_axioms live] by metis
  moreover have "plainTuples (liveTuples 6000 s (js ''acme''))"
    using plainTuples_same [OF live] alice_lookups(4) by blast
  ultimately show ?thesis
    using same_check_on_both [OF std.postgres_axioms s acmeDatabase_facts(1) alice_lookups(1) document_facts(1) _ alice_lookups(5) _ document_facts(3),
        where xl = falseExpr] by blast
qed

section \<open>What a client sees differently\<close>

lemma pgWriteTuple_one: "pgWriteTuple pg now ctx t db = pgWriteTuples pg now ctx [t] db"
proof -
  have "writeTuplesTx pg now tid [t] = writeTupleTx pg now tid t" for tid by (rule ext) (auto simp: bindS_def split: prod.splits sum.splits)
  then show ?thesis by (simp add: pgWriteTuple_def pgWriteTuples_def)
qed

text \<open>
  Claim C15. A tuple whose identity is taken cannot be written on PostgreSQL, expired or not, and the answer is an internal error. The insertion
  violates the unique index, which aborts the transaction, and the statement that would refresh the expired row, or report the
  duplicate, runs in the same transaction. On the memory store a write over an expired tuple succeeds, and a
  duplicate is reported as such.
\<close>

theorem taken_identity_aborts:
  assumes "postgres pg" "alike pg tid s db" "forTenant ctx tid" "fits pg t" "plainIdentity (tupleIdentity t)" "u \<in> set (tuplesOf s tid)"
    "tupleIdentity u = tupleIdentity t"
  shows "pgWriteTuple pg now ctx t db = (Inl (DatabaseError ''25P02''), db) \<and> errStatus (DatabaseError ''25P02'') = 500 \<and>
    (if tupleIsExpiredAt u now then \<exists>s'. WriteTuple now ctx t s = Inr s' else WriteTuple now ctx t s = Inl ErrDuplicateTuple)"
proof -
  have a: "storeOk s" "databaseOk pg db" "writableTenant s tid" "ensureTenantWritable tid db = Inr ()"
    "\<forall>t \<in> set (tuplesOf s tid). plainIdentity (tupleIdentity t)" using assms(2) by (simp_all add: alike_def)
  have "tupleIdentity t \<in> dom (rowMap tid db)" unfolding alike_identities [OF assms(2)] using assms(6,7) by (metis imageI)
  then have "pgWriteTuple pg now ctx t db = (Inl (DatabaseError ''25P02''), db)"
    using postgres.write_taken [OF assms(1,4), where tx = "\<lparr>tx_db = db, tx_failed = False\<rparr>" and tid = tid and now = now] writable_stored [OF a(2,4)]
    by (simp add: pgWriteTuple_def pgWriting_tenant [OF assms(3) a(4)] inTx_def)
  moreover have "writable now [t] (tuplesOf s tid) \<longleftrightarrow> tupleIsExpiredAt u now"
  proof -
    have k: "tupleIdentityKey u = tupleIdentityKey t" using assms(7) by (simp add: tupleIdentity_def tupleIdentityKey_def)
    have "inj_on tupleIdentityKey (set (tuplesOf s tid))" using dataOk_of [OF a(1), of tid] by (simp add: dataOk_def distinct_map)
    then have "v = u" if "v \<in> set (tuplesOf s tid)" "tupleIdentityKey v = tupleIdentityKey t" for v
      using that assms(6) k by (metis inj_onD)
    moreover have "writable now [t] (tuplesOf s tid) \<longleftrightarrow> (\<forall>v \<in> set (tuplesOf s tid). tupleIdentityKey v = tupleIdentityKey t \<longrightarrow> tupleIsExpiredAt v now)"
      by (simp add: writable_def)
    ultimately show ?thesis using assms(6) k by blast
  qed
  ultimately show ?thesis
    using writeTuplesLocked_spec [OF dataOk_of [OF a(1), of tid], of now "[t]"]
    by (auto simp: WriteTuple_def writing_tenant [OF assms(3) a(3)] errStatus_def Let_def split: if_splits)
qed

theorem taken_identity_aborts_witness:
  "\<exists>s u. u \<in> set (tuplesOf s (js ''acme'')) \<and> pgWriteTuple standardPg 6000 acmeContext aliceViews aliceDatabase = (Inl (DatabaseError ''25P02''), aliceDatabase) \<and>
     (if tupleIsExpiredAt u 6000 then \<exists>s'. WriteTuple 6000 acmeContext aliceViews s = Inr s'
      else WriteTuple 6000 acmeContext aliceViews s = Inl ErrDuplicateTuple)"
proof -
  obtain s where s: "alike standardPg (js ''acme'') s aliceDatabase" using alice_alike by blast
  have "tupleIdentity aliceViews \<in> tupleIdentity ` set (tuplesOf s (js ''acme''))"
    unfolding alike_identities [OF s, symmetric] by (simp add: aliceDatabase_facts)
  then obtain u where u: "tupleIdentity aliceViews = tupleIdentity u" "u \<in> set (tuplesOf s (js ''acme''))" by (rule imageE)
  have "plainIdentity (tupleIdentity aliceViews)" by code_simp
  then show ?thesis
    using taken_identity_aborts [OF std.postgres_axioms s acmeDatabase_facts(1) alice_fits _ u(2) u(1) [symmetric], of 6000] u(2) by blast
qed

lemma find_snoc: "find P xs = None \<Longrightarrow> find P (xs @ [r]) = (if P r then Some r else None)"
  by (induction xs) (simp_all split: if_splits)

lemma find_projection:
  assumes "map f xs = map f ys" "\<And>r. P r \<longleftrightarrow> Q (f r)"
  shows "map_option f (find P xs) = map_option f (find P ys)"
proof -
  have "find Q (map f zs) = map_option f (find P zs)" for zs by (induction zs) (simp_all add: assms(2))
  then show ?thesis using assms(1) by metis
qed

text \<open>
  Claim C30. The parent of a tenant is lost on PostgreSQL. The handler that creates a tenant first stores it without a parent and then sets the parent
  with an update; the \<^verbatim>\<open>UPDATE\<close> statement does not mention \<^verbatim>\<open>parent_tenant_id\<close>, so both calls succeed and a read returns the tenant without
  a parent, while the memory store returns the one given.
\<close>

theorem parent_lost:
  assumes "pgCreateTenant pg now t db = (Inr (), db1)" "pgUpdateTenant pg now' (t\<lparr>ParentTenantID := p, SharedSchemaRef := ref\<rparr>) db1 = (Inr (), db2)"
    "CreateTenant now t s = Inr s1" "UpdateTenant now' (t\<lparr>ParentTenantID := p, SharedSchemaRef := ref\<rparr>) s1 = Inr s2"
    "ParentTenantID t = []" "pg_varchar pg 128 (TenantIdent t) = Some (TenantIdent t)"
  shows "\<exists>x y. pgGetTenant (TenantIdent t) db2 = Inr x \<and> ParentTenantID x = [] \<and> GetTenant (TenantIdent t) s2 = Inr y \<and> ParentTenantID y = p"
proof -
  let ?P = "\<lambda>r. tn_id r = TenantIdent t \<and> tn_deleted_at r = None"
  let ?f = "\<lambda>r. (tn_id r, tn_deleted_at r, tn_parent_tenant_id r)"
  have "insertTenant pg now t db = Inr ((), db1)"
    using assms(1) by (auto simp: pgCreateTenant_def pgExec_def inTx_def txExec_def split: sum.splits)
  from insertTenant_Inr [OF this] obtain r where r: "db1 = db\<lparr>db_tenants := db_tenants db @ [r]\<rparr>" "tn_id r = TenantIdent t"
    "TenantIdent t \<notin> tn_id ` set (db_tenants db)" "tn_deleted_at r = None" "tn_parent_tenant_id r = None"
    using assms(5,6) by (auto simp: nullText_def)
  have "find ?P (db_tenants db) = None" using r(3) unfolding find_None_iff by (metis imageI)
  then have f1: "find ?P (db_tenants db1) = Some r" using r by (simp add: find_snoc)
  obtain n where "updateTenantRow pg now' (t\<lparr>ParentTenantID := p, SharedSchemaRef := ref\<rparr>) db1 = Inr (n, db2)"
    using assms(2) by (auto simp: pgUpdateTenant_def bindS_Inr pgExec_def inTx_def txExec_def split: sum.splits if_splits)
  from updateTenantRow_Inr [OF this] have "map ?f (db_tenants db2) = map ?f (db_tenants db1)" by auto
  from find_projection [OF this, of ?P "\<lambda>(i, d, q). i = TenantIdent t \<and> d = None"] obtain x
    where "find ?P (db_tenants db2) = Some x" "tn_parent_tenant_id x = None" using f1 r(5) by auto
  moreover have "GetTenant (TenantIdent t) s2 = Inr (t\<lparr>ParentTenantID := p, SharedSchemaRef := ref, TenantUpdatedAt := now'\<rparr>)"
    using assms(4) by (auto simp: UpdateTenant_def GetTenant_def update_conv' split: if_splits)
  ultimately show ?thesis by (simp add: pgGetTenant_def readTenant_def)
qed

theorem parent_lost_witness:
  "\<exists>db1 db2 x. pgCreateTenant standardPg 1000 acme emptyDatabase = (Inr (), db1) \<and>
     pgUpdateTenant standardPg 2000 (acme\<lparr>ParentTenantID := js ''root'', SharedSchemaRef := []\<rparr>) db1 = (Inr (), db2) \<and>
     pgGetTenant (TenantIdent acme) db2 = Inr x \<and> ParentTenantID x = []"
proof -
  let ?t = "acme\<lparr>ParentTenantID := js ''root'', SharedSchemaRef := []\<rparr>"
  have a: "ParentTenantID acme = []" "pg_varchar standardPg 128 (TenantIdent acme) = Some (TenantIdent acme)" by code_simp+
  have c: "pgCreateTenant standardPg 1000 acme emptyDatabase = (Inr (), acmeDatabase)" unfolding acmeDatabase_eq by code_simp
  have "fst (pgUpdateTenant standardPg 2000 ?t acmeDatabase) = Inr ()" by code_simp
  then have u: "pgUpdateTenant standardPg 2000 ?t acmeDatabase = (Inr (), snd (pgUpdateTenant standardPg 2000 ?t acmeDatabase))"
    by (metis prod.collapse)
  have m: "CreateTenant 1000 acme NewStore \<noteq> Inl e" for e by (simp add: CreateTenant_def NewStore_def Let_def)
  then obtain s1 where s1: "CreateTenant 1000 acme NewStore = Inr s1" by (metis sum.exhaust)
  have "map_of (st_tenants s1) (TenantIdent acme) \<noteq> None"
    using s1 by (auto simp: CreateTenant_def NewStore_def Let_def initTenant_def)
  then obtain s2 where "UpdateTenant 2000 ?t s1 = Inr s2" by (auto simp: UpdateTenant_def)
  from parent_lost [OF c u s1 this a] show ?thesis using c u by blast
qed

end
