(* ===== verification/Server_On.thy ===== *)
theory Server_On
  imports Server_Laws Postgres_Check
begin

text \<open>
  The server over the interface of its store. The handlers, the manager and the bootstrap of \<^verbatim>\<open>cmd/server/main.go\<close> know the
  store only as a \<^verbatim>\<open>storage.TupleStore\<close>; here the interface is a record of operations, the memory store and the store on
  PostgreSQL are two values of it, and every handler takes the record. A call that changes the store returns its
  result with the store it leaves, also when it fails, so a request that makes two calls can leave the first one done. The
  server of \<^verbatim>\<open>main\<close> is the one on PostgreSQL; on the memory store the handlers are those of \<open>Server_Api\<close>.
\<close>

section \<open>The interface\<close>

record 's TupleStore =
  ts_CreateTenant :: "gotime \<Rightarrow> Tenant \<Rightarrow> 's \<Rightarrow> (goError + unit) \<times> 's"
  ts_GetTenant :: "str \<Rightarrow> 's \<Rightarrow> goError + Tenant"
  ts_UpdateTenant :: "gotime \<Rightarrow> Tenant \<Rightarrow> 's \<Rightarrow> (goError + unit) \<times> 's"
  ts_ListTenants :: "TenantFilter option \<Rightarrow> 's \<Rightarrow> goError + Tenant list"
  ts_WriteTuple :: "gotime \<Rightarrow> goContext \<Rightarrow> RelationTuple \<Rightarrow> 's \<Rightarrow> (goError + unit) \<times> 's"
  ts_WriteTuples :: "gotime \<Rightarrow> goContext \<Rightarrow> RelationTuple list \<Rightarrow> 's \<Rightarrow> (goError + unit) \<times> 's"
  ts_DeleteTuple :: "gotime \<Rightarrow> goContext \<Rightarrow> RelationTuple \<Rightarrow> 's \<Rightarrow> (goError + unit) \<times> 's"
  ts_ReadTuples :: "gotime \<Rightarrow> goContext \<Rightarrow> TupleFilter option \<Rightarrow> 's \<Rightarrow> goError + RelationTuple list"
  ts_CheckDirect :: "gotime \<Rightarrow> goContext \<Rightarrow> str \<Rightarrow> str \<Rightarrow> str \<Rightarrow> str \<Rightarrow> str \<Rightarrow> 's \<Rightarrow> goError + bool"
  ts_ListRelatedObjects :: "gotime \<Rightarrow> goContext \<Rightarrow> str \<Rightarrow> str \<Rightarrow> str \<Rightarrow> 's \<Rightarrow> goError + ObjectRef list"
  ts_ListSubjects :: "gotime \<Rightarrow> goContext \<Rightarrow> str \<Rightarrow> str \<Rightarrow> str \<Rightarrow> 's \<Rightarrow> goError + SubjectRef list"
  ts_Expand :: "gotime \<Rightarrow> goContext \<Rightarrow> str \<Rightarrow> str \<Rightarrow> str \<Rightarrow> 's \<Rightarrow> goError + SubjectTree"
  ts_CheckDirectCrossTenant :: "gotime \<Rightarrow> str \<Rightarrow> str \<Rightarrow> str \<Rightarrow> str \<Rightarrow> str \<Rightarrow> str \<Rightarrow> 's \<Rightarrow> goError + bool"
  ts_GetObjectAttributes :: "goContext \<Rightarrow> str \<Rightarrow> str \<Rightarrow> 's \<Rightarrow> goError + gomap option"
  ts_SetObjectAttributes :: "gotime \<Rightarrow> goContext \<Rightarrow> str \<Rightarrow> str \<Rightarrow> gomap option \<Rightarrow> 's \<Rightarrow> (goError + unit) \<times> 's"
  ts_ListObjectAttributes :: "goContext \<Rightarrow> str \<Rightarrow> 's \<Rightarrow> goError + AttributesItem list"
  ts_GetSubjectAttributes :: "goContext \<Rightarrow> str \<Rightarrow> str \<Rightarrow> 's \<Rightarrow> goError + gomap option"
  ts_SetSubjectAttributes :: "gotime \<Rightarrow> goContext \<Rightarrow> str \<Rightarrow> str \<Rightarrow> gomap option \<Rightarrow> 's \<Rightarrow> (goError + unit) \<times> 's"
  ts_ListSubjectAttributes :: "goContext \<Rightarrow> str \<Rightarrow> 's \<Rightarrow> goError + AttributesItem list"
  ts_AppendChangelog :: "gotime \<Rightarrow> goContext \<Rightarrow> ChangelogEntry \<Rightarrow> 's \<Rightarrow> (goError + unit) \<times> 's"
  ts_ReadChangelog :: "goContext \<Rightarrow> 64 word \<Rightarrow> int \<Rightarrow> 's \<Rightarrow> goError + ChangelogEntry list"
  ts_LatestSequence :: "goContext \<Rightarrow> 's \<Rightarrow> goError + 64 word"
  ts_CountTuples :: "gotime \<Rightarrow> goContext \<Rightarrow> 's \<Rightarrow> goError + nat"
  ts_PurgeTenantData :: "goContext \<Rightarrow> 's \<Rightarrow> (goError + unit) \<times> 's"
  ts_ExportTenantSnapshot :: "gotime \<Rightarrow> goContext \<Rightarrow> 's \<Rightarrow> goError + RelationTuple list"

text \<open>The memory store holds its lock during a call and changes nothing when it returns an error.\<close>

definition locked :: "('s \<Rightarrow> goError + 's) \<Rightarrow> 's \<Rightarrow> (goError + unit) \<times> 's" where
  "locked f s = (case f s of Inl e \<Rightarrow> (Inl e, s) | Inr s' \<Rightarrow> (Inr (), s'))"

definition memoryStore :: "Store TupleStore" where
  "memoryStore =
     \<lparr>ts_CreateTenant = (\<lambda>now t. locked (CreateTenant now t)), ts_GetTenant = GetTenant, ts_UpdateTenant = (\<lambda>now t. locked (UpdateTenant now t)),
      ts_ListTenants = ListTenants, ts_WriteTuple = (\<lambda>now ctx t. locked (WriteTuple now ctx t)),
      ts_WriteTuples = (\<lambda>now ctx ts. locked (WriteTuples now ctx ts)), ts_DeleteTuple = (\<lambda>now ctx t. locked (DeleteTuple now ctx t)),
      ts_ReadTuples = ReadTuples, ts_CheckDirect = CheckDirect, ts_ListRelatedObjects = ListRelatedObjects, ts_ListSubjects = ListSubjects,
      ts_Expand = Expand, ts_CheckDirectCrossTenant = CheckDirectCrossTenant, ts_GetObjectAttributes = GetObjectAttributes,
      ts_SetObjectAttributes = (\<lambda>now ctx ty i attrs. locked (SetObjectAttributes ctx ty i attrs)), ts_ListObjectAttributes = ListObjectAttributes,
      ts_GetSubjectAttributes = GetSubjectAttributes,
      ts_SetSubjectAttributes = (\<lambda>now ctx ty i attrs. locked (SetSubjectAttributes ctx ty i attrs)), ts_ListSubjectAttributes = ListSubjectAttributes,
      ts_AppendChangelog = (\<lambda>now ctx e. locked (AppendChangelog now ctx e)), ts_ReadChangelog = ReadChangelog, ts_LatestSequence = LatestSequence,
      ts_CountTuples = CountTuples, ts_PurgeTenantData = (\<lambda>ctx. locked (PurgeTenantData ctx)), ts_ExportTenantSnapshot = ExportTenantSnapshot\<rparr>"

definition postgresStore :: "pgEnv \<Rightarrow> database TupleStore" where
  "postgresStore pg =
     \<lparr>ts_CreateTenant = pgCreateTenant pg, ts_GetTenant = pgGetTenant, ts_UpdateTenant = pgUpdateTenant pg, ts_ListTenants = pgListTenants pg,
      ts_WriteTuple = pgWriteTuple pg, ts_WriteTuples = pgWriteTuples pg, ts_DeleteTuple = pgDeleteTuple pg, ts_ReadTuples = pgReadTuples pg,
      ts_CheckDirect = pgCheckDirect, ts_ListRelatedObjects = pgListRelatedObjects pg, ts_ListSubjects = pgListSubjects pg, ts_Expand = pgExpand pg,
      ts_CheckDirectCrossTenant = pgCheckDirectCrossTenant, ts_GetObjectAttributes = pgGetObjectAttributes,
      ts_SetObjectAttributes = pgSetObjectAttributes pg, ts_ListObjectAttributes = pgListObjectAttributes pg,
      ts_GetSubjectAttributes = pgGetSubjectAttributes, ts_SetSubjectAttributes = pgSetSubjectAttributes pg,
      ts_ListSubjectAttributes = pgListSubjectAttributes pg, ts_AppendChangelog = pgAppendChangelog pg, ts_ReadChangelog = pgReadChangelog,
      ts_LatestSequence = pgLatestSequence, ts_CountTuples = pgCountTuples, ts_PurgeTenantData = pgPurgeTenantData,
      ts_ExportTenantSnapshot = pgExportTenantSnapshot pg\<rparr>"

section \<open>The manager, the context, the lookups of a check\<close>

definition CreateOn :: "'s TupleStore \<Rightarrow> gotime \<Rightarrow> str \<Rightarrow> str \<Rightarrow> str \<Rightarrow> 's \<Rightarrow> (goError + Tenant) \<times> 's" where
  "CreateOn ops now ident displayName mode s =
     (case ValidateTenantID ident of Inl e \<Rightarrow> (Inl e, s)
      | Inr _ \<Rightarrow>
          let t = \<lparr>TenantIdent = ident, DisplayName = (if displayName = [] then ident else displayName), ParentTenantID = [],
                   Status = TenantPending, SchemaMode = mode, SharedSchemaRef = [], Config = DefaultTenantConfig,
                   TenantCreatedAt = now, TenantUpdatedAt = 0\<rparr>
          in (case ts_CreateTenant ops now t s of (Inl e, s') \<Rightarrow> (Inl (CreateTenantFailed e), s') | (Inr _, s') \<Rightarrow> (Inr t, s')))"

text \<open>A manager's operation on the status of a tenant: read it, refuse it or write it back.\<close>

definition updateStatusOn :: "'s TupleStore \<Rightarrow> (str \<Rightarrow> goError option) \<Rightarrow> str \<Rightarrow> gotime \<Rightarrow> str \<Rightarrow> 's \<Rightarrow> (goError + unit) \<times> 's" where
  "updateStatusOn ops refuse status now tid s =
     (case ts_GetTenant ops tid s of Inl e \<Rightarrow> (Inl e, s)
      | Inr t \<Rightarrow> (case refuse (Status t) of Some e \<Rightarrow> (Inl e, s) | None \<Rightarrow> ts_UpdateTenant ops now (t\<lparr>Status := status\<rparr>) s))"

definition ActivateOn :: "'s TupleStore \<Rightarrow> gotime \<Rightarrow> str \<Rightarrow> 's \<Rightarrow> (goError + unit) \<times> 's" where
  "ActivateOn ops = updateStatusOn ops (\<lambda>st. if st = TenantDeleted then Some ErrTenantDeleted else None) TenantActive"

definition SuspendOn :: "'s TupleStore \<Rightarrow> gotime \<Rightarrow> str \<Rightarrow> 's \<Rightarrow> (goError + unit) \<times> 's" where
  "SuspendOn ops = updateStatusOn ops (\<lambda>st. if st \<noteq> TenantActive then Some (ErrInvalidStateTransition st) else None) TenantSuspended"

definition DeleteOn :: "'s TupleStore \<Rightarrow> gotime \<Rightarrow> str \<Rightarrow> 's \<Rightarrow> (goError + unit) \<times> 's" where
  "DeleteOn ops = updateStatusOn ops (\<lambda>st. if st = TenantDeleted then Some ErrTenantDeleted else None) TenantDeleted"

definition ensureBootstrapTenantOn :: "'s TupleStore \<Rightarrow> gotime \<Rightarrow> 's \<Rightarrow> (goError + unit) \<times> 's" where
  "ensureBootstrapTenantOn ops now s =
     (case ts_GetTenant ops bootstrapTenantID s of
        Inl e \<Rightarrow>
          if errRoot e = ErrTenantNotFound
          then bindS (CreateOn ops now bootstrapTenantID (js ''Super Tenant'') SchemaOwn s) (\<lambda>_ s1. ActivateOn ops now bootstrapTenantID s1)
          else (Inl e, s)
      | Inr t \<Rightarrow> if Status t = TenantActive then (Inr (), s) else ts_UpdateTenant ops now (t\<lparr>Status := TenantActive\<rparr>) s)"

definition BuildContextOn :: "'s TupleStore \<Rightarrow> goContext \<Rightarrow> 's \<Rightarrow> str \<Rightarrow> goError + goContext" where
  "BuildContextOn ops ctx s tid =
     (case ts_GetTenant ops tid s of
        Inl e \<Rightarrow> Inl (BuildContextFailed tid e)
      | Inr t \<Rightarrow> Inr (WithTenantContext ctx \<lparr>CtxTenantID = tid, CtxTenant = t, CtxConfig = MergeConfig t None\<rparr>))"

definition lookupsOn :: "'s TupleStore \<Rightarrow> gotime \<Rightarrow> goContext \<Rightarrow> 's \<Rightarrow> lookups" where
  "lookupsOn ops now ctx s =
     \<lparr>lk_direct = (\<lambda>ot oi r st si. ts_CheckDirect ops now ctx ot oi r st si s), lk_related = (\<lambda>ot oi r. ts_ListRelatedObjects ops now ctx ot oi r s),
      lk_subjects = (\<lambda>ot oi r. ts_ListSubjects ops now ctx ot oi r s), lk_objAttrs = (\<lambda>ty i. ts_GetObjectAttributes ops ctx ty i s),
      lk_subAttrs = (\<lambda>ty i. ts_GetSubjectAttributes ops ctx ty i s)\<rparr>"

section \<open>Handlers\<close>

text \<open>The early return after a call that changes the store.\<close>

definition orStore ::
  "(goError \<Rightarrow> nat) \<Rightarrow> ('p, 's) ServerOn \<Rightarrow> (goError + 'a) \<times> 's \<Rightarrow> ('a \<Rightarrow> ('p, 's) ServerOn \<Rightarrow> goResponse \<times> ('p, 's) ServerOn) \<Rightarrow>
   goResponse \<times> ('p, 's) ServerOn" where
  "orStore status srv r f =
     (case r of (Inl e, s) \<Rightarrow> (writeError (status e) e, srv\<lparr>srv_store := s\<rparr>) | (Inr x, s) \<Rightarrow> f x (srv\<lparr>srv_store := s\<rparr>))"

definition tenantCtxFromPathOn :: "'s TupleStore \<Rightarrow> goRequest \<Rightarrow> 's \<Rightarrow> goError + goContext" where
  "tenantCtxFromPathOn ops r s = (let tid = PathValue r 0 in if tid = [] then Inl MissingTenantID else BuildContextOn ops None s tid)"

definition tenantCtxFromHeaderOn :: "'s TupleStore \<Rightarrow> goRequest \<Rightarrow> 's \<Rightarrow> goError + goContext" where
  "tenantCtxFromHeaderOn ops r s = (let tid = gr_tenantHeader r in if tid = [] then Inl MissingTenantHeader else BuildContextOn ops None s tid)"

definition handleCreateTenantOn :: "'s TupleStore \<Rightarrow> gotime \<Rightarrow> goRequest \<Rightarrow> ('p, 's) ServerOn \<Rightarrow> goResponse \<times> ('p, 's) ServerOn" where
  "handleCreateTenantOn ops now r srv =
     orFail bad srv (readJSON r decodeCreateTenant) (\<lambda>req.
       let mode = (if CtSchemaMode req = [] then SchemaOwn else CtSchemaMode req) in
       if CtID req = [] then (writeError 400 (Required ''id''), srv)
       else if mode \<notin> {SchemaOwn, SchemaShared, SchemaInherited} then (writeError 400 InvalidSchemaMode, srv)
       else if mode = SchemaShared \<and> CtSharedSchemaRef req = [] then (writeError 400 SharedRefRequired, srv)
       else orStore bad srv (CreateOn ops now (CtID req) (CtDisplayName req) mode (srv_store srv)) (\<lambda>t srv1.
         if CtParentTenantID req \<noteq> [] \<or> CtSharedSchemaRef req \<noteq> [] then
           let t1 = t\<lparr>ParentTenantID := CtParentTenantID req, SharedSchemaRef := CtSharedSchemaRef req\<rparr> in
           orStore errStatus srv1 (ts_UpdateTenant ops now t1 (srv_store srv1)) (\<lambda>_ srv2. (Reply 201 (TenantBody t1), srv2))
         else (Reply 201 (TenantBody t), srv1)))"

definition handleListTenantsOn :: "'s TupleStore \<Rightarrow> goRequest \<Rightarrow> ('p, 's) ServerOn \<Rightarrow> goResponse" where
  "handleListTenantsOn ops r srv =
     orElse bad (nonNegativeParam r ''limit'') (\<lambda>limit.
     orElse bad (nonNegativeParam r ''offset'') (\<lambda>offset.
     orElse (\<lambda>_. 500) (ts_ListTenants ops (Some \<lparr>FilterStatus = queryValue r ''status'', FilterParentID = queryValue r ''parent_id'',
         FilterLimit = limit, FilterOffset = offset\<rparr>) (srv_store srv)) (\<lambda>ts.
       Reply 200 (TenantsBody ts (length ts)))))"

definition handleGetTenantOn :: "'s TupleStore \<Rightarrow> goRequest \<Rightarrow> ('p, 's) ServerOn \<Rightarrow> goResponse" where
  "handleGetTenantOn ops r srv = orElse errStatus (ts_GetTenant ops (PathValue r 0) (srv_store srv)) (\<lambda>t. Reply 200 (TenantBody t))"

definition handleDeleteTenantOn :: "'s TupleStore \<Rightarrow> gotime \<Rightarrow> goRequest \<Rightarrow> ('p, 's) ServerOn \<Rightarrow> goResponse \<times> ('p, 's) ServerOn" where
  "handleDeleteTenantOn ops now r srv = orStore errStatus srv (DeleteOn ops now (PathValue r 0) (srv_store srv)) (\<lambda>_ srv'. (Reply 204 NoContent, srv'))"

definition tenantAnswerOn :: "'s TupleStore \<Rightarrow> str \<Rightarrow> 's \<Rightarrow> goResponse" where
  "tenantAnswerOn ops tid s = Reply 200 (case ts_GetTenant ops tid s of Inr t \<Rightarrow> TenantBody t | Inl _ \<Rightarrow> NullBody)"

definition handleActivateTenantOn :: "'s TupleStore \<Rightarrow> gotime \<Rightarrow> goRequest \<Rightarrow> ('p, 's) ServerOn \<Rightarrow> goResponse \<times> ('p, 's) ServerOn" where
  "handleActivateTenantOn ops now r srv =
     orStore errStatus srv (ActivateOn ops now (PathValue r 0) (srv_store srv)) (\<lambda>_ srv'. (tenantAnswerOn ops (PathValue r 0) (srv_store srv'), srv'))"

definition handleSuspendTenantOn :: "'s TupleStore \<Rightarrow> gotime \<Rightarrow> goRequest \<Rightarrow> ('p, 's) ServerOn \<Rightarrow> goResponse \<times> ('p, 's) ServerOn" where
  "handleSuspendTenantOn ops now r srv =
     orStore errStatus srv (SuspendOn ops now (PathValue r 0) (srv_store srv)) (\<lambda>_ srv'. (tenantAnswerOn ops (PathValue r 0) (srv_store srv'), srv'))"

definition handleLoadSchemaOn :: "'s TupleStore \<Rightarrow> 'p serverEnv \<Rightarrow> gotime \<Rightarrow> goRequest \<Rightarrow> ('p, 's) ServerOn \<Rightarrow> goResponse \<times> ('p, 's) ServerOn" where
  "handleLoadSchemaOn ops env now r srv =
     (let tid = PathValue r 0; source = gr_text r in
      orFail errStatus srv (ts_GetTenant ops tid (srv_store srv)) (\<lambda>_.
      orFail (\<lambda>_. 422) srv (case env_yaml env source of None \<Rightarrow> Inl ParseFailed | Some raw \<Rightarrow> Inr raw) (\<lambda>raw.
      orFail (\<lambda>_. 422) srv (Compile (exprCompile (env_expr env)) (env_hash env) now raw source) (\<lambda>cs.
        if Validate cs \<noteq> [] then (Reply 422 (ValidationBody (Validate cs)), srv)
        else (Reply 200 (SchemaBody (schemaReply tid cs source)),
              srv\<lparr>srv_eng := LoadSchema tid cs (srv_eng srv), srv_schemas := (srv_schemas srv)(tid \<mapsto> source),
                srv_compiled := (srv_compiled srv)(tid \<mapsto> cs)\<rparr>)))))"

definition handleWriteTupleOn :: "'s TupleStore \<Rightarrow> 'p serverEnv \<Rightarrow> gotime \<Rightarrow> goRequest \<Rightarrow> ('p, 's) ServerOn \<Rightarrow> goResponse \<times> ('p, 's) ServerOn" where
  "handleWriteTupleOn ops env now r srv =
     orFail tenantContextErrStatus srv (tenantCtxFromPathOn ops r (srv_store srv)) (\<lambda>tCtx.
     orFail bad srv (readJSON r (decodeTuple (env_int64 env))) (\<lambda>req.
     orFail bad srv (validateTupleRequest req) (\<lambda>_.
     orFail bad srv (tupleFromWriteRequest (env_rfc3339 env) req now) (\<lambda>tuple.
     orStore errStatus srv (ts_WriteTuple ops now tCtx tuple (srv_store srv)) (\<lambda>_ srv'. (Reply 201 OkBody, srv'))))))"

definition handleWriteTuplesOn :: "'s TupleStore \<Rightarrow> 'p serverEnv \<Rightarrow> gotime \<Rightarrow> goRequest \<Rightarrow> ('p, 's) ServerOn \<Rightarrow> goResponse \<times> ('p, 's) ServerOn" where
  "handleWriteTuplesOn ops env now r srv =
     orFail tenantContextErrStatus srv (tenantCtxFromPathOn ops r (srv_store srv)) (\<lambda>tCtx.
     orFail bad srv (readJSON r (decodeBatchTuples (env_int64 env))) (\<lambda>reqs.
       if reqs = [] then (writeError 400 NoTuples, srv)
       else orFail bad srv (batchTuples (env_rfc3339 env) now 0 reqs) (\<lambda>tuples.
         orStore errStatus srv (ts_WriteTuples ops now tCtx tuples (srv_store srv)) (\<lambda>_ srv'. (Reply 201 (OkCountBody (length tuples)), srv')))))"

definition handleDeleteTupleOn :: "'s TupleStore \<Rightarrow> 'p serverEnv \<Rightarrow> gotime \<Rightarrow> goRequest \<Rightarrow> ('p, 's) ServerOn \<Rightarrow> goResponse \<times> ('p, 's) ServerOn" where
  "handleDeleteTupleOn ops env now r srv =
     orFail tenantContextErrStatus srv (tenantCtxFromPathOn ops r (srv_store srv)) (\<lambda>tCtx.
     orFail bad srv (readJSON r (decodeTuple (env_int64 env))) (\<lambda>req.
     orFail bad srv (validateTupleRequest req) (\<lambda>_.
     orStore errStatus srv (ts_DeleteTuple ops now tCtx (tupleFromRequest req) (srv_store srv)) (\<lambda>_ srv'. (Reply 204 NoContent, srv')))))"

definition handleReadTuplesOn :: "'s TupleStore \<Rightarrow> gotime \<Rightarrow> goRequest \<Rightarrow> ('p, 's) ServerOn \<Rightarrow> goResponse" where
  "handleReadTuplesOn ops now r srv =
     orElse tenantContextErrStatus (tenantCtxFromPathOn ops r (srv_store srv)) (\<lambda>tCtx.
     orElse bad (let v = queryValue r ''include_expired'' in if v = [] then Inr False
         else case ParseBool v of None \<Rightarrow> Inl (NotABoolean ''include_expired'') | Some b \<Rightarrow> Inr b) (\<lambda>includeExpired.
     orElse errStatus (ts_ReadTuples ops now tCtx (Some (tupleFilterOf r includeExpired)) (srv_store srv)) (\<lambda>ts.
       Reply 200 (TuplesBody ts (length ts)))))"

text \<open>The two handlers that set attributes, on the setter they call, and those that get and list them.\<close>

definition setAttributesOn ::
  "'s TupleStore \<Rightarrow> (gotime \<Rightarrow> goContext \<Rightarrow> str \<Rightarrow> str \<Rightarrow> gomap option \<Rightarrow> 's \<Rightarrow> (goError + unit) \<times> 's) \<Rightarrow> gotime \<Rightarrow> goRequest \<Rightarrow> ('p, 's) ServerOn \<Rightarrow>
   goResponse \<times> ('p, 's) ServerOn" where
  "setAttributesOn ops setter now r srv =
     orFail tenantContextErrStatus srv (tenantCtxFromPathOn ops r (srv_store srv)) (\<lambda>tCtx.
     orFail bad srv (readJSON r decodeAttributes) (\<lambda>attrs.
     orStore errStatus srv (setter now tCtx (PathValue r 1) (PathValue r 2) attrs (srv_store srv)) (\<lambda>_ srv'.
       (Reply 200 (AttributesBody attrs), srv'))))"

definition getAttributesOn :: "'s TupleStore \<Rightarrow> (goContext \<Rightarrow> str \<Rightarrow> str \<Rightarrow> 's \<Rightarrow> goError + gomap option) \<Rightarrow> goRequest \<Rightarrow> ('p, 's) ServerOn \<Rightarrow> goResponse" where
  "getAttributesOn ops getter r srv =
     orElse tenantContextErrStatus (tenantCtxFromPathOn ops r (srv_store srv)) (\<lambda>tCtx.
     orElse errStatus (getter tCtx (PathValue r 1) (PathValue r 2) (srv_store srv)) (\<lambda>attrs. Reply 200 (AttributesBody attrs)))"

definition listAttributesOn :: "'s TupleStore \<Rightarrow> (goContext \<Rightarrow> str \<Rightarrow> 's \<Rightarrow> goError + AttributesItem list) \<Rightarrow> goRequest \<Rightarrow> ('p, 's) ServerOn \<Rightarrow> goResponse" where
  "listAttributesOn ops lister r srv =
     orElse tenantContextErrStatus (tenantCtxFromPathOn ops r (srv_store srv)) (\<lambda>tCtx.
     orElse errStatus (lister tCtx (queryValue r ''type'') (srv_store srv)) (\<lambda>items. Reply 200 (ItemsBody items (length items))))"

definition handleReadChangelogOn :: "'s TupleStore \<Rightarrow> goRequest \<Rightarrow> ('p, 's) ServerOn \<Rightarrow> goResponse" where
  "handleReadChangelogOn ops r srv =
     orElse tenantContextErrStatus (tenantCtxFromPathOn ops r (srv_store srv)) (\<lambda>tCtx.
     orElse bad (let v = queryValue r ''since_seq'' in if v = [] then Inr 0
         else case parseUint 64 v of None \<Rightarrow> Inl (NotAnInteger ''since_seq'') | Some n \<Rightarrow> Inr (of_nat n)) (\<lambda>sinceSeq.
     orElse bad (let v = queryValue r ''limit'' in if v = [] then Inr 100
         else bindE (parseNonNegativeInt v ''limit'') (\<lambda>n. Inr (if 0 < n then n else 100))) (\<lambda>limit.
     orElse errStatus (ts_ReadChangelog ops tCtx sinceSeq limit (srv_store srv)) (\<lambda>entries.
       Reply 200 (ChangelogBody entries (length entries)
         (case ts_LatestSequence ops tCtx (srv_store srv) of Inr n \<Rightarrow> n | Inl _ \<Rightarrow> 0))))))"

definition handleExpandOn :: "'s TupleStore \<Rightarrow> gotime \<Rightarrow> goRequest \<Rightarrow> ('p, 's) ServerOn \<Rightarrow> goResponse" where
  "handleExpandOn ops now r srv =
     orElse tenantContextErrStatus (tenantCtxFromPathOn ops r (srv_store srv)) (\<lambda>tCtx.
     orElse bad (readJSON r decodeExpand) (\<lambda>req.
       if TrimSpace (ExObjectType req) = [] \<or> TrimSpace (ExObjectID req) = [] \<or> TrimSpace (ExRelation req) = []
       then writeError 400 ExpandFieldsRequired
       else orElse errStatus (ts_Expand ops now tCtx (ExObjectType req) (ExObjectID req) (ExRelation req) (srv_store srv)) (\<lambda>tree.
         Reply 200 (TreeBody tree))))"

definition checkDecisionOn :: "'s TupleStore \<Rightarrow> 'p serverEnv \<Rightarrow> gotime \<Rightarrow> goContext \<Rightarrow> ('p, 's) ServerOn \<Rightarrow> CheckRequest \<Rightarrow> bool" where
  "checkDecisionOn ops env now tCtx srv req =
     (case Check (env_expr env) (srv_eng srv) (lookupsOn ops now tCtx (srv_store srv)) tCtx req of Inl _ \<Rightarrow> False | Inr result \<Rightarrow> Allowed result)"

definition handleEvaluationOn :: "'s TupleStore \<Rightarrow> 'p serverEnv \<Rightarrow> gotime \<Rightarrow> goRequest \<Rightarrow> ('p, 's) ServerOn \<Rightarrow> goResponse" where
  "handleEvaluationOn ops env now r srv =
     orElse bad (tenantCtxFromHeaderOn ops r (srv_store srv)) (\<lambda>tCtx.
     orElse bad (readJSON r decodeEvaluation) (\<lambda>req.
       Reply 200 (DecisionBody (checkDecisionOn ops env now tCtx srv (checkRequestOf req)))))"

definition handleEvaluationsOn :: "'s TupleStore \<Rightarrow> 'p serverEnv \<Rightarrow> gotime \<Rightarrow> goRequest \<Rightarrow> ('p, 's) ServerOn \<Rightarrow> goResponse" where
  "handleEvaluationsOn ops env now r srv =
     orElse bad (tenantCtxFromHeaderOn ops r (srv_store srv)) (\<lambda>tCtx.
     orElse bad (readJSON r decodeEvaluations) (\<lambda>req.
       Reply 200 (DecisionsBody (map (\<lambda>item. checkDecisionOn ops env now tCtx srv (itemRequestOf (AbSubject req) item)) (AbEvaluations req)))))"

definition serveOn :: "'s TupleStore \<Rightarrow> 'p serverEnv \<Rightarrow> gotime \<Rightarrow> handler \<Rightarrow> goRequest \<Rightarrow> ('p, 's) ServerOn \<Rightarrow> goResponse \<times> ('p, 's) ServerOn" where
  "serveOn ops env now h r srv =
     (case h of
        HandleHealth \<Rightarrow> (handleHealth, srv)
      | HandleCreateTenant \<Rightarrow> handleCreateTenantOn ops now r srv
      | HandleListTenants \<Rightarrow> (handleListTenantsOn ops r srv, srv)
      | HandleGetTenant \<Rightarrow> (handleGetTenantOn ops r srv, srv)
      | HandleDeleteTenant \<Rightarrow> handleDeleteTenantOn ops now r srv
      | HandleActivateTenant \<Rightarrow> handleActivateTenantOn ops now r srv
      | HandleSuspendTenant \<Rightarrow> handleSuspendTenantOn ops now r srv
      | HandleLoadSchema \<Rightarrow> handleLoadSchemaOn ops env now r srv
      | HandleGetSchema \<Rightarrow> (handleGetSchema r srv, srv)
      | HandleWriteTuples \<Rightarrow> handleWriteTuplesOn ops env now r srv
      | HandleWriteTuple \<Rightarrow> handleWriteTupleOn ops env now r srv
      | HandleDeleteTuple \<Rightarrow> handleDeleteTupleOn ops env now r srv
      | HandleReadTuples \<Rightarrow> (handleReadTuplesOn ops now r srv, srv)
      | HandleListObjectAttributes \<Rightarrow> (listAttributesOn ops (ts_ListObjectAttributes ops) r srv, srv)
      | HandleGetObjectAttributes \<Rightarrow> (getAttributesOn ops (ts_GetObjectAttributes ops) r srv, srv)
      | HandleSetObjectAttributes \<Rightarrow> setAttributesOn ops (ts_SetObjectAttributes ops) now r srv
      | HandleListSubjectAttributes \<Rightarrow> (listAttributesOn ops (ts_ListSubjectAttributes ops) r srv, srv)
      | HandleGetSubjectAttributes \<Rightarrow> (getAttributesOn ops (ts_GetSubjectAttributes ops) r srv, srv)
      | HandleSetSubjectAttributes \<Rightarrow> setAttributesOn ops (ts_SetSubjectAttributes ops) now r srv
      | HandleReadChangelog \<Rightarrow> (handleReadChangelogOn ops r srv, srv)
      | HandleExpand \<Rightarrow> (handleExpandOn ops now r srv, srv)
      | HandleEvaluation \<Rightarrow> (handleEvaluationOn ops env now r srv, srv)
      | HandleEvaluations \<Rightarrow> (handleEvaluationsOn ops env now r srv, srv))"

section \<open>Starting the server\<close>

text \<open>\<^verbatim>\<open>strconv.ParseInt\<close> in base ten, for a width; \<open>getenv\<close> reads as the empty text what is not set.\<close>

definition parseInt :: "nat \<Rightarrow> str \<Rightarrow> int option" where
  "parseInt w s =
     (let neg = startsWith s [0x2D]; ds = (if neg \<or> startsWith s [0x2B] then tl s else s) in
      if ds \<noteq> [] \<and> list_all isDigit ds \<and> (if neg then digitsVal ds \<le> 2 ^ (w - 1) else digitsVal ds < 2 ^ (w - 1))
      then Some (if neg then - int (digitsVal ds) else int (digitsVal ds)) else None)"

datatype startError = DatabaseUrlRequired | InvalidMaxConns str | StoreFailed | BootstrapFailed goError

record startConfig =
  cfg_addr :: str
  cfg_dsn :: str
  cfg_maxConns :: "32 word"

definition readConfig :: "(string \<Rightarrow> str) \<Rightarrow> startError + startConfig" where
  "readConfig getenv =
     (let addr = (if getenv ''ZANGUARD_ADDR'' = [] then js '':1997'' else getenv ''ZANGUARD_ADDR'');
          dsn = getenv ''DATABASE_URL''; raw = getenv ''ZANGUARD_DB_MAX_CONNS'' in
      if dsn = [] then Inl DatabaseUrlRequired
      else if raw = [] then Inr \<lparr>cfg_addr = addr, cfg_dsn = dsn, cfg_maxConns = 10\<rparr>
      else (case parseInt 32 raw of
          None \<Rightarrow> Inl (InvalidMaxConns raw)
        | Some n \<Rightarrow> if n \<le> 0 then Inl (InvalidMaxConns raw) else Inr \<lparr>cfg_addr = addr, cfg_dsn = dsn, cfg_maxConns = word_of_int n\<rparr>))"

text \<open>
  \<open>main\<close> up to \<^verbatim>\<open>srv.Start\<close>: it ends the process with an error or listens on an address with a server. The argument
  \<open>opens\<close> says whether the driver makes a pool of connections for a data source.
\<close>

definition serverMain :: "pgEnv \<Rightarrow> (string \<Rightarrow> str) \<Rightarrow> (str \<Rightarrow> 32 word \<Rightarrow> bool) \<Rightarrow> gotime \<Rightarrow> database \<Rightarrow>
    (startError + str \<times> ('p, database) ServerOn) \<times> database" where
  "serverMain pg getenv opens now db =
     (case readConfig getenv of Inl e \<Rightarrow> (Inl e, db)
      | Inr cfg \<Rightarrow>
          if \<not> opens (cfg_dsn cfg) (cfg_maxConns cfg) then (Inl StoreFailed, db)
          else (case ensureBootstrapTenantOn (postgresStore pg) now db of
              (Inl e, db') \<Rightarrow> (Inl (BootstrapFailed e), db')
            | (Inr _, db') \<Rightarrow> (Inr (cfg_addr cfg, NewServer db' (NewEngine DefaultMaxCheckDepth)), db')))"

text \<open>
  The server over the time of several processes: a step is a request, or a new process that starts on the store the last one left and
  has loaded no schema.
\<close>

inductive processStep :: "'s TupleStore \<Rightarrow> 'p serverEnv \<Rightarrow> ('p, 's) ServerOn \<Rightarrow> ('p, 's) ServerOn \<Rightarrow> bool" for ops env where
  request: "serveOn ops env now h r srv = (resp, srv') \<Longrightarrow> processStep ops env srv srv'"
| restart: "ensureBootstrapTenantOn ops now (srv_store srv) = (Inr (), s) \<Longrightarrow> processStep ops env srv (NewServer s (NewEngine DefaultMaxCheckDepth))"

inductive serverRunOn :: "'s TupleStore \<Rightarrow> 'p serverEnv \<Rightarrow> 's \<Rightarrow> ('p, 's) ServerOn \<Rightarrow> bool" for ops env s0 where
  start: "ensureBootstrapTenantOn ops now s0 = (Inr (), s) \<Longrightarrow> serverRunOn ops env s0 (NewServer s (NewEngine DefaultMaxCheckDepth))"
| step: "serverRunOn ops env s0 srv \<Longrightarrow> processStep ops env srv srv' \<Longrightarrow> serverRunOn ops env s0 srv'"

definition serveAllOn :: "'s TupleStore \<Rightarrow> 'p serverEnv \<Rightarrow> (gotime \<times> handler \<times> goRequest) list \<Rightarrow> ('p, 's) ServerOn \<Rightarrow> ('p, 's) ServerOn" where
  "serveAllOn ops env reqs srv = fold (\<lambda>(now, h, r) s. snd (serveOn ops env now h r s)) reqs srv"

section \<open>On the memory store\<close>

lemma locked_simps: "f s = Inl e \<Longrightarrow> locked f s = (Inl e, s)" "f s = Inr s' \<Longrightarrow> locked f s = (Inr (), s')"
  by (simp_all add: locked_def)

lemma memoryStore_sel [simp]:
  "ts_CreateTenant memoryStore now t = locked (CreateTenant now t)" "ts_GetTenant memoryStore = GetTenant"
  "ts_UpdateTenant memoryStore now t = locked (UpdateTenant now t)" "ts_ListTenants memoryStore = ListTenants"
  "ts_WriteTuple memoryStore now ctx u = locked (WriteTuple now ctx u)" "ts_WriteTuples memoryStore now ctx us = locked (WriteTuples now ctx us)"
  "ts_DeleteTuple memoryStore now ctx u = locked (DeleteTuple now ctx u)" "ts_ReadTuples memoryStore = ReadTuples"
  "ts_GetObjectAttributes memoryStore = GetObjectAttributes" "ts_GetSubjectAttributes memoryStore = GetSubjectAttributes"
  "ts_SetObjectAttributes memoryStore now ctx ty i attrs = locked (SetObjectAttributes ctx ty i attrs)"
  "ts_SetSubjectAttributes memoryStore now ctx ty i attrs = locked (SetSubjectAttributes ctx ty i attrs)"
  "ts_ListObjectAttributes memoryStore = ListObjectAttributes" "ts_ListSubjectAttributes memoryStore = ListSubjectAttributes"
  "ts_ReadChangelog memoryStore = ReadChangelog" "ts_LatestSequence memoryStore = LatestSequence" "ts_Expand memoryStore = Expand"
  "ts_PurgeTenantData memoryStore ctx = locked (PurgeTenantData ctx)" "lookupsOn memoryStore now ctx s = memoryLookups now ctx s"
  by (simp_all add: memoryStore_def lookupsOn_def memoryLookups_def)

lemma BuildContext_memory: "BuildContextOn memoryStore = BuildContext"
  by (simp add: fun_eq_iff BuildContextOn_def BuildContext_def)

lemma contexts_memory [simp]: "tenantCtxFromPathOn memoryStore r s = tenantCtxFromPath r s" "tenantCtxFromHeaderOn memoryStore r s = tenantCtxFromHeader r s"
  by (simp_all add: tenantCtxFromPathOn_def tenantCtxFromPath_def tenantCtxFromHeaderOn_def tenantCtxFromHeader_def BuildContext_memory Let_def)

lemma manager_memory:
  "CreateOn memoryStore now ident name mode s = (case Create now ident name mode s of Inl e \<Rightarrow> (Inl e, s) | Inr (t, s') \<Rightarrow> (Inr t, s'))"
  "ActivateOn memoryStore now tid = locked (Activate now tid)" "SuspendOn memoryStore now tid = locked (Suspend now tid)"
  "DeleteOn memoryStore now tid = locked (Delete now tid)"
proof -
  show "CreateOn memoryStore now ident name mode s = (case Create now ident name mode s of Inl e \<Rightarrow> (Inl e, s) | Inr (t, s') \<Rightarrow> (Inr t, s'))"
    unfolding CreateOn_def Create_def Let_def memoryStore_sel locked_def by (cases "ValidateTenantID ident") (simp_all split: sum.split)
qed (auto simp: fun_eq_iff locked_def ActivateOn_def Activate_def SuspendOn_def Suspend_def DeleteOn_def Delete_def updateStatusOn_def bindE_Inr bindE_Inl
    split: sum.splits)

lemma activate_created:
  assumes "Create now ident name mode s = Inr (t, s1)"
  shows "\<exists>s2. Activate now' ident s1 = Inr s2"
proof -
  obtain t' where "map_of (st_tenants s1) ident = Some t'" "TenantIdent t' = ident" "Status t' = TenantPending"
    using assms by (auto simp: Create_def CreateTenant_def Let_def bindE_Inr update_conv' split: if_splits sum.splits)
  then show ?thesis by (simp add: Activate_def GetTenant_def UpdateTenant_def)
qed

lemma orStore_locked:
  "orStore status srv (locked f (srv_store srv)) (\<lambda>_ srv'. (g (srv_store srv'), srv')) = orFail status srv (f (srv_store srv)) (\<lambda>s. (g s, srv\<lparr>srv_store := s\<rparr>))"
  by (simp add: orStore_def orFail_def locked_def split: sum.split)

lemmas orStore_locked_const = orStore_locked [where g = "\<lambda>_. a" for a]

lemma tenantAnswer_memory: "tenantAnswerOn memoryStore = tenantAnswer"
  by (simp add: fun_eq_iff tenantAnswerOn_def tenantAnswer_def Get_def)

lemma handlers_memory:
  "handleCreateTenantOn memoryStore now r srv = handleCreateTenant now r srv"
  "handleDeleteTenantOn memoryStore now r srv = handleDeleteTenant now r srv"
  "handleActivateTenantOn memoryStore now r srv = handleActivateTenant now r srv"
  "handleSuspendTenantOn memoryStore now r srv = handleSuspendTenant now r srv"
  "handleLoadSchemaOn memoryStore env now r srv = handleLoadSchema env now r srv"
  "handleWriteTupleOn memoryStore env now r srv = handleWriteTuple env now r srv"
  "handleWriteTuplesOn memoryStore env now r srv = handleWriteTuples env now r srv"
  "handleDeleteTupleOn memoryStore env now r srv = handleDeleteTuple env now r srv"
  "setAttributesOn memoryStore (ts_SetObjectAttributes memoryStore) now r srv = handleSetObjectAttributes r srv"
  "setAttributesOn memoryStore (ts_SetSubjectAttributes memoryStore) now r srv = handleSetSubjectAttributes r srv"
proof -
  have c: "orStore bad srv (case c of Inl e \<Rightarrow> (Inl e, srv_store srv) | Inr (t, s') \<Rightarrow> (Inr t, s')) f =
      orFail bad srv c (\<lambda>(t, s). f t (srv\<lparr>srv_store := s\<rparr>))" for c f
    by (auto simp: orStore_def orFail_def split: sum.splits)
  have u: "orStore status v (locked g (srv_store v)) (\<lambda>_ w. (a, w)) = orFail status v (g (srv_store v)) (\<lambda>s. (a, v\<lparr>srv_store := s\<rparr>))" for status v g a
    by (rule orStore_locked_const)
  show "handleCreateTenantOn memoryStore now r srv = handleCreateTenant now r srv"
    unfolding handleCreateTenantOn_def handleCreateTenant_def manager_memory memoryStore_sel c Let_def u by (simp add: split_def cong: if_cong)
qed (simp_all add: handleDeleteTenantOn_def handleDeleteTenant_def handleActivateTenantOn_def handleActivateTenant_def handleSuspendTenantOn_def
    handleSuspendTenant_def tenantAnswer_memory handleLoadSchemaOn_def handleLoadSchema_def handleWriteTupleOn_def
    handleWriteTuple_def handleWriteTuplesOn_def handleWriteTuples_def handleDeleteTupleOn_def handleDeleteTuple_def setAttributesOn_def
    setAttributes_def handleSetObjectAttributes_def handleSetSubjectAttributes_def manager_memory orStore_locked [where g = "tenantAnswer tid" for tid] orStore_locked_const Get_def
    cong: if_cong)

lemma readers_memory:
  "handleListTenantsOn memoryStore r srv = handleListTenants r srv" "handleGetTenantOn memoryStore r srv = handleGetTenant r srv"
  "handleReadTuplesOn memoryStore now r srv = handleReadTuples now r srv"
  "getAttributesOn memoryStore (ts_GetObjectAttributes memoryStore) r srv = handleGetObjectAttributes r srv"
  "getAttributesOn memoryStore (ts_GetSubjectAttributes memoryStore) r srv = handleGetSubjectAttributes r srv"
  "listAttributesOn memoryStore (ts_ListObjectAttributes memoryStore) r srv = handleListObjectAttributes r srv"
  "listAttributesOn memoryStore (ts_ListSubjectAttributes memoryStore) r srv = handleListSubjectAttributes r srv"
  "handleReadChangelogOn memoryStore r srv = handleReadChangelog r srv" "handleExpandOn memoryStore now r srv = handleExpandRequest now r srv"
  "handleEvaluationOn memoryStore env now r srv = handleAuthZenEvaluation env now r srv"
  "handleEvaluationsOn memoryStore env now r srv = handleAuthZenEvaluations env now r srv"
  by (simp_all add: handleListTenantsOn_def handleListTenants_def ManagerList_def handleGetTenantOn_def handleGetTenant_def Get_def handleReadTuplesOn_def
      handleReadTuples_def getAttributesOn_def handleGetObjectAttributes_def handleGetSubjectAttributes_def listAttributesOn_def
      handleListObjectAttributes_def handleListSubjectAttributes_def handleReadChangelogOn_def handleReadChangelog_def handleExpandOn_def
      handleExpandRequest_def EngineExpand_def handleEvaluationOn_def handleAuthZenEvaluation_def handleEvaluationsOn_def handleAuthZenEvaluations_def
      checkDecisionOn_def checkDecision_def cong: if_cong)


end
