(* ===== verification/Server_On_Laws.thy ===== *)
theory Server_On_Laws
  imports Server_On
begin

text \<open>
  What the server promises on whatever implements its store. The locale \<open>tuple_store\<close> has the laws the handlers rely on, with an
  invariant and with the relation of stores whose data are the same; in it, what a request does to the store, to the life cycle of a tenant and to a
  tenant that has been deleted is proved once. \<open>live_store\<close> adds that the writes of the manager succeed. Both stores are
  interpretations; for PostgreSQL the invariant is that of the tables and of the rows of the tenants, and the data are the
  tables without the sequence.
\<close>

section \<open>The interface and its laws\<close>

definition statusIn :: "'s TupleStore \<Rightarrow> 's \<Rightarrow> str \<Rightarrow> str option" where
  "statusIn ops s tid = (case ts_GetTenant ops tid s of Inl _ \<Rightarrow> None | Inr t \<Rightarrow> Some (Status t))"

primrec callOn :: "'s TupleStore \<Rightarrow> gotime \<Rightarrow> goContext \<Rightarrow> dataCall \<Rightarrow> 's \<Rightarrow> (goError + unit) \<times> 's" where
  "callOn ops now ctx (CallWrite ts) = ts_WriteTuples ops now ctx ts"
| "callOn ops now ctx (CallDelete t) = ts_DeleteTuple ops now ctx t"
| "callOn ops now ctx (CallSetObject ty i attrs) = ts_SetObjectAttributes ops now ctx ty i attrs"
| "callOn ops now ctx (CallSetSubject ty i attrs) = ts_SetSubjectAttributes ops now ctx ty i attrs"
| "callOn ops now ctx CallPurge = ts_PurgeTenantData ops ctx"

definition tenantStates :: "str set" where
  "tenantStates = {TenantPending, TenantActive, TenantSuspended, TenantDeleted}"

text \<open>The requests on the data of a tenant, which is named in the path.\<close>

definition dataHandler :: "handler \<Rightarrow> bool" where
  "dataHandler h \<longleftrightarrow> h \<in> {HandleWriteTuples, HandleWriteTuple, HandleDeleteTuple, HandleReadTuples, HandleListObjectAttributes,
     HandleGetObjectAttributes, HandleSetObjectAttributes, HandleListSubjectAttributes, HandleGetSubjectAttributes, HandleSetSubjectAttributes,
     HandleReadChangelog, HandleExpand}"

lemma contextOn_Inr:
  "tenantCtxFromPathOn ops r s = Inr ctx \<Longrightarrow> forTenant ctx (PathValue r 0)"
  "tenantCtxFromHeaderOn ops r s = Inr ctx \<Longrightarrow> \<exists>t. ts_GetTenant ops (gr_tenantHeader r) s = Inr t \<and>
     ctx = Some \<lparr>CtxTenantID = gr_tenantHeader r, CtxTenant = t, CtxConfig = MergeConfig t None\<rparr>"
  by (auto simp: tenantCtxFromPathOn_def tenantCtxFromHeaderOn_def BuildContextOn_def WithTenantContext_def forTenant_def Let_def
      split: if_splits sum.splits)

lemma tenantContextErrStatus_error: "400 \<le> tenantContextErrStatus e"
  using errStatus_error [of e] by (simp add: tenantContextErrStatus_def Let_def)

lemma guards_succeed:
  "(\<And>e. 400 \<le> status e) \<Longrightarrow> succeeded (orElse status x f) \<longleftrightarrow> (\<exists>y. x = Inr y \<and> succeeded (f y))"
  "(\<And>e. 400 \<le> status e) \<Longrightarrow> succeeded (fst (orFail status v x g)) \<longleftrightarrow> (\<exists>y. x = Inr y \<and> succeeded (fst (g y)))"
  "(\<And>e. 400 \<le> status e) \<Longrightarrow> succeeded (fst (orStore status srv p k)) \<longleftrightarrow> (\<exists>y s. p = (Inr y, s) \<and> succeeded (fst (k y (srv\<lparr>srv_store := s\<rparr>))))"
  by (cases x; simp add: orElse_def orFail_def)+ (auto simp: orStore_def split: prod.splits sum.splits)

lemmas succeeding = guards_succeed tenantContextErrStatus_error errStatus_error

locale tuple_store =
  fixes ops :: "'s TupleStore" and inv :: "'s \<Rightarrow> bool" and same :: "'s \<Rightarrow> 's \<Rightarrow> bool"
  assumes same_refl: "same s s"
    and same_get: "same s s' \<Longrightarrow> ts_GetTenant ops tid s' = ts_GetTenant ops tid s"
    and get_name: "inv s \<Longrightarrow> ts_GetTenant ops tid s = Inr t \<Longrightarrow> TenantIdent t = tid"
    and create_law: "inv s \<Longrightarrow> ts_CreateTenant ops now t s = (x, s') \<Longrightarrow> tenantIDRegexp (TenantIdent t) \<Longrightarrow> Status t = TenantPending \<Longrightarrow>
      inv s' \<and> (isl x \<longrightarrow> same s s') \<and> (\<not> isl x \<longrightarrow> statusIn ops s (TenantIdent t) = None \<and>
        statusIn ops s' y = (if y = TenantIdent t then Some TenantPending else statusIn ops s y))"
    and update_law: "inv s \<Longrightarrow> ts_UpdateTenant ops now t s = (x, s') \<Longrightarrow> Status t \<in> tenantStates \<Longrightarrow>
      inv s' \<and> (isl x \<longrightarrow> same s s') \<and> (\<not> isl x \<longrightarrow> statusIn ops s' y = (if y = TenantIdent t then Some (Status t) else statusIn ops s y))"
    and one_tuple: "ts_WriteTuple ops now ctx u s = ts_WriteTuples ops now ctx [u] s"
    and call_law: "inv s \<Longrightarrow> callOn ops now ctx c s = (x, s') \<Longrightarrow> inv s' \<and> (isl x \<longrightarrow> same s s') \<and> statusIn ops s' y = statusIn ops s y"
    and gone_call: "statusIn ops s tid = Some TenantDeleted \<Longrightarrow> forTenant ctx tid \<Longrightarrow> c \<noteq> CallPurge \<Longrightarrow> isl (fst (callOn ops now ctx c s))"
    and gone_read: "statusIn ops s tid = Some TenantDeleted \<Longrightarrow> forTenant ctx tid \<Longrightarrow>
      isl (ts_ReadTuples ops now ctx f s) \<and> isl (ts_GetObjectAttributes ops ctx ty i s) \<and> isl (ts_GetSubjectAttributes ops ctx ty i s) \<and>
      isl (ts_ListObjectAttributes ops ctx ty s) \<and> isl (ts_ListSubjectAttributes ops ctx ty s) \<and> isl (ts_ReadChangelog ops ctx n l s) \<and>
      isl (ts_Expand ops now ctx ty i rel s)"
begin

text \<open>What a call leaves, and what a request leaves.\<close>

definition stepOk :: "'s \<Rightarrow> goError + 'a \<Rightarrow> 's \<Rightarrow> bool" where
  "stepOk s x s' \<longleftrightarrow> inv s' \<and> (isl x \<longrightarrow> same s s') \<and> (\<forall>y. lifecycle (statusIn ops s y) (statusIn ops s' y))"

definition served :: "('p, 's) ServerOn \<Rightarrow> goResponse \<Rightarrow> ('p, 's) ServerOn \<Rightarrow> bool" where
  "served srv resp srv' \<longleftrightarrow> inv (srv_store srv') \<and> (\<forall>y. lifecycle (statusIn ops (srv_store srv) y) (statusIn ops (srv_store srv') y)) \<and>
     (\<not> succeeded resp \<longrightarrow> same (srv_store srv) (srv_store srv') \<and> srv' = srv\<lparr>srv_store := srv_store srv'\<rparr>)"

lemma served_refl: "inv (srv_store srv) \<Longrightarrow> served srv resp srv"
  by (simp add: served_def same_refl lifecycle.keep)

lemma served_keep: "inv (srv_store srv) \<Longrightarrow> succeeded resp \<Longrightarrow> srv_store srv' = srv_store srv \<Longrightarrow> served srv resp srv'"
  by (simp add: served_def lifecycle.keep)

lemma same_status: "same s s' \<Longrightarrow> statusIn ops s' y = statusIn ops s y"
  by (simp add: statusIn_def same_get)

lemma same_lifecycle: "same s s' \<Longrightarrow> lifecycle (statusIn ops s y) (statusIn ops s' y)"
  by (simp add: same_status lifecycle.keep)

lemma call_step: "inv s \<Longrightarrow> callOn ops now ctx c s = (x, s') \<Longrightarrow> stepOk s x s'"
  using call_law [of s now ctx c x s'] by (auto simp: stepOk_def lifecycle.keep)

lemma data_steps:
  assumes "inv s"
  shows "ts_WriteTuple ops now ctx u s = (x, s') \<Longrightarrow> stepOk s x s'" "ts_WriteTuples ops now ctx us s = (x, s') \<Longrightarrow> stepOk s x s'"
    "ts_DeleteTuple ops now ctx u s = (x, s') \<Longrightarrow> stepOk s x s'" "ts_SetObjectAttributes ops now ctx ty i attrs s = (x, s') \<Longrightarrow> stepOk s x s'"
    "ts_SetSubjectAttributes ops now ctx ty i attrs s = (x, s') \<Longrightarrow> stepOk s x s'"
  using call_step [OF assms, of now ctx "CallWrite [u]" x s'] call_step [OF assms, of now ctx "CallWrite us" x s']
    call_step [OF assms, of now ctx "CallDelete u" x s'] call_step [OF assms, of now ctx "CallSetObject ty i attrs" x s']
    call_step [OF assms, of now ctx "CallSetSubject ty i attrs" x s'] by (simp_all add: one_tuple)

lemma status_step:
  assumes "inv s" "updateStatusOn ops refuse status now tid s = (x, s')" "status \<in> tenantStates"
    "\<And>st. refuse st = None \<Longrightarrow> lifecycle (Some st) (Some status)"
  shows "stepOk s x s'"
proof (cases "ts_GetTenant ops tid s")
  case (Inr t)
  then have n: "TenantIdent t = tid" using get_name assms(1) by blast
  show ?thesis
  proof (cases "refuse (Status t)")
    case None
    then have u: "ts_UpdateTenant ops now (t\<lparr>Status := status\<rparr>) s = (x, s')" using assms(2) Inr by (simp add: updateStatusOn_def)
    have "statusIn ops s tid = Some (Status t)" using Inr by (simp add: statusIn_def)
    then show ?thesis
      using update_law [OF assms(1) u] assms(3) assms(4) [OF None] n
      by (cases x) (auto simp: stepOk_def lifecycle.keep same_lifecycle)
  qed (use assms Inr in \<open>auto simp: updateStatusOn_def stepOk_def same_refl lifecycle.keep\<close>)
qed (use assms in \<open>auto simp: updateStatusOn_def stepOk_def same_refl lifecycle.keep\<close>)

lemma manager_steps:
  assumes "inv s"
  shows "ActivateOn ops now tid s = (x, s') \<Longrightarrow> stepOk s x s'" "SuspendOn ops now tid s = (x, s') \<Longrightarrow> stepOk s x s'"
    "DeleteOn ops now tid s = (x, s') \<Longrightarrow> stepOk s x s'"
  unfolding ActivateOn_def SuspendOn_def DeleteOn_def
  by - (erule status_step [OF assms]; auto simp: tenantStates_def intro: lifecycle.intros split: if_splits)+

lemma create_step:
  assumes "inv s" "CreateOn ops now ident name mode s = (x, s')"
  shows "stepOk s x s' \<and> (\<forall>t. x = Inr t \<longrightarrow> TenantIdent t = ident \<and> Status t = TenantPending \<and> statusIn ops s ident = None \<and>
    (\<forall>y. statusIn ops s' y = (if y = ident then Some TenantPending else statusIn ops s y)))"
proof (cases "tenantIDRegexp ident")
  case True
  let ?t = "\<lparr>TenantIdent = ident, DisplayName = (if name = [] then ident else name), ParentTenantID = [], Status = TenantPending,
    SchemaMode = mode, SharedSchemaRef = [], Config = DefaultTenantConfig, TenantCreatedAt = now, TenantUpdatedAt = 0\<rparr>"
  obtain z s1 where z: "ts_CreateTenant ops now ?t s = (z, s1)" by (metis surj_pair)
  then have x: "s' = s1" "x = (case z of Inl e \<Rightarrow> Inl (CreateTenantFailed e) | Inr _ \<Rightarrow> Inr ?t)"
    using assms(2) True by (auto simp: CreateOn_def ValidateTenantID_def Let_def split: sum.splits)
  show ?thesis
    using create_law [OF assms(1) z] True x by (cases z) (auto simp: stepOk_def lifecycle.created lifecycle.keep same_lifecycle)
next
  case False
  then show ?thesis using assms by (auto simp: CreateOn_def ValidateTenantID_def stepOk_def same_refl lifecycle.keep)
qed

lemma orStore_served:
  assumes "orStore errStatus srv p (\<lambda>_ srv'. (g srv', srv')) = (resp, srv')" "\<And>x s. p = (x, s) \<Longrightarrow> stepOk (srv_store srv) x s" "\<And>v. succeeded (g v)"
  shows "served srv resp srv'"
  using assms errStatus_error by (auto simp: orStore_def served_def stepOk_def split: prod.splits sum.splits)

lemma orFail_served:
  assumes "orFail status srv r f = (resp, srv')" "inv (srv_store srv)" "\<And>x. r = Inr x \<Longrightarrow> f x = (resp, srv') \<Longrightarrow> served srv resp srv'"
  shows "served srv resp srv'"
  using orFail_cases [OF assms(1)] assms(2,3) served_refl by blast

lemma tenants_served:
  assumes "inv (srv_store srv)"
    "handleDeleteTenantOn ops now r srv = (resp, srv') \<or> handleActivateTenantOn ops now r srv = (resp, srv') \<or> handleSuspendTenantOn ops now r srv = (resp, srv')"
  shows "served srv resp srv'"
  using assms(2) manager_steps [OF assms(1)] unfolding handleDeleteTenantOn_def handleActivateTenantOn_def handleSuspendTenantOn_def
  by (elim disjE; elim orStore_served) (auto simp: tenantAnswerOn_def)

lemma tuples_served:
  assumes "inv (srv_store srv)"
    "handleWriteTupleOn ops env now r srv = (resp, srv') \<or> handleWriteTuplesOn ops env now r srv = (resp, srv') \<or> handleDeleteTupleOn ops env now r srv = (resp, srv')"
  shows "served srv resp srv'"
  using assms(2) data_steps [OF assms(1)] served_refl [OF assms(1)] unfolding handleWriteTupleOn_def handleWriteTuplesOn_def handleDeleteTupleOn_def
  by (elim disjE; elim orFail_served [OF _ assms(1)]) (auto split: if_splits elim!: orFail_served [OF _ assms(1)] orStore_served)

lemma attributes_served:
  assumes "inv (srv_store srv)"
    "setAttributesOn ops (ts_SetObjectAttributes ops) now r srv = (resp, srv') \<or> setAttributesOn ops (ts_SetSubjectAttributes ops) now r srv = (resp, srv')"
  shows "served srv resp srv'"
  using assms(2) data_steps [OF assms(1)] unfolding setAttributesOn_def
  by (elim disjE; elim orFail_served [OF _ assms(1)]) (auto elim!: orFail_served [OF _ assms(1)] orStore_served)

lemma schema_served:
  assumes "inv (srv_store srv)" "handleLoadSchemaOn ops env now r srv = (resp, srv')"
  shows "served srv resp srv'"
  using assms unfolding handleLoadSchemaOn_def Let_def
  by (auto elim!: orFail_served [OF _ assms(1)] simp: served_refl served_keep split: if_splits)

lemma create_served:
  assumes "inv (srv_store srv)" "handleCreateTenantOn ops now r srv = (resp, srv')"
  shows "served srv resp srv' \<or> inv (srv_store srv') \<and> (\<forall>y. lifecycle (statusIn ops (srv_store srv) y) (statusIn ops (srv_store srv') y)) \<and>
    srv' = srv\<lparr>srv_store := srv_store srv'\<rparr> \<and>
    (\<exists>req. readJSON r decodeCreateTenant = Inr req \<and> statusIn ops (srv_store srv) (CtID req) = None \<and> statusIn ops (srv_store srv') (CtID req) = Some TenantPending)"
proof -
  note refl = served_refl [OF assms(1)]
  show ?thesis
  proof (cases "readJSON r decodeCreateTenant")
    case (Inl e)
    then show ?thesis using assms(2) refl by (auto simp: handleCreateTenantOn_def orFail_def)
  next
    case (Inr req)
    define mode where "mode = (if CtSchemaMode req = [] then SchemaOwn else CtSchemaMode req)"
    obtain x s1 where c: "CreateOn ops now (CtID req) (CtDisplayName req) mode (srv_store srv) = (x, s1)" by (metis surj_pair)
    note cs = create_step [OF assms(1) c]
    show ?thesis
    proof (cases x)
      case (Inl e)
      then have "(resp, srv') = (writeError 400 e, srv\<lparr>srv_store := s1\<rparr>) \<or> srv' = srv"
        using assms(2) \<open>readJSON r decodeCreateTenant = Inr req\<close> c
        by (auto simp: handleCreateTenantOn_def orFail_def orStore_def Let_def mode_def [symmetric] split: if_splits)
      then show ?thesis using cs Inl refl by (auto simp: served_def stepOk_def)
    next
      fix t assume x: "x = Inr t"
      let ?t1 = "t\<lparr>ParentTenantID := CtParentTenantID req, SharedSchemaRef := CtSharedSchemaRef req\<rparr>"
      have t: "TenantIdent t = CtID req" "Status t = TenantPending" "statusIn ops (srv_store srv) (CtID req) = None" "inv s1"
        "\<And>y. statusIn ops s1 y = (if y = CtID req then Some TenantPending else statusIn ops (srv_store srv) y)"
        using cs x by (auto simp: stepOk_def)
      obtain z s2 where u: "ts_UpdateTenant ops now ?t1 s1 = (z, s2)" by (metis surj_pair)
      have l: "inv s2" "\<And>y. statusIn ops s2 y = statusIn ops s1 y"
        using update_law [OF t(4) u] t(1,2,5) same_status [of s1 s2] by (cases z; simp add: tenantStates_def)+
      have "srv' = srv \<or> srv' = srv\<lparr>srv_store := s1\<rparr> \<or> srv' = srv\<lparr>srv_store := s2\<rparr>"
        using assms(2) \<open>readJSON r decodeCreateTenant = Inr req\<close> c u x
        by (auto simp: handleCreateTenantOn_def orFail_def orStore_def Let_def mode_def [symmetric] split: if_splits sum.splits)
      then show ?thesis using refl \<open>readJSON r decodeCreateTenant = Inr req\<close> t l by (auto simp: lifecycle.created lifecycle.keep)
    qed
  qed
qed

lemma serve_ok:
  assumes "inv (srv_store srv)" "serveOn ops env now h r srv = (resp, srv')" "h \<noteq> HandleCreateTenant"
  shows "served srv resp srv'"
  using assms(2,3) served_refl [OF assms(1), of resp]
  by (cases h)
     (auto simp: serveOn_def dest: tenants_served [OF assms(1) disjI1] tenants_served [OF assms(1) disjI2, OF disjI1]
       tenants_served [OF assms(1) disjI2, OF disjI2] schema_served [OF assms(1)] tuples_served [OF assms(1) disjI1]
       tuples_served [OF assms(1) disjI2, OF disjI1] tuples_served [OF assms(1) disjI2, OF disjI2] attributes_served [OF assms(1) disjI1]
       attributes_served [OF assms(1) disjI2])

lemma serve_lifecycle:
  assumes "inv (srv_store srv)" "serveOn ops env now h r srv = (resp, srv')"
  shows "inv (srv_store srv') \<and> lifecycle (statusIn ops (srv_store srv) y) (statusIn ops (srv_store srv') y)"
proof (cases "h = HandleCreateTenant")
  case True
  then show ?thesis using create_served [OF assms(1), of now r resp srv'] assms(2) by (auto simp: serveOn_def served_def)
qed (use serve_ok [OF assms] in \<open>simp add: served_def\<close>)

lemma bootstrap_step:
  assumes "inv s" "ensureBootstrapTenantOn ops now s = (x, s')"
  shows "inv s' \<and> (y \<noteq> bootstrapTenantID \<longrightarrow> statusIn ops s' y = statusIn ops s y) \<and> (\<not> isl x \<longrightarrow> statusIn ops s' bootstrapTenantID = Some TenantActive)"
proof (cases "ts_GetTenant ops bootstrapTenantID s")
  case (Inl e)
  show ?thesis
  proof (cases "errRoot e = ErrTenantNotFound")
    case True
    obtain z s1 where c: "CreateOn ops now bootstrapTenantID (js ''Super Tenant'') SchemaOwn s = (z, s1)" by (metis surj_pair)
    note cs = create_step [OF assms(1) c]
    show ?thesis
    proof (cases z)
      case (Inl e')
      then show ?thesis using assms(2) \<open>ts_GetTenant ops bootstrapTenantID s = Inl e\<close> True c cs same_status by (auto simp: ensureBootstrapTenantOn_def stepOk_def)
    next
      case (Inr t)
      then have a: "ActivateOn ops now bootstrapTenantID s1 = (x, s')" "inv s1" and
        st: "\<And>y. statusIn ops s1 y = (if y = bootstrapTenantID then Some TenantPending else statusIn ops s y)"
        using assms(2) \<open>ts_GetTenant ops bootstrapTenantID s = Inl e\<close> True c cs by (auto simp: ensureBootstrapTenantOn_def stepOk_def)
      obtain u where u: "ts_GetTenant ops bootstrapTenantID s1 = Inr u" "Status u = TenantPending"
        using st [of bootstrapTenantID] by (auto simp: statusIn_def split: sum.splits)
      then have "ts_UpdateTenant ops now (u\<lparr>Status := TenantActive\<rparr>) s1 = (x, s')" "TenantIdent u = bootstrapTenantID"
        using a get_name by (auto simp: ActivateOn_def updateStatusOn_def)
      then show ?thesis using update_law [OF a(2), of now "u\<lparr>Status := TenantActive\<rparr>" x s'] st same_status [of s1 s'] by (cases x) (auto simp: tenantStates_def)
    qed
  qed (use assms Inl in \<open>auto simp: ensureBootstrapTenantOn_def\<close>)
next
  case (Inr t)
  show ?thesis
  proof (cases "Status t = TenantActive")
    case False
    then have "ts_UpdateTenant ops now (t\<lparr>Status := TenantActive\<rparr>) s = (x, s')" "TenantIdent t = bootstrapTenantID"
      using assms Inr get_name by (auto simp: ensureBootstrapTenantOn_def)
    then show ?thesis using update_law [OF assms(1), of now "t\<lparr>Status := TenantActive\<rparr>" x s'] same_status [of s s'] by (cases x) (auto simp: tenantStates_def)
  qed (use assms Inr in \<open>auto simp: ensureBootstrapTenantOn_def statusIn_def\<close>)
qed

lemma process_step:
  assumes "inv (srv_store srv)" "processStep ops env srv srv'"
  shows "inv (srv_store srv') \<and> (tid \<noteq> bootstrapTenantID \<longrightarrow> lifecycle (statusIn ops (srv_store srv) tid) (statusIn ops (srv_store srv') tid))"
  using assms(2)
proof (cases rule: processStep.cases)
  case (request now h r resp)
  then show ?thesis using serve_lifecycle [OF assms(1)] by blast
next
  case (restart now s)
  then show ?thesis using bootstrap_step [OF assms(1) restart(2), of tid] by (simp add: NewServer_def lifecycle.keep)
qed

lemma run_inv: "serverRunOn ops env s0 srv \<Longrightarrow> inv s0 \<Longrightarrow> inv (srv_store srv)"
proof (induction rule: serverRunOn.induct)
  case (start now s)
  then show ?case using bootstrap_step [of s0] by (simp add: NewServer_def)
qed (use process_step in blast)

lemma deleted_stays:
  "(processStep ops env)\<^sup>*\<^sup>* srv srv' \<Longrightarrow> inv (srv_store srv) \<Longrightarrow> statusIn ops (srv_store srv) tid = Some TenantDeleted \<Longrightarrow> tid \<noteq> bootstrapTenantID \<Longrightarrow>
   inv (srv_store srv') \<and> statusIn ops (srv_store srv') tid = Some TenantDeleted"
proof (induction rule: rtranclp_induct)
  case (step v w)
  then have v: "inv (srv_store v)" "statusIn ops (srv_store v) tid = Some TenantDeleted" by auto
  then have "lifecycle (Some TenantDeleted) (statusIn ops (srv_store w) tid)" using process_step [OF v(1) step(2), of tid] step(6) by simp
  then show ?case using process_step [OF v(1) step(2)] by (auto elim: lifecycle_deletedE)
qed simp

lemma gone_calls:
  assumes "statusIn ops s tid = Some TenantDeleted" "forTenant ctx tid"
  shows "ts_WriteTuple ops now ctx u s \<noteq> (Inr x, s')" "ts_WriteTuples ops now ctx us s \<noteq> (Inr x, s')" "ts_DeleteTuple ops now ctx u s \<noteq> (Inr x, s')"
    "ts_SetObjectAttributes ops now ctx ty i attrs s \<noteq> (Inr x, s')" "ts_SetSubjectAttributes ops now ctx ty i attrs s \<noteq> (Inr x, s')"
  using gone_call [OF assms, of "CallWrite [u]" now] gone_call [OF assms, of "CallWrite us" now] gone_call [OF assms, of "CallDelete u" now]
    gone_call [OF assms, of "CallSetObject ty i attrs" now] gone_call [OF assms, of "CallSetSubject ty i attrs" now]
  by (auto simp: one_tuple)

lemma gone_reads:
  assumes "statusIn ops s tid = Some TenantDeleted" "forTenant ctx tid"
  shows "ts_ReadTuples ops now ctx f s \<noteq> Inr ts" "ts_GetObjectAttributes ops ctx ty i s \<noteq> Inr a" "ts_GetSubjectAttributes ops ctx ty i s \<noteq> Inr a"
    "ts_ListObjectAttributes ops ctx ty s \<noteq> Inr items" "ts_ListSubjectAttributes ops ctx ty s \<noteq> Inr items" "ts_ReadChangelog ops ctx n l s \<noteq> Inr es"
    "ts_Expand ops now ctx ty i rel s \<noteq> Inr tree"
  using gone_read [OF assms, of now f ty i n l rel] by auto

lemma gone_writers:
  assumes "statusIn ops (srv_store srv) (PathValue r 0) = Some TenantDeleted"
  shows "\<not> succeeded (fst (handleWriteTupleOn ops env now r srv))" "\<not> succeeded (fst (handleWriteTuplesOn ops env now r srv))"
    "\<not> succeeded (fst (handleDeleteTupleOn ops env now r srv))" "\<not> succeeded (fst (setAttributesOn ops (ts_SetObjectAttributes ops) now r srv))"
    "\<not> succeeded (fst (setAttributesOn ops (ts_SetSubjectAttributes ops) now r srv))"
  by (auto simp: handleWriteTupleOn_def handleWriteTuplesOn_def handleDeleteTupleOn_def setAttributesOn_def succeeding
      gone_calls [OF assms] dest!: contextOn_Inr(1) split: if_splits)

lemma gone_readers:
  assumes "statusIn ops (srv_store srv) (PathValue r 0) = Some TenantDeleted"
  shows "\<not> succeeded (handleReadTuplesOn ops now r srv)" "\<not> succeeded (getAttributesOn ops (ts_GetObjectAttributes ops) r srv)"
    "\<not> succeeded (getAttributesOn ops (ts_GetSubjectAttributes ops) r srv)" "\<not> succeeded (listAttributesOn ops (ts_ListObjectAttributes ops) r srv)"
    "\<not> succeeded (listAttributesOn ops (ts_ListSubjectAttributes ops) r srv)" "\<not> succeeded (handleReadChangelogOn ops r srv)"
    "\<not> succeeded (handleExpandOn ops now r srv)"
  by (auto simp: handleReadTuplesOn_def getAttributesOn_def listAttributesOn_def handleReadChangelogOn_def handleExpandOn_def succeeding
      gone_reads [OF assms] dest!: contextOn_Inr(1) split: if_splits)

lemma gone_requests:
  assumes "statusIn ops (srv_store srv) (PathValue r 0) = Some TenantDeleted" "dataHandler h"
  shows "\<not> succeeded (fst (serveOn ops env now h r srv))"
  using assms(2) gone_writers [OF assms(1)] gone_readers [OF assms(1)] by (auto simp: dataHandler_def serveOn_def)

lemma gone_decisions:
  assumes "statusIn ops (srv_store srv) (gr_tenantHeader r) = Some TenantDeleted"
  shows "handleEvaluationOn ops env now r srv \<noteq> Reply 200 (DecisionBody True)"
    "handleEvaluationsOn ops env now r srv = Reply 200 (DecisionsBody ds) \<Longrightarrow> True \<notin> set ds"
proof -
  have d: "\<not> checkDecisionOn ops env now ctx srv req" if "tenantCtxFromHeaderOn ops r (srv_store srv) = Inr ctx" for ctx req
    using contextOn_Inr(2) [OF that] assms by (auto simp: checkDecisionOn_def Check_def TenantFromContext_def statusIn_def)
  show "handleEvaluationOn ops env now r srv \<noteq> Reply 200 (DecisionBody True)"
    using d by (auto simp: handleEvaluationOn_def orElse_def writeError_def split: sum.splits)
  show "handleEvaluationsOn ops env now r srv = Reply 200 (DecisionsBody ds) \<Longrightarrow> True \<notin> set ds"
    using d by (auto simp: handleEvaluationsOn_def orElse_def writeError_def split: sum.splits if_splits)
qed

end

text \<open>A store on which the manager's writes succeed: a new tenant is created, and the status of one that was read is changed.\<close>

definition plainTenant :: "Tenant \<Rightarrow> bool" where
  "plainTenant t \<longleftrightarrow> tenantIDRegexp (TenantIdent t) \<and> plainText (DisplayName t) \<and> length (DisplayName t) \<le> 256 \<and> ParentTenantID t = [] \<and>
     SharedSchemaRef t = [] \<and> Status t = TenantPending \<and> SchemaMode t \<in> {SchemaOwn, SchemaShared, SchemaInherited}"

locale live_store = tuple_store +
  assumes unknown: "ts_GetTenant ops tid s = Inl e \<Longrightarrow> e = ErrTenantNotFound"
    and create_lives: "inv s \<Longrightarrow> statusIn ops s (TenantIdent t) = None \<Longrightarrow> plainTenant t \<Longrightarrow> \<not> isl (fst (ts_CreateTenant ops now t s))"
    and update_lives: "inv s \<Longrightarrow> ts_GetTenant ops tid s = Inr t \<Longrightarrow> st \<in> tenantStates \<Longrightarrow> \<not> isl (fst (ts_UpdateTenant ops now (t\<lparr>Status := st\<rparr>) s))"
begin

lemma bootstrap_plain:
  "plainTenant \<lparr>TenantIdent = bootstrapTenantID, DisplayName = js ''Super Tenant'', ParentTenantID = [], Status = TenantPending,
     SchemaMode = SchemaOwn, SharedSchemaRef = [], Config = DefaultTenantConfig, TenantCreatedAt = now, TenantUpdatedAt = 0\<rparr>"
proof -
  have "tenantIDRegexp bootstrapTenantID" "plainText (js ''Super Tenant'')" "length (js ''Super Tenant'') \<le> 256" by code_simp+
  then show ?thesis by (simp add: plainTenant_def)
qed

lemma activate_lives:
  assumes "inv s" "statusIn ops s tid = Some st" "st \<noteq> TenantDeleted"
  shows "\<not> isl (fst (ActivateOn ops now tid s))"
proof -
  obtain t where "ts_GetTenant ops tid s = Inr t" "Status t = st" using assms(2) by (auto simp: statusIn_def split: sum.splits)
  then show ?thesis using assms(3) update_lives [OF assms(1), of tid t TenantActive now] by (simp add: ActivateOn_def updateStatusOn_def tenantStates_def)
qed

text \<open>The bootstrap succeeds on every store the server can leave.\<close>

lemma bootstrap_lives:
  assumes "inv s"
  shows "\<exists>s'. ensureBootstrapTenantOn ops now s = (Inr (), s') \<and> inv s' \<and> statusIn ops s' bootstrapTenantID = Some TenantActive"
proof -
  obtain x s' where b: "ensureBootstrapTenantOn ops now s = (x, s')" by (metis surj_pair)
  have "\<not> isl x"
  proof (cases "ts_GetTenant ops bootstrapTenantID s")
    case (Inl e)
    then have n: "e = ErrTenantNotFound" "statusIn ops s bootstrapTenantID = None" using unknown by (auto simp: statusIn_def)
    obtain z s1 where c: "CreateOn ops now bootstrapTenantID (js ''Super Tenant'') SchemaOwn s = (z, s1)" by (metis surj_pair)
    have v: "js ''Super Tenant'' \<noteq> []" "ValidateTenantID bootstrapTenantID = Inr ()" by code_simp+
    then have z: "\<not> isl z"
      using c create_lives [OF assms _ bootstrap_plain, of now now] n(2) by (auto simp: CreateOn_def Let_def split: prod.splits sum.splits)
    then obtain t where t: "z = Inr t" by (cases z) auto
    have cs: "inv s1" "statusIn ops s1 bootstrapTenantID = Some TenantPending" using create_step [OF assms c] t by (simp_all add: stepOk_def)
    have "\<not> isl (fst (ActivateOn ops now bootstrapTenantID s1))" by (rule activate_lives [OF cs]) code_simp
    then show ?thesis using b Inl n c t by (auto simp: ensureBootstrapTenantOn_def)
  next
    case (Inr t)
    then show ?thesis using b update_lives [OF assms Inr, of TenantActive now] by (auto simp: ensureBootstrapTenantOn_def tenantStates_def split: if_splits)
  qed
  then show ?thesis using bootstrap_step [OF assms b, of bootstrapTenantID] b by (cases x) auto
qed

end

section \<open>The memory store\<close>

lemma callOn_memory: "callOn memoryStore now ctx c = locked (runCall now ctx c)"
  by (cases c) (simp_all add: fun_eq_iff locked_def)

lemma statusIn_memory: "statusIn memoryStore s tid = statusOf s tid"
  by (simp add: statusIn_def statusOf_def GetTenant_def split: option.splits)

lemma CreateTenant_status:
  assumes "CreateTenant now t s = Inr s'"
  shows "statusOf s (TenantIdent t) = None \<and> statusOf s' y = (if y = TenantIdent t then Some (Status t) else statusOf s y)"
  using assms by (auto simp: CreateTenant_def statusOf_def update_conv' Let_def split: if_splits)

interpretation mem_store: live_store memoryStore storeOk "(=)"
proof (unfold_locales, goal_cases)
  case (3 s tid t)
  then show ?case using tenant_name by (simp add: GetTenant_Inr)
next
  case (4 s now t x s' y)
  then show ?case
    using CreateTenant_status [of now t s s' y] create_ok [of now t s s'] by (cases "CreateTenant now t s") (auto simp: locked_simps statusIn_memory)
next
  case (5 s now t x s' y)
  then show ?case
    using UpdateTenant_status [of now t s s' y] update_ok [of now t s s'] by (cases "UpdateTenant now t s") (auto simp: locked_simps statusIn_memory)
next
  case (7 s now ctx c x s' y)
  then show ?case
    using callOk_status [OF runCall_ok, of now ctx c s s' y] callOk_storeOk [OF runCall_ok, of now ctx c s s']
    by (cases "runCall now ctx c s") (auto simp: locked_simps statusIn_memory callOn_memory)
next
  case (8 s tid ctx c now)
  then show ?case
    by (cases c) (auto simp: callOn_memory locked_def statusIn_memory WriteTuples_def DeleteTuple_def SetObjectAttributes_def SetSubjectAttributes_def
        deleted_guards)
next
  case (9 s tid ctx now f ty i n l rel)
  then show ?case
    by (simp add: statusIn_memory ReadTuples_def GetObjectAttributes_def GetSubjectAttributes_def ListObjectAttributes_def ListSubjectAttributes_def
        ReadChangelog_def Expand_def deleted_guards)
qed (auto simp: WriteTuple_def WriteTuples_def locked_def GetTenant_def CreateTenant_def UpdateTenant_def statusIn_memory statusOf_def Let_def
    tenant_name split: option.splits if_splits)

section \<open>The store on PostgreSQL\<close>

text \<open>What the columns of a tenant hold can be written back, and no statement sets \<^verbatim>\<open>deleted_at\<close>.\<close>

definition tenantRowOk :: "pgEnv \<Rightarrow> tenantRow \<Rightarrow> bool" where
  "tenantRowOk pg r \<longleftrightarrow> tn_deleted_at r = None \<and> pg_varchar pg 256 (tn_display_name r) = Some (tn_display_name r) \<and>
     pg_varchar pg 32 (tn_status r) = Some (tn_status r) \<and> pg_varchar pg 32 (tn_schema_mode r) = Some (tn_schema_mode r) \<and>
     keepsNull pg 128 (coalesce (tn_shared_schema_ref r))"

definition pgInv :: "pgEnv \<Rightarrow> database \<Rightarrow> bool" where
  "pgInv pg db \<longleftrightarrow> databaseOk pg db \<and> (\<forall>r \<in> set (db_tenants db). tenantRowOk pg r)"

text \<open>The same rows in every table; the sequence may have moved.\<close>

definition sameTables :: "database \<Rightarrow> database \<Rightarrow> bool" where
  "sameTables db db' \<longleftrightarrow> db_tenants db' = db_tenants db \<and> db_tuples db' = db_tuples db \<and> db_objAttrs db' = db_objAttrs db \<and>
     db_subAttrs db' = db_subAttrs db \<and> db_changelog db' = db_changelog db"

lemma postgresStore_sel [simp]:
  "ts_CreateTenant (postgresStore pg) = pgCreateTenant pg" "ts_GetTenant (postgresStore pg) = pgGetTenant"
  "ts_UpdateTenant (postgresStore pg) = pgUpdateTenant pg" "ts_WriteTuple (postgresStore pg) = pgWriteTuple pg"
  "ts_WriteTuples (postgresStore pg) = pgWriteTuples pg" "ts_ReadTuples (postgresStore pg) = pgReadTuples pg"
  "ts_GetObjectAttributes (postgresStore pg) = pgGetObjectAttributes" "ts_GetSubjectAttributes (postgresStore pg) = pgGetSubjectAttributes"
  "ts_ListObjectAttributes (postgresStore pg) = pgListObjectAttributes pg" "ts_ListSubjectAttributes (postgresStore pg) = pgListSubjectAttributes pg"
  "ts_DeleteTuple (postgresStore pg) = pgDeleteTuple pg" "ts_SetObjectAttributes (postgresStore pg) = pgSetObjectAttributes pg"
  "ts_SetSubjectAttributes (postgresStore pg) = pgSetSubjectAttributes pg" "ts_ReadChangelog (postgresStore pg) = pgReadChangelog" "ts_Expand (postgresStore pg) = pgExpand pg"
  "lookupsOn (postgresStore pg) now ctx db = pgLookups pg now ctx db"
  by (simp_all add: postgresStore_def lookupsOn_def pgLookups_def)

lemma callOn_postgres: "callOn (postgresStore pg) now ctx c = pgRun pg now ctx c"
  by (cases c) (simp_all add: fun_eq_iff postgresStore_def)

lemma writesTx_tenants:
  "writeTuplesTx pg now tid ts tx = (Inr u, tx') \<Longrightarrow> db_tenants (tx_db tx') = db_tenants (tx_db tx)"
proof (induction ts arbitrary: tx)
  case (Cons t ts)
  then obtain v tx1 where "writeTupleTx pg now tid t tx = (Inr v, tx1)" "writeTuplesTx pg now tid ts tx1 = (Inr u, tx')" by (auto simp: bindS_Inr)
  moreover from writeTupleTx_Inr [OF this(1)] have "db_tenants (tx_db tx1) = db_tenants (tx_db tx)" by auto
  ultimately show ?case using Cons.IH by simp
qed simp

lemma deleteTx_tenants:
  assumes "deleteTupleTx pg now tid t tx = (Inr u, tx')"
  shows "db_tenants (tx_db tx') = db_tenants (tx_db tx)"
  using assms by (auto simp: deleteTupleTx_def bindS_Inr txExec_Inr markDeleted_eq split: if_splits dest!: appendChangelogTx_Inr)

lemma attrs_failed:
  "pgExec (\<lambda>d. case f d of Inl c \<Rightarrow> Inl c | Inr rows \<Rightarrow> Inr ((), d\<lparr>db_objAttrs := rows\<rparr>)) db = (Inl e, db') \<Longrightarrow> db' = db"
  "pgExec (\<lambda>d. case f d of Inl c \<Rightarrow> Inl c | Inr rows \<Rightarrow> Inr ((), d\<lparr>db_subAttrs := rows\<rparr>)) db = (Inl e, db') \<Longrightarrow> db' = db"
  by (cases "f db"; simp add: pgExec_def inTx_def txExec_def)+

lemma run_tenants: "pgRun pg now ctx c db = (Inr u, db') \<Longrightarrow> db_tenants db' = db_tenants db"
  by (cases c)
     (auto simp: pgWriteTuples_def pgDeleteTuple_def pgSetObjectAttributes_def pgSetSubjectAttributes_def pgPurge_eq purged_def inTx_Inr
       dest!: pgWriting_cases attrs_tables writesTx_tenants deleteTx_tenants)

lemma run_failed: "pgRun pg now ctx c db = (Inl e, db') \<Longrightarrow> sameTables db db'"
  by (cases c)
     (auto simp: pgWriteTuples_def pgDeleteTuple_def pgSetObjectAttributes_def pgSetSubjectAttributes_def pgPurge_eq sameTables_def inTx_Inl
       dest!: pgWriting_cases attrs_failed)

lemma statusIn_postgres:
  assumes "pgInv pg db"
  shows "statusIn (postgresStore pg) db tid = map_of (map (\<lambda>r. (tn_id r, tn_status r)) (db_tenants db)) tid"
proof -
  have "\<forall>r \<in> set rows. tn_deleted_at r = None \<Longrightarrow>
      map_option tn_status (find (\<lambda>r. tn_id r = tid \<and> tn_deleted_at r = None) rows) = map_of (map (\<lambda>r. (tn_id r, tn_status r)) rows) tid" for rows
    by (induction rows) auto
  moreover have "\<forall>r \<in> set (db_tenants db). tn_deleted_at r = None" using assms by (simp add: pgInv_def tenantRowOk_def)
  ultimately have "map_option tn_status (find (\<lambda>r. tn_id r = tid \<and> tn_deleted_at r = None) (db_tenants db)) =
      map_of (map (\<lambda>r. (tn_id r, tn_status r)) (db_tenants db)) tid" by blast
  then show ?thesis by (auto simp: statusIn_def pgGetTenant_def readTenant_def split: option.splits)
qed

lemma status_guard: "statusIn (postgresStore pg) db tid = (case pgTenantStatus tid db of Inl _ \<Rightarrow> None | Inr st \<Rightarrow> Some st)"
  by (simp add: statusIn_def pgGetTenant_def pgTenantStatus_def readTenant_def split: option.splits)

lemma pg_gone:
  assumes "statusIn (postgresStore pg) db tid = Some TenantDeleted" "forTenant ctx tid"
  shows "pgWriting ctx db body = (Inl ErrTenantDeleted, db)" "pgReading ctx db f = Inl ErrTenantDeleted"
proof -
  have "pgTenantStatus tid db = Inr TenantDeleted" using assms(1) by (simp add: status_guard split: sum.splits)
  then show "pgWriting ctx db body = (Inl ErrTenantDeleted, db)" "pgReading ctx db f = Inl ErrTenantDeleted"
    by (simp_all add: pgWriting_def pgReading_def tenantIDFromCtx_Inr [THEN iffD2, OF assms(2)] ensureTenantWritable_def ensureTenantReadable_def)
qed

lemma pg_exec_cases: "pgExec stmt db = (case stmt db of Inl code \<Rightarrow> (Inl (DatabaseError code), db) | Inr (x, db') \<Rightarrow> (Inr x, db'))"
  by (auto simp: pgExec_Inl pgExec_Inr split: sum.splits)

lemma insertTenant_row:
  assumes "insertTenant pg now t db = Inr (u, db')"
  shows "\<exists>r. db' = db\<lparr>db_tenants := db_tenants db @ [r]\<rparr> \<and> pg_varchar pg 128 (TenantIdent t) = Some (tn_id r) \<and> tn_id r \<notin> tn_id ` set (db_tenants db) \<and>
    tn_deleted_at r = None \<and> pg_varchar pg 256 (DisplayName t) = Some (tn_display_name r) \<and> pg_varchar pg 32 (Status t) = Some (tn_status r) \<and>
    pg_varchar pg 32 (SchemaMode t) = Some (tn_schema_mode r) \<and> nullText pg 128 (SharedSchemaRef t) = Some (tn_shared_schema_ref r)"
  using assms unfolding insertTenant_def varchar_Inr varcharNull_Inr
  by (elim exE conjE, intro exI [of _ "last (db_tenants db')"]) (auto simp: list_ex_iff image_iff split: if_splits)

lemma updateTenant_rows:
  assumes "updateTenantRow pg now t db = Inr (n, db')" "n \<noteq> 0"
  shows "\<exists>f. db' = db\<lparr>db_tenants := map (\<lambda>r. if tn_id r = TenantIdent t then f r else r) (db_tenants db)\<rparr> \<and>
    list_ex (\<lambda>r. tn_id r = TenantIdent t) (db_tenants db) \<and> (\<forall>r. tn_id (f r) = tn_id r \<and> tn_deleted_at (f r) = tn_deleted_at r \<and>
    pg_varchar pg 256 (DisplayName t) = Some (tn_display_name (f r)) \<and> pg_varchar pg 32 (Status t) = Some (tn_status (f r)) \<and>
    pg_varchar pg 32 (SchemaMode t) = Some (tn_schema_mode (f r)) \<and> nullText pg 128 (SharedSchemaRef t) = Some (tn_shared_schema_ref (f r)))"
proof -
  have e: "length (filter (\<lambda>r. tn_id r = TenantIdent t) (db_tenants db)) \<noteq> 0" using assms by (auto simp: updateTenantRow_def Let_def split: if_splits)
  then have x: "list_ex (\<lambda>r. tn_id r = TenantIdent t) (db_tenants db)" by (auto simp: list_ex_iff filter_empty_conv)
  show ?thesis
    using assms(1) unfolding updateTenantRow_def Let_def if_not_P [OF e] varchar_Inr varcharNull_Inr
    apply (elim exE conjE)
    subgoal for name status mode ref
      apply (rule exI [of _ "\<lambda>r. r\<lparr>tn_display_name := name, tn_status := status, tn_schema_mode := mode, tn_shared_schema_ref := ref,
        tn_config := Config t, tn_updated_at := pg_time pg now\<rparr>"])
      apply (use x in auto)
      done
    done
qed

lemma keepsNull_again: "postgres pg \<Longrightarrow> nullText pg 128 s = Some c \<Longrightarrow> keepsNull pg 128 (coalesce c)"
  using postgres.kept_again [of pg] by (auto simp: nullText_def keepsNull_def split: if_splits)

lemma map_of_updated:
  assumes "\<And>r. tn_id (f r) = tn_id r" "\<And>r. tn_status (f r) = st" "list_ex (\<lambda>r. tn_id r = i) rows"
  shows "map_of (map (\<lambda>r. (tn_id r, tn_status r)) (map (\<lambda>r. if tn_id r = i then f r else r) rows)) y =
    (if y = i then Some st else map_of (map (\<lambda>r. (tn_id r, tn_status r)) rows) y)"
proof (cases "y = i")
  case True
  then show ?thesis using assms(3) by (induction rows) (auto simp: assms(1,2))
next
  case False
  then show ?thesis by (induction rows) (auto simp: assms(1))
qed

lemma map_of_added:
  assumes "i \<notin> tn_id ` set rows" "tn_id r = i"
  shows "map_of (map (\<lambda>r. (tn_id r, tn_status r)) rows) i = None"
    "map_of (map (\<lambda>r. (tn_id r, tn_status r)) (rows @ [r])) y = (if y = i then Some (tn_status r) else map_of (map (\<lambda>r. (tn_id r, tn_status r)) rows) y)"
  using assms by (induction rows) auto

context postgres
begin

lemma states_kept: "st \<in> tenantStates \<Longrightarrow> pg_varchar pg 32 st = Some st"
  by (rule short_kept) (auto simp: tenantStates_def; code_simp)+

lemma name_kept: "tenantIDRegexp i \<Longrightarrow> pg_varchar pg 128 i = Some i"
proof (rule short_kept)
  assume r: "tenantIDRegexp i"
  show "plainText i" using regexp_chars [OF r] by (auto simp: plainText_def list_all_iff idChar_def word_less_nat_alt word_le_nat_alt)
  show "length i \<le> 128" using r by (cases i) (auto simp: tenantIDRegexp_def)
qed

lemma create_postgres:
  assumes "pgInv pg db" "pgCreateTenant pg now t db = (x, db')" "tenantIDRegexp (TenantIdent t)" "Status t = TenantPending"
  shows "pgInv pg db' \<and> (isl x \<longrightarrow> sameTables db db') \<and> (\<not> isl x \<longrightarrow> statusIn (postgresStore pg) db (TenantIdent t) = None \<and>
    statusIn (postgresStore pg) db' y = (if y = TenantIdent t then Some TenantPending else statusIn (postgresStore pg) db y))"
proof -
  have ok: "databaseOk pg db'" using tenants_keep(1) [OF _ assms(2)] assms(1) by (simp add: pgInv_def)
  show ?thesis
  proof (cases "insertTenant pg now t db")
    case (Inl code)
    then show ?thesis using assms(1,2) by (auto simp: pgCreateTenant_def pgExec_Inl sameTables_def)
  next
    case (Inr p)
    then obtain u d where p: "insertTenant pg now t db = Inr (u, d)" by (cases p) simp
    have x: "x = Inr ()" "db' = d" using assms(2) by (auto simp: pgCreateTenant_def pg_exec_cases p)
    obtain r where r: "db' = db\<lparr>db_tenants := db_tenants db @ [r]\<rparr>" "tn_id r = TenantIdent t" "tn_id r \<notin> tn_id ` set (db_tenants db)"
      "tn_status r = TenantPending" and k: "tenantRowOk pg r"
      using insertTenant_row [OF p] x(2) name_kept [OF assms(3)] states_kept [of TenantPending] assms(4) kept_again keepsNull_again [OF postgres_axioms]
      by (auto simp: tenantRowOk_def tenantStates_def)
    have inv: "pgInv pg db'" using assms(1) ok k r(1) by (simp add: pgInv_def)
    show ?thesis
      using map_of_added [OF r(3) refl] r(2,4) x(1) inv
      unfolding statusIn_postgres [OF assms(1)] statusIn_postgres [OF inv] by (simp add: r(1))
  qed
qed

lemma update_postgres:
  assumes "pgInv pg db" "pgUpdateTenant pg now t db = (x, db')" "Status t \<in> tenantStates"
  shows "pgInv pg db' \<and> (isl x \<longrightarrow> sameTables db db') \<and>
    (\<not> isl x \<longrightarrow> statusIn (postgresStore pg) db' y = (if y = TenantIdent t then Some (Status t) else statusIn (postgresStore pg) db y))"
proof -
  have ok: "databaseOk pg db'" using tenants_keep(2) [OF _ assms(2)] assms(1) by (simp add: pgInv_def)
  show ?thesis
  proof (cases "updateTenantRow pg now t db")
    case (Inl code)
    then show ?thesis using assms(1,2) by (auto simp: pgUpdateTenant_def pgExec_Inl sameTables_def)
  next
    case (Inr p)
    then obtain n d where p: "updateTenantRow pg now t db = Inr (n, d)" by (cases p) simp
    show ?thesis
    proof (cases "n = 0")
      case True
      then have "d = db" using p by (auto simp: updateTenantRow_def Let_def varchar_Inr varcharNull_Inr split: if_splits)
      then show ?thesis using assms(1,2) True by (auto simp: pgUpdateTenant_def pg_exec_cases p sameTables_def)
    next
      case False
      then have x: "x = Inr ()" "db' = d" using assms(2) by (auto simp: pgUpdateTenant_def pg_exec_cases p)
      obtain f where f: "db' = db\<lparr>db_tenants := map (\<lambda>r. if tn_id r = TenantIdent t then f r else r) (db_tenants db)\<rparr>"
        "list_ex (\<lambda>r. tn_id r = TenantIdent t) (db_tenants db)" "\<And>r. tn_id (f r) = tn_id r" "\<And>r. tn_status (f r) = Status t"
        "\<And>r. tn_deleted_at r = None \<Longrightarrow> tenantRowOk pg (f r)"
        using updateTenant_rows [OF p False] x(2) states_kept [OF assms(3)] kept_again keepsNull_again [OF postgres_axioms]
        by (auto simp: tenantRowOk_def)
      have inv: "pgInv pg db'" using assms(1) ok f(5) by (auto simp: pgInv_def f(1) tenantRowOk_def)
      show ?thesis
        using map_of_updated [of f, OF f(3,4,2)] x(1) inv
        unfolding statusIn_postgres [OF assms(1)] statusIn_postgres [OF inv] by (simp add: f(1))
    qed
  qed
qed

lemma call_postgres:
  assumes "pgInv pg db" "pgRun pg now ctx c db = (x, db')"
  shows "pgInv pg db' \<and> (isl x \<longrightarrow> sameTables db db') \<and> statusIn (postgresStore pg) db' y = statusIn (postgresStore pg) db y"
proof -
  have ten: "db_tenants db' = db_tenants db" using assms(2) run_tenants run_failed by (cases x) (fastforce simp: sameTables_def)+
  then have "pgInv pg db'" using run_keeps [OF _ assms(2)] assms(1) by (simp add: pgInv_def)
  then show ?thesis using ten assms run_failed by (cases x) (auto simp: statusIn_postgres)
qed

lemma insert_lives:
  assumes "pgInv pg db" "statusIn (postgresStore pg) db (TenantIdent t) = None" "plainTenant t"
  shows "\<not> isl (fst (pgCreateTenant pg now t db))"
proof -
  have n: "\<not> list_ex (\<lambda>r. tn_id r = TenantIdent t) (db_tenants db)"
    using assms(2) by (auto simp: statusIn_postgres [OF assms(1)] map_of_eq_None_iff list_ex_iff image_iff)
  have m: "pg_varchar pg 32 (SchemaMode t) = Some (SchemaMode t)"
    using assms(3) by (intro short_kept) (auto simp: plainTenant_def; code_simp)+
  have "pg_varchar pg 256 (DisplayName t) = Some (DisplayName t)" using assms(3) by (intro short_kept) (simp_all add: plainTenant_def)
  then show ?thesis
    using assms(3) n m name_kept [of "TenantIdent t"] states_kept [of TenantPending]
    by (simp add: pgCreateTenant_def pg_exec_cases insertTenant_def varchar_def varcharNull_def plainTenant_def tenantStates_def)
qed

lemma write_back:
  assumes "pgInv pg db" "pgGetTenant tid db = Inr t" "st \<in> tenantStates"
  shows "\<not> isl (fst (pgUpdateTenant pg now (t\<lparr>Status := st\<rparr>) db))"
proof -
  obtain r where r: "r \<in> set (db_tenants db)" "t = readTenant r" "tn_id r = tid"
    using assms(2) by (auto simp: pgGetTenant_def find_Some_iff split: option.splits) (metis nth_mem)
  have k: "tenantRowOk pg r" using r(1) assms(1) by (simp add: pgInv_def)
  have "filter (\<lambda>r. tn_id r = tid) (db_tenants db) \<noteq> []" using r(1,3) by (auto simp: filter_empty_conv)
  then show ?thesis
    using k r(3) states_kept [OF assms(3)]
    by (simp add: pgUpdateTenant_def pg_exec_cases updateTenantRow_def Let_def r(2) readTenant_def tenantRowOk_def varchar_def varcharNull_kept)
qed

end

sublocale postgres \<subseteq> pg_store: live_store "postgresStore pg" "pgInv pg" sameTables
proof (unfold_locales, goal_cases)
  case (2 db db' tid)
  then show ?case by (simp add: sameTables_def pgGetTenant_def)
next
  case (3 db tid t)
  then show ?case by (auto simp: pgGetTenant_def readTenant_def find_Some_iff split: option.splits)
next
  case (4 db now t x db' y)
  then show ?case using create_postgres [of db now t x db' y] by simp
next
  case (5 db now t x db' y)
  then show ?case using update_postgres [of db now t x db' y] by simp
next
  case (6 now ctx u db)
  then show ?case by (simp add: pgWriteTuple_one)
next
  case (7 db now ctx c x db' y)
  then show ?case using call_postgres [of db now ctx c x db' y] by (simp add: callOn_postgres)
next
  case (8 db tid ctx c now)
  then show ?case
    by (cases c) (auto simp: callOn_postgres pgWriteTuples_def pgDeleteTuple_def pgSetObjectAttributes_def pgSetSubjectAttributes_def pg_gone)
next
  case (9 db tid ctx now f ty i n l rel)
  then show ?case
    by (simp add: pgReadTuples_def pgGetObjectAttributes_def pgGetSubjectAttributes_def pgListObjectAttributes_def pgListSubjectAttributes_def
        pgReadChangelog_def pgExpand_def pgListSubjects_def pg_gone)
next
  case (10 tid db e)
  then show ?case by (auto simp: pgGetTenant_def split: option.splits)
next
  case (11 db t now)
  then show ?case using insert_lives by simp
next
  case (12 db tid t st now)
  then show ?case using write_back by simp
qed (simp add: sameTables_def)

context postgres
begin

lemmas pg_serve_ok = pg_store.serve_ok [unfolded pg_store.served_def]

lemmas pg_create_served = pg_store.create_served [unfolded pg_store.served_def]

lemmas pg_run_inv = pg_store.run_inv

lemmas pg_deleted_stays = pg_store.deleted_stays

lemmas pg_gone_requests = pg_store.gone_requests

lemmas pg_gone_decisions = pg_store.gone_decisions

lemmas pg_bootstrap_lives = pg_store.bootstrap_lives

lemmas pg_serve_lifecycle = pg_store.serve_lifecycle

end

lemma pgInv_empty: "pgInv pg emptyDatabase"
  by (simp add: pgInv_def databaseOk_def emptyDatabase_def activeRows_def tenantLog_def replayLog_def)

end
