(* ===== verification/Server_Postgres.thy ===== *)
theory Server_Postgres
  imports Server_On_Laws
begin

text \<open>
  The server as it is deployed, on PostgreSQL: what it promises over all its requests and restarts, how its process starts, what its
  evaluations have to do with those of a server on the memory store, and where a failed request is not undone.
\<close>

section \<open>An example\<close>

definition pgSuper :: "(unit, database) ServerOn" where
  "pgSuper = NewServer (snd (ensureBootstrapTenantOn (postgresStore standardPg) 1000 emptyDatabase)) (NewEngine DefaultMaxCheckDepth)"

lemma pgSuper_started:
  "ensureBootstrapTenantOn (postgresStore standardPg) 1000 emptyDatabase = (Inr (), srv_store pgSuper)"
  "statusIn (postgresStore standardPg) (srv_store pgSuper) bootstrapTenantID = Some TenantActive"
proof -
  obtain s' where s': "ensureBootstrapTenantOn (postgresStore standardPg) 1000 emptyDatabase = (Inr (), s')"
    "statusIn (postgresStore standardPg) s' bootstrapTenantID = Some TenantActive"
    using postgres.pg_bootstrap_lives [OF std.postgres_axioms pgInv_empty] by blast
  then show "ensureBootstrapTenantOn (postgresStore standardPg) 1000 emptyDatabase = (Inr (), srv_store pgSuper)"
    "statusIn (postgresStore standardPg) (srv_store pgSuper) bootstrapTenantID = Some TenantActive" by (simp_all add: pgSuper_def NewServer_def)
qed

lemma pgSuper_run: "serverRunOn (postgresStore standardPg) sampleEnv emptyDatabase pgSuper"
proof -
  have "pgSuper = NewServer (srv_store pgSuper) (NewEngine DefaultMaxCheckDepth)" by (simp add: pgSuper_def NewServer_def)
  then show ?thesis using serverRunOn.start [OF pgSuper_started(1), of sampleEnv] by simp
qed

text \<open>A tenant created by a request.\<close>

definition createRequest :: "(string \<times> string) list \<Rightarrow> goRequest" where
  "createRequest kvs = (getRequest [])\<lparr>gr_body := Some (tupleBody kvs)\<rparr>"

definition pgAcme :: "(unit, database) ServerOn" where
  "pgAcme = snd (serveOn (postgresStore standardPg) sampleEnv 2000 HandleCreateTenant (createRequest [(''id'', ''acme'')]) pgSuper)"

definition pgAcmeGone :: "(unit, database) ServerOn" where
  "pgAcmeGone = snd (serveOn (postgresStore standardPg) sampleEnv 3000 HandleDeleteTenant (getRequest [js ''acme'']) pgAcme)"

lemma run_request: "serverRunOn ops env s0 srv \<Longrightarrow> serverRunOn ops env s0 (snd (serveOn ops env now h r srv))"
  by (rule serverRunOn.step, assumption) (rule processStep.request [of _ _ _ _ _ _ "fst (serveOn ops env now h r srv)"], simp)

lemma pgAcme_run: "serverRunOn (postgresStore standardPg) sampleEnv emptyDatabase pgAcme"
  "serverRunOn (postgresStore standardPg) sampleEnv emptyDatabase pgAcmeGone"
  unfolding pgAcmeGone_def pgAcme_def by (intro run_request pgSuper_run)+

lemma pgAcme_gone: "statusIn (postgresStore standardPg) (srv_store pgAcmeGone) (js ''acme'') = Some TenantDeleted"
  by code_simp

section \<open>Properties\<close>

text \<open>
  Claim C8. On PostgreSQL a request that is not answered with success changes nothing: whatever has happened before, restarts included, when the
  answer of a request other than the creation of a tenant is an error, every table has the rows it had (the sequence of the log may
  have moved on), and so have the engine and the registries of schemas.
\<close>

theorem failed_requests_keep_tables:
  assumes "postgres pg" "serverRunOn (postgresStore pg) env emptyDatabase srv" "serveOn (postgresStore pg) env now h r srv = (resp, srv')"
    "\<not> succeeded resp" "h \<noteq> HandleCreateTenant"
  shows "sameTables (srv_store srv) (srv_store srv') \<and> srv' = srv\<lparr>srv_store := srv_store srv'\<rparr>"
proof -
  have "pgInv pg (srv_store srv)" using postgres.pg_run_inv [OF assms(1,2) pgInv_empty] .
  then show ?thesis using postgres.pg_serve_ok [OF assms(1) _ assms(3,5)] assms(4) by blast
qed

theorem failed_requests_keep_tables_witness:
  "sameTables (srv_store pgSuper) (srv_store (snd (serveOn (postgresStore standardPg) sampleEnv 5000 HandleSuspendTenant (getRequest [js ''nobody'']) pgSuper)))"
proof -
  have "\<not> succeeded (fst (serveOn (postgresStore standardPg) sampleEnv 5000 HandleSuspendTenant (getRequest [js ''nobody'']) pgSuper))" by code_simp
  then show ?thesis using failed_requests_keep_tables [OF std.postgres_axioms pgSuper_run, of 5000 HandleSuspendTenant "getRequest [js ''nobody'']"]
    by (metis handler.distinct(1) handler.simps prod.collapse)
qed

text \<open>
  Claim C25. A deleted tenant is gone for good, on PostgreSQL and over restarts of the server: after any further requests and new processes it is
  still deleted, no request on its tuples, attributes, log or expansions succeeds, and no evaluation for it is positive. The bootstrap
  tenant is the exception, since every new process sets it active.
\<close>

theorem deleted_tenant_gone:
  assumes "postgres pg" "serverRunOn (postgresStore pg) env emptyDatabase srv" "statusIn (postgresStore pg) (srv_store srv) tid = Some TenantDeleted"
    "tid \<noteq> bootstrapTenantID" "(processStep (postgresStore pg) env)\<^sup>*\<^sup>* srv srv'"
  shows "statusIn (postgresStore pg) (srv_store srv') tid = Some TenantDeleted \<and>
    (PathValue r 0 = tid \<and> dataHandler h \<longrightarrow> \<not> succeeded (fst (serveOn (postgresStore pg) env now h r srv'))) \<and>
    (gr_tenantHeader r = tid \<longrightarrow> handleEvaluationOn (postgresStore pg) env now r srv' \<noteq> Reply 200 (DecisionBody True) \<and>
       (\<forall>ds. handleEvaluationsOn (postgresStore pg) env now r srv' = Reply 200 (DecisionsBody ds) \<longrightarrow> True \<notin> set ds))"
proof -
  have "pgInv pg (srv_store srv)" using postgres.pg_run_inv [OF assms(1,2) pgInv_empty] .
  then have "statusIn (postgresStore pg) (srv_store srv') tid = Some TenantDeleted" using postgres.pg_deleted_stays [OF assms(1,5) _ assms(3,4)] by blast
  then show ?thesis using postgres.pg_gone_requests [OF assms(1)] postgres.pg_gone_decisions [OF assms(1)] by blast
qed

theorem deleted_tenant_gone_witness:
  "\<not> succeeded (fst (serveOn (postgresStore standardPg) sampleEnv 9000 HandleReadTuples (getRequest [js ''acme'']) pgAcmeGone))"
proof -
  have "js ''acme'' \<noteq> bootstrapTenantID" "PathValue (getRequest [js ''acme'']) 0 = js ''acme''" "dataHandler HandleReadTuples" by code_simp+
  then show ?thesis
    using deleted_tenant_gone [OF std.postgres_axioms pgAcme_run(2) pgAcme_gone _ rtranclp.rtrancl_refl, of "getRequest [js ''acme'']" HandleReadTuples] by blast
qed

text \<open>A request to create a tenant whose fields are in order, and whose reference to a shared schema does not fit its column.\<close>

definition createOrder :: "CreateTenantRequest \<Rightarrow> bool" where
  "createOrder req \<longleftrightarrow> tenantIDRegexp (CtID req) \<and> plainText (CtDisplayName req) \<and> length (CtDisplayName req) \<le> 256 \<and>
     CtSchemaMode req \<in> {[], SchemaOwn, SchemaShared, SchemaInherited}"

lemma regexp_plain: "tenantIDRegexp i \<Longrightarrow> plainText i \<and> length i \<le> 128 \<and> i \<noteq> []"
  using regexp_chars [of i]
  by (cases i) (auto simp: plainText_def list_all_iff idChar_def word_less_nat_alt word_le_nat_alt tenantIDRegexp_def)

definition newTenant :: "gotime \<Rightarrow> CreateTenantRequest \<Rightarrow> Tenant" where
  "newTenant now req = \<lparr>TenantIdent = CtID req, DisplayName = (if CtDisplayName req = [] then CtID req else CtDisplayName req), ParentTenantID = [],
     Status = TenantPending, SchemaMode = (if CtSchemaMode req = [] then SchemaOwn else CtSchemaMode req), SharedSchemaRef = [],
     Config = DefaultTenantConfig, TenantCreatedAt = now, TenantUpdatedAt = 0\<rparr>"

lemma newTenant_plain: "createOrder req \<Longrightarrow> plainTenant (newTenant now req)"
  using regexp_plain [of "CtID req"] by (auto simp: createOrder_def plainTenant_def newTenant_def)

lemma createOn_order:
  assumes "createOrder req"
  shows "CreateOn (postgresStore pg) now (CtID req) (CtDisplayName req) (if CtSchemaMode req = [] then SchemaOwn else CtSchemaMode req) db =
    (case pgCreateTenant pg now (newTenant now req) db of (Inl e, db') \<Rightarrow> (Inl (CreateTenantFailed e), db') | (Inr _, db') \<Rightarrow> (Inr (newTenant now req), db'))"
proof -
  have "ValidateTenantID (CtID req) = Inr ()" using assms by (simp add: ValidateTenantID_def createOrder_def)
  then show ?thesis unfolding CreateOn_def Let_def newTenant_def postgresStore_sel by simp
qed

lemma create_handled:
  assumes "createOrder req" "readJSON r decodeCreateTenant = Inr req" "CtSharedSchemaRef req \<noteq> []"
  shows "serveOn (postgresStore pg) env now HandleCreateTenant r srv =
    orStore bad srv (case pgCreateTenant pg now (newTenant now req) (srv_store srv) of (Inl e, db') \<Rightarrow> (Inl (CreateTenantFailed e), db') |
        (Inr _, db') \<Rightarrow> (Inr (newTenant now req), db')) (\<lambda>t srv1.
      orStore errStatus srv1 (pgUpdateTenant pg now (t\<lparr>ParentTenantID := CtParentTenantID req, SharedSchemaRef := CtSharedSchemaRef req\<rparr>) (srv_store srv1))
        (\<lambda>_ srv2. (Reply 201 (TenantBody (t\<lparr>ParentTenantID := CtParentTenantID req, SharedSchemaRef := CtSharedSchemaRef req\<rparr>)), srv2)))"
proof -
  have "CtID req \<noteq> []" "(if CtSchemaMode req = [] then SchemaOwn else CtSchemaMode req) \<in> {SchemaOwn, SchemaShared, SchemaInherited}"
    using assms(1) regexp_plain [of "CtID req"] by (auto simp: createOrder_def)
  then show ?thesis
    unfolding serveOn_def handler.case handleCreateTenantOn_def assms(2) orFail_def sum.case Let_def createOn_order [OF assms(1)]
    using assms(3) by simp
qed

text \<open>
  Claim C28. The creation of a tenant is not atomic: the handler inserts the tenant and then stores the reference to a shared schema with a second
  statement. When PostgreSQL refuses that one, since the reference is too long for its column, the request is answered with
  status 500 and the tenant is there all the same, pending and without a reference; the same request again is answered with 400.
\<close>

theorem create_not_atomic:
  assumes "postgres pg" "serverRunOn (postgresStore pg) env emptyDatabase srv" "readJSON r decodeCreateTenant = Inr req" "createOrder req"
    "statusIn (postgresStore pg) (srv_store srv) (CtID req) = None" "CtSharedSchemaRef req \<noteq> []" "pg_varchar pg 128 (CtSharedSchemaRef req) = None"
  shows "\<exists>srv' e t. serveOn (postgresStore pg) env now HandleCreateTenant r srv = (Reply 500 (ErrorBody (DatabaseError ''22001'')), srv') \<and>
    pgGetTenant (CtID req) (srv_store srv') = Inr t \<and> Status t = TenantPending \<and> SharedSchemaRef t = [] \<and>
    fst (serveOn (postgresStore pg) env now' HandleCreateTenant r srv') = Reply 400 (ErrorBody e)"
proof -
  let ?t = "newTenant now req"
  let ?t1 = "?t\<lparr>ParentTenantID := CtParentTenantID req, SharedSchemaRef := CtSharedSchemaRef req\<rparr>"
  note p = newTenant_plain [OF assms(4), of now]
  have inv: "pgInv pg (srv_store srv)" using postgres.pg_run_inv [OF assms(1,2) pgInv_empty] .
  have i: "TenantIdent (newTenant x req) = CtID req" "SharedSchemaRef (newTenant x req) = []" for x by (simp_all add: newTenant_def)
  obtain x db1 where c: "pgCreateTenant pg now ?t (srv_store srv) = (x, db1)" by (metis surj_pair)
  then have x: "x = Inr ()" using postgres.insert_lives [OF assms(1) inv _ p, of now] assms(5) i by (cases x) auto
  then obtain u where ins: "insertTenant pg now ?t (srv_store srv) = Inr (u, db1)"
    using c by (auto simp: pgCreateTenant_def pg_exec_cases split: sum.splits prod.splits)
  obtain row where row: "db1 = (srv_store srv)\<lparr>db_tenants := db_tenants (srv_store srv) @ [row]\<rparr>" "pg_varchar pg 128 (CtID req) = Some (tn_id row)"
    "tn_id row \<notin> tn_id ` set (db_tenants (srv_store srv))" "tn_deleted_at row = None" "pg_varchar pg 32 TenantPending = Some (tn_status row)"
    "tn_shared_schema_ref row = None"
    using insertTenant_row [OF ins] p i by (auto simp: plainTenant_def nullText_def)
  have id: "tn_id row = CtID req" "tn_status row = TenantPending"
    using row(2,5) postgres.name_kept [OF assms(1)] postgres.states_kept [OF assms(1), of TenantPending] assms(4)
    by (auto simp: createOrder_def tenantStates_def)
  have f: "find (\<lambda>r. tn_id r = CtID req \<and> tn_deleted_at r = None) (db_tenants db1) = Some row"
    using row(3,4) id by (simp add: row(1)) (subst find_snoc; auto simp: find_None_iff image_iff)
  have kept: "pg_varchar pg 256 (DisplayName ?t) \<noteq> None" "pg_varchar pg 32 (Status ?t) \<noteq> None" "pg_varchar pg 32 (SchemaMode ?t) \<noteq> None"
    using insertTenant_row [OF ins] by auto
  then have upd: "updateTenantRow pg now ?t1 db1 = Inl ''22001''"
    using id assms(6,7) by (auto simp: updateTenantRow_def Let_def row(1) i varchar_def varcharNull_def split: option.splits)
  have first: "serveOn (postgresStore pg) env now HandleCreateTenant r srv = (Reply 500 (ErrorBody (DatabaseError ''22001'')), srv\<lparr>srv_store := db1\<rparr>)"
    unfolding create_handled [OF assms(4,3,6)] c x
    by (simp add: orStore_def pgUpdateTenant_def pg_exec_cases upd errStatus_def Let_def writeError_def)
  have "pgGetTenant (CtID req) db1 = Inr (readTenant row)" using f by (simp add: pgGetTenant_def)
  moreover have "Status (readTenant row) = TenantPending" "SharedSchemaRef (readTenant row) = []" using id row(6) by (simp_all add: readTenant_def)
  moreover have "\<exists>e. fst (serveOn (postgresStore pg) env now' HandleCreateTenant r (srv\<lparr>srv_store := db1\<rparr>)) = Reply 400 (ErrorBody e)"
  proof -
    have "\<exists>code. insertTenant pg now' (newTenant now' req) db1 = Inl code"
      using insertTenant_row [of pg now' "newTenant now' req" db1] row(2) id(1) by (cases "insertTenant pg now' (newTenant now' req) db1") (auto simp: i row(1))
    then obtain code where "pgCreateTenant pg now' (newTenant now' req) db1 = (Inl (CreateTenantFailed (DatabaseError code)), db1)"
      by (auto simp: pgCreateTenant_def pg_exec_cases)
    then show ?thesis unfolding create_handled [OF assms(4,3,6)] by (simp add: orStore_def writeError_def)
  qed
  ultimately show ?thesis using first by auto
qed

definition longRef :: str where "longRef = replicate 129 (0x61 :: cu)"

definition longRefBody :: json where
  "longRefBody = JObj [(js ''id'', JStr (js ''acme'')), (js ''schema_mode'', JStr (js ''shared'')), (js ''shared_schema_ref'', JStr longRef)]"

theorem create_not_atomic_witness:
  "\<exists>srv'. serveOn (postgresStore standardPg) sampleEnv 2000 HandleCreateTenant ((getRequest [])\<lparr>gr_body := Some longRefBody\<rparr>) pgSuper =
     (Reply 500 (ErrorBody (DatabaseError ''22001'')), srv') \<and> statusIn (postgresStore standardPg) (srv_store srv') (js ''acme'') = Some TenantPending"
proof -
  let ?req = "\<lparr>CtID = js ''acme'', CtDisplayName = [], CtSchemaMode = js ''shared'', CtParentTenantID = [], CtSharedSchemaRef = longRef\<rparr>"
  let ?r = "(getRequest [])\<lparr>gr_body := Some longRefBody\<rparr>"
  have d: "readJSON ?r decodeCreateTenant = Inr ?req" "createOrder ?req" "CtSharedSchemaRef ?req \<noteq> []" by code_simp+
  have n: "statusIn (postgresStore standardPg) (srv_store pgSuper) (CtID ?req) = None" by code_simp
  have "pg_varchar standardPg 128 (CtSharedSchemaRef ?req) = None" by (simp add: standardPg_def longRef_def)
  from create_not_atomic [OF std.postgres_axioms pgSuper_run d(1,2) n d(3) this, of 2000 2001] show ?thesis
    by (auto simp: statusIn_def)
qed

section \<open>Starting\<close>

lemma parseInt_range:
  assumes "parseInt (Suc w) s = Some n"
  shows "- (2 ^ w) \<le> n \<and> n < 2 ^ w"
proof -
  obtain ds where ds: "n = (if startsWith s [0x2D] then - int (digitsVal ds) else int (digitsVal ds))"
    "if startsWith s [0x2D] then digitsVal ds \<le> 2 ^ w else digitsVal ds < 2 ^ w"
    using assms by (auto simp: parseInt_def Let_def split: if_splits)
  then have "int (digitsVal ds) \<le> 2 ^ w" "\<not> startsWith s [0x2D] \<Longrightarrow> int (digitsVal ds) < 2 ^ w"
    by (auto simp flip: of_nat_power [where 'a = int] split: if_splits)
  moreover have "- (2 ^ w) \<le> int (digitsVal ds)" "- int (digitsVal ds) < 2 ^ w" "- (2 ^ w) \<le> - int (digitsVal ds)"
    using calculation(1) of_nat_0_le_iff [of "digitsVal ds", where 'a = int] zero_less_power [of "2 :: int" w] by linarith+
  ultimately show ?thesis using ds(1) by (cases "startsWith s [0x2D]") auto
qed

lemma config_conns:
  assumes "readConfig getenv = Inr cfg"
  shows "cfg_addr cfg \<noteq> [] \<and> cfg_dsn cfg = getenv ''DATABASE_URL'' \<and> cfg_dsn cfg \<noteq> [] \<and> 0 < sint (cfg_maxConns cfg) \<and>
    (getenv ''ZANGUARD_DB_MAX_CONNS'' \<noteq> [] \<longrightarrow> parseInt 32 (getenv ''ZANGUARD_DB_MAX_CONNS'') = Some (sint (cfg_maxConns cfg)))"
proof -
  have s: "sint (word_of_int n :: 32 word) = n" if "parseInt 32 x = Some n" for n x
    using parseInt_range [of 31 x n] that by (simp add: sint_sbintrunc' signed_take_bit_int_eq_self)
  have a: "js '':1997'' \<noteq> []" by (simp add: js_def)
  show ?thesis
    using assms a by (auto simp: readConfig_def Let_def s split: if_splits option.splits)
qed

lemma main_started:
  assumes "postgres pg" "pgInv pg db" "readConfig getenv = Inr cfg" "opens (cfg_dsn cfg) (cfg_maxConns cfg)"
  shows "\<exists>db'. ensureBootstrapTenantOn (postgresStore pg) now db = (Inr (), db') \<and>
    statusIn (postgresStore pg) db' bootstrapTenantID = Some TenantActive \<and>
    serverMain pg getenv opens now db = (Inr (cfg_addr cfg, NewServer db' (NewEngine DefaultMaxCheckDepth)), db')"
proof -
  obtain db' where "ensureBootstrapTenantOn (postgresStore pg) now db = (Inr (), db')"
    "statusIn (postgresStore pg) db' bootstrapTenantID = Some TenantActive"
    using postgres.pg_bootstrap_lives [OF assms(1,2)] by blast
  then show ?thesis using assms(3,4) by (simp add: serverMain_def)
qed

text \<open>
  Claim C26. The process starts: on every database that the server has left, however it was used before, with a data source, a number of connections that is
  not there or a positive 32-bit integer, and a driver that opens the pool, \<^verbatim>\<open>main\<close> gets to listen on the configured
  address; the number of connections it hands on is positive as a signed 32-bit number and is the one that was read, the bootstrap tenant is active, and
  no schema is loaded.
\<close>

theorem main_listens:
  fixes srv :: "('p, database) ServerOn"
  assumes "postgres pg" "serverRunOn (postgresStore pg) env emptyDatabase srv" "readConfig getenv = Inr cfg" "opens (cfg_dsn cfg) (cfg_maxConns cfg)"
  shows "\<exists>srv'. serverMain pg getenv opens now (srv_store srv) = (Inr (cfg_addr cfg, srv'), srv_store srv') \<and>
    serverRunOn (postgresStore pg) env emptyDatabase srv' \<and> statusIn (postgresStore pg) (srv_store srv') bootstrapTenantID = Some TenantActive \<and>
    eng_schemas (srv_eng srv') = Map.empty \<and> 0 < sint (cfg_maxConns cfg) \<and>
    (getenv ''ZANGUARD_DB_MAX_CONNS'' \<noteq> [] \<longrightarrow> parseInt 32 (getenv ''ZANGUARD_DB_MAX_CONNS'') = Some (sint (cfg_maxConns cfg)))"
proof -
  have "pgInv pg (srv_store srv)" using postgres.pg_run_inv [OF assms(1,2) pgInv_empty] .
  then obtain db where db: "ensureBootstrapTenantOn (postgresStore pg) now (srv_store srv) = (Inr (), db)"
    "statusIn (postgresStore pg) db bootstrapTenantID = Some TenantActive"
    "serverMain pg getenv opens now (srv_store srv) = (Inr (cfg_addr cfg, NewServer db (NewEngine DefaultMaxCheckDepth) :: ('p, database) ServerOn), db)"
    using main_started [where opens = opens, OF assms(1) _ assms(3,4)] by blast
  have "serverRunOn (postgresStore pg) env emptyDatabase (NewServer db (NewEngine DefaultMaxCheckDepth))"
    by (rule serverRunOn.step [OF assms(2) processStep.restart [OF db(1)]])
  then show ?thesis
    using db(2,3) config_conns [OF assms(3)]
    by (intro exI [of _ "NewServer db (NewEngine DefaultMaxCheckDepth)"] conjI) (simp_all add: NewServer_def NewEngine_def)
qed

definition sampleGetenv :: "string \<Rightarrow> str" where
  "sampleGetenv k = (if k = ''DATABASE_URL'' then js ''postgres://db/zanguard'' else if k = ''ZANGUARD_DB_MAX_CONNS'' then js ''25'' else [])"

lemma sampleConfig_read: "readConfig sampleGetenv = Inr \<lparr>cfg_addr = js '':1997'', cfg_dsn = js ''postgres://db/zanguard'', cfg_maxConns = 25\<rparr>"
proof -
  have "parseInt 32 (js ''25'') = Some 25" by (simp add: parseInt_def digitsVal_def js_def startsWith_def isDigit_def Let_def)
  then show ?thesis by (simp add: readConfig_def sampleGetenv_def js_def)
qed

theorem main_listens_witness:
  "\<exists>srv'. serverMain standardPg sampleGetenv (\<lambda>_ _. True) 8000 (srv_store pgAcmeGone) = (Inr (js '':1997'', srv' :: (unit, database) ServerOn), srv_store srv')"
  using main_listens [OF std.postgres_axioms pgAcme_run(2) sampleConfig_read, of "\<lambda>_ _. True" 8000] by auto

text \<open>Only loading a schema changes the engine.\<close>

lemma orStore_keeps:
  assumes "srv_eng srv = e" "\<And>x v. srv_eng v = e \<Longrightarrow> srv_eng (snd (f x v)) = e"
  shows "srv_eng (snd (orStore status srv p f)) = e"
  using assms by (auto simp: orStore_def split: prod.splits sum.splits)

lemma orFail_keeps:
  assumes "srv_eng srv = e" "\<And>x. srv_eng (snd (f x)) = e"
  shows "srv_eng (snd (orFail status srv r f)) = e"
  using assms by (auto simp: orFail_def split: sum.splits)

lemma engine_kept: "h \<noteq> HandleLoadSchema \<Longrightarrow> srv_eng (snd (serveOn ops env now h r srv)) = srv_eng srv"
  by (cases h)
     (auto simp: serveOn_def handleCreateTenantOn_def handleDeleteTenantOn_def handleActivateTenantOn_def handleSuspendTenantOn_def
       handleWriteTupleOn_def handleWriteTuplesOn_def handleDeleteTupleOn_def setAttributesOn_def Let_def intro!: orStore_keeps orFail_keeps)

lemma engine_kept_all: "\<forall>(now, h, r) \<in> set reqs. h \<noteq> HandleLoadSchema \<Longrightarrow> srv_eng (serveAllOn ops env reqs srv) = srv_eng srv"
  unfolding serveAllOn_def by (induction reqs arbitrary: srv) (auto simp: engine_kept)

text \<open>
  Claim C27. A new process has forgotten the schemas: they are kept in memory only, so after a start, on whatever database, no evaluation is positive
  for any tenant until a schema has been loaded again, whatever other requests are served.
\<close>

theorem restart_forgets_schemas:
  assumes "serverMain pg getenv opens now db = (Inr (addr, srv), db')" "\<forall>(now, h, r) \<in> set reqs. h \<noteq> HandleLoadSchema"
  shows "handleEvaluationOn (postgresStore pg) env now' r (serveAllOn (postgresStore pg) env reqs srv) \<noteq> Reply 200 (DecisionBody True)"
proof -
  have "srv_eng srv = NewEngine DefaultMaxCheckDepth"
    using assms(1) by (auto simp: serverMain_def NewServer_def split: sum.splits if_splits prod.splits)
  then have e: "srv_eng (serveAllOn (postgresStore pg) env reqs srv) = NewEngine DefaultMaxCheckDepth" using engine_kept_all [OF assms(2), of "postgresStore pg" env srv] by (rule trans [rotated])
  have "\<not> checkDecisionOn (postgresStore pg) env now' ctx (serveAllOn (postgresStore pg) env reqs srv) req" for ctx req
    by (auto simp: checkDecisionOn_def e Check_def schemaForTenant_def NewEngine_def Let_def split: option.splits)
  then show ?thesis by (auto simp: handleEvaluationOn_def orElse_def writeError_def split: sum.splits)
qed

theorem restart_forgets_schemas_witness:
  "\<exists>srv :: (unit, database) ServerOn. serverMain standardPg sampleGetenv (\<lambda>_ _. True) 8000 (srv_store pgAcme) = (Inr (js '':1997'', srv), srv_store srv) \<and>
     handleEvaluationOn (postgresStore standardPg) sampleEnv 9000 ((getRequest [])\<lparr>gr_tenantHeader := js ''acme''\<rparr>)
       (serveAllOn (postgresStore standardPg) sampleEnv [(8500, HandleActivateTenant, getRequest [js ''acme''])] srv) \<noteq> Reply 200 (DecisionBody True)"
proof -
  obtain db' where m: "serverMain standardPg sampleGetenv (\<lambda>_ _. True) 8000 (srv_store pgAcme) =
      (Inr (js '':1997'', NewServer db' (NewEngine DefaultMaxCheckDepth) :: (unit, database) ServerOn), db')"
    using main_started [OF std.postgres_axioms postgres.pg_run_inv [OF std.postgres_axioms pgAcme_run(1) pgInv_empty] sampleConfig_read, of "\<lambda>_ _. True" 8000] by auto
  have "\<forall>(now, h, r) \<in> set [(8500 :: int, HandleActivateTenant, getRequest [js ''acme''])]. h \<noteq> HandleLoadSchema" by simp
  from restart_forgets_schemas [OF m this] m show ?thesis
    by (intro exI [of _ "NewServer db' (NewEngine DefaultMaxCheckDepth)"]) (simp add: NewServer_def)
qed

section \<open>Evaluations on both stores\<close>

lemma Check_context:
  assumes "CtxTenantID tc' = CtxTenantID tc" "Status (CtxTenant tc') = Status (CtxTenant tc)" "SchemaMode (CtxTenant tc') = SchemaMode (CtxTenant tc)"
    "SharedSchemaRef (CtxTenant tc') = SharedSchemaRef (CtxTenant tc)"
  shows "Check xl e lk (Some tc') req = Check xl e lk (Some tc) req"
  unfolding Check_def TenantFromContext_def IsReadable_def schemaForTenant_def option.case assms by (rule refl)

lemma alike_active:
  assumes "alike pg tid s db" "pgGetTenant tid db = Inr t"
  shows "Status t = TenantActive"
proof -
  have "ensureTenantWritable tid db = Inr ()" using assms(1) by (simp add: alike_def)
  then show ?thesis
    using assms(2) by (auto simp: ensureTenantWritable_def pgTenantStatus_def pgGetTenant_def readTenant_def bindE_Inr split: option.splits if_splits)
qed

text \<open>
  Claim C13. An evaluation does not depend on the store behind the server: two servers with the same engine, one on the memory store and one on
  PostgreSQL, whose stores are alike for the tenant and know it with the same status and schema mode, give the same decision to every evaluation of a
  permission of its schema, both with status 200.
\<close>

theorem same_evaluation_on_both:
  assumes "postgres pg" "alike pg tid (srv_store m) (srv_store p)" "srv_eng p = srv_eng m" "gr_tenantHeader r = tid" "tid \<noteq> []"
    "GetTenant tid (srv_store m) = Inr t" "pgGetTenant tid (srv_store p) = Inr t'" "Status t' = Status t \<and> SchemaMode t' = SchemaMode t" "SharedSchemaRef t' = SharedSchemaRef t"
    "schemaForTenant (srv_eng m) \<lparr>CtxTenantID = tid, CtxTenant = t, CtxConfig = MergeConfig t None\<rparr> = Inr cs" "unionSchema cs"
    "plainTuples (liveTuples now (srv_store m) tid)" "readJSON r decodeEvaluation = Inr q" "plainNode (checkNode (checkRequestOf q))"
    "GetPermission cs (AzType (AeResource q)) (AaName (AeAction q)) = Inr pd" "PermCondition pd = None"
    "card (reachNodes (tenantLookups now tid (srv_store m)) cs (checkNode (checkRequestOf q))) \<le> Suc (MaxCheckDepth (srv_eng m))"
  shows "\<exists>d. handleEvaluationOn memoryStore env now r m = Reply 200 (DecisionBody d) \<and>
    handleEvaluationOn (postgresStore pg) env now r p = Reply 200 (DecisionBody d)"
proof -
  let ?c = "\<lparr>CtxTenantID = tid, CtxTenant = t, CtxConfig = MergeConfig t None\<rparr>"
  let ?c' = "\<lparr>CtxTenantID = tid, CtxTenant = t', CtxConfig = MergeConfig t' None\<rparr>"
  have act: "Status t' = TenantActive" "Status t = TenantActive" using alike_active [OF assms(2,7)] assms(8) by auto
  have rd: "ensureTenantReadable tid (srv_store p) = Inr ()" using assms(2) writable_is_readable by (auto simp: alike_def)
  have f: "forTenant (Some ?c) tid" "forTenant (Some ?c') tid" by (simp_all add: forTenant_def)
  have "engineServes (srv_eng m) (Some ?c) cs" using assms(10) act by (simp add: engineServes_def IsReadable_def)
  moreover have "GetPermission cs (ReqObjectType (checkRequestOf q)) (ReqPermission (checkRequestOf q)) = Inr pd"
    using assms(15) by (simp add: checkRequestOf_def)
  ultimately obtain x x' where x: "Check (env_expr env) (srv_eng m) (memoryLookups now (Some ?c) (srv_store m)) (Some ?c) (checkRequestOf q) = Inr x"
    "Check (env_expr env) (srv_eng m) (pgLookups pg now (Some ?c) (srv_store p)) (Some ?c) (checkRequestOf q) = Inr x'" "Allowed x' = Allowed x"
    using same_check_on_both [OF assms(1,2) f(1) _ assms(11,12,14) _ assms(16,17)] by blast
  have "Check (env_expr env) (srv_eng m) (pgLookups pg now (Some ?c') (srv_store p)) (Some ?c') (checkRequestOf q) = Inr x'"
    unfolding x(2) [symmetric] pgLookups_tenant [OF f(1) rd] pgLookups_tenant [OF f(2) rd]
    by (rule Check_context) (simp_all add: act assms(8,9))
  then have "checkDecisionOn (postgresStore pg) env now (Some ?c') p (checkRequestOf q) = Allowed x"
    by (simp add: checkDecisionOn_def assms(3) x(3))
  moreover have "checkDecisionOn memoryStore env now (Some ?c) m (checkRequestOf q) = Allowed x" by (simp add: checkDecisionOn_def x(1))
  ultimately show ?thesis
    using assms(4-7,13)
    by (simp add: handleEvaluationOn_def orElse_def tenantCtxFromHeaderOn_def BuildContextOn_def WithTenantContext_def)
qed

text \<open>The example: the tuple that lets alice view a document, written to both stores.\<close>

definition aliceRequest :: goRequest where
  "aliceRequest = (getRequest [])\<lparr>gr_tenantHeader := js ''acme'', gr_body := Some (JObj
     [(js ''subject'', tupleBody [(''type'', ''user''), (''id'', ''alice'')]), (js ''resource'', tupleBody [(''type'', ''document''), (''id'', ''d1'')]),
      (js ''action'', tupleBody [(''name'', ''view'')]), (js ''context'', JObj [])])\<rparr>"

theorem same_evaluation_on_both_witness:
  "\<exists>s d. handleEvaluationOn memoryStore sampleEnv 6000 aliceRequest (NewServer s documentEngine) = Reply 200 (DecisionBody d) \<and>
     handleEvaluationOn (postgresStore standardPg) sampleEnv 6000 aliceRequest (NewServer aliceDatabase documentEngine) = Reply 200 (DecisionBody d)"
proof -
  let ?q = "\<lparr>AeSubject = \<lparr>AzType = js ''user'', AzID = js ''alice'', AzProperties = None\<rparr>, AeResource = \<lparr>AzType = js ''document'', AzID = js ''d1'',
    AzProperties = None\<rparr>, AeAction = \<lparr>AaName = js ''view'', AaProperties = None\<rparr>, AeContext = Some []\<rparr>"
  have q: "readJSON aliceRequest decodeEvaluation = Inr ?q" by code_simp
  have a: "checkRequestOf ?q = askFor ''document'' ''d1'' ''view'' ''alice''" by code_simp
  have p: "plainIdentity (tupleIdentity aliceViews)" "ExpiresAt aliceViews = None" by code_simp+
  obtain s where s: "runCall 5000 acmeContext (CallWrite [aliceViews]) acmeStore = Inr s" "alike standardPg (js ''acme'') s aliceDatabase"
    using alike_calls [OF std.postgres_axioms acmeDatabase_facts(1) acme_alike, of "[(5000, CallWrite [aliceViews])]" aliceDatabase]
      p alice_written(2) alice_fits by (auto split: sum.splits)
  note live = alike_live [OF s(2) acmeDatabase_facts(1), of 6000]
  have ten: "st_tenants s = st_tenants acmeStore" using runCall_ok [OF s(1) reachable_ok [OF acmeStore_reachable]] by (auto simp: callOk_def)
  have m: "GetTenant (js ''acme'') s = Inr acme" unfolding GetTenant_def ten by code_simp
  have d: "pgGetTenant (js ''acme'') aliceDatabase = pgGetTenant (js ''acme'') acmeDatabase" by (simp add: pgGetTenant_def aliceDatabase_facts)
  obtain t' where t': "pgGetTenant (js ''acme'') aliceDatabase = Inr t'" "Status t' = Status acme \<and> SchemaMode t' = SchemaMode acme" "SharedSchemaRef t' = SharedSchemaRef acme"
    unfolding d by (simp add: acmeDatabase_eq pgGetTenant_def emptyDatabase_def readTenant_def acme_def)
  have sch: "schemaForTenant documentEngine \<lparr>CtxTenantID = js ''acme'', CtxTenant = acme, CtxConfig = MergeConfig acme None\<rparr> = Inr documentSchema" by code_simp
  have pt: "plainTuples (liveTuples 6000 s (js ''acme''))" using plainTuples_same [OF live] alice_lookups(4) by blast
  have c: "card (reachNodes (tenantLookups 6000 (js ''acme'') s) documentSchema (checkNode (checkRequestOf ?q))) \<le> Suc (MaxCheckDepth documentEngine)"
    unfolding a using alice_lookups(6) reachNodes_same [OF mem.tuple_lookup_axioms std.look.tuple_lookup_axioms live] by metis
  have g: "GetPermission documentSchema (AzType (AeResource ?q)) (AaName (AeAction ?q)) = Inr documentPerm" using document_facts(2) by simp
  have h: "gr_tenantHeader aliceRequest = js ''acme''" "js ''acme'' \<noteq> []" by code_simp+
  have n: "srv_store (NewServer db e) = db" "srv_eng (NewServer db e) = e" for db :: 'x and e :: "unit Engine" by (simp_all add: NewServer_def)
  show ?thesis
    by (rule exI [of _ s])
       (rule same_evaluation_on_both [where pg = standardPg and tid = "js ''acme''" and t = acme and t' = t' and cs = documentSchema and q = ?q and pd = documentPerm];
        (simp only: n a)?; (rule std.postgres_axioms s(2) refl h m t' sch document_facts pt q alice_lookups(5) g c [unfolded a])?)
qed

end
