(* ===== verification/Docs_Site.thy ===== *)
theory Docs_Site
  imports Json_Value
begin

text \<open>
  The documentation site, \<^verbatim>\<open>docs-site\<close>: the two configuration files of Docusaurus, \<^verbatim>\<open>sidebars.js\<close> and
  \<^verbatim>\<open>docusaurus.config.js\<close>, as the objects they export, and the documents below \<^verbatim>\<open>docs\<close> with the address a document asks for in its
  front matter. What Docusaurus makes of them is as documented: a sidebar is a list of documents and categories, an entry that
  is a text is the identifier of a document, and a document is served at its identifier below \<^verbatim>\<open>routeBasePath\<close> unless it has a
  \<^verbatim>\<open>slug\<close>. The highlighting themes come from a package and the year from the clock; they are arguments. The other components of the site
  are the package's own.
\<close>

section \<open>The exported objects\<close>

abbreviation jstr :: "string \<Rightarrow> json" where "jstr s \<equiv> JStr (js s)"

definition sidebars :: json where
  "sidebars = JObj [(js ''docs'', JArr
       [JObj [(js ''type'', jstr ''doc''), (js ''id'', jstr ''intro''), (js ''label'', jstr ''Introduction'')],
        JObj [(js ''type'', jstr ''doc''), (js ''id'', jstr ''getting-started''), (js ''label'', jstr ''Getting Started'')],
        JObj [(js ''type'', jstr ''category''), (js ''label'', jstr ''Core Concepts''), (js ''collapsed'', JBool False),
          (js ''items'', JArr (map jstr [''core-concepts/relation-tuples'', ''core-concepts/permissions'', ''core-concepts/abac-conditions'']))],
        JObj [(js ''type'', jstr ''category''), (js ''label'', jstr ''Schema DSL''), (js ''collapsed'', JBool False),
          (js ''items'', JArr (map jstr [''schema/overview'', ''schema/types-and-relations'', ''schema/permissions'', ''schema/conditions'']))],
        JObj [(js ''type'', jstr ''category''), (js ''label'', jstr ''Engine''), (js ''collapsed'', JBool False),
          (js ''items'', JArr (map jstr [''engine/check'', ''engine/expand'', ''engine/cycle-detection'']))],
        JObj [(js ''type'', jstr ''category''), (js ''label'', jstr ''Storage''), (js ''collapsed'', JBool False),
          (js ''items'', JArr (map jstr [''storage/overview'', ''storage/postgresql'', ''storage/changelog'']))],
        JObj [(js ''type'', jstr ''category''), (js ''label'', jstr ''Multi-Tenancy''), (js ''collapsed'', JBool False),
          (js ''items'', JArr (map jstr [''multi-tenancy/overview'', ''multi-tenancy/lifecycle'', ''multi-tenancy/schema-modes'', ''multi-tenancy/context'']))],
        JObj [(js ''type'', jstr ''category''), (js ''label'', jstr ''Examples''), (js ''collapsed'', JBool False),
          (js ''items'', JArr (map jstr [''examples/google-drive'', ''examples/group-membership'', ''examples/abac-clearance'', ''examples/abac-manual-api'', ''examples/ai-agent-authorization'']))],
        JObj [(js ''type'', jstr ''category''), (js ''label'', jstr ''API Reference''), (js ''collapsed'', JBool False),
          (js ''items'', JArr (map jstr [''api/overview'', ''api/management'', ''api/authzen'']))]])]"

definition themeConfig :: "json \<Rightarrow> json \<Rightarrow> str \<Rightarrow> json" where
  "themeConfig github dracula year = JObj
     [(js ''navbar'', JObj [(js ''title'', jstr ''ZanGuard''), (js ''items'', JArr
        [JObj [(js ''type'', jstr ''docSidebar''), (js ''sidebarId'', jstr ''docs''), (js ''position'', jstr ''left''), (js ''label'', jstr ''Docs'')],
         JObj [(js ''href'', jstr ''https://github.com/zanguard/zanguard''), (js ''label'', jstr ''GitHub''), (js ''position'', jstr ''right'')]])]),
      (js ''footer'', JObj [(js ''style'', jstr ''dark''), (js ''links'', JArr
        [JObj [(js ''title'', jstr ''Docs''), (js ''items'', JArr
          [JObj [(js ''label'', jstr ''Introduction''), (js ''to'', jstr ''/'')],
           JObj [(js ''label'', jstr ''Getting Started''), (js ''to'', jstr ''/getting-started'')],
           JObj [(js ''label'', jstr ''Core Concepts''), (js ''to'', jstr ''/core-concepts/relation-tuples'')]])],
         JObj [(js ''title'', jstr ''Reference''), (js ''items'', JArr
          [JObj [(js ''label'', jstr ''Schema DSL''), (js ''to'', jstr ''/schema/overview'')],
           JObj [(js ''label'', jstr ''Engine''), (js ''to'', jstr ''/engine/check'')],
           JObj [(js ''label'', jstr ''Storage''), (js ''to'', jstr ''/storage/overview'')],
           JObj [(js ''label'', jstr ''Multi-Tenancy''), (js ''to'', jstr ''/multi-tenancy/overview'')]])]]),
        (js ''copyright'', JStr (js ''Copyright '' @ [0xA9] @ js '' '' @ year @ js '' ZanGuard. Built with Docusaurus.''))]),
      (js ''prism'', JObj [(js ''theme'', github), (js ''darkTheme'', dracula), (js ''additionalLanguages'', JArr (map jstr [''go'', ''yaml'', ''bash'', ''sql'']))]),
      (js ''colorMode'', JObj [(js ''defaultMode'', jstr ''light''), (js ''disableSwitch'', JBool False), (js ''respectPrefersColorScheme'', JBool True)])]"

definition siteConfig :: "json \<Rightarrow> json \<Rightarrow> str \<Rightarrow> json" where
  "siteConfig github dracula year = JObj
     [(js ''title'', jstr ''ZanGuard''), (js ''tagline'', jstr ''Zanzibar-inspired fine-grained authorization engine for Go''),
      (js ''favicon'', jstr ''img/favicon.ico''), (js ''url'', jstr ''https://zanguard.dev''), (js ''baseUrl'', jstr ''/''),
      (js ''organizationName'', jstr ''zanguard''), (js ''projectName'', jstr ''zanguard''),
      (js ''onBrokenLinks'', jstr ''throw''), (js ''onBrokenMarkdownLinks'', jstr ''warn''),
      (js ''i18n'', JObj [(js ''defaultLocale'', jstr ''en''), (js ''locales'', JArr [jstr ''en''])]),
      (js ''presets'', JArr [JArr [jstr ''classic'', JObj
        [(js ''docs'', JObj [(js ''sidebarPath'', jstr ''./sidebars.js''), (js ''routeBasePath'', jstr ''/'')]), (js ''blog'', JBool False),
         (js ''theme'', JObj [(js ''customCss'', jstr ''./src/css/custom.css'')])]]]),
      (js ''themeConfig'', themeConfig github dracula year)]"

text \<open>The documents: the identifier with its directory, and the slug of the front matter.\<close>

definition docList :: "(string \<times> string option) list" where
  "docList =
     [(''api/authzen'', None), (''api/management'', None), (''api/overview'', None), (''core-concepts/abac-conditions'', None),
      (''core-concepts/permissions'', None), (''core-concepts/relation-tuples'', None), (''engine/check'', None), (''engine/cycle-detection'', None),
      (''engine/expand'', None), (''examples/abac-clearance'', None), (''examples/abac-manual-api'', None), (''examples/ai-agent-authorization'', None),
      (''examples/google-drive'', None), (''examples/group-membership'', None), (''getting-started'', None), (''intro'', Some ''/''),
      (''multi-tenancy/context'', None), (''multi-tenancy/lifecycle'', None), (''multi-tenancy/overview'', None), (''multi-tenancy/schema-modes'', None),
      (''schema/conditions'', None), (''schema/overview'', None), (''schema/permissions'', None), (''schema/types-and-relations'', None),
      (''storage/changelog'', None), (''storage/overview'', None), (''storage/postgresql'', None)]"

definition documents :: "(str \<times> str option) list" where
  "documents = map (map_prod js (map_option js)) docList"

section \<open>How they are read\<close>

definition getProp :: "string \<Rightarrow> json \<Rightarrow> json" where
  "getProp k v = (case v of JObj kvs \<Rightarrow> (case map_of kvs (js k) of Some x \<Rightarrow> x | None \<Rightarrow> JNull) | _ \<Rightarrow> JNull)"

definition elems :: "json \<Rightarrow> json list" where
  "elems v = (case v of JArr xs \<Rightarrow> xs | _ \<Rightarrow> [])"

definition textIn :: "json \<Rightarrow> str list" where
  "textIn v = (case v of JStr s \<Rightarrow> [s] | _ \<Rightarrow> [])"

text \<open>The documents a sidebar lists; a category has entries of its own.\<close>

fun entryDocs :: "json \<Rightarrow> str list" where
  "entryDocs (JStr s) = [s]"
| "entryDocs (JObj kvs) =
     (if map_of kvs (js ''type'') = Some (jstr ''doc'') then textIn (getProp ''id'' (JObj kvs))
      else concat (map textIn (elems (getProp ''items'' (JObj kvs)))))"
| "entryDocs v = []"

definition sidebarDocs :: "string \<Rightarrow> json \<Rightarrow> str list" where
  "sidebarDocs name v = concat (map entryDocs (elems (getProp name v)))"

definition routeOf :: "str \<Rightarrow> str \<times> str option \<Rightarrow> str" where
  "routeOf base d = (case snd d of Some slug \<Rightarrow> slug | None \<Rightarrow> base @ fst d)"

definition docsRoute :: "json \<Rightarrow> str list" where
  "docsRoute cfg = concat (map (\<lambda>p. concat (map (\<lambda>x. textIn (getProp ''routeBasePath'' (getProp ''docs'' x))) (elems p))) (elems (getProp ''presets'' cfg)))"

definition footerLinks :: "json \<Rightarrow> str list" where
  "footerLinks cfg = concat (map (\<lambda>c. concat (map (\<lambda>i. textIn (getProp ''to'' i)) (elems (getProp ''items'' c))))
     (elems (getProp ''links'' (getProp ''footer'' (getProp ''themeConfig'' cfg)))))"

definition navbarSidebars :: "json \<Rightarrow> str list" where
  "navbarSidebars cfg = concat (map (\<lambda>i. textIn (getProp ''sidebarId'' i)) (elems (getProp ''items'' (getProp ''navbar'' (getProp ''themeConfig'' cfg)))))"

section \<open>The site is complete\<close>

lemma sidebar_listed:
  "sidebarDocs ''docs'' sidebars = map js
     [''intro'', ''getting-started'', ''core-concepts/relation-tuples'', ''core-concepts/permissions'', ''core-concepts/abac-conditions'',
      ''schema/overview'', ''schema/types-and-relations'', ''schema/permissions'', ''schema/conditions'', ''engine/check'',
      ''engine/expand'', ''engine/cycle-detection'', ''storage/overview'', ''storage/postgresql'', ''storage/changelog'',
      ''multi-tenancy/overview'', ''multi-tenancy/lifecycle'', ''multi-tenancy/schema-modes'', ''multi-tenancy/context'', ''examples/google-drive'',
      ''examples/group-membership'', ''examples/abac-clearance'', ''examples/abac-manual-api'', ''examples/ai-agent-authorization'', ''api/overview'',
      ''api/management'', ''api/authzen'']"
  by (simp add: sidebarDocs_def sidebars_def getProp_def elems_def textIn_def js_inj)

lemma links_listed:
  "footerLinks (siteConfig github dracula year) = map js [''/'', ''/getting-started'', ''/core-concepts/relation-tuples'', ''/schema/overview'', ''/engine/check'',
     ''/storage/overview'', ''/multi-tenancy/overview'']"
  "docsRoute (siteConfig github dracula year) = [js ''/'']" "navbarSidebars (siteConfig github dracula year) = [js ''docs'']"
  by (simp_all add: footerLinks_def docsRoute_def navbarSidebars_def siteConfig_def themeConfig_def getProp_def elems_def textIn_def js_inj)

definition routeText :: "string \<times> string option \<Rightarrow> string" where
  "routeText d = (case snd d of Some x \<Rightarrow> x | None \<Rightarrow> ''/'' @ fst d)"

lemma routes_listed: "map (routeOf (js ''/'')) documents = map js (map routeText docList)"
  by (auto simp: documents_def routeOf_def routeText_def js_def split: option.splits)

lemma distinct_js: "distinct (map js xs) \<longleftrightarrow> distinct xs"
  by (simp add: distinct_map inj_on_def js_inj)

text \<open>
  The site is complete and has no dead end: the documents are served below one base, every document stands in the sidebar exactly once and
  the sidebar lists nothing else, no two documents have the same address, the sidebar that the navigation bar opens is the one there
  is, and every link of the footer leads to a document, so that the build, which is set to fail on a broken link, does not fail on these.
\<close>

theorem site_complete:
  "docsRoute (siteConfig github dracula year) = [js ''/''] \<and> navbarSidebars (siteConfig github dracula year) = [js ''docs''] \<and>
   distinct (sidebarDocs ''docs'' sidebars) \<and> set (sidebarDocs ''docs'' sidebars) = fst ` set documents \<and>
   distinct (map (routeOf (js ''/'')) documents) \<and> footerLinks (siteConfig github dracula year) \<noteq> [] \<and>
   set (footerLinks (siteConfig github dracula year)) \<subseteq> routeOf (js ''/'') ` set documents"
proof -
  have e: "fst ` set documents = js ` (fst ` set docList)" by (simp add: documents_def image_image)
  have f: "routeOf (js ''/'') ` set documents = js ` set (map routeText docList)" using arg_cong [OF routes_listed, of set] by (simp only: set_map)
  have "distinct (sidebarDocs ''docs'' sidebars)" unfolding sidebar_listed distinct_js by code_simp
  moreover have "set (sidebarDocs ''docs'' sidebars) = fst ` set documents"
    unfolding sidebar_listed set_map e
    by (rule arg_cong [of _ _ "image js"]) code_simp
  moreover have "distinct (map (routeOf (js ''/'')) documents)" unfolding routes_listed distinct_js by code_simp
  moreover have "set (footerLinks (siteConfig github dracula year)) \<subseteq> routeOf (js ''/'') ` set documents"
    unfolding links_listed f set_map by (rule image_mono) code_simp
  ultimately show ?thesis by (simp add: links_listed)
qed

end
